(* ===== verification/Prelude.thy ===== *)
theory Prelude
  imports Main "HOL-Library.Sublist"
begin

text \<open>
  The shared base of the development: the Go values every component uses (byte strings with
  their standard-library helpers, 64 bit integers with their wrap-around, instants and
  durations, error chains), the state and error passing in which the request handlers are
  written, and the collections of rules their proofs share.
\<close>

named_theorems handler_simps \<open>unfolding rules of the handler combinators\<close>
named_theorems bound_defs \<open>the numeric limits of the services\<close>

section \<open>Machine integers\<close>

text \<open>
  Go integers are kept as \<^typ>\<open>int\<close>; an addition whose result is stored is wrapped to the
  width of its type. \<open>i64\<close> and \<open>i32\<close> are two's complement, \<open>u64\<close> is unsigned.
\<close>

definition i64 :: "int \<Rightarrow> int" where
  "i64 n = (n + 2 ^ 63) mod 2 ^ 64 - 2 ^ 63"

definition i32 :: "int \<Rightarrow> int" where
  "i32 n = (n + 2 ^ 31) mod 2 ^ 32 - 2 ^ 31"

definition u64 :: "int \<Rightarrow> int" where
  "u64 n = n mod 2 ^ 64"

lemma i64_id: "- (2 ^ 63) \<le> n \<Longrightarrow> n < 2 ^ 63 \<Longrightarrow> i64 n = n"
  by (simp add: i64_def)

lemma i32_id: "- (2 ^ 31) \<le> n \<Longrightarrow> n < 2 ^ 31 \<Longrightarrow> i32 n = n"
  by (simp add: i32_def)

lemma u64_id: "0 \<le> n \<Longrightarrow> n < 2 ^ 64 \<Longrightarrow> u64 n = n"
  by (simp add: u64_def)

lemma u64_bounds [simp]: "0 \<le> u64 n" "u64 n < 2 ^ 64"
  by (simp_all add: u64_def)

section \<open>Time\<close>

text \<open>
  A \<open>time.Time\<close> is the number of nanoseconds since the Unix epoch, a \<open>time.Duration\<close> a number
  of nanoseconds. \<open>Unix\<close> is the enclosing second, as in Go (rounded down).
\<close>

type_synonym time = int
type_synonym duration = int

definition Second :: duration where "Second = 1000000000"
definition Minute :: duration where "Minute = 60 * Second"

definition Unix :: "time \<Rightarrow> int" where "Unix t = t div Second"
definition UnixMilli :: "time \<Rightarrow> int" where "UnixMilli t = t div 1000000"
definition Add :: "time \<Rightarrow> duration \<Rightarrow> time" where "Add t d = t + d"

lemma Unix_mono: "a \<le> b \<Longrightarrow> Unix a \<le> Unix b"
  by (simp add: Unix_def Second_def zdiv_mono1)

lemma Unix_Add_nonneg: "0 \<le> d \<Longrightarrow> Unix t \<le> Unix (Add t d)"
  by (simp add: Add_def Unix_mono)

section \<open>Byte strings\<close>

text \<open>
  A Go string is a sequence of bytes, so \<^typ>\<open>string\<close> (lists of 8 bit characters) holds it and
  \<open>length\<close> is Go's \<open>len\<close>. \<open>TrimSpace\<close> removes the UTF-8 encodings of the code points
  \<open>unicode.IsSpace\<close> accepts from both ends.
\<close>

definition bytes :: "nat list \<Rightarrow> string" where
  "bytes ns = map char_of ns"

definition space_codes :: "string list" where
  "space_codes = map bytes
     ([[9], [10], [11], [12], [13], [32], [194, 133], [194, 160], [225, 154, 128]] @
      map (\<lambda>n. [226, 128, n]) [128 ..< 139] @
      [[226, 128, 168], [226, 128, 169], [226, 128, 175], [226, 129, 159], [227, 128, 128]])"

definition match_len :: "string list \<Rightarrow> string \<Rightarrow> nat" where
  "match_len ws s = (case find (\<lambda>w. take (length w) s = w) ws of None \<Rightarrow> 0 | Some w \<Rightarrow> length w)"

lemma match_len_le: "match_len ws s \<le> length s"
proof (cases "find (\<lambda>w. take (length w) s = w) ws")
  case (Some w)
  then have "take (length w) s = w" by (auto simp: find_Some_iff)
  then have "length w \<le> length s" by (metis length_take min.cobounded1)
  with Some show ?thesis by (simp add: match_len_def)
qed (simp add: match_len_def)

function trim_with :: "string list \<Rightarrow> string \<Rightarrow> string" where
  "trim_with ws s =
     (if match_len ws s = 0 then s else trim_with ws (drop (match_len ws s) s))"
  by pat_completeness auto
termination
proof (relation "measure (\<lambda>(ws, s). length s)")
  fix ws :: "string list" and s :: string
  assume "match_len ws s \<noteq> 0"
  then show "((ws, drop (match_len ws s) s), ws, s) \<in> measure (\<lambda>(ws, s). length s)"
    using match_len_le [of ws s] by simp
qed simp

declare trim_with.simps [simp del]

definition TrimSpace :: "string \<Rightarrow> string" where
  "TrimSpace s = rev (trim_with (map rev space_codes) (rev (trim_with space_codes s)))"

definition blank :: "string \<Rightarrow> bool" where
  "blank s \<longleftrightarrow> TrimSpace s = []"

lemma trim_with_length: "length (trim_with ws s) \<le> length s"
proof (induction ws s rule: trim_with.induct)
  case (1 ws s)
  then show ?case
    by (subst trim_with.simps) (auto intro: order_trans)
qed

lemma TrimSpace_length: "length (TrimSpace s) \<le> length s"
  unfolding TrimSpace_def by (metis length_rev order_trans trim_with_length)

lemma trim_with_Nil [simp]: "trim_with ws [] = []"
  using trim_with_length [of ws "[]"] by simp

lemma TrimSpace_Nil [simp]: "TrimSpace [] = []"
  by (simp add: TrimSpace_def)

lemma blank_Nil [simp]: "blank []"
  by (simp add: blank_def)

text \<open>A string with a printable ASCII character in it is not blank.\<close>

definition printable :: "char \<Rightarrow> bool" where
  "printable c \<longleftrightarrow> 33 \<le> (of_char c :: nat) \<and> (of_char c :: nat) < 127"

lemma trim_with_keeps:
  "c \<in> set s \<Longrightarrow> \<forall>w \<in> set ws. c \<notin> set w \<Longrightarrow> c \<in> set (trim_with ws s)"
proof (induction ws s rule: trim_with.induct)
  case (1 ws s)
  have "c \<notin> set (take (match_len ws s) s)"
  proof (cases "find (\<lambda>w. take (length w) s = w) ws")
    case (Some w)
    then have "take (length w) s = w" "w \<in> set ws"
      by (auto simp: find_Some_iff)
    with "1.prems" Some show ?thesis by (simp add: match_len_def)
  qed (simp add: match_len_def)
  then have "c \<in> set (drop (match_len ws s) s)"
    using "1.prems" by (metis Un_iff append_take_drop_id set_append)
  with 1 show ?case by (subst trim_with.simps) simp
qed

lemma space_codes_not_printable: "\<forall>w \<in> set space_codes. \<forall>c \<in> set w. \<not> printable c"
  by code_simp

lemma not_blank:
  assumes "c \<in> set s" "printable c"
  shows "\<not> blank s"
proof -
  have w: "\<forall>w \<in> set space_codes. c \<notin> set w" using space_codes_not_printable assms(2) by auto
  then have "c \<in> set (trim_with space_codes s)" using assms(1) by (intro trim_with_keeps)
  with w have "c \<in> set (trim_with (map rev space_codes) (rev (trim_with space_codes s)))"
    by (intro trim_with_keeps) auto
  then show ?thesis by (auto simp: blank_def TrimSpace_def)
qed

lemma not_blank_hd [simp]: "printable c \<Longrightarrow> \<not> blank (c # s)"
  by (rule not_blank [of c]) simp_all

lemma printable_Char [simp]:
  "printable (Char b0 b1 b2 b3 b4 b5 b6 b7) \<longleftrightarrow>
     33 \<le> (of_char (Char b0 b1 b2 b3 b4 b5 b6 b7) :: nat) \<and> (of_char (Char b0 b1 b2 b3 b4 b5 b6 b7) :: nat) < 127"
  by (simp add: printable_def)

text \<open>A string that begins and ends with such characters is not trimmed.\<close>

lemma space_codes_nonempty: "[] \<notin> set space_codes"
  by code_simp

lemma match_len_printable:
  assumes "printable c" and "\<forall>w \<in> set ws. w \<noteq> [] \<and> (\<forall>d \<in> set w. \<not> printable d)"
  shows "match_len ws (c # s) = 0"
proof -
  have "take (length w) (c # s) \<noteq> w" if "w \<in> set ws" for w
    using assms that by (cases w) auto
  then have "find (\<lambda>w. take (length w) (c # s) = w) ws = None"
    by (auto simp: find_None_iff)
  then show ?thesis by (simp add: match_len_def)
qed

lemma TrimSpace_plain:
  assumes "s \<noteq> []" "printable (hd s)" "printable (last s)"
  shows "TrimSpace s = s"
proof -
  obtain c cs where c: "s = c # cs" using assms(1) by (cases s) auto
  obtain ds d where d: "s = ds @ [d]" using assms(1) by (cases s rule: rev_cases) auto
  have w: "\<forall>w \<in> set space_codes. w \<noteq> [] \<and> (\<forall>d \<in> set w. \<not> printable d)"
    using space_codes_nonempty space_codes_not_printable by auto
  then have "trim_with space_codes s = s"
    using assms(2) c by (subst trim_with.simps) (simp add: match_len_printable)
  moreover have "trim_with (map rev space_codes) (rev s) = rev s"
    using assms(3) d w by (subst trim_with.simps) (simp add: match_len_printable)
  ultimately show ?thesis by (simp add: TrimSpace_def)
qed

text \<open>Trimming twice is trimming once.\<close>

lemma match_len_0:
  assumes "[] \<notin> set ws"
  shows "match_len ws s = 0 \<longleftrightarrow> (\<forall>w \<in> set ws. take (length w) s \<noteq> w)"
proof (cases "find (\<lambda>w. take (length w) s = w) ws")
  case None
  then have "\<forall>w \<in> set ws. take (length w) s \<noteq> w" by (auto simp: find_None_iff)
  with None show ?thesis by (simp add: match_len_def)
next
  case (Some w)
  then have w: "w \<in> set ws" "take (length w) s = w" by (auto simp: find_Some_iff)
  with assms Some show ?thesis by (auto simp: match_len_def)
qed

lemma trim_with_stops: "match_len ws (trim_with ws s) = 0"
proof (induction ws s rule: trim_with.induct)
  case (1 ws s)
  then show ?case by (cases "match_len ws s = 0") (subst trim_with.simps, simp)+
qed

lemma trim_with_stopped: "match_len ws s = 0 \<Longrightarrow> trim_with ws s = s"
  by (subst trim_with.simps) simp

lemma trim_with_drop: "\<exists>n. trim_with ws s = drop n s"
proof (induction ws s rule: trim_with.induct)
  case (1 ws s)
  show ?case
  proof (cases "match_len ws s = 0")
    case True
    then have "trim_with ws s = drop 0 s" by (simp add: trim_with_stopped)
    then show ?thesis by blast
  next
    case False
    with 1 obtain n where "trim_with ws (drop (match_len ws s) s) = drop n (drop (match_len ws s) s)" by blast
    with False have "trim_with ws s = drop (n + match_len ws s) s" by (subst trim_with.simps) simp
    then show ?thesis by blast
  qed
qed

lemma TrimSpace_idem [simp]: "TrimSpace (TrimSpace s) = TrimSpace s"
proof -
  let ?t = "trim_with space_codes s" and ?R = "map rev space_codes"
  obtain n where n: "trim_with ?R (rev ?t) = drop n (rev ?t)" using trim_with_drop by blast
  have e: "TrimSpace s = take (length ?t - n) ?t" by (simp add: TrimSpace_def n rev_drop)
  have "match_len space_codes (TrimSpace s) = 0"
  proof -
    have "take (length w) (TrimSpace s) \<noteq> w" if w: "w \<in> set space_codes" for w
    proof
      assume a: "take (length w) (TrimSpace s) = w"
      then have "length w \<le> length (TrimSpace s)" by (metis length_take min.cobounded1)
      with e have "length w \<le> length ?t - n" by simp
      with a e have "take (length w) ?t = w" by (simp add: min_def)
      with w trim_with_stops [of space_codes s] space_codes_nonempty show False by (simp add: match_len_0)
    qed
    with space_codes_nonempty show ?thesis by (simp add: match_len_0)
  qed
  then have "trim_with space_codes (TrimSpace s) = TrimSpace s" by (rule trim_with_stopped)
  moreover have "rev (TrimSpace s) = trim_with ?R (rev ?t)" by (simp add: TrimSpace_def)
  then have "trim_with ?R (rev (TrimSpace s)) = rev (TrimSpace s)" by (metis trim_with_stopped trim_with_stops)
  ultimately show ?thesis by (subst TrimSpace_def) simp
qed

lemma blank_TrimSpace [simp]: "blank (TrimSpace s) \<longleftrightarrow> blank s"
  by (simp add: blank_def)

subsection \<open>Decimal numbers: \<open>strconv\<close>\<close>

definition digit :: "nat \<Rightarrow> char" where
  "digit d = char_of (48 + d)"

definition is_digit :: "char \<Rightarrow> bool" where
  "is_digit c \<longleftrightarrow> 48 \<le> (of_char c :: nat) \<and> (of_char c :: nat) < 58"

fun show_nat :: "nat \<Rightarrow> string" where
  "show_nat n = (if n < 10 then [digit n] else show_nat (n div 10) @ [digit (n mod 10)])"

declare show_nat.simps [simp del]

text \<open>\<open>strconv.FormatInt(n, 10)\<close>, which is also what the verb \<open>%d\<close> prints.\<close>

definition FormatInt :: "int \<Rightarrow> string" where
  "FormatInt n = (if n < 0 then CHR ''-'' # show_nat (nat (- n)) else show_nat (nat n))"

definition digits_value :: "string \<Rightarrow> nat" where
  "digits_value s = foldl (\<lambda>a c. a * 10 + (of_char c - 48)) 0 s"

definition parse_digits :: "string \<Rightarrow> nat option" where
  "parse_digits s = (if s \<noteq> [] \<and> list_all is_digit s then Some (digits_value s) else None)"

text \<open>\<open>strconv.ParseInt(s, 10, bits)\<close>: an optional sign, decimal digits, and the range of the width.\<close>

definition ParseInt :: "nat \<Rightarrow> string \<Rightarrow> int option" where
  "ParseInt bits s =
     (let (neg, body) = (case s of [] \<Rightarrow> (False, s)
                         | c # cs \<Rightarrow> if c = CHR ''-'' then (True, cs)
                                     else if c = CHR ''+'' then (False, cs) else (False, s))
      in case parse_digits body of
           None \<Rightarrow> None
         | Some n \<Rightarrow>
             (let v = (if neg then - int n else int n)
              in if - (2 ^ (bits - 1)) \<le> v \<and> v < 2 ^ (bits - 1) then Some v else None))"

lemma of_char_digit: "d < 10 \<Longrightarrow> (of_char (digit d) :: nat) = 48 + d"
  by (simp add: digit_def of_char_of)

lemma is_digit_digit: "d < 10 \<Longrightarrow> is_digit (digit d)"
  by (simp add: is_digit_def of_char_digit)

lemma show_nat_digits: "list_all is_digit (show_nat n)"
proof (induction n rule: show_nat.induct)
  case (1 n)
  then show ?case
    by (subst show_nat.simps) (simp add: is_digit_digit)
qed

lemma show_nat_nonempty [simp]: "show_nat n \<noteq> []"
  by (subst show_nat.simps) simp

lemma digits_value_snoc: "digits_value (s @ [c]) = digits_value s * 10 + (of_char c - 48)"
  by (simp add: digits_value_def)

lemma digits_value_show: "digits_value (show_nat n) = n"
proof (induction n rule: show_nat.induct)
  case (1 n)
  show ?case
  proof (cases "n < 10")
    case True
    then show ?thesis
      by (subst show_nat.simps) (simp add: digits_value_def of_char_digit)
  next
    case False
    then show ?thesis
      using "1.IH" by (subst show_nat.simps) (simp add: digits_value_snoc of_char_digit)
  qed
qed

lemma parse_digits_show: "parse_digits (show_nat n) = Some n"
  by (simp add: parse_digits_def show_nat_digits digits_value_show)

lemma digit_not_sign:
  assumes "is_digit c"
  shows "c \<noteq> CHR ''-'' \<and> c \<noteq> CHR ''+'' \<and> c \<noteq> CHR ''/'' \<and> c \<noteq> CHR '':''"
  using assms by (auto simp: is_digit_def)

lemma show_nat_no_sep:
  "CHR ''/'' \<notin> set (show_nat n) \<and> CHR '':'' \<notin> set (show_nat n) \<and> CHR ''-'' \<notin> set (show_nat n)"
  using show_nat_digits [of n] digit_not_sign by (auto simp: list_all_iff)

lemma FormatInt_no_sep: "CHR ''/'' \<notin> set (FormatInt n)" "CHR '':'' \<notin> set (FormatInt n)"
  using show_nat_no_sep by (auto simp: FormatInt_def)

lemma FormatInt_nonempty [simp]: "FormatInt n \<noteq> []"
  by (simp add: FormatInt_def)

lemma show_nat_hd: "\<exists>c cs. show_nat n = c # cs \<and> is_digit c"
  using show_nat_digits [of n] by (cases "show_nat n") simp_all

theorem ParseInt_FormatInt:
  assumes "- (2 ^ (bits - 1)) \<le> n" and "n < 2 ^ (bits - 1)"
  shows "ParseInt bits (FormatInt n) = Some n"
proof (cases "n < 0")
  case True
  then have "FormatInt n = CHR ''-'' # show_nat (nat (- n))" by (simp add: FormatInt_def)
  with True assms show ?thesis by (simp add: ParseInt_def parse_digits_show)
next
  case False
  obtain c cs where c: "show_nat (nat n) = c # cs" "is_digit c" using show_nat_hd by blast
  from False have "FormatInt n = c # cs" by (simp add: FormatInt_def c)
  moreover have "parse_digits (c # cs) = Some (nat n)" using parse_digits_show [of "nat n"] c by simp
  ultimately show ?thesis
    using False assms digit_not_sign [OF c(2)] by (simp add: ParseInt_def)
qed

lemma FormatInt_inject: "FormatInt a = FormatInt b \<longleftrightarrow> a = b"
proof
  assume eq: "FormatInt a = FormatInt b"
  have neg: "FormatInt n = CHR ''-'' # s \<Longrightarrow> n < 0" for n s
    using show_nat_no_sep [of "nat n"] by (auto simp: FormatInt_def split: if_splits)
  have inj: "show_nat m = show_nat n \<Longrightarrow> m = n" for m n
    by (metis digits_value_show)
  show "a = b"
  proof (cases "a < 0")
    case True
    then have fb: "FormatInt b = CHR ''-'' # show_nat (nat (- a))" using eq by (simp add: FormatInt_def)
    then have "b < 0" by (rule neg)
    with fb have "show_nat (nat (- b)) = show_nat (nat (- a))" by (simp add: FormatInt_def)
    then have "nat (- b) = nat (- a)" by (rule inj)
    with True \<open>b < 0\<close> show ?thesis by simp
  next
    case False
    then have fb: "FormatInt b = show_nat (nat a)" using eq by (simp add: FormatInt_def)
    have "CHR ''-'' \<notin> set (FormatInt b)" using show_nat_no_sep [of "nat a"] by (simp add: fb)
    then have "\<not> b < 0" by (auto simp: FormatInt_def)
    with fb have "show_nat (nat b) = show_nat (nat a)" by (simp add: FormatInt_def)
    then have "nat b = nat a" by (rule inj)
    with False \<open>\<not> b < 0\<close> show ?thesis by simp
  qed
qed simp

subsection \<open>\<open>strings.Split\<close> and \<open>strings.Join\<close> on a one byte separator\<close>

fun Split :: "char \<Rightarrow> string \<Rightarrow> string list" where
  "Split c [] = [[]]"
| "Split c (x # xs) =
     (if x = c then [] # Split c xs
      else case Split c xs of [] \<Rightarrow> [[x]] | w # ws \<Rightarrow> (x # w) # ws)"

fun Join :: "char \<Rightarrow> string list \<Rightarrow> string" where
  "Join c [] = []"
| "Join c [w] = w"
| "Join c (w # ws) = w @ c # Join c ws"

lemma Split_no_sep: "c \<notin> set w \<Longrightarrow> Split c w = [w]"
  by (induction w) auto

lemma Split_append: "c \<notin> set w \<Longrightarrow> Split c (w @ c # s) = w # Split c s"
  by (induction w) auto

lemma Split_Join:
  "ws \<noteq> [] \<Longrightarrow> \<forall>w \<in> set ws. c \<notin> set w \<Longrightarrow> Split c (Join c ws) = ws"
proof (induction c ws rule: Join.induct)
  case (3 c w v vs)
  then show ?case by (simp add: Split_append)
qed (simp_all add: Split_no_sep)

lemma Join_inject:
  assumes "length ws = length vs" "ws \<noteq> []"
    and "\<forall>w \<in> set ws. c \<notin> set w" "\<forall>w \<in> set vs. c \<notin> set w"
    and "Join c ws = Join c vs"
  shows "ws = vs"
  using assms by (metis Split_Join length_0_conv)

section \<open>Errors\<close>

text \<open>
  A Go error is the chain of sentinels \<open>errors.Is\<close> finds in it, outermost first: a
  \<open>fmt.Errorf\<close> with \<open>%w\<close> adds one, \<open>errors.Join\<close> concatenates. The message text is left out;
  where the code stores it, the text travels beside the chain. A sentinel declared with
  \<open>errcode.Define\<close> is identified by its code.
\<close>

datatype sentinel =
    Coded int           \<comment> \<open>\<open>errcode.Define(code, ...)\<close>\<close>
  | StoreConflict       \<comment> \<open>\<open>versionstore.ErrConflict\<close>\<close>
  | VersionMismatch     \<comment> \<open>\<open>versionstore.ErrVersionMismatch\<close>\<close>
  | MalformedRecord     \<comment> \<open>\<open>versionstore.ErrMalformedRecord\<close>\<close>
  | RedisNil            \<comment> \<open>\<open>redis.ErrNil\<close>: no such member\<close>
  | Foreign string      \<comment> \<open>an error without a sentinel of these packages\<close>

type_synonym gerr = "sentinel list"

definition Is :: "gerr \<Rightarrow> sentinel \<Rightarrow> bool" where
  "Is e s \<longleftrightarrow> s \<in> set e"

lemma Is_single [simp]: "Is [s] t \<longleftrightarrow> t = s"
  by (simp add: Is_def)

text \<open>Chains a store returns on its own account carry no sentinel of a service.\<close>

definition store_error :: "gerr \<Rightarrow> bool" where
  "store_error e \<longleftrightarrow> (\<forall>c. Coded c \<notin> set e)"

lemma store_error_not_coded: "store_error e \<Longrightarrow> \<not> Is e (Coded c)"
  by (simp add: store_error_def Is_def)

lemma store_error_neq: "store_error e \<Longrightarrow> e \<noteq> [Coded c]"
  by (auto simp: store_error_def)

section \<open>Handlers\<close>

text \<open>
  A handler is a function from the service's world to a result, an error chain or a value,
  and the world it leaves. \<open>bindE\<close> is the \<open>if err != nil { return err }\<close> of the source.
\<close>

type_synonym ('w, 'a) handler = "'w \<Rightarrow> (gerr + 'a) \<times> 'w"

definition retE :: "'a \<Rightarrow> ('w, 'a) handler" where
  "retE a = (\<lambda>w. (Inr a, w))"

definition raiseE :: "gerr \<Rightarrow> ('w, 'a) handler" where
  "raiseE e = (\<lambda>w. (Inl e, w))"

definition bindE :: "('w, 'a) handler \<Rightarrow> ('a \<Rightarrow> ('w, 'b) handler) \<Rightarrow> ('w, 'b) handler" where
  "bindE m f = (\<lambda>w. case m w of (Inl e, w') \<Rightarrow> (Inl e, w') | (Inr a, w') \<Rightarrow> f a w')"

definition thenE :: "('w, 'a) handler \<Rightarrow> ('w, 'b) handler \<Rightarrow> ('w, 'b) handler" where
  "thenE m n = bindE m (\<lambda>_. n)"

text \<open>\<open>tryE\<close> hands the error to the caller instead of returning it.\<close>

definition tryE :: "('w, 'a) handler \<Rightarrow> ('w, gerr + 'a) handler" where
  "tryE m = (\<lambda>w. case m w of (r, w') \<Rightarrow> (Inr r, w'))"

text \<open>A validation that only returns an error or nothing.\<close>

definition guardE :: "gerr option \<Rightarrow> ('w, unit) handler" where
  "guardE c = (case c of None \<Rightarrow> retE () | Some e \<Rightarrow> raiseE e)"

text \<open>A lookup or validation that returns a value or an error.\<close>

definition liftE :: "gerr + 'a \<Rightarrow> ('w, 'a) handler" where
  "liftE r = (case r of Inl e \<Rightarrow> raiseE e | Inr a \<Rightarrow> retE a)"

definition modifyE :: "('w \<Rightarrow> 'w) \<Rightarrow> ('w, unit) handler" where
  "modifyE f = (\<lambda>w. (Inr (), f w))"

definition readE :: "('w \<Rightarrow> 'a) \<Rightarrow> ('w, 'a) handler" where
  "readE f = (\<lambda>w. (Inr (f w), w))"

text \<open>The \<open>for\<close> loops of the source that may leave early with an error, over a list.\<close>

fun forE :: "'x list \<Rightarrow> ('x \<Rightarrow> ('w, unit) handler) \<Rightarrow> ('w, unit) handler" where
  "forE [] body = retE ()"
| "forE (x # xs) body = thenE (body x) (forE xs body)"

lemmas handler_defs = liftE_def retE_def raiseE_def bindE_def thenE_def tryE_def guardE_def modifyE_def readE_def

declare handler_defs [handler_simps]

text \<open>
  A triple \<open>\<lbrace>P\<rbrace> m \<lbrace>Q\<rbrace> \<lbrace>E\<rbrace>\<close>: started in a world that satisfies \<open>P\<close>, the handler either returns
  a value and a world in \<open>Q\<close> or an error and a world in \<open>E\<close>.
\<close>

definition triple ::
  "('w \<Rightarrow> bool) \<Rightarrow> ('w, 'a) handler \<Rightarrow> ('a \<Rightarrow> 'w \<Rightarrow> bool) \<Rightarrow> (gerr \<Rightarrow> 'w \<Rightarrow> bool) \<Rightarrow> bool" where
  "triple P m Q E \<longleftrightarrow>
     (\<forall>w. P w \<longrightarrow> (case m w of (Inr a, w') \<Rightarrow> Q a w' | (Inl e, w') \<Rightarrow> E e w'))"

lemma tripleI:
  assumes "\<And>w a w'. P w \<Longrightarrow> m w = (Inr a, w') \<Longrightarrow> Q a w'"
    and "\<And>w e w'. P w \<Longrightarrow> m w = (Inl e, w') \<Longrightarrow> E e w'"
  shows "triple P m Q E"
  using assms unfolding triple_def by (auto split: prod.splits sum.splits)

lemma triple_value: "triple P m Q E \<Longrightarrow> P w \<Longrightarrow> m w = (Inr a, w') \<Longrightarrow> Q a w'"
  by (force simp: triple_def)

lemma triple_error: "triple P m Q E \<Longrightarrow> P w \<Longrightarrow> m w = (Inl e, w') \<Longrightarrow> E e w'"
  by (force simp: triple_def)

lemma triple_snd: "triple P m (\<lambda>_. Q) (\<lambda>_. Q) \<Longrightarrow> P w \<Longrightarrow> Q (snd (m w))"
  by (cases "m w") (force simp: triple_def split: sum.splits)

lemma triple_ret: "(\<And>w. P w \<Longrightarrow> Q a w) \<Longrightarrow> triple P (retE a) Q E"
  by (simp add: triple_def retE_def)

lemma triple_raise: "(\<And>w. P w \<Longrightarrow> E e w) \<Longrightarrow> triple P (raiseE e) Q E"
  by (simp add: triple_def raiseE_def)

lemma triple_bind:
  assumes "triple P m R E" and "\<And>a. triple (R a) (f a) Q E"
  shows "triple P (bindE m f) Q E"
proof (rule tripleI)
  fix w a w' assume "P w" "bindE m f w = (Inr a, w')"
  then show "Q a w'" using assms
    by (auto simp: bindE_def split: prod.splits sum.splits elim: triple_value dest: triple_value)
next
  fix w e w' assume "P w" "bindE m f w = (Inl e, w')"
  then show "E e w'" using assms
    by (auto simp: bindE_def split: prod.splits sum.splits dest: triple_value triple_error)
qed

lemma triple_then:
  "triple P m (\<lambda>_. R) E \<Longrightarrow> triple R n Q E \<Longrightarrow> triple P (thenE m n) Q E"
  unfolding thenE_def by (rule triple_bind)

lemma triple_try:
  "triple P m (\<lambda>a. Q (Inr a)) (\<lambda>e. Q (Inl e)) \<Longrightarrow> triple P (tryE m) Q E"
proof -
  assume t: "triple P m (\<lambda>a. Q (Inr a)) (\<lambda>e. Q (Inl e))"
  show "triple P (tryE m) Q E"
    unfolding triple_def
  proof (intro allI impI)
    fix w assume "P w"
    obtain r w' where m: "m w = (r, w')" by (cases "m w")
    have "Q r w'"
      using triple_value [OF t \<open>P w\<close>] triple_error [OF t \<open>P w\<close>] m by (cases r) auto
    with m show "case tryE m w of (Inl e, w') \<Rightarrow> E e w' | (Inr a, w') \<Rightarrow> Q a w'"
      by (simp add: tryE_def)
  qed
qed

lemma triple_guard:
  "(\<And>w. P w \<Longrightarrow> c = None \<Longrightarrow> Q () w) \<Longrightarrow> (\<And>e w. P w \<Longrightarrow> c = Some e \<Longrightarrow> E e w) \<Longrightarrow>
   triple P (guardE c) Q E"
  by (cases c) (auto simp: guardE_def triple_def retE_def raiseE_def)

lemma triple_modify: "(\<And>w. P w \<Longrightarrow> Q () (f w)) \<Longrightarrow> triple P (modifyE f) Q E"
  by (simp add: triple_def modifyE_def)

lemma triple_read: "(\<And>w. P w \<Longrightarrow> Q (f w) w) \<Longrightarrow> triple P (readE f) Q E"
  by (simp add: triple_def readE_def)

lemma triple_weaken:
  "triple P m Q E \<Longrightarrow> (\<And>w. P' w \<Longrightarrow> P w) \<Longrightarrow> (\<And>a w. Q a w \<Longrightarrow> Q' a w) \<Longrightarrow>
   (\<And>e w. E e w \<Longrightarrow> E' e w) \<Longrightarrow> triple P' m Q' E'"
  by (force simp: triple_def split: prod.splits sum.splits)

lemma triple_for:
  "(\<And>x. x \<in> set xs \<Longrightarrow> triple I (body x) (\<lambda>_. I) E) \<Longrightarrow> triple I (forE xs body) (\<lambda>_. I) E"
proof (induction xs)
  case (Cons x xs)
  then show ?case by (auto intro!: triple_then)
qed (simp add: triple_ret)

section \<open>Taking runs apart\<close>

lemma bindE_cases:
  assumes "bindE m f w = (r, w')"
  obtains (error) e where "m w = (Inl e, w')" "r = Inl e"
    | (ok) a w1 where "m w = (Inr a, w1)" "f a w1 = (r, w')"
  using assms by (auto simp: bindE_def split: prod.splits sum.splits)

lemma thenE_cases:
  assumes "thenE m n w = (r, w')"
  obtains (error) e where "m w = (Inl e, w')" "r = Inl e"
    | (ok) a w1 where "m w = (Inr a, w1)" "n w1 = (r, w')"
  using assms unfolding thenE_def by (rule bindE_cases)

lemma bindE_Inr_iff:
  "bindE m f w = (Inr a, w') \<longleftrightarrow> (\<exists>b w1. m w = (Inr b, w1) \<and> f b w1 = (Inr a, w'))"
  by (auto simp: bindE_def split: prod.split sum.split)

lemma thenE_Inr_iff:
  "thenE m n w = (Inr a, w') \<longleftrightarrow> (\<exists>b w1. m w = (Inr b, w1) \<and> n w1 = (Inr a, w'))"
  by (simp add: thenE_def bindE_Inr_iff)

text \<open>A step whose outcome is known.\<close>

lemma bindE_Inr: "m w = (Inr a, w1) \<Longrightarrow> bindE m f w = f a w1"
  by (simp add: bindE_def)

lemma retE_iff [simp]: "retE a w = (r, w') \<longleftrightarrow> r = Inr a \<and> w' = w"
  by (auto simp: retE_def)

lemma raiseE_iff [simp]: "raiseE e w = (r, w') \<longleftrightarrow> r = Inl e \<and> w' = w"
  by (auto simp: raiseE_def)

lemma guardE_iff:
  "guardE c w = (r, w') \<longleftrightarrow> w' = w \<and> r = (case c of None \<Rightarrow> Inr () | Some e \<Rightarrow> Inl e)"
  by (auto simp: guardE_def split: option.split)

lemma liftE_iff [simp]: "liftE r w = (q, w') \<longleftrightarrow> q = r \<and> w' = w"
  by (auto simp: liftE_def split: sum.splits)

lemma guardE_None [simp]: "guardE None = retE ()"
  by (simp add: guardE_def)

lemma thenE_ret [simp]: "thenE (retE a) n = n"
  by (simp add: thenE_def bindE_def retE_def)

lemma bindE_ret [simp]: "bindE (retE a) f = f a"
  by (simp add: bindE_def retE_def)

lemma thenE_raise [simp]: "thenE (raiseE e) n = raiseE e"
  by (simp add: thenE_def bindE_def raiseE_def)

lemma bindE_raise [simp]: "bindE (raiseE e) f = raiseE e"
  by (simp add: bindE_def raiseE_def)

lemma tryE_iff: "tryE m w = (r, w') \<longleftrightarrow> (\<exists>r'. m w = (r', w') \<and> r = Inr r')"
  by (auto simp: tryE_def split: prod.splits)

text \<open>
  Handlers that move the world along a reflexive and transitive relation, whatever they answer. The
  relation may say that a field is left alone, that records are only added, or that they change in
  one way only.
\<close>

definition steps :: "('w \<Rightarrow> 'w \<Rightarrow> bool) \<Rightarrow> ('w, 'a) handler \<Rightarrow> bool" where
  "steps rel m \<longleftrightarrow> (\<forall>w r w'. m w = (r, w') \<longrightarrow> rel w w')"

lemma stepsI: "(\<And>w r w'. m w = (r, w') \<Longrightarrow> rel w w') \<Longrightarrow> steps rel m"
  by (simp add: steps_def)

lemma stepsD: "steps rel m \<Longrightarrow> m w = (r, w') \<Longrightarrow> rel w w'"
  by (simp add: steps_def)

locale handler_steps =
  fixes rel :: "'w \<Rightarrow> 'w \<Rightarrow> bool"
  assumes refl: "rel w w"
    and trans: "rel w1 w2 \<Longrightarrow> rel w2 w3 \<Longrightarrow> rel w1 w3"
begin

lemma ret: "steps rel (retE a)"
  by (rule stepsI) (auto simp: refl)

lemma raise: "steps rel (raiseE e)"
  by (rule stepsI) (auto simp: refl)

lemma guard: "steps rel (guardE c)"
  by (rule stepsI) (auto simp: guardE_iff refl)

lemma read: "steps rel (readE f)"
  by (rule stepsI) (auto simp: readE_def refl)

lemma modify: "(\<And>w. rel w (f w)) \<Longrightarrow> steps rel (modifyE f)"
  by (rule stepsI) (auto simp: modifyE_def)

lemma bind: "steps rel m \<Longrightarrow> (\<And>a. steps rel (f a)) \<Longrightarrow> steps rel (bindE m f)"
  by (rule stepsI) (blast elim: bindE_cases dest: stepsD intro: trans)

lemma seq: "steps rel m \<Longrightarrow> steps rel n \<Longrightarrow> steps rel (thenE m n)"
  unfolding thenE_def by (rule bind)

lemma attempt: "steps rel m \<Longrightarrow> steps rel (tryE m)"
  by (rule stepsI) (auto simp: tryE_iff dest: stepsD)

lemma loop: "(\<And>x. x \<in> set xs \<Longrightarrow> steps rel (body x)) \<Longrightarrow> steps rel (forE xs body)"
  by (induction xs) (auto intro!: ret seq)

lemmas intros = ret raise guard read bind seq attempt loop

end

text \<open>The commonest relation: one field of the world is left as it is.\<close>

definition same :: "('w \<Rightarrow> 'x) \<Rightarrow> 'w \<Rightarrow> 'w \<Rightarrow> bool" where
  "same g w w' \<longleftrightarrow> g w' = g w"

interpretation same: handler_steps "same g" for g
  by unfold_locales (simp_all add: same_def)

section \<open>The service environment\<close>

text \<open>
  Every service reads an injected clock (\<open>Config.Now\<close>) and reports named events to a metrics
  sink (\<open>servicemetrics\<close>). The world of each service extends this record: how often the clock
  was read, and the events reported so far.
\<close>

datatype event =
    Accepted string
  | Refused string string
  | Replayed string
  | Dropped string int
  | Conflict string
  | Depth string int

record env =
  env_ticks :: nat
  env_events :: "event list"

definition nowE :: "(nat \<Rightarrow> time) \<Rightarrow> ('z env_scheme, time) handler" where
  "nowE now = (\<lambda>w. (Inr (now (env_ticks w)), w\<lparr>env_ticks := Suc (env_ticks w)\<rparr>))"

definition reportE :: "event \<Rightarrow> ('z env_scheme, unit) handler" where
  "reportE ev = modifyE (\<lambda>w. w\<lparr>env_events := env_events w @ [ev]\<rparr>)"

definition reportsE :: "event list \<Rightarrow> ('z env_scheme, unit) handler" where
  "reportsE evs = modifyE (\<lambda>w. w\<lparr>env_events := env_events w @ evs\<rparr>)"

declare nowE_def [handler_simps] reportE_def [handler_simps] reportsE_def [handler_simps]

lemma triple_now:
  "(\<And>w t. P w \<Longrightarrow> Q t (w\<lparr>env_ticks := Suc (env_ticks w)\<rparr>)) \<Longrightarrow> triple P (nowE now) Q E"
  by (simp add: triple_def nowE_def)

lemma triple_report:
  "(\<And>w. P w \<Longrightarrow> Q () (w\<lparr>env_events := env_events w @ [ev]\<rparr>)) \<Longrightarrow> triple P (reportE ev) Q E"
  by (simp add: reportE_def triple_modify)

lemma triple_reports:
  "(\<And>w. P w \<Longrightarrow> Q () (w\<lparr>env_events := env_events w @ evs\<rparr>)) \<Longrightarrow> triple P (reportsE evs) Q E"
  by (simp add: reportsE_def triple_modify)

lemma same_now: "(\<And>w t. g (w\<lparr>env_ticks := t\<rparr>) = g w) \<Longrightarrow> steps (same g) (nowE now)"
  by (rule stepsI) (auto simp: nowE_def same_def)

lemma same_report: "(\<And>w evs. g (w\<lparr>env_events := evs\<rparr>) = g w) \<Longrightarrow> steps (same g) (reportE ev)"
  unfolding reportE_def by (rule same.modify) (simp add: same_def)

lemma same_modify: "(\<And>w. g (f w) = g w) \<Longrightarrow> steps (same g) (modifyE f)"
  by (rule same.modify) (simp add: same_def)

lemma nowE_iff [simp]:
  "nowE now w = (r, w') \<longleftrightarrow> r = Inr (now (env_ticks w)) \<and> w' = w\<lparr>env_ticks := Suc (env_ticks w)\<rparr>"
  by (auto simp: nowE_def)

lemma reportE_iff [simp]:
  "reportE ev w = (r, w') \<longleftrightarrow> r = Inr () \<and> w' = w\<lparr>env_events := env_events w @ [ev]\<rparr>"
  by (auto simp: reportE_def modifyE_def)

lemma bindE_now [simp]:
  "bindE (nowE now) f w = f (now (env_ticks w)) (w\<lparr>env_ticks := Suc (env_ticks w)\<rparr>)"
  by (simp add: bindE_def nowE_def)

lemma thenE_report [simp]:
  "thenE (reportE ev) n w = n (w\<lparr>env_events := env_events w @ [ev]\<rparr>)"
  by (simp add: thenE_def bindE_def reportE_def modifyE_def)

section \<open>Lists\<close>

lemma length_filter_neq_le: "length (filter P xs) \<le> length xs"
  by (rule length_filter_le)

lemma distinct_subset_length:
  "distinct xs \<Longrightarrow> set xs \<subseteq> set ys \<Longrightarrow> length xs \<le> length ys"
  by (metis card_length card_mono distinct_card finite_set order_trans)

lemma distinct_subset_full:
  assumes "distinct xs" "set xs \<subseteq> set ys" "length ys \<le> length xs"
  shows "set xs = set ys"
proof -
  have "card (set ys) \<le> length ys" by (rule card_length)
  also have "\<dots> \<le> card (set xs)" using assms by (simp add: distinct_card)
  finally show ?thesis using assms(2) by (metis List.finite_set card_seteq)
qed

end
