(* ===== verification/VersionStore.thy ===== *)
theory VersionStore
  imports Prelude
begin

text \<open>
  The versioned store every service keeps its state in (\<open>versionstore.Store\<close>). Its code is not
  part of the repository, so a store is a parameter of the model: a record of the four operations
  the services call, on a state type of its own. What the services rely on is \<open>vs_contract\<close>, the
  documented behaviour: \<open>Get\<close> reads, \<open>Create\<close> is insert-only and returns no value on a collision,
  \<open>Update\<close> runs the callback on the current value, possibly several times, and commits the last
  run's value only if nothing changed in between, \<open>Delete\<close> is version-checked, versions
  grow while a key exists and may start again at one after its deletion; any of them may fail. A callback is a pure function of the current value (nothing,
  where \<open>found\<close> is false) into a decision; \<open>Update\<close> also returns the values the callback was run
  on, from which the handlers compute the variables the callback captured.

  The locale \<open>cas_cell\<close> is the other side: what a service proves once of the callbacks that write
  one kind of record, and what follows for every interleaving of committed operations and for every
  store that keeps the contract.
\<close>

record 'v versioned =
  ver_Value :: 'v
  ver_Version :: int

datatype 'v decision =
    Save 'v       \<comment> \<open>\<open>return next, true, nil\<close>\<close>
  | Keep          \<comment> \<open>\<open>return current, false, nil\<close>\<close>
  | Fail gerr     \<comment> \<open>\<open>return current, false, err\<close>\<close>

type_synonym 'v mutate = "'v option \<Rightarrow> 'v decision"

type_synonym ('k, 'v) contents = "'k \<Rightarrow> 'v versioned option"

record ('x, 'k, 'v) vstore =
  vs_Get :: "'k \<Rightarrow> 'x \<Rightarrow> (gerr + 'v versioned option) \<times> 'x"
  vs_Create :: "'k \<Rightarrow> 'v \<Rightarrow> 'x \<Rightarrow> (gerr + 'v versioned option) \<times> 'x"
  vs_Update :: "'k \<Rightarrow> 'v mutate \<Rightarrow> 'x \<Rightarrow> 'v option list \<times> (gerr + bool) \<times> 'x"
  vs_Delete :: "'k \<Rightarrow> 'v versioned \<Rightarrow> 'x \<Rightarrow> gerr option \<times> 'x"

section \<open>The contract\<close>

definition value_at :: "('k, 'v) contents \<Rightarrow> 'k \<Rightarrow> 'v option" where
  "value_at c k = map_option ver_Value (c k)"

definition version_at :: "('k, 'v) contents \<Rightarrow> 'k \<Rightarrow> int" where
  "version_at c k = (case c k of None \<Rightarrow> 0 | Some sv \<Rightarrow> ver_Version sv)"

text \<open>\<open>c'\<close> is \<open>c\<close> with one new value written at \<open>k\<close>, under a larger version.\<close>

definition written :: "'k \<Rightarrow> 'v \<Rightarrow> ('k, 'v) contents \<Rightarrow> ('k, 'v) contents \<Rightarrow> bool" where
  "written k v c c' \<longleftrightarrow>
     (\<exists>n. version_at c k < n \<and> 1 \<le> n \<and> c' = c(k \<mapsto> \<lparr>ver_Value = v, ver_Version = n\<rparr>))"

text \<open>
  The outcome of each operation, between the contents \<open>c\<close> at its commit point and the contents
  \<open>c'\<close> it leaves. A failing store may have performed the write or not.
\<close>

definition get_outcome ::
  "'k \<Rightarrow> ('k, 'v) contents \<Rightarrow> gerr + 'v versioned option \<Rightarrow> ('k, 'v) contents \<Rightarrow> bool" where
  "get_outcome k c r c' \<longleftrightarrow>
     c' = c \<and> (case r of Inl e \<Rightarrow> store_error e | Inr x \<Rightarrow> x = c k)"

definition create_outcome ::
  "'k \<Rightarrow> 'v \<Rightarrow> ('k, 'v) contents \<Rightarrow> gerr + 'v versioned option \<Rightarrow> ('k, 'v) contents \<Rightarrow> bool" where
  "create_outcome k v c r c' \<longleftrightarrow>
     (case r of
        Inl e \<Rightarrow> store_error e \<and> (c' = c \<or> c k = None \<and> written k v c c')
      | Inr None \<Rightarrow> c k \<noteq> None \<and> c' = c
      | Inr (Some sv) \<Rightarrow> c k = None \<and> ver_Value sv = v \<and> written k v c c' \<and> c' k = Some sv)"

definition update_outcome ::
  "'k \<Rightarrow> 'v mutate \<Rightarrow> ('k, 'v) contents \<Rightarrow> 'v option list \<Rightarrow> gerr + bool \<Rightarrow>
   ('k, 'v) contents \<Rightarrow> bool" where
  "update_outcome k f c calls r c' \<longleftrightarrow>
     (\<forall>cur \<in> set (butlast calls). \<exists>v. f cur = Save v) \<and>
     (case r of
        Inr True \<Rightarrow> calls \<noteq> [] \<and> last calls = value_at c k \<and>
                    (\<exists>v. f (value_at c k) = Save v \<and> written k v c c')
      | Inr False \<Rightarrow> calls \<noteq> [] \<and> last calls = value_at c k \<and> f (value_at c k) = Keep \<and> c' = c
      | Inl e \<Rightarrow>
          (calls \<noteq> [] \<and> last calls = value_at c k \<and> f (value_at c k) = Fail e \<and> c' = c) \<or>
          (store_error e \<and> (c' = c \<or> (\<exists>v. f (value_at c k) = Save v \<and> written k v c c'))))"

definition delete_outcome ::
  "'k \<Rightarrow> 'v versioned \<Rightarrow> ('k, 'v) contents \<Rightarrow> gerr option \<Rightarrow> ('k, 'v) contents \<Rightarrow> bool" where
  "delete_outcome k sv c r c' \<longleftrightarrow>
     (case r of
        None \<Rightarrow> version_at c k = ver_Version sv \<and> c' = c(k := None)
      | Some e \<Rightarrow>
          (e = [VersionMismatch] \<and> version_at c k \<noteq> ver_Version sv \<and> c' = c) \<or>
          (store_error e \<and> VersionMismatch \<notin> set e \<and>
             (c' = c \<or> version_at c k = ver_Version sv \<and> c' = c(k := None))))"

text \<open>
  \<open>contents\<close> reads what a store state holds; \<open>R\<close> is what other processes may do to it before an
  operation commits. With equality for \<open>R\<close> the caller is alone.
\<close>

definition vs_contract ::
  "('x \<Rightarrow> ('k, 'v) contents) \<Rightarrow> (('k, 'v) contents \<Rightarrow> ('k, 'v) contents \<Rightarrow> bool) \<Rightarrow>
   ('x, 'k, 'v) vstore \<Rightarrow> bool" where
  "vs_contract m R st \<longleftrightarrow>
     (\<forall>k x r x'. vs_Get st k x = (r, x') \<longrightarrow>
        (\<exists>c. R (m x) c \<and> get_outcome k c r (m x'))) \<and>
     (\<forall>k v x r x'. vs_Create st k v x = (r, x') \<longrightarrow>
        (\<exists>c. R (m x) c \<and> create_outcome k v c r (m x'))) \<and>
     (\<forall>k f x calls r x'. vs_Update st k f x = (calls, r, x') \<longrightarrow>
        (\<exists>c. R (m x) c \<and> update_outcome k f c calls r (m x'))) \<and>
     (\<forall>k sv x r x'. vs_Delete st k sv x = (r, x') \<longrightarrow>
        (\<exists>c. R (m x) c \<and> delete_outcome k sv c r (m x')))"

lemma contract_get:
  "vs_contract m R st \<Longrightarrow> vs_Get st k x = (r, x') \<Longrightarrow> \<exists>c. R (m x) c \<and> get_outcome k c r (m x')"
  by (simp add: vs_contract_def)

lemma contract_create:
  "vs_contract m R st \<Longrightarrow> vs_Create st k v x = (r, x') \<Longrightarrow>
   \<exists>c. R (m x) c \<and> create_outcome k v c r (m x')"
  by (simp add: vs_contract_def)

lemma contract_update:
  "vs_contract m R st \<Longrightarrow> vs_Update st k f x = (calls, r, x') \<Longrightarrow>
   \<exists>c. R (m x) c \<and> update_outcome k f c calls r (m x')"
  by (simp add: vs_contract_def)

lemma contract_delete:
  "vs_contract m R st \<Longrightarrow> vs_Delete st k sv x = (r, x') \<Longrightarrow>
   \<exists>c. R (m x) c \<and> delete_outcome k sv c r (m x')"
  by (simp add: vs_contract_def)

lemma value_at_upd [simp]:
  "value_at (c(k \<mapsto> sv)) j = (if j = k then Some (ver_Value sv) else value_at c j)"
  by (simp add: value_at_def)

lemma written_value [simp]:
  "written k v c c' \<Longrightarrow> value_at c' j = (if j = k then Some v else value_at c j)"
  by (auto simp: written_def)

lemma written_other: "written k v c c' \<Longrightarrow> j \<noteq> k \<Longrightarrow> c' j = c j"
  by (auto simp: written_def)

section \<open>Store operations inside a service's world\<close>

text \<open>
  A service's world holds one state per store it uses; \<open>rd\<close> and \<open>wr\<close> are the field's selector and
  update function. \<open>mutateE\<close> is an \<open>Update\<close> call whose callback reports the events \<open>ev cur\<close> each
  time it runs; it returns the values the callback saw and whether the record was written.
\<close>

definition getE ::
  "('w \<Rightarrow> 'x) \<Rightarrow> (('x \<Rightarrow> 'x) \<Rightarrow> 'w \<Rightarrow> 'w) \<Rightarrow> ('x, 'k, 'v) vstore \<Rightarrow> 'k \<Rightarrow>
   ('w, 'v versioned option) handler" where
  "getE rd wr st k = (\<lambda>w. case vs_Get st k (rd w) of (r, x) \<Rightarrow> (r, wr (\<lambda>_. x) w))"

definition createE ::
  "('w \<Rightarrow> 'x) \<Rightarrow> (('x \<Rightarrow> 'x) \<Rightarrow> 'w \<Rightarrow> 'w) \<Rightarrow> ('x, 'k, 'v) vstore \<Rightarrow> 'k \<Rightarrow> 'v \<Rightarrow>
   ('w, 'v versioned option) handler" where
  "createE rd wr st k v = (\<lambda>w. case vs_Create st k v (rd w) of (r, x) \<Rightarrow> (r, wr (\<lambda>_. x) w))"

definition updateE ::
  "('w \<Rightarrow> 'x) \<Rightarrow> (('x \<Rightarrow> 'x) \<Rightarrow> 'w \<Rightarrow> 'w) \<Rightarrow> ('x, 'k, 'v) vstore \<Rightarrow> 'k \<Rightarrow> 'v mutate \<Rightarrow>
   ('w, 'v option list \<times> (gerr + bool)) handler" where
  "updateE rd wr st k f =
     (\<lambda>w. case vs_Update st k f (rd w) of (calls, r, x) \<Rightarrow> (Inr (calls, r), wr (\<lambda>_. x) w))"

definition deleteE ::
  "('w \<Rightarrow> 'x) \<Rightarrow> (('x \<Rightarrow> 'x) \<Rightarrow> 'w \<Rightarrow> 'w) \<Rightarrow> ('x, 'k, 'v) vstore \<Rightarrow> 'k \<Rightarrow> 'v versioned \<Rightarrow>
   ('w, gerr option) handler" where
  "deleteE rd wr st k sv =
     (\<lambda>w. case vs_Delete st k sv (rd w) of (r, x) \<Rightarrow> (Inr r, wr (\<lambda>_. x) w))"

definition mutateE ::
  "('z env_scheme \<Rightarrow> 'x) \<Rightarrow> (('x \<Rightarrow> 'x) \<Rightarrow> 'z env_scheme \<Rightarrow> 'z env_scheme) \<Rightarrow>
   ('x, 'k, 'v) vstore \<Rightarrow> 'k \<Rightarrow> ('v option \<Rightarrow> event list) \<Rightarrow> 'v mutate \<Rightarrow>
   ('z env_scheme, 'v option list \<times> bool) handler" where
  "mutateE rd wr st k ev f =
     bindE (updateE rd wr st k f) (\<lambda>(calls, r).
       thenE (reportsE (concat (map ev calls)))
         (case r of Inl e \<Rightarrow> raiseE e | Inr applied \<Rightarrow> retE (calls, applied)))"

text \<open>The value the callback saw on its last run: what its captured results were computed from.\<close>

definition seen :: "'v option list \<Rightarrow> 'v option" where
  "seen calls = (if calls = [] then None else last calls)"

text \<open>
  A captured \<open>result\<close> that starts as the zero value \<open>z\<close>: assigned where the callback saves, or
  also where it keeps the record it found.
\<close>

definition saved_or :: "'v \<Rightarrow> 'v decision \<Rightarrow> 'v" where
  "saved_or z d = (case d of Save v \<Rightarrow> v | Keep \<Rightarrow> z | Fail e \<Rightarrow> z)"

definition result_of :: "'v mutate \<Rightarrow> 'v \<Rightarrow> 'v option \<Rightarrow> 'v" where
  "result_of f z cur =
     (case f cur of Save v \<Rightarrow> v | Keep \<Rightarrow> (case cur of None \<Rightarrow> z | Some u \<Rightarrow> u) | Fail e \<Rightarrow> z)"

declare getE_def [handler_simps] createE_def [handler_simps] updateE_def [handler_simps]
  deleteE_def [handler_simps] mutateE_def [handler_simps]

text \<open>The two laws of a field's selector and update, which every record field satisfies.\<close>

definition field_of :: "('w \<Rightarrow> 'x) \<Rightarrow> (('x \<Rightarrow> 'x) \<Rightarrow> 'w \<Rightarrow> 'w) \<Rightarrow> bool" where
  "field_of rd wr \<longleftrightarrow> (\<forall>g w. rd (wr g w) = g (rd w))"

lemma triple_get:
  assumes "vs_contract m R st"
    and "\<And>w r x' c. P w \<Longrightarrow> R (m (rd w)) c \<Longrightarrow> get_outcome k c r (m x') \<Longrightarrow>
           (case r of Inl e \<Rightarrow> E e (wr (\<lambda>_. x') w) | Inr a \<Rightarrow> Q a (wr (\<lambda>_. x') w))"
  shows "triple P (getE rd wr st k) Q E"
proof (rule tripleI)
  fix w a w' assume "P w" "getE rd wr st k w = (Inr a, w')"
  then show "Q a w'"
    using contract_get [OF assms(1), of k "rd w"] assms(2) [of w _ "Inr a"]
    by (auto simp: getE_def split: prod.splits)
next
  fix w e w' assume "P w" "getE rd wr st k w = (Inl e, w')"
  then show "E e w'"
    using contract_get [OF assms(1), of k "rd w"] assms(2) [of w _ "Inl e"]
    by (auto simp: getE_def split: prod.splits)
qed

lemma triple_create:
  assumes "vs_contract m R st"
    and "\<And>w r x' c. P w \<Longrightarrow> R (m (rd w)) c \<Longrightarrow> create_outcome k v c r (m x') \<Longrightarrow>
           (case r of Inl e \<Rightarrow> E e (wr (\<lambda>_. x') w) | Inr a \<Rightarrow> Q a (wr (\<lambda>_. x') w))"
  shows "triple P (createE rd wr st k v) Q E"
proof (rule tripleI)
  fix w a w' assume "P w" "createE rd wr st k v w = (Inr a, w')"
  then show "Q a w'"
    using contract_create [OF assms(1), of k v "rd w"] assms(2) [of w _ "Inr a"]
    by (auto simp: createE_def split: prod.splits)
next
  fix w e w' assume "P w" "createE rd wr st k v w = (Inl e, w')"
  then show "E e w'"
    using contract_create [OF assms(1), of k v "rd w"] assms(2) [of w _ "Inl e"]
    by (auto simp: createE_def split: prod.splits)
qed

lemma triple_update:
  assumes "vs_contract m R st"
    and "\<And>w calls r x' c. P w \<Longrightarrow> R (m (rd w)) c \<Longrightarrow> update_outcome k f c calls r (m x') \<Longrightarrow>
           Q (calls, r) (wr (\<lambda>_. x') w)"
  shows "triple P (updateE rd wr st k f) Q E"
proof (rule tripleI)
  fix w a w' assume "P w" "updateE rd wr st k f w = (Inr a, w')"
  then show "Q a w'"
    using contract_update [OF assms(1), of k f "rd w"] assms(2) [of w]
    by (auto simp: updateE_def split: prod.splits)
qed (auto simp: updateE_def split: prod.splits)

lemma triple_delete:
  assumes "vs_contract m R st"
    and "\<And>w r x' c. P w \<Longrightarrow> R (m (rd w)) c \<Longrightarrow> delete_outcome k sv c r (m x') \<Longrightarrow>
           Q r (wr (\<lambda>_. x') w)"
  shows "triple P (deleteE rd wr st k sv) Q E"
proof (rule tripleI)
  fix w a w' assume "P w" "deleteE rd wr st k sv w = (Inr a, w')"
  then show "Q a w'"
    using contract_delete [OF assms(1), of k sv "rd w"] assms(2) [of w]
    by (auto simp: deleteE_def split: prod.splits)
qed (auto simp: deleteE_def split: prod.splits)

lemma triple_mutate:
  assumes "vs_contract m R st"
    and "\<And>w calls r x' c. P w \<Longrightarrow> R (m (rd w)) c \<Longrightarrow> update_outcome k f c calls r (m x') \<Longrightarrow>
           (let w' = wr (\<lambda>_. x') w; w'' = w'\<lparr>env_events := env_events w' @ concat (map ev calls)\<rparr> in
            case r of Inl e \<Rightarrow> E e w'' | Inr applied \<Rightarrow> Q (calls, applied) w'')"
  shows "triple P (mutateE rd wr st k ev f) Q E"
  unfolding mutateE_def
  apply (rule triple_bind
    [where R = "\<lambda>(calls, r) w'. let w'' = w'\<lparr>env_events := env_events w' @ concat (map ev calls)\<rparr> in
            case r of Inl e \<Rightarrow> E e w'' | Inr applied \<Rightarrow> Q (calls, applied) w''"])
   apply (rule triple_update [OF assms(1)])
  using assms(2) apply (simp add: Let_def)
  apply (clarsimp simp: triple_def thenE_def bindE_def reportsE_def modifyE_def raiseE_def retE_def Let_def
      split: sum.splits)
  done

lemma mutateE_cases:
  assumes "vs_contract m R st" "mutateE rd wr st k ev f w = (r, w')"
  obtains calls res x' c where
    "R (m (rd w)) c" "update_outcome k f c calls res (m x')"
    "w' = (wr (\<lambda>_. x') w)\<lparr>env_events := env_events (wr (\<lambda>_. x') w) @ concat (map ev calls)\<rparr>"
    "r = (case res of Inl e \<Rightarrow> Inl e | Inr b \<Rightarrow> Inr (calls, b))"
proof -
  obtain calls res x' where u: "vs_Update st k f (rd w) = (calls, res, x')"
    by (cases "vs_Update st k f (rd w)") auto
  from contract_update [OF assms(1) u] obtain c where c:
    "R (m (rd w)) c" "update_outcome k f c calls res (m x')" by auto
  show thesis
    by (rule that [OF c]) (use assms(2) u in \<open>auto simp: mutateE_def updateE_def bindE_def thenE_def
        reportsE_def modifyE_def raiseE_def retE_def split: sum.splits\<close>)
qed

lemma getE_cases:
  assumes "vs_contract m R st" "getE rd wr st k w = (r, w')"
  obtains x' c where "R (m (rd w)) c" "get_outcome k c r (m x')" "w' = wr (\<lambda>_. x') w"
  using assms contract_get [OF assms(1), of k "rd w"] by (auto simp: getE_def split: prod.splits)

lemma createE_cases:
  assumes "vs_contract m R st" "createE rd wr st k v w = (r, w')"
  obtains x' c where "R (m (rd w)) c" "create_outcome k v c r (m x')" "w' = wr (\<lambda>_. x') w"
  using assms contract_create [OF assms(1), of k v "rd w"] by (auto simp: createE_def split: prod.splits)

lemma updateE_cases:
  assumes "vs_contract m R st" "updateE rd wr st k f w = (r, w')"
  obtains calls res x' c where
    "R (m (rd w)) c" "update_outcome k f c calls res (m x')" "w' = wr (\<lambda>_. x') w" "r = Inr (calls, res)"
  using assms contract_update [OF assms(1), of k f "rd w"] by (auto simp: updateE_def split: prod.splits)

lemma deleteE_cases:
  assumes "vs_contract m R st" "deleteE rd wr st k sv w = (r, w')"
  obtains x' c q where "R (m (rd w)) c" "delete_outcome k sv c q (m x')" "w' = wr (\<lambda>_. x') w" "r = Inr q"
  using assms contract_delete [OF assms(1), of k sv "rd w"] by (auto simp: deleteE_def split: prod.splits)

lemma updateE_run:
  obtains calls res x' where "updateE rd wr st k f w = (Inr (calls, res), wr (\<lambda>_. x') w)"
  by (cases "vs_Update st k f (rd w)") (auto simp: updateE_def)

text \<open>The last value seen is the record the operation was committed against.\<close>

lemma outcome_seen:
  "update_outcome k f c calls (Inr b) c' \<Longrightarrow> seen calls = value_at c k \<and> calls \<noteq> []"
  by (cases b) (simp_all add: update_outcome_def seen_def)

text \<open>
  The outcomes one by one, as the handlers' proofs use them: \<open>c\<close> is what the store held when the
  operation committed, \<open>x'\<close> the store state it left.
\<close>

lemma getE_outcomes:
  assumes "vs_contract m R st" "getE rd wr st k w = (r, w')"
  obtains (failed) e c x' where "R (m (rd w)) c" "store_error e" "r = Inl e" "m x' = c" "w' = wr (\<lambda>_. x') w"
  | (read) c x' where "R (m (rd w)) c" "r = Inr (c k)" "m x' = c" "w' = wr (\<lambda>_. x') w"
proof (rule getE_cases [OF assms])
  fix x' c assume a: "R (m (rd w)) c" "get_outcome k c r (m x')" "w' = wr (\<lambda>_. x') w"
  show thesis
  proof (cases r)
    case (Inl e)
    with a show thesis by (intro failed [of c e x']) (auto simp: get_outcome_def)
  next
    case (Inr v)
    with a show thesis by (intro read [of c x']) (auto simp: get_outcome_def)
  qed
qed

lemma createE_outcomes:
  assumes "vs_contract m R st" "createE rd wr st k v w = (r, w')"
  obtains (failed) e c x' where "R (m (rd w)) c" "store_error e" "r = Inl e" "w' = wr (\<lambda>_. x') w"
      "m x' = c \<or> c k = None \<and> written k v c (m x')"
  | (exists) c x' where "R (m (rd w)) c" "c k \<noteq> None" "r = Inr None" "m x' = c" "w' = wr (\<lambda>_. x') w"
  | (created) c sv x' where "R (m (rd w)) c" "c k = None" "r = Inr (Some sv)" "ver_Value sv = v"
      "written k v c (m x')" "w' = wr (\<lambda>_. x') w"
proof (rule createE_cases [OF assms])
  fix x' c assume a: "R (m (rd w)) c" "create_outcome k v c r (m x')" "w' = wr (\<lambda>_. x') w"
  show thesis
  proof (cases r)
    case (Inl e)
    with a show thesis by (intro failed [of c e x']) (auto simp: create_outcome_def)
  next
    case (Inr o')
    show thesis
    proof (cases o')
      case None
      with a Inr show thesis by (intro exists [of c x']) (auto simp: create_outcome_def)
    next
      case (Some sv)
      with a Inr show thesis by (intro created [of c sv x']) (auto simp: create_outcome_def)
    qed
  qed
qed

lemma mutateE_outcomes:
  assumes "vs_contract m R st" "mutateE rd wr st k ev f w = (r, w')"
  obtains (failed) e c x' evs where "R (m (rd w)) c" "store_error e" "r = Inl e"
      "w' = (wr (\<lambda>_. x') w)\<lparr>env_events := evs\<rparr>"
      "m x' = c \<or> (\<exists>v. f (value_at c k) = Save v \<and> written k v c (m x'))"
  | (refused) e c x' evs where "R (m (rd w)) c" "f (value_at c k) = Fail e" "r = Inl e" "m x' = c"
      "w' = (wr (\<lambda>_. x') w)\<lparr>env_events := evs\<rparr>"
  | (kept) calls c x' evs where "R (m (rd w)) c" "f (value_at c k) = Keep" "r = Inr (calls, False)"
      "seen calls = value_at c k" "m x' = c" "w' = (wr (\<lambda>_. x') w)\<lparr>env_events := evs\<rparr>"
  | (saved) v calls c x' evs where "R (m (rd w)) c" "f (value_at c k) = Save v" "r = Inr (calls, True)"
      "seen calls = value_at c k" "written k v c (m x')" "w' = (wr (\<lambda>_. x') w)\<lparr>env_events := evs\<rparr>"
proof (rule mutateE_cases [OF assms])
  fix calls res x' c
  assume a: "R (m (rd w)) c" "update_outcome k f c calls res (m x')"
    "w' = (wr (\<lambda>_. x') w)\<lparr>env_events := env_events (wr (\<lambda>_. x') w) @ concat (map ev calls)\<rparr>"
    "r = (case res of Inl e \<Rightarrow> Inl e | Inr b \<Rightarrow> Inr (calls, b))"
  show thesis
  proof (cases res)
    case (Inl e)
    with a(2) consider "f (value_at c k) = Fail e" "m x' = c"
      | "store_error e" "m x' = c \<or> (\<exists>v. f (value_at c k) = Save v \<and> written k v c (m x'))"
      by (auto simp: update_outcome_def)
    then show thesis
    proof cases
      case 1
      with a Inl show thesis by (intro refused) auto
    next
      case 2
      from a(4) Inl have "r = Inl e" by simp
      with a(1,3) 2 show thesis by (intro failed)
    qed
  next
    case (Inr b)
    have s: "seen calls = value_at c k" by (rule conjunct1 [OF outcome_seen [OF a(2) [unfolded Inr]]])
    show thesis
    proof (cases b)
      case True
      with a(2) Inr obtain v where "f (value_at c k) = Save v" "written k v c (m x')"
        by (auto simp: update_outcome_def)
      with a Inr s True show thesis by (intro saved) auto
    next
      case False
      with a Inr s show thesis by (intro kept) (auto simp: update_outcome_def)
    qed
  qed
qed

text \<open>The store operations leave every other field of the world alone.\<close>

lemma same_get: "(\<And>h w. g (wr h w) = g w) \<Longrightarrow> steps (same g) (getE rd wr st k)"
  by (rule stepsI) (auto simp: getE_def same_def split: prod.splits)

lemma same_create: "(\<And>h w. g (wr h w) = g w) \<Longrightarrow> steps (same g) (createE rd wr st k v)"
  by (rule stepsI) (auto simp: createE_def same_def split: prod.splits)

lemma same_update: "(\<And>h w. g (wr h w) = g w) \<Longrightarrow> steps (same g) (updateE rd wr st k f)"
  by (rule stepsI) (auto simp: updateE_def same_def split: prod.splits)

lemma same_delete: "(\<And>h w. g (wr h w) = g w) \<Longrightarrow> steps (same g) (deleteE rd wr st k sv)"
  by (rule stepsI) (auto simp: deleteE_def same_def split: prod.splits)

lemma same_mutate:
  assumes "\<And>h w. g (wr h w) = g w" "\<And>w evs. g (w\<lparr>env_events := evs\<rparr>) = g w"
  shows "steps (same g) (mutateE rd wr st k ev f)"
  unfolding mutateE_def reportsE_def
  by (rule same.bind)
    (auto intro!: same.intros same_update same_modify simp: assms split: sum.split prod.split)

text \<open>A read leaves the contents of its store alone, alone or not; \<open>m\<close> reads them.\<close>

lemma same_get_contents:
  assumes "vs_contract m (=) st" "\<And>h w. rd (wr h w) = h (rd w)"
  shows "steps (same (\<lambda>w. m (rd w))) (getE rd wr st k)"
proof (rule stepsI)
  fix w r w' assume "getE rd wr st k w = (r, w')"
  from assms(1) this show "same (\<lambda>w. m (rd w)) w w'"
    by (cases rule: getE_outcomes) (auto simp: same_def assms(2))
qed

lemmas same_intros = same.intros same_now same_report same_modify same_get same_create same_update
  same_delete same_mutate

section \<open>Answers that are lost\<close>

text \<open>
  A store may fail after it has written, and it may fail to delete. \<open>watched\<close> is a store with an observer beside
  it, who notices just that: a write that took effect behind an error, and a delete of the right version that was
  answered with an error. The store itself does and answers what it did before.
\<close>

definition watched :: "('x \<Rightarrow> ('k, 'v) contents) \<Rightarrow> ('x, 'k, 'v) vstore \<Rightarrow> ('x \<times> bool, 'k, 'v) vstore" where
  "watched m st =
   \<lparr>vs_Get = (\<lambda>k (x, lost). case vs_Get st k x of (r, x') \<Rightarrow> (r, x', lost)),
    vs_Create = (\<lambda>k v (x, lost). case vs_Create st k v x of
        (r, x') \<Rightarrow> (r, x', lost \<or> (case r of Inl e \<Rightarrow> m x' k \<noteq> m x k | Inr _ \<Rightarrow> False))),
    vs_Update = (\<lambda>k f (x, lost). case vs_Update st k f x of
        (calls, r, x') \<Rightarrow> (calls, r, x', lost \<or> (case r of Inl e \<Rightarrow> m x' k \<noteq> m x k | Inr _ \<Rightarrow> False))),
    vs_Delete = (\<lambda>k sv (x, lost). case vs_Delete st k sv x of
        (r, x') \<Rightarrow> (r, x', lost \<or> (r \<noteq> None \<and> version_at (m x) k = ver_Version sv)))\<rparr>"

text \<open>What a handler's proof uses of it; \<open>lost\<close> reads the observer's mark.\<close>

definition vs_watched :: "('x \<Rightarrow> ('k, 'v) contents) \<Rightarrow> ('x \<Rightarrow> bool) \<Rightarrow> ('x, 'k, 'v) vstore \<Rightarrow> bool" where
  "vs_watched m lost st \<longleftrightarrow>
     vs_contract m (=) st \<and>
     (\<forall>k v x r x'. vs_Create st k v x = (r, x') \<longrightarrow>
        (lost x \<longrightarrow> lost x') \<and> (\<forall>e. r = Inl e \<longrightarrow> lost x' \<or> m x' = m x)) \<and>
     (\<forall>k f x calls r x'. vs_Update st k f x = (calls, r, x') \<longrightarrow>
        (lost x \<longrightarrow> lost x') \<and> (\<forall>e. r = Inl e \<longrightarrow> lost x' \<or> m x' = m x)) \<and>
     (\<forall>k sv x r x'. vs_Delete st k sv x = (r, x') \<longrightarrow>
        (lost x \<longrightarrow> lost x') \<and> (\<forall>e. r = Some e \<longrightarrow> lost x' \<or> version_at (m x) k \<noteq> ver_Version sv))"

lemma written_changes: "written k v c c' \<Longrightarrow> c' k \<noteq> c k"
  by (auto simp: written_def version_at_def split: option.splits)

lemma watched_contract:
  assumes "vs_contract m (=) st"
  shows "vs_contract (\<lambda>x. m (fst x)) (=) (watched m st)"
  using assms unfolding vs_contract_def by (simp add: watched_def split: prod.split)

theorem watched_store:
  assumes st: "vs_contract m (=) st"
  shows "vs_watched (\<lambda>x. m (fst x)) snd (watched m st)"
  unfolding vs_watched_def
proof (intro conjI watched_contract [OF st] allI impI)
  fix k v x r x' e assume c: "vs_Create (watched m st) k v x = (r, x')"
  obtain q y where q: "vs_Create st k v (fst x) = (q, y)" by force
  with c have x': "r = q" "x' = (y, snd x \<or> (case q of Inl e \<Rightarrow> m y k \<noteq> m (fst x) k | Inr _ \<Rightarrow> False))"
    by (cases x; cases q; auto simp: watched_def)+
  from x' show "snd x \<Longrightarrow> snd x'" by simp
  assume "r = Inl e"
  with contract_create [OF st q] x' show "snd x' \<or> m (fst x') = m (fst x)"
    by (auto simp: create_outcome_def written_def)
next
  fix k f x calls r x' e assume c: "vs_Update (watched m st) k f x = (calls, r, x')"
  obtain calls' q y where q: "vs_Update st k f (fst x) = (calls', q, y)" by (metis prod_cases3)
  with c have x': "r = q" "x' = (y, snd x \<or> (case q of Inl e \<Rightarrow> m y k \<noteq> m (fst x) k | Inr _ \<Rightarrow> False))"
    by (cases x; cases q; auto simp: watched_def)+
  from x' show "snd x \<Longrightarrow> snd x'" by simp
  assume "r = Inl e"
  with contract_update [OF st q] x' show "snd x' \<or> m (fst x') = m (fst x)"
    by (auto simp: update_outcome_def dest: written_changes)
next
  fix k sv x r x' e assume c: "vs_Delete (watched m st) k sv x = (r, x')"
  obtain q y where q: "vs_Delete st k sv (fst x) = (q, y)" by force
  with c have x': "r = q" "x' = (y, snd x \<or> (q \<noteq> None \<and> version_at (m (fst x)) k = ver_Version sv))"
    by (cases x; cases q; auto simp: watched_def)+
  from x' show "snd x \<Longrightarrow> snd x'" by simp
  assume "r = Some e"
  with x' show "snd x' \<or> version_at (m (fst x)) k \<noteq> ver_Version sv" by auto
qed

lemma vs_watched_contract: "vs_watched m lost st \<Longrightarrow> vs_contract m (=) st"
  by (simp add: vs_watched_def)

lemma watched_create:
  assumes "vs_watched m lost st" "createE rd wr st k v w = (r, w')" "\<And>h w. rd (wr h w) = h (rd w)"
  obtains (failed) e where "r = Inl e" "lost (rd w') \<or> m (rd w') = m (rd w)"
  | (exists) "r = Inr None" "m (rd w) k \<noteq> None" "m (rd w') = m (rd w)"
  | (created) sv where "r = Inr (Some sv)" "m (rd w) k = None" "ver_Value sv = v" "m (rd w') = (m (rd w))(k \<mapsto> sv)"
proof -
  obtain q x' where c: "vs_Create st k v (rd w) = (q, x')" by force
  then have rw: "r = q" "rd w' = x'" using assms(2,3) by (auto simp: createE_def)
  have out: "create_outcome k v (m (rd w)) q (m x')"
    using contract_create [OF vs_watched_contract [OF assms(1)] c] by simp
  show thesis
  proof (cases q)
    case (Inl e)
    then have "lost x' \<or> m x' = m (rd w)" using assms(1) c unfolding vs_watched_def by blast
    with Inl rw show thesis by (intro failed) auto
  next
    case (Inr o')
    show thesis
    proof (cases o')
      case None
      with Inr out rw show thesis by (intro exists) (auto simp: create_outcome_def)
    next
      case (Some sv)
      with Inr out rw show thesis by (intro created [of sv]) (auto simp: create_outcome_def written_def)
    qed
  qed
qed

lemma watched_delete:
  assumes "vs_watched m lost st" "deleteE rd wr st k sv w = (r, w')" "\<And>h w. rd (wr h w) = h (rd w)"
  obtains (refused) e where "r = Inr (Some e)" "lost (rd w') \<or> version_at (m (rd w)) k \<noteq> ver_Version sv"
  | (deleted) "r = Inr None" "m (rd w') = (m (rd w))(k := None)"
proof -
  obtain q x' where c: "vs_Delete st k sv (rd w) = (q, x')" by force
  then have rw: "r = Inr q" "rd w' = x'" using assms(2,3) by (auto simp: deleteE_def)
  have out: "delete_outcome k sv (m (rd w)) q (m x')"
    using contract_delete [OF vs_watched_contract [OF assms(1)] c] by simp
  show thesis
  proof (cases q)
    case None
    with out rw show thesis by (intro deleted) (auto simp: delete_outcome_def)
  next
    case (Some e)
    then have "lost x' \<or> version_at (m (rd w)) k \<noteq> ver_Version sv"
      using assms(1) c unfolding vs_watched_def by blast
    with Some rw show thesis by (intro refused) auto
  qed
qed

lemma watched_mutate:
  assumes "vs_watched m lost st" "mutateE rd wr st k ev f w = (r, w')" "\<And>h w. rd (wr h w) = h (rd w)"
    and "\<And>w evs. rd (w\<lparr>env_events := evs\<rparr>) = rd w"
  obtains (failed) e where "r = Inl e" "lost (rd w') \<or> m (rd w') = m (rd w)"
  | (kept) calls where "r = Inr (calls, False)" "f (value_at (m (rd w)) k) = Keep" "m (rd w') = m (rd w)"
  | (saved) calls v where "r = Inr (calls, True)" "f (value_at (m (rd w)) k) = Save v"
      "written k v (m (rd w)) (m (rd w'))"
proof -
  obtain calls res x' where u: "vs_Update st k f (rd w) = (calls, res, x')"
    by (cases "vs_Update st k f (rd w)") auto
  have rw: "r = (case res of Inl e \<Rightarrow> Inl e | Inr b \<Rightarrow> Inr (calls, b))" "rd w' = x'"
    using assms(2-4) u
    by (auto simp: mutateE_def updateE_def bindE_def thenE_def reportsE_def modifyE_def raiseE_def retE_def
        split: sum.splits)
  have out: "update_outcome k f (m (rd w)) calls res (m x')"
    using contract_update [OF vs_watched_contract [OF assms(1)] u] by simp
  show thesis
  proof (cases res)
    case (Inl e)
    then have "lost x' \<or> m x' = m (rd w)" using assms(1) u unfolding vs_watched_def by blast
    with Inl rw show thesis by (intro failed) auto
  next
    case (Inr b)
    show thesis
    proof (cases b)
      case True
      with Inr out rw show thesis by (auto simp: update_outcome_def intro: saved)
    next
      case False
      with Inr out rw show thesis by (intro kept) (auto simp: update_outcome_def)
    qed
  qed
qed

text \<open>The observer's mark stays once it is made, and a handler that only works on one key changes no other.\<close>

definition marked :: "('w \<Rightarrow> 'x) \<Rightarrow> ('x \<Rightarrow> bool) \<Rightarrow> 'w \<Rightarrow> 'w \<Rightarrow> bool" where
  "marked rd lost w w' \<longleftrightarrow> (lost (rd w) \<longrightarrow> lost (rd w'))"

interpretation marked: handler_steps "marked rd lost" for rd lost
  by unfold_locales (simp_all add: marked_def)

definition only_at :: "('w \<Rightarrow> ('k, 'v) contents) \<Rightarrow> 'k \<Rightarrow> 'w \<Rightarrow> 'w \<Rightarrow> bool" where
  "only_at c k w w' \<longleftrightarrow> (\<forall>j. j \<noteq> k \<longrightarrow> c w' j = c w j)"

interpretation only_at: handler_steps "only_at c k" for c k
  by unfold_locales (simp_all add: only_at_def)

lemma same_marked: "steps (same rd) h \<Longrightarrow> steps (marked rd lost) h"
  by (auto simp: steps_def same_def marked_def)

lemma same_only_at: "steps (same rd) h \<Longrightarrow> steps (only_at (\<lambda>w. m (rd w)) k) h"
  by (auto simp: steps_def same_def only_at_def)

lemma marked_create:
  assumes "vs_watched m lost st" "\<And>h w. rd (wr h w) = h (rd w)"
  shows "steps (marked rd lost) (createE rd wr st k v)"
  using assms unfolding steps_def marked_def createE_def vs_watched_def by (auto split: prod.splits)

lemma marked_delete:
  assumes "vs_watched m lost st" "\<And>h w. rd (wr h w) = h (rd w)"
  shows "steps (marked rd lost) (deleteE rd wr st k sv)"
  using assms unfolding steps_def marked_def deleteE_def vs_watched_def by (auto split: prod.splits)

lemma marked_mutate:
  assumes "vs_watched m lost st" "\<And>h w. rd (wr h w) = h (rd w)" "\<And>w evs. rd (w\<lparr>env_events := evs\<rparr>) = rd w"
  shows "steps (marked rd lost) (mutateE rd wr st k ev f)"
proof -
  have "steps (marked rd lost) (updateE rd wr st k f)"
    using assms(1,2) unfolding steps_def marked_def updateE_def vs_watched_def by (auto split: prod.splits)
  then show ?thesis unfolding mutateE_def reportsE_def
    by (auto intro!: marked.intros marked.modify simp: marked_def assms(3) split: sum.split prod.split)
qed

lemma only_at_create:
  assumes "vs_contract m (=) st" "\<And>h w. rd (wr h w) = h (rd w)"
  shows "steps (only_at (\<lambda>w. m (rd w)) k) (createE rd wr st k v)"
proof (rule stepsI)
  fix w r w' assume "createE rd wr st k v w = (r, w')"
  from assms(1) this show "only_at (\<lambda>w. m (rd w)) k w w'"
    by (cases rule: createE_outcomes) (auto simp: only_at_def assms(2) written_other)
qed

lemma only_at_delete:
  assumes "vs_contract m (=) st" "\<And>h w. rd (wr h w) = h (rd w)"
  shows "steps (only_at (\<lambda>w. m (rd w)) k) (deleteE rd wr st k sv)"
proof (rule stepsI)
  fix w r w' assume "deleteE rd wr st k sv w = (r, w')"
  from assms(1) this show "only_at (\<lambda>w. m (rd w)) k w w'"
    by (cases rule: deleteE_cases) (auto simp: only_at_def assms(2) delete_outcome_def split: option.splits)
qed

lemma only_at_mutate:
  assumes "vs_contract m (=) st" "\<And>h w. rd (wr h w) = h (rd w)" "\<And>w evs. rd (w\<lparr>env_events := evs\<rparr>) = rd w"
  shows "steps (only_at (\<lambda>w. m (rd w)) k) (mutateE rd wr st k ev f)"
proof (rule stepsI)
  fix w r w' assume "mutateE rd wr st k ev f w = (r, w')"
  from assms(1) this show "only_at (\<lambda>w. m (rd w)) k w w'"
    by (cases rule: mutateE_outcomes) (auto simp: only_at_def assms(2,3) written_other)
qed

section \<open>Records written by compare-and-set\<close>

text \<open>
  One record under the committed operations of any number of processes: each operation commits
  the decision its callback takes on the record's current value, in some order.
\<close>

definition commit :: "('op \<Rightarrow> 'v mutate) \<Rightarrow> 'op \<Rightarrow> 'v option \<Rightarrow> 'v option" where
  "commit mu a cur = (case mu a cur of Save v \<Rightarrow> Some v | Keep \<Rightarrow> cur | Fail e \<Rightarrow> cur)"

definition commits :: "('op \<Rightarrow> 'v mutate) \<Rightarrow> 'op list \<Rightarrow> 'v option \<Rightarrow> 'v option" where
  "commits mu ops cur = fold (commit mu) ops cur"

lemma commits_Nil [simp]: "commits mu [] cur = cur"
  by (simp add: commits_def)

lemma commits_Cons [simp]: "commits mu (a # ops) cur = commits mu ops (commit mu a cur)"
  by (simp add: commits_def)

lemma commits_append [simp]: "commits mu (as @ bs) cur = commits mu bs (commits mu as cur)"
  by (simp add: commits_def)

lemma commit_Some: "commit mu a (Some u) \<noteq> None"
  by (simp add: commit_def split: decision.split)

lemma commits_Some: "\<exists>v. commits mu ops (Some u) = Some v"
proof (induction ops arbitrary: u)
  case (Cons a ops)
  obtain z where "commit mu a (Some u) = Some z" using commit_Some [of mu a u] by blast
  with Cons [of z] show ?case by simp
qed simp

text \<open>An update commits the callback's decision on the key and leaves the other keys alone, unless the store fails.\<close>

lemma update_commit:
  assumes "update_outcome k f c calls res c'"
  shows "(\<forall>j. j \<noteq> k \<longrightarrow> value_at c' j = value_at c j) \<and>
    (value_at c' k = commit (\<lambda>_. f) () (value_at c k) \<or>
     (\<exists>e. res = Inl e \<and> store_error e \<and> value_at c' k = value_at c k))"
  using assms by (auto simp: update_outcome_def commit_def split: sum.splits bool.splits)

lemma delete_commit:
  assumes "delete_outcome k sv c r c'"
  shows "(\<forall>j. j \<noteq> k \<longrightarrow> value_at c' j = value_at c j) \<and>
    (version_at c k = ver_Version sv \<and> value_at c' k = None \<or>
     (\<exists>e. r = Some e \<and> (store_error e \<or> e = [VersionMismatch]) \<and> value_at c' k = value_at c k))"
  using assms by (auto simp: delete_outcome_def value_at_def split: option.splits)

text \<open>Every value a store holds.\<close>

definition all_values :: "('v \<Rightarrow> bool) \<Rightarrow> ('k, 'v) contents \<Rightarrow> bool" where
  "all_values P c \<longleftrightarrow> (\<forall>k v. value_at c k = Some v \<longrightarrow> P v)"

locale cas_cell =
  fixes mutate :: "'op \<Rightarrow> 'v mutate"
    and allowed :: "'op \<Rightarrow> bool"
    and inv :: "'v \<Rightarrow> bool"
    and le :: "'v \<Rightarrow> 'v \<Rightarrow> bool"
  assumes create_inv: "allowed a \<Longrightarrow> mutate a None = Save v \<Longrightarrow> inv v"
    and save_inv: "allowed a \<Longrightarrow> inv u \<Longrightarrow> mutate a (Some u) = Save v \<Longrightarrow> inv v"
    and save_le: "allowed a \<Longrightarrow> inv u \<Longrightarrow> mutate a (Some u) = Save v \<Longrightarrow> le u v"
    and le_refl: "le u u"
    and le_trans: "le u v \<Longrightarrow> le v z \<Longrightarrow> le u z"
begin

lemma commit_inv:
  assumes "allowed a" "\<forall>u. cur = Some u \<longrightarrow> inv u" "commit mutate a cur = Some v"
  shows "inv v"
proof (cases "mutate a cur")
  case (Save z)
  with assms(3) have "z = v" by (simp add: commit_def)
  with Save show ?thesis
    using assms(1,2) create_inv save_inv by (cases cur) blast+
qed (use assms in \<open>auto simp: commit_def\<close>)

lemma commit_le:
  assumes "allowed a" "inv u" "commit mutate a (Some u) = Some v"
  shows "le u v"
proof (cases "mutate a (Some u)")
  case (Save z)
  with assms show ?thesis using save_le by (simp add: commit_def)
qed (use assms le_refl in \<open>auto simp: commit_def\<close>)

lemma commits_inv:
  "list_all allowed ops \<Longrightarrow> \<forall>u. cur = Some u \<longrightarrow> inv u \<Longrightarrow> commits mutate ops cur = Some v \<Longrightarrow> inv v"
proof (induction ops arbitrary: cur)
  case (Cons a ops)
  have "\<forall>u. commit mutate a cur = Some u \<longrightarrow> inv u"
    using Cons.prems commit_inv by auto
  with Cons show ?case by auto
qed auto

lemma commits_le:
  "list_all allowed ops \<Longrightarrow> inv u \<Longrightarrow> commits mutate ops (Some u) = Some v \<Longrightarrow> le u v"
proof (induction ops arbitrary: u)
  case (Cons a ops)
  obtain z where z: "commit mutate a (Some u) = Some z"
    using commit_Some [of mutate a u] by blast
  then have "le u z" "inv z" using Cons.prems commit_le commit_inv [of a "Some u" z] by auto
  moreover have "le z v" using Cons z \<open>inv z\<close> by auto
  ultimately show ?case using le_trans by blast
qed (auto simp: le_refl)

lemma update_all_values:
  assumes "allowed a" "all_values inv c" "update_outcome k (mutate a) c calls r c'"
  shows "all_values inv c'"
proof -
  have saved: "inv v" if "mutate a (value_at c k) = Save v" for v
  proof (cases "value_at c k")
    case None
    with that assms(1) show ?thesis by (auto intro: create_inv)
  next
    case (Some u)
    with assms(2) have "inv u" by (simp add: all_values_def)
    with that assms(1) Some show ?thesis by (auto intro: save_inv)
  qed
  have "all_values inv c'" if "mutate a (value_at c k) = Save v" "written k v c c'" for v
    using assms(2) saved [OF that(1)] that(2) by (simp add: all_values_def)
  moreover have "c' = c \<or> (\<exists>v. mutate a (value_at c k) = Save v \<and> written k v c c')"
    using assms(3) by (simp add: update_outcome_def split: sum.splits bool.splits) auto
  ultimately show ?thesis using assms(2) by blast
qed

lemma create_all_values:
  assumes "inv v" "all_values inv c" "create_outcome k v c r c'"
  shows "all_values inv c'"
  using assms
  by (auto simp: create_outcome_def all_values_def split: sum.splits option.splits if_splits)

end

section \<open>An instance: a store in memory\<close>

text \<open>
  A store that keeps the contract, for the witnesses: a map, and a script of which of the next
  calls fail (an exhausted script means no more failures).
\<close>

record ('k, 'v) mem =
  mem_map :: "('k, 'v) contents"
  mem_faults :: "bool list"

definition mem_of :: "('k \<times> 'v) list \<Rightarrow> ('k, 'v) mem" where
  "mem_of kvs = \<lparr>mem_map = map_of (map (\<lambda>(k, v). (k, \<lparr>ver_Value = v, ver_Version = 1\<rparr>)) kvs),
                 mem_faults = []\<rparr>"

definition faulty :: "('k, 'v) mem \<Rightarrow> bool" where
  "faulty x = (case mem_faults x of b # _ \<Rightarrow> b | [] \<Rightarrow> False)"

definition calm :: "('k, 'v) mem \<Rightarrow> ('k, 'v) mem" where
  "calm x = x\<lparr>mem_faults := tl (mem_faults x)\<rparr>"

definition mem_put :: "'k \<Rightarrow> 'v \<Rightarrow> ('k, 'v) mem \<Rightarrow> ('k, 'v) mem" where
  "mem_put k v x =
     x\<lparr>mem_map := (mem_map x)(k \<mapsto> \<lparr>ver_Value = v, ver_Version = max 0 (version_at (mem_map x) k) + 1\<rparr>)\<rparr>"

definition mem_store :: "(('k, 'v) mem, 'k, 'v) vstore" where
  "mem_store =
   \<lparr>vs_Get = (\<lambda>k x. if faulty x then (Inl [Foreign ''store unavailable''], calm x)
                    else (Inr (mem_map x k), calm x)),
    vs_Create = (\<lambda>k v x. if faulty x then (Inl [Foreign ''store unavailable''], calm x)
                    else if mem_map x k \<noteq> None then (Inr None, calm x)
                    else (let y = mem_put k v (calm x) in (Inr (mem_map y k), y))),
    vs_Update = (\<lambda>k f x. if faulty x then ([], Inl [Foreign ''store unavailable''], calm x)
                    else (let cur = value_at (mem_map x) k in
                          case f cur of Save v \<Rightarrow> ([cur], Inr True, mem_put k v (calm x))
                          | Keep \<Rightarrow> ([cur], Inr False, calm x)
                          | Fail e \<Rightarrow> ([cur], Inl e, calm x))),
    vs_Delete = (\<lambda>k sv x. if faulty x then (Some [Foreign ''store unavailable''], calm x)
                    else if version_at (mem_map x) k = ver_Version sv
                         then (None, (calm x)\<lparr>mem_map := (mem_map x)(k := None)\<rparr>)
                         else (Some [VersionMismatch], calm x))\<rparr>"

lemmas mem_eval = mem_store_def faulty_def calm_def mem_of_def mem_put_def value_at_def version_at_def

lemma mem_map_calm [simp]: "mem_map (calm x) = mem_map x"
  by (simp add: calm_def)

lemma mem_put_written [simp]: "written k v (mem_map x) (mem_map (mem_put k v (calm x)))"
  by (auto simp: written_def mem_put_def intro!: exI [of _ "max 0 (version_at (mem_map x) k) + 1"])

lemma mem_put_get [simp]:
  "mem_map (mem_put k v x) k =
     Some \<lparr>ver_Value = v, ver_Version = max 0 (version_at (mem_map x) k) + 1\<rparr>"
  by (simp add: mem_put_def)

theorem mem_store_contract: "vs_contract mem_map (=) mem_store"
  unfolding vs_contract_def
  by (intro conjI allI impI)
    (auto simp: mem_store_def get_outcome_def create_outcome_def update_outcome_def delete_outcome_def
      store_error_def Let_def split: if_splits decision.splits)

text \<open>The same store without its script of failures.\<close>

definition safe_store :: "(('k, 'v) mem, 'k, 'v) vstore" where
  "safe_store =
   \<lparr>vs_Get = (\<lambda>k x. (Inr (mem_map x k), x)),
    vs_Create = (\<lambda>k v x. if mem_map x k \<noteq> None then (Inr None, x)
                         else (let y = mem_put k v x in (Inr (mem_map y k), y))),
    vs_Update = (\<lambda>k f x. let cur = value_at (mem_map x) k in
                          (case f cur of Save v \<Rightarrow> ([cur], Inr True, mem_put k v x)
                           | Keep \<Rightarrow> ([cur], Inr False, x)
                           | Fail e \<Rightarrow> ([cur], Inl e, x))),
    vs_Delete = (\<lambda>k sv x. if version_at (mem_map x) k = ver_Version sv
                          then (None, x\<lparr>mem_map := (mem_map x)(k := None)\<rparr>)
                          else (Some [VersionMismatch], x))\<rparr>"

lemma mem_put_written' [simp]: "written k v (mem_map x) (mem_map (mem_put k v x))"
  by (auto simp: written_def mem_put_def intro!: exI [of _ "max 0 (version_at (mem_map x) k) + 1"])

lemma safe_store_contract: "vs_contract mem_map (=) safe_store"
  unfolding vs_contract_def
  by (intro conjI allI impI)
    (auto simp: safe_store_def get_outcome_def create_outcome_def update_outcome_def delete_outcome_def
      Let_def split: if_splits decision.splits)

end
