(* ===== verification/Global.thy ===== *)
theory Global
  imports VersionStore
begin

text \<open>
  Package \<open>service/global\<close> (\<open>types.go\<close>, \<open>service.go\<close>): which coordination group and instance
  serve a game server (the route binding, migrated in two steps under an epoch), and the
  liveness lease of each game server (held by an incarnation token). The callbacks of the
  \<open>Update\<close> calls are definitions of their own (\<open>..._mutate\<close>), the handlers run them through the
  store parameter. The second half proves the invariants of both records for every interleaving
  of operations.
\<close>

section \<open>Errors and bounds (types.go)\<close>

abbreviation "ErrRouteInvalid \<equiv> Coded 570101"
abbreviation "ErrRouteMissing \<equiv> Coded 570102"
abbreviation "ErrRouteStale \<equiv> Coded 570103"
abbreviation "ErrRouteMigrating \<equiv> Coded 570104"
abbreviation "ErrLeaseInvalid \<equiv> Coded 570105"
abbreviation "ErrLeaseMissing \<equiv> Coded 570106"
abbreviation "ErrLeaseNotHolder \<equiv> Coded 570107"
abbreviation "ErrLeaseExpired \<equiv> Coded 570108"
abbreviation "ErrGlobalRangeInvalid \<equiv> Coded 570109"
abbreviation "ErrGlobalConflict \<equiv> Coded 570110"

definition GlobalMaxPageSize :: int where [bound_defs]: "GlobalMaxPageSize = 200"
definition MaxLoadEntries :: nat where [bound_defs]: "MaxLoadEntries = 32"

section \<open>Route bindings and leases (types.go)\<close>

datatype route_state = RouteActive | RouteMigrating

record RouteBinding =
  rb_GameSID :: int
  rb_GlobalGroupID :: string
  rb_GlobalSID :: int
  rb_TargetGlobalSID :: int
  rb_Epoch :: int
  rb_State :: route_state
  rb_UpdatedAtUnix :: int

definition RouteBinding_Validate :: "RouteBinding \<Rightarrow> gerr option" where
  "RouteBinding_Validate b =
     (if rb_GameSID b \<le> 0 then Some [ErrRouteInvalid]
      else if blank (rb_GlobalGroupID b) then Some [ErrRouteInvalid]
      else if rb_GlobalSID b \<le> 0 then Some [ErrRouteInvalid]
      else None)"

datatype lease_state = LeaseActive | LeaseReleased | LeaseLapsed

text \<open>\<open>Load\<close> is a Go map; it is kept as the list of its entries.\<close>

record GameLease =
  gl_GameSID :: int
  gl_Incarnation :: string
  gl_GlobalGroupID :: string
  gl_GlobalSID :: int
  gl_RouteEpoch :: int
  gl_State :: lease_state
  gl_Load :: "(string \<times> string) list"
  gl_StartedAtUnix :: int
  gl_LastHeartbeatAtUnix :: int
  gl_ExpiresAtUnix :: int

definition Expired :: "GameLease \<Rightarrow> int \<Rightarrow> bool" where
  "Expired l nowUnix =
     (if gl_State l \<noteq> LeaseActive \<or> gl_ExpiresAtUnix l = 0 then False
      else gl_ExpiresAtUnix l \<le> nowUnix)"

definition Held :: "GameLease \<Rightarrow> string \<Rightarrow> int \<Rightarrow> bool" where
  "Held l incarnation nowUnix \<longleftrightarrow>
     gl_State l = LeaseActive \<and> gl_Incarnation l = incarnation \<and> \<not> Expired l nowUnix"

definition validateLoad :: "(string \<times> string) list \<Rightarrow> gerr option" where
  "validateLoad load = (if length load > MaxLoadEntries then Some [ErrLeaseInvalid] else None)"

definition cloneLoad :: "(string \<times> string) list \<Rightarrow> (string \<times> string) list" where
  "cloneLoad load = (if load = [] then [] else load)"

text \<open>
  \<open>Error\<close> maps the foreign conflict sentinel to this package's own and leaves everything else to
  \<open>errcode.ClientError\<close>, a parameter.
\<close>

definition GlobalError :: "(gerr \<Rightarrow> int \<times> string) \<Rightarrow> gerr option \<Rightarrow> int \<times> string" where
  "GlobalError clientError err =
     (case err of None \<Rightarrow> (0, [])
      | Some e \<Rightarrow> if Is e StoreConflict then clientError [ErrGlobalConflict] else clientError e)"

definition GlobalCode :: "(gerr \<Rightarrow> int \<times> string) \<Rightarrow> gerr option \<Rightarrow> int" where
  "GlobalCode clientError err = fst (GlobalError clientError err)"

section \<open>The service (service.go)\<close>

record ('r, 'l) GlobalConfig =
  gc_Routes :: "('r, int, RouteBinding) vstore"
  gc_Leases :: "('l, int, GameLease) vstore"
  gc_LeaseTTL :: duration
  gc_Now :: "nat \<Rightarrow> time"
  gc_NewIncarnation :: "nat \<Rightarrow> gerr + string"

text \<open>The world: the two store states, and how many incarnation tokens were minted.\<close>

record ('r, 'l) gworld = env +
  gw_Routes :: 'r
  gw_Leases :: 'l
  gw_Minted :: nat

definition DefaultLeaseTTL :: duration where "DefaultLeaseTTL = 30 * Second"

text \<open>\<open>New\<close>: absent stores are refused, a zero TTL, clock or minter selects its default.\<close>

definition GlobalNew ::
  "('r, int, RouteBinding) vstore option \<Rightarrow> ('l, int, GameLease) vstore option \<Rightarrow> duration \<Rightarrow>
   (nat \<Rightarrow> time) option \<Rightarrow> (nat \<Rightarrow> gerr + string) option \<Rightarrow>
   (nat \<Rightarrow> time) \<Rightarrow> (nat \<Rightarrow> gerr + string) \<Rightarrow> gerr + ('r, 'l) GlobalConfig" where
  "GlobalNew routes leases ttl now minter systemNow randomIncarnation =
     (case routes of None \<Rightarrow> Inl [Foreign ''global: route store is required'']
      | Some rs \<Rightarrow>
     (case leases of None \<Rightarrow> Inl [Foreign ''global: lease store is required'']
      | Some ls \<Rightarrow>
     (if ttl < 0 then Inl [Foreign ''global: lease ttl must not be negative'']
      else Inr \<lparr>gc_Routes = rs, gc_Leases = ls,
                gc_LeaseTTL = (if ttl = 0 then DefaultLeaseTTL else ttl),
                gc_Now = (case now of None \<Rightarrow> systemNow | Some n \<Rightarrow> n),
                gc_NewIncarnation = (case minter of None \<Rightarrow> randomIncarnation | Some f \<Rightarrow> f)\<rparr>)))"

text \<open>The calls on the two stores.\<close>

abbreviation "routesGet cfg \<equiv> getE gw_Routes gw_Routes_update (gc_Routes cfg)"
abbreviation "routesCreate cfg \<equiv> createE gw_Routes gw_Routes_update (gc_Routes cfg)"
abbreviation "routesUpdate cfg \<equiv> mutateE gw_Routes gw_Routes_update (gc_Routes cfg)"
abbreviation "leasesGet cfg \<equiv> getE gw_Leases gw_Leases_update (gc_Leases cfg)"
abbreviation "leasesUpdate cfg \<equiv> mutateE gw_Leases gw_Leases_update (gc_Leases cfg)"

subsection \<open>Route binding\<close>

definition new_binding :: "int \<Rightarrow> string \<Rightarrow> int \<Rightarrow> time \<Rightarrow> RouteBinding" where
  "new_binding gameSID groupID globalSID now =
     \<lparr>rb_GameSID = gameSID, rb_GlobalGroupID = groupID, rb_GlobalSID = globalSID,
      rb_TargetGlobalSID = 0, rb_Epoch = 1, rb_State = RouteActive, rb_UpdatedAtUnix = Unix now\<rparr>"

definition Bind ::
  "('r, 'l) GlobalConfig \<Rightarrow> int \<Rightarrow> string \<Rightarrow> int \<Rightarrow> (('r, 'l) gworld, RouteBinding) handler" where
  "Bind cfg gameSID groupID globalSID =
     bindE (nowE (gc_Now cfg)) (\<lambda>now.
       let binding = new_binding gameSID groupID globalSID now in
       thenE (guardE (RouteBinding_Validate binding))
         (bindE (routesCreate cfg gameSID binding) (\<lambda>stored.
            case stored of
              None \<Rightarrow> thenE (reportE (Conflict ''bind'')) (raiseE [ErrGlobalConflict])
            | Some sv \<Rightarrow> thenE (reportE (Accepted ''bind'')) (retE (ver_Value sv)))))"

definition Resolve :: "('r, 'l) GlobalConfig \<Rightarrow> int \<Rightarrow> (('r, 'l) gworld, RouteBinding) handler" where
  "Resolve cfg gameSID =
     bindE (routesGet cfg gameSID) (\<lambda>current.
       case current of None \<Rightarrow> raiseE [ErrRouteMissing] | Some sv \<Rightarrow> retE (ver_Value sv))"

definition begin_next :: "int \<Rightarrow> time \<Rightarrow> RouteBinding \<Rightarrow> RouteBinding" where
  "begin_next target now current =
     current\<lparr>rb_State := RouteMigrating, rb_TargetGlobalSID := target,
             rb_Epoch := u64 (rb_Epoch current + 1), rb_UpdatedAtUnix := Unix now\<rparr>"

definition begin_mutate :: "int \<Rightarrow> int \<Rightarrow> time \<Rightarrow> RouteBinding mutate" where
  "begin_mutate target expectEpoch now cur =
     (case cur of
        None \<Rightarrow> Fail [ErrRouteMissing]
      | Some current \<Rightarrow>
          if rb_Epoch current \<noteq> expectEpoch then Fail [ErrRouteStale]
          else if rb_State current = RouteMigrating then Fail [ErrRouteMigrating]
          else if target = rb_GlobalSID current then Fail [ErrRouteInvalid]
          else Save (begin_next target now current))"

text \<open>The event a callback reports when it finds a stale epoch.\<close>

definition stale_events :: "string \<Rightarrow> int \<Rightarrow> RouteBinding option \<Rightarrow> event list" where
  "stale_events op expectEpoch cur =
     (case cur of None \<Rightarrow> []
      | Some current \<Rightarrow>
          if rb_Epoch current \<noteq> expectEpoch then [Refused op ''stale_epoch''] else [])"

text \<open>The zero value of the captured \<open>result\<close> variables.\<close>

definition zero_binding :: RouteBinding where
  "zero_binding = \<lparr>rb_GameSID = 0, rb_GlobalGroupID = [], rb_GlobalSID = 0, rb_TargetGlobalSID = 0,
     rb_Epoch = 0, rb_State = RouteActive, rb_UpdatedAtUnix = 0\<rparr>"

definition BeginMigration ::
  "('r, 'l) GlobalConfig \<Rightarrow> int \<Rightarrow> int \<Rightarrow> int \<Rightarrow> (('r, 'l) gworld, RouteBinding) handler" where
  "BeginMigration cfg gameSID targetGlobalSID expectEpoch =
     (if targetGlobalSID \<le> 0 then raiseE [ErrRouteInvalid]
      else bindE (nowE (gc_Now cfg)) (\<lambda>now.
        bindE (routesUpdate cfg gameSID (stale_events ''begin_migration'' expectEpoch)
                 (begin_mutate targetGlobalSID expectEpoch now)) (\<lambda>(calls, applied).
          thenE (reportE (Accepted ''begin_migration''))
            (retE (saved_or zero_binding (begin_mutate targetGlobalSID expectEpoch now (seen calls)))))))"

definition complete_next :: "time \<Rightarrow> RouteBinding \<Rightarrow> RouteBinding" where
  "complete_next now current =
     current\<lparr>rb_GlobalSID := rb_TargetGlobalSID current, rb_TargetGlobalSID := 0,
             rb_State := RouteActive, rb_Epoch := u64 (rb_Epoch current + 1),
             rb_UpdatedAtUnix := Unix now\<rparr>"

definition complete_mutate :: "int \<Rightarrow> time \<Rightarrow> RouteBinding mutate" where
  "complete_mutate expectEpoch now cur =
     (case cur of
        None \<Rightarrow> Fail [ErrRouteMissing]
      | Some current \<Rightarrow>
          if rb_Epoch current \<noteq> expectEpoch then Fail [ErrRouteStale]
          else if rb_State current \<noteq> RouteMigrating then Keep
          else Save (complete_next now current))"

definition CompleteMigration ::
  "('r, 'l) GlobalConfig \<Rightarrow> int \<Rightarrow> int \<Rightarrow> (('r, 'l) gworld, RouteBinding) handler" where
  "CompleteMigration cfg gameSID expectEpoch =
     bindE (nowE (gc_Now cfg)) (\<lambda>now.
       bindE (routesUpdate cfg gameSID (stale_events ''complete_migration'' expectEpoch)
                (complete_mutate expectEpoch now)) (\<lambda>(calls, applied).
         let replayed = (complete_mutate expectEpoch now (seen calls) = Keep) in
         thenE (reportE (if replayed then Replayed ''complete_migration''
                         else Accepted ''complete_migration''))
           (retE (result_of (complete_mutate expectEpoch now) zero_binding (seen calls)))))"

definition abort_next :: "time \<Rightarrow> RouteBinding \<Rightarrow> RouteBinding" where
  "abort_next now current =
     current\<lparr>rb_TargetGlobalSID := 0, rb_State := RouteActive,
             rb_Epoch := u64 (rb_Epoch current + 1), rb_UpdatedAtUnix := Unix now\<rparr>"

definition abort_mutate :: "int \<Rightarrow> time \<Rightarrow> RouteBinding mutate" where
  "abort_mutate expectEpoch now cur =
     (case cur of
        None \<Rightarrow> Fail [ErrRouteMissing]
      | Some current \<Rightarrow>
          if rb_Epoch current \<noteq> expectEpoch then Fail [ErrRouteStale]
          else if rb_State current \<noteq> RouteMigrating then Keep
          else Save (abort_next now current))"

definition AbortMigration ::
  "('r, 'l) GlobalConfig \<Rightarrow> int \<Rightarrow> int \<Rightarrow> (('r, 'l) gworld, RouteBinding) handler" where
  "AbortMigration cfg gameSID expectEpoch =
     bindE (nowE (gc_Now cfg)) (\<lambda>now.
       bindE (routesUpdate cfg gameSID (stale_events ''abort_migration'' expectEpoch)
                (abort_mutate expectEpoch now)) (\<lambda>(calls, applied).
         thenE (reportE (Accepted ''abort_migration''))
           (retE (result_of (abort_mutate expectEpoch now) zero_binding (seen calls)))))"

subsection \<open>Game lease\<close>

definition takeable :: "time \<Rightarrow> GameLease option \<Rightarrow> bool" where
  "takeable now cur =
     (case cur of None \<Rightarrow> True
      | Some current \<Rightarrow> \<not> (gl_State current = LeaseActive \<and> \<not> Expired current (Unix now)))"

definition new_lease :: "int \<Rightarrow> RouteBinding \<Rightarrow> duration \<Rightarrow> time \<Rightarrow> string \<Rightarrow> GameLease" where
  "new_lease gameSID binding ttl now incarnation =
     \<lparr>gl_GameSID = gameSID, gl_Incarnation = incarnation,
      gl_GlobalGroupID = rb_GlobalGroupID binding, gl_GlobalSID = rb_GlobalSID binding,
      gl_RouteEpoch = rb_Epoch binding, gl_State = LeaseActive, gl_Load = [],
      gl_StartedAtUnix = Unix now, gl_LastHeartbeatAtUnix = Unix now,
      gl_ExpiresAtUnix = Unix (Add now ttl)\<rparr>"

text \<open>
  The callback mints its token once the lease is known to be takeable, and keeps it across
  retries; \<open>minted\<close> is what that one call of \<open>NewIncarnation\<close> returns (a minter that returns an
  empty token without an error, and would be asked again, is left out).
\<close>

definition acquire_mutate ::
  "int \<Rightarrow> RouteBinding \<Rightarrow> duration \<Rightarrow> time \<Rightarrow> gerr + string \<Rightarrow> GameLease mutate" where
  "acquire_mutate gameSID binding ttl now minted cur =
     (if \<not> takeable now cur then Fail [ErrGlobalConflict]
      else case minted of
             Inl e \<Rightarrow> Fail e
           | Inr incarnation \<Rightarrow> Save (new_lease gameSID binding ttl now incarnation))"

definition acquire_events :: "time \<Rightarrow> GameLease option \<Rightarrow> event list" where
  "acquire_events now cur = (if takeable now cur then [] else [Refused ''acquire_lease'' ''held''])"

definition zero_lease :: GameLease where
  "zero_lease = \<lparr>gl_GameSID = 0, gl_Incarnation = [], gl_GlobalGroupID = [], gl_GlobalSID = 0,
     gl_RouteEpoch = 0, gl_State = LeaseReleased, gl_Load = [], gl_StartedAtUnix = 0,
     gl_LastHeartbeatAtUnix = 0, gl_ExpiresAtUnix = 0\<rparr>"

definition AcquireLease :: "('r, 'l) GlobalConfig \<Rightarrow> int \<Rightarrow> (('r, 'l) gworld, GameLease) handler" where
  "AcquireLease cfg gameSID =
     bindE (Resolve cfg gameSID) (\<lambda>binding.
     bindE (nowE (gc_Now cfg)) (\<lambda>now.
     bindE (readE gw_Minted) (\<lambda>n.
       let f = acquire_mutate gameSID binding (gc_LeaseTTL cfg) now (gc_NewIncarnation cfg n) in
       bindE (updateE gw_Leases gw_Leases_update (gc_Leases cfg) gameSID f) (\<lambda>(calls, r).
         thenE (modifyE (\<lambda>w. if list_ex (takeable now) calls then w\<lparr>gw_Minted := Suc n\<rparr> else w))
        (thenE (reportsE (concat (map (acquire_events now) calls)))
          (case r of Inl e \<Rightarrow> raiseE e
           | Inr applied \<Rightarrow>
               thenE (reportE (Accepted ''acquire_lease'')) (retE (saved_or zero_lease (f (seen calls))))))))))"

definition renew_next :: "duration \<Rightarrow> time \<Rightarrow> (string \<times> string) list \<Rightarrow> GameLease \<Rightarrow> GameLease" where
  "renew_next ttl now load current =
     current\<lparr>gl_LastHeartbeatAtUnix := Unix now, gl_ExpiresAtUnix := Unix (Add now ttl),
             gl_Load := cloneLoad load\<rparr>"

definition renew_mutate ::
  "string \<Rightarrow> duration \<Rightarrow> time \<Rightarrow> (string \<times> string) list \<Rightarrow> GameLease mutate" where
  "renew_mutate incarnation ttl now load cur =
     (case cur of
        None \<Rightarrow> Fail [ErrLeaseMissing]
      | Some current \<Rightarrow>
          if gl_Incarnation current \<noteq> incarnation then Fail [ErrLeaseNotHolder]
          else if gl_State current \<noteq> LeaseActive then Fail [ErrLeaseExpired]
          else if Expired current (Unix now) then Fail [ErrLeaseExpired]
          else Save (renew_next ttl now load current))"

definition renew_events :: "string \<Rightarrow> time \<Rightarrow> GameLease option \<Rightarrow> event list" where
  "renew_events incarnation now cur =
     (case cur of
        None \<Rightarrow> []
      | Some current \<Rightarrow>
          if gl_Incarnation current \<noteq> incarnation then [Refused ''renew_lease'' ''not_holder'']
          else if gl_State current \<noteq> LeaseActive then [Refused ''renew_lease'' ''released'']
          else if Expired current (Unix now) then [Refused ''renew_lease'' ''lapsed'']
          else [])"

definition RenewLease ::
  "('r, 'l) GlobalConfig \<Rightarrow> int \<Rightarrow> string \<Rightarrow> (string \<times> string) list \<Rightarrow>
   (('r, 'l) gworld, GameLease) handler" where
  "RenewLease cfg gameSID incarnation load =
     (if incarnation = [] then raiseE [ErrLeaseInvalid]
      else thenE (guardE (validateLoad load))
       (bindE (nowE (gc_Now cfg)) (\<lambda>now.
          let f = renew_mutate incarnation (gc_LeaseTTL cfg) now load in
          bindE (leasesUpdate cfg gameSID (renew_events incarnation now) f) (\<lambda>(calls, applied).
            thenE (reportE (Accepted ''renew_lease'')) (retE (saved_or zero_lease (f (seen calls))))))))"

definition release_next :: "time \<Rightarrow> GameLease \<Rightarrow> GameLease" where
  "release_next now current =
     current\<lparr>gl_State := LeaseReleased, gl_ExpiresAtUnix := 0, gl_LastHeartbeatAtUnix := Unix now\<rparr>"

definition release_mutate :: "string \<Rightarrow> time \<Rightarrow> GameLease mutate" where
  "release_mutate incarnation now cur =
     (case cur of
        None \<Rightarrow> Keep
      | Some current \<Rightarrow>
          if gl_Incarnation current \<noteq> incarnation then Keep
          else if gl_State current = LeaseReleased then Keep
          else Save (release_next now current))"

text \<open>
  The captured \<open>notOurs\<close> and \<open>replayed\<close> are set and never reset, so a run that lost its
  compare-and-set leaves them behind; no such run sets them, since it wrote.
\<close>

definition release_not_ours :: "string \<Rightarrow> GameLease option \<Rightarrow> bool" where
  "release_not_ours incarnation cur =
     (case cur of None \<Rightarrow> False | Some current \<Rightarrow> gl_Incarnation current \<noteq> incarnation)"

definition release_replayed :: "string \<Rightarrow> GameLease option \<Rightarrow> bool" where
  "release_replayed incarnation cur =
     (case cur of None \<Rightarrow> True
      | Some current \<Rightarrow> gl_Incarnation current = incarnation \<and> gl_State current = LeaseReleased)"

definition ReleaseLease ::
  "('r, 'l) GlobalConfig \<Rightarrow> int \<Rightarrow> string \<Rightarrow> (('r, 'l) gworld, unit) handler" where
  "ReleaseLease cfg gameSID incarnation =
     (if incarnation = [] then raiseE [ErrLeaseInvalid]
      else bindE (nowE (gc_Now cfg)) (\<lambda>now.
        bindE (leasesUpdate cfg gameSID (\<lambda>_. []) (release_mutate incarnation now)) (\<lambda>(calls, applied).
          reportE (if list_ex (release_not_ours incarnation) calls
                   then Dropped ''release_lease.not_ours'' 1
                   else if list_ex (release_replayed incarnation) calls then Replayed ''release_lease''
                   else Accepted ''release_lease''))))"

definition Lease :: "('r, 'l) GlobalConfig \<Rightarrow> int \<Rightarrow> (('r, 'l) gworld, GameLease option) handler" where
  "Lease cfg gameSID =
     bindE (leasesGet cfg gameSID) (\<lambda>current.
       case current of
         None \<Rightarrow> retE None
       | Some sv \<Rightarrow>
           bindE (nowE (gc_Now cfg)) (\<lambda>now.
             let lease = ver_Value sv in
             retE (Some (if Expired lease (Unix now) then lease\<lparr>gl_State := LeaseLapsed\<rparr> else lease))))"

definition live_in :: "string \<Rightarrow> int \<Rightarrow> GameLease \<Rightarrow> bool" where
  "live_in groupID nowUnix lease \<longleftrightarrow>
     \<not> (gl_GlobalGroupID lease \<noteq> groupID \<or> gl_State lease \<noteq> LeaseActive \<or> Expired lease nowUnix)"

fun live_loop ::
  "('r, 'l) GlobalConfig \<Rightarrow> string \<Rightarrow> int \<Rightarrow> int \<Rightarrow> int list \<Rightarrow> GameLease list \<Rightarrow>
   (('r, 'l) gworld, GameLease list) handler" where
  "live_loop cfg groupID limit nowUnix [] out = retE out"
| "live_loop cfg groupID limit nowUnix (gameSID # rest) out =
     bindE (leasesGet cfg gameSID) (\<lambda>current.
       case current of
         None \<Rightarrow> live_loop cfg groupID limit nowUnix rest out
       | Some sv \<Rightarrow>
           if \<not> live_in groupID nowUnix (ver_Value sv)
           then live_loop cfg groupID limit nowUnix rest out
           else let out' = out @ [ver_Value sv] in
                if int (length out') = limit then retE out'
                else live_loop cfg groupID limit nowUnix rest out')"

definition LiveGames ::
  "('r, 'l) GlobalConfig \<Rightarrow> string \<Rightarrow> int list \<Rightarrow> int \<Rightarrow> (('r, 'l) gworld, GameLease list) handler" where
  "LiveGames cfg groupID candidates limit =
     (if limit \<le> 0 then raiseE [ErrGlobalRangeInvalid]
      else if limit > GlobalMaxPageSize then raiseE [ErrGlobalRangeInvalid]
      else if int (length candidates) > GlobalMaxPageSize then raiseE [ErrGlobalRangeInvalid]
      else bindE (nowE (gc_Now cfg)) (\<lambda>now. live_loop cfg groupID limit (Unix now) candidates []))"


section \<open>The route binding under any interleaving\<close>

text \<open>
  The operations that write one game server's binding, with the arguments their callbacks close
  over. \<open>Bind\<close> goes through the insert-only \<open>Create\<close>, so it leaves an existing record alone.
\<close>

datatype route_op =
    BindOp int string int time
  | BeginOp int int time
  | CompleteOp int time
  | AbortOp int time

fun route_mutate :: "route_op \<Rightarrow> RouteBinding mutate" where
  "route_mutate (BindOp gameSID groupID globalSID now) cur =
     (case RouteBinding_Validate (new_binding gameSID groupID globalSID now) of
        Some e \<Rightarrow> Fail e
      | None \<Rightarrow> (case cur of None \<Rightarrow> Save (new_binding gameSID groupID globalSID now) | Some _ \<Rightarrow> Keep))"
| "route_mutate (BeginOp target expectEpoch now) cur =
     (if target \<le> 0 then Fail [ErrRouteInvalid] else begin_mutate target expectEpoch now cur)"
| "route_mutate (CompleteOp expectEpoch now) cur = complete_mutate expectEpoch now cur"
| "route_mutate (AbortOp expectEpoch now) cur = abort_mutate expectEpoch now cur"

text \<open>The epoch an operation presents, and the bound that keeps the 64 bit epoch from wrapping.\<close>

fun presented :: "route_op \<Rightarrow> int option" where
  "presented (BindOp _ _ _ _) = None"
| "presented (BeginOp _ e _) = Some e"
| "presented (CompleteOp e _) = Some e"
| "presented (AbortOp e _) = Some e"

definition epoch_fits :: "route_op \<Rightarrow> bool" where
  "epoch_fits a \<longleftrightarrow> (case presented a of None \<Rightarrow> True | Some e \<Rightarrow> e + 1 < 2 ^ 64)"

text \<open>
  The invariant of a binding: valid, its epoch positive, and a target exactly while it is moving,
  which is not where it already is.
\<close>

definition route_ok :: "RouteBinding \<Rightarrow> bool" where
  "route_ok b \<longleftrightarrow>
     RouteBinding_Validate b = None \<and> 1 \<le> rb_Epoch b \<and> rb_Epoch b < 2 ^ 64 \<and>
     (rb_State b = RouteMigrating \<longrightarrow> 0 < rb_TargetGlobalSID b \<and> rb_TargetGlobalSID b \<noteq> rb_GlobalSID b) \<and>
     (rb_State b = RouteActive \<longrightarrow> rb_TargetGlobalSID b = 0)"

text \<open>What later versions of a binding keep: its identity, and an epoch that grows with every write.\<close>

definition route_le :: "RouteBinding \<Rightarrow> RouteBinding \<Rightarrow> bool" where
  "route_le u v \<longleftrightarrow>
     rb_GameSID u = rb_GameSID v \<and> rb_GlobalGroupID u = rb_GlobalGroupID v \<and>
     (u = v \<or> rb_Epoch u < rb_Epoch v)"

lemmas route_mutate_defs = begin_mutate_def complete_mutate_def abort_mutate_def
  begin_next_def complete_next_def abort_next_def

lemma route_save_step:
  assumes "epoch_fits a" "route_ok u" "route_mutate a (Some u) = Save v"
  shows "route_ok v" "rb_GameSID u = rb_GameSID v" "rb_GlobalGroupID u = rb_GlobalGroupID v"
    "rb_Epoch v = rb_Epoch u + 1" "presented a = Some (rb_Epoch u)"
  using assms
  by (cases a; auto simp: route_ok_def route_mutate_defs epoch_fits_def RouteBinding_Validate_def u64_id
      split: if_splits option.splits)+

lemma route_create_ok: "route_mutate a None = Save v \<Longrightarrow> route_ok v"
  by (cases a) (auto simp: route_ok_def route_mutate_defs new_binding_def split: option.splits if_splits)

interpretation route: cas_cell route_mutate epoch_fits route_ok route_le
proof unfold_locales
  show "route_le u u" for u by (simp add: route_le_def)
  show "route_le u v \<Longrightarrow> route_le v z \<Longrightarrow> route_le u z" for u v z
    by (auto simp: route_le_def)
  show "epoch_fits a \<Longrightarrow> route_ok u \<Longrightarrow> route_mutate a (Some u) = Save v \<Longrightarrow> route_le u v" for a u v
    using route_save_step [of a u v] by (simp add: route_le_def)
qed (auto intro: route_create_ok route_save_step)

section \<open>The lease under any interleaving\<close>

datatype lease_op =
    AcquireOp int RouteBinding duration time string
  | RenewOp string duration time "(string \<times> string) list"
  | ReleaseOp string time

fun lease_mutate :: "lease_op \<Rightarrow> GameLease mutate" where
  "lease_mutate (AcquireOp gameSID binding ttl now token) cur =
     acquire_mutate gameSID binding ttl now (Inr token) cur"
| "lease_mutate (RenewOp token ttl now load) cur = renew_mutate token ttl now load cur"
| "lease_mutate (ReleaseOp token now) cur = release_mutate token now cur"

lemmas lease_mutate_defs = acquire_mutate_def renew_mutate_def release_mutate_def takeable_def
  new_lease_def renew_next_def release_next_def

text \<open>An operation by somebody who does not hold the lease \<open>l\<close>, while \<open>l\<close> has not lapsed.\<close>

fun outsider :: "GameLease \<Rightarrow> lease_op \<Rightarrow> bool" where
  "outsider l (AcquireOp _ _ _ now _) \<longleftrightarrow> \<not> Expired l (Unix now)"
| "outsider l (RenewOp token _ _ _) \<longleftrightarrow> token \<noteq> gl_Incarnation l"
| "outsider l (ReleaseOp token _) \<longleftrightarrow> token \<noteq> gl_Incarnation l"

lemma outsider_refused:
  "gl_State l = LeaseActive \<Longrightarrow> outsider l a \<Longrightarrow> commit lease_mutate a (Some l) = Some l"
  by (cases a) (auto simp: commit_def lease_mutate_defs)

text \<open>The token an acquire writes.\<close>

fun mints :: "string \<Rightarrow> lease_op \<Rightarrow> bool" where
  "mints t (AcquireOp _ _ _ _ token) \<longleftrightarrow> token = t"
| "mints t (RenewOp _ _ _ _) \<longleftrightarrow> False"
| "mints t (ReleaseOp _ _) \<longleftrightarrow> False"

text \<open>
  The invariant every lease keeps: it is stored as active or released, never as lapsed; a released
  lease has no deadline. With the tokens \<open>gone\<close> that later acquires do not mint again, a lease
  is never held under one of them.
\<close>

definition lease_ok :: "GameLease \<Rightarrow> bool" where
  "lease_ok l \<longleftrightarrow> gl_State l \<noteq> LeaseLapsed \<and> (gl_State l = LeaseReleased \<longrightarrow> gl_ExpiresAtUnix l = 0)"

lemma lease_save_ok: "lease_mutate a cur = Save v \<Longrightarrow> lease_ok v"
  by (cases a) (auto simp: lease_mutate_defs lease_ok_def split: option.splits if_splits)

interpretation lease: cas_cell lease_mutate "\<lambda>_. True" lease_ok "\<lambda>_ _. True"
  by unfold_locales (auto intro: lease_save_ok)

lemma lease_save_token:
  "lease_mutate a cur = Save v \<Longrightarrow>
   mints (gl_Incarnation v) a \<or> (\<exists>u. cur = Some u \<and> gl_Incarnation v = gl_Incarnation u)"
  by (cases a) (auto simp: lease_mutate_defs split: option.splits if_splits)

interpretation superseded: cas_cell lease_mutate "\<lambda>a. \<not> mints t a" "\<lambda>l. gl_Incarnation l \<noteq> t"
  "\<lambda>_ _. True" for t
  by unfold_locales (auto dest!: lease_save_token)

section \<open>What the handlers do to the stores\<close>

text \<open>One commit on the route store, and the answer computed from the value it was committed against.\<close>

lemma CompleteMigration_cases:
  assumes "vs_contract rm R (gc_Routes cfg)" "CompleteMigration cfg gameSID e w = (r, w')"
  obtains now c calls res where "R (rm (gw_Routes w)) c"
    "update_outcome gameSID (complete_mutate e now) c calls res (rm (gw_Routes w'))"
    "r = (case res of Inl err \<Rightarrow> Inl err
          | Inr _ \<Rightarrow> Inr (result_of (complete_mutate e now) zero_binding (value_at c gameSID)))"
proof -
  define now where "now = gc_Now cfg (env_ticks w)"
  obtain r1 wb where m1: "routesUpdate cfg gameSID (stale_events ''complete_migration'' e)
      (complete_mutate e now) (w\<lparr>env_ticks := Suc (env_ticks w)\<rparr>) = (r1, wb)" by fastforce
  then obtain calls res x' c where c: "R (rm (gw_Routes w)) c"
    "update_outcome gameSID (complete_mutate e now) c calls res (rm x')"
    "gw_Routes wb = x'" "r1 = (case res of Inl e \<Rightarrow> Inl e | Inr b \<Rightarrow> Inr (calls, b))"
    by (rule mutateE_cases [OF assms(1)]) auto
  show thesis
  proof (rule that [OF c(1)])
    show "update_outcome gameSID (complete_mutate e now) c calls res (rm (gw_Routes w'))"
      using c assms(2) m1 by (cases res)
        (auto simp: CompleteMigration_def bindE_def nowE_def now_def thenE_def reportE_def modifyE_def
          raiseE_def retE_def Let_def)
    show "r = (case res of Inl err \<Rightarrow> Inl err
          | Inr _ \<Rightarrow> Inr (result_of (complete_mutate e now) zero_binding (value_at c gameSID)))"
      using c assms(2) m1 outcome_seen [of gameSID "complete_mutate e now" c calls _ "rm x'"]
      by (cases res)
        (auto simp: CompleteMigration_def bindE_def nowE_def now_def thenE_def reportE_def modifyE_def
          raiseE_def retE_def Let_def)
  qed
qed

lemma RenewLease_cases:
  assumes "vs_contract lm R (gc_Leases cfg)" "RenewLease cfg gameSID incarnation load w = (r, w')"
    "incarnation \<noteq> []" "validateLoad load = None"
  obtains c calls res where "R (lm (gw_Leases w)) c"
    "update_outcome gameSID (renew_mutate incarnation (gc_LeaseTTL cfg) (gc_Now cfg (env_ticks w)) load)
       c calls res (lm (gw_Leases w'))"
    "r = (case res of Inl err \<Rightarrow> Inl err
          | Inr _ \<Rightarrow> Inr (saved_or zero_lease
              (renew_mutate incarnation (gc_LeaseTTL cfg) (gc_Now cfg (env_ticks w)) load (value_at c gameSID))))"
proof -
  define f where "f = renew_mutate incarnation (gc_LeaseTTL cfg) (gc_Now cfg (env_ticks w)) load"
  obtain r1 wb where m1: "leasesUpdate cfg gameSID (renew_events incarnation (gc_Now cfg (env_ticks w)))
      f (w\<lparr>env_ticks := Suc (env_ticks w)\<rparr>) = (r1, wb)" by fastforce
  then obtain calls res x' c where c: "R (lm (gw_Leases w)) c"
    "update_outcome gameSID f c calls res (lm x')"
    "gw_Leases wb = x'" "r1 = (case res of Inl e \<Rightarrow> Inl e | Inr b \<Rightarrow> Inr (calls, b))"
    by (rule mutateE_cases [OF assms(1)]) auto
  note unf = RenewLease_def bindE_def nowE_def thenE_def reportE_def modifyE_def
          raiseE_def retE_def guardE_def Let_def f_def
  show thesis
  proof (rule that [OF c(1), folded f_def])
    show "update_outcome gameSID f c calls res (lm (gw_Leases w'))"
      using c assms(2-4) m1 by (cases res) (auto simp: unf)
    show "r = (case res of Inl err \<Rightarrow> Inl err
          | Inr _ \<Rightarrow> Inr (saved_or zero_lease (f (value_at c gameSID))))"
      using c assms(2-4) m1 outcome_seen [of gameSID f c calls _ "lm x'"]
      by (cases res) (auto simp: unf)
  qed
qed

text \<open>\<open>LiveGames\<close> reads each candidate once and stops at the limit.\<close>

definition stored_leases :: "(int, GameLease) contents \<Rightarrow> int list \<Rightarrow> GameLease list" where
  "stored_leases c sids = List.map_filter (value_at c) sids"

lemma live_loop_reference:
  assumes "vs_contract lm (=) (gc_Leases cfg)"
  shows "live_loop cfg groupID limit nowUnix sids out w = (Inr res, w') \<Longrightarrow> int (length out) < limit \<Longrightarrow>
    lm (gw_Leases w') = lm (gw_Leases w) \<and>
    res = out @ take (nat limit - length out)
            (filter (live_in groupID nowUnix) (stored_leases (lm (gw_Leases w)) sids))"
proof (induction sids arbitrary: out w)
  case Nil
  then show ?case by (simp add: retE_def stored_leases_def List.map_filter_def)
next
  case (Cons sid sids)
  obtain r wb where g: "leasesGet cfg sid w = (r, wb)" by fastforce
  have wb: "lm (gw_Leases wb) = lm (gw_Leases w)" "\<And>x. r = Inr x \<Longrightarrow> x = lm (gw_Leases w) sid"
    by (rule getE_cases [OF assms g]; simp add: get_outcome_def split: sum.splits)+
  obtain cur where r: "r = Inr cur" using Cons.prems(1) g by (cases r) (auto simp: bindE_def)
  have cur: "cur = lm (gw_Leases w) sid" using wb(2) r by simp
  define out' where "out' = (case cur of None \<Rightarrow> out
     | Some sv \<Rightarrow> if live_in groupID nowUnix (ver_Value sv) then out @ [ver_Value sv] else out)"
  have tail: "stored_leases (lm (gw_Leases w)) (sid # sids) =
     (case cur of None \<Rightarrow> [] | Some sv \<Rightarrow> [ver_Value sv]) @ stored_leases (lm (gw_Leases w)) sids"
    by (simp add: stored_leases_def List.map_filter_def value_at_def cur split: option.split)
  show ?case
  proof (cases "int (length out') = limit \<and> out' \<noteq> out")
    case True
    then have "res = out'" "w' = wb"
      using Cons.prems(1) g r
      by (auto simp: bindE_def out'_def Let_def retE_def split: option.splits if_splits)
    moreover have "nat limit - length out = 1" using True
      by (auto simp: out'_def split: option.splits if_splits)
    ultimately show ?thesis using True wb(1)
      by (auto simp: tail out'_def split: option.splits if_splits)
  next
    case False
    then have "live_loop cfg groupID limit nowUnix sids out' wb = (Inr res, w')"
      using Cons.prems g r
      by (auto simp: bindE_def out'_def Let_def retE_def split: option.splits if_splits)
    moreover have "int (length out') < limit"
      using False Cons.prems(2) by (auto simp: out'_def split: option.splits if_splits)
    ultimately have "lm (gw_Leases w') = lm (gw_Leases w) \<and> res = out' @ take (nat limit - length out')
            (filter (live_in groupID nowUnix) (stored_leases (lm (gw_Leases w)) sids))"
      using Cons.IH [of out' wb] wb(1) by simp
    moreover have "nat limit - length out = Suc (nat limit - Suc (length out))"
      using Cons.prems(2) by linarith
    ultimately show ?thesis
      by (auto simp: tail out'_def split: option.splits)
  qed
qed

section \<open>Properties\<close>

text \<open>C3: the epoch fences migrations. When an operation presenting an epoch has been committed
  on a well-formed binding, then, whatever operations are committed afterwards, every operation that
  presents that same epoch is refused as stale: of any number of concurrent migrations that read
  the same epoch, exactly one can win.\<close>

theorem epoch_fence:
  assumes "route_ok u" "epoch_fits a" "route_mutate a (Some u) = Save v"
    and "list_all epoch_fits ops" "commits route_mutate ops (Some v) = Some z"
    and "presented b = presented a" "\<forall>target e now. b = BeginOp target e now \<longrightarrow> 0 < target"
  shows "route_mutate b (Some z) = Fail [ErrRouteStale]"
proof -
  have v: "route_ok v" "rb_Epoch v = rb_Epoch u + 1" "presented a = Some (rb_Epoch u)"
    using route_save_step [OF assms(2,1,3)] by auto
  have "route_le v z" using route.commits_le [OF assms(4) v(1) assms(5)] .
  then have "rb_Epoch u < rb_Epoch z" using v(2) by (auto simp: route_le_def)
  then show ?thesis using assms(6,7) v(3)
    by (cases b) (auto simp: route_mutate_defs)
qed

definition ex_binding :: RouteBinding where
  "ex_binding = new_binding 7 ''eu'' 3 (5 * Second)"

theorem epoch_fence_witness:
  "route_mutate (AbortOp 1 0) (Some (complete_next (9 * Second) (begin_next 4 (6 * Second) ex_binding)))
     = Fail [ErrRouteStale]"
proof (rule epoch_fence [where u = ex_binding and a = "BeginOp 4 1 (6 * Second)"
      and v = "begin_next 4 (6 * Second) ex_binding" and ops = "[CompleteOp 2 (9 * Second)]"])
  have "blank ''eu'' = False" by code_simp
  then show "route_ok ex_binding"
    by (simp add: route_ok_def ex_binding_def new_binding_def RouteBinding_Validate_def)
qed (simp_all add: epoch_fits_def route_mutate_defs ex_binding_def new_binding_def commit_def u64_def)

text \<open>C12: a live lease can only be changed by whoever holds its token. While the deadline has not
  passed, no sequence of acquires, renewals and releases by others changes a single field of it, so
  a late heartbeat of a replaced process cannot overwrite it.\<close>

theorem lease_exclusive:
  assumes "gl_State l = LeaseActive" "list_all (outsider l) ops"
  shows "commits lease_mutate ops (Some l) = Some l"
  using assms(2) by (induction ops) (simp_all add: outsider_refused assms(1))

definition ex_lease :: GameLease where
  "ex_lease = new_lease 7 ex_binding (30 * Second) (10 * Second) ''t1''"

theorem lease_exclusive_witness:
  "commits lease_mutate
     [AcquireOp 7 ex_binding (30 * Second) (20 * Second) ''t2'', RenewOp ''t0'' (30 * Second) (25 * Second) [],
      ReleaseOp ''t0'' (26 * Second)] (Some ex_lease) = Some ex_lease"
  by (rule lease_exclusive)
    (simp_all add: ex_lease_def new_lease_def Expired_def Unix_def Add_def Second_def)

text \<open>A superseded incarnation never comes back. Once the lease is held under another token
  that is not minted again, every later renewal with the old token is refused and every release with
  it leaves the lease as it is, after any sequence of operations.\<close>

theorem superseded_refused:
  assumes "gl_Incarnation l \<noteq> t" "list_all (\<lambda>a. \<not> mints t a) ops"
    and "commits lease_mutate ops (Some l) = Some z"
  shows "lease_mutate (RenewOp t ttl now load) (Some z) = Fail [ErrLeaseNotHolder] \<and>
         lease_mutate (ReleaseOp t now) (Some z) = Keep"
proof -
  have "gl_Incarnation z \<noteq> t"
    using superseded.commits_inv [of t ops "Some l" z] assms by simp
  then show ?thesis by (simp add: lease_mutate_defs)
qed

theorem superseded_refused_witness:
  "lease_mutate (RenewOp ''t0'' 5 (41 * Second) []) (Some (release_next (40 * Second) ex_lease))
     = Fail [ErrLeaseNotHolder] \<and>
   lease_mutate (ReleaseOp ''t0'' (41 * Second)) (Some (release_next (40 * Second) ex_lease)) = Keep"
  by (rule superseded_refused [where l = ex_lease and ops = "[ReleaseOp ''t1'' (40 * Second)]"])
    (simp_all add: ex_lease_def new_lease_def commit_def lease_mutate_defs)


text \<open>A completion that is retried with the arguments that succeeded is refused. The epoch
  moved when the binding was completed, so a caller that lost the answer and asks again gets a stale
  epoch error (or a store error), never the idempotent success the code's comment promises.\<close>

theorem complete_retry_is_stale:
  assumes "vs_contract rm (=) (gc_Routes cfg)"
    and "value_at (rm (gw_Routes w)) gameSID = Some u" "route_ok u"
    and "rb_State u = RouteMigrating" "rb_Epoch u + 1 < 2 ^ 64"
    and "CompleteMigration cfg gameSID e w = (Inr b, w1)"
    and "CompleteMigration cfg gameSID e w1 = (r, w2)"
  shows "\<exists>err. r = Inl err \<and> (err = [ErrRouteStale] \<or> store_error err)"
proof -
  have "\<exists>now. e = rb_Epoch u \<and>
      value_at (rm (gw_Routes w1)) gameSID = Some (complete_next now u)"
    by (rule CompleteMigration_cases [OF assms(1,6)])
      (use assms(2,4) in \<open>auto simp: update_outcome_def complete_mutate_def
        split: sum.splits bool.splits if_splits\<close>)
  then obtain now where *: "e = rb_Epoch u"
    "value_at (rm (gw_Routes w1)) gameSID = Some (complete_next now u)" by blast
  have "complete_mutate e now' (Some (complete_next now u)) = Fail [ErrRouteStale]" for now'
    using assms(3,5) *(1) by (auto simp: route_mutate_defs route_ok_def u64_id)
  with *(2) have stale: "complete_mutate e now' (value_at (rm (gw_Routes w1)) gameSID) = Fail [ErrRouteStale]"
    for now' by simp
  show ?thesis
    by (rule CompleteMigration_cases [OF assms(1,7)])
      (use stale in \<open>auto simp: update_outcome_def split: sum.splits bool.splits\<close>)
qed

definition ex_config :: "((int, RouteBinding) mem, (int, GameLease) mem) GlobalConfig" where
  "ex_config = \<lparr>gc_Routes = mem_store, gc_Leases = mem_store, gc_LeaseTTL = 30 * Second,
     gc_Now = (\<lambda>n. (20 + int n) * Second), gc_NewIncarnation = (\<lambda>n. Inr ''t9'')\<rparr>"

definition ex_moving :: RouteBinding where
  "ex_moving = begin_next 4 (6 * Second) ex_binding"

definition ex_world :: "((int, RouteBinding) mem, (int, GameLease) mem) gworld" where
  "ex_world = \<lparr>env_ticks = 0, env_events = [], gw_Routes = mem_of [(7, ex_moving)],
     gw_Leases = mem_of [(7, ex_lease)], gw_Minted = 0\<rparr>"

lemma ex_moving_ok: "route_ok ex_moving" "rb_State ex_moving = RouteMigrating" "rb_Epoch ex_moving = 2"
proof -
  have "blank ''eu'' = False" by code_simp
  then show "route_ok ex_moving" "rb_State ex_moving = RouteMigrating" "rb_Epoch ex_moving = 2"
    by (simp_all add: route_ok_def ex_moving_def begin_next_def ex_binding_def new_binding_def
        RouteBinding_Validate_def u64_def)
qed

lemma ex_complete:
  "fst (CompleteMigration ex_config 7 2 ex_world) = Inr (complete_next (20 * Second) ex_moving)"
  using ex_moving_ok
  by (simp add: CompleteMigration_def handler_simps ex_config_def ex_world_def mem_store_def faulty_def
      mem_of_def value_at_def complete_mutate_def seen_def result_of_def)

theorem complete_retry_is_stale_witness:
  "\<exists>w1 r w2 err. CompleteMigration ex_config 7 2 ex_world = (Inr (complete_next (20 * Second) ex_moving), w1) \<and>
     CompleteMigration ex_config 7 2 w1 = (r, w2) \<and> r = Inl err \<and> (err = [ErrRouteStale] \<or> store_error err)"
proof -
  obtain w1 where w1: "CompleteMigration ex_config 7 2 ex_world = (Inr (complete_next (20 * Second) ex_moving), w1)"
    using ex_complete by (metis prod.collapse)
  obtain r w2 where w2: "CompleteMigration ex_config 7 2 w1 = (r, w2)" by fastforce
  have "\<exists>err. r = Inl err \<and> (err = [ErrRouteStale] \<or> store_error err)"
    by (rule complete_retry_is_stale [OF _ _ _ _ _ w1 w2, of mem_map ex_moving])
      (simp_all add: ex_config_def mem_store_contract ex_world_def mem_of_def value_at_def ex_moving_ok)
  with w1 w2 show ?thesis by blast
qed

text \<open>Renewing a lease looks at the lease alone. Whatever the route store holds, the renewal
  gives the same answer and leaves the lease with the group, instance and route epoch it was taken
  under; the check against the current binding that the lease's documentation describes is not
  made.\<close>

theorem renew_ignores_binding:
  "RenewLease cfg gameSID incarnation load (w\<lparr>gw_Routes := routes\<rparr>) =
     (case RenewLease cfg gameSID incarnation load w of (r, w') \<Rightarrow> (r, w'\<lparr>gw_Routes := routes\<rparr>))"
  by (simp add: RenewLease_def handler_simps Let_def split: option.split prod.split sum.split)

text \<open>A successful renewal was asked for by the holder of a live lease, and writes exactly the
  heartbeat, the new deadline and the load; any refusal by the service leaves the store as it was.\<close>

theorem renew_by_holder_only:
  assumes "vs_contract lm (=) (gc_Leases cfg)"
    and "RenewLease cfg gameSID incarnation load w = (r, w')"
  shows "case r of
     Inr l \<Rightarrow> \<exists>u. value_at (lm (gw_Leases w)) gameSID = Some u \<and>
               Held u incarnation (Unix (gc_Now cfg (env_ticks w))) \<and>
               l = renew_next (gc_LeaseTTL cfg) (gc_Now cfg (env_ticks w)) load u \<and>
               written gameSID l (lm (gw_Leases w)) (lm (gw_Leases w'))
   | Inl err \<Rightarrow> store_error err \<or> lm (gw_Leases w') = lm (gw_Leases w)"
proof (cases "incarnation = [] \<or> validateLoad load \<noteq> None")
  case True
  then show ?thesis using assms(2)
    by (auto simp: RenewLease_def guardE_def raiseE_def thenE_def bindE_def split: if_splits)
next
  case False
  then have "incarnation \<noteq> []" "validateLoad load = None" by auto
  from assms this show ?thesis
    by (rule RenewLease_cases) (auto simp: update_outcome_def renew_mutate_def Held_def saved_or_def
        split: sum.splits bool.splits option.splits if_splits)
qed

theorem renew_by_holder_only_witness:
  "\<exists>r w'. RenewLease ex_config 7 ''t1'' [] ex_world = (r, w') \<and>
     (case r of
        Inr l \<Rightarrow> \<exists>u. value_at (mem_map (gw_Leases ex_world)) 7 = Some u \<and>
               Held u ''t1'' (Unix (gc_Now ex_config (env_ticks ex_world))) \<and>
               l = renew_next (gc_LeaseTTL ex_config) (gc_Now ex_config (env_ticks ex_world)) [] u \<and>
               written 7 l (mem_map (gw_Leases ex_world)) (mem_map (gw_Leases w'))
      | Inl err \<Rightarrow> store_error err \<or> mem_map (gw_Leases w') = mem_map (gw_Leases ex_world)) \<and>
     r = Inr (renew_next (30 * Second) (20 * Second) [] ex_lease)"
proof -
  obtain r w' where r: "RenewLease ex_config 7 ''t1'' [] ex_world = (r, w')" by fastforce
  have c: "vs_contract mem_map (=) (gc_Leases ex_config)" by (simp add: ex_config_def mem_store_contract)
  have "r = Inr (renew_next (30 * Second) (20 * Second) [] ex_lease)"
    using r by (simp add: RenewLease_def handler_simps ex_config_def ex_world_def mem_store_def faulty_def
      mem_of_def value_at_def seen_def validateLoad_def MaxLoadEntries_def renew_mutate_def ex_lease_def
      new_lease_def Expired_def Unix_def Add_def Second_def saved_or_def Let_def)
  with r renew_by_holder_only [OF c r] show ?thesis by blast
qed

text \<open>C40: \<open>LiveGames\<close> answers the first \<open>limit\<close> live leases of the group, in the order of the
  candidates, each read once, and never more than the page bound.\<close>

theorem LiveGames_reference:
  assumes "vs_contract lm (=) (gc_Leases cfg)"
    and "LiveGames cfg groupID candidates limit w = (Inr out, w')"
  shows "out = take (nat limit) (filter (live_in groupID (Unix (gc_Now cfg (env_ticks w))))
                 (stored_leases (lm (gw_Leases w)) candidates)) \<and>
         0 < limit \<and> limit \<le> GlobalMaxPageSize"
proof -
  have lim: "0 < limit" "limit \<le> GlobalMaxPageSize"
    using assms(2) by (auto simp: LiveGames_def raiseE_def split: if_splits)
  have "live_loop cfg groupID limit (Unix (gc_Now cfg (env_ticks w))) candidates []
          (w\<lparr>env_ticks := Suc (env_ticks w)\<rparr>) = (Inr out, w')"
    using assms(2) by (auto simp: LiveGames_def raiseE_def bindE_def nowE_def split: if_splits)
  from live_loop_reference [OF assms(1) this] lim show ?thesis by simp
qed

theorem LiveGames_reference_witness:
  "\<exists>out w'. LiveGames ex_config ''eu'' [9, 7] 5 ex_world = (Inr out, w') \<and>
     out = take (nat 5) (filter (live_in ''eu'' (Unix (gc_Now ex_config (env_ticks ex_world))))
                 (stored_leases (mem_map (gw_Leases ex_world)) [9, 7])) \<and> out = [ex_lease]"
proof -
  obtain w' where r: "LiveGames ex_config ''eu'' [9, 7] 5 ex_world = (Inr [ex_lease], w')"
    by (simp add: LiveGames_def handler_simps ex_config_def ex_world_def mem_store_def faulty_def
      calm_def mem_of_def GlobalMaxPageSize_def live_in_def ex_lease_def new_lease_def ex_binding_def new_binding_def
      Expired_def Unix_def Add_def Second_def)
  have c: "vs_contract mem_map (=) (gc_Leases ex_config)" by (simp add: ex_config_def mem_store_contract)
  from LiveGames_reference [OF c r] r show ?thesis by blast
qed

end
