(* ===== verification/ActivityTypes.thy ===== *)
theory ActivityTypes
  imports VersionStore "HOL-Library.List_Lexorder" "HOL-Library.Char_ord" "HOL-Library.Product_Lexorder"
begin

text \<open>
  Package \<open>service/global/activity\<close>, \<open>types.go\<close>: the identities (activity, participant, request,
  dispatch) with their validation and their rendered keys, the records, and the pure helpers of the
  service. The last sections prove that the rendered keys identify their records and that a
  dispatch key can be read back.
\<close>

section \<open>Errors and bounds\<close>

abbreviation "ErrActInvalid \<equiv> Coded 620101"
abbreviation "ErrActMissing \<equiv> Coded 620102"
abbreviation "ErrActExists \<equiv> Coded 620103"
abbreviation "ErrActStatus \<equiv> Coded 620104"
abbreviation "ErrNotifyUnexpected \<equiv> Coded 620105"
abbreviation "ErrNotifyLate \<equiv> Coded 620106"
abbreviation "ErrBacklog \<equiv> Coded 620107"
abbreviation "ErrParticipantInvalid \<equiv> Coded 620108"
abbreviation "ErrRequestInvalid \<equiv> Coded 620109"
abbreviation "ErrDispatchMissing \<equiv> Coded 620110"
abbreviation "ErrDispatchToken \<equiv> Coded 620111"
abbreviation "ErrDispatchExhausted \<equiv> Coded 620112"
abbreviation "ErrDispatchNotDue \<equiv> Coded 620113"
abbreviation "ErrActRangeInvalid \<equiv> Coded 620114"
abbreviation "ErrActConflict \<equiv> Coded 620115"
abbreviation "ErrActNotResolvable \<equiv> Coded 620116"
abbreviation "ErrActAdminNoteRequired \<equiv> Coded 620117"
abbreviation "ErrActUnsupported \<equiv> Coded 620118"

definition ActivityError :: "(gerr \<Rightarrow> int \<times> string) \<Rightarrow> gerr option \<Rightarrow> int \<times> string" where
  "ActivityError clientError err =
     (case err of None \<Rightarrow> (0, [])
      | Some e \<Rightarrow> if Is e StoreConflict then clientError [ErrActConflict] else clientError e)"

definition ActivityCode :: "(gerr \<Rightarrow> int \<times> string) \<Rightarrow> gerr option \<Rightarrow> int" where
  "ActivityCode clientError err = fst (ActivityError clientError err)"

definition MaxExpectedGames :: nat where [bound_defs]: "MaxExpectedGames = 64"
definition ActMaxPageSize :: int where [bound_defs]: "ActMaxPageSize = 200"
definition MaxPendingActivities :: nat where [bound_defs]: "MaxPendingActivities = 256"
definition MaxNotifyAudits :: nat where [bound_defs]: "MaxNotifyAudits = 64"
definition MaxProgressWindow :: nat where [bound_defs]: "MaxProgressWindow = 32"
definition MaxActivityIDLen :: nat where [bound_defs]: "MaxActivityIDLen = 128"
definition MaxParticipantIDLen :: nat where [bound_defs]: "MaxParticipantIDLen = 128"
definition ActMaxRequestIDLen :: nat where [bound_defs]: "ActMaxRequestIDLen = 128"

section \<open>Activities\<close>

record ActKey =
  ak_GroupID :: string
  ak_ActivityID :: string
  ak_Phase :: string

definition ActKey_Validate :: "ActKey \<Rightarrow> gerr option" where
  "ActKey_Validate k =
     (if blank (ak_GroupID k) then Some [ErrActInvalid]
      else if blank (ak_ActivityID k) then Some [ErrActInvalid]
      else if length (ak_ActivityID k) > MaxActivityIDLen then Some [ErrActInvalid]
      else if blank (ak_Phase k) then Some [ErrActInvalid]
      else if length (ak_Phase k) > MaxActivityIDLen then Some [ErrActInvalid]
      else if list_ex (\<lambda>part. CHR ''/'' \<in> set part) [ak_GroupID k, ak_ActivityID k, ak_Phase k]
           then Some [ErrActInvalid]
      else None)"

definition Key_Group :: "ActKey \<Rightarrow> string" where
  "Key_Group k = ak_GroupID k"

definition Key_String :: "ActKey \<Rightarrow> string" where
  "Key_String k = ak_GroupID k @ ''/'' @ ak_ActivityID k @ ''/'' @ ak_Phase k"

datatype act_status = StatusPending | StatusCollecting | StatusComplete

text \<open>\<open>NoReason\<close> is the empty reason of an activity that is not complete.\<close>

datatype completion_reason = NoReason | CompletedCollected | CompletedGraceExpired

record Activity =
  ac_Key :: ActKey
  ac_ExpectedGameSIDs :: "int list"
  ac_NotifiedGameSIDs :: "int list"
  ac_Status :: act_status
  ac_GraceDeadlineUnix :: int
  ac_CompletionReason :: completion_reason
  ac_OpenedAtUnix :: int
  ac_FirstNotifyAtUnix :: int
  ac_CompletedAtUnix :: int
  ac_UpdatedAtUnix :: int

definition Expects :: "Activity \<Rightarrow> int \<Rightarrow> bool" where
  "Expects a gameSID \<longleftrightarrow> gameSID \<in> set (ac_ExpectedGameSIDs a)"

definition Notified :: "Activity \<Rightarrow> int \<Rightarrow> bool" where
  "Notified a gameSID \<longleftrightarrow> gameSID \<in> set (ac_NotifiedGameSIDs a)"

definition Collected :: "Activity \<Rightarrow> bool" where
  "Collected a \<longleftrightarrow>
     length (ac_ExpectedGameSIDs a) > 0 \<and>
     length (ac_NotifiedGameSIDs a) \<ge> length (ac_ExpectedGameSIDs a)"

definition GraceExpired :: "Activity \<Rightarrow> int \<Rightarrow> bool" where
  "GraceExpired a nowUnix =
     (if ac_GraceDeadlineUnix a = 0 then False else nowUnix \<ge> ac_GraceDeadlineUnix a)"

definition MissingGameSIDs :: "Activity \<Rightarrow> int list" where
  "MissingGameSIDs a = filter (\<lambda>gameSID. \<not> Notified a gameSID) (ac_ExpectedGameSIDs a)"

record ActResult =
  ar_Key :: ActKey
  ar_Reason :: completion_reason
  ar_NotifiedGameSIDs :: "int list"
  ar_MissingGameSIDs :: "int list"
  ar_CompletedAtUnix :: int

definition activity_result :: "Activity \<Rightarrow> ActResult" where
  "activity_result a =
     \<lparr>ar_Key = ac_Key a, ar_Reason = ac_CompletionReason a,
      ar_NotifiedGameSIDs = ac_NotifiedGameSIDs a, ar_MissingGameSIDs = MissingGameSIDs a,
      ar_CompletedAtUnix = ac_CompletedAtUnix a\<rparr>"

section \<open>Participants and their progress ledger\<close>

record ParticipantKey =
  pk_Activity :: ActKey
  pk_ParticipantID :: string

definition ParticipantKey_Validate :: "ParticipantKey \<Rightarrow> gerr option" where
  "ParticipantKey_Validate k =
     (case ActKey_Validate (pk_Activity k) of
        Some e \<Rightarrow> Some e
      | None \<Rightarrow>
          if blank (pk_ParticipantID k) then Some [ErrParticipantInvalid]
          else if length (pk_ParticipantID k) > MaxParticipantIDLen then Some [ErrParticipantInvalid]
          else None)"

definition ParticipantKey_String :: "ParticipantKey \<Rightarrow> string" where
  "ParticipantKey_String k = Key_String (pk_Activity k) @ ''/'' @ pk_ParticipantID k"

record ProgressDelta =
  pd_Score :: int
  pd_Progress :: int

definition ProgressDelta_Validate :: "ProgressDelta \<Rightarrow> gerr option" where
  "ProgressDelta_Validate d =
     (if pd_Score d < 0 \<or> pd_Progress d < 0 then Some [ErrRequestInvalid]
      else if pd_Score d = 0 \<and> pd_Progress d = 0 then Some [ErrRequestInvalid]
      else None)"

record Participant =
  pt_Key :: ActKey
  pt_ParticipantID :: string
  pt_Score :: int
  pt_Progress :: int
  pt_AppliedRequestIDs :: "string list"
  pt_Applies :: int
  pt_UpdatedAtUnix :: int

definition Applied :: "Participant \<Rightarrow> string \<Rightarrow> bool" where
  "Applied p requestID \<longleftrightarrow> requestID \<in> set (pt_AppliedRequestIDs p)"

record RequestKey =
  rk_Activity :: ActKey
  rk_ParticipantID :: string
  rk_RequestID :: string

definition RequestKey_Validate :: "RequestKey \<Rightarrow> gerr option" where
  "RequestKey_Validate k =
     (case ParticipantKey_Validate
             \<lparr>pk_Activity = rk_Activity k, pk_ParticipantID = rk_ParticipantID k\<rparr> of
        Some e \<Rightarrow> Some e
      | None \<Rightarrow>
          if blank (rk_RequestID k) then Some [ErrRequestInvalid]
          else if length (rk_RequestID k) > ActMaxRequestIDLen then Some [ErrRequestInvalid]
          else if CHR ''/'' \<in> set (rk_RequestID k) then Some [ErrRequestInvalid]
          else None)"

definition RequestKey_String :: "RequestKey \<Rightarrow> string" where
  "RequestKey_String k =
     Key_String (rk_Activity k) @ ''/'' @ rk_ParticipantID k @ ''/'' @ rk_RequestID k"

datatype reservation_state = ReservationReserved | ReservationApplied

record ProgressReservation =
  pr_Key :: RequestKey
  pr_Delta :: ProgressDelta
  pr_State :: reservation_state
  pr_CreatedAtUnix :: int
  pr_AppliedAtUnix :: int
  pr_ExpiresAtUnix :: int

section \<open>Refused notifications\<close>

datatype notify_refusal =
  RefusalUnknownActivity | RefusalUnexpectedGame | RefusalStaleStatus | RefusalLate

text \<open>\<open>Status\<close> is empty when there is no such activity.\<close>

record NotifyAudit =
  na_Seq :: int
  na_Key :: ActKey
  na_GameSID :: int
  na_Refusal :: notify_refusal
  na_Status :: "act_status option"
  na_AtUnix :: int
  na_Detail :: string

record NotifyAuditLog =
  nl_Key :: ActKey
  nl_Entries :: "NotifyAudit list"
  nl_NextSeq :: int
  nl_Overflowed :: int

section \<open>Dispatches\<close>

record DispatchKey =
  dk_Activity :: ActKey
  dk_GameSID :: int

definition DispatchKey_String :: "DispatchKey \<Rightarrow> string" where
  "DispatchKey_String k = Key_String (dk_Activity k) @ ''/'' @ FormatInt (dk_GameSID k)"

definition ParseDispatchKey :: "string \<Rightarrow> gerr + DispatchKey" where
  "ParseDispatchKey rendered =
     (case Split (CHR ''/'') rendered of
        [p0, p1, p2, p3] \<Rightarrow>
          (case ParseInt 32 p3 of
             None \<Rightarrow> Inl [ErrActInvalid]
           | Some gameSID \<Rightarrow>
               if gameSID \<le> 0 then Inl [ErrActInvalid]
               else let key = \<lparr>dk_Activity = \<lparr>ak_GroupID = p0, ak_ActivityID = p1, ak_Phase = p2\<rparr>,
                               dk_GameSID = gameSID\<rparr> in
                    (case ActKey_Validate (dk_Activity key) of
                       Some e \<Rightarrow> Inl e
                     | None \<Rightarrow> Inr key))
      | _ \<Rightarrow> Inl [ErrActInvalid])"

datatype dispatch_state = DispatchPending | DispatchAcked | DispatchExhausted

record Dispatch =
  dp_Key :: ActKey
  dp_GameSID :: int
  dp_Token :: string
  dp_Result :: ActResult
  dp_State :: dispatch_state
  dp_Attempts :: int
  dp_MaxAttempts :: int
  dp_NextAttemptAtUnix :: int
  dp_CreatedAtUnix :: int
  dp_LastAttemptAtUnix :: int
  dp_AckedAtUnix :: int
  dp_ExhaustedAtUnix :: int
  dp_Reopens :: int
  dp_AdminNote :: string
  dp_AdminActionAtUnix :: int

definition Due :: "Dispatch \<Rightarrow> int \<Rightarrow> bool" where
  "Due d nowUnix \<longleftrightarrow> dp_State d = DispatchPending \<and> nowUnix \<ge> dp_NextAttemptAtUnix d"

definition AttemptsLeft :: "Dispatch \<Rightarrow> int" where
  "AttemptsLeft d =
     (if dp_Attempts d \<ge> dp_MaxAttempts d then 0 else dp_MaxAttempts d - dp_Attempts d)"

section \<open>The pending window of a group\<close>

record OpeningEntry =
  oe_Key :: ActKey
  oe_AdmittedAtUnix :: int

record Window =
  wn_GroupID :: string
  wn_Keys :: "ActKey list"
  wn_Opening :: "OpeningEntry list"
  wn_Delivering :: "ActKey list"
  wn_RefusedOpens :: int

definition openingIndex :: "Window \<Rightarrow> ActKey \<Rightarrow> nat option" where
  "openingIndex w key = List.find (\<lambda>i. oe_Key (wn_Opening w ! i) = key) [0 ..< length (wn_Opening w)]"

definition window_contains :: "Window \<Rightarrow> ActKey \<Rightarrow> bool" where
  "window_contains w key \<longleftrightarrow> key \<in> set (wn_Keys w) \<or> openingIndex w key \<noteq> None"

definition window_delivering :: "Window \<Rightarrow> ActKey \<Rightarrow> bool" where
  "window_delivering w key \<longleftrightarrow> key \<in> set (wn_Delivering w)"

definition window_pending :: "Window \<Rightarrow> nat" where
  "window_pending w = length (wn_Keys w) + length (wn_Opening w)"

section \<open>Validation and helpers\<close>

fun expected_loop :: "int list \<Rightarrow> int list \<Rightarrow> gerr option" where
  "expected_loop [] seen_sids = None"
| "expected_loop (gameSID # rest) seen_sids =
     (if gameSID \<le> 0 then Some [ErrActInvalid]
      else if gameSID \<in> set seen_sids then Some [ErrActInvalid]
      else expected_loop rest (gameSID # seen_sids))"

definition validateExpectedGames :: "int list \<Rightarrow> gerr option" where
  "validateExpectedGames expected =
     (if length expected = 0 then Some [ErrActInvalid]
      else if length expected > MaxExpectedGames then Some [ErrActInvalid]
      else expected_loop expected [])"

definition act_validateLimit :: "int \<Rightarrow> gerr option" where
  "act_validateLimit limit =
     (if limit \<le> 0 then Some [ErrActRangeInvalid]
      else if limit > ActMaxPageSize then Some [ErrActRangeInvalid]
      else None)"

definition appendBounded :: "string list \<Rightarrow> string \<Rightarrow> nat \<Rightarrow> string list" where
  "appendBounded ring v limit =
     (let start = (if length ring + 1 > limit then length ring + 1 - limit else 0)
      in drop start ring @ [v])"

definition sortKeys :: "ActKey list \<Rightarrow> ActKey list" where
  "sortKeys keys = sort_key Key_String keys"

section \<open>Validated identities\<close>

lemma ActKey_Validate_None:
  "ActKey_Validate k = None \<longleftrightarrow>
     \<not> blank (ak_GroupID k) \<and> \<not> blank (ak_ActivityID k) \<and> length (ak_ActivityID k) \<le> MaxActivityIDLen \<and>
     \<not> blank (ak_Phase k) \<and> length (ak_Phase k) \<le> MaxActivityIDLen \<and>
     (\<forall>part \<in> set [ak_GroupID k, ak_ActivityID k, ak_Phase k]. CHR ''/'' \<notin> set part)"
  by (auto simp: ActKey_Validate_def)

lemma RequestKey_Validate_None:
  "RequestKey_Validate k = None \<Longrightarrow>
     ActKey_Validate (rk_Activity k) = None \<and> CHR ''/'' \<notin> set (rk_RequestID k)"
  by (auto simp: RequestKey_Validate_def ParticipantKey_Validate_def split: option.splits if_splits)

lemma expected_loop_None:
  "expected_loop xs seen_sids = None \<longleftrightarrow>
     (\<forall>x \<in> set xs. 0 < x) \<and> distinct xs \<and> set xs \<inter> set seen_sids = {}"
  by (induction xs seen_sids rule: expected_loop.induct) auto

lemma validateExpectedGames_None:
  "validateExpectedGames xs = None \<longleftrightarrow>
     xs \<noteq> [] \<and> length xs \<le> MaxExpectedGames \<and> (\<forall>x \<in> set xs. 0 < x) \<and> distinct xs"
  by (auto simp: validateExpectedGames_def expected_loop_None)

lemma Key_String_Join: "Key_String k = Join (CHR ''/'') [ak_GroupID k, ak_ActivityID k, ak_Phase k]"
  by (simp add: Key_String_def)

text \<open>A validated activity key is the first three parts of anything rendered after it.\<close>

lemma Split_Key_String:
  assumes "ActKey_Validate k = None"
  shows "Split (CHR ''/'') (Key_String k @ CHR ''/'' # s) =
         [ak_GroupID k, ak_ActivityID k, ak_Phase k] @ Split (CHR ''/'') s"
  using assms by (simp add: ActKey_Validate_None Key_String_def Split_append)

lemma Key_String_inj:
  assumes "ActKey_Validate k = None" "ActKey_Validate l = None" "Key_String k = Key_String l"
  shows "k = l"
proof -
  have p: "Split (CHR ''/'') (Key_String k) = [ak_GroupID k, ak_ActivityID k, ak_Phase k]"
    if "ActKey_Validate k = None" for k :: ActKey
    using that unfolding Key_String_Join by (intro Split_Join) (auto simp: ActKey_Validate_None)
  have "[ak_GroupID k, ak_ActivityID k, ak_Phase k] = [ak_GroupID l, ak_ActivityID l, ak_Phase l]"
    using arg_cong [OF assms(3), of "Split (CHR ''/'')"] by (simp only: p [OF assms(1)] p [OF assms(2)])
  then show ?thesis by (cases k; cases l) simp
qed

lemma append_sep_inj:
  assumes "c \<notin> set b" "c \<notin> set d" "a @ c # b = e @ c # d"
  shows "a = e \<and> b = d"
proof -
  have tw: "takeWhile ((\<noteq>) c) (rev (x @ c # y)) = rev y" if "c \<notin> set y" for x y
  proof -
    have "takeWhile ((\<noteq>) c) (rev y @ c # rev x) = rev y @ takeWhile ((\<noteq>) c) (c # rev x)"
      by (rule takeWhile_append2) (use that in auto)
    then show ?thesis by simp
  qed
  have "rev b = rev d" using tw [OF assms(1), of a] tw [OF assms(2), of e] assms(3) by simp
  with assms(3) show ?thesis by simp
qed

lemma Key_prefix_inj:
  assumes "ActKey_Validate k = None" "ActKey_Validate l = None"
    and "Key_String k @ CHR ''/'' # s = Key_String l @ CHR ''/'' # t"
  shows "k = l \<and> s = t"
proof -
  have "[ak_GroupID k, ak_ActivityID k, ak_Phase k] @ Split (CHR ''/'') s =
        [ak_GroupID l, ak_ActivityID l, ak_Phase l] @ Split (CHR ''/'') t"
    using arg_cong [OF assms(3), of "Split (CHR ''/'')"]
    by (simp only: Split_Key_String [OF assms(1)] Split_Key_String [OF assms(2)])
  then have "k = l" by (cases k; cases l) simp
  with assms(3) show ?thesis by simp
qed

section \<open>Properties\<close>

text \<open>The store key of a progress request identifies it. Two validated requests with the same
  rendered key are the same request, although a participant id may contain the separator.\<close>

theorem RequestKey_String_injective:
  assumes "RequestKey_Validate k = None" "RequestKey_Validate l = None"
    and "RequestKey_String k = RequestKey_String l"
  shows "k = l"
proof -
  note v = RequestKey_Validate_None [OF assms(1)] RequestKey_Validate_None [OF assms(2)]
  from Key_prefix_inj [of "rk_Activity k" "rk_Activity l"] v assms(3)
  have a: "rk_Activity k = rk_Activity l"
    "rk_ParticipantID k @ CHR ''/'' # rk_RequestID k = rk_ParticipantID l @ CHR ''/'' # rk_RequestID l"
    by (auto simp: RequestKey_String_def)
  from append_sep_inj [OF _ _ a(2)] v
  have "rk_ParticipantID k = rk_ParticipantID l \<and> rk_RequestID k = rk_RequestID l" by blast
  with a(1) show ?thesis by (cases k; cases l) simp
qed

definition ex_key :: ActKey where
  "ex_key = \<lparr>ak_GroupID = ''eu'', ak_ActivityID = ''boss'', ak_Phase = ''close''\<rparr>"

definition ex_request :: RequestKey where
  "ex_request = \<lparr>rk_Activity = ex_key, rk_ParticipantID = ''p/1'', rk_RequestID = ''r1''\<rparr>"

lemma ex_key_valid [simp]: "ActKey_Validate ex_key = None"
  by (simp add: ex_key_def ActKey_Validate_def bound_defs)

lemma ex_request_valid [simp]: "RequestKey_Validate ex_request = None"
  by (simp add: ex_request_def RequestKey_Validate_def ParticipantKey_Validate_def bound_defs)

theorem RequestKey_String_injective_witness:
  "\<exists>l. RequestKey_Validate l = None \<and> RequestKey_String ex_request = RequestKey_String l \<and> ex_request = l"
  using RequestKey_String_injective [of ex_request ex_request] by simp

text \<open>A dispatch key survives its rendering: \<open>ParseDispatchKey\<close>, which reads the members of the
  owed index, gives back every valid key that \<open>String\<close> rendered.\<close>

theorem ParseDispatchKey_roundtrip:
  assumes "ActKey_Validate (dk_Activity k) = None" "0 < dk_GameSID k" "dk_GameSID k < 2 ^ 31"
  shows "ParseDispatchKey (DispatchKey_String k) = Inr k"
proof -
  have "Split (CHR ''/'') (DispatchKey_String k) =
    [ak_GroupID (dk_Activity k), ak_ActivityID (dk_Activity k), ak_Phase (dk_Activity k),
     FormatInt (dk_GameSID k)]"
    using Split_Key_String [OF assms(1)] by (simp add: DispatchKey_String_def Split_no_sep FormatInt_no_sep)
  moreover have "ParseInt 32 (FormatInt (dk_GameSID k)) = Some (dk_GameSID k)"
    by (rule ParseInt_FormatInt) (use assms in simp_all)
  ultimately show ?thesis using assms
    by (cases k; cases "dk_Activity k") (simp add: ParseDispatchKey_def Let_def)
qed

theorem ParseDispatchKey_roundtrip_witness:
  "ParseDispatchKey (DispatchKey_String \<lparr>dk_Activity = ex_key, dk_GameSID = 31\<rparr>)
     = Inr \<lparr>dk_Activity = ex_key, dk_GameSID = 31\<rparr>"
  by (rule ParseDispatchKey_roundtrip) simp_all

end
