(* ===== verification/Activity.thy ===== *)
theory Activity
  imports ActivityTypes
begin

text \<open>
  Package \<open>service/global/activity\<close>, \<open>service.go\<close>, \<open>admin.go\<close>, \<open>redis_store.go\<close> and
  \<open>server_run.go\<close>: the cross-server activity coordinator. An activity collects one notification per
  expected game server under a grace window, completes exactly once, and its result is then owed to
  every expected game as a dispatch with an acknowledgement token. Participants' progress goes
  through a request ledger. Every handler is a definition over six stores; the callback of each
  \<open>Update\<close> is a definition of its own.
\<close>

section \<open>Configuration and state\<close>

type_synonym ('d) owed_index = "string \<Rightarrow> int \<Rightarrow> int \<Rightarrow> int \<Rightarrow> 'd \<Rightarrow> gerr + DispatchKey list"

record ('a, 'p, 'l, 'u, 'd, 'n) ActivityConfig =
  af_Activities :: "('a, ActKey, Activity) vstore"
  af_Participants :: "('p, ParticipantKey, Participant) vstore"
  af_Ledger :: "('l, RequestKey, ProgressReservation) vstore"
  af_Audits :: "('u, ActKey, NotifyAuditLog) vstore"
  af_Dispatches :: "('d, DispatchKey, Dispatch) vstore"
  af_OwedIndex :: "'d owed_index option"   \<comment> \<open>the type assertion on \<open>Dispatches\<close>\<close>
  af_Windows :: "('n, string, Window) vstore"
  af_GraceWindow :: duration
  af_ReservationTTL :: duration
  af_DispatchBackoff :: duration
  af_DispatchMaxAttempts :: int
  af_OpeningGrace :: duration
  af_Now :: "nat \<Rightarrow> time"
  af_NewDispatchToken :: "nat \<Rightarrow> gerr + string"
  af_SweepGroups :: "string list"

definition DefaultGraceWindow :: duration where "DefaultGraceWindow = 60 * Second"
definition DefaultOpeningGrace :: duration where "DefaultOpeningGrace = Minute"
definition DefaultReservationTTL :: duration where "DefaultReservationTTL = 30 * Minute"
definition DefaultDispatchBackoff :: duration where "DefaultDispatchBackoff = 5 * Second"
definition DefaultDispatchAttempts :: int where "DefaultDispatchAttempts = 5"
definition maxBackoffMultiplier :: int where "maxBackoffMultiplier = 10"

text \<open>The world: the six stores, the delivery cursor of each group, and the tokens minted.\<close>

record ('a, 'p, 'l, 'u, 'd, 'n) aworld = env +
  aw_Activities :: 'a
  aw_Participants :: 'p
  aw_Ledger :: 'l
  aw_Audits :: 'u
  aw_Dispatches :: 'd
  aw_Windows :: 'n
  aw_Cursor :: "string \<Rightarrow> ActKey option"
  aw_Minted :: nat

text \<open>
  \<open>New\<close>: absent stores are refused in this order, then negative durations; a zero selects the
  default. The stores are options (\<open>nil\<close>) and the last two arguments are the default clock and
  token minter.
\<close>

definition ActivityNew ::
  "('a, ActKey, Activity) vstore option \<Rightarrow> ('p, ParticipantKey, Participant) vstore option \<Rightarrow>
   ('l, RequestKey, ProgressReservation) vstore option \<Rightarrow> ('u, ActKey, NotifyAuditLog) vstore option \<Rightarrow>
   (('d, DispatchKey, Dispatch) vstore \<times> 'd owed_index option) option \<Rightarrow>
   ('n, string, Window) vstore option \<Rightarrow>
   duration \<Rightarrow> duration \<Rightarrow> duration \<Rightarrow> int \<Rightarrow> duration \<Rightarrow>
   (nat \<Rightarrow> time) option \<Rightarrow> (nat \<Rightarrow> gerr + string) option \<Rightarrow> string list \<Rightarrow>
   (nat \<Rightarrow> time) \<Rightarrow> (nat \<Rightarrow> gerr + string) \<Rightarrow>
   gerr + ('a, 'p, 'l, 'u, 'd, 'n) ActivityConfig" where
  "ActivityNew activities participants ledger audits dispatches windows
      grace ttl backoff attempts opening now mint groups systemNow randomDispatchToken =
     (case activities of None \<Rightarrow> Inl [Foreign ''activity: store is required''] | Some sa \<Rightarrow>
     (case participants of None \<Rightarrow> Inl [Foreign ''activity: participant store is required''] | Some sp \<Rightarrow>
     (case ledger of None \<Rightarrow> Inl [Foreign ''activity: progress ledger store is required''] | Some sl \<Rightarrow>
     (case audits of None \<Rightarrow> Inl [Foreign ''activity: notify audit store is required''] | Some su \<Rightarrow>
     (case dispatches of None \<Rightarrow> Inl [Foreign ''activity: dispatch store is required''] | Some (sd, ix) \<Rightarrow>
     (case windows of None \<Rightarrow> Inl [Foreign ''activity: window store is required''] | Some sw \<Rightarrow>
     (if grace < 0 then Inl [Foreign ''activity: grace window must not be negative'']
      else if ttl < 0 then Inl [Foreign ''activity: reservation ttl must not be negative'']
      else if backoff < 0 then Inl [Foreign ''activity: dispatch backoff must not be negative'']
      else if attempts < 0 then Inl [Foreign ''activity: dispatch max attempts must not be negative'']
      else if opening < 0 then Inl [Foreign ''activity: opening grace must not be negative'']
      else Inr \<lparr>af_Activities = sa, af_Participants = sp, af_Ledger = sl, af_Audits = su,
                af_Dispatches = sd, af_OwedIndex = ix, af_Windows = sw,
                af_GraceWindow = (if grace = 0 then DefaultGraceWindow else grace),
                af_ReservationTTL = (if ttl = 0 then DefaultReservationTTL else ttl),
                af_DispatchBackoff = (if backoff = 0 then DefaultDispatchBackoff else backoff),
                af_DispatchMaxAttempts = (if attempts = 0 then DefaultDispatchAttempts else attempts),
                af_OpeningGrace = (if opening = 0 then DefaultOpeningGrace else opening),
                af_Now = (case now of None \<Rightarrow> systemNow | Some n \<Rightarrow> n),
                af_NewDispatchToken = (case mint of None \<Rightarrow> randomDispatchToken | Some f \<Rightarrow> f),
                af_SweepGroups = groups\<rparr>)))))))"

definition SweepGroups :: "('a, 'p, 'l, 'u, 'd, 'n) ActivityConfig option \<Rightarrow> string list" where
  "SweepGroups s = (case s of None \<Rightarrow> [] | Some cfg \<Rightarrow> af_SweepGroups cfg)"

text \<open>The calls on the stores.\<close>

abbreviation "activitiesGet cfg \<equiv> getE aw_Activities aw_Activities_update (af_Activities cfg)"
abbreviation "activitiesCreate cfg \<equiv> createE aw_Activities aw_Activities_update (af_Activities cfg)"
abbreviation "activitiesUpdate cfg k f \<equiv>
  mutateE aw_Activities aw_Activities_update (af_Activities cfg) k (\<lambda>_. []) f"
abbreviation "participantsGet cfg \<equiv> getE aw_Participants aw_Participants_update (af_Participants cfg)"
abbreviation "participantsUpdate cfg k f \<equiv>
  mutateE aw_Participants aw_Participants_update (af_Participants cfg) k (\<lambda>_. []) f"
abbreviation "ledgerGet cfg \<equiv> getE aw_Ledger aw_Ledger_update (af_Ledger cfg)"
abbreviation "ledgerCreate cfg \<equiv> createE aw_Ledger aw_Ledger_update (af_Ledger cfg)"
abbreviation "ledgerUpdate cfg k f \<equiv> mutateE aw_Ledger aw_Ledger_update (af_Ledger cfg) k (\<lambda>_. []) f"
abbreviation "auditsGet cfg \<equiv> getE aw_Audits aw_Audits_update (af_Audits cfg)"
abbreviation "auditsUpdate cfg k f \<equiv> mutateE aw_Audits aw_Audits_update (af_Audits cfg) k (\<lambda>_. []) f"
abbreviation "dispatchesGet cfg \<equiv> getE aw_Dispatches aw_Dispatches_update (af_Dispatches cfg)"
abbreviation "dispatchesCreate cfg \<equiv> createE aw_Dispatches aw_Dispatches_update (af_Dispatches cfg)"
abbreviation "dispatchesUpdate cfg \<equiv> mutateE aw_Dispatches aw_Dispatches_update (af_Dispatches cfg)"
abbreviation "windowsGet cfg \<equiv> getE aw_Windows aw_Windows_update (af_Windows cfg)"
abbreviation "windowsUpdate cfg k f \<equiv> mutateE aw_Windows aw_Windows_update (af_Windows cfg) k (\<lambda>_. []) f"

section \<open>Opening an activity\<close>

definition empty_window :: "string \<Rightarrow> Window" where
  "empty_window groupID =
     \<lparr>wn_GroupID = groupID, wn_Keys = [], wn_Opening = [], wn_Delivering = [], wn_RefusedOpens = 0\<rparr>"

text \<open>The copy of the stored window a callback works on.\<close>

definition window_of :: "string \<Rightarrow> Window option \<Rightarrow> Window" where
  "window_of groupID cur =
     (case cur of None \<Rightarrow> empty_window groupID | Some current \<Rightarrow> current\<lparr>wn_GroupID := groupID\<rparr>)"

definition remove_at :: "nat \<Rightarrow> 'a list \<Rightarrow> 'a list" where
  "remove_at i xs = take i xs @ drop (Suc i) xs"

definition confirm_next :: "ActKey \<Rightarrow> Window \<Rightarrow> Window" where
  "confirm_next key w =
     (let w1 = (case openingIndex w key of None \<Rightarrow> w
                | Some i \<Rightarrow> w\<lparr>wn_Opening := remove_at i (wn_Opening w)\<rparr>)
      in if key \<in> set (wn_Keys w1) then w1 else w1\<lparr>wn_Keys := wn_Keys w1 @ [key]\<rparr>)"

definition confirm_mutate :: "ActKey \<Rightarrow> Window mutate" where
  "confirm_mutate key cur =
     (let w = window_of (ak_GroupID key) cur in
      if openingIndex w key = None \<and> key \<in> set (wn_Keys w) then Keep
      else Save (confirm_next key w))"

definition confirmWindow ::
  "('a, 'p, 'l, 'u, 'd, 'n) ActivityConfig \<Rightarrow> ActKey \<Rightarrow> (('a, 'p, 'l, 'u, 'd, 'n) aworld, unit) handler" where
  "confirmWindow cfg key =
     bindE (windowsUpdate cfg (ak_GroupID key) (confirm_mutate key)) (\<lambda>_. retE ())"

text \<open>The clock read inside the callback of \<open>admitToWindow\<close> is made before the update here.\<close>

definition admit_mutate :: "ActKey \<Rightarrow> int \<Rightarrow> Window mutate" where
  "admit_mutate key nowUnix cur =
     (let w = window_of (ak_GroupID key) cur in
      if window_contains w key then Keep
      else if window_pending w \<ge> MaxPendingActivities
           then Save (w\<lparr>wn_RefusedOpens := u64 (wn_RefusedOpens w + 1)\<rparr>)
      else Save (w\<lparr>wn_Opening := wn_Opening w @ [\<lparr>oe_Key = key, oe_AdmittedAtUnix = nowUnix\<rparr>]\<rparr>))"

definition admit_backlog :: "ActKey \<Rightarrow> Window option \<Rightarrow> bool" where
  "admit_backlog key cur =
     (let w = window_of (ak_GroupID key) cur in
      \<not> window_contains w key \<and> window_pending w \<ge> MaxPendingActivities)"

definition admitToWindow ::
  "('a, 'p, 'l, 'u, 'd, 'n) ActivityConfig \<Rightarrow> ActKey \<Rightarrow> (('a, 'p, 'l, 'u, 'd, 'n) aworld, unit) handler" where
  "admitToWindow cfg key =
     bindE (nowE (af_Now cfg)) (\<lambda>now.
       bindE (windowsUpdate cfg (ak_GroupID key) (admit_mutate key (Unix now))) (\<lambda>(calls, applied).
         if admit_backlog key (seen calls) then raiseE [ErrBacklog] else retE ()))"

definition new_activity :: "ActKey \<Rightarrow> int list \<Rightarrow> int \<Rightarrow> Activity" where
  "new_activity key expected nowUnix =
     \<lparr>ac_Key = key, ac_ExpectedGameSIDs = expected, ac_NotifiedGameSIDs = [],
      ac_Status = StatusPending, ac_GraceDeadlineUnix = 0, ac_CompletionReason = NoReason,
      ac_OpenedAtUnix = nowUnix, ac_FirstNotifyAtUnix = 0, ac_CompletedAtUnix = 0,
      ac_UpdatedAtUnix = nowUnix\<rparr>"

definition OpenActivity ::
  "('a, 'p, 'l, 'u, 'd, 'n) ActivityConfig \<Rightarrow> ActKey \<Rightarrow> int list \<Rightarrow>
   (('a, 'p, 'l, 'u, 'd, 'n) aworld, Activity) handler" where
  "OpenActivity cfg key expectedGameSIDs =
     thenE (guardE (ActKey_Validate key))
    (thenE (guardE (validateExpectedGames expectedGameSIDs))
    (thenE (admitToWindow cfg key)
    (bindE (nowE (af_Now cfg)) (\<lambda>now.
     bindE (activitiesCreate cfg key (new_activity key expectedGameSIDs (Unix now))) (\<lambda>stored.
     thenE (confirmWindow cfg key)
       (case stored of None \<Rightarrow> raiseE [ErrActExists] | Some sv \<Rightarrow> retE (ver_Value sv)))))))"

section \<open>Reading activities and windows\<close>

definition LookupActivity ::
  "('a, 'p, 'l, 'u, 'd, 'n) ActivityConfig \<Rightarrow> ActKey \<Rightarrow>
   (('a, 'p, 'l, 'u, 'd, 'n) aworld, Activity option) handler" where
  "LookupActivity cfg key =
     thenE (guardE (ActKey_Validate key))
      (bindE (activitiesGet cfg key) (\<lambda>current. retE (map_option ver_Value current)))"

definition PendingActivities ::
  "('a, 'p, 'l, 'u, 'd, 'n) ActivityConfig \<Rightarrow> string \<Rightarrow> int \<Rightarrow>
   (('a, 'p, 'l, 'u, 'd, 'n) aworld, ActKey list) handler" where
  "PendingActivities cfg groupID limit =
     (if groupID = [] then raiseE [ErrActInvalid]
      else thenE (guardE (act_validateLimit limit))
       (bindE (windowsGet cfg groupID) (\<lambda>window.
          case window of
            None \<Rightarrow> retE []
          | Some sv \<Rightarrow>
              retE (take (nat limit)
                (sortKeys (wn_Keys (ver_Value sv) @ map oe_Key (wn_Opening (ver_Value sv))))))))"

text \<open>
  The page of a group's delivering activities, in key order, starting behind the last one the
  previous page ended with.
\<close>

definition delivery_start :: "ActKey option \<Rightarrow> ActKey list \<Rightarrow> nat" where
  "delivery_start cursor keys =
     (case cursor of
        None \<Rightarrow> 0
      | Some c \<Rightarrow>
          (case List.find (\<lambda>i. Key_String c < Key_String (keys ! i)) [0 ..< length keys] of
             None \<Rightarrow> 0 | Some i \<Rightarrow> i))"

definition delivery_page :: "ActKey option \<Rightarrow> ActKey list \<Rightarrow> nat \<Rightarrow> ActKey list" where
  "delivery_page cursor keys limit =
     map (\<lambda>i. keys ! ((delivery_start cursor keys + i) mod length keys)) [0 ..< limit]"

definition DeliveringActivities ::
  "('a, 'p, 'l, 'u, 'd, 'n) ActivityConfig \<Rightarrow> string \<Rightarrow> int \<Rightarrow>
   (('a, 'p, 'l, 'u, 'd, 'n) aworld, ActKey list) handler" where
  "DeliveringActivities cfg groupID limit =
     (if groupID = [] then raiseE [ErrActInvalid]
      else thenE (guardE (act_validateLimit limit))
       (bindE (windowsGet cfg groupID) (\<lambda>window.
          case window of
            None \<Rightarrow> retE []
          | Some sv \<Rightarrow>
              let keys = sortKeys (wn_Delivering (ver_Value sv)) in
              if int (length keys) \<le> limit then retE keys
              else bindE (readE aw_Cursor) (\<lambda>cursors.
                     let out = delivery_page (cursors groupID) keys (nat limit) in
                     thenE (modifyE (\<lambda>w. w\<lparr>aw_Cursor := (aw_Cursor w)(groupID := Some (last out))\<rparr>))
                       (retE out)))))"

section \<open>Dispatches of a completed activity\<close>

definition new_dispatch :: "Activity \<Rightarrow> int \<Rightarrow> string \<Rightarrow> int \<Rightarrow> int \<Rightarrow> Dispatch" where
  "new_dispatch activity gameSID token maxAttempts nowUnix =
     \<lparr>dp_Key = ac_Key activity, dp_GameSID = gameSID, dp_Token = token,
      dp_Result = activity_result activity, dp_State = DispatchPending, dp_Attempts = 0,
      dp_MaxAttempts = maxAttempts, dp_NextAttemptAtUnix = nowUnix, dp_CreatedAtUnix = nowUnix,
      dp_LastAttemptAtUnix = 0, dp_AckedAtUnix = 0, dp_ExhaustedAtUnix = 0, dp_Reopens = 0,
      dp_AdminNote = [], dp_AdminActionAtUnix = 0\<rparr>"

definition mintE ::
  "('a, 'p, 'l, 'u, 'd, 'n) ActivityConfig \<Rightarrow> (('a, 'p, 'l, 'u, 'd, 'n) aworld, string) handler" where
  "mintE cfg = (\<lambda>w. (af_NewDispatchToken cfg (aw_Minted w), w\<lparr>aw_Minted := Suc (aw_Minted w)\<rparr>))"

definition ensure_one ::
  "('a, 'p, 'l, 'u, 'd, 'n) ActivityConfig \<Rightarrow> Activity \<Rightarrow> int \<Rightarrow> int \<Rightarrow>
   (('a, 'p, 'l, 'u, 'd, 'n) aworld, unit) handler" where
  "ensure_one cfg activity nowUnix gameSID =
     (let key = \<lparr>dk_Activity = ac_Key activity, dk_GameSID = gameSID\<rparr> in
      bindE (dispatchesGet cfg key) (\<lambda>current.
        if current \<noteq> None then retE ()
        else bindE (mintE cfg) (\<lambda>token.
               if token = [] then raiseE [Foreign ''activity: dispatch token generator returned an empty token'']
               else bindE (dispatchesCreate cfg key
                      (new_dispatch activity gameSID token (af_DispatchMaxAttempts cfg) nowUnix))
                    (\<lambda>_. retE ()))))"

definition ensureDispatches ::
  "('a, 'p, 'l, 'u, 'd, 'n) ActivityConfig \<Rightarrow> Activity \<Rightarrow>
   (('a, 'p, 'l, 'u, 'd, 'n) aworld, unit) handler" where
  "ensureDispatches cfg activity =
     (if ac_Status activity \<noteq> StatusComplete then raiseE [ErrActStatus]
      else bindE (nowE (af_Now cfg)) (\<lambda>now.
             forE (ac_ExpectedGameSIDs activity) (ensure_one cfg activity (Unix now))))"

fun all_delivered ::
  "('a, 'p, 'l, 'u, 'd, 'n) ActivityConfig \<Rightarrow> ActKey \<Rightarrow> int list \<Rightarrow>
   (('a, 'p, 'l, 'u, 'd, 'n) aworld, bool) handler" where
  "all_delivered cfg key [] = retE True"
| "all_delivered cfg key (gameSID # rest) =
     bindE (dispatchesGet cfg \<lparr>dk_Activity = key, dk_GameSID = gameSID\<rparr>) (\<lambda>current.
       case current of
         None \<Rightarrow> retE False
       | Some sv \<Rightarrow> if dp_State (ver_Value sv) = DispatchPending then retE False
                    else all_delivered cfg key rest)"

definition delivered_mutate :: "ActKey \<Rightarrow> Window mutate" where
  "delivered_mutate key cur =
     (case cur of
        None \<Rightarrow> Keep
      | Some current \<Rightarrow>
          if \<not> window_delivering current key then Keep
          else Save (current\<lparr>wn_Delivering := filter (\<lambda>existing. existing \<noteq> key) (wn_Delivering current)\<rparr>))"

definition RetireDelivered ::
  "('a, 'p, 'l, 'u, 'd, 'n) ActivityConfig \<Rightarrow> ActKey \<Rightarrow>
   (('a, 'p, 'l, 'u, 'd, 'n) aworld, bool) handler" where
  "RetireDelivered cfg key =
     thenE (guardE (ActKey_Validate key))
    (bindE (LookupActivity cfg key) (\<lambda>found.
     bindE (case found of
              None \<Rightarrow> retE True
            | Some activity \<Rightarrow>
                if ac_Status activity \<noteq> StatusComplete then retE False
                else thenE (ensureDispatches cfg activity)
                       (all_delivered cfg key (ac_ExpectedGameSIDs activity))) (\<lambda>settled.
       if \<not> settled then retE False
       else bindE (windowsUpdate cfg (ak_GroupID key) (delivered_mutate key)) (\<lambda>_. retE True))))"

section \<open>Retiring from the window\<close>

definition add_delivering :: "ActKey list \<Rightarrow> Window \<Rightarrow> Window" where
  "add_delivering keys w =
     fold (\<lambda>key w. if window_delivering w key then w
                   else w\<lparr>wn_Delivering := wn_Delivering w @ [key]\<rparr>) keys w"

definition retire_next :: "ActKey list \<Rightarrow> ActKey list \<Rightarrow> ActKey list \<Rightarrow> Window \<Rightarrow> Window" where
  "retire_next prune delivering dropOpening current =
     add_delivering delivering
       (current\<lparr>wn_Keys := filter (\<lambda>key. key \<notin> set prune) (wn_Keys current),
                wn_Opening := filter (\<lambda>entry. oe_Key entry \<notin> set prune \<and> oe_Key entry \<notin> set dropOpening)
                                (wn_Opening current)\<rparr>)"

definition retire_changed :: "ActKey list \<Rightarrow> ActKey list \<Rightarrow> ActKey list \<Rightarrow> Window \<Rightarrow> bool" where
  "retire_changed prune delivering dropOpening current \<longleftrightarrow>
     list_ex (\<lambda>key. key \<in> set prune) (wn_Keys current) \<or>
     list_ex (\<lambda>entry. oe_Key entry \<in> set prune \<or> oe_Key entry \<in> set dropOpening) (wn_Opening current) \<or>
     list_ex (\<lambda>key. \<not> window_delivering current key) delivering"

definition retire_mutate :: "ActKey list \<Rightarrow> ActKey list \<Rightarrow> ActKey list \<Rightarrow> Window mutate" where
  "retire_mutate prune delivering dropOpening cur =
     (case cur of
        None \<Rightarrow> Keep
      | Some current \<Rightarrow>
          if retire_changed prune delivering dropOpening current
          then Save (retire_next prune delivering dropOpening current) else Keep)"

definition retireFromWindow ::
  "('a, 'p, 'l, 'u, 'd, 'n) ActivityConfig \<Rightarrow> string \<Rightarrow> ActKey list \<Rightarrow> ActKey list \<Rightarrow> ActKey list \<Rightarrow>
   (('a, 'p, 'l, 'u, 'd, 'n) aworld, unit) handler" where
  "retireFromWindow cfg groupID prune delivering dropOpening =
     (if length prune + length dropOpening = 0 then retE ()
      else bindE (windowsUpdate cfg groupID (retire_mutate prune delivering dropOpening)) (\<lambda>_. retE ()))"

definition settleCompletion ::
  "('a, 'p, 'l, 'u, 'd, 'n) ActivityConfig \<Rightarrow> Activity \<Rightarrow>
   (('a, 'p, 'l, 'u, 'd, 'n) aworld, unit) handler" where
  "settleCompletion cfg activity =
     thenE (ensureDispatches cfg activity)
       (retireFromWindow cfg (ak_GroupID (ac_Key activity)) [ac_Key activity] [ac_Key activity] [])"

section \<open>Notifications\<close>

definition notify_next :: "int \<Rightarrow> time \<Rightarrow> duration \<Rightarrow> Activity \<Rightarrow> Activity" where
  "notify_next gameSID now grace current =
     (let n1 = (if ac_Status current = StatusPending
                then current\<lparr>ac_Status := StatusCollecting, ac_FirstNotifyAtUnix := Unix now,
                             ac_GraceDeadlineUnix := Unix (Add now grace)\<rparr>
                else current);
          n2 = n1\<lparr>ac_NotifiedGameSIDs := ac_NotifiedGameSIDs n1 @ [gameSID], ac_UpdatedAtUnix := Unix now\<rparr>
      in if Collected n2
         then n2\<lparr>ac_Status := StatusComplete, ac_CompletedAtUnix := Unix now,
                 ac_CompletionReason := CompletedCollected\<rparr>
         else n2)"

definition notify_mutate :: "int \<Rightarrow> time \<Rightarrow> duration \<Rightarrow> Activity mutate" where
  "notify_mutate gameSID now grace cur =
     (case cur of
        None \<Rightarrow> Keep
      | Some current \<Rightarrow>
          if Notified current gameSID then Keep
          else if \<not> Expects current gameSID then Keep
          else if ac_Status current = StatusComplete then Keep
          else if GraceExpired current (Unix now) then Keep
          else Save (notify_next gameSID now grace current))"

fun status_string :: "act_status \<Rightarrow> string" where
  "status_string StatusPending = ''pending''"
| "status_string StatusCollecting = ''collecting''"
| "status_string StatusComplete = ''complete''"

fun reason_string :: "completion_reason \<Rightarrow> string" where
  "reason_string NoReason = []"
| "reason_string CompletedCollected = ''collected''"
| "reason_string CompletedGraceExpired = ''grace_expired''"

fun refusal_string :: "notify_refusal \<Rightarrow> string" where
  "refusal_string RefusalUnknownActivity = ''unknown_activity''"
| "refusal_string RefusalUnexpectedGame = ''unexpected_game''"
| "refusal_string RefusalStaleStatus = ''stale_status''"
| "refusal_string RefusalLate = ''late''"

text \<open>The captured \<open>refusal\<close>, \<open>refusedStatus\<close> and \<open>detail\<close>.\<close>

definition notify_refused ::
  "int \<Rightarrow> int \<Rightarrow> Activity option \<Rightarrow> (notify_refusal \<times> act_status option \<times> string) option" where
  "notify_refused gameSID nowUnix cur =
     (case cur of
        None \<Rightarrow> Some (RefusalUnknownActivity, None, [])
      | Some current \<Rightarrow>
          if Notified current gameSID then None
          else if \<not> Expects current gameSID
               then Some (RefusalUnexpectedGame, Some (ac_Status current),
                      ''expected ['' @ Join (CHR '' '') (map FormatInt (ac_ExpectedGameSIDs current)) @ '']'')
          else if ac_Status current = StatusComplete
               then Some (RefusalStaleStatus, Some (ac_Status current),
                      ''completed at '' @ FormatInt (ac_CompletedAtUnix current) @ '' as '' @
                      reason_string (ac_CompletionReason current))
          else if GraceExpired current nowUnix
               then Some (RefusalLate, Some (ac_Status current),
                      ''grace deadline '' @ FormatInt (ac_GraceDeadlineUnix current) @ '', now '' @
                      FormatInt nowUnix)
          else None)"

definition audit_of :: "ActKey \<Rightarrow> NotifyAuditLog option \<Rightarrow> NotifyAuditLog" where
  "audit_of key cur =
     (case cur of
        None \<Rightarrow> \<lparr>nl_Key = key, nl_Entries = [], nl_NextSeq = 1, nl_Overflowed = 0\<rparr>
      | Some current \<Rightarrow>
          current\<lparr>nl_Key := key, nl_NextSeq := (if nl_NextSeq current = 0 then 1 else nl_NextSeq current)\<rparr>)"

definition audit_mutate :: "ActKey \<Rightarrow> NotifyAudit \<Rightarrow> NotifyAuditLog mutate" where
  "audit_mutate key audit cur =
     (let next = audit_of key cur in
      if length (nl_Entries next) \<ge> MaxNotifyAudits
      then Save (next\<lparr>nl_Overflowed := u64 (nl_Overflowed next + 1)\<rparr>)
      else Save (next\<lparr>nl_Entries := nl_Entries next @ [audit\<lparr>na_Seq := nl_NextSeq next\<rparr>],
                      nl_NextSeq := u64 (nl_NextSeq next + 1)\<rparr>))"

definition appendAudit ::
  "('a, 'p, 'l, 'u, 'd, 'n) ActivityConfig \<Rightarrow> ActKey \<Rightarrow> NotifyAudit \<Rightarrow>
   (('a, 'p, 'l, 'u, 'd, 'n) aworld, unit) handler" where
  "appendAudit cfg key audit =
     bindE (auditsUpdate cfg key (audit_mutate key audit)) (\<lambda>_. retE ())"

fun refusal_error :: "notify_refusal \<Rightarrow> gerr" where
  "refusal_error RefusalUnknownActivity = [ErrActMissing]"
| "refusal_error RefusalUnexpectedGame = [ErrNotifyUnexpected]"
| "refusal_error RefusalStaleStatus = [ErrActStatus]"
| "refusal_error RefusalLate = [ErrNotifyLate]"

text \<open>\<open>refuseNotify\<close> always answers an error: the refusal's, once it is in the audit.\<close>

definition refuseNotify ::
  "('a, 'p, 'l, 'u, 'd, 'n) ActivityConfig \<Rightarrow> ActKey \<Rightarrow> int \<Rightarrow> act_status option \<Rightarrow> notify_refusal \<Rightarrow>
   string \<Rightarrow> (('a, 'p, 'l, 'u, 'd, 'n) aworld, 'r) handler" where
  "refuseNotify cfg key gameSID status refusal detail =
     bindE (nowE (af_Now cfg)) (\<lambda>now.
       let audit = \<lparr>na_Seq = 0, na_Key = key, na_GameSID = gameSID, na_Refusal = refusal,
                    na_Status = status, na_AtUnix = Unix now, na_Detail = detail\<rparr> in
       thenE (appendAudit cfg key audit)
      (thenE (reportE (Refused ''notify_phase'' (refusal_string refusal)))
        (raiseE (refusal_error refusal))))"

definition zero_activity :: Activity where
  "zero_activity = new_activity \<lparr>ak_GroupID = [], ak_ActivityID = [], ak_Phase = []\<rparr> [] 0"

definition notify_completed :: "int \<Rightarrow> time \<Rightarrow> duration \<Rightarrow> Activity option \<Rightarrow> bool" where
  "notify_completed gameSID now grace cur =
     (case notify_mutate gameSID now grace cur of
        Save v \<Rightarrow> Collected v | Keep \<Rightarrow> False | Fail e \<Rightarrow> False)"

text \<open>The activity and an error together: the notification counts even when settling it failed.\<close>

definition NotifyPhase ::
  "('a, 'p, 'l, 'u, 'd, 'n) ActivityConfig \<Rightarrow> ActKey \<Rightarrow> int \<Rightarrow>
   (('a, 'p, 'l, 'u, 'd, 'n) aworld, Activity \<times> gerr option) handler" where
  "NotifyPhase cfg key gameSID =
     thenE (guardE (ActKey_Validate key))
      (if gameSID \<le> 0 then raiseE [ErrActInvalid]
       else bindE (nowE (af_Now cfg)) (\<lambda>now.
         let f = notify_mutate gameSID now (af_GraceWindow cfg) in
         bindE (activitiesUpdate cfg key f) (\<lambda>(calls, applied).
           case notify_refused gameSID (Unix now) (seen calls) of
             Some (refusal, status, detail) \<Rightarrow> refuseNotify cfg key gameSID status refusal detail
           | None \<Rightarrow>
               let result = (case f (seen calls) of
                               Save v \<Rightarrow> v
                             | _ \<Rightarrow> (case seen calls of None \<Rightarrow> zero_activity | Some u \<Rightarrow> u)) in
               thenE (reportE (Accepted ''notify_phase''))
                 (if notify_completed gameSID now (af_GraceWindow cfg) (seen calls)
                  then bindE (tryE (settleCompletion cfg result)) (\<lambda>r.
                         retE (result, case r of Inl e \<Rightarrow> Some e | Inr _ \<Rightarrow> None))
                  else retE (result, None)))))"

definition NotifyAudits ::
  "('a, 'p, 'l, 'u, 'd, 'n) ActivityConfig \<Rightarrow> ActKey \<Rightarrow> int \<Rightarrow>
   (('a, 'p, 'l, 'u, 'd, 'n) aworld, NotifyAudit list) handler" where
  "NotifyAudits cfg key limit =
     thenE (guardE (ActKey_Validate key))
    (thenE (guardE (act_validateLimit limit))
    (bindE (auditsGet cfg key) (\<lambda>current.
       retE (case current of None \<Rightarrow> []
             | Some sv \<Rightarrow> take (nat limit) (sort_key (\<lambda>e. - na_Seq e) (nl_Entries (ver_Value sv)))))))"

definition AuditOverflow ::
  "('a, 'p, 'l, 'u, 'd, 'n) ActivityConfig \<Rightarrow> ActKey \<Rightarrow> (('a, 'p, 'l, 'u, 'd, 'n) aworld, int) handler" where
  "AuditOverflow cfg key =
     thenE (guardE (ActKey_Validate key))
    (bindE (auditsGet cfg key) (\<lambda>current.
       retE (case current of None \<Rightarrow> 0 | Some sv \<Rightarrow> nl_Overflowed (ver_Value sv))))"

section \<open>The grace sweep\<close>

definition expire_next :: "int \<Rightarrow> Activity \<Rightarrow> Activity" where
  "expire_next nowUnix current =
     current\<lparr>ac_Status := StatusComplete, ac_CompletedAtUnix := nowUnix, ac_UpdatedAtUnix := nowUnix,
             ac_CompletionReason := CompletedGraceExpired\<rparr>"

definition expire_mutate :: "int \<Rightarrow> Activity mutate" where
  "expire_mutate nowUnix cur =
     (case cur of
        None \<Rightarrow> Keep
      | Some current \<Rightarrow>
          if ac_Status current \<noteq> StatusCollecting then Keep
          else if \<not> GraceExpired current nowUnix then Keep
          else Save (expire_next nowUnix current))"

text \<open>The advanced activity, or nothing when the callback kept the record.\<close>

definition completeExpired ::
  "('a, 'p, 'l, 'u, 'd, 'n) ActivityConfig \<Rightarrow> ActKey \<Rightarrow> int \<Rightarrow>
   (('a, 'p, 'l, 'u, 'd, 'n) aworld, Activity option) handler" where
  "completeExpired cfg key nowUnix =
     bindE (activitiesUpdate cfg key (expire_mutate nowUnix)) (\<lambda>(calls, applied).
       retE (case expire_mutate nowUnix (seen calls) of
               Save v \<Rightarrow> Some v | Keep \<Rightarrow> None | Fail e \<Rightarrow> None))"

text \<open>What the sweep collects while it reads the window.\<close>

record sweep_plan =
  sw_due :: "(ActKey \<times> int) list"
  sw_prune :: "ActKey list"
  sw_heal :: "Activity list"
  sw_confirm :: "ActKey list"
  sw_dropOpening :: "ActKey list"

definition empty_plan :: sweep_plan where
  "empty_plan = \<lparr>sw_due = [], sw_prune = [], sw_heal = [], sw_confirm = [], sw_dropOpening = []\<rparr>"

definition classify :: "int \<Rightarrow> ActKey \<Rightarrow> Activity \<Rightarrow> sweep_plan \<Rightarrow> sweep_plan" where
  "classify nowUnix key activity p =
     (if ac_Status activity = StatusComplete
      then p\<lparr>sw_heal := sw_heal p @ [activity], sw_prune := sw_prune p @ [key]\<rparr>
      else if ac_Status activity = StatusCollecting \<and> GraceExpired activity nowUnix
      then p\<lparr>sw_due := sw_due p @ [(key, ac_GraceDeadlineUnix activity)]\<rparr>
      else p)"

fun sweep_keys ::
  "('a, 'p, 'l, 'u, 'd, 'n) ActivityConfig \<Rightarrow> int \<Rightarrow> ActKey list \<Rightarrow> sweep_plan \<Rightarrow>
   (('a, 'p, 'l, 'u, 'd, 'n) aworld, sweep_plan) handler" where
  "sweep_keys cfg nowUnix [] p = retE p"
| "sweep_keys cfg nowUnix (key # rest) p =
     bindE (activitiesGet cfg key) (\<lambda>current.
       case current of
         None \<Rightarrow> sweep_keys cfg nowUnix rest (p\<lparr>sw_prune := sw_prune p @ [key]\<rparr>)
       | Some sv \<Rightarrow> sweep_keys cfg nowUnix rest (classify nowUnix key (ver_Value sv) p))"

fun sweep_opening ::
  "('a, 'p, 'l, 'u, 'd, 'n) ActivityConfig \<Rightarrow> int \<Rightarrow> OpeningEntry list \<Rightarrow> sweep_plan \<Rightarrow>
   (('a, 'p, 'l, 'u, 'd, 'n) aworld, sweep_plan) handler" where
  "sweep_opening cfg nowUnix [] p = retE p"
| "sweep_opening cfg nowUnix (entry # rest) p =
     bindE (activitiesGet cfg (oe_Key entry)) (\<lambda>current.
       case current of
         None \<Rightarrow>
           sweep_opening cfg nowUnix rest
             (if nowUnix - oe_AdmittedAtUnix entry \<ge> af_OpeningGrace cfg div Second
              then p\<lparr>sw_dropOpening := sw_dropOpening p @ [oe_Key entry]\<rparr> else p)
       | Some sv \<Rightarrow>
           sweep_opening cfg nowUnix rest
             (classify nowUnix (oe_Key entry) (ver_Value sv) (p\<lparr>sw_confirm := sw_confirm p @ [oe_Key entry]\<rparr>)))"

text \<open>The completions of one sweep, with the error that cut them short, if any.\<close>

fun sweep_due ::
  "('a, 'p, 'l, 'u, 'd, 'n) ActivityConfig \<Rightarrow> int \<Rightarrow> int \<Rightarrow> (ActKey \<times> int) list \<Rightarrow> (ActKey \<times> Activity) list \<Rightarrow>
   (('a, 'p, 'l, 'u, 'd, 'n) aworld, (ActKey \<times> Activity) list \<times> gerr option) handler" where
  "sweep_due cfg nowUnix limit [] completed = retE (completed, None)"
| "sweep_due cfg nowUnix limit (entry # rest) completed =
     (if int (length completed) \<ge> limit then retE (completed, None)
      else bindE (tryE (completeExpired cfg (fst entry) nowUnix)) (\<lambda>r.
        case r of
          Inl e \<Rightarrow> retE (completed, Some e)
        | Inr None \<Rightarrow> sweep_due cfg nowUnix limit rest completed
        | Inr (Some activity) \<Rightarrow> sweep_due cfg nowUnix limit rest (completed @ [(fst entry, activity)])))"

definition sort_due :: "(ActKey \<times> int) list \<Rightarrow> (ActKey \<times> int) list" where
  "sort_due due = sort_key (\<lambda>(key, deadline). (deadline, Key_String key)) due"

text \<open>Healing and pruning, the last part of the sweep: everything here may fail after completions.\<close>

definition sweep_finish ::
  "('a, 'p, 'l, 'u, 'd, 'n) ActivityConfig \<Rightarrow> string \<Rightarrow> sweep_plan \<Rightarrow> (ActKey \<times> Activity) list \<Rightarrow>
   (('a, 'p, 'l, 'u, 'd, 'n) aworld, unit) handler" where
  "sweep_finish cfg groupID p completed =
     (let heal = sw_heal p @ map snd completed; prune = sw_prune p @ map fst completed in
      thenE (forE heal (ensureDispatches cfg))
        (if length prune + length (sw_dropOpening p) > 0
         then retireFromWindow cfg groupID prune (map ac_Key heal) (sw_dropOpening p)
         else retE ()))"

definition AdvanceExpired ::
  "('a, 'p, 'l, 'u, 'd, 'n) ActivityConfig \<Rightarrow> string \<Rightarrow> int \<Rightarrow>
   (('a, 'p, 'l, 'u, 'd, 'n) aworld, Activity list \<times> gerr option) handler" where
  "AdvanceExpired cfg groupID limit =
     (if groupID = [] then raiseE [ErrActInvalid]
      else thenE (guardE (act_validateLimit limit))
       (bindE (windowsGet cfg groupID) (\<lambda>window.
          case window of
            None \<Rightarrow> retE ([], None)
          | Some sv \<Rightarrow>
              bindE (nowE (af_Now cfg)) (\<lambda>now.
              let nowUnix = Unix now in
              bindE (sweep_keys cfg nowUnix
                       (take MaxPendingActivities (sortKeys (wn_Keys (ver_Value sv)))) empty_plan) (\<lambda>p1.
              bindE (sweep_opening cfg nowUnix (wn_Opening (ver_Value sv)) p1) (\<lambda>p.
              thenE (forE (sw_confirm p) (confirmWindow cfg))
             (bindE (sweep_due cfg nowUnix limit (sort_due (sw_due p)) []) (\<lambda>(completed, failed).
                case failed of
                  Some e \<Rightarrow> retE (map snd completed, Some e)
                | None \<Rightarrow>
                    bindE (tryE (sweep_finish cfg groupID p completed)) (\<lambda>r.
                      retE (map snd completed, case r of Inl e \<Rightarrow> Some e | Inr _ \<Rightarrow> None))))))))))"

section \<open>Participant progress\<close>

definition apply_next :: "ActKey \<Rightarrow> string \<Rightarrow> string \<Rightarrow> ProgressDelta \<Rightarrow> int \<Rightarrow> Participant option \<Rightarrow> Participant" where
  "apply_next key participantID requestID delta nowUnix cur =
     (let base = (case cur of
                    None \<Rightarrow> \<lparr>pt_Key = key, pt_ParticipantID = participantID, pt_Score = 0, pt_Progress = 0,
                             pt_AppliedRequestIDs = [], pt_Applies = 0, pt_UpdatedAtUnix = 0\<rparr>
                  | Some current \<Rightarrow> current\<lparr>pt_Key := key, pt_ParticipantID := participantID\<rparr>)
      in base\<lparr>pt_Score := i64 (pt_Score base + pd_Score delta),
              pt_Progress := i64 (pt_Progress base + pd_Progress delta),
              pt_AppliedRequestIDs := appendBounded (pt_AppliedRequestIDs base) requestID MaxProgressWindow,
              pt_Applies := u64 (pt_Applies base + 1), pt_UpdatedAtUnix := nowUnix\<rparr>)"

definition apply_mutate :: "ActKey \<Rightarrow> string \<Rightarrow> string \<Rightarrow> ProgressDelta \<Rightarrow> int \<Rightarrow> Participant mutate" where
  "apply_mutate key participantID requestID delta nowUnix cur =
     (if (case cur of None \<Rightarrow> False | Some current \<Rightarrow> Applied current requestID) then Keep
      else Save (apply_next key participantID requestID delta nowUnix cur))"

definition mark_mutate :: "int \<Rightarrow> ProgressReservation mutate" where
  "mark_mutate nowUnix cur =
     (case cur of
        None \<Rightarrow> Keep
      | Some current \<Rightarrow>
          if pr_State current = ReservationApplied then Keep
          else Save (current\<lparr>pr_State := ReservationApplied, pr_AppliedAtUnix := nowUnix\<rparr>))"

definition markReservationApplied ::
  "('a, 'p, 'l, 'u, 'd, 'n) ActivityConfig \<Rightarrow> RequestKey \<Rightarrow> int \<Rightarrow>
   (('a, 'p, 'l, 'u, 'd, 'n) aworld, unit) handler" where
  "markReservationApplied cfg key nowUnix =
     bindE (ledgerUpdate cfg key (mark_mutate nowUnix)) (\<lambda>_. retE ())"

definition lookupParticipant ::
  "('a, 'p, 'l, 'u, 'd, 'n) ActivityConfig \<Rightarrow> ParticipantKey \<Rightarrow>
   (('a, 'p, 'l, 'u, 'd, 'n) aworld, Participant option) handler" where
  "lookupParticipant cfg key =
     bindE (participantsGet cfg key) (\<lambda>current. retE (map_option ver_Value current))"

definition zero_participant :: Participant where
  "zero_participant = \<lparr>pt_Key = \<lparr>ak_GroupID = [], ak_ActivityID = [], ak_Phase = []\<rparr>,
     pt_ParticipantID = [], pt_Score = 0, pt_Progress = 0, pt_AppliedRequestIDs = [],
     pt_Applies = 0, pt_UpdatedAtUnix = 0\<rparr>"

text \<open>
  The reservation step: \<open>None\<close> to go on and apply, or the participant a finished request is
  answered with.
\<close>

definition reserve ::
  "('a, 'p, 'l, 'u, 'd, 'n) ActivityConfig \<Rightarrow> RequestKey \<Rightarrow> ProgressDelta \<Rightarrow> time \<Rightarrow>
   (('a, 'p, 'l, 'u, 'd, 'n) aworld, Participant option) handler" where
  "reserve cfg requestKey delta now =
     bindE (ledgerCreate cfg requestKey
       \<lparr>pr_Key = requestKey, pr_Delta = delta, pr_State = ReservationReserved,
        pr_CreatedAtUnix = Unix now, pr_AppliedAtUnix = 0,
        pr_ExpiresAtUnix = Unix (Add now (af_ReservationTTL cfg))\<rparr>) (\<lambda>created.
     if created \<noteq> None then retE None
     else bindE (ledgerGet cfg requestKey) (\<lambda>existing.
       case existing of
         None \<Rightarrow> raiseE [ErrRequestInvalid]
       | Some sv \<Rightarrow>
           if pr_Delta (ver_Value sv) \<noteq> delta then raiseE [ErrRequestInvalid]
           else if pr_State (ver_Value sv) = ReservationApplied
           then bindE (lookupParticipant cfg
                    \<lparr>pk_Activity = rk_Activity requestKey, pk_ParticipantID = rk_ParticipantID requestKey\<rparr>) (\<lambda>current.
                  thenE (reportE (Replayed ''apply_progress''))
                    (retE (Some (case current of None \<Rightarrow> zero_participant | Some p \<Rightarrow> p))))
           else retE None))"

definition ApplyProgress ::
  "('a, 'p, 'l, 'u, 'd, 'n) ActivityConfig \<Rightarrow> ActKey \<Rightarrow> string \<Rightarrow> string \<Rightarrow> ProgressDelta \<Rightarrow>
   (('a, 'p, 'l, 'u, 'd, 'n) aworld, Participant \<times> gerr option) handler" where
  "ApplyProgress cfg key participantID requestID delta =
     (let requestKey = \<lparr>rk_Activity = key, rk_ParticipantID = participantID, rk_RequestID = requestID\<rparr> in
      thenE (guardE (RequestKey_Validate requestKey))
     (thenE (guardE (ProgressDelta_Validate delta))
     (bindE (LookupActivity cfg key) (\<lambda>found.
        case found of
          None \<Rightarrow> raiseE [ErrActMissing]
        | Some activity \<Rightarrow>
            if ac_Status activity = StatusComplete then raiseE [ErrActStatus]
            else bindE (nowE (af_Now cfg)) (\<lambda>now.
              bindE (reserve cfg requestKey delta now) (\<lambda>replay.
                case replay of
                  Some current \<Rightarrow> retE (current, None)
                | None \<Rightarrow>
                    let f = apply_mutate key participantID requestID delta (Unix now) in
                    bindE (participantsUpdate cfg
                             \<lparr>pk_Activity = key, pk_ParticipantID = participantID\<rparr> f) (\<lambda>(calls, applied).
                      let result = result_of f zero_participant (seen calls) in
                      bindE (tryE (markReservationApplied cfg requestKey (Unix now))) (\<lambda>r.
                        case r of
                          Inl e \<Rightarrow> retE (result, Some e)
                        | Inr _ \<Rightarrow> thenE (reportE (Accepted ''apply_progress'')) (retE (result, None))))))))))"

definition LookupParticipant ::
  "('a, 'p, 'l, 'u, 'd, 'n) ActivityConfig \<Rightarrow> ActKey \<Rightarrow> string \<Rightarrow>
   (('a, 'p, 'l, 'u, 'd, 'n) aworld, Participant option) handler" where
  "LookupParticipant cfg key participantID =
     (let participantKey = \<lparr>pk_Activity = key, pk_ParticipantID = participantID\<rparr> in
      thenE (guardE (ParticipantKey_Validate participantKey)) (lookupParticipant cfg participantKey))"

definition Reservation ::
  "('a, 'p, 'l, 'u, 'd, 'n) ActivityConfig \<Rightarrow> ActKey \<Rightarrow> string \<Rightarrow> string \<Rightarrow>
   (('a, 'p, 'l, 'u, 'd, 'n) aworld, ProgressReservation option) handler" where
  "Reservation cfg key participantID requestID =
     (let requestKey = \<lparr>rk_Activity = key, rk_ParticipantID = participantID, rk_RequestID = requestID\<rparr> in
      thenE (guardE (RequestKey_Validate requestKey))
       (bindE (ledgerGet cfg requestKey) (\<lambda>current. retE (map_option ver_Value current))))"

section \<open>Delivering a dispatch\<close>

definition LookupDispatch ::
  "('a, 'p, 'l, 'u, 'd, 'n) ActivityConfig \<Rightarrow> ActKey \<Rightarrow> int \<Rightarrow>
   (('a, 'p, 'l, 'u, 'd, 'n) aworld, Dispatch option) handler" where
  "LookupDispatch cfg key gameSID =
     thenE (guardE (ActKey_Validate key))
      (if gameSID \<le> 0 then raiseE [ErrActInvalid]
       else bindE (dispatchesGet cfg \<lparr>dk_Activity = key, dk_GameSID = gameSID\<rparr>)
              (\<lambda>current. retE (map_option ver_Value current)))"

definition OwedDispatches ::
  "('a, 'p, 'l, 'u, 'd, 'n) ActivityConfig \<Rightarrow> string \<Rightarrow> int \<Rightarrow> int \<Rightarrow>
   (('a, 'p, 'l, 'u, 'd, 'n) aworld, ActKey list) handler" where
  "OwedDispatches cfg groupID gameSID limit =
     (if blank groupID then raiseE [ErrActInvalid]
      else if gameSID \<le> 0 then raiseE [ErrActInvalid]
      else thenE (guardE (act_validateLimit limit))
       (case af_OwedIndex cfg of
          None \<Rightarrow> raiseE [ErrActUnsupported]
        | Some index \<Rightarrow>
            bindE (nowE (af_Now cfg)) (\<lambda>now.
            bindE (readE aw_Dispatches) (\<lambda>d.
              case index groupID gameSID (Unix now) limit d of
                Inl e \<Rightarrow> raiseE e
              | Inr keys \<Rightarrow> retE (map dk_Activity keys)))))"

fun due_loop ::
  "('a, 'p, 'l, 'u, 'd, 'n) ActivityConfig \<Rightarrow> ActKey \<Rightarrow> int \<Rightarrow> int \<Rightarrow> int list \<Rightarrow> Dispatch list \<Rightarrow>
   (('a, 'p, 'l, 'u, 'd, 'n) aworld, Dispatch list) handler" where
  "due_loop cfg key limit nowUnix [] out = retE out"
| "due_loop cfg key limit nowUnix (gameSID # rest) out =
     bindE (dispatchesGet cfg \<lparr>dk_Activity = key, dk_GameSID = gameSID\<rparr>) (\<lambda>current.
       case current of
         None \<Rightarrow> due_loop cfg key limit nowUnix rest out
       | Some sv \<Rightarrow>
           if \<not> Due (ver_Value sv) nowUnix then due_loop cfg key limit nowUnix rest out
           else let out' = out @ [ver_Value sv] in
                if int (length out') = limit then retE out'
                else due_loop cfg key limit nowUnix rest out')"

definition DueDispatches ::
  "('a, 'p, 'l, 'u, 'd, 'n) ActivityConfig \<Rightarrow> ActKey \<Rightarrow> int \<Rightarrow>
   (('a, 'p, 'l, 'u, 'd, 'n) aworld, Dispatch list) handler" where
  "DueDispatches cfg key limit =
     thenE (guardE (ActKey_Validate key))
    (thenE (guardE (act_validateLimit limit))
    (bindE (LookupActivity cfg key) (\<lambda>found.
       case found of
         None \<Rightarrow> raiseE [ErrActMissing]
       | Some activity \<Rightarrow>
           bindE (nowE (af_Now cfg)) (\<lambda>now.
             due_loop cfg key limit (Unix now) (ac_ExpectedGameSIDs activity) []))))"

definition dispatchBackoff :: "duration \<Rightarrow> int \<Rightarrow> duration" where
  "dispatchBackoff backoff attempt =
     (let a = (if attempt < 1 then 1 else attempt);
          b = (if a > maxBackoffMultiplier then maxBackoffMultiplier else a)
      in backoff * b)"

definition attempt_next :: "duration \<Rightarrow> time \<Rightarrow> Dispatch \<Rightarrow> Dispatch" where
  "attempt_next backoff now current =
     (let n = i64 (dp_Attempts current + 1) in
      current\<lparr>dp_Attempts := n, dp_LastAttemptAtUnix := Unix now,
              dp_NextAttemptAtUnix := Unix (Add now (dispatchBackoff backoff n))\<rparr>)"

definition exhaust_next :: "time \<Rightarrow> Dispatch \<Rightarrow> Dispatch" where
  "exhaust_next now current = current\<lparr>dp_State := DispatchExhausted, dp_ExhaustedAtUnix := Unix now\<rparr>"

definition attempt_mutate :: "duration \<Rightarrow> time \<Rightarrow> Dispatch mutate" where
  "attempt_mutate backoff now cur =
     (case cur of
        None \<Rightarrow> Keep
      | Some current \<Rightarrow>
          if dp_State current = DispatchAcked then Keep
          else if dp_State current = DispatchExhausted then Keep
          else if dp_Attempts current \<ge> dp_MaxAttempts current then Save (exhaust_next now current)
          else if \<not> Due current (Unix now) then Keep
          else Save (attempt_next backoff now current))"

definition attempt_exhausts :: "Dispatch option \<Rightarrow> bool" where
  "attempt_exhausts cur =
     (case cur of None \<Rightarrow> False
      | Some current \<Rightarrow> dp_State current = DispatchPending \<and> dp_Attempts current \<ge> dp_MaxAttempts current)"

definition attempt_refusal :: "time \<Rightarrow> Dispatch option \<Rightarrow> gerr option" where
  "attempt_refusal now cur =
     (case cur of
        None \<Rightarrow> Some [ErrDispatchMissing]
      | Some current \<Rightarrow>
          (case dp_State current of
             DispatchAcked \<Rightarrow> None
           | DispatchExhausted \<Rightarrow> Some [ErrDispatchExhausted]
           | DispatchPending \<Rightarrow>
               if dp_Attempts current \<ge> dp_MaxAttempts current then None
               else if \<not> Due current (Unix now) then Some [ErrDispatchNotDue] else None))"

definition zero_dispatch :: Dispatch where
  "zero_dispatch = new_dispatch zero_activity 0 [] 0 0"

definition AttemptDispatch ::
  "('a, 'p, 'l, 'u, 'd, 'n) ActivityConfig \<Rightarrow> ActKey \<Rightarrow> int \<Rightarrow>
   (('a, 'p, 'l, 'u, 'd, 'n) aworld, Dispatch \<times> gerr option) handler" where
  "AttemptDispatch cfg key gameSID =
     thenE (guardE (ActKey_Validate key))
      (if gameSID \<le> 0 then raiseE [ErrActInvalid]
       else bindE (nowE (af_Now cfg)) (\<lambda>now.
         let f = attempt_mutate (af_DispatchBackoff cfg) now in
         bindE (dispatchesUpdate cfg \<lparr>dk_Activity = key, dk_GameSID = gameSID\<rparr> (\<lambda>_. []) f) (\<lambda>(calls, applied).
           let result = result_of f zero_dispatch (seen calls) in
           if attempt_exhausts (seen calls)
           then thenE (reportE (Dropped ''dispatch.exhausted'' 1)) (retE (result, Some [ErrDispatchExhausted]))
           else case attempt_refusal now (seen calls) of
                  Some e \<Rightarrow> raiseE e
                | None \<Rightarrow> retE (result, None))))"

definition ack_next :: "int \<Rightarrow> Dispatch \<Rightarrow> Dispatch" where
  "ack_next nowUnix current = current\<lparr>dp_State := DispatchAcked, dp_AckedAtUnix := nowUnix\<rparr>"

definition ack_mutate :: "string \<Rightarrow> int \<Rightarrow> Dispatch mutate" where
  "ack_mutate token nowUnix cur =
     (case cur of
        None \<Rightarrow> Keep
      | Some current \<Rightarrow>
          if token \<noteq> dp_Token current then Keep
          else if dp_State current = DispatchExhausted then Keep
          else if dp_State current = DispatchAcked then Keep
          else Save (ack_next nowUnix current))"

definition ack_refusal :: "string \<Rightarrow> Dispatch option \<Rightarrow> gerr option" where
  "ack_refusal token cur =
     (case cur of
        None \<Rightarrow> Some [ErrDispatchMissing]
      | Some current \<Rightarrow>
          if token \<noteq> dp_Token current then Some [ErrDispatchToken]
          else if dp_State current = DispatchExhausted then Some [ErrDispatchExhausted]
          else None)"

definition ack_events :: "string \<Rightarrow> Dispatch option \<Rightarrow> event list" where
  "ack_events token cur =
     (case cur of None \<Rightarrow> []
      | Some current \<Rightarrow>
          if token \<noteq> dp_Token current then [Refused ''ack_dispatch'' ''bad_token''] else [])"

definition AckDispatch ::
  "('a, 'p, 'l, 'u, 'd, 'n) ActivityConfig \<Rightarrow> ActKey \<Rightarrow> int \<Rightarrow> string \<Rightarrow>
   (('a, 'p, 'l, 'u, 'd, 'n) aworld, Dispatch) handler" where
  "AckDispatch cfg key gameSID token =
     thenE (guardE (ActKey_Validate key))
      (if gameSID \<le> 0 then raiseE [ErrActInvalid]
       else if token = [] then raiseE [ErrDispatchToken]
       else bindE (nowE (af_Now cfg)) (\<lambda>now.
         let f = ack_mutate token (Unix now) in
         bindE (dispatchesUpdate cfg \<lparr>dk_Activity = key, dk_GameSID = gameSID\<rparr> (ack_events token) f)
           (\<lambda>(calls, applied).
              case ack_refusal token (seen calls) of
                Some e \<Rightarrow> raiseE e
              | None \<Rightarrow>
                  thenE (reportE (if f (seen calls) = Keep then Replayed ''ack_dispatch''
                                  else Accepted ''ack_dispatch''))
                    (retE (result_of f zero_dispatch (seen calls))))))"

subsection \<open>Reopening an exhausted dispatch (admin.go)\<close>

definition ActMaxAdminNoteBytes :: nat where [bound_defs]: "ActMaxAdminNoteBytes = 512"

definition act_validateAdminNote :: "string \<Rightarrow> gerr + string" where
  "act_validateAdminNote note =
     (let trimmed = TrimSpace note in
      if trimmed = [] then Inl [ErrActAdminNoteRequired]
      else if length trimmed > ActMaxAdminNoteBytes then Inl [ErrActAdminNoteRequired]
      else Inr trimmed)"

definition reopen_next :: "string \<Rightarrow> int \<Rightarrow> Dispatch \<Rightarrow> Dispatch" where
  "reopen_next note nowUnix current =
     current\<lparr>dp_State := DispatchPending, dp_Attempts := 0, dp_NextAttemptAtUnix := 0,
             dp_ExhaustedAtUnix := 0, dp_Reopens := i32 (dp_Reopens current + 1),
             dp_AdminNote := note, dp_AdminActionAtUnix := nowUnix\<rparr>"

definition reopen_mutate :: "string \<Rightarrow> int \<Rightarrow> Dispatch mutate" where
  "reopen_mutate note nowUnix cur =
     (case cur of
        None \<Rightarrow> Fail [ErrDispatchMissing]
      | Some current \<Rightarrow>
          (case dp_State current of
             DispatchExhausted \<Rightarrow> Save (reopen_next note nowUnix current)
           | DispatchPending \<Rightarrow> Fail [ErrActNotResolvable]
           | DispatchAcked \<Rightarrow> Fail [ErrActNotResolvable]))"

definition ReopenDispatch ::
  "('a, 'p, 'l, 'u, 'd, 'n) ActivityConfig \<Rightarrow> ActKey \<Rightarrow> int \<Rightarrow> string \<Rightarrow>
   (('a, 'p, 'l, 'u, 'd, 'n) aworld, Dispatch) handler" where
  "ReopenDispatch cfg key gameSID note =
     thenE (guardE (ActKey_Validate key))
      (if gameSID \<le> 0 then raiseE [ErrActInvalid]
       else case act_validateAdminNote note of
         Inl e \<Rightarrow> raiseE e
       | Inr trimmed \<Rightarrow>
           bindE (nowE (af_Now cfg)) (\<lambda>now.
             let f = reopen_mutate trimmed (Unix now) in
             bindE (dispatchesUpdate cfg \<lparr>dk_Activity = key, dk_GameSID = gameSID\<rparr> (\<lambda>_. []) f)
               (\<lambda>(calls, applied).
                  thenE (reportE (Accepted ''admin.reopen_dispatch''))
                    (retE (saved_or zero_dispatch (f (seen calls)))))))"

section \<open>The owed index (redis\_store.go)\<close>

definition OwedDispatchKey :: "string \<Rightarrow> string \<Rightarrow> int \<Rightarrow> string" where
  "OwedDispatchKey pre groupID gameSID =
     pre @ '':owed:'' @ groupID @ '':'' @ FormatInt gameSID"

text \<open>The score of a dispatch in its game's index, or none when it is not owed. The code's float
  holds every second below \<open>2 ^ 53\<close> exactly; the score is kept as the integer it renders.\<close>

definition owedDispatchEntry :: "Dispatch \<Rightarrow> int option" where
  "owedDispatchEntry d =
     (if dp_State d \<noteq> DispatchPending then None
      else Some (if dp_NextAttemptAtUnix d \<le> 0 then dp_CreatedAtUnix d else dp_NextAttemptAtUnix d))"

fun parse_members :: "string list \<Rightarrow> gerr + DispatchKey list" where
  "parse_members [] = Inr []"
| "parse_members (member # rest) =
     (case ParseDispatchKey member of
        Inl e \<Rightarrow> Inl e
      | Inr key \<Rightarrow> (case parse_members rest of Inl e \<Rightarrow> Inl e | Inr keys \<Rightarrow> Inr (key # keys)))"

text \<open>\<open>indexDueIn\<close> is the store's \<open>IndexDueIn\<close>: the members of one index due by a score.\<close>

definition RedisOwedDispatches ::
  "(string \<Rightarrow> int \<Rightarrow> int \<Rightarrow> 'd \<Rightarrow> gerr + string list) \<Rightarrow> string \<Rightarrow> 'd owed_index" where
  "RedisOwedDispatches indexDueIn pre groupID gameSID nowUnix limit d =
     (if groupID = [] \<or> gameSID \<le> 0 \<or> limit \<le> 0 then Inr []
      else case indexDueIn (OwedDispatchKey pre groupID gameSID) nowUnix limit d of
             Inl e \<Rightarrow> Inl e
           | Inr members \<Rightarrow> parse_members members)"

section \<open>The sweep loop (server\_run.go)\<close>

definition SweepBatch :: int where "SweepBatch = 64"
definition DispatchBatch :: int where "DispatchBatch = 64"
definition staleDispatchAfter :: duration where "staleDispatchAfter = 10 * Minute"

definition report_stale ::
  "('a, 'p, 'l, 'u, 'd, 'n) ActivityConfig \<Rightarrow> Dispatch \<Rightarrow> (('a, 'p, 'l, 'u, 'd, 'n) aworld, unit) handler" where
  "report_stale cfg dispatch =
     bindE (nowE (af_Now cfg)) (\<lambda>now.
       if Unix now - dp_CreatedAtUnix dispatch \<ge> staleDispatchAfter div Second
       then reportE (Dropped ''dispatch.stale'' 1) else retE ())"

definition sweep_delivering ::
  "('a, 'p, 'l, 'u, 'd, 'n) ActivityConfig \<Rightarrow> ActKey \<Rightarrow> (('a, 'p, 'l, 'u, 'd, 'n) aworld, unit) handler" where
  "sweep_delivering cfg key =
     bindE (tryE (DueDispatches cfg key DispatchBatch)) (\<lambda>due.
       case due of
         Inl _ \<Rightarrow> reportE (Dropped ''sweep.due_read_failed'' 1)
       | Inr ds \<Rightarrow>
           thenE (forE ds (report_stale cfg))
             (bindE (tryE (RetireDelivered cfg key)) (\<lambda>r.
                case r of Inl _ \<Rightarrow> reportE (Dropped ''sweep.retire_failed'' 1) | Inr _ \<Rightarrow> retE ())))"

definition sweepGroup ::
  "('a, 'p, 'l, 'u, 'd, 'n) ActivityConfig \<Rightarrow> string \<Rightarrow> (('a, 'p, 'l, 'u, 'd, 'n) aworld, unit) handler" where
  "sweepGroup cfg groupID =
     bindE (tryE (AdvanceExpired cfg groupID SweepBatch)) (\<lambda>advanced.
       if (case advanced of Inl _ \<Rightarrow> True | Inr (_, failed) \<Rightarrow> failed \<noteq> None)
       then reportE (Dropped ''sweep.advance_failed'' 1)
       else bindE (tryE (DeliveringActivities cfg groupID SweepBatch)) (\<lambda>delivering.
              case delivering of
                Inl _ \<Rightarrow> reportE (Dropped ''sweep.delivering_read_failed'' 1)
              | Inr keys \<Rightarrow> forE keys (sweep_delivering cfg)))"

text \<open>One tick of \<open>run\<close>: every configured group, whatever happens to the others.\<close>

definition sweep_tick ::
  "('a, 'p, 'l, 'u, 'd, 'n) ActivityConfig \<Rightarrow> (('a, 'p, 'l, 'u, 'd, 'n) aworld, unit) handler" where
  "sweep_tick cfg = forE (SweepGroups (Some cfg)) (sweepGroup cfg)"

end
