(* ===== verification/ActivityCells.thy ===== *)
theory ActivityCells
  imports Activity
begin

text \<open>
  The records of the activity coordinator under any interleaving of committed operations: the
  activity itself, its dispatches, the audit log of refused notifications and the group's window.
  Each record's operations are collected in a datatype, with the arguments their callbacks close
  over, and interpreted as a \<open>cas_cell\<close>.
\<close>

section \<open>The activity\<close>

datatype activity_op =
    OpenOp ActKey "int list" int
  | NotifyOp int time duration
  | ExpireOp int

fun activity_mutate :: "activity_op \<Rightarrow> Activity mutate" where
  "activity_mutate (OpenOp key expected nowUnix) cur =
     (case ActKey_Validate key of
        Some e \<Rightarrow> Fail e
      | None \<Rightarrow>
          (case validateExpectedGames expected of
             Some e \<Rightarrow> Fail e
           | None \<Rightarrow> (case cur of None \<Rightarrow> Save (new_activity key expected nowUnix) | Some _ \<Rightarrow> Keep)))"
| "activity_mutate (NotifyOp gameSID now grace) cur = notify_mutate gameSID now grace cur"
| "activity_mutate (ExpireOp nowUnix) cur = expire_mutate nowUnix cur"

text \<open>
  The invariant: the notified games are distinct members of the (valid) expected set; nobody has
  notified a pending activity; a collecting one is short of somebody; a complete one says why, and
  says it was collected exactly when nobody is missing.
\<close>

definition activity_ok :: "Activity \<Rightarrow> bool" where
  "activity_ok a \<longleftrightarrow>
     validateExpectedGames (ac_ExpectedGameSIDs a) = None \<and>
     distinct (ac_NotifiedGameSIDs a) \<and> set (ac_NotifiedGameSIDs a) \<subseteq> set (ac_ExpectedGameSIDs a) \<and>
     (ac_Status a = StatusPending \<longleftrightarrow> ac_NotifiedGameSIDs a = []) \<and>
     (ac_Status a = StatusCollecting \<longrightarrow> \<not> Collected a) \<and>
     (ac_Status a \<noteq> StatusComplete \<longleftrightarrow> ac_CompletionReason a = NoReason) \<and>
     (ac_CompletionReason a = CompletedCollected \<longleftrightarrow> Collected a)"

fun status_rank :: "act_status \<Rightarrow> nat" where
  "status_rank StatusPending = 0"
| "status_rank StatusCollecting = 1"
| "status_rank StatusComplete = 2"

text \<open>
  Later versions of an activity keep its identity, its expected set and the order of the
  notifications; the deadline is set once; a complete activity never changes again.
\<close>

definition activity_le :: "Activity \<Rightarrow> Activity \<Rightarrow> bool" where
  "activity_le u v \<longleftrightarrow>
     ac_Key u = ac_Key v \<and> ac_ExpectedGameSIDs u = ac_ExpectedGameSIDs v \<and>
     prefix (ac_NotifiedGameSIDs u) (ac_NotifiedGameSIDs v) \<and>
     status_rank (ac_Status u) \<le> status_rank (ac_Status v) \<and>
     (ac_Status u \<noteq> StatusPending \<longrightarrow> ac_GraceDeadlineUnix u = ac_GraceDeadlineUnix v) \<and>
     (ac_Status u = StatusComplete \<longrightarrow> u = v)"

lemma status_rank_0 [simp]: "status_rank s = 0 \<longleftrightarrow> s = StatusPending"
  by (cases s) simp_all

lemma Collected_iff_all:
  assumes "validateExpectedGames (ac_ExpectedGameSIDs a) = None"
    and "distinct (ac_NotifiedGameSIDs a)" "set (ac_NotifiedGameSIDs a) \<subseteq> set (ac_ExpectedGameSIDs a)"
  shows "Collected a \<longleftrightarrow> MissingGameSIDs a = []"
proof
  assume "Collected a"
  then have "set (ac_NotifiedGameSIDs a) = set (ac_ExpectedGameSIDs a)"
    using assms distinct_subset_full by (auto simp: Collected_def)
  then show "MissingGameSIDs a = []" by (simp add: MissingGameSIDs_def Notified_def filter_empty_conv)
next
  assume "MissingGameSIDs a = []"
  then have "set (ac_ExpectedGameSIDs a) \<subseteq> set (ac_NotifiedGameSIDs a)"
    by (auto simp: MissingGameSIDs_def Notified_def filter_empty_conv)
  moreover have "distinct (ac_ExpectedGameSIDs a)" "ac_ExpectedGameSIDs a \<noteq> []"
    using assms(1) by (auto simp: validateExpectedGames_None)
  ultimately show "Collected a" by (simp add: Collected_def distinct_subset_length)
qed

lemma notify_next_simps [simp]:
  "ac_Key (notify_next g now grace u) = ac_Key u"
  "ac_ExpectedGameSIDs (notify_next g now grace u) = ac_ExpectedGameSIDs u"
  "ac_NotifiedGameSIDs (notify_next g now grace u) = ac_NotifiedGameSIDs u @ [g]"
  "Collected (notify_next g now grace u) \<longleftrightarrow>
     ac_ExpectedGameSIDs u \<noteq> [] \<and> length (ac_ExpectedGameSIDs u) \<le> Suc (length (ac_NotifiedGameSIDs u))"
  "ac_GraceDeadlineUnix (notify_next g now grace u) =
     (if ac_Status u = StatusPending then Unix (Add now grace) else ac_GraceDeadlineUnix u)"
  by (simp_all add: notify_next_def Let_def Collected_def)

lemma notify_next_status:
  "ac_Status (notify_next g now grace u) =
     (if Collected (notify_next g now grace u) then StatusComplete
      else if ac_Status u = StatusPending then StatusCollecting else ac_Status u)"
  "ac_CompletionReason (notify_next g now grace u) =
     (if Collected (notify_next g now grace u) then CompletedCollected else ac_CompletionReason u)"
  by (simp_all add: notify_next_def Let_def Collected_def)

lemma notify_mutate_Save:
  "notify_mutate g now grace cur = Save v \<longleftrightarrow>
     (\<exists>u. cur = Some u \<and> \<not> Notified u g \<and> Expects u g \<and> ac_Status u \<noteq> StatusComplete \<and>
          \<not> GraceExpired u (Unix now) \<and> v = notify_next g now grace u)"
  by (auto simp: notify_mutate_def split: option.splits if_splits)

lemma expire_mutate_Save:
  "expire_mutate n cur = Save v \<longleftrightarrow>
     (\<exists>u. cur = Some u \<and> ac_Status u = StatusCollecting \<and> GraceExpired u n \<and> v = expire_next n u)"
  by (auto simp: expire_mutate_def split: option.splits if_splits)

lemma notify_ok:
  assumes "activity_ok u" "notify_mutate g now grace (Some u) = Save v"
  shows "activity_ok v"
  using assms
  by (cases "ac_Status u")
    (auto simp: notify_mutate_Save activity_ok_def notify_next_status Expects_def Notified_def Collected_def)

lemma expire_ok:
  assumes "activity_ok u" "expire_mutate n (Some u) = Save v"
  shows "activity_ok v"
  using assms by (auto simp: expire_mutate_Save activity_ok_def expire_next_def Collected_def)

lemma open_ok: "validateExpectedGames expected = None \<Longrightarrow> activity_ok (new_activity key expected n)"
  by (auto simp: activity_ok_def new_activity_def Collected_def validateExpectedGames_None)

interpretation activity: cas_cell activity_mutate "\<lambda>_. True" activity_ok activity_le
proof unfold_locales
  fix a v assume "activity_mutate a None = Save v"
  then show "activity_ok v"
    by (cases a) (auto simp: open_ok notify_mutate_Save expire_mutate_Save split: option.splits)
next
  fix a u v assume "activity_ok u" "activity_mutate a (Some u) = Save v"
  then show "activity_ok v"
    by (cases a) (auto intro: notify_ok expire_ok split: option.splits)
next
  fix a u v assume "activity_ok u" "activity_mutate a (Some u) = Save v"
  then show "activity_le u v"
    by (cases a) (auto simp: activity_le_def notify_mutate_Save expire_mutate_Save notify_next_status
        expire_next_def split: option.splits act_status.splits; cases "ac_Status u"; simp)+
next
  show "activity_le u u" for u by (simp add: activity_le_def)
next
  show "activity_le u v \<Longrightarrow> activity_le v z \<Longrightarrow> activity_le u z" for u v z
    by (auto simp: activity_le_def intro: prefix_order.trans) 
qed

section \<open>The dispatch\<close>

datatype dispatch_op =
    CreateOp Activity int string int int
  | AttemptOp duration time
  | AckOp string int
  | ReopenOp string int

fun dispatch_mutate :: "dispatch_op \<Rightarrow> Dispatch mutate" where
  "dispatch_mutate (CreateOp activity gameSID token maxAttempts nowUnix) cur =
     (case cur of None \<Rightarrow> Save (new_dispatch activity gameSID token maxAttempts nowUnix) | Some _ \<Rightarrow> Keep)"
| "dispatch_mutate (AttemptOp backoff now) cur = attempt_mutate backoff now cur"
| "dispatch_mutate (AckOp token nowUnix) cur = ack_mutate token nowUnix cur"
| "dispatch_mutate (ReopenOp note nowUnix) cur = reopen_mutate note nowUnix cur"

text \<open>What \<open>ensureDispatches\<close> and the configuration guarantee of a created dispatch.\<close>

fun dispatch_allowed :: "dispatch_op \<Rightarrow> bool" where
  "dispatch_allowed (CreateOp activity gameSID token maxAttempts nowUnix) \<longleftrightarrow>
     token \<noteq> [] \<and> 0 < maxAttempts \<and> maxAttempts < 2 ^ 63"
| "dispatch_allowed _ \<longleftrightarrow> True"

definition dispatch_ok :: "Dispatch \<Rightarrow> bool" where
  "dispatch_ok d \<longleftrightarrow>
     dp_Token d \<noteq> [] \<and> 0 \<le> dp_Attempts d \<and> dp_Attempts d \<le> dp_MaxAttempts d \<and>
     0 < dp_MaxAttempts d \<and> dp_MaxAttempts d < 2 ^ 63 \<and>
     (dp_State d = DispatchExhausted \<longrightarrow> dp_Attempts d = dp_MaxAttempts d)"

definition dispatch_le :: "Dispatch \<Rightarrow> Dispatch \<Rightarrow> bool" where
  "dispatch_le u v \<longleftrightarrow>
     dp_Key u = dp_Key v \<and> dp_GameSID u = dp_GameSID v \<and> dp_Token u = dp_Token v \<and>
     dp_Result u = dp_Result v \<and> dp_MaxAttempts u = dp_MaxAttempts v \<and>
     dp_CreatedAtUnix u = dp_CreatedAtUnix v \<and> (dp_State u = DispatchAcked \<longrightarrow> u = v)"

lemmas dispatch_mutate_defs = attempt_mutate_def ack_mutate_def reopen_mutate_def
  attempt_next_def exhaust_next_def ack_next_def reopen_next_def new_dispatch_def

lemma dispatch_save_step:
  assumes "dispatch_ok u" "dispatch_mutate a (Some u) = Save v"
  shows "dispatch_ok v" "dispatch_le u v"
  using assms
  by (cases a; auto simp: dispatch_ok_def dispatch_le_def dispatch_mutate_defs Let_def i64_id
      split: if_splits dispatch_state.splits)+

lemma dispatch_create_ok: "dispatch_allowed a \<Longrightarrow> dispatch_mutate a None = Save v \<Longrightarrow> dispatch_ok v"
  by (cases a) (auto simp: dispatch_ok_def dispatch_mutate_defs)

interpretation dispatch: cas_cell dispatch_mutate dispatch_allowed dispatch_ok dispatch_le
proof unfold_locales
  show "dispatch_le u u" for u by (simp add: dispatch_le_def)
  show "dispatch_le u v \<Longrightarrow> dispatch_le v z \<Longrightarrow> dispatch_le u z" for u v z
    by (auto simp: dispatch_le_def)
qed (blast intro: dispatch_create_ok dispatch_save_step)+

section \<open>The audit log\<close>

text \<open>The log after \<open>n\<close> refusals: the first 64 in order, numbered from one, and a count of the rest.\<close>

definition audit_log :: "ActKey \<Rightarrow> NotifyAudit list \<Rightarrow> NotifyAuditLog" where
  "audit_log key audits =
     \<lparr>nl_Key = key,
      nl_Entries = map (\<lambda>(i, a). a\<lparr>na_Seq := int i + 1\<rparr>)
        (enumerate 0 (take MaxNotifyAudits audits)),
      nl_NextSeq = int (min (length audits) MaxNotifyAudits) + 1,
      nl_Overflowed = int (length audits - MaxNotifyAudits)\<rparr>"

lemma audit_log_step:
  assumes "length audits < 2 ^ 64"
  shows "audit_mutate key a (Some (audit_log key audits)) = Save (audit_log key (audits @ [a]))"
proof (cases "length audits < MaxNotifyAudits")
  case True
  then have "u64 (int (length audits) + 2) = int (length audits) + 2"
    by (intro u64_id) (simp_all add: MaxNotifyAudits_def)
  with True show ?thesis
    by (simp add: audit_mutate_def audit_of_def audit_log_def Let_def enumerate_append_eq add.commute)
next
  case False
  then have "u64 (1 + int (length audits - MaxNotifyAudits)) = 1 + int (length audits - MaxNotifyAudits)"
    using assms by (intro u64_id) (simp_all add: MaxNotifyAudits_def of_nat_diff)
  with False show ?thesis
    by (simp add: audit_mutate_def audit_of_def audit_log_def Let_def Suc_diff_le add.commute)
qed

lemma audit_log_first: "audit_mutate key a None = Save (audit_log key [a])"
  by (simp add: audit_mutate_def audit_of_def audit_log_def Let_def MaxNotifyAudits_def u64_def)

section \<open>The window\<close>

datatype window_op =
    AdmitOp ActKey int
  | ConfirmOp ActKey
  | RetireOp "ActKey list" "ActKey list" "ActKey list"
  | DeliveredOp ActKey

fun window_mutate :: "window_op \<Rightarrow> Window mutate" where
  "window_mutate (AdmitOp key nowUnix) cur = admit_mutate key nowUnix cur"
| "window_mutate (ConfirmOp key) cur = confirm_mutate key cur"
| "window_mutate (RetireOp prune delivering dropOpening) cur = retire_mutate prune delivering dropOpening cur"
| "window_mutate (DeliveredOp key) cur = delivered_mutate key cur"

text \<open>The invariant: a key is pending at most once, confirmed or opening, and delivering at most once.\<close>

definition window_ok :: "Window \<Rightarrow> bool" where
  "window_ok w \<longleftrightarrow>
     distinct (wn_Keys w @ map oe_Key (wn_Opening w)) \<and> distinct (wn_Delivering w)"

lemma openingIndex_None: "openingIndex w key = None \<longleftrightarrow> key \<notin> set (map oe_Key (wn_Opening w))"
  using in_set_conv_nth [of key "map oe_Key (wn_Opening w)"]
  by (auto simp: openingIndex_def find_None_iff simp del: set_map)

lemma openingIndex_Some:
  assumes "openingIndex w key = Some i"
  shows "i < length (wn_Opening w)" "oe_Key (wn_Opening w ! i) = key"
  using assms by (auto simp: openingIndex_def find_Some_iff)

lemma window_contains_iff:
  "window_contains w key \<longleftrightarrow> key \<in> set (wn_Keys w) \<union> oe_Key ` set (wn_Opening w)"
  by (simp add: window_contains_def openingIndex_None)

lemma remove_at_set:
  assumes "i < length xs" "distinct xs"
  shows "set (remove_at i xs) = set xs - {xs ! i}" "distinct (remove_at i xs)"
proof -
  have xs: "take i xs @ xs ! i # drop (Suc i) xs = xs" using assms(1) by (rule id_take_nth_drop [symmetric])
  then have d: "distinct (take i xs @ xs ! i # drop (Suc i) xs)" using assms(2) by simp
  have "set xs = set (take i xs @ xs ! i # drop (Suc i) xs)" using xs by simp
  with d show "set (remove_at i xs) = set xs - {xs ! i}" by (auto simp: remove_at_def)
  from d show "distinct (remove_at i xs)" by (simp add: remove_at_def)
qed

lemma map_remove_at: "map f (remove_at i xs) = remove_at i (map f xs)"
  by (simp add: remove_at_def take_map drop_map)

lemma confirm_ok:
  assumes "window_ok w"
  shows "window_ok (confirm_next key w)" "key \<in> set (wn_Keys (confirm_next key w))"
    "set (map oe_Key (wn_Opening (confirm_next key w))) = set (map oe_Key (wn_Opening w)) - {key}"
    "set (wn_Keys w) \<subseteq> set (wn_Keys (confirm_next key w))"
proof -
  show "key \<in> set (wn_Keys (confirm_next key w))"
    by (simp add: confirm_next_def Let_def split: option.split)
  show "set (wn_Keys w) \<subseteq> set (wn_Keys (confirm_next key w))"
    by (auto simp: confirm_next_def Let_def split: option.split)
  have "set (map oe_Key (wn_Opening (confirm_next key w))) = set (map oe_Key (wn_Opening w)) - {key} \<and>
        distinct (map oe_Key (wn_Opening (confirm_next key w)))"
  proof (cases "openingIndex w key")
    case None
    then show ?thesis using assms openingIndex_None [of w key]
      by (auto simp: confirm_next_def Let_def window_ok_def)
  next
    case (Some i)
    note i = openingIndex_Some [OF Some]
    have d: "distinct (map oe_Key (wn_Opening w))" using assms by (simp add: window_ok_def)
    from remove_at_set [OF _ d, of i] i Some show ?thesis
      by (simp add: confirm_next_def Let_def flip: map_remove_at)
  qed
  then show "set (map oe_Key (wn_Opening (confirm_next key w))) = set (map oe_Key (wn_Opening w)) - {key}"
    "window_ok (confirm_next key w)"
    using assms
    by (auto simp: window_ok_def confirm_next_def Let_def split: option.splits if_splits)
qed

lemma add_delivering_simps [simp]:
  "wn_Keys (add_delivering keys w) = wn_Keys w"
  "wn_Opening (add_delivering keys w) = wn_Opening w"
  "set (wn_Delivering (add_delivering keys w)) = set (wn_Delivering w) \<union> set keys"
  "distinct (wn_Delivering w) \<Longrightarrow> distinct (wn_Delivering (add_delivering keys w))"
  unfolding add_delivering_def by (induction keys arbitrary: w) (auto simp: window_delivering_def)

lemma window_of_ok: "(\<forall>u. cur = Some u \<longrightarrow> window_ok u) \<Longrightarrow> window_ok (window_of g cur)"
  by (auto simp: window_of_def window_ok_def empty_window_def split: option.split)

lemma distinct_map_filter_append:
  "distinct (xs @ map f ys) \<Longrightarrow> distinct (filter P xs @ map f (filter Q ys))"
  by (induction ys) auto

lemma admit_ok:
  "window_ok w \<Longrightarrow> \<not> window_contains w key \<Longrightarrow>
     window_ok (w\<lparr>wn_Opening := wn_Opening w @ [\<lparr>oe_Key = key, oe_AdmittedAtUnix = n\<rparr>]\<rparr>)"
  "window_ok w \<Longrightarrow> window_ok (w\<lparr>wn_RefusedOpens := r\<rparr>)"
  by (simp_all add: window_ok_def window_contains_iff)

lemma window_save_ok:
  assumes "\<forall>u. cur = Some u \<longrightarrow> window_ok u" "window_mutate a cur = Save v"
  shows "window_ok v"
proof (cases a)
  case (AdmitOp key n)
  with assms window_of_ok [OF assms(1), of "ak_GroupID key"] show ?thesis
    by (auto simp: admit_mutate_def Let_def intro: admit_ok split: if_splits)
next
  case (ConfirmOp key)
  with assms window_of_ok [OF assms(1), of "ak_GroupID key"] show ?thesis
    by (auto simp: confirm_mutate_def Let_def intro: confirm_ok split: if_splits)
next
  case (RetireOp p d o')
  with assms show ?thesis
    by (auto simp: retire_mutate_def retire_next_def window_ok_def simp del: distinct_append
        intro: distinct_map_filter_append split: option.splits if_splits)
next
  case (DeliveredOp key)
  with assms show ?thesis
    by (auto simp: delivered_mutate_def window_ok_def split: option.splits if_splits)
qed

interpretation window: cas_cell window_mutate "\<lambda>_. True" window_ok "\<lambda>_ _. True"
  by unfold_locales (auto intro: window_save_ok)

end
