(* ===== verification/ActivityProps.thy ===== *)
theory ActivityProps
  imports ActivityCells
begin

text \<open>
  What the handlers of the activity coordinator do to the stores, and the properties of the
  component: first the properties that follow from the records' invariants, then those of the
  handlers, for any stores that keep the contract.
\<close>

section \<open>Frames\<close>

lemmas act_same_intros = same_intros

lemma ensureDispatches_same:
  assumes "\<And>h w. g (aw_Dispatches_update h w) = g w" "\<And>w t. g (w\<lparr>env_ticks := t\<rparr>) = g w"
    "\<And>h w. g (aw_Minted_update h w) = g w"
  shows "steps (same g) (ensureDispatches cfg a)"
proof -
  have m: "steps (same g) (mintE cfg)" by (rule stepsI) (auto simp: mintE_def same_def assms)
  show ?thesis
    unfolding ensureDispatches_def ensure_one_def Let_def
    by (auto intro!: same_intros m simp: assms)
qed

lemma retireFromWindow_same:
  assumes "\<And>h w. g (aw_Windows_update h w) = g w" "\<And>w evs. g (w\<lparr>env_events := evs\<rparr>) = g w"
  shows "steps (same g) (retireFromWindow cfg groupID p d o')"
  unfolding retireFromWindow_def by (auto intro!: same_intros simp: assms)

lemma appendAudit_same:
  assumes "\<And>h w. g (aw_Audits_update h w) = g w" "\<And>w evs. g (w\<lparr>env_events := evs\<rparr>) = g w"
  shows "steps (same g) (appendAudit cfg key a)"
  unfolding appendAudit_def by (auto intro!: same_intros simp: assms)

lemma settleCompletion_same:
  "steps (same aw_Activities) (settleCompletion cfg a)" "steps (same aw_Audits) (settleCompletion cfg a)"
  unfolding settleCompletion_def
  by (auto intro!: same_intros ensureDispatches_same retireFromWindow_same)

lemma refuseNotify_same: "steps (same aw_Activities) (refuseNotify cfg key g st ref d)"
  unfolding refuseNotify_def Let_def by (auto intro!: same_intros appendAudit_same)

lemma LookupActivity_cases:
  assumes "vs_contract am (=) (af_Activities cfg)" "LookupActivity cfg key w = (r, w')"
  obtains (invalid) e where "ActKey_Validate key = Some e" "r = Inl e" "w' = w"
  | (failed) e x where "ActKey_Validate key = None" "store_error e" "r = Inl e"
      "w' = w\<lparr>aw_Activities := x\<rparr>" "am x = am (aw_Activities w)"
  | (found) x where "ActKey_Validate key = None" "r = Inr (value_at (am (aw_Activities w)) key)"
      "w' = w\<lparr>aw_Activities := x\<rparr>" "am x = am (aw_Activities w)"
proof (cases "ActKey_Validate key")
  case (Some e)
  with assms(2) that(1) show thesis by (auto simp: LookupActivity_def guardE_def)
next
  case None
  with assms(2) have "bindE (activitiesGet cfg key) (\<lambda>current. retE (map_option ver_Value current)) w = (r, w')"
    by (simp add: LookupActivity_def)
  then show thesis
  proof (cases rule: bindE_cases)
    case (error e)
    from getE_cases [OF assms(1) error(1)] error(2) None that(2) show thesis
      by (auto simp: get_outcome_def)
  next
    case (ok a w1)
    from getE_cases [OF assms(1) ok(1)] ok(2) None that(3) show thesis
      by (auto simp: get_outcome_def value_at_def)
  qed
qed

section \<open>NotifyPhase\<close>

lemma notify_mutate_never_fails: "notify_mutate g now grace cur \<noteq> Fail e"
  by (auto simp: notify_mutate_def split: option.splits)

lemma audit_mutate_saves: "\<exists>log. audit_mutate key a cur = Save log"
  by (auto simp: audit_mutate_def Let_def)

text \<open>A refusal is answered only once its audit has been committed.\<close>

lemma refuseNotify_cases:
  assumes "vs_contract um R (af_Audits cfg)" "refuseNotify cfg key g st ref d w = (r, w')"
  obtains (failed) e where "r = Inl e" "store_error e"
  | (audited) a log c where "r = Inl (refusal_error ref)" "R (um (aw_Audits w)) c"
      "na_Refusal a = ref" "na_GameSID a = g" "na_Key a = key" "na_Detail a = d"
      "audit_mutate key a (value_at c key) = Save log"
      "value_at (um (aw_Audits w')) key = Some log"
proof -
  define a where "a = \<lparr>na_Seq = 0, na_Key = key, na_GameSID = g, na_Refusal = ref, na_Status = st,
      na_AtUnix = Unix (af_Now cfg (env_ticks w)), na_Detail = d\<rparr>"
  define w0 where "w0 = w\<lparr>env_ticks := Suc (env_ticks w)\<rparr>"
  have w0: "aw_Audits w0 = aw_Audits w" by (simp add: w0_def)
  from assms(2) have run: "thenE (appendAudit cfg key a) (thenE (reportE (Refused ''notify_phase'' (refusal_string ref)))
        (raiseE (refusal_error ref))) w0 = (r, w')"
    by (simp add: refuseNotify_def Let_def a_def w0_def)
  from run show thesis
  proof (cases rule: thenE_cases)
    case (error e)
    from error(1) have "auditsUpdate cfg key (audit_mutate key a) w0 = (Inl e, w')"
      by (auto simp: appendAudit_def elim: bindE_cases)
    from assms(1) this have "store_error e"
      by (cases rule: mutateE_outcomes) (auto simp: audit_mutate_def Let_def split: if_splits)
    with error(2) that(1) show thesis by blast
  next
    case (ok x w1)
    then obtain calls applied where "auditsUpdate cfg key (audit_mutate key a) w0 = (Inr (calls, applied), w1)"
      by (auto simp: appendAudit_def elim: bindE_cases)
    from assms(1) this obtain c log where "R (um (aw_Audits w)) c"
      "audit_mutate key a (value_at c key) = Save log" "value_at (um (aw_Audits w1)) key = Some log"
    proof (cases rule: mutateE_outcomes)
      case (kept calls c)
      then show thesis by (auto simp: audit_mutate_def Let_def split: if_splits)
    qed (auto simp: w0)
    with ok(2) show thesis by (intro that(2) [of c a log]) (auto simp: a_def)
  qed
qed

lemma notify_refused_keeps:
  "notify_refused g (Unix now) cur = Some x \<Longrightarrow> notify_mutate g now grace cur = Keep"
  by (auto simp: notify_refused_def notify_mutate_def split: option.splits if_splits)

lemma notify_kept_known:
  "notify_refused g (Unix now) cur = None \<Longrightarrow> notify_mutate g now grace cur = Keep \<Longrightarrow>
   \<exists>u. cur = Some u \<and> Notified u g"
  by (auto simp: notify_refused_def notify_mutate_def split: option.splits if_splits)

lemma NotifyPhase_cases:
  fixes w :: "('a, 'p, 'l, 'u, 'd, 'n) aworld"
  assumes "vs_contract am R (af_Activities cfg)" "ActKey_Validate key = None" "0 < g"
    and "NotifyPhase cfg key g w = (r, w')"
  defines "now \<equiv> af_Now cfg (env_ticks w)"
  obtains (failed) e where "r = Inl e" "store_error e"
  | (refused) c ref st d w1 where "R (am (aw_Activities w)) c"
      "notify_refused g (Unix now) (value_at c key) = Some (ref, st, d)"
      "am (aw_Activities w1) = c" "aw_Audits w1 = aw_Audits w" "refuseNotify cfg key g st ref d w1 = (r, w')"
  | (accepted) c v err where "R (am (aw_Activities w)) c" "r = Inr (v, err)"
      "notify_refused g (Unix now) (value_at c key) = None"
      "notify_mutate g now (af_GraceWindow cfg) (value_at c key) = Save v \<and>
         written key v c (am (aw_Activities w')) \<or>
       value_at c key = Some v \<and> Notified v g \<and> am (aw_Activities w') = c"
proof -
  define f where "f = notify_mutate g now (af_GraceWindow cfg)"
  define w0 where "w0 = w\<lparr>env_ticks := Suc (env_ticks w)\<rparr>"
  define k where "k = (\<lambda>(calls, applied :: bool).
           case notify_refused g (Unix now) (seen calls) of
             Some (refusal, status, detail) \<Rightarrow> refuseNotify cfg key g status refusal detail
           | None \<Rightarrow>
               let result = (case f (seen calls) of
                               Save v \<Rightarrow> v
                             | _ \<Rightarrow> (case seen calls of None \<Rightarrow> zero_activity | Some u \<Rightarrow> u)) in
               thenE (reportE (Accepted ''notify_phase''))
                 (if notify_completed g now (af_GraceWindow cfg) (seen calls)
                  then bindE (tryE (settleCompletion cfg result)) (\<lambda>r.
                         retE (result, case r of Inl e \<Rightarrow> Some e | Inr _ \<Rightarrow> None))
                  else (retE (result, None) ::
                    (('a, 'p, 'l, 'u, 'd, 'n) aworld, Activity \<times> gerr option) handler)))"
  have w0: "aw_Activities w0 = aw_Activities w" "aw_Audits w0 = aw_Audits w" by (simp_all add: w0_def)
  have run: "bindE (activitiesUpdate cfg key f) k w0 = (r, w')"
    using assms(2-4) unfolding NotifyPhase_def Let_def k_def f_def now_def w0_def by simp
  have finish: "\<exists>err. r = Inr (v, err) \<and> aw_Activities w' = aw_Activities w1"
    if "k (calls, b) w1 = (r, w')" "notify_refused g (Unix now) (seen calls) = None"
      "v = (case f (seen calls) of Save v \<Rightarrow> v | _ \<Rightarrow> (case seen calls of None \<Rightarrow> zero_activity | Some u \<Rightarrow> u))"
    for calls b w1 v
  proof -
    define w2 where "w2 = w1\<lparr>env_events := env_events w1 @ [Accepted ''notify_phase'']\<rparr>"
    have w2: "aw_Activities w2 = aw_Activities w1" by (simp add: w2_def)
    have step: "(if notify_completed g now (af_GraceWindow cfg) (seen calls)
        then bindE (tryE (settleCompletion cfg v)) (\<lambda>r. retE (v, case r of Inl e \<Rightarrow> Some e | Inr _ \<Rightarrow> None))
        else retE (v, None)) w2 = (r, w')"
      using that(1,2) unfolding that(3) k_def Let_def by (simp add: w2_def)
    show ?thesis
    proof (cases "notify_completed g now (af_GraceWindow cfg) (seen calls)")
      case True
      with step have "bindE (tryE (settleCompletion cfg v))
          (\<lambda>r. retE (v, case r of Inl e \<Rightarrow> Some e | Inr _ \<Rightarrow> None)) w2 = (r, w')" by simp
      then obtain x where "settleCompletion cfg v w2 = (x, w')"
        "r = Inr (v, case x of Inl e \<Rightarrow> Some e | Inr _ \<Rightarrow> None)"
        by (cases rule: bindE_cases) (auto simp: tryE_iff)
      with stepsD [OF settleCompletion_same(1) this(1)] w2 show ?thesis by (auto simp: same_def)
    next
      case False
      with step w2 show ?thesis by auto
    qed
  qed
  from run show thesis
  proof (cases rule: bindE_cases)
    case (error e)
    from assms(1) error(1) have "store_error e"
      by (cases rule: mutateE_outcomes) (auto simp: f_def notify_mutate_never_fails)
    with error(2) failed show thesis by blast
  next
    case (ok a w1)
    obtain calls b where a: "a = (calls, b)" by fastforce
    from assms(1) ok(1) [unfolded a] show thesis
    proof (cases rule: mutateE_outcomes)
      case (kept calls' c x' evs)
      then have seen_c: "seen calls = value_at c key" by simp
      show thesis
      proof (cases "notify_refused g (Unix now) (value_at c key)")
        case None
        obtain u where u: "value_at c key = Some u" "Notified u g"
          using notify_kept_known [OF None, of "af_GraceWindow cfg"] kept(2) by (auto simp: f_def)
        have "\<exists>err. r = Inr (u, err) \<and> aw_Activities w' = aw_Activities w1"
          by (rule finish [OF ok(2) [unfolded a]])
            (simp_all add: seen_c None [unfolded u(1)] kept(2) [unfolded u(1)] u(1))
        with kept u None show thesis by (elim exE, intro accepted [of c u]) (auto simp: w0)
      next
        case (Some y)
        obtain ref st d where y: "y = (ref, st, d)" by (cases y)
        with Some seen_c ok(2) a have "refuseNotify cfg key g st ref d w1 = (r, w')" by (simp add: k_def)
        with Some kept(1,5,6) y show thesis by (intro refused [of c ref st d w1]) (auto simp: w0)
      qed
    next
      case (saved v calls' c x' evs)
      have n: "notify_refused g (Unix now) (value_at c key) = None"
        using notify_refused_keeps [of g now "value_at c key" _ "af_GraceWindow cfg"] saved(2)
        by (cases "notify_refused g (Unix now) (value_at c key)") (auto simp: f_def)
      from saved have seen_c: "seen calls = value_at c key" by simp
      have "\<exists>err. r = Inr (v, err) \<and> aw_Activities w' = aw_Activities w1"
        by (rule finish [OF ok(2) [unfolded a]]) (simp_all add: seen_c n saved(2))
      with saved(1,2,5,6) n show thesis by (elim exE, intro accepted [of c v]) (auto simp: w0 f_def)
    qed auto
  qed
qed

section \<open>Properties\<close>

definition ex_games :: "int list" where "ex_games = [3, 5]"

definition ex_activity :: Activity where "ex_activity = new_activity ex_key ex_games 10"

definition ex_collecting :: Activity where
  "ex_collecting = notify_next 3 (20 * Second) (60 * Second) ex_activity"

lemma ex_collecting_fields [simp]:
  "ac_Key ex_collecting = ex_key" "ac_ExpectedGameSIDs ex_collecting = [3, 5]"
  "ac_NotifiedGameSIDs ex_collecting = [3]" "ac_Status ex_collecting = StatusCollecting"
  "ac_GraceDeadlineUnix ex_collecting = 80" "ac_CompletionReason ex_collecting = NoReason"
  by (simp_all add: ex_collecting_def ex_activity_def ex_games_def new_activity_def notify_next_def
      Collected_def Let_def Unix_def Add_def Second_def)

lemma ex_games_valid [simp]: "validateExpectedGames [3, 5] = None"
  by (simp add: validateExpectedGames_None bound_defs)

lemma ex_history:
  "commits activity_mutate
     [OpenOp ex_key [3, 5] 10, NotifyOp 3 (20 * Second) (60 * Second), ExpireOp 90] None
     = Some (expire_next 90 ex_collecting)"
proof -
  have "activity_mutate (OpenOp ex_key [3, 5] 10) None = Save ex_activity"
    by (simp add: ex_activity_def ex_games_def)
  moreover have "activity_mutate (NotifyOp 3 (20 * Second) (60 * Second)) (Some ex_activity) = Save ex_collecting"
    by (simp add: notify_mutate_def Notified_def Expects_def GraceExpired_def ex_activity_def ex_games_def
        new_activity_def ex_collecting_def)
  moreover have "activity_mutate (ExpireOp 90) (Some ex_collecting) = Save (expire_next 90 ex_collecting)"
    by (simp add: expire_mutate_def GraceExpired_def)
  ultimately show ?thesis by (simp add: commit_def)
qed

text \<open>C7: whatever operations are committed on an activity, in whatever order, by however many
  processes, the notified games are distinct members of the expected set, and a complete activity
  says it was collected exactly when no expected game is missing from it.\<close>

theorem activity_lifecycle:
  assumes "commits activity_mutate ops None = Some a"
  shows "activity_ok a \<and> (MissingGameSIDs a = [] \<longleftrightarrow> ac_CompletionReason a = CompletedCollected)"
proof -
  have ok: "activity_ok a"
    using activity.commits_inv [of ops None a] assms by (simp add: list_all_iff)
  then have "Collected a \<longleftrightarrow> MissingGameSIDs a = []"
    by (intro Collected_iff_all) (simp_all add: activity_ok_def)
  with ok show ?thesis by (simp add: activity_ok_def)
qed

theorem activity_lifecycle_witness:
  "activity_ok (expire_next 90 ex_collecting) \<and>
   (MissingGameSIDs (expire_next 90 ex_collecting) = [] \<longleftrightarrow>
      ac_CompletionReason (expire_next 90 ex_collecting) = CompletedCollected)"
  by (rule activity_lifecycle [OF ex_history])

text \<open>C14: an activity completes exactly once. Once it is complete, no notification, no grace sweep
  and no second opening changes any field of it, so the result that was handed out stays the
  result.\<close>

theorem complete_is_final:
  assumes "commits activity_mutate ops None = Some u" "ac_Status u = StatusComplete"
  shows "commits activity_mutate ops' (Some u) = Some u"
proof -
  have ok: "activity_ok u"
    using activity.commits_inv [of ops None u] assms(1) by (simp add: list_all_iff)
  obtain v where v: "commits activity_mutate ops' (Some u) = Some v"
    using commits_Some [of activity_mutate ops' u] by blast
  with activity.commits_le [of ops' u v] ok have "activity_le u v" by (simp add: list_all_iff)
  with assms(2) v show ?thesis by (simp add: activity_le_def)
qed

theorem complete_is_final_witness:
  "commits activity_mutate [NotifyOp 5 (30 * Second) (60 * Second), ExpireOp 200]
     (Some (expire_next 90 ex_collecting)) = Some (expire_next 90 ex_collecting)"
  by (rule complete_is_final [OF ex_history]) (simp add: expire_next_def)

text \<open>A notification after the deadline is refused whether or not a sweep has run: with the
  activity still collecting and its deadline passed, \<open>NotifyPhase\<close> answers that it is late (or a store
  error) and the activity is left as it was.\<close>

theorem late_notify_refused:
  assumes "vs_contract am (=) (af_Activities cfg)" "vs_contract um (=) (af_Audits cfg)"
    and "ActKey_Validate key = None" "0 < g" "value_at (am (aw_Activities w)) key = Some u"
    and "Expects u g" "\<not> Notified u g" "ac_Status u \<noteq> StatusComplete"
    and "GraceExpired u (Unix (af_Now cfg (env_ticks w)))"
    and "NotifyPhase cfg key g w = (r, w')"
  shows "\<exists>e. r = Inl e \<and> (e = [ErrNotifyLate] \<or> store_error e) \<and>
             (e = [ErrNotifyLate] \<longrightarrow> am (aw_Activities w') = am (aw_Activities w))"
proof -
  have late: "\<exists>st d. notify_refused g (Unix (af_Now cfg (env_ticks w))) (Some u) = Some (RefusalLate, st, d)"
    using assms(6-9) by (simp add: notify_refused_def)
  from assms(1,3,4,10) show ?thesis
  proof (cases rule: NotifyPhase_cases)
    case (failed e)
    then show ?thesis using store_error_neq by auto
  next
    case (refused c ref st d w1)
    then have ref: "ref = RefusalLate" using late assms(5) by auto
    have "aw_Activities w' = aw_Activities w1"
      using stepsD [OF refuseNotify_same refused(5)] by (simp add: same_def)
    with assms(2) refused(5) show ?thesis
      by (cases rule: refuseNotify_cases) (use ref refused(1,3) in auto)
  next
    case (accepted c v err)
    with late assms(5) show ?thesis by auto
  qed
qed

definition ex_acfg ::
  "((ActKey, Activity) mem, (ParticipantKey, Participant) mem, (RequestKey, ProgressReservation) mem,
    (ActKey, NotifyAuditLog) mem, (DispatchKey, Dispatch) mem, (string, Window) mem) ActivityConfig" where
  "ex_acfg = \<lparr>af_Activities = mem_store, af_Participants = mem_store, af_Ledger = mem_store,
     af_Audits = mem_store, af_Dispatches = mem_store, af_OwedIndex = None, af_Windows = mem_store,
     af_GraceWindow = 60 * Second, af_ReservationTTL = 30 * Minute, af_DispatchBackoff = 5 * Second,
     af_DispatchMaxAttempts = 5, af_OpeningGrace = Minute, af_Now = (\<lambda>n. (100 + int n) * Second),
     af_NewDispatchToken = (\<lambda>n. Inr (''t'' @ FormatInt (int n))), af_SweepGroups = [''eu'']\<rparr>"

definition ex_aworld ::
  "((ActKey, Activity) mem, (ParticipantKey, Participant) mem, (RequestKey, ProgressReservation) mem,
    (ActKey, NotifyAuditLog) mem, (DispatchKey, Dispatch) mem, (string, Window) mem) aworld" where
  "ex_aworld = \<lparr>env_ticks = 0, env_events = [], aw_Activities = mem_of [(ex_key, ex_collecting)],
     aw_Participants = mem_of [], aw_Ledger = mem_of [], aw_Audits = mem_of [], aw_Dispatches = mem_of [],
     aw_Windows = mem_of [], aw_Cursor = (\<lambda>_. None), aw_Minted = 0\<rparr>"

lemma ex_acfg_contracts [simp]:
  "vs_contract mem_map (=) (af_Activities ex_acfg)" "vs_contract mem_map (=) (af_Participants ex_acfg)"
  "vs_contract mem_map (=) (af_Ledger ex_acfg)" "vs_contract mem_map (=) (af_Audits ex_acfg)"
  "vs_contract mem_map (=) (af_Dispatches ex_acfg)" "vs_contract mem_map (=) (af_Windows ex_acfg)"
  by (simp_all add: ex_acfg_def mem_store_contract)

lemma ex_aworld_activity [simp]: "value_at (mem_map (aw_Activities ex_aworld)) ex_key = Some ex_collecting"
  by (simp add: ex_aworld_def mem_of_def value_at_def)

theorem late_notify_refused_witness:
  "\<exists>r w' e. NotifyPhase ex_acfg ex_key 5 ex_aworld = (r, w') \<and> r = Inl e \<and>
     (e = [ErrNotifyLate] \<or> store_error e)"
proof -
  obtain r w' where r: "NotifyPhase ex_acfg ex_key 5 ex_aworld = (r, w')" by fastforce
  have "\<exists>e. r = Inl e \<and> (e = [ErrNotifyLate] \<or> store_error e) \<and>
     (e = [ErrNotifyLate] \<longrightarrow> mem_map (aw_Activities w') = mem_map (aw_Activities ex_aworld))"
    by (rule late_notify_refused [OF _ _ _ _ _ _ _ _ _ r, of mem_map mem_map ex_collecting])
      (simp_all add: Expects_def Notified_def GraceExpired_def,
       simp add: ex_acfg_def ex_aworld_def Unix_def Second_def)
  with r show ?thesis by blast
qed

text \<open>What recording one refusal does to a log: below 64 entries it adds one, with the refusal, the game and
  the next number; at 64 it adds one to the overflow count. The entries that are there stay.\<close>

definition refusal_recorded :: "NotifyAuditLog option \<Rightarrow> ActKey \<Rightarrow> notify_refusal \<Rightarrow> int \<Rightarrow> NotifyAuditLog \<Rightarrow> bool" where
  "refusal_recorded old key ref g log \<longleftrightarrow>
     (let entries = (case old of None \<Rightarrow> [] | Some l \<Rightarrow> nl_Entries l);
          overflowed = (case old of None \<Rightarrow> 0 | Some l \<Rightarrow> nl_Overflowed l);
          seq = (case old of None \<Rightarrow> 1 | Some l \<Rightarrow> if nl_NextSeq l = 0 then 1 else nl_NextSeq l) in
      if length entries < 64
      then nl_Overflowed log = overflowed \<and> nl_NextSeq log = (seq + 1) mod 2 ^ 64 \<and>
           (\<exists>a. nl_Entries log = entries @ [a] \<and> na_Seq a = seq \<and> na_Refusal a = ref \<and> na_GameSID a = g \<and>
                na_Key a = key)
      else nl_Entries log = entries \<and> nl_NextSeq log = seq \<and> nl_Overflowed log = (overflowed + 1) mod 2 ^ 64)"

lemma audit_mutate_records:
  assumes "audit_mutate key a old = Save log" "na_Key a = key"
  shows "refusal_recorded old key (na_Refusal a) (na_GameSID a) log"
  using assms
  by (auto simp: audit_mutate_def audit_of_def refusal_recorded_def MaxNotifyAudits_def u64_def Let_def
      split: if_splits option.splits)

text \<open>C34: a refused notification is never lost: when \<open>NotifyPhase\<close> answers one of its four refusals,
  the activity's audit log has, beside the entries it held at the commit, a new last entry with that
  refusal, that game and the next number, or, once it holds 64, the same entries and one more in its
  overflow count (which wraps at 64 bits).\<close>

theorem refusal_is_audited:
  assumes "vs_contract am R (af_Activities cfg)" "vs_contract um R' (af_Audits cfg)"
    and "ActKey_Validate key = None" "0 < g"
    and "NotifyPhase cfg key g w = (Inl (refusal_error ref), w')"
  shows "\<exists>c log. R' (um (aw_Audits w)) c \<and> value_at (um (aw_Audits w')) key = Some log \<and>
           refusal_recorded (value_at c key) key ref g log"
  using assms(1,3-5)
proof (cases rule: NotifyPhase_cases)
  case (failed e)
  then show ?thesis by (cases ref) (auto dest: store_error_neq)
next
  case (refused c ref' st d w1)
  from assms(2) refused(5) show ?thesis
  proof (cases rule: refuseNotify_cases)
    case (failed e)
    then show ?thesis by (cases ref) (auto dest: store_error_neq)
  next
    case (audited a log c)
    then have "ref' = ref" by (cases ref'; cases ref) auto
    with audited audit_mutate_records [OF audited(7,5)] refused(4) show ?thesis
      by (intro exI [of _ c] exI [of _ log]) simp
  qed
qed auto

lemma ex_refused: "fst (NotifyPhase ex_acfg ex_key 9 ex_aworld) = Inl (refusal_error RefusalUnexpectedGame)"
  by (simp add: NotifyPhase_def Let_def handler_simps ex_acfg_def ex_aworld_def mem_eval notify_mutate_def
      Notified_def Expects_def notify_refused_def seen_def refuseNotify_def appendAudit_def audit_mutate_def
      audit_of_def MaxNotifyAudits_def)

theorem refusal_is_audited_witness:
  "\<exists>w' log a. NotifyPhase ex_acfg ex_key 9 ex_aworld = (Inl (refusal_error RefusalUnexpectedGame), w') \<and>
     value_at (mem_map (aw_Audits w')) ex_key = Some log \<and> nl_Entries log = [a] \<and>
     na_Refusal a = RefusalUnexpectedGame \<and> na_GameSID a = 9 \<and> na_Seq a = 1"
proof -
  obtain w' where r: "NotifyPhase ex_acfg ex_key 9 ex_aworld = (Inl (refusal_error RefusalUnexpectedGame), w')"
    using ex_refused by (metis prod.collapse)
  have "value_at (mem_map (aw_Audits ex_aworld)) ex_key = None"
    by (simp add: ex_aworld_def mem_of_def value_at_def)
  with refusal_is_audited [OF _ _ _ _ r, of mem_map "(=)" mem_map "(=)"] obtain log where
    "value_at (mem_map (aw_Audits w')) ex_key = Some log"
    "refusal_recorded None ex_key RefusalUnexpectedGame 9 log" by auto
  with r show ?thesis by (auto simp: refusal_recorded_def)
qed

text \<open>The audit log accounts for every refusal. After any number of commits it holds the first
  64 refusals in order, numbered consecutively from one, and an overflow count that makes up the
  total; nothing is overwritten and nothing is dropped without being counted.\<close>

theorem audit_log_exact:
  assumes "audits \<noteq> []" "length audits < 2 ^ 64"
  shows "commits (audit_mutate key) audits None = Some (audit_log key audits)"
  using assms
proof (induction audits rule: rev_nonempty_induct)
  case (single a)
  then show ?case by (simp add: commit_def audit_log_first)
next
  case (snoc a audits)
  then show ?case by (simp add: commit_def audit_log_step)
qed

definition ex_audit :: NotifyAudit where
  "ex_audit = \<lparr>na_Seq = 0, na_Key = ex_key, na_GameSID = 9, na_Refusal = RefusalUnexpectedGame,
     na_Status = Some StatusCollecting, na_AtUnix = 100, na_Detail = ''expected [3 5]''\<rparr>"

theorem audit_log_exact_witness:
  "commits (audit_mutate ex_key) (replicate 66 ex_audit) None = Some (audit_log ex_key (replicate 66 ex_audit)) \<and>
   nl_Overflowed (audit_log ex_key (replicate 66 ex_audit)) = 2"
  using audit_log_exact [of "replicate 66 ex_audit" ex_key]
  by (simp add: audit_log_def MaxNotifyAudits_def)

end
