(* ===== verification/ActivityDelivery.thy ===== *)
theory ActivityDelivery
  imports ActivityProps
begin

text \<open>
  The coordinator's second half: the sweep that completes expired activities, the dispatches owed to
  the expected games, the rotation of the delivering window, and participants' progress.
\<close>

section \<open>Dispatch handlers\<close>

lemma AckDispatch_cases:
  assumes "vs_contract dm R (af_Dispatches cfg)" "AckDispatch cfg key g token w = (r, w')"
  defines "k \<equiv> \<lparr>dk_Activity = key, dk_GameSID = g\<rparr>"
    and "n \<equiv> Unix (af_Now cfg (env_ticks w))"
  obtains (refused) e where "r = Inl e"
    "store_error e \<or> dm (aw_Dispatches w') = dm (aw_Dispatches w) \<or> R (dm (aw_Dispatches w)) (dm (aw_Dispatches w'))"
  | (replayed) u where "R (dm (aw_Dispatches w)) (dm (aw_Dispatches w'))"
      "value_at (dm (aw_Dispatches w')) k = Some u" "dp_Token u = token" "dp_State u = DispatchAcked" "r = Inr u"
  | (acked) u c where "R (dm (aw_Dispatches w)) c" "value_at c k = Some u" "dp_Token u = token"
      "dp_State u = DispatchPending" "r = Inr (ack_next n u)" "written k (ack_next n u) c (dm (aw_Dispatches w'))"
proof -
  define f where "f = ack_mutate token n"
  define w0 where "w0 = w\<lparr>env_ticks := Suc (env_ticks w)\<rparr>"
  have w0: "aw_Dispatches w0 = aw_Dispatches w" by (simp add: w0_def)
  show thesis
  proof (cases "ActKey_Validate key \<noteq> None \<or> g \<le> 0 \<or> token = []")
    case True
    with assms(2) have "\<exists>e. r = Inl e \<and> w' = w"
      by (cases "ActKey_Validate key") (auto simp: AckDispatch_def guardE_def split: if_splits)
    with refused show thesis by auto
  next
    case False
    with assms(2) have run: "bindE (dispatchesUpdate cfg k (ack_events token) f) (\<lambda>(calls, applied).
              case ack_refusal token (seen calls) of
                Some e \<Rightarrow> raiseE e
              | None \<Rightarrow>
                  thenE (reportE (if f (seen calls) = Keep then Replayed ''ack_dispatch''
                                  else Accepted ''ack_dispatch''))
                    (retE (result_of f zero_dispatch (seen calls)))) w0 = (r, w')"
      unfolding f_def n_def w0_def k_def by (simp add: AckDispatch_def Let_def)
    from run show thesis
    proof (cases rule: bindE_cases)
      case (error e)
      from assms(1) error(1) have "store_error e"
        by (cases rule: mutateE_outcomes) (auto simp: f_def ack_mutate_def split: option.splits if_splits)
      with error(2) refused show thesis by blast
    next
      case (ok a w1)
      obtain calls b where a: "a = (calls, b)" by fastforce
      from assms(1) ok(1) [unfolded a] show thesis
      proof (cases rule: mutateE_outcomes)
        case (kept calls' c x' evs)
        then have sc: "seen calls = value_at c k" by simp
        show thesis
        proof (cases "ack_refusal token (value_at c k)")
          case None
          then obtain u where u: "value_at c k = Some u" "dp_Token u = token" "dp_State u = DispatchAcked"
            using kept(2) by (auto simp: ack_refusal_def f_def ack_mutate_def split: option.splits if_splits)
          with ok(2) a sc None kept show thesis
            by (intro replayed [of u]) (auto simp: w0 f_def result_of_def)
        next
          case (Some e)
          with ok(2) a sc kept show thesis by (intro refused [of e]) (auto simp: w0)
        qed
      next
        case (saved v calls' c x' evs)
        then have sc: "seen calls = value_at c k" by simp
        from saved(2) obtain u where u: "value_at c k = Some u" "dp_Token u = token"
            "dp_State u = DispatchPending" "v = ack_next n u"
          by (cases "value_at c k"; cases "dp_State (the (value_at c k))")
            (auto simp: f_def ack_mutate_def split: if_splits)
        with ok(2) a sc saved show thesis
          by (intro acked [of c u]) (auto simp: w0 ack_refusal_def result_of_def)
      qed auto
    qed
  qed
qed

text \<open>The dispatches a completed activity owes: existing records are left alone, missing ones created.\<close>

definition dispatches_kept :: "('d \<Rightarrow> (DispatchKey, Dispatch) contents) \<Rightarrow>
    ('a, 'p, 'l, 'u, 'd, 'n) aworld \<Rightarrow> ('a, 'p, 'l, 'u, 'd, 'n) aworld \<Rightarrow> bool" where
  "dispatches_kept dm w w' \<longleftrightarrow>
     (\<forall>k. dm (aw_Dispatches w) k \<noteq> None \<longrightarrow> dm (aw_Dispatches w') k = dm (aw_Dispatches w) k)"

interpretation kept: handler_steps "dispatches_kept dm" for dm
  by unfold_locales (auto simp: dispatches_kept_def)

definition owed :: "('d \<Rightarrow> (DispatchKey, Dispatch) contents) \<Rightarrow> Activity \<Rightarrow>
    ('a, 'p, 'l, 'u, 'd, 'n) aworld \<Rightarrow> ('a, 'p, 'l, 'u, 'd, 'n) aworld \<Rightarrow> int \<Rightarrow> bool" where
  "owed dm a w w' g \<longleftrightarrow>
     (let k = \<lparr>dk_Activity = ac_Key a, dk_GameSID = g\<rparr> in
      \<exists>d. value_at (dm (aw_Dispatches w')) k = Some d \<and>
          (value_at (dm (aw_Dispatches w)) k = Some d \<or>
           value_at (dm (aw_Dispatches w)) k = None \<and> dp_Result d = activity_result a \<and>
           dp_State d = DispatchPending \<and> dp_Token d \<noteq> [] \<and> dp_GameSID d = g))"

lemma owed_mono:
  "owed dm a w1 w2 g \<Longrightarrow> dispatches_kept dm w0 w1 \<Longrightarrow> dispatches_kept dm w2 w3 \<Longrightarrow>
   value_at (dm (aw_Dispatches w0)) \<lparr>dk_Activity = ac_Key a, dk_GameSID = g\<rparr> =
     value_at (dm (aw_Dispatches w1)) \<lparr>dk_Activity = ac_Key a, dk_GameSID = g\<rparr> \<Longrightarrow>
   owed dm a w0 w3 g"
  by (auto simp: owed_def dispatches_kept_def Let_def value_at_def)

lemma ensure_one_result:
  assumes "vs_contract dm (=) (af_Dispatches cfg)" "ensure_one cfg a n g w = (r, w')"
  shows "dispatches_kept dm w w'" "r = Inr () \<Longrightarrow> owed dm a w w' g"
    "\<And>h. h \<noteq> g \<Longrightarrow> dm (aw_Dispatches w') \<lparr>dk_Activity = ac_Key a, dk_GameSID = h\<rparr> =
        dm (aw_Dispatches w) \<lparr>dk_Activity = ac_Key a, dk_GameSID = h\<rparr>"
proof -
  define k where "k = \<lparr>dk_Activity = ac_Key a, dk_GameSID = g\<rparr>"
  have "dispatches_kept dm w w' \<and> (r = Inr () \<longrightarrow> owed dm a w w' g) \<and>
    (\<forall>h. h \<noteq> g \<longrightarrow> dm (aw_Dispatches w') \<lparr>dk_Activity = ac_Key a, dk_GameSID = h\<rparr> =
        dm (aw_Dispatches w) \<lparr>dk_Activity = ac_Key a, dk_GameSID = h\<rparr>)"
    using assms(2) unfolding ensure_one_def Let_def k_def [symmetric]
  proof (cases rule: bindE_cases)
    case (error e)
    from assms(1) error(1) show ?thesis
      by (cases rule: getE_outcomes) (use error(2) in \<open>auto simp: dispatches_kept_def\<close>)
  next
    case (ok cur w1)
    from assms(1) ok(1) have cur: "cur = dm (aw_Dispatches w) k" "dm (aw_Dispatches w1) = dm (aw_Dispatches w)"
      by (cases rule: getE_outcomes; simp)+
    show ?thesis
    proof (cases "cur = None")
      case False
      with ok(2) cur show ?thesis
        by (auto simp: dispatches_kept_def owed_def Let_def value_at_def k_def)
    next
      case True
      with ok(2) have "bindE (mintE cfg) (\<lambda>token.
               if token = [] then raiseE [Foreign ''activity: dispatch token generator returned an empty token'']
               else bindE (dispatchesCreate cfg k
                      (new_dispatch a g token (af_DispatchMaxAttempts cfg) n)) (\<lambda>_. retE ())) w1 = (r, w')"
        by simp
      then show ?thesis
      proof (cases rule: bindE_cases)
        case (error e)
        with cur show ?thesis by (auto simp: mintE_def dispatches_kept_def)
      next
        case (ok token w2)
        then have w2: "aw_Dispatches w2 = aw_Dispatches w1" by (auto simp: mintE_def)
        show ?thesis
        proof (cases "token = []")
          case True
          with ok(2) w2 cur show ?thesis by (auto simp: dispatches_kept_def)
        next
          case False
          with ok(2) have "bindE (dispatchesCreate cfg k
                      (new_dispatch a g token (af_DispatchMaxAttempts cfg) n)) (\<lambda>_. retE ()) w2 = (r, w')" by simp
          then obtain r3 where c3: "dispatchesCreate cfg k (new_dispatch a g token (af_DispatchMaxAttempts cfg) n) w2 = (r3, w')"
            "r = Inr () \<longrightarrow> (\<exists>x. r3 = Inr x)"
            by (cases rule: bindE_cases) auto
          from assms(1) c3(1) show ?thesis
            by (cases rule: createE_outcomes)
              (use c3(2) w2 cur True False in \<open>auto simp: dispatches_kept_def owed_def Let_def k_def
                new_dispatch_def written_other value_at_def written_def\<close>)
        qed
      qed
    qed
  qed
  then show "dispatches_kept dm w w'" "r = Inr () \<Longrightarrow> owed dm a w w' g"
    "\<And>h. h \<noteq> g \<Longrightarrow> dm (aw_Dispatches w') \<lparr>dk_Activity = ac_Key a, dk_GameSID = h\<rparr> =
        dm (aw_Dispatches w) \<lparr>dk_Activity = ac_Key a, dk_GameSID = h\<rparr>" by blast+
qed

lemma ensure_all:
  assumes "vs_contract dm (=) (af_Dispatches cfg)"
  shows "distinct gs \<Longrightarrow> forE gs (ensure_one cfg a n) w = (Inr (), w') \<Longrightarrow>
    dispatches_kept dm w w' \<and> (\<forall>g \<in> set gs. owed dm a w w' g)"
proof (induction gs arbitrary: w)
  case Nil
  then show ?case by (auto simp: dispatches_kept_def)
next
  case (Cons g gs)
  obtain w1 where w1: "ensure_one cfg a n g w = (Inr (), w1)" "forE gs (ensure_one cfg a n) w1 = (Inr (), w')"
    using Cons.prems(2) by (auto elim: thenE_cases)
  note one = ensure_one_result [OF assms w1(1)] and rest = Cons.IH [OF _ w1(2)]
  have "dispatches_kept dm w w'" using kept.trans [OF one(1)] rest Cons.prems(1) by simp
  moreover have "owed dm a w w' g"
    using owed_mono [OF one(2) kept.refl] rest Cons.prems(1) by simp
  moreover have "owed dm a w w' h" if "h \<in> set gs" for h
  proof -
    have "h \<noteq> g" using that Cons.prems(1) by auto
    then show ?thesis
      using owed_mono [OF _ one(1) kept.refl, of a w' h] one(3) [of h] rest Cons.prems(1) that
      by (simp add: value_at_def)
  qed
  ultimately show ?case by simp
qed

section \<open>The grace sweep\<close>

definition stored :: "('a \<Rightarrow> (ActKey, Activity) contents) \<Rightarrow> ('a, 'p, 'l, 'u, 'd, 'n) aworld \<Rightarrow> ActKey \<Rightarrow> Activity option" where
  "stored am w k = value_at (am (aw_Activities w)) k"

text \<open>All the sweep does to an activity is to complete one that collects past its deadline.\<close>

definition expires :: "int \<Rightarrow> Activity \<Rightarrow> bool" where
  "expires n u \<longleftrightarrow> ac_Status u = StatusCollecting \<and> GraceExpired u n"

definition expired_only ::
  "('a \<Rightarrow> (ActKey, Activity) contents) \<Rightarrow> int \<Rightarrow> ('a, 'p, 'l, 'u, 'd, 'n) aworld \<Rightarrow>
   ('a, 'p, 'l, 'u, 'd, 'n) aworld \<Rightarrow> bool" where
  "expired_only am n w w' \<longleftrightarrow>
     (\<forall>k. stored am w' k = stored am w k \<or>
          (\<exists>u. stored am w k = Some u \<and> expires n u \<and> stored am w' k = Some (expire_next n u)))"

lemma expire_next_not_expires [simp]: "\<not> expires n (expire_next m u)"
  by (simp add: expires_def expire_next_def)

interpretation sweep: handler_steps "expired_only am n" for am n
proof unfold_locales
  fix w1 w2 w3 :: "('a, 'b, 'c, 'd, 'e, 'f) aworld"
  assume "expired_only am n w1 w2" "expired_only am n w2 w3"
  then show "expired_only am n w1 w3"
    unfolding expired_only_def by (metis expire_next_not_expires option.sel)
qed (simp add: expired_only_def)

lemma same_expired:
  "steps (same aw_Activities) h \<Longrightarrow> steps (expired_only am n) h"
  by (auto simp: steps_def same_def expired_only_def stored_def)

lemma unchanged_expired: "am (aw_Activities w') = am (aw_Activities w) \<Longrightarrow> expired_only am n w w'"
  by (simp add: expired_only_def stored_def)

lemma get_expired:
  assumes "vs_contract am (=) (af_Activities cfg)"
  shows "steps (expired_only am n) (activitiesGet cfg k)"
  by (rule stepsI) (erule getE_outcomes [OF assms]; simp add: unchanged_expired)

definition advanced ::
  "('a \<Rightarrow> (ActKey, Activity) contents) \<Rightarrow> int \<Rightarrow> ('a, 'p, 'l, 'u, 'd, 'n) aworld \<Rightarrow>
   ('a, 'p, 'l, 'u, 'd, 'n) aworld \<Rightarrow> ActKey \<times> Activity \<Rightarrow> bool" where
  "advanced am n w w' x \<longleftrightarrow>
     (\<exists>u. stored am w (fst x) = Some u \<and> expires n u \<and> snd x = expire_next n u \<and>
          stored am w' (fst x) = Some (snd x))"

lemma advanced_mono:
  assumes "advanced am n w1 w2 x" "expired_only am n w0 w1" "expired_only am n w2 w3"
  shows "advanced am n w0 w3 x"
  using assms unfolding advanced_def expired_only_def
  by (metis expire_next_not_expires option.sel)

lemma written_expired:
  assumes "expire_mutate n (value_at (am (aw_Activities w)) k) = Save v"
    and "written k v (am (aw_Activities w)) (am (aw_Activities w'))"
  shows "expired_only am n w w' \<and> advanced am n w w' (k, v)"
  using assms by (auto simp: expire_mutate_Save expired_only_def advanced_def stored_def expires_def)

lemma completeExpired_result:
  assumes "vs_contract am (=) (af_Activities cfg)" "completeExpired cfg k n w = (r, w')"
  shows "expired_only am n w w'" "r = Inr (Some a) \<Longrightarrow> advanced am n w w' (k, a)"
proof -
  have "expired_only am n w w' \<and> (\<forall>a. r = Inr (Some a) \<longrightarrow> advanced am n w w' (k, a))"
    using assms(2) unfolding completeExpired_def
  proof (cases rule: bindE_cases)
    case (error e)
    from assms(1) error(1) show ?thesis
    proof (cases rule: mutateE_outcomes)
      case (failed e' c x' evs)
      then show ?thesis
        using error(2) unchanged_expired [of am w' w n] written_expired [of n am w k _ w'] by auto
    next
      case (refused e' c x' evs)
      then show ?thesis using error(2) unchanged_expired [of am w' w n] by auto
    qed auto
  next
    case (ok a w1)
    obtain calls b where a: "a = (calls, b)" by fastforce
    from assms(1) ok(1) [unfolded a] show ?thesis
    proof (cases rule: mutateE_outcomes)
      case (kept calls' c x' evs)
      with ok(2) a show ?thesis using unchanged_expired [of am w' w n] by auto
    next
      case (saved v calls' c x' evs)
      with ok(2) a show ?thesis using written_expired [of n am w k v w'] by auto
    qed auto
  qed
  then show "expired_only am n w w'" "r = Inr (Some a) \<Longrightarrow> advanced am n w w' (k, a)" by auto
qed

lemma sweep_due_result:
  assumes "vs_contract am (=) (af_Activities cfg)"
  shows "sweep_due cfg n limit due acc w = (r, w') \<Longrightarrow> int (length acc) \<le> limit \<Longrightarrow>
    expired_only am n w w' \<and>
    (\<exists>new err. r = Inr (acc @ new, err) \<and> int (length (acc @ new)) \<le> limit \<and>
       (\<forall>x \<in> set new. advanced am n w w' x))"
proof (induction due arbitrary: acc w)
  case Nil
  then show ?case by (auto simp: sweep.refl)
next
  case (Cons entry rest)
  show ?case
  proof (cases "int (length acc) \<ge> limit")
    case True
    with Cons.prems show ?thesis by (auto simp: sweep.refl)
  next
    case False
    with Cons.prems(1) have "bindE (tryE (completeExpired cfg (fst entry) n)) (\<lambda>r.
        case r of
          Inl e \<Rightarrow> retE (acc, Some e)
        | Inr None \<Rightarrow> sweep_due cfg n limit rest acc
        | Inr (Some activity) \<Rightarrow> sweep_due cfg n limit rest (acc @ [(fst entry, activity)])) w = (r, w')"
      by simp
    then obtain x w1 where x: "completeExpired cfg (fst entry) n w = (x, w1)"
      "(case x of
          Inl e \<Rightarrow> retE (acc, Some e)
        | Inr None \<Rightarrow> sweep_due cfg n limit rest acc
        | Inr (Some activity) \<Rightarrow> sweep_due cfg n limit rest (acc @ [(fst entry, activity)])) w1 = (r, w')"
      by (cases rule: bindE_cases) (auto simp: tryE_iff)
    note one = completeExpired_result [OF assms x(1)]
    show ?thesis
    proof (cases x)
      case (Inl e)
      with x(2) one Cons.prems(2) show ?thesis by auto
    next
      case (Inr o')
      show ?thesis
      proof (cases o')
        case None
        with x(2) Inr Cons.IH [of acc w1] Cons.prems(2) have
          "expired_only am n w1 w' \<and>
           (\<exists>new err. r = Inr (acc @ new, err) \<and> int (length (acc @ new)) \<le> limit \<and>
              (\<forall>x \<in> set new. advanced am n w1 w' x))" by simp
        with one(1) show ?thesis by (metis advanced_mono sweep.refl sweep.trans)
      next
        case (Some a)
        with x(2) Inr Cons.IH [of "acc @ [(fst entry, a)]" w1] False obtain new err where ih:
          "expired_only am n w1 w'" "r = Inr (acc @ (fst entry, a) # new, err)"
          "int (length (acc @ (fst entry, a) # new)) \<le> limit" "\<forall>x \<in> set new. advanced am n w1 w' x"
          by auto
        have "advanced am n w w' (fst entry, a)"
          using advanced_mono [OF one(2) sweep.refl ih(1)] Inr Some by blast
        moreover have "\<forall>x \<in> set new. advanced am n w w' x"
          using advanced_mono [OF _ one(1) sweep.refl] ih(4) by blast
        ultimately show ?thesis
          using ih(2,3) sweep.trans [OF one(1) ih(1)]
          by (intro conjI exI [of _ "(fst entry, a) # new"] exI [of _ err]) auto
      qed
    qed
  qed
qed

lemma sweep_keys_expired:
  assumes "vs_contract am (=) (af_Activities cfg)"
  shows "steps (expired_only am n) (sweep_keys cfg m keys p)"
  by (induction keys arbitrary: p) (auto intro!: sweep.intros get_expired assms split: option.split)

lemma sweep_opening_expired:
  assumes "vs_contract am (=) (af_Activities cfg)"
  shows "steps (expired_only am n) (sweep_opening cfg m entries p)"
  by (induction entries arbitrary: p) (auto intro!: sweep.intros get_expired assms split: option.split)

lemma confirm_expired: "steps (expired_only am n) (forE ks (confirmWindow cfg))"
  by (rule same_expired) (auto simp: confirmWindow_def intro!: same_intros)

lemma finish_expired: "steps (expired_only am n) (sweep_finish cfg groupID p completed)"
  by (rule same_expired)
    (auto simp: sweep_finish_def Let_def intro!: same_intros ensureDispatches_same retireFromWindow_same)

lemma sweep_tail:
  assumes "vs_contract am (=) (af_Activities cfg)" "0 < limit" "expired_only am n w w1"
    and "bindE (sweep_due cfg n limit due []) (\<lambda>(completed, failed).
            case failed of
              Some e \<Rightarrow> retE (map snd completed, Some e)
            | None \<Rightarrow>
                bindE (tryE (sweep_finish cfg groupID p completed)) (\<lambda>r.
                  retE (map snd completed, case r of Inl e \<Rightarrow> Some e | Inr _ \<Rightarrow> None))) w1 = (r, w')"
  shows "expired_only am n w w' \<and>
    (\<forall>out err. r = Inr (out, err) \<longrightarrow> int (length out) \<le> limit \<and>
       (\<forall>a \<in> set out. \<exists>k. advanced am n w w' (k, a)))"
  using assms(4)
proof (cases rule: bindE_cases)
  case (error e)
  with sweep_due_result [OF assms(1) error(1)] assms(2) show ?thesis by auto
next
  case (ok x w2)
  with sweep_due_result [OF assms(1) ok(1)] assms(2) obtain new err where new:
    "expired_only am n w1 w2" "x = (new, err)" "int (length new) \<le> limit" "\<forall>x \<in> set new. advanced am n w1 w2 x"
    by auto
  have "expired_only am n w2 w' \<and> (\<forall>out err. r = Inr (out, err) \<longrightarrow> out = map snd new)"
  proof (cases err)
    case None
    with ok(2) new(2) have "bindE (tryE (sweep_finish cfg groupID p new)) (\<lambda>r.
                  retE (map snd new, case r of Inl e \<Rightarrow> Some e | Inr _ \<Rightarrow> None)) w2 = (r, w')" by simp
    then show ?thesis
      by (cases rule: bindE_cases) (auto simp: tryE_iff dest: stepsD [OF finish_expired])
  next
    case (Some e)
    with ok(2) new(2) show ?thesis by (auto simp: sweep.refl)
  qed
  then have t: "expired_only am n w2 w'" "\<forall>out err. r = Inr (out, err) \<longrightarrow> out = map snd new" by auto
  have "\<forall>x \<in> set new. advanced am n w w' x"
    using new(4) advanced_mono [OF _ assms(3) t(1)] by blast
  moreover have "expired_only am n w w'"
    using sweep.trans [OF assms(3) sweep.trans [OF new(1) t(1)]] .
  ultimately show ?thesis using t(2) new(3) by fastforce
qed

lemma AdvanceExpired_cases:
  assumes "vs_contract am (=) (af_Activities cfg)" "AdvanceExpired cfg groupID limit w = (r, w')"
  defines "n \<equiv> Unix (af_Now cfg (env_ticks w))"
  shows "expired_only am n w w' \<and>
    (\<forall>out err. r = Inr (out, err) \<longrightarrow> int (length out) \<le> limit \<and>
       (\<forall>a \<in> set out. \<exists>k. advanced am n w w' (k, a)))"
proof (cases "groupID = [] \<or> act_validateLimit limit \<noteq> None")
  case True
  then have "\<exists>e. r = Inl e \<and> w' = w"
    using assms(2) by (cases "act_validateLimit limit") (auto simp: AdvanceExpired_def guardE_def split: if_splits)
  then show ?thesis by (auto simp: sweep.refl)
next
  case False
  then have lim: "0 < limit" by (auto simp: act_validateLimit_def split: if_splits)
  from False assms(2) obtain r1 w1 where win: "windowsGet cfg groupID w = (r1, w1)"
    by (cases "windowsGet cfg groupID w") auto
  then have w1: "aw_Activities w1 = aw_Activities w" "env_ticks w1 = env_ticks w"
    using stepsD [OF same_get [of aw_Activities aw_Windows_update] win]
      stepsD [OF same_get [of env_ticks aw_Windows_update] win] by (simp_all add: same_def)
  have e1: "expired_only am n w w1" by (rule unchanged_expired) (simp add: w1)
  show ?thesis
  proof (cases "\<exists>sv. r1 = Inr (Some sv)")
    case False
    with \<open>\<not> (groupID = [] \<or> act_validateLimit limit \<noteq> None)\<close> assms(2) win
    have "w' = w1 \<and> (\<forall>out err. r = Inr (out, err) \<longrightarrow> out = [])"
      by (cases r1; cases "\<exists>x. r1 = Inr x") (auto simp: AdvanceExpired_def bindE_def)
    with e1 lim show ?thesis by auto
  next
    case True
    then obtain sv where sv: "r1 = Inr (Some sv)" by blast
    define w2 where "w2 = w1\<lparr>env_ticks := Suc (env_ticks w1)\<rparr>"
    have e2: "expired_only am n w w2" by (rule unchanged_expired) (simp add: w2_def w1)
    have "bindE (sweep_keys cfg n (take MaxPendingActivities (sortKeys (wn_Keys (ver_Value sv)))) empty_plan) (\<lambda>p1.
          bindE (sweep_opening cfg n (wn_Opening (ver_Value sv)) p1) (\<lambda>p.
          thenE (forE (sw_confirm p) (confirmWindow cfg))
         (bindE (sweep_due cfg n limit (sort_due (sw_due p)) []) (\<lambda>(completed, failed).
            case failed of
              Some e \<Rightarrow> retE (map snd completed, Some e)
            | None \<Rightarrow>
                bindE (tryE (sweep_finish cfg groupID p completed)) (\<lambda>r.
                  retE (map snd completed, case r of Inl e \<Rightarrow> Some e | Inr _ \<Rightarrow> None)))))) w2 = (r, w')"
      using assms(2) False win sv w1 \<open>\<not> (groupID = [] \<or> act_validateLimit limit \<noteq> None)\<close>
      unfolding n_def w2_def by (simp add: AdvanceExpired_def Let_def bindE_def [of "windowsGet cfg groupID"])
    then show ?thesis
    proof (cases rule: bindE_cases)
      case (error e)
      with stepsD [OF sweep_keys_expired [OF assms(1)] error(1)] e2 show ?thesis
        by (auto intro: sweep.trans)
    next
      case (ok p1 w3)
      have e3: "expired_only am n w w3"
        using stepsD [OF sweep_keys_expired [OF assms(1)] ok(1)] e2 by (rule sweep.trans [rotated])
      from ok(2) show ?thesis
      proof (cases rule: bindE_cases)
        case (error e)
        with stepsD [OF sweep_opening_expired [OF assms(1)] error(1)] e3 show ?thesis
          by (auto intro: sweep.trans)
      next
        case (ok p w4)
        have e4: "expired_only am n w w4"
          using stepsD [OF sweep_opening_expired [OF assms(1)] ok(1)] e3 by (rule sweep.trans [rotated])
        from ok(2) show ?thesis
        proof (cases rule: thenE_cases)
          case (error e)
          with stepsD [OF confirm_expired error(1)] e4 show ?thesis by (auto intro: sweep.trans)
        next
          case (ok u w5)
          have e5: "expired_only am n w w5"
            using stepsD [OF confirm_expired ok(1)] e4 by (rule sweep.trans [rotated])
          from ok(2) show ?thesis
            by (rule sweep_tail [OF assms(1) lim e5])
        qed
      qed
    qed
  qed
qed

section \<open>Properties\<close>

text \<open>The grace sweep only ever completes activities that are collecting past their deadline, as
  expired by grace: a pending activity is never timed out, and nothing else about any activity
  changes. It answers at most \<open>limit\<close> of them, each as the store now holds it.\<close>

theorem sweep_only_expires:
  assumes "vs_contract am (=) (af_Activities cfg)" "AdvanceExpired cfg groupID limit w = (r, w')"
  shows "(\<forall>k. value_at (am (aw_Activities w')) k = value_at (am (aw_Activities w)) k \<or>
            (\<exists>u. value_at (am (aw_Activities w)) k = Some u \<and> ac_Status u = StatusCollecting \<and>
                 GraceExpired u (Unix (af_Now cfg (env_ticks w))) \<and>
                 value_at (am (aw_Activities w')) k =
                   Some (expire_next (Unix (af_Now cfg (env_ticks w))) u))) \<and>
         (\<forall>out err. r = Inr (out, err) \<longrightarrow> int (length out) \<le> limit \<and>
            (\<forall>a \<in> set out. \<exists>k. value_at (am (aw_Activities w')) k = Some a \<and> ac_Status a = StatusComplete))"
proof -
  note c = AdvanceExpired_cases [OF assms]
  have "\<exists>k. value_at (am (aw_Activities w')) k = Some a \<and> ac_Status a = StatusComplete"
    if "r = Inr (out, err)" "a \<in> set out" for out err a
    using c that by (fastforce simp: advanced_def stored_def expire_next_def)
  with c show ?thesis by (auto simp: expired_only_def stored_def expires_def)
qed

definition ex_sweep ::
  "((ActKey, Activity) mem, (ParticipantKey, Participant) mem, (RequestKey, ProgressReservation) mem,
    (ActKey, NotifyAuditLog) mem, (DispatchKey, Dispatch) mem, (string, Window) mem) aworld" where
  "ex_sweep = ex_aworld\<lparr>aw_Windows := mem_of [(''eu'', (empty_window ''eu'')\<lparr>wn_Keys := [ex_key]\<rparr>)]\<rparr>"

lemma ex_sweep_advances:
  "map_sum id fst (fst (AdvanceExpired ex_acfg ''eu'' 5 ex_sweep)) = Inr [expire_next 100 ex_collecting]"
  by code_simp

theorem sweep_only_expires_witness:
  "\<exists>err w' k. AdvanceExpired ex_acfg ''eu'' 5 ex_sweep = (Inr ([expire_next 100 ex_collecting], err), w') \<and>
     value_at (mem_map (aw_Activities w')) k = Some (expire_next 100 ex_collecting)"
proof -
  obtain err w' where r: "AdvanceExpired ex_acfg ''eu'' 5 ex_sweep =
      (Inr ([expire_next 100 ex_collecting], err), w')"
    using ex_sweep_advances
    by (cases "AdvanceExpired ex_acfg ''eu'' 5 ex_sweep"; cases "fst (AdvanceExpired ex_acfg ''eu'' 5 ex_sweep)") auto
  from sweep_only_expires [OF _ r, of mem_map] have
    "\<exists>k. value_at (mem_map (aw_Activities w')) k = Some (expire_next 100 ex_collecting)" by (simp; blast)
  with r show ?thesis by blast
qed

text \<open>C20: the life of a dispatch under any interleaving of creations, attempts, acknowledgements and
  admin reopenings: its token, its result and its budget never change (a reopening delivers under
  the same token), the attempts never exceed the budget, it is only exhausted with the budget spent,
  and once acknowledged it never changes again.\<close>

theorem dispatch_lifecycle:
  assumes "dispatch_ok u" "list_all dispatch_allowed ops" "commits dispatch_mutate ops (Some u) = Some v"
  shows "dp_Token v = dp_Token u \<and> dp_Result v = dp_Result u \<and> dp_MaxAttempts v = dp_MaxAttempts u \<and>
         dp_Attempts v \<le> dp_MaxAttempts v \<and>
         (dp_State v = DispatchExhausted \<longrightarrow> dp_Attempts v = dp_MaxAttempts v) \<and>
         (dp_State u = DispatchAcked \<longrightarrow> v = u)"
  using dispatch.commits_le [OF assms(2,1,3)] dispatch.commits_inv [OF assms(2) _ assms(3)] assms(1)
  by (simp add: dispatch_le_def dispatch_ok_def)

definition ex_dispatch :: Dispatch where
  "ex_dispatch = new_dispatch (expire_next 90 ex_collecting) 5 ''t0'' 1 90"

theorem dispatch_lifecycle_witness:
  "\<exists>v. commits dispatch_mutate [AttemptOp 5 (100 * Second), AttemptOp 5 (101 * Second), ReopenOp ''gm'' 102]
       (Some ex_dispatch) = Some v \<and> dp_Token v = dp_Token ex_dispatch \<and> dp_Reopens v = 1 \<and>
     dp_Attempts v \<le> dp_MaxAttempts v"
proof -
  obtain v where v: "commits dispatch_mutate [AttemptOp 5 (100 * Second), AttemptOp 5 (101 * Second),
      ReopenOp ''gm'' 102] (Some ex_dispatch) = Some v"
    using commits_Some [of dispatch_mutate "[AttemptOp 5 (100 * Second), AttemptOp 5 (101 * Second),
      ReopenOp ''gm'' 102]" ex_dispatch] by blast
  have "map_option dp_Reopens (commits dispatch_mutate [AttemptOp 5 (100 * Second), AttemptOp 5 (101 * Second),
      ReopenOp ''gm'' 102] (Some ex_dispatch)) = Some 1" by code_simp
  moreover have "dispatch_ok ex_dispatch" by (simp add: dispatch_ok_def ex_dispatch_def new_dispatch_def)
  moreover have "list_all dispatch_allowed [AttemptOp 5 (100 * Second), AttemptOp 5 (101 * Second),
      ReopenOp ''gm'' 102]" by simp
  ultimately show ?thesis using v dispatch_lifecycle [OF _ _ v]
    by (simp del: commits_Cons)
qed

text \<open>An acknowledgement is accepted only with the dispatch's own token, and never once its budget
  was spent: a successful answer means the store held this dispatch with this token, either pending
  and now acknowledged in place, or acknowledged already and left as it was.\<close>

theorem ack_needs_token:
  assumes "vs_contract dm (=) (af_Dispatches cfg)" "AckDispatch cfg key g token w = (Inr d, w')"
  shows "\<exists>u. value_at (dm (aw_Dispatches w)) \<lparr>dk_Activity = key, dk_GameSID = g\<rparr> = Some u \<and>
     dp_Token u = token \<and>
     (dp_State u = DispatchAcked \<and> d = u \<and> dm (aw_Dispatches w') = dm (aw_Dispatches w) \<or>
      dp_State u = DispatchPending \<and> d = ack_next (Unix (af_Now cfg (env_ticks w))) u \<and>
      written \<lparr>dk_Activity = key, dk_GameSID = g\<rparr> d (dm (aw_Dispatches w)) (dm (aw_Dispatches w')))"
  using assms by (cases rule: AckDispatch_cases) auto

definition ex_delivery ::
  "((ActKey, Activity) mem, (ParticipantKey, Participant) mem, (RequestKey, ProgressReservation) mem,
    (ActKey, NotifyAuditLog) mem, (DispatchKey, Dispatch) mem, (string, Window) mem) aworld" where
  "ex_delivery = ex_aworld\<lparr>aw_Dispatches := mem_of [(\<lparr>dk_Activity = ex_key, dk_GameSID = 5\<rparr>, ex_dispatch)]\<rparr>"

lemma ex_acked: "fst (AckDispatch ex_acfg ex_key 5 ''t0'' ex_delivery) = Inr (ack_next 100 ex_dispatch)"
proof -
  have "dp_Token ex_dispatch = ''t0''" "dp_State ex_dispatch = DispatchPending"
    by (simp_all add: ex_dispatch_def new_dispatch_def)
  then show ?thesis
    by (simp add: AckDispatch_def Let_def handler_simps ex_acfg_def ex_delivery_def ex_aworld_def mem_eval
        ack_mutate_def ack_refusal_def ack_events_def seen_def result_of_def Unix_def Second_def)
qed

theorem ack_needs_token_witness:
  "\<exists>w' u. AckDispatch ex_acfg ex_key 5 ''t0'' ex_delivery = (Inr (ack_next 100 ex_dispatch), w') \<and>
     value_at (mem_map (aw_Dispatches ex_delivery)) \<lparr>dk_Activity = ex_key, dk_GameSID = 5\<rparr> = Some u \<and>
     dp_Token u = ''t0''"
proof -
  obtain w' where r: "AckDispatch ex_acfg ex_key 5 ''t0'' ex_delivery = (Inr (ack_next 100 ex_dispatch), w')"
    using ex_acked by (metis prod.collapse)
  with ack_needs_token [OF _ r, of mem_map] show ?thesis by auto
qed

text \<open>A completed activity's result is owed to every expected game: when \<open>ensureDispatches\<close>
  succeeds, each expected game has a dispatch, either the record that was already there, token and
  all, or a new pending one with a token and this activity's result; no existing dispatch
  changes.\<close>

theorem ensureDispatches_complete:
  assumes "vs_contract dm (=) (af_Dispatches cfg)" "distinct (ac_ExpectedGameSIDs a)"
    and "ensureDispatches cfg a w = (Inr (), w')"
  shows "dispatches_kept dm w w' \<and> (\<forall>g \<in> set (ac_ExpectedGameSIDs a). owed dm a w w' g)"
proof -
  define w0 where "w0 = w\<lparr>env_ticks := Suc (env_ticks w)\<rparr>"
  from assms(3) have "forE (ac_ExpectedGameSIDs a)
      (ensure_one cfg a (Unix (af_Now cfg (env_ticks w)))) w0 = (Inr (), w')"
    by (auto simp: ensureDispatches_def w0_def split: if_splits)
  from ensure_all [OF assms(1,2) this] show ?thesis
    by (auto simp: dispatches_kept_def owed_def Let_def w0_def)
qed

theorem ensureDispatches_complete_witness:
  "\<exists>w'. ensureDispatches ex_acfg (expire_next 90 ex_collecting) ex_delivery = (Inr (), w') \<and>
     owed mem_map (expire_next 90 ex_collecting) ex_delivery w' 3 \<and>
     owed mem_map (expire_next 90 ex_collecting) ex_delivery w' 5"
proof -
  have "fst (ensureDispatches ex_acfg (expire_next 90 ex_collecting) ex_delivery) = Inr ()" by code_simp
  then obtain w' where r: "ensureDispatches ex_acfg (expire_next 90 ex_collecting) ex_delivery = (Inr (), w')"
    by (metis prod.collapse)
  from ensureDispatches_complete [OF _ _ r, of mem_map] r show ?thesis
    by (simp add: expire_next_def)
qed

end
