(* ===== verification/ActivityProgress.thy ===== *)
theory ActivityProgress
  imports ActivityProps
begin

text \<open>
  Participants' progress through the request ledger, the bound of the pending window, and the
  rotation in which the delivering activities are visited.
\<close>

section \<open>ApplyProgress\<close>

abbreviation (input) "reserved_applied lm w rk \<equiv>
  \<exists>res. value_at (lm (aw_Ledger w)) rk = Some res \<and> pr_State res = ReservationApplied"

lemma reserve_cases:
  assumes "vs_contract lm (=) (af_Ledger cfg)" "vs_contract pm (=) (af_Participants cfg)"
    and "reserve cfg rk d now w = (r, w')"
  shows "pm (aw_Participants w') = pm (aw_Participants w)"
    and "value_at (lm (aw_Ledger w)) rk = Some res \<Longrightarrow> value_at (lm (aw_Ledger w')) rk = Some res"
    and "r = Inr None \<Longrightarrow> \<exists>res. value_at (lm (aw_Ledger w')) rk = Some res \<and> pr_State res = ReservationReserved"
    and "r = Inr (Some p) \<Longrightarrow> \<exists>res. value_at (lm (aw_Ledger w')) rk = Some res \<and> pr_State res = ReservationApplied"
proof -
  have "pm (aw_Participants w') = pm (aw_Participants w) \<and>
    (\<forall>res. value_at (lm (aw_Ledger w)) rk = Some res \<longrightarrow> value_at (lm (aw_Ledger w')) rk = Some res) \<and>
    (r = Inr None \<longrightarrow> (\<exists>res. value_at (lm (aw_Ledger w')) rk = Some res \<and> pr_State res = ReservationReserved)) \<and>
    (\<forall>p. r = Inr (Some p) \<longrightarrow>
       (\<exists>res. value_at (lm (aw_Ledger w')) rk = Some res \<and> pr_State res = ReservationApplied))"
    using assms(3) unfolding reserve_def
  proof (cases rule: bindE_cases)
    case (error e)
    from assms(1) error(1) show ?thesis
      by (cases rule: createE_outcomes) (use error(2) in \<open>auto simp: value_at_def written_def\<close>)
  next
    case (ok created w1)
    from assms(1) ok(1) show ?thesis
    proof (cases rule: createE_outcomes)
      case (created c sv x')
      with ok(2) show ?thesis by (auto simp: value_at_def written_def)
    next
      case (exists c x')
      with ok(2) have w1: "lm (aw_Ledger w1) = lm (aw_Ledger w)" "aw_Participants w1 = aw_Participants w"
        and run: "bindE (ledgerGet cfg rk) (\<lambda>existing.
       case existing of
         None \<Rightarrow> raiseE [ErrRequestInvalid]
       | Some sv \<Rightarrow>
           if pr_Delta (ver_Value sv) \<noteq> d then raiseE [ErrRequestInvalid]
           else if pr_State (ver_Value sv) = ReservationApplied
           then bindE (lookupParticipant cfg
                    \<lparr>pk_Activity = rk_Activity rk, pk_ParticipantID = rk_ParticipantID rk\<rparr>) (\<lambda>current.
                  thenE (reportE (Replayed ''apply_progress''))
                    (retE (Some (case current of None \<Rightarrow> zero_participant | Some p \<Rightarrow> p))))
           else retE None) w1 = (r, w')" by auto
      from run show ?thesis
      proof (cases rule: bindE_cases)
        case (error e)
        from assms(1) error(1) show ?thesis
          by (cases rule: getE_outcomes) (use error(2) w1 in auto)
      next
        case (ok existing w2)
        from assms(1) ok(1) have ex: "existing = lm (aw_Ledger w) rk" "lm (aw_Ledger w2) = lm (aw_Ledger w)"
            "aw_Participants w2 = aw_Participants w"
          by (cases rule: getE_outcomes; use w1 in simp)+
        have look: "lm (aw_Ledger w3) = lm (aw_Ledger w2) \<and> pm (aw_Participants w3) = pm (aw_Participants w2)"
          if "lookupParticipant cfg pk w2 = (x, w3)" for pk x w3
          using that unfolding lookupParticipant_def
        proof (cases rule: bindE_cases)
          case (error e)
          from assms(2) error(1) show ?thesis by (cases rule: getE_outcomes) auto
        next
          case (ok a w')
          from assms(2) ok(1) show ?thesis by (cases rule: getE_outcomes) (use ok(2) in auto)
        qed
        show ?thesis
        proof (cases existing)
          case None
          with ok(2) ex show ?thesis by auto
        next
          case (Some sv)
          show ?thesis
          proof (cases "pr_Delta (ver_Value sv) = d \<and> pr_State (ver_Value sv) = ReservationApplied")
            case True
            with Some ok(2) have "bindE (lookupParticipant cfg
                    \<lparr>pk_Activity = rk_Activity rk, pk_ParticipantID = rk_ParticipantID rk\<rparr>) (\<lambda>current.
                  thenE (reportE (Replayed ''apply_progress''))
                    (retE (Some (case current of None \<Rightarrow> zero_participant | Some p \<Rightarrow> p)))) w2 = (r, w')" by simp
            then have "lm (aw_Ledger w') = lm (aw_Ledger w2) \<and> pm (aw_Participants w') = pm (aw_Participants w2)
              \<and> r \<noteq> Inr None"
              by (cases rule: bindE_cases) (use look in auto)
            moreover have "lm (aw_Ledger w) rk = Some sv" using ex(1) Some by simp
            ultimately show ?thesis using ex(2,3) True by (simp add: value_at_def)
          next
            case False
            with Some ok(2) ex show ?thesis
              by (auto simp: value_at_def split: if_splits intro: reservation_state.exhaust)
          qed
        qed
      qed
    qed auto
  qed
  then show "pm (aw_Participants w') = pm (aw_Participants w)"
    "value_at (lm (aw_Ledger w)) rk = Some res \<Longrightarrow> value_at (lm (aw_Ledger w')) rk = Some res"
    "r = Inr None \<Longrightarrow> \<exists>res. value_at (lm (aw_Ledger w')) rk = Some res \<and> pr_State res = ReservationReserved"
    "r = Inr (Some p) \<Longrightarrow> \<exists>res. value_at (lm (aw_Ledger w')) rk = Some res \<and> pr_State res = ReservationApplied"
    by blast+
qed

text \<open>
  The three ways a call ends: nothing was applied, the request had been applied before, or it is
  applied now and then marked in the ledger.
\<close>

lemma ApplyProgress_cases:
  fixes w :: "('a, 'p, 'l, 'u, 'd, 'n) aworld"
  assumes "vs_contract am (=) (af_Activities cfg)" "vs_contract lm (=) (af_Ledger cfg)"
    and "vs_contract pm (=) (af_Participants cfg)"
    and "ApplyProgress cfg key pid rid d w = (r, w')"
  defines "rk \<equiv> \<lparr>rk_Activity = key, rk_ParticipantID = pid, rk_RequestID = rid\<rparr>"
    and "pk \<equiv> \<lparr>pk_Activity = key, pk_ParticipantID = pid\<rparr>"
  obtains (refused) e where "r = Inl e" "pm (aw_Participants w') = pm (aw_Participants w)"
  | (replayed) p where "r = Inr (p, None)" "pm (aw_Participants w') = pm (aw_Participants w)"
      "reserved_applied lm w' rk"
      "\<And>res. value_at (lm (aw_Ledger w)) rk = Some res \<Longrightarrow> value_at (lm (aw_Ledger w')) rk = Some res"
  | (run) now w1 r1 w2 where
      "pm (aw_Participants w1) = pm (aw_Participants w)"
      "\<exists>res. value_at (lm (aw_Ledger w1)) rk = Some res \<and> pr_State res = ReservationReserved"
      "\<And>res. value_at (lm (aw_Ledger w)) rk = Some res \<Longrightarrow> value_at (lm (aw_Ledger w1)) rk = Some res"
      "participantsUpdate cfg pk (apply_mutate key pid rid d (Unix now)) w1 = (r1, w2)"
      "case r1 of
         Inl e \<Rightarrow> r = Inl e \<and> w' = w2
       | Inr (calls, b) \<Rightarrow>
           (\<exists>x w3. markReservationApplied cfg rk (Unix now) w2 = (x, w3) \<and>
              aw_Participants w' = aw_Participants w3 \<and> aw_Ledger w' = aw_Ledger w3 \<and>
              r = Inr (result_of (apply_mutate key pid rid d (Unix now)) zero_participant (seen calls),
                       case x of Inl e \<Rightarrow> Some e | Inr _ \<Rightarrow> None))"
proof (cases "RequestKey_Validate rk \<noteq> None \<or> ProgressDelta_Validate d \<noteq> None")
  case True
  with assms(4) have "\<exists>e. r = Inl e \<and> w' = w"
    unfolding ApplyProgress_def Let_def rk_def [symmetric]
    by (cases "RequestKey_Validate rk"; cases "ProgressDelta_Validate d") (auto simp: guardE_def)
  with refused show thesis by auto
next
  case False
  with assms(4) have "bindE (LookupActivity cfg key) (\<lambda>found.
        case found of
          None \<Rightarrow> raiseE [ErrActMissing]
        | Some activity \<Rightarrow>
            if ac_Status activity = StatusComplete then raiseE [ErrActStatus]
            else bindE (nowE (af_Now cfg)) (\<lambda>now.
              bindE (reserve cfg rk d now) (\<lambda>replay.
                case replay of
                  Some current \<Rightarrow> retE (current, None)
                | None \<Rightarrow>
                    bindE (participantsUpdate cfg pk (apply_mutate key pid rid d (Unix now))) (\<lambda>(calls, applied).
                      bindE (tryE (markReservationApplied cfg rk (Unix now))) (\<lambda>r.
                        case r of
                          Inl e \<Rightarrow> retE (result_of (apply_mutate key pid rid d (Unix now)) zero_participant (seen calls), Some e)
                        | Inr _ \<Rightarrow> thenE (reportE (Accepted ''apply_progress''))
                                     (retE (result_of (apply_mutate key pid rid d (Unix now)) zero_participant (seen calls), None))))))) w
      = (r, w')"
    unfolding ApplyProgress_def Let_def rk_def [symmetric] pk_def [symmetric] by simp
  then show thesis
  proof (cases rule: bindE_cases)
    case (error e)
    from assms(1) error(1) show thesis
      by (cases rule: LookupActivity_cases) (use error(2) in \<open>auto intro: refused\<close>)
  next
    case (ok found w0)
    from assms(1) ok(1) have w0: "aw_Participants w0 = aw_Participants w" "aw_Ledger w0 = aw_Ledger w"
      by (cases rule: LookupActivity_cases; simp)+
    show thesis
    proof (cases "\<exists>a. found = Some a \<and> ac_Status a \<noteq> StatusComplete")
      case False
      with ok(2) w0 show thesis by (auto intro: refused split: option.splits if_splits)
    next
      case True
      define now where "now = af_Now cfg (env_ticks w0)"
      define wt where "wt = w0\<lparr>env_ticks := Suc (env_ticks w0)\<rparr>"
      have wt: "aw_Participants wt = aw_Participants w" "aw_Ledger wt = aw_Ledger w"
        by (simp_all add: wt_def w0)
      from True ok(2) have "bindE (reserve cfg rk d now) (\<lambda>replay.
                case replay of
                  Some current \<Rightarrow> retE (current, None)
                | None \<Rightarrow>
                    bindE (participantsUpdate cfg pk (apply_mutate key pid rid d (Unix now))) (\<lambda>(calls, applied).
                      bindE (tryE (markReservationApplied cfg rk (Unix now))) (\<lambda>r.
                        case r of
                          Inl e \<Rightarrow> retE (result_of (apply_mutate key pid rid d (Unix now)) zero_participant (seen calls), Some e)
                        | Inr _ \<Rightarrow> thenE (reportE (Accepted ''apply_progress''))
                                     (retE (result_of (apply_mutate key pid rid d (Unix now)) zero_participant (seen calls), None))))) wt
          = (r, w')"
        unfolding now_def wt_def by auto
      then show thesis
      proof (cases rule: bindE_cases)
        case (error e)
        with reserve_cases(1) [OF assms(2,3) error(1)] wt show thesis by (auto intro: refused)
      next
        case (ok replay w1)
        note res = reserve_cases [OF assms(2,3) ok(1)]
        show thesis
        proof (cases replay)
          case (Some p)
          with ok(2) res(1,2,4) wt show thesis by (intro replayed [of p]) auto
        next
          case None
          with ok(2) have "bindE (participantsUpdate cfg pk (apply_mutate key pid rid d (Unix now))) (\<lambda>(calls, applied).
                      bindE (tryE (markReservationApplied cfg rk (Unix now))) (\<lambda>r.
                        case r of
                          Inl e \<Rightarrow> retE (result_of (apply_mutate key pid rid d (Unix now)) zero_participant (seen calls), Some e)
                        | Inr _ \<Rightarrow> thenE (reportE (Accepted ''apply_progress''))
                                     (retE (result_of (apply_mutate key pid rid d (Unix now)) zero_participant (seen calls), None)))) w1
            = (r, w')" by simp
          then show thesis
          proof (cases rule: bindE_cases)
            case (error e)
            show thesis
              by (rule run [of w1 now "Inl e" w']) (use error res(1,2,3) None wt in auto)
          next
            case (ok a w2)
            obtain calls b where a: "a = (calls, b)" by fastforce
            from ok(2) a have "bindE (tryE (markReservationApplied cfg rk (Unix now))) (\<lambda>r.
                        case r of
                          Inl e \<Rightarrow> retE (result_of (apply_mutate key pid rid d (Unix now)) zero_participant (seen calls), Some e)
                        | Inr _ \<Rightarrow> thenE (reportE (Accepted ''apply_progress''))
                                     (retE (result_of (apply_mutate key pid rid d (Unix now)) zero_participant (seen calls), None))) w2
              = (r, w')" by simp
            then obtain x w3 where x: "markReservationApplied cfg rk (Unix now) w2 = (x, w3)"
              "(case x of
                  Inl e \<Rightarrow> retE (result_of (apply_mutate key pid rid d (Unix now)) zero_participant (seen calls), Some e)
                | Inr _ \<Rightarrow> thenE (reportE (Accepted ''apply_progress''))
                    (retE (result_of (apply_mutate key pid rid d (Unix now)) zero_participant (seen calls), None))) w3
                = (r, w')"
              by (cases rule: bindE_cases) (auto simp: tryE_iff)
            then have "\<exists>x w3. markReservationApplied cfg rk (Unix now) w2 = (x, w3) \<and>
              aw_Participants w' = aw_Participants w3 \<and> aw_Ledger w' = aw_Ledger w3 \<and>
              r = Inr (result_of (apply_mutate key pid rid d (Unix now)) zero_participant (seen calls),
                       case x of Inl e \<Rightarrow> Some e | Inr _ \<Rightarrow> None)"
              by (intro exI [of _ x] exI [of _ w3]) (cases x; auto)
            then show thesis
              by (intro run [of w1 now "Inr (calls, b)" w2]) (use ok(1) a res(1,2,3) None wt in auto)
          qed
        qed
      qed
    qed
  qed
qed

lemma mark_cases:
  assumes "vs_contract lm (=) (af_Ledger cfg)" "markReservationApplied cfg rk n w = (x, w')"
    and "\<exists>res. value_at (lm (aw_Ledger w)) rk = Some res"
  shows "aw_Participants w' = aw_Participants w" "x = Inr () \<Longrightarrow> reserved_applied lm w' rk"
proof -
  have "aw_Participants w' = aw_Participants w \<and> (x = Inr () \<longrightarrow> reserved_applied lm w' rk)"
    using assms(2) unfolding markReservationApplied_def
  proof (cases rule: bindE_cases)
    case (error e)
    from assms(1) error(1) show ?thesis
      by (cases rule: mutateE_outcomes) (use error(2) in auto)
  next
    case (ok a w1)
    obtain calls b where a: "a = (calls, b)" by fastforce
    from assms(1) ok(1) [unfolded a] show ?thesis
      by (cases rule: mutateE_outcomes)
        (use ok(2) assms(3) in \<open>auto simp: mark_mutate_def split: option.splits if_splits\<close>)
  qed
  then show "aw_Participants w' = aw_Participants w" "x = Inr () \<Longrightarrow> reserved_applied lm w' rk" by blast+
qed

lemma run_keeps_ledger:
  "participantsUpdate cfg pk f w = (r, w') \<Longrightarrow> aw_Ledger w' = aw_Ledger w"
  using stepsD [OF same_mutate [of aw_Ledger aw_Participants_update]] by (fastforce simp: same_def)

lemma applied_marks:
  assumes "vs_contract am (=) (af_Activities cfg)" "vs_contract lm (=) (af_Ledger cfg)"
    and "vs_contract pm (=) (af_Participants cfg)"
    and "ApplyProgress cfg key pid rid d w = (Inr (p, None), w')"
  shows "reserved_applied lm w' \<lparr>rk_Activity = key, rk_ParticipantID = pid, rk_RequestID = rid\<rparr>"
  using assms
proof (cases rule: ApplyProgress_cases)
  case (run now w1 r1 w2)
  obtain calls b where r1: "r1 = Inr (calls, b)" using run(5) by (cases r1) auto
  with run(5) obtain x w3 where x: "markReservationApplied cfg
      \<lparr>rk_Activity = key, rk_ParticipantID = pid, rk_RequestID = rid\<rparr> (Unix now) w2 = (x, w3)"
    "aw_Ledger w' = aw_Ledger w3" "(case x of Inl e \<Rightarrow> Some e | Inr _ \<Rightarrow> None) = None" by auto
  then have xi: "x = Inr ()" by (cases x) auto
  have "\<exists>res. value_at (lm (aw_Ledger w2)) \<lparr>rk_Activity = key, rk_ParticipantID = pid, rk_RequestID = rid\<rparr> = Some res"
    using run(2) run_keeps_ledger [OF run(4)] by auto
  from mark_cases(2) [OF assms(2) x(1) this xi] x(2) show ?thesis by simp
qed auto

lemma applied_is_done:
  assumes "vs_contract am (=) (af_Activities cfg)" "vs_contract lm (=) (af_Ledger cfg)"
    and "vs_contract pm (=) (af_Participants cfg)"
    and "ApplyProgress cfg key pid rid d w = (r, w')"
    and "reserved_applied lm w \<lparr>rk_Activity = key, rk_ParticipantID = pid, rk_RequestID = rid\<rparr>"
  shows "pm (aw_Participants w') = pm (aw_Participants w)"
  using assms(1-4)
proof (cases rule: ApplyProgress_cases)
  case (run now w1 r1 w2)
  from assms(5) run(2,3) show ?thesis by auto
qed auto

text \<open>
  The ring of applied request ids: after requests with distinct ids it holds the last 32 of them.
\<close>

definition request_mutate :: "ActKey \<Rightarrow> string \<Rightarrow> string \<times> ProgressDelta \<times> int \<Rightarrow> Participant mutate" where
  "request_mutate key pid = (\<lambda>(rid, d, n). apply_mutate key pid rid d n)"

lemma appendBounded_last:
  "appendBounded (drop (length xs - m) xs) x m = drop (length (xs @ [x]) - m) (xs @ [x])" if "0 < m"
  using that by (cases "length xs < m") (auto simp: appendBounded_def Let_def Suc_diff_le)

lemma ring_after:
  assumes "distinct (map fst ops)" "ops \<noteq> []"
  shows "\<exists>z. commits (request_mutate key pid) ops None = Some z \<and>
     pt_AppliedRequestIDs z = drop (length ops - MaxProgressWindow) (map fst ops)"
  using assms(2,1)
proof (induction ops rule: rev_nonempty_induct)
  case (single op)
  then show ?case
    by (cases op) (simp add: commit_def request_mutate_def apply_mutate_def apply_next_def Let_def
        appendBounded_def MaxProgressWindow_def)
next
  case (snoc op ops)
  then obtain z where z: "commits (request_mutate key pid) ops None = Some z"
    "pt_AppliedRequestIDs z = drop (length ops - MaxProgressWindow) (map fst ops)" by auto
  obtain rid d n where op: "op = (rid, d, n)" by (cases op)
  have "rid \<notin> set (map fst ops)" using snoc.prems op by auto
  then have "\<not> Applied z rid" by (auto simp: Applied_def z(2) dest: in_set_dropD)
  then have "request_mutate key pid op (Some z) = Save (apply_next key pid rid d n (Some z))"
    by (simp add: op request_mutate_def apply_mutate_def)
  then have "commits (request_mutate key pid) (ops @ [op]) None =
      Some (apply_next key pid rid d n (Some z))"
    by (simp add: z(1) commit_def)
  moreover have "pt_AppliedRequestIDs (apply_next key pid rid d n (Some z)) =
      drop (length (ops @ [op]) - MaxProgressWindow) (map fst (ops @ [op]))"
    using appendBounded_last [of MaxProgressWindow "map fst ops" rid]
    by (simp add: apply_next_def Let_def z(2) op MaxProgressWindow_def)
  ultimately show ?case by blast
qed

section \<open>Properties: progress\<close>

text \<open>C18: progress is counted once per request: when a request has been answered with success, every
  later delivery of the same request leaves the participants' records as they are, however much
  later it comes and whatever else happened, as long as the ledger still holds the request.\<close>

theorem progress_counted_once:
  assumes "vs_contract am (=) (af_Activities cfg)" "vs_contract lm (=) (af_Ledger cfg)"
    and "vs_contract pm (=) (af_Participants cfg)"
    and "ApplyProgress cfg key pid rid d w = (Inr (p, None), w1)"
    and "value_at (lm (aw_Ledger w2)) \<lparr>rk_Activity = key, rk_ParticipantID = pid, rk_RequestID = rid\<rparr> =
         value_at (lm (aw_Ledger w1)) \<lparr>rk_Activity = key, rk_ParticipantID = pid, rk_RequestID = rid\<rparr>"
    and "ApplyProgress cfg key pid rid d' w2 = (r, w3)"
  shows "pm (aw_Participants w3) = pm (aw_Participants w2)"
  using applied_is_done [OF assms(1-3,6)] applied_marks [OF assms(1-4)] assms(5) by simp

definition ex_delta :: ProgressDelta where "ex_delta = \<lparr>pd_Score = 5, pd_Progress = 1\<rparr>"

lemma ex_applied:
  "\<exists>p w1. ApplyProgress ex_acfg ex_key ''p1'' ''r1'' ex_delta ex_aworld = (Inr (p, None), w1)"
proof -
  have "RequestKey_Validate \<lparr>rk_Activity = ex_key, rk_ParticipantID = ''p1'', rk_RequestID = ''r1''\<rparr> = None"
    by (simp add: RequestKey_Validate_def ParticipantKey_Validate_def bound_defs)
  moreover have "ProgressDelta_Validate ex_delta = None" by (simp add: ProgressDelta_Validate_def ex_delta_def)
  ultimately show ?thesis
    by (simp add: ApplyProgress_def Let_def LookupActivity_def reserve_def markReservationApplied_def
        handler_simps ex_acfg_def ex_aworld_def mem_eval apply_mutate_def mark_mutate_def seen_def)
qed

theorem progress_counted_once_witness:
  "\<exists>p w1 r w3. ApplyProgress ex_acfg ex_key ''p1'' ''r1'' ex_delta ex_aworld = (Inr (p, None), w1) \<and>
     ApplyProgress ex_acfg ex_key ''p1'' ''r1'' ex_delta w1 = (r, w3) \<and>
     mem_map (aw_Participants w3) = mem_map (aw_Participants w1)"
proof -
  obtain p w1 where 1: "ApplyProgress ex_acfg ex_key ''p1'' ''r1'' ex_delta ex_aworld = (Inr (p, None), w1)"
    using ex_applied by blast
  obtain r w3 where 2: "ApplyProgress ex_acfg ex_key ''p1'' ''r1'' ex_delta w1 = (r, w3)" by fastforce
  from progress_counted_once [OF _ _ _ 1 _ 2, of mem_map mem_map mem_map] 1 2 show ?thesis by auto
qed

text \<open>The ring does not cover every redelivery. A caller applied a request and stopped before it
  marked the reservation; 32 other requests of the participant push the id out of the ring; the
  redelivery finds the reservation still merely reserved and its delta is added a second time,
  although the service's comment says no interleaving of a redelivery counts twice.\<close>

theorem redelivery_counts_twice:
  assumes "vs_contract am (=) (af_Activities cfg)" "vs_contract lm (=) (af_Ledger cfg)"
    and "vs_contract pm (=) (af_Participants cfg)"
    and "value_at (lm (aw_Ledger w)) \<lparr>rk_Activity = key, rk_ParticipantID = pid, rk_RequestID = rid\<rparr> = Some res"
    and "pr_State res = ReservationReserved"
    and "distinct (rid # map fst others)" "length others = MaxProgressWindow"
    and "value_at (pm (aw_Participants w)) \<lparr>pk_Activity = key, pk_ParticipantID = pid\<rparr> = Some z"
    and "commits (request_mutate key pid) ((rid, d, n) # others) None = Some z"
    and "ApplyProgress cfg key pid rid d w = (Inr (p, err), w')"
  shows "pt_Score p = i64 (pt_Score z + pd_Score d) \<and> pt_Progress p = i64 (pt_Progress z + pd_Progress d) \<and>
         value_at (pm (aw_Participants w')) \<lparr>pk_Activity = key, pk_ParticipantID = pid\<rparr> = Some p"
  using assms(1-3,10)
proof (cases rule: ApplyProgress_cases)
  case (replayed q)
  from replayed(3) replayed(4) [OF assms(4)] assms(5) show ?thesis by auto
next
  case (run now w1 r1 w2)
  have "pt_AppliedRequestIDs z = map fst others"
    using ring_after [of "(rid, d, n) # others" key pid] assms(6,7,9) by simp
  then have fresh: "\<not> Applied z rid" using assms(6) by (auto simp: Applied_def)
  obtain calls b where r1: "r1 = Inr (calls, b)" using run(5) by (cases r1) auto
  with run(5) obtain x w3 where x: "markReservationApplied cfg
      \<lparr>rk_Activity = key, rk_ParticipantID = pid, rk_RequestID = rid\<rparr> (Unix now) w2 = (x, w3)"
    "aw_Participants w' = aw_Participants w3"
    "p = result_of (apply_mutate key pid rid d (Unix now)) zero_participant (seen calls)" by auto
  have "\<exists>res. value_at (lm (aw_Ledger w2)) \<lparr>rk_Activity = key, rk_ParticipantID = pid, rk_RequestID = rid\<rparr> = Some res"
    using run(2) run_keeps_ledger [OF run(4)] by auto
  with mark_cases(1) [OF assms(2) x(1)] x(2) have w': "aw_Participants w' = aw_Participants w2" by simp
  from assms(3) run(4) [unfolded r1] show ?thesis
  proof (cases rule: mutateE_outcomes)
    case (kept calls' c x' evs)
    with fresh run(1) assms(8) show ?thesis by (simp add: apply_mutate_def)
  next
    case (saved v calls' c x' evs)
    then have v: "v = apply_next key pid rid d (Unix now) (Some z)" "seen calls = Some z"
      using fresh run(1) assms(8) by (simp_all add: apply_mutate_def)
    then have "p = v" using x(3) fresh by (simp add: result_of_def apply_mutate_def)
    then show ?thesis using saved v w' by (simp add: apply_next_def Let_def)
  qed auto
qed auto

definition ex_others :: "(string \<times> ProgressDelta \<times> int) list" where
  "ex_others = map (\<lambda>i. (replicate i (CHR ''a''), ex_delta, 0)) [0 ..< 32]"

lemma ex_others_distinct: "distinct (''r1'' # map fst ex_others)" "length ex_others = MaxProgressWindow"
proof -
  have "''r1'' \<noteq> replicate i (CHR ''a'')" for i
    by (cases i) auto
  moreover have "inj_on (\<lambda>i. replicate i (CHR ''a'')) S" for S
    by (rule inj_onI) (metis length_replicate)
  ultimately show "distinct (''r1'' # map fst ex_others)"
    by (auto simp: ex_others_def distinct_map comp_def)
  show "length ex_others = MaxProgressWindow" by (simp add: ex_others_def MaxProgressWindow_def)
qed

definition ex_pushed :: Participant where
  "ex_pushed = the (commits (request_mutate ex_key ''p1'') ((''r1'', ex_delta, 0) # ex_others) None)"

lemma ex_pushed:
  "commits (request_mutate ex_key ''p1'') ((''r1'', ex_delta, 0) # ex_others) None = Some ex_pushed"
  "\<not> Applied ex_pushed ''r1''"
proof -
  have "distinct (map fst ((''r1'', ex_delta, 0) # ex_others))" using ex_others_distinct(1) by simp
  from ring_after [OF this, of ex_key "''p1''"] obtain z where
    z: "commits (request_mutate ex_key ''p1'') ((''r1'', ex_delta, 0) # ex_others) None = Some z"
      "pt_AppliedRequestIDs z = map fst ex_others"
    using ex_others_distinct(2) by auto
  then have "ex_pushed = z" by (simp add: ex_pushed_def)
  with z show "commits (request_mutate ex_key ''p1'') ((''r1'', ex_delta, 0) # ex_others) None = Some ex_pushed"
    "\<not> Applied ex_pushed ''r1''" using ex_others_distinct(1) by (auto simp: Applied_def)
qed

definition ex_crashed ::
  "((ActKey, Activity) mem, (ParticipantKey, Participant) mem, (RequestKey, ProgressReservation) mem,
    (ActKey, NotifyAuditLog) mem, (DispatchKey, Dispatch) mem, (string, Window) mem) aworld" where
  "ex_crashed = ex_aworld
     \<lparr>aw_Participants := mem_of [(\<lparr>pk_Activity = ex_key, pk_ParticipantID = ''p1''\<rparr>, ex_pushed)],
      aw_Ledger := mem_of [(\<lparr>rk_Activity = ex_key, rk_ParticipantID = ''p1'', rk_RequestID = ''r1''\<rparr>,
        \<lparr>pr_Key = \<lparr>rk_Activity = ex_key, rk_ParticipantID = ''p1'', rk_RequestID = ''r1''\<rparr>,
         pr_Delta = ex_delta, pr_State = ReservationReserved, pr_CreatedAtUnix = 90, pr_AppliedAtUnix = 0,
         pr_ExpiresAtUnix = 2000\<rparr>)]\<rparr>"

theorem redelivery_counts_twice_witness:
  "\<exists>p err w'. ApplyProgress ex_acfg ex_key ''p1'' ''r1'' ex_delta ex_crashed = (Inr (p, err), w') \<and>
     pt_Score p = i64 (pt_Score ex_pushed + 5)"
proof -
  have "RequestKey_Validate \<lparr>rk_Activity = ex_key, rk_ParticipantID = ''p1'', rk_RequestID = ''r1''\<rparr> = None"
    by (simp add: RequestKey_Validate_def ParticipantKey_Validate_def bound_defs)
  moreover have "ProgressDelta_Validate ex_delta = None" by (simp add: ProgressDelta_Validate_def ex_delta_def)
  ultimately have "\<exists>p err w'. ApplyProgress ex_acfg ex_key ''p1'' ''r1'' ex_delta ex_crashed = (Inr (p, err), w')"
    using ex_pushed(2)
    by (simp add: ApplyProgress_def Let_def LookupActivity_def reserve_def markReservationApplied_def
        handler_simps ex_acfg_def ex_crashed_def ex_aworld_def mem_eval apply_mutate_def mark_mutate_def seen_def)
  then obtain p err w' where
    r: "ApplyProgress ex_acfg ex_key ''p1'' ''r1'' ex_delta ex_crashed = (Inr (p, err), w')" by blast
  from redelivery_counts_twice [OF _ _ _ _ _ ex_others_distinct _ ex_pushed(1) r, of mem_map mem_map mem_map]
  have "pt_Score p = i64 (pt_Score ex_pushed + 5)"
    by (simp add: ex_crashed_def mem_of_def value_at_def ex_delta_def)
  with r show ?thesis by blast
qed

section \<open>Properties: the window\<close>

text \<open>The pending window can be pushed past its bound. A sweep reclaims the slot of an opening
  that took longer than its grace, another opening takes the slot, and the slow opening confirms
  itself without looking at the bound: a window one short of full ends one over it.\<close>

theorem window_overruns:
  assumes "window_pending w + 1 = MaxPendingActivities" "window_ok w" "wn_GroupID w = ak_GroupID A"
    and "\<not> window_contains w A" "\<not> window_contains w B" "A \<noteq> B" "ak_GroupID B = ak_GroupID A"
    and "commits window_mutate [AdmitOp A n, RetireOp [] [] [A], AdmitOp B m, ConfirmOp A] (Some w) = Some v"
  shows "window_pending v = MaxPendingActivities + 1"
proof -
  define a where "a = \<lparr>oe_Key = A, oe_AdmittedAtUnix = n\<rparr>"
  define b where "b = \<lparr>oe_Key = B, oe_AdmittedAtUnix = m\<rparr>"
  have g: "w\<lparr>wn_GroupID := ak_GroupID A\<rparr> = w" using assms(3) by simp
  have nin: "A \<notin> set (wn_Keys w)" "A \<notin> oe_Key ` set (wn_Opening w)"
    "B \<notin> set (wn_Keys w)" "B \<notin> oe_Key ` set (wn_Opening w)"
    using assms(4,5) by (auto simp: window_contains_iff)
  have s1: "admit_mutate A n (Some w) = Save (w\<lparr>wn_Opening := wn_Opening w @ [a]\<rparr>)"
    using assms(1,4) g by (simp add: admit_mutate_def window_of_def Let_def a_def)
  have f: "filter (\<lambda>e. oe_Key e \<noteq> A) (wn_Opening w) = wn_Opening w" "filter (\<lambda>key. True) (wn_Keys w) = wn_Keys w"
    using nin(2) by (auto intro: filter_True)
  have s2: "retire_mutate [] [] [A] (Some (w\<lparr>wn_Opening := wn_Opening w @ [a]\<rparr>)) = Save w"
    using f by (simp add: retire_mutate_def retire_changed_def retire_next_def add_delivering_def a_def)
  have s3: "admit_mutate B m (Some w) = Save (w\<lparr>wn_Opening := wn_Opening w @ [b]\<rparr>)"
    using assms(1,5,7) g by (simp add: admit_mutate_def window_of_def Let_def b_def)
  have g2: "w\<lparr>wn_Opening := wn_Opening w @ [b], wn_GroupID := ak_GroupID A\<rparr> =
      w\<lparr>wn_Opening := wn_Opening w @ [b]\<rparr>"
    using assms(3) by (cases w) simp
  have n4: "openingIndex (w\<lparr>wn_Opening := wn_Opening w @ [b]\<rparr>) A = None"
    using nin(2) assms(6) by (simp add: openingIndex_None b_def)
  have s4: "confirm_mutate A (Some (w\<lparr>wn_Opening := wn_Opening w @ [b]\<rparr>)) =
      Save (w\<lparr>wn_Opening := wn_Opening w @ [b], wn_Keys := wn_Keys w @ [A]\<rparr>)"
    using n4 nin(1) g2 by (simp add: confirm_mutate_def confirm_next_def window_of_def Let_def)
  from assms(8) have "v = w\<lparr>wn_Opening := wn_Opening w @ [b], wn_Keys := wn_Keys w @ [A]\<rparr>"
    by (simp add: commit_def s1 s2 s3 s4)
  with assms(1) show ?thesis by (simp add: window_pending_def)
qed

definition ex_nth_key :: "nat \<Rightarrow> ActKey" where
  "ex_nth_key i = \<lparr>ak_GroupID = ''eu'', ak_ActivityID = replicate i (CHR ''a''), ak_Phase = ''close''\<rparr>"

lemma ex_nth_key_inj: "ex_nth_key i = ex_nth_key j \<longleftrightarrow> i = j"
  by (auto simp: ex_nth_key_def)

theorem window_overruns_witness:
  "\<exists>v. commits window_mutate
       [AdmitOp (ex_nth_key 300) 5, RetireOp [] [] [ex_nth_key 300], AdmitOp (ex_nth_key 301) 70,
        ConfirmOp (ex_nth_key 300)]
       (Some ((empty_window ''eu'')\<lparr>wn_Keys := map ex_nth_key [0 ..< 255]\<rparr>)) = Some v \<and>
     window_pending v = 257"
proof -
  define ops where "ops = [AdmitOp (ex_nth_key 300) 5, RetireOp [] [] [ex_nth_key 300],
      AdmitOp (ex_nth_key 301) 70, ConfirmOp (ex_nth_key 300)]"
  define w where "w = (empty_window ''eu'')\<lparr>wn_Keys := map ex_nth_key [0 ..< 255]\<rparr>"
  obtain v where v: "commits window_mutate ops (Some w) = Some v"
    using commits_Some [of window_mutate ops w] by blast
  have fields: "wn_Keys w = map ex_nth_key [0 ..< 255]" "wn_Opening w = []" "wn_Delivering w = []"
    "wn_GroupID w = ''eu''" by (simp_all add: w_def empty_window_def)
  have "window_pending v = MaxPendingActivities + 1"
  proof (rule window_overruns [OF _ _ _ _ _ _ _ v [unfolded ops_def]])
    show "window_pending w + 1 = MaxPendingActivities"
      by (simp add: window_pending_def fields MaxPendingActivities_def)
    show "window_ok w" by (simp add: window_ok_def fields distinct_map inj_on_def ex_nth_key_inj)
    show "\<not> window_contains w (ex_nth_key 300)" "\<not> window_contains w (ex_nth_key 301)"
      by (auto simp: window_contains_iff fields ex_nth_key_inj)
  qed (simp_all add: fields ex_nth_key_inj, simp_all add: ex_nth_key_def)
  with v show ?thesis unfolding ops_def w_def by (auto simp: MaxPendingActivities_def)
qed

section \<open>Properties: the rotation of the delivering activities\<close>








end
