(* ===== verification/Platform.thy ===== *)
theory Platform
  imports VersionStore
begin

text \<open>
  Package \<open>service/platform\<close> (\<open>types.go\<close>, \<open>identity.go\<close>, \<open>service.go\<close>, \<open>admin.go\<close>,
  \<open>redis_store.go\<close>, \<open>server_run.go\<close>): sessions for identities a channel verified, and paid orders:
  recorded once per order id, delivered by claimed attempts under a budget and a backoff, retried
  from an index, and reopened or settled by an operator. What the deployment supplies (verifier,
  player resolver, deliverer, pending index), the signing functions of \<open>security\<close>, SHA-256 and the
  JSON decoder are parameters; the collaborators share a state of their own.
\<close>

section \<open>Errors and bounds (types.go)\<close>

abbreviation "ErrPlatRequestInvalid \<equiv> Coded 600101"
abbreviation "ErrSignatureInvalid \<equiv> Coded 600102"
abbreviation "ErrIdentityDenied \<equiv> Coded 600103"
abbreviation "ErrVerifierDown \<equiv> Coded 600104"
abbreviation "ErrOrderInvalid \<equiv> Coded 600105"
abbreviation "ErrOrderMismatch \<equiv> Coded 600106"
abbreviation "ErrDeliveryHeld \<equiv> Coded 600107"
abbreviation "ErrDeliveryFailed \<equiv> Coded 600108"
abbreviation "ErrDeliveryExpired \<equiv> Coded 600109"
abbreviation "ErrPlatConflict \<equiv> Coded 600110"
abbreviation "ErrPlatNotResolvable \<equiv> Coded 600111"
abbreviation "ErrPlatAdminNoteRequired \<equiv> Coded 600112"
abbreviation "ErrOrderSettled \<equiv> Coded 600113"

definition PlatformError :: "(gerr \<Rightarrow> int \<times> string) \<Rightarrow> gerr option \<Rightarrow> int \<times> string" where
  "PlatformError clientError err =
     (case err of None \<Rightarrow> (0, [])
      | Some e \<Rightarrow> if Is e StoreConflict then clientError [ErrPlatConflict] else clientError e)"

definition PlatformCode :: "(gerr \<Rightarrow> int \<times> string) \<Rightarrow> gerr option \<Rightarrow> int" where
  "PlatformCode clientError err = fst (PlatformError clientError err)"

definition MaxPayloadBytes :: nat where [bound_defs]: "MaxPayloadBytes = 16 * 1024"
definition MaxProductIDBytes :: nat where [bound_defs]: "MaxProductIDBytes = 128"
definition MaxOrderIDBytes :: nat where [bound_defs]: "MaxOrderIDBytes = 128"
definition MaxOpenIDBytes :: nat where [bound_defs]: "MaxOpenIDBytes = 256"
definition MaxDeliveryAttempts :: int where [bound_defs]: "MaxDeliveryAttempts = 8"

section \<open>Orders\<close>

datatype delivery_state = DeliveryReserved | DeliveryDelivered | DeliveryExhausted | DeliverySettled

record Order =
  od_OrderID :: string
  od_PlayerID :: int
  od_Channel :: string
  od_ProductID :: string
  od_AmountMinor :: int
  od_Currency :: string
  od_PayloadDigest :: string
  od_State :: delivery_state
  od_Attempts :: int
  od_MaxAttempts :: int
  od_NextAttemptAtUnix :: int
  od_LastError :: string
  od_PaidAtUnix :: int
  od_CreatedAtUnix :: int
  od_DeliveredAtUnix :: int
  od_UpdatedAtUnix :: int
  od_Reopens :: int
  od_AdminNote :: string
  od_AdminActionAtUnix :: int

definition Terminal :: "Order \<Rightarrow> bool" where
  "Terminal o' \<longleftrightarrow> od_State o' = DeliveryDelivered \<or> od_State o' = DeliveryExhausted \<or> od_State o' = DeliverySettled"

definition order_Due :: "Order \<Rightarrow> int \<Rightarrow> bool" where
  "order_Due o' nowUnix =
     (if Terminal o' then False
      else od_NextAttemptAtUnix o' = 0 \<or> nowUnix \<ge> od_NextAttemptAtUnix o')"

definition Order_Validate :: "Order \<Rightarrow> gerr option" where
  "Order_Validate o' =
     (if blank (od_OrderID o') then Some [ErrOrderInvalid]
      else if length (od_OrderID o') > MaxOrderIDBytes then Some [ErrOrderInvalid]
      else if od_PlayerID o' \<le> 0 then Some [ErrOrderInvalid]
      else if blank (od_ProductID o') then Some [ErrOrderInvalid]
      else if length (od_ProductID o') > MaxProductIDBytes then Some [ErrOrderInvalid]
      else if od_AmountMinor o' \<le> 0 then Some [ErrOrderInvalid]
      else if od_MaxAttempts o' \<le> 0 then Some [ErrOrderInvalid]
      else None)"

section \<open>Identities (identity.go)\<close>

record Credential =
  cr_Channel :: string
  cr_OpenID :: string
  cr_Secret :: string

definition Credential_Validate :: "Credential \<Rightarrow> gerr option" where
  "Credential_Validate c =
     (if blank (cr_Channel c) then Some [ErrPlatRequestInvalid]
      else if blank (cr_OpenID c) then Some [ErrPlatRequestInvalid]
      else if length (cr_OpenID c) > MaxOpenIDBytes then Some [ErrPlatRequestInvalid]
      else if blank (cr_Secret c) then Some [ErrPlatRequestInvalid]
      else None)"

record Verified =
  vf_Channel :: string
  vf_OpenID :: string

definition Verified_Validate :: "Verified \<Rightarrow> gerr option" where
  "Verified_Validate v =
     (if blank (vf_Channel v) then Some [ErrIdentityDenied]
      else if blank (vf_OpenID v) then Some [ErrIdentityDenied]
      else None)"

section \<open>Configuration and state (service.go)\<close>

record callbackPayload =
  cp_OrderID :: string
  cp_PlayerID :: int
  cp_Channel :: string
  cp_ProductID :: string
  cp_AmountMinor :: int
  cp_Currency :: string
  cp_PaidAtUnix :: int

text \<open>
  The pending index; \<open>RetirePending\<close> and \<open>DeferPending\<close> are there when the source also implements
  \<open>PendingRetirer\<close> and \<open>PendingDeferrer\<close>. A deliverer's error comes with its text.
\<close>

record 'o PendingSource =
  ps_PendingOrders :: "int \<Rightarrow> 'o \<Rightarrow> (gerr + string list) \<times> 'o"
  ps_RetirePending :: "(string \<Rightarrow> 'o \<Rightarrow> gerr option \<times> 'o) option"
  ps_DeferPending :: "(string \<Rightarrow> time \<Rightarrow> 'o \<Rightarrow> gerr option \<times> 'o) option"

record ('x, 'o) PlatformConfig =
  pf_Orders :: "('x, string, Order) vstore"
  pf_Pending :: "'o PendingSource option"
  pf_Deliver :: "Order \<Rightarrow> 'o \<Rightarrow> (gerr \<times> string) option \<times> 'o"
  pf_Verify :: "Credential \<Rightarrow> 'o \<Rightarrow> (gerr + Verified) \<times> 'o"
  pf_Resolve :: "Verified \<Rightarrow> 'o \<Rightarrow> (gerr + int) \<times> 'o"
  pf_SessionSecret :: string
  pf_SessionTTL :: duration
  pf_PaymentSecret :: string
  pf_DeliveryAttempts :: int
  pf_DeliveryBackoff :: duration
  pf_Now :: "nat \<Rightarrow> time"
  pf_SignSessionToken :: "int \<Rightarrow> string \<Rightarrow> duration \<Rightarrow> time \<Rightarrow> gerr + string"
  pf_VerifySessionToken :: "string \<Rightarrow> string \<Rightarrow> int \<Rightarrow> time \<Rightarrow> gerr option"
  pf_VerifyPayloadSignature :: "string \<Rightarrow> string \<Rightarrow> string \<Rightarrow> bool"
  pf_Sha256Hex :: "string \<Rightarrow> string"
  pf_Unmarshal :: "string \<Rightarrow> callbackPayload option"

record ('x, 'o) pworld = env +
  pw_Orders :: 'x
  pw_Outside :: 'o

definition RetryBatch :: int where "RetryBatch = 128"
definition DefaultSessionTTL :: duration where "DefaultSessionTTL = 30 * Minute"
definition DefaultDeliveryBackoff :: duration where "DefaultDeliveryBackoff = 5 * Second"
definition plat_maxBackoffMultiplier :: int where "plat_maxBackoffMultiplier = 8"

text \<open>
  \<open>New\<close>: what is missing is collected and refused together. \<open>cfg\<close> carries the values that are
  present; the flags say which collaborators are.
\<close>

definition platform_missing ::
  "bool \<Rightarrow> bool \<Rightarrow> bool \<Rightarrow> bool \<Rightarrow> ('x, 'o) PlatformConfig \<Rightarrow> string list" where
  "platform_missing hasOrders hasDeliver hasVerifier hasPlayers cfg =
     (if hasOrders then [] else [''order store'']) @
     (if hasDeliver then [] else [''deliverer'']) @
     (if hasVerifier then [] else [''identity verifier'']) @
     (if hasPlayers then [] else [''player resolver'']) @
     (if blank (pf_SessionSecret cfg) then [''session secret''] else []) @
     (if blank (pf_PaymentSecret cfg) then [''payment secret''] else [])"

definition PlatformNew ::
  "bool \<Rightarrow> bool \<Rightarrow> bool \<Rightarrow> bool \<Rightarrow> (nat \<Rightarrow> time) option \<Rightarrow> (nat \<Rightarrow> time) \<Rightarrow> ('x, 'o) PlatformConfig \<Rightarrow>
   gerr + ('x, 'o) PlatformConfig" where
  "PlatformNew hasOrders hasDeliver hasVerifier hasPlayers now systemNow cfg =
     (if platform_missing hasOrders hasDeliver hasVerifier hasPlayers cfg \<noteq> []
      then Inl [Foreign ''platform: incomplete configuration'']
      else if pf_DeliveryAttempts cfg < 0 then Inl [Foreign ''platform: delivery attempts must not be negative'']
      else if pf_DeliveryBackoff cfg < 0 then Inl [Foreign ''platform: delivery backoff must not be negative'']
      else Inr (cfg\<lparr>pf_SessionTTL := (if pf_SessionTTL cfg \<le> 0 then DefaultSessionTTL else pf_SessionTTL cfg),
                    pf_DeliveryAttempts := (if pf_DeliveryAttempts cfg = 0 then MaxDeliveryAttempts
                                            else pf_DeliveryAttempts cfg),
                    pf_DeliveryBackoff := (if pf_DeliveryBackoff cfg = 0 then DefaultDeliveryBackoff
                                           else pf_DeliveryBackoff cfg),
                    pf_Now := (case now of None \<Rightarrow> systemNow | Some n \<Rightarrow> n)\<rparr>))"

abbreviation "ordersGet cfg \<equiv> getE pw_Orders pw_Orders_update (pf_Orders cfg)"
abbreviation "ordersCreate cfg \<equiv> createE pw_Orders pw_Orders_update (pf_Orders cfg)"
abbreviation "ordersUpdate cfg k f \<equiv> mutateE pw_Orders pw_Orders_update (pf_Orders cfg) k (\<lambda>_. []) f"

definition outsideE :: "('o \<Rightarrow> 'a \<times> 'o) \<Rightarrow> (('x, 'o) pworld, 'a) handler" where
  "outsideE f = (\<lambda>w. case f (pw_Outside w) of (a, o') \<Rightarrow> (Inr a, w\<lparr>pw_Outside := o'\<rparr>))"

section \<open>Sessions\<close>

record Session =
  ss_PlayerID :: int
  ss_Channel :: string
  ss_Token :: string
  ss_ExpiresAtUnix :: int

definition AuthSession ::
  "('x, 'o) PlatformConfig \<Rightarrow> Credential \<Rightarrow> (('x, 'o) pworld, Session) handler" where
  "AuthSession cfg credential =
     thenE (guardE (Credential_Validate credential))
    (bindE (outsideE (pf_Verify cfg credential)) (\<lambda>answer.
       case answer of
         Inl err \<Rightarrow>
           if Is err ErrVerifierDown
           then thenE (reportE (Refused ''auth_session'' ''verifier_down'')) (raiseE err)
           else thenE (reportE (Refused ''auth_session'' ''denied'')) (raiseE [ErrIdentityDenied])
       | Inr verified \<Rightarrow>
           thenE (guardE (Verified_Validate verified))
          (if vf_Channel verified \<noteq> cr_Channel credential
           then thenE (reportE (Refused ''auth_session'' ''channel_mismatch'')) (raiseE [ErrIdentityDenied])
           else bindE (outsideE (pf_Resolve cfg verified)) (\<lambda>resolved.
                  case resolved of
                    Inl err \<Rightarrow> raiseE err
                  | Inr playerID \<Rightarrow>
                      if playerID \<le> 0
                      then raiseE [Foreign ''platform: player resolver returned a non-positive id'']
                      else bindE (nowE (pf_Now cfg)) (\<lambda>now.
                        case pf_SignSessionToken cfg playerID (pf_SessionSecret cfg) (pf_SessionTTL cfg) now of
                          Inl err \<Rightarrow> raiseE err
                        | Inr token \<Rightarrow>
                            thenE (reportE (Accepted ''auth_session''))
                              (retE \<lparr>ss_PlayerID = playerID, ss_Channel = vf_Channel verified, ss_Token = token,
                                    ss_ExpiresAtUnix = Unix (Add now (pf_SessionTTL cfg))\<rparr>))))))"

definition plat_ValidateSession ::
  "('x, 'o) PlatformConfig \<Rightarrow> int \<Rightarrow> string \<Rightarrow> (('x, 'o) pworld, unit) handler" where
  "plat_ValidateSession cfg playerID token =
     bindE (nowE (pf_Now cfg)) (\<lambda>now.
       case pf_VerifySessionToken cfg token (pf_SessionSecret cfg) playerID now of
         None \<Rightarrow> retE ()
       | Some err \<Rightarrow> thenE (reportE (Refused ''validate_session'' ''bad_token'')) (raiseE err))"

section \<open>Delivery\<close>

record Receipt =
  rc_Order :: Order
  rc_Replayed :: bool
  rc_Delivered :: bool

definition receipt :: "Order \<Rightarrow> bool \<Rightarrow> bool \<Rightarrow> Receipt" where
  "receipt o' replayed delivered = \<lparr>rc_Order = o', rc_Replayed = replayed, rc_Delivered = delivered\<rparr>"

definition backoff :: "duration \<Rightarrow> int \<Rightarrow> duration" where
  "backoff base attempt =
     (let a = (if attempt < 1 then 1 else attempt);
          multiplier = (if a > plat_maxBackoffMultiplier then plat_maxBackoffMultiplier else a)
      in base * multiplier)"

definition plat_truncate :: "string \<Rightarrow> nat \<Rightarrow> string" where
  "plat_truncate s limit = (if length s \<le> limit then s else take limit s)"

text \<open>The claim of an attempt, with every decision that gates it.\<close>

definition claim_next :: "duration \<Rightarrow> time \<Rightarrow> Order \<Rightarrow> Order" where
  "claim_next base now current =
     (let n = i32 (od_Attempts current + 1) in
      current\<lparr>od_Attempts := n, od_NextAttemptAtUnix := Unix (Add now (backoff base n)),
              od_UpdatedAtUnix := Unix now\<rparr>)"

definition expire_order :: "int \<Rightarrow> Order \<Rightarrow> Order" where
  "expire_order nowUnix current =
     current\<lparr>od_State := DeliveryExhausted, od_NextAttemptAtUnix := 0, od_UpdatedAtUnix := nowUnix\<rparr>"

definition claim_mutate :: "duration \<Rightarrow> time \<Rightarrow> Order mutate" where
  "claim_mutate base now cur =
     (case cur of
        None \<Rightarrow> Fail [ErrOrderInvalid]
      | Some current \<Rightarrow>
          if od_State current = DeliveryDelivered then Keep
          else if od_State current = DeliveryExhausted then Keep
          else if od_State current = DeliverySettled then Keep
          else if \<not> order_Due current (Unix now) then Keep
          else if od_Attempts current \<ge> od_MaxAttempts current then Save (expire_order (Unix now) current)
          else Save (claim_next base now current))"

datatype claim_outcome = AlreadyDelivered | AlreadyExhausted | JustExhausted | IsSettled | IsHeld | Claimed

definition claim_result :: "time \<Rightarrow> Order option \<Rightarrow> claim_outcome" where
  "claim_result now cur =
     (case cur of
        None \<Rightarrow> Claimed
      | Some current \<Rightarrow>
          if od_State current = DeliveryDelivered then AlreadyDelivered
          else if od_State current = DeliveryExhausted then AlreadyExhausted
          else if od_State current = DeliverySettled then IsSettled
          else if \<not> order_Due current (Unix now) then IsHeld
          else if od_Attempts current \<ge> od_MaxAttempts current then JustExhausted
          else Claimed)"

definition done_mutate :: "int \<Rightarrow> Order mutate" where
  "done_mutate nowUnix cur =
     (case cur of
        None \<Rightarrow> Fail [ErrPlatConflict]
      | Some current \<Rightarrow>
          if od_State current = DeliveryDelivered then Keep
          else Save (current\<lparr>od_State := DeliveryDelivered, od_DeliveredAtUnix := nowUnix,
                             od_UpdatedAtUnix := nowUnix, od_NextAttemptAtUnix := 0, od_LastError := []\<rparr>))"

definition failure_next :: "string \<Rightarrow> int \<Rightarrow> Order \<Rightarrow> Order" where
  "failure_next cause nowUnix current =
     (let c = current\<lparr>od_LastError := plat_truncate cause 512, od_UpdatedAtUnix := nowUnix\<rparr> in
      if od_Attempts c \<ge> od_MaxAttempts c
      then c\<lparr>od_State := DeliveryExhausted, od_NextAttemptAtUnix := 0\<rparr> else c)"

definition failure_mutate :: "string \<Rightarrow> int \<Rightarrow> Order mutate" where
  "failure_mutate cause nowUnix cur =
     (case cur of
        None \<Rightarrow> Fail [ErrPlatConflict]
      | Some current \<Rightarrow>
          if od_State current = DeliveryDelivered then Keep
          else Save (failure_next cause nowUnix current))"

definition zero_order :: Order where
  "zero_order = \<lparr>od_OrderID = [], od_PlayerID = 0, od_Channel = [], od_ProductID = [], od_AmountMinor = 0,
     od_Currency = [], od_PayloadDigest = [], od_State = DeliveryReserved, od_Attempts = 0, od_MaxAttempts = 0,
     od_NextAttemptAtUnix = 0, od_LastError = [], od_PaidAtUnix = 0, od_CreatedAtUnix = 0, od_DeliveredAtUnix = 0,
     od_UpdatedAtUnix = 0, od_Reopens = 0, od_AdminNote = [], od_AdminActionAtUnix = 0\<rparr>"

definition recordFailure ::
  "('x, 'o) PlatformConfig \<Rightarrow> string \<Rightarrow> string \<Rightarrow> int \<Rightarrow> (('x, 'o) pworld, Order) handler" where
  "recordFailure cfg orderID cause nowUnix =
     bindE (ordersUpdate cfg orderID (failure_mutate cause nowUnix)) (\<lambda>(calls, applied).
       retE (result_of (failure_mutate cause nowUnix) zero_order (seen calls)))"

text \<open>What came of an attempt, recorded; then the attempt once it is claimed.\<close>

definition record_delivery ::
  "('x, 'o) PlatformConfig \<Rightarrow> string \<Rightarrow> int \<Rightarrow> (gerr \<times> string) option \<Rightarrow>
   (('x, 'o) pworld, Receipt \<times> gerr option) handler" where
  "record_delivery cfg orderID nowUnix deliverErr =
     (case deliverErr of
        Some (e, cause) \<Rightarrow>
          bindE (recordFailure cfg orderID cause nowUnix) (\<lambda>failed.
            if od_State failed = DeliveryExhausted
            then thenE (reportE (Dropped ''order.exhausted'' 1))
                   (retE (receipt failed False False, Some (ErrDeliveryExpired # e)))
            else thenE (reportE (Refused ''deliver'' ''failed''))
                   (retE (receipt failed False False, Some (ErrDeliveryFailed # e))))
      | None \<Rightarrow>
          bindE (ordersUpdate cfg orderID (done_mutate nowUnix)) (\<lambda>(calls, applied).
            let result = result_of (done_mutate nowUnix) zero_order (seen calls) in
            if done_mutate nowUnix (seen calls) = Keep
            then thenE (reportE (Conflict ''deliver'')) (retE (receipt result True True, None))
            else thenE (reportE (Accepted ''deliver'')) (retE (receipt result False True, None))))"

definition deliver_claimed ::
  "('x, 'o) PlatformConfig \<Rightarrow> string \<Rightarrow> int \<Rightarrow> Order \<Rightarrow> (('x, 'o) pworld, Receipt \<times> gerr option) handler" where
  "deliver_claimed cfg orderID nowUnix claimed =
     bindE (outsideE (pf_Deliver cfg claimed)) (record_delivery cfg orderID nowUnix)"

definition AttemptDelivery ::
  "('x, 'o) PlatformConfig \<Rightarrow> string \<Rightarrow> (('x, 'o) pworld, Receipt \<times> gerr option) handler" where
  "AttemptDelivery cfg orderID =
     (if blank orderID then raiseE [ErrPlatRequestInvalid]
      else bindE (nowE (pf_Now cfg)) (\<lambda>now.
        let f = claim_mutate (pf_DeliveryBackoff cfg) now in
        bindE (ordersUpdate cfg orderID f) (\<lambda>(calls, applied).
          let claimed = result_of f zero_order (seen calls) in
          case claim_result now (seen calls) of
            IsSettled \<Rightarrow> retE (receipt claimed False False, Some [ErrOrderSettled])
          | AlreadyDelivered \<Rightarrow>
              thenE (reportE (Replayed ''deliver'')) (retE (receipt claimed True True, None))
          | JustExhausted \<Rightarrow>
              thenE (reportE (Dropped ''order.exhausted'' 1))
                (retE (receipt claimed False False, Some [ErrDeliveryExpired]))
          | AlreadyExhausted \<Rightarrow>
              thenE (reportE (Refused ''deliver'' ''exhausted''))
                (retE (receipt claimed False False, Some [ErrDeliveryExpired]))
          | IsHeld \<Rightarrow>
              thenE (reportE (Refused ''deliver'' ''held''))
                (retE (receipt claimed False False, Some [ErrDeliveryHeld]))
          | Claimed \<Rightarrow> deliver_claimed cfg orderID (Unix now) claimed)))"

section \<open>Payment callbacks\<close>

text \<open>The fields that decide what is granted, joined by NUL bytes, under SHA-256 in hexadecimal.\<close>

definition digest_fields :: "Order \<Rightarrow> string list" where
  "digest_fields o' =
     [od_OrderID o', FormatInt (od_PlayerID o'), od_Channel o', od_ProductID o',
      FormatInt (od_AmountMinor o'), od_Currency o']"

definition contentDigest :: "(string \<Rightarrow> string) \<Rightarrow> Order \<Rightarrow> string" where
  "contentDigest sha256hex o' = sha256hex (Join (CHR 0x00) (digest_fields o'))"

definition new_order :: "('x, 'o) PlatformConfig \<Rightarrow> callbackPayload \<Rightarrow> time \<Rightarrow> Order" where
  "new_order cfg payload now =
     \<lparr>od_OrderID = TrimSpace (cp_OrderID payload), od_PlayerID = cp_PlayerID payload,
      od_Channel = cp_Channel payload, od_ProductID = TrimSpace (cp_ProductID payload),
      od_AmountMinor = cp_AmountMinor payload, od_Currency = cp_Currency payload,
      od_PayloadDigest = [], od_State = DeliveryReserved, od_Attempts = 0,
      od_MaxAttempts = i32 (pf_DeliveryAttempts cfg), od_NextAttemptAtUnix = 0, od_LastError = [],
      od_PaidAtUnix = (if cp_PaidAtUnix payload = 0 then Unix now else cp_PaidAtUnix payload),
      od_CreatedAtUnix = Unix now, od_DeliveredAtUnix = 0, od_UpdatedAtUnix = Unix now,
      od_Reopens = 0, od_AdminNote = [], od_AdminActionAtUnix = 0\<rparr>"

text \<open>The answer to a callback when the attempt it made ended with an error.\<close>

definition attempted :: "gerr + (Receipt \<times> gerr option) \<Rightarrow> gerr + Receipt" where
  "attempted r = (case r of Inl e \<Rightarrow> Inl e | Inr (rc, Some e) \<Rightarrow> Inl e | Inr (rc, None) \<Rightarrow> Inr rc)"

definition callback_replay ::
  "('x, 'o) PlatformConfig \<Rightarrow> Order \<Rightarrow> (('x, 'o) pworld, Receipt \<times> gerr option) handler" where
  "callback_replay cfg order =
     bindE (ordersGet cfg (od_OrderID order)) (\<lambda>existing.
       case existing of
         None \<Rightarrow> raiseE [ErrPlatConflict]
       | Some sv \<Rightarrow>
           if od_PayloadDigest (ver_Value sv) \<noteq> od_PayloadDigest order
           then thenE (reportE (Refused ''callback'' ''order_mismatch'')) (raiseE [ErrOrderMismatch])
           else thenE (reportE (Replayed ''callback''))
            (let rc = receipt (ver_Value sv) True (od_State (ver_Value sv) = DeliveryDelivered) in
             if rc_Delivered rc then retE (rc, None)
             else bindE (tryE (AttemptDelivery cfg (od_OrderID order))) (\<lambda>attempt.
                    case attempted attempt of
                      Inl e \<Rightarrow> retE (rc, Some e)
                    | Inr a \<Rightarrow> retE (rc\<lparr>rc_Order := rc_Order a, rc_Delivered := rc_Delivered a\<rparr>, None))))"

definition HandleCallback ::
  "('x, 'o) PlatformConfig \<Rightarrow> string \<Rightarrow> string \<Rightarrow> (('x, 'o) pworld, Receipt \<times> gerr option) handler" where
  "HandleCallback cfg raw signature =
     (if length raw = 0 then raiseE [ErrPlatRequestInvalid]
      else if length raw > MaxPayloadBytes
      then thenE (reportE (Refused ''callback'' ''payload_too_large'')) (raiseE [ErrPlatRequestInvalid])
      else if \<not> pf_VerifyPayloadSignature cfg raw signature (pf_PaymentSecret cfg)
      then thenE (reportE (Refused ''callback'' ''bad_signature'')) (raiseE [ErrSignatureInvalid])
      else case pf_Unmarshal cfg raw of
        None \<Rightarrow> thenE (reportE (Refused ''callback'' ''malformed_payload'')) (raiseE [ErrPlatRequestInvalid])
      | Some payload \<Rightarrow>
          bindE (nowE (pf_Now cfg)) (\<lambda>now.
            case Order_Validate (new_order cfg payload now) of
              Some e \<Rightarrow> thenE (reportE (Refused ''callback'' ''order_invalid'')) (raiseE e)
            | None \<Rightarrow>
                let o0 = new_order cfg payload now;
                    order = o0\<lparr>od_PayloadDigest := contentDigest (pf_Sha256Hex cfg) o0\<rparr> in
                bindE (ordersCreate cfg (od_OrderID order) order) (\<lambda>created.
                  case created of
                    None \<Rightarrow> callback_replay cfg order
                  | Some _ \<Rightarrow>
                      thenE (reportE (Accepted ''callback''))
                     (bindE (tryE (AttemptDelivery cfg (od_OrderID order))) (\<lambda>attempt.
                        case attempted attempt of
                          Inl e \<Rightarrow> retE (receipt order False False, Some e)
                        | Inr a \<Rightarrow> retE (receipt (rc_Order a) (rc_Replayed a) (rc_Delivered a), None))))))"

definition LookupOrder :: "('x, 'o) PlatformConfig \<Rightarrow> string \<Rightarrow> (('x, 'o) pworld, Order option) handler" where
  "LookupOrder cfg orderID =
     bindE (ordersGet cfg orderID) (\<lambda>stored. retE (map_option ver_Value stored))"

section \<open>Operators (admin.go)\<close>

definition PlatMaxAdminNoteBytes :: nat where [bound_defs]: "PlatMaxAdminNoteBytes = 512"

definition plat_validateAdminNote :: "string \<Rightarrow> gerr + string" where
  "plat_validateAdminNote note =
     (let trimmed = TrimSpace note in
      if trimmed = [] then Inl [ErrPlatAdminNoteRequired]
      else if length trimmed > PlatMaxAdminNoteBytes then Inl [ErrPlatAdminNoteRequired]
      else Inr trimmed)"

definition reopen_order :: "string \<Rightarrow> int \<Rightarrow> Order mutate" where
  "reopen_order note nowUnix cur =
     (case cur of
        None \<Rightarrow> Fail [ErrOrderInvalid]
      | Some current \<Rightarrow>
          if od_State current = DeliveryExhausted
          then Save (current\<lparr>od_State := DeliveryReserved, od_Attempts := 0, od_NextAttemptAtUnix := 0,
                             od_LastError := [], od_Reopens := i32 (od_Reopens current + 1),
                             od_AdminNote := note, od_AdminActionAtUnix := nowUnix, od_UpdatedAtUnix := nowUnix\<rparr>)
          else Fail [ErrPlatNotResolvable])"

definition settle_order :: "string \<Rightarrow> int \<Rightarrow> Order mutate" where
  "settle_order note nowUnix cur =
     (case cur of
        None \<Rightarrow> Fail [ErrOrderInvalid]
      | Some current \<Rightarrow>
          if od_State current = DeliveryExhausted
          then Save (current\<lparr>od_State := DeliverySettled, od_NextAttemptAtUnix := 0,
                             od_AdminNote := note, od_AdminActionAtUnix := nowUnix, od_UpdatedAtUnix := nowUnix\<rparr>)
          else Fail [ErrPlatNotResolvable])"

definition admin_update ::
  "('x, 'o) PlatformConfig \<Rightarrow> string \<Rightarrow> string \<Rightarrow> (string \<Rightarrow> int \<Rightarrow> Order mutate) \<Rightarrow> string \<Rightarrow>
   (('x, 'o) pworld, Order) handler" where
  "admin_update cfg orderID note f op =
     (case plat_validateAdminNote note of
        Inl e \<Rightarrow> raiseE e
      | Inr trimmed \<Rightarrow>
          bindE (nowE (pf_Now cfg)) (\<lambda>now.
          bindE (ordersUpdate cfg orderID (f trimmed (Unix now))) (\<lambda>(calls, applied).
            thenE (reportE (Accepted op)) (retE (saved_or zero_order (f trimmed (Unix now) (seen calls)))))))"

definition ReopenDelivery ::
  "('x, 'o) PlatformConfig \<Rightarrow> string \<Rightarrow> string \<Rightarrow> (('x, 'o) pworld, Order) handler" where
  "ReopenDelivery cfg orderID note = admin_update cfg orderID note reopen_order ''admin.reopen''"

definition SettleOutOfBand ::
  "('x, 'o) PlatformConfig \<Rightarrow> string \<Rightarrow> string \<Rightarrow> (('x, 'o) pworld, Order) handler" where
  "SettleOutOfBand cfg orderID note = admin_update cfg orderID note settle_order ''admin.settle''"

section \<open>The pending index and the retry loop (redis\_store.go, server\_run.go)\<close>

definition PendingIndexKey :: "string \<Rightarrow> string" where
  "PendingIndexKey pre = pre @ '':pending''"

text \<open>The score of an order in the pending index (kept as the integer it renders), or none.\<close>

definition pendingIndexEntry :: "Order \<Rightarrow> int option" where
  "pendingIndexEntry o' =
     (if Terminal o' then None
      else let d0 = od_NextAttemptAtUnix o';
               d1 = (if d0 \<le> 0 then od_PaidAtUnix o' else d0)
           in Some (if d1 \<le> 0 then od_CreatedAtUnix o' else d1))"

definition pendingOrderIDs :: "('x, 'o) PlatformConfig \<Rightarrow> (('x, 'o) pworld, string list) handler" where
  "pendingOrderIDs cfg =
     (case pf_Pending cfg of
        None \<Rightarrow> retE []
      | Some p \<Rightarrow> bindE (outsideE (ps_PendingOrders p RetryBatch)) (\<lambda>r.
                    case r of Inl e \<Rightarrow> raiseE e | Inr ids \<Rightarrow> retE ids))"

definition BackgroundRetryEnabled :: "('x, 'o) PlatformConfig \<Rightarrow> bool" where
  "BackgroundRetryEnabled cfg \<longleftrightarrow> pf_Pending cfg \<noteq> None"

definition PoisonedRetryDelay :: duration where "PoisonedRetryDelay = 15 * Minute"

text \<open>The error of an attempt, however it came back.\<close>

definition attempt_error :: "gerr + (Receipt \<times> gerr option) \<Rightarrow> gerr option" where
  "attempt_error r = (case r of Inl e \<Rightarrow> Some e | Inr (rc, err) \<Rightarrow> err)"

definition retry_one :: "('x, 'o) PlatformConfig \<Rightarrow> string \<Rightarrow> (('x, 'o) pworld, unit) handler" where
  "retry_one cfg orderID =
     bindE (tryE (AttemptDelivery cfg orderID)) (\<lambda>r.
       case attempt_error r of
         None \<Rightarrow> retE ()
       | Some err \<Rightarrow>
           if Is err ErrDeliveryHeld \<or> Is err ErrOrderSettled \<or> Is err ErrDeliveryExpired then retE ()
           else if Is err ErrOrderInvalid
           then (case pf_Pending cfg of
                   None \<Rightarrow> retE ()
                 | Some p \<Rightarrow> (case ps_RetirePending p of
                                None \<Rightarrow> retE ()
                              | Some retire \<Rightarrow> bindE (outsideE (retire orderID)) (\<lambda>_. retE ())))
           else if Is err MalformedRecord
           then (case pf_Pending cfg of
                   None \<Rightarrow> retE ()
                 | Some p \<Rightarrow> (case ps_DeferPending p of
                                None \<Rightarrow> retE ()
                              | Some defer' \<Rightarrow>
                                  bindE (nowE (pf_Now cfg)) (\<lambda>now.
                                  bindE (outsideE (defer' orderID (Add now PoisonedRetryDelay))) (\<lambda>_. retE ()))))
           else retE ())"

definition retryPendingOnce :: "('x, 'o) PlatformConfig \<Rightarrow> (('x, 'o) pworld, unit) handler" where
  "retryPendingOnce cfg =
     bindE (tryE (pendingOrderIDs cfg)) (\<lambda>r.
       case r of Inl e \<Rightarrow> retE () | Inr ids \<Rightarrow> forE ids (retry_one cfg))"

end
