(* ===== verification/PlatformProps.thy ===== *)
theory PlatformProps
  imports Platform
begin

text \<open>
  The order record under any interleaving of claims, deliveries, failures and operator actions, what
  the handlers do to the orders and to the collaborators, and the properties of the platform
  service.
\<close>

section \<open>The order under any interleaving\<close>

datatype order_op =
    CreateOrderOp Order
  | ClaimOp duration time
  | DoneOp int
  | FailOp string int
  | ReopenOrderOp string int
  | SettleOp string int

fun order_mutate :: "order_op \<Rightarrow> Order mutate" where
  "order_mutate (CreateOrderOp order) cur = (case cur of None \<Rightarrow> Save order | Some _ \<Rightarrow> Keep)"
| "order_mutate (ClaimOp base now) cur = claim_mutate base now cur"
| "order_mutate (DoneOp nowUnix) cur = done_mutate nowUnix cur"
| "order_mutate (FailOp cause nowUnix) cur = failure_mutate cause nowUnix cur"
| "order_mutate (ReopenOrderOp note nowUnix) cur = reopen_order note nowUnix cur"
| "order_mutate (SettleOp note nowUnix) cur = settle_order note nowUnix cur"

text \<open>What \<open>HandleCallback\<close> creates: a reserved order with its whole budget.\<close>

definition fresh_order :: "Order \<Rightarrow> bool" where
  "fresh_order o' \<longleftrightarrow> od_State o' = DeliveryReserved \<and> od_Attempts o' = 0 \<and> od_Reopens o' = 0 \<and>
     0 < od_MaxAttempts o' \<and> od_MaxAttempts o' < 2 ^ 31"

fun order_allowed :: "order_op \<Rightarrow> bool" where
  "order_allowed (CreateOrderOp order) \<longleftrightarrow> fresh_order order"
| "order_allowed _ \<longleftrightarrow> True"

definition order_ok :: "Order \<Rightarrow> bool" where
  "order_ok o' \<longleftrightarrow> 0 \<le> od_Attempts o' \<and> od_Attempts o' \<le> od_MaxAttempts o' \<and>
     0 < od_MaxAttempts o' \<and> od_MaxAttempts o' < 2 ^ 31"

text \<open>What was bought never changes; a delivered order never changes at all.\<close>

definition order_le :: "Order \<Rightarrow> Order \<Rightarrow> bool" where
  "order_le u v \<longleftrightarrow>
     od_OrderID u = od_OrderID v \<and> od_PlayerID u = od_PlayerID v \<and> od_Channel u = od_Channel v \<and>
     od_ProductID u = od_ProductID v \<and> od_AmountMinor u = od_AmountMinor v \<and>
     od_Currency u = od_Currency v \<and> od_PayloadDigest u = od_PayloadDigest v \<and>
     od_MaxAttempts u = od_MaxAttempts v \<and> od_PaidAtUnix u = od_PaidAtUnix v \<and>
     od_CreatedAtUnix u = od_CreatedAtUnix v \<and> (od_State u = DeliveryDelivered \<longrightarrow> u = v)"

lemmas order_mutate_defs = claim_mutate_def claim_next_def expire_order_def done_mutate_def
  failure_mutate_def failure_next_def reopen_order_def settle_order_def

lemma order_save_step:
  assumes "order_ok u" "order_mutate a (Some u) = Save v"
  shows "order_ok v" "order_le u v"
  using assms
  by (cases a; auto simp: order_ok_def order_le_def order_mutate_defs Let_def i32_id split: if_splits)+

lemma order_create_ok: "order_allowed a \<Longrightarrow> order_mutate a None = Save v \<Longrightarrow> order_ok v"
  by (cases a) (auto simp: order_ok_def order_mutate_defs fresh_order_def)

interpretation order: cas_cell order_mutate order_allowed order_ok order_le
proof unfold_locales
  show "order_le u u" for u by (simp add: order_le_def)
  show "order_le u v \<Longrightarrow> order_le v z \<Longrightarrow> order_le u z" for u v z
    by (auto simp: order_le_def)
qed (blast intro: order_create_ok order_save_step)+

text \<open>How many attempts a run of operations granted: each is one call of the deliverer.\<close>

definition granted :: "order_op \<Rightarrow> Order option \<Rightarrow> bool" where
  "granted a cur \<longleftrightarrow>
     (case a of ClaimOp base now \<Rightarrow> cur \<noteq> None \<and> claim_result now cur = Claimed | _ \<Rightarrow> False)"

fun grants :: "order_op list \<Rightarrow> Order option \<Rightarrow> nat" where
  "grants [] cur = 0"
| "grants (a # ops) cur = (if granted a cur then 1 else 0) + grants ops (commit order_mutate a cur)"

lemma order_Due_reserved: "order_Due u n \<Longrightarrow> od_State u = DeliveryReserved"
  by (cases "od_State u") (auto simp: order_Due_def Terminal_def)

lemma granted_step:
  assumes "order_ok u" "granted a (Some u)"
  shows "\<exists>base now. a = ClaimOp base now \<and> order_mutate a (Some u) = Save (claim_next base now u) \<and>
     order_Due u (Unix now) \<and> od_Attempts (claim_next base now u) = od_Attempts u + 1"
  using assms
  by (cases a) (auto simp: granted_def claim_result_def claim_mutate_def claim_next_def order_ok_def i32_id
      Let_def split: if_splits)

lemma not_granted_step:
  assumes "order_ok u" "\<not> granted a (Some u)" "commit order_mutate a (Some u) = Some v"
    and "0 \<le> od_Reopens u" "od_Reopens u + 1 < 2 ^ 31"
  shows "od_MaxAttempts v = od_MaxAttempts u"
    and "od_Attempts u + od_MaxAttempts u * od_Reopens u \<le> od_Attempts v + od_MaxAttempts v * od_Reopens v"
    and "od_Reopens u \<le> od_Reopens v" "od_Reopens v \<le> od_Reopens u + 1"
  using assms
  by (cases a; auto simp: commit_def granted_def claim_result_def order_mutate_defs order_ok_def i32_id Let_def
      distrib_left split: if_splits decision.splits)+

lemma grants_bound:
  "order_ok u \<Longrightarrow> list_all order_allowed ops \<Longrightarrow> 0 \<le> od_Reopens u \<Longrightarrow>
   od_Reopens u + int (length ops) < 2 ^ 31 \<Longrightarrow> commits order_mutate ops (Some u) = Some v \<Longrightarrow>
   od_MaxAttempts v = od_MaxAttempts u \<and> 0 \<le> od_Reopens v \<and>
   od_Attempts u + od_MaxAttempts u * od_Reopens u + int (grants ops (Some u)) \<le>
     od_Attempts v + od_MaxAttempts v * od_Reopens v"
proof (induction ops arbitrary: u)
  case (Cons a ops)
  obtain z where z: "commit order_mutate a (Some u) = Some z"
    using commit_Some [of order_mutate a u] by blast
  have ok: "order_ok z"
    using order.commit_inv [of a "Some u" z] Cons.prems z by simp
  have step: "od_MaxAttempts z = od_MaxAttempts u \<and> od_Reopens u \<le> od_Reopens z \<and> od_Reopens z \<le> od_Reopens u + 1 \<and>
     od_Attempts u + od_MaxAttempts u * od_Reopens u + (if granted a (Some u) then 1 else 0) \<le>
       od_Attempts z + od_MaxAttempts z * od_Reopens z"
  proof (cases "granted a (Some u)")
    case True
    from granted_step [OF Cons.prems(1) True] z show ?thesis
      by (auto simp: commit_def claim_next_def Let_def)
  next
    case False
    from not_granted_step [OF Cons.prems(1) False z] Cons.prems(3,4) False show ?thesis by auto
  qed
  have "od_Reopens z + int (length ops) < 2 ^ 31" "0 \<le> od_Reopens z" using step Cons.prems(3,4) by auto
  with Cons.IH [of z] ok Cons.prems(2,5) z have
    "od_MaxAttempts v = od_MaxAttempts z" "0 \<le> od_Reopens v"
    "od_Attempts z + od_MaxAttempts z * od_Reopens z + int (grants ops (Some z)) \<le>
       od_Attempts v + od_MaxAttempts v * od_Reopens v" by auto
  moreover have "grants (a # ops) (Some u) = (if granted a (Some u) then 1 else 0) + grants ops (Some z)"
    using z by simp
  ultimately show ?case using step by (auto split: if_splits)
qed auto

section \<open>What the handlers do\<close>

lemma bindE_outside:
  "bindE (outsideE f) g w = (case f (pw_Outside w) of (a, x) \<Rightarrow> g a (w\<lparr>pw_Outside := x\<rparr>))"
  by (simp add: bindE_def outsideE_def split: prod.split)

lemma outside_same: "(\<And>w x. g (w\<lparr>pw_Outside := x\<rparr>) = g w) \<Longrightarrow> steps (same g) (outsideE f)"
  by (rule stepsI) (auto simp: outsideE_def same_def split: prod.splits)

lemma recordFailure_same: "steps (same pw_Outside) (recordFailure cfg k c n)"
  unfolding recordFailure_def by (auto intro!: same_intros)

lemma deliver_outside:
  assumes "deliver_claimed cfg k n o' w = (r, w')"
  shows "pw_Outside w' = snd (pf_Deliver cfg o' (pw_Outside w))"
proof -
  have rest: "steps (same pw_Outside) (record_delivery cfg k n d)" for d
    unfolding record_delivery_def
    by (auto intro!: same_intros recordFailure_same simp: Let_def split: option.split)
  obtain d x where d: "pf_Deliver cfg o' (pw_Outside w) = (d, x)" by fastforce
  with assms have "record_delivery cfg k n d (w\<lparr>pw_Outside := x\<rparr>) = (r, w')"
    by (simp add: deliver_claimed_def bindE_outside)
  from stepsD [OF rest this] show ?thesis by (simp add: same_def d)
qed

text \<open>The deliverer is called at most once, for an attempt that was claimed.\<close>

lemma AttemptDelivery_outside:
  assumes "vs_contract om (=) (pf_Orders cfg)" "AttemptDelivery cfg k w = (r, w')"
  defines "now \<equiv> pf_Now cfg (env_ticks w)"
  shows "pw_Outside w' = pw_Outside w \<or>
    (\<exists>u. value_at (om (pw_Orders w)) k = Some u \<and> order_Due u (Unix now) \<and>
         od_Attempts u < od_MaxAttempts u \<and>
         pw_Outside w' = snd (pf_Deliver cfg (claim_next (pf_DeliveryBackoff cfg) now u) (pw_Outside w)))"
proof (cases "blank k")
  case True
  with assms(2) show ?thesis by (auto simp: AttemptDelivery_def)
next
  case False
  define f where "f = claim_mutate (pf_DeliveryBackoff cfg) now"
  define w0 where "w0 = w\<lparr>env_ticks := Suc (env_ticks w)\<rparr>"
  have w0: "pw_Outside w0 = pw_Outside w" "pw_Orders w0 = pw_Orders w" by (simp_all add: w0_def)
  have upd: "steps (same pw_Outside) (ordersUpdate cfg k f)" by (auto intro!: same_intros)
  from assms(2) False have "bindE (ordersUpdate cfg k f) (\<lambda>(calls, applied).
          case claim_result now (seen calls) of
            IsSettled \<Rightarrow> retE (receipt (result_of f zero_order (seen calls)) False False, Some [ErrOrderSettled])
          | AlreadyDelivered \<Rightarrow>
              thenE (reportE (Replayed ''deliver'')) (retE (receipt (result_of f zero_order (seen calls)) True True, None))
          | JustExhausted \<Rightarrow>
              thenE (reportE (Dropped ''order.exhausted'' 1))
                (retE (receipt (result_of f zero_order (seen calls)) False False, Some [ErrDeliveryExpired]))
          | AlreadyExhausted \<Rightarrow>
              thenE (reportE (Refused ''deliver'' ''exhausted''))
                (retE (receipt (result_of f zero_order (seen calls)) False False, Some [ErrDeliveryExpired]))
          | IsHeld \<Rightarrow>
              thenE (reportE (Refused ''deliver'' ''held''))
                (retE (receipt (result_of f zero_order (seen calls)) False False, Some [ErrDeliveryHeld]))
          | Claimed \<Rightarrow> deliver_claimed cfg k (Unix now) (result_of f zero_order (seen calls))) w0 = (r, w')"
    unfolding f_def now_def w0_def by (simp add: AttemptDelivery_def Let_def)
  then show ?thesis
  proof (cases rule: bindE_cases)
    case (error e)
    with stepsD [OF upd error(1)] w0 show ?thesis by (simp add: same_def)
  next
    case (ok a w1)
    obtain calls b where a: "a = (calls, b)" by fastforce
    have w1: "pw_Outside w1 = pw_Outside w" using stepsD [OF upd ok(1)] w0 by (simp add: same_def)
    have sc: "seen calls = value_at (om (pw_Orders w)) k" "f (seen calls) \<noteq> Fail e" for e
      using assms(1) ok(1) [unfolded a] by (cases rule: mutateE_outcomes; use w0 in simp)+
    show ?thesis
    proof (cases "claim_result now (seen calls) = Claimed")
      case True
      with ok(2) a have d: "deliver_claimed cfg k (Unix now) (result_of f zero_order (seen calls)) w1 = (r, w')"
        by simp
      obtain u where u: "seen calls = Some u"
        using sc(2) by (cases "seen calls") (auto simp: f_def claim_mutate_def)
      with True have "order_Due u (Unix now)" "od_Attempts u < od_MaxAttempts u"
        "result_of f zero_order (seen calls) = claim_next (pf_DeliveryBackoff cfg) now u"
        by (auto simp: claim_result_def result_of_def f_def claim_mutate_def split: if_splits)
      with deliver_outside [OF d] w1 u sc(1) show ?thesis by auto
    next
      case False
      with ok(2) a w1 show ?thesis by (cases "claim_result now (seen calls)") auto
    qed
  qed
qed

lemma retry_one_continues: "fst (retry_one cfg k w) = Inr ()"
proof -
  obtain r w' where r: "retry_one cfg k w = (r, w')" by fastforce
  have out: "r' = Inr ()" if "bindE (outsideE f) (\<lambda>_. retE ()) w1 = (r', w2)" for f r' w1 w2
    using that by (auto simp: bindE_def outsideE_def split: prod.splits)
  from r have "r = Inr ()" unfolding retry_one_def
  proof (cases rule: bindE_cases)
    case (error e)
    then show ?thesis by (auto simp: tryE_iff)
  next
    case (ok a w1)
    then show ?thesis
      by (auto split: option.splits if_splits dest: out)
  qed
  with r show ?thesis by simp
qed

lemma forE_all:
  assumes "\<And>x w. fst (body x w) = Inr ()"
  shows "forE xs body w = (Inr (), fold (\<lambda>x w. snd (body x w)) xs w)"
proof (induction xs arbitrary: w)
  case (Cons x xs)
  obtain w1 where "body x w = (Inr (), w1)" using assms [of x w] by (metis prod.collapse)
  with Cons show ?case by (simp add: thenE_def bindE_def)
qed (simp add: retE_def)

text \<open>A second callback for an order id, with the order it carries.\<close>

definition callback_order :: "('x, 'o) PlatformConfig \<Rightarrow> callbackPayload \<Rightarrow> time \<Rightarrow> Order" where
  "callback_order cfg payload now =
     (new_order cfg payload now)
       \<lparr>od_PayloadDigest := contentDigest (pf_Sha256Hex cfg) (new_order cfg payload now)\<rparr>"

lemma callback_order_id [simp]: "od_OrderID (callback_order cfg payload now) = TrimSpace (cp_OrderID payload)"
  by (simp add: callback_order_def new_order_def)

text \<open>The checks a callback passes before its order is looked at.\<close>

definition callback_refusal ::
  "('x, 'o) PlatformConfig \<Rightarrow> string \<Rightarrow> string \<Rightarrow> Order \<Rightarrow> gerr option" where
  "callback_refusal cfg raw signature order =
     (if raw = [] \<or> length raw > MaxPayloadBytes then Some [ErrPlatRequestInvalid]
      else if \<not> pf_VerifyPayloadSignature cfg raw signature (pf_PaymentSecret cfg) then Some [ErrSignatureInvalid]
      else Order_Validate order)"

text \<open>A callback on an order recorded with another digest: its error, and nothing else.\<close>

definition mismatch_answer :: "gerr option \<Rightarrow> gerr + 'r \<Rightarrow> bool" where
  "mismatch_answer refusal r \<longleftrightarrow>
     (case refusal of
        Some e \<Rightarrow> r = Inl e
      | None \<Rightarrow> r = Inl [ErrOrderMismatch] \<or> (\<exists>e. r = Inl e \<and> store_error e))"

lemma callback_existing:
  assumes "vs_contract om (=) (pf_Orders cfg)" "HandleCallback cfg raw sig w = (r, w')"
    and "pf_Unmarshal cfg raw = Some payload"
    and "value_at (om (pw_Orders w)) (TrimSpace (cp_OrderID payload)) = Some ex"
    and "od_PayloadDigest ex \<noteq> od_PayloadDigest (callback_order cfg payload (pf_Now cfg (env_ticks w)))"
  shows "mismatch_answer (callback_refusal cfg raw sig (new_order cfg payload (pf_Now cfg (env_ticks w)))) r \<and> om (pw_Orders w') = om (pw_Orders w) \<and> pw_Outside w' = pw_Outside w"
proof (cases "raw = [] \<or> length raw > MaxPayloadBytes \<or>
    \<not> pf_VerifyPayloadSignature cfg raw sig (pf_PaymentSecret cfg) \<or>
    Order_Validate (new_order cfg payload (pf_Now cfg (env_ticks w))) \<noteq> None")
  case True
  with assms(2,3) show ?thesis
    by (auto simp: HandleCallback_def callback_refusal_def mismatch_answer_def split: if_splits)
next
  case False
  then have passes: "callback_refusal cfg raw sig (new_order cfg payload (pf_Now cfg (env_ticks w))) = None"
    by (simp add: callback_refusal_def)
  define order where "order = callback_order cfg payload (pf_Now cfg (env_ticks w))"
  define w0 where "w0 = w\<lparr>env_ticks := Suc (env_ticks w)\<rparr>"
  have w0: "pw_Orders w0 = pw_Orders w" "pw_Outside w0 = pw_Outside w" by (simp_all add: w0_def)
  from False assms(2,3) have "bindE (ordersCreate cfg (od_OrderID order) order) (\<lambda>created.
                  case created of
                    None \<Rightarrow> callback_replay cfg order
                  | Some _ \<Rightarrow>
                      thenE (reportE (Accepted ''callback''))
                     (bindE (tryE (AttemptDelivery cfg (od_OrderID order))) (\<lambda>attempt.
                        case attempted attempt of
                          Inl e \<Rightarrow> retE (receipt order False False, Some e)
                        | Inr a \<Rightarrow> retE (receipt (rc_Order a) (rc_Replayed a) (rc_Delivered a), None)))) w0 = (r, w')"
    unfolding order_def callback_order_def w0_def
    by (simp add: HandleCallback_def Let_def cong: option.case_cong sum.case_cong)
  then show ?thesis
  proof (cases rule: bindE_cases)
    case (error e)
    from assms(1) error(1) show ?thesis
      by (cases rule: createE_outcomes) (use error(2) w0 assms(4) in \<open>auto simp: order_def value_at_def mismatch_answer_def passes\<close>)
  next
    case (ok created w1)
    from assms(1) ok(1) have w1: "created = None" "om (pw_Orders w1) = om (pw_Orders w)" "pw_Outside w1 = pw_Outside w"
      by (cases rule: createE_outcomes; use w0 assms(4) in \<open>auto simp: order_def value_at_def\<close>)+
    with ok(2) have "callback_replay cfg order w1 = (r, w')" by simp
    then show ?thesis unfolding callback_replay_def
    proof (cases rule: bindE_cases)
      case (error e)
      from assms(1) error(1) show ?thesis
        by (cases rule: getE_outcomes) (use error(2) w1 in \<open>auto simp: mismatch_answer_def passes\<close>)
    next
      case (ok existing w2)
      from assms(1) ok(1) have w2: "existing = om (pw_Orders w) (od_OrderID order)"
          "om (pw_Orders w2) = om (pw_Orders w)" "pw_Outside w2 = pw_Outside w"
        by (cases rule: getE_outcomes; use w1 in auto)+
      obtain sv where sv: "existing = Some sv" "ver_Value sv = ex"
        using assms(4) w2(1) by (auto simp: value_at_def order_def)
      have "od_PayloadDigest ex \<noteq> od_PayloadDigest order" using assms(5) by (simp add: order_def)
      with ok(2) sv have "r = Inl [ErrOrderMismatch]" "pw_Orders w' = pw_Orders w2" "pw_Outside w' = pw_Outside w2"
        by auto
      with w2 show ?thesis by (simp add: mismatch_answer_def passes)
    qed
  qed
qed

lemma Join_NUL_inject:
  assumes "\<forall>s \<in> set (digest_fields a). CHR 0x00 \<notin> set s" "\<forall>s \<in> set (digest_fields b). CHR 0x00 \<notin> set s"
    and "Join (CHR 0x00) (digest_fields a) = Join (CHR 0x00) (digest_fields b)"
  shows "digest_fields a = digest_fields b"
  using Join_inject [OF _ _ assms] by (simp add: digest_fields_def)

lemma show_nat_no_NUL: "CHR 0x00 \<notin> set (show_nat n)"
  using show_nat_digits [of n] by (auto simp: list_all_iff is_digit_def)

lemma FormatInt_no_NUL: "CHR 0x00 \<notin> set (FormatInt n)"
  by (simp add: FormatInt_def show_nat_no_NUL)

section \<open>Properties\<close>

definition ex_order :: Order where
  "ex_order = zero_order\<lparr>od_OrderID := ''o1'', od_PlayerID := 7, od_Channel := ''store'', od_ProductID := ''gem'',
     od_AmountMinor := 499, od_PayloadDigest := ''d'', od_MaxAttempts := 2, od_PaidAtUnix := 90, od_CreatedAtUnix := 90\<rparr>"

lemma ex_order_fields [simp]:
  "od_State ex_order = DeliveryReserved" "od_Attempts ex_order = 0" "od_MaxAttempts ex_order = 2"
  "od_Reopens ex_order = 0" "od_NextAttemptAtUnix ex_order = 0" "od_OrderID ex_order = ''o1''"
  by (simp_all add: ex_order_def zero_order_def)

lemma ex_order_ok: "order_ok ex_order" by (simp add: order_ok_def)

text \<open>C11: an order that was delivered stays exactly as it was delivered, and what was bought (order,
  player, channel, product, amount, currency, digest), its budget and when it was paid and recorded
  never change, under any interleaving of attempts, failures and operator actions.\<close>

theorem delivered_is_final:
  assumes "order_ok u" "list_all order_allowed ops" "commits order_mutate ops (Some u) = Some v"
  shows "od_OrderID v = od_OrderID u \<and> od_PlayerID v = od_PlayerID u \<and> od_Channel v = od_Channel u \<and>
         od_ProductID v = od_ProductID u \<and> od_AmountMinor v = od_AmountMinor u \<and>
         od_Currency v = od_Currency u \<and> od_PayloadDigest v = od_PayloadDigest u \<and>
         od_MaxAttempts v = od_MaxAttempts u \<and> od_PaidAtUnix v = od_PaidAtUnix u \<and>
         od_CreatedAtUnix v = od_CreatedAtUnix u \<and>
         (od_State u = DeliveryDelivered \<longrightarrow> v = u)"
  using order.commits_le [OF assms(2,1,3)] by (simp add: order_le_def)

theorem delivered_is_final_witness:
  "\<exists>v. commits order_mutate [ClaimOp (5 * Second) (200 * Second), FailOp ''timeout'' 201, SettleOp ''refund'' 202]
       (Some (ex_order\<lparr>od_State := DeliveryDelivered\<rparr>)) = Some v \<and> v = ex_order\<lparr>od_State := DeliveryDelivered\<rparr>"
proof -
  obtain v where v: "commits order_mutate [ClaimOp (5 * Second) (200 * Second), FailOp ''timeout'' 201,
      SettleOp ''refund'' 202] (Some (ex_order\<lparr>od_State := DeliveryDelivered\<rparr>)) = Some v"
    using commits_Some [of order_mutate "[ClaimOp (5 * Second) (200 * Second), FailOp ''timeout'' 201,
      SettleOp ''refund'' 202]"] by blast
  have "order_ok (ex_order\<lparr>od_State := DeliveryDelivered\<rparr>)" by (simp add: order_ok_def)
  from delivered_is_final [OF this _ v] v show ?thesis by (simp del: commits_Cons)
qed

text \<open>C4: the budget bounds the deliveries: over any run of operations on an order, the deliverer is
  granted at most \<open>MaxAttempts\<close> attempts, and as many again for each time an operator reopened the
  order; no interleaving of sweeps, callbacks and retries grants more.\<close>

theorem attempts_within_budget:
  assumes "fresh_order u" "list_all order_allowed ops" "int (length ops) < 2 ^ 31"
    and "commits order_mutate ops (Some u) = Some v"
  shows "int (grants ops (Some u)) \<le> od_MaxAttempts u * (1 + od_Reopens v)"
proof -
  have ok: "order_ok u" using assms(1) by (simp add: fresh_order_def order_ok_def)
  have "order_ok v" using order.commits_inv [OF assms(2) _ assms(4)] ok by simp
  moreover have "od_MaxAttempts v = od_MaxAttempts u \<and>
    int (grants ops (Some u)) \<le> od_Attempts v + od_MaxAttempts v * od_Reopens v"
    using grants_bound [OF ok assms(2) _ _ assms(4)] assms(1,3) by (auto simp: fresh_order_def)
  ultimately show ?thesis by (auto simp: order_ok_def distrib_left)
qed

theorem attempts_within_budget_witness:
  "int (grants [ClaimOp (5 * Second) (100 * Second), ClaimOp (5 * Second) (101 * Second),
      ClaimOp (5 * Second) (110 * Second), ClaimOp (5 * Second) (130 * Second)] (Some ex_order)) = 2 \<and>
   (\<exists>v. commits order_mutate [ClaimOp (5 * Second) (100 * Second), ClaimOp (5 * Second) (101 * Second),
      ClaimOp (5 * Second) (110 * Second), ClaimOp (5 * Second) (130 * Second)] (Some ex_order) = Some v \<and>
      2 \<le> od_MaxAttempts ex_order * (1 + od_Reopens v))"
proof -
  define ops where "ops = [ClaimOp (5 * Second) (100 * Second), ClaimOp (5 * Second) (101 * Second),
      ClaimOp (5 * Second) (110 * Second), ClaimOp (5 * Second) (130 * Second)]"
  obtain v where v: "commits order_mutate ops (Some ex_order) = Some v"
    using commits_Some [of order_mutate ops ex_order] by blast
  have g: "grants ops (Some ex_order) = 2" unfolding ops_def by code_simp
  have "int (grants ops (Some ex_order)) \<le> od_MaxAttempts ex_order * (1 + od_Reopens v)"
    by (rule attempts_within_budget [OF _ _ _ v]) (simp_all add: fresh_order_def ops_def)
  with g v show ?thesis unfolding ops_def by auto
qed

text \<open>C19: the deliverer is reached only through a claim: one call of \<open>AttemptDelivery\<close> runs the
  deliverer at most once, on the claimed order, and only when the stored order is reserved, due and
  within its budget; a delivered, exhausted, settled or held order is never handed to it.\<close>

theorem deliverer_only_when_claimed:
  assumes "vs_contract om (=) (pf_Orders cfg)" "AttemptDelivery cfg k w = (r, w')"
  shows "pw_Outside w' = pw_Outside w \<or>
    (\<exists>u. value_at (om (pw_Orders w)) k = Some u \<and> od_State u = DeliveryReserved \<and>
         order_Due u (Unix (pf_Now cfg (env_ticks w))) \<and> od_Attempts u < od_MaxAttempts u \<and>
         pw_Outside w' = snd (pf_Deliver cfg (claim_next (pf_DeliveryBackoff cfg) (pf_Now cfg (env_ticks w)) u)
                               (pw_Outside w)))"
  using AttemptDelivery_outside [OF assms] order_Due_reserved by blast

text \<open>A deployment for the witnesses: the outside world is the list of orders it was handed.\<close>

definition ex_pcfg :: "((string, Order) mem, Order list) PlatformConfig" where
  "ex_pcfg = \<lparr>pf_Orders = mem_store, pf_Pending = None,
     pf_Deliver = (\<lambda>o' log. (None, log @ [o'])),
     pf_Verify = (\<lambda>c log. (Inr \<lparr>vf_Channel = cr_Channel c, vf_OpenID = cr_OpenID c\<rparr>, log)),
     pf_Resolve = (\<lambda>v log. (Inr 7, log)), pf_SessionSecret = ''s'', pf_SessionTTL = 30 * Minute,
     pf_PaymentSecret = ''p'', pf_DeliveryAttempts = 2, pf_DeliveryBackoff = 5 * Second,
     pf_Now = (\<lambda>n. (100 + int n) * Second),
     pf_SignSessionToken = (\<lambda>p s t n. Inr ''tok''), pf_VerifySessionToken = (\<lambda>t s p n. None),
     pf_VerifyPayloadSignature = (\<lambda>raw sig secret. sig = ''good''),
     pf_Sha256Hex = id,
     pf_Unmarshal = (\<lambda>raw. Some \<lparr>cp_OrderID = ''o1'', cp_PlayerID = 8, cp_Channel = ''store'', cp_ProductID = ''gem'',
       cp_AmountMinor = 499, cp_Currency = [], cp_PaidAtUnix = 90\<rparr>)\<rparr>"

definition ex_pworld :: "((string, Order) mem, Order list) pworld" where
  "ex_pworld = \<lparr>env_ticks = 0, env_events = [], pw_Orders = mem_of [(''o1'', ex_order)], pw_Outside = []\<rparr>"

lemma ex_pcfg_contract [simp]: "vs_contract mem_map (=) (pf_Orders ex_pcfg)"
  by (simp add: ex_pcfg_def mem_store_contract)

lemma ex_delivers: "length (pw_Outside (snd (AttemptDelivery ex_pcfg ''o1'' ex_pworld))) = 1"
  by (simp add: AttemptDelivery_def Let_def handler_simps ex_pcfg_def ex_pworld_def mem_eval claim_mutate_def
      claim_result_def order_Due_def Terminal_def seen_def result_of_def deliver_claimed_def outsideE_def
      record_delivery_def done_mutate_def)

theorem deliverer_only_when_claimed_witness:
  "\<exists>r w' u. AttemptDelivery ex_pcfg ''o1'' ex_pworld = (r, w') \<and> length (pw_Outside w') = 1 \<and>
     value_at (mem_map (pw_Orders ex_pworld)) ''o1'' = Some u \<and> od_State u = DeliveryReserved"
proof -
  obtain r w' where r: "AttemptDelivery ex_pcfg ''o1'' ex_pworld = (r, w')" by fastforce
  then have "length (pw_Outside w') = 1" using ex_delivers by simp
  moreover have "pw_Outside ex_pworld = []" by (simp add: ex_pworld_def)
  ultimately show ?thesis using r deliverer_only_when_claimed [OF ex_pcfg_contract r] by auto
qed

text \<open>The digest tells purchases apart. When no field holds a NUL byte and the hash does not
  collide on these two orders, equal digests mean equal order id, player, channel, product, amount
  and currency.\<close>

theorem digest_identifies:
  assumes "\<forall>s \<in> set [od_OrderID a, od_Channel a, od_ProductID a, od_Currency a]. CHR 0x00 \<notin> set s"
    and "\<forall>s \<in> set [od_OrderID b, od_Channel b, od_ProductID b, od_Currency b]. CHR 0x00 \<notin> set s"
    and "\<And>x y. x = Join (CHR 0x00) (digest_fields a) \<Longrightarrow> y = Join (CHR 0x00) (digest_fields b) \<Longrightarrow>
           sha x = sha y \<Longrightarrow> x = y"
    and "contentDigest sha a = contentDigest sha b"
  shows "od_OrderID a = od_OrderID b \<and> od_PlayerID a = od_PlayerID b \<and> od_Channel a = od_Channel b \<and>
         od_ProductID a = od_ProductID b \<and> od_AmountMinor a = od_AmountMinor b \<and> od_Currency a = od_Currency b"
proof -
  have "digest_fields a = digest_fields b"
    by (rule Join_NUL_inject)
      (use assms in \<open>auto simp: digest_fields_def contentDigest_def FormatInt_no_NUL\<close>)
  then show ?thesis by (simp add: digest_fields_def FormatInt_inject)
qed

theorem digest_identifies_witness:
  "contentDigest id ex_order = contentDigest id (ex_order\<lparr>od_Attempts := 1\<rparr>) \<and>
   od_ProductID ex_order = od_ProductID (ex_order\<lparr>od_Attempts := 1\<rparr>)"
proof -
  have e: "contentDigest id ex_order = contentDigest id (ex_order\<lparr>od_Attempts := 1\<rparr>)"
    by (simp add: contentDigest_def digest_fields_def)
  moreover have "od_OrderID ex_order = od_OrderID (ex_order\<lparr>od_Attempts := 1\<rparr>) \<and>
    od_PlayerID ex_order = od_PlayerID (ex_order\<lparr>od_Attempts := 1\<rparr>) \<and>
    od_Channel ex_order = od_Channel (ex_order\<lparr>od_Attempts := 1\<rparr>) \<and>
    od_ProductID ex_order = od_ProductID (ex_order\<lparr>od_Attempts := 1\<rparr>) \<and>
    od_AmountMinor ex_order = od_AmountMinor (ex_order\<lparr>od_Attempts := 1\<rparr>) \<and>
    od_Currency ex_order = od_Currency (ex_order\<lparr>od_Attempts := 1\<rparr>)"
    by (rule digest_identifies [OF _ _ _ e]) (simp_all add: ex_order_def zero_order_def)
  ultimately show ?thesis by simp
qed

text \<open>Every recorded order carries the digest of its contents: the callback records it so, and no
  operation on an order changes either.\<close>

lemma recorded_digest:
  "od_PayloadDigest (callback_order cfg payload now) = contentDigest (pf_Sha256Hex cfg) (callback_order cfg payload now)"
  by (simp add: callback_order_def contentDigest_def digest_fields_def)

lemma recorded_digest_kept:
  assumes "order_ok u" "list_all order_allowed ops" "commits order_mutate ops (Some u) = Some v"
    and "od_PayloadDigest u = contentDigest sha u"
  shows "od_PayloadDigest v = contentDigest sha v"
proof -
  from order.commits_le [OF assms(2,1,3)] have "order_le u v" by simp
  then have "digest_fields v = digest_fields u" "od_PayloadDigest v = od_PayloadDigest u"
    by (auto simp: order_le_def digest_fields_def)
  with assms(4) show ?thesis by (simp add: contentDigest_def)
qed

definition purchase :: "Order \<Rightarrow> string \<times> int \<times> string \<times> string \<times> int \<times> string" where
  "purchase o' = (od_OrderID o', od_PlayerID o', od_Channel o', od_ProductID o', od_AmountMinor o', od_Currency o')"

definition no_NUL :: "Order \<Rightarrow> bool" where
  "no_NUL o' \<longleftrightarrow> list_all (\<lambda>s. CHR 0x00 \<notin> set s) [od_OrderID o', od_Channel o', od_ProductID o', od_Currency o']"

text \<open>C35: an order id names one purchase: a callback that is handled alone and whose order, player, channel, product, amount or
  currency differs from the recorded order's is answered with the mismatch (or an error of the store),
  unless an earlier check refuses it, with the order left as it was recorded and the deliverer not
  called. The recorded order carries the digest of its contents, as every recorded order does; no text
  of the two orders holds a NUL byte, and the hash does not collide on them.\<close>

theorem mismatched_callback_refused:
  assumes "vs_contract om (=) (pf_Orders cfg)" "HandleCallback cfg raw sig w = (r, w')"
    and "pf_Unmarshal cfg raw = Some payload" "order = new_order cfg payload (pf_Now cfg (env_ticks w))"
    and "value_at (om (pw_Orders w)) (TrimSpace (cp_OrderID payload)) = Some ex"
    and "od_PayloadDigest ex = contentDigest (pf_Sha256Hex cfg) ex"
    and "purchase order \<noteq> purchase ex" "no_NUL order" "no_NUL ex"
    and "\<And>x y. x = Join (CHR 0x00) (digest_fields ex) \<Longrightarrow> y = Join (CHR 0x00) (digest_fields order) \<Longrightarrow>
           pf_Sha256Hex cfg x = pf_Sha256Hex cfg y \<Longrightarrow> x = y"
  shows "mismatch_answer (callback_refusal cfg raw sig order) r \<and>
         om (pw_Orders w') = om (pw_Orders w) \<and> pw_Outside w' = pw_Outside w"
proof -
  have "contentDigest (pf_Sha256Hex cfg) ex \<noteq> contentDigest (pf_Sha256Hex cfg) order"
  proof
    assume eq: "contentDigest (pf_Sha256Hex cfg) ex = contentDigest (pf_Sha256Hex cfg) order"
    have "\<forall>s \<in> set [od_OrderID ex, od_Channel ex, od_ProductID ex, od_Currency ex]. CHR 0x00 \<notin> set s"
      "\<forall>s \<in> set [od_OrderID order, od_Channel order, od_ProductID order, od_Currency order]. CHR 0x00 \<notin> set s"
      using assms(8,9) by (simp_all add: no_NUL_def)
    then have "od_OrderID ex = od_OrderID order \<and> od_PlayerID ex = od_PlayerID order \<and> od_Channel ex = od_Channel order \<and>
         od_ProductID ex = od_ProductID order \<and> od_AmountMinor ex = od_AmountMinor order \<and> od_Currency ex = od_Currency order"
      by (rule digest_identifies [OF _ _ _ eq]) (rule assms(10))
    with assms(7) show False by (simp add: purchase_def)
  qed
  then have "od_PayloadDigest ex \<noteq> od_PayloadDigest (callback_order cfg payload (pf_Now cfg (env_ticks w)))"
    by (simp add: callback_order_def assms(4,6))
  from callback_existing [OF assms(1,2,3,5) this] show ?thesis unfolding assms(4) .
qed

text \<open>Order o1 was bought by player 7; a callback naming it for player 8 is answered with the mismatch.\<close>

definition ex_bought :: Order where
  "ex_bought = ex_order\<lparr>od_PayloadDigest := contentDigest id ex_order\<rparr>"

definition ex_bworld :: "((string, Order) mem, Order list) pworld" where
  "ex_bworld = \<lparr>env_ticks = 0, env_events = [], pw_Orders = mem_of [(''o1'', ex_bought)], pw_Outside = []\<rparr>"

theorem mismatched_callback_refused_witness:
  "\<exists>r w'. HandleCallback ex_pcfg ''raw'' ''good'' ex_bworld = (r, w') \<and> r = Inl [ErrOrderMismatch] \<and>
     mem_map (pw_Orders w') = mem_map (pw_Orders ex_bworld) \<and> pw_Outside w' = []"
proof -
  let ?p = "\<lparr>cp_OrderID = ''o1'', cp_PlayerID = 8, cp_Channel = ''store'', cp_ProductID = ''gem'',
    cp_AmountMinor = 499, cp_Currency = [], cp_PaidAtUnix = 90\<rparr>"
  let ?o = "new_order ex_pcfg ?p (pf_Now ex_pcfg (env_ticks ex_bworld))"
  obtain r w' where r: "HandleCallback ex_pcfg ''raw'' ''good'' ex_bworld = (r, w')" by fastforce
  have t: "TrimSpace ''o1'' = ''o1''" "TrimSpace ''gem'' = ''gem''" by code_simp+
  have f: "FormatInt 7 = ''7''" "FormatInt 8 = ''8''" by code_simp+
  have u: "pf_Unmarshal ex_pcfg ''raw'' = Some ?p" by (simp add: ex_pcfg_def)
  have v: "value_at (mem_map (pw_Orders ex_bworld)) (TrimSpace (cp_OrderID ?p)) = Some ex_bought"
    by (simp add: t ex_bworld_def mem_of_def value_at_def)
  have d: "od_PayloadDigest ex_bought = contentDigest (pf_Sha256Hex ex_pcfg) ex_bought"
    by (simp add: ex_bought_def contentDigest_def digest_fields_def ex_pcfg_def)
  have n: "no_NUL ?o" "no_NUL ex_bought" "purchase ?o \<noteq> purchase ex_bought"
    by (simp_all add: no_NUL_def purchase_def new_order_def ex_bought_def ex_order_def zero_order_def t)
  have "mismatch_answer (callback_refusal ex_pcfg ''raw'' ''good'' ?o) r \<and>
      mem_map (pw_Orders w') = mem_map (pw_Orders ex_bworld) \<and> pw_Outside w' = pw_Outside ex_bworld"
    by (rule mismatched_callback_refused [OF ex_pcfg_contract r u refl v d n(3,1,2)]) (simp add: ex_pcfg_def)
  moreover have "fst (HandleCallback ex_pcfg ''raw'' ''good'' ex_bworld) = Inl [ErrOrderMismatch]"
    by (simp add: HandleCallback_def callback_replay_def Let_def handler_simps ex_pcfg_def ex_bworld_def mem_eval
        new_order_def t f Order_Validate_def bound_defs contentDigest_def digest_fields_def ex_bought_def
        ex_order_def zero_order_def i32_id)
  ultimately show ?thesis using r by (simp add: ex_bworld_def)
qed

text \<open>A NUL byte inside a field defeats the digest: two purchases of different products through
  different channels have the same digest under every hash, so the second is taken for a replay of
  the first instead of being refused.\<close>

theorem digest_collides_on_NUL:
  "\<exists>a b. od_OrderID a = od_OrderID b \<and> od_Channel a \<noteq> od_Channel b \<and> od_ProductID a \<noteq> od_ProductID b \<and>
         Order_Validate a = None \<and> Order_Validate b = None \<and>
         contentDigest sha a = contentDigest sha (b :: Order)"
proof (intro exI conjI)
  let ?a = "ex_order\<lparr>od_Channel := ''x'' @ [CHR 0x00] @ ''big'', od_ProductID := ''gem''\<rparr>"
  let ?b = "ex_order\<lparr>od_Channel := ''x'', od_ProductID := ''big'' @ [CHR 0x00] @ ''gem''\<rparr>"
  show "od_OrderID ?a = od_OrderID ?b" "od_Channel ?a \<noteq> od_Channel ?b" "od_ProductID ?a \<noteq> od_ProductID ?b"
    by simp_all
  show "Order_Validate ?a = None" "Order_Validate ?b = None"
    by (simp_all add: Order_Validate_def bound_defs ex_order_def zero_order_def)
  show "contentDigest sha ?a = contentDigest sha ?b"
    by (simp add: contentDigest_def digest_fields_def)
qed

text \<open>Settling out of band does not hold against an attempt still in the deliverer. With the last
  attempt claimed and still running past its backoff, the order is exhausted by the next claim and
  settled by an operator; the attempt that then returns success turns it into a delivered order,
  the refund and the goods at once.\<close>

theorem settled_order_is_delivered:
  assumes "order_ok u" "order_Due u (Unix now)" "od_Attempts u + 1 = od_MaxAttempts u"
    and "Unix (Add now (backoff base (od_MaxAttempts u))) \<le> Unix later"
  shows "\<exists>s v. commits order_mutate [ClaimOp base now, ClaimOp base later, SettleOp note n] (Some u) = Some s \<and>
     od_State s = DeliverySettled \<and>
     commits order_mutate [DoneOp m] (Some s) = Some v \<and> od_State v = DeliveryDelivered"
proof -
  have r: "od_State u = DeliveryReserved" using assms(2) by (rule order_Due_reserved)
  have a: "i32 (od_Attempts u + 1) = od_MaxAttempts u" using assms(1,3) by (simp add: order_ok_def i32_id)
  have "od_Attempts u < od_MaxAttempts u" using assms(3) by simp
  then have 1: "order_mutate (ClaimOp base now) (Some u) = Save (claim_next base now u)"
    using r assms(2) by (simp add: claim_mutate_def)
  have due: "order_Due (claim_next base now u) (Unix later)"
    using r assms(4) a by (auto simp: order_Due_def Terminal_def claim_next_def Let_def)
  have 2: "order_mutate (ClaimOp base later) (Some (claim_next base now u)) =
      Save (expire_order (Unix later) (claim_next base now u))"
    using r due a by (simp add: claim_mutate_def claim_next_def Let_def)
  then show ?thesis using 1
    by (simp add: commit_def settle_order_def done_mutate_def expire_order_def)
qed

theorem settled_order_is_delivered_witness:
  "\<exists>s v. commits order_mutate [ClaimOp (5 * Second) (200 * Second), ClaimOp (5 * Second) (300 * Second),
        SettleOp ''refunded'' 301] (Some (ex_order\<lparr>od_Attempts := 1\<rparr>)) = Some s \<and>
     od_State s = DeliverySettled \<and> commits order_mutate [DoneOp 302] (Some s) = Some v \<and>
     od_State v = DeliveryDelivered"
  by (rule settled_order_is_delivered)
    (simp_all add: order_ok_def order_Due_def Terminal_def backoff_def Let_def plat_maxBackoffMultiplier_def
      Add_def Unix_def Second_def)

text \<open>The claim does not keep a second attempt out. It only holds the order for the backoff: while
  the first attempt is still in the deliverer, a claim after the backoff is granted too, so two
  attempts for one order are in flight together, which the service's comment rules out.\<close>

theorem two_attempts_in_flight:
  assumes "order_ok u" "order_Due u (Unix now)" "od_Attempts u + 2 \<le> od_MaxAttempts u"
    and "Unix (Add now (backoff base (od_Attempts u + 1))) \<le> Unix later"
  shows "grants [ClaimOp base now, ClaimOp base later] (Some u) = 2"
proof -
  have r: "od_State u = DeliveryReserved" using assms(2) by (rule order_Due_reserved)
  have a: "i32 (od_Attempts u + 1) = od_Attempts u + 1" using assms(1,3) by (simp add: order_ok_def i32_id)
  have 1: "order_mutate (ClaimOp base now) (Some u) = Save (claim_next base now u)"
    "granted (ClaimOp base now) (Some u)"
    using r assms(2,3) by (simp_all add: claim_mutate_def granted_def claim_result_def)
  have "order_Due (claim_next base now u) (Unix later)"
    using r assms(4) a by (auto simp: order_Due_def Terminal_def claim_next_def Let_def)
  then have "granted (ClaimOp base later) (Some (claim_next base now u))"
    using r a assms(3) by (simp add: granted_def claim_result_def claim_next_def Let_def)
  with 1 show ?thesis by (simp add: commit_def)
qed

theorem two_attempts_in_flight_witness:
  "grants [ClaimOp (5 * Second) (200 * Second), ClaimOp (5 * Second) (230 * Second)] (Some ex_order) = 2"
  by (rule two_attempts_in_flight)
    (simp_all add: order_ok_def order_Due_def Terminal_def backoff_def Let_def plat_maxBackoffMultiplier_def
      Add_def Unix_def Second_def)

text \<open>One bad order does not stop the retry loop: a tick attempts every order the index answered,
  in order, whatever the attempts before it ended with, and itself never fails.\<close>

theorem retry_attempts_all:
  assumes "pendingOrderIDs cfg w = (Inr ids, w1)"
  shows "retryPendingOnce cfg w = (Inr (), fold (\<lambda>k w. snd (retry_one cfg k w)) ids w1)"
  using assms forE_all [of "retry_one cfg" ids w1, OF retry_one_continues]
  by (simp add: retryPendingOnce_def bindE_def tryE_def)

theorem retry_attempts_all_witness:
  "pendingOrderIDs ex_pcfg ex_pworld = (Inr [], ex_pworld) \<and>
   retryPendingOnce ex_pcfg ex_pworld = (Inr (), ex_pworld)"
proof -
  have p: "pendingOrderIDs ex_pcfg ex_pworld = (Inr [], ex_pworld)"
    by (simp add: pendingOrderIDs_def ex_pcfg_def)
  with retry_attempts_all [OF p] show ?thesis by simp
qed

text \<open>An order that is owed is findable: an order that is due now and was neither paid nor created
  in the future is in the pending index under a score that has come, and an order in a terminal
  state is in no index.\<close>

theorem due_order_is_indexed:
  assumes "od_PaidAtUnix o' \<le> now" "od_CreatedAtUnix o' \<le> now"
  shows "(order_Due o' now \<longrightarrow> (\<exists>s. pendingIndexEntry o' = Some s \<and> s \<le> now)) \<and>
         (Terminal o' \<longleftrightarrow> pendingIndexEntry o' = None)"
  using assms by (auto simp: pendingIndexEntry_def order_Due_def Let_def)

theorem due_order_is_indexed_witness:
  "\<exists>s. pendingIndexEntry ex_order = Some s \<and> s \<le> 100"
  using due_order_is_indexed [of ex_order 100]
  by (simp add: order_Due_def Terminal_def) (simp add: ex_order_def)

text \<open>A session names a player the channel vouched for: \<open>AuthSession\<close> succeeds only when the
  verifier accepted this credential for the credential's own channel and the resolver answered a
  positive player, and the session is that player's.\<close>

theorem session_is_verified:
  assumes "AuthSession cfg credential w = (Inr s, w')"
  shows "\<exists>v x p. Credential_Validate credential = None \<and>
     pf_Verify cfg credential (pw_Outside w) = (Inr v, x) \<and> vf_Channel v = cr_Channel credential \<and>
     fst (pf_Resolve cfg v x) = Inr p \<and> 0 < p \<and> ss_PlayerID s = p \<and> ss_Channel s = cr_Channel credential"
proof -
  have c: "Credential_Validate credential = None"
    using assms by (cases "Credential_Validate credential") (auto simp: AuthSession_def guardE_def)
  obtain answer x where v: "pf_Verify cfg credential (pw_Outside w) = (answer, x)" by fastforce
  show ?thesis
  proof (cases answer)
    case (Inl e)
    with assms c v show ?thesis by (auto simp: AuthSession_def bindE_outside split: if_splits)
  next
    case (Inr ver)
    define w1 where "w1 = w\<lparr>pw_Outside := x\<rparr>"
    obtain resolved y where r: "pf_Resolve cfg ver x = (resolved, y)" by fastforce
    from assms c v Inr have ok: "Verified_Validate ver = None" "vf_Channel ver = cr_Channel credential"
      by (cases "Verified_Validate ver"; auto simp: AuthSession_def bindE_outside guardE_def split: if_splits)+
    with assms c v Inr r obtain p where p: "resolved = Inr p" "0 < p"
      by (cases resolved) (auto simp: AuthSession_def bindE_outside split: if_splits)
    with assms c v Inr r ok show ?thesis
      by (auto simp: AuthSession_def bindE_outside split: sum.splits)
  qed
qed

theorem session_is_verified_witness:
  "\<exists>s w' p. AuthSession ex_pcfg \<lparr>cr_Channel = ''store'', cr_OpenID = ''u1'', cr_Secret = ''pw''\<rparr> ex_pworld = (Inr s, w') \<and>
     ss_PlayerID s = p \<and> 0 < p \<and> ss_Channel s = ''store''"
proof -
  define c where "c = \<lparr>cr_Channel = ''store'', cr_OpenID = ''u1'', cr_Secret = ''pw''\<rparr>"
  have "\<exists>s w'. AuthSession ex_pcfg c ex_pworld = (Inr s, w')"
    by (simp add: AuthSession_def bindE_outside ex_pcfg_def c_def Credential_Validate_def Verified_Validate_def bound_defs)
  then obtain s w' where r: "AuthSession ex_pcfg c ex_pworld = (Inr s, w')" by blast
  from session_is_verified [OF r] r show ?thesis by (auto simp: c_def)
qed

end
