(* ===== verification/PlatformLiveness.thy ===== *)
theory PlatformLiveness
  imports PlatformProps
begin

text \<open>
  That a paid order settles: every answered attempt on an order that is due uses up a part of its budget, whatever
  fails in between and whoever else works on the order, so that only finitely many of them leave it open.
\<close>

section \<open>What one attempt commits\<close>

text \<open>Everything but the creation of a bad order and an operator's reopening.\<close>

definition quiet :: "order_op \<Rightarrow> bool" where
  "quiet a \<longleftrightarrow> order_allowed a \<and> (case a of ReopenOrderOp note n \<Rightarrow> False | _ \<Rightarrow> True)"

lemma quiet_simps [simp]:
  "quiet (ClaimOp base now)" "quiet (DoneOp n)" "quiet (FailOp cause n)" "quiet (SettleOp note n)"
  by (simp_all add: quiet_def)

lemma op_eqs:
  "claim_mutate base now = order_mutate (ClaimOp base now)"
  "done_mutate n = order_mutate (DoneOp n)"
  "failure_mutate cause n = order_mutate (FailOp cause n)"
  by (rule ext, simp)+

abbreviation (input) "order_in om w k \<equiv> value_at (om (pw_Orders w)) k"

lemma ordersUpdate_commit:
  assumes "vs_contract om (=) (pf_Orders cfg)" "ordersUpdate cfg k (order_mutate a) w = (r, w')"
  shows "pw_Outside w' = pw_Outside w"
    and "order_in om w' k = order_in om w k \<or> order_in om w' k = commit order_mutate a (order_in om w k)"
    and "r = Inr (calls, b) \<Longrightarrow> order_in om w' k = commit order_mutate a (order_in om w k) \<and>
           seen calls = order_in om w k"
  using assms(1,2) by (cases rule: mutateE_outcomes; auto simp: commit_def)+

lemma recordFailure_commit:
  assumes "vs_contract om (=) (pf_Orders cfg)" "recordFailure cfg k cause n w = (r, w')"
  shows "order_in om w' k = order_in om w k \<or> order_in om w' k = commit order_mutate (FailOp cause n) (order_in om w k)"
  using assms(2) unfolding recordFailure_def op_eqs
proof (cases rule: bindE_cases)
  case (error e)
  from ordersUpdate_commit(2) [OF assms(1) error(1)] show ?thesis .
next
  case (ok a w1)
  from ok(2) have "w' = w1" by (auto split: prod.splits)
  with ordersUpdate_commit(2) [OF assms(1) ok(1)] show ?thesis by simp
qed

lemma record_delivery_commit:
  assumes "vs_contract om (=) (pf_Orders cfg)" "record_delivery cfg k n d w = (r, w')"
  shows "\<exists>ops. list_all quiet ops \<and> order_in om w' k = commits order_mutate ops (order_in om w k)"
proof -
  have one: ?thesis if "quiet a"
    "order_in om w' k = order_in om w k \<or> order_in om w' k = commit order_mutate a (order_in om w k)" for a
    using that by (auto intro: exI [of _ "[]"] exI [of _ "[a]"])
  show ?thesis
  proof (cases d)
    case None
    with assms(2) have "bindE (ordersUpdate cfg k (done_mutate n)) (\<lambda>(calls, applied).
            let result = result_of (done_mutate n) zero_order (seen calls) in
            if done_mutate n (seen calls) = Keep
            then thenE (reportE (Conflict ''deliver'')) (retE (receipt result True True, None))
            else thenE (reportE (Accepted ''deliver'')) (retE (receipt result False True, None))) w = (r, w')"
      by (simp add: record_delivery_def)
    then show ?thesis
    proof (cases rule: bindE_cases)
      case (error e)
      from one [OF _ ordersUpdate_commit(2) [OF assms(1) error(1) [unfolded op_eqs]]] show ?thesis by simp
    next
      case (ok a w1)
      from ok(2) have "pw_Orders w' = pw_Orders w1" by (auto simp: Let_def split: prod.splits if_splits)
      with one [of "DoneOp n"] ordersUpdate_commit(2) [OF assms(1) ok(1) [unfolded op_eqs]] show ?thesis by simp
    qed
  next
    case (Some p)
    obtain e cause where p: "p = (e, cause)" by fastforce
    with assms(2) Some have "bindE (recordFailure cfg k cause n) (\<lambda>failed.
            if od_State failed = DeliveryExhausted
            then thenE (reportE (Dropped ''order.exhausted'' 1))
                   (retE (receipt failed False False, Some (ErrDeliveryExpired # e)))
            else thenE (reportE (Refused ''deliver'' ''failed''))
                   (retE (receipt failed False False, Some (ErrDeliveryFailed # e)))) w = (r, w')"
      by (simp add: record_delivery_def)
    then show ?thesis
    proof (cases rule: bindE_cases)
      case (error e)
      from one [OF _ recordFailure_commit [OF assms(1) error(1)]] show ?thesis by simp
    next
      case (ok a w1)
      from ok(2) have "pw_Orders w' = pw_Orders w1" by (auto split: if_splits)
      with one [of "FailOp cause n"] recordFailure_commit [OF assms(1) ok(1)] show ?thesis by simp
    qed
  qed
qed


lemma deliver_claimed_commit:
  assumes "vs_contract om (=) (pf_Orders cfg)" "deliver_claimed cfg k n c w = (r, w')"
  shows "\<exists>ops. list_all quiet ops \<and> order_in om w' k = commits order_mutate ops (order_in om w k)"
proof -
  obtain d x where "pf_Deliver cfg c (pw_Outside w) = (d, x)" by fastforce
  with assms(2) have "record_delivery cfg k n d (w\<lparr>pw_Outside := x\<rparr>) = (r, w')"
    by (simp add: deliver_claimed_def bindE_outside)
  from record_delivery_commit [OF assms(1) this] show ?thesis by simp
qed

text \<open>
  An attempt commits quiet operations only; when it was answered, the first of them is the claim, which it made
  against the record it found.
\<close>

lemma AttemptDelivery_commits:
  assumes "vs_contract om (=) (pf_Orders cfg)" "AttemptDelivery cfg k w = (r, w')"
  defines "claim \<equiv> ClaimOp (pf_DeliveryBackoff cfg) (pf_Now cfg (env_ticks w))"
  shows "\<exists>ops. list_all quiet ops \<and> order_in om w' k = commits order_mutate ops (order_in om w k) \<and>
    ((\<exists>a. r = Inr a) \<longrightarrow> (\<exists>rest. ops = claim # rest))"
proof (cases "blank k")
  case True
  with assms(2) show ?thesis by (auto simp: AttemptDelivery_def intro: exI [of _ "[]"])
next
  case False
  define now where "now = pf_Now cfg (env_ticks w)"
  define f where "f = claim_mutate (pf_DeliveryBackoff cfg) now"
  have f: "f = order_mutate claim" unfolding f_def now_def claim_def op_eqs ..
  define w0 where "w0 = w\<lparr>env_ticks := Suc (env_ticks w)\<rparr>"
  have w0: "pw_Orders w0 = pw_Orders w" by (simp add: w0_def)
  from assms(2) False have "bindE (ordersUpdate cfg k f) (\<lambda>(calls, applied).
      let claimed = result_of f zero_order (seen calls) in
      case claim_result now (seen calls) of
        IsSettled \<Rightarrow> retE (receipt claimed False False, Some [ErrOrderSettled])
      | AlreadyDelivered \<Rightarrow> thenE (reportE (Replayed ''deliver'')) (retE (receipt claimed True True, None))
      | JustExhausted \<Rightarrow> thenE (reportE (Dropped ''order.exhausted'' 1))
            (retE (receipt claimed False False, Some [ErrDeliveryExpired]))
      | AlreadyExhausted \<Rightarrow> thenE (reportE (Refused ''deliver'' ''exhausted''))
            (retE (receipt claimed False False, Some [ErrDeliveryExpired]))
      | IsHeld \<Rightarrow> thenE (reportE (Refused ''deliver'' ''held''))
            (retE (receipt claimed False False, Some [ErrDeliveryHeld]))
      | Claimed \<Rightarrow> deliver_claimed cfg k (Unix now) claimed) w0 = (r, w')"
    unfolding now_def w0_def f_def by (simp add: AttemptDelivery_def Let_def)
  then show ?thesis
  proof (cases rule: bindE_cases)
    case (error e)
    with ordersUpdate_commit(2) [OF assms(1) error(1) [unfolded f]] w0 show ?thesis
      by (auto simp: claim_def intro: exI [of _ "[]"] exI [of _ "[claim]"])
  next
    case (ok a w1)
    obtain calls b where a: "a = (calls, b)" by fastforce
    have w1: "order_in om w1 k = commit order_mutate claim (order_in om w k)"
      using ordersUpdate_commit(3) [OF assms(1) ok(1) [unfolded f a] refl] w0 by simp
    show ?thesis
    proof (cases "claim_result now (seen calls) = Claimed")
      case True
      with ok(2) a deliver_claimed_commit [OF assms(1)] obtain ops where
        "list_all quiet ops" "order_in om w' k = commits order_mutate ops (order_in om w1 k)" by force
      with w1 show ?thesis by (intro exI [of _ "claim # ops"]) (simp add: claim_def)
    next
      case False
      with ok(2) a have "pw_Orders w' = pw_Orders w1" by (cases "claim_result now (seen calls)") auto
      with w1 show ?thesis by (intro exI [of _ "[claim]"]) (simp add: claim_def)
    qed
  qed
qed

section \<open>What is left of a budget\<close>

text \<open>The answered attempts an open order can still take: its budget, and the one that records its end.\<close>

definition attempts_left :: "Order \<Rightarrow> int" where
  "attempts_left u = (if Terminal u then 0 else od_MaxAttempts u - od_Attempts u + 1)"

lemma attempt_quiet_step:
  assumes "order_ok u" "quiet a" "commit order_mutate a (Some u) = Some v"
  shows "order_ok v \<and> attempts_left v \<le> attempts_left u"
proof (cases "order_mutate a (Some u)")
  case (Save z)
  with assms(3) have z: "order_mutate a (Some u) = Save v" by (simp add: commit_def)
  have "attempts_left v \<le> attempts_left u"
    using assms(1,2) z
    by (cases a) (auto simp: attempts_left_def Terminal_def order_ok_def order_mutate_defs quiet_def Let_def i32_id
        split: if_splits)
  with order_save_step(1) [OF assms(1) z] show ?thesis by simp
qed (use assms in \<open>auto simp: commit_def\<close>)

lemma attempt_quiet_run:
  "order_ok u \<Longrightarrow> list_all quiet ops \<Longrightarrow> commits order_mutate ops (Some u) = Some v \<Longrightarrow>
   order_ok v \<and> attempts_left v \<le> attempts_left u"
proof (induction ops arbitrary: u)
  case (Cons a ops)
  obtain z where z: "commit order_mutate a (Some u) = Some z"
    using commit_Some [of order_mutate a u] by blast
  have q: "quiet a" "list_all quiet ops" "commits order_mutate ops (Some z) = Some v"
    using Cons.prems(2,3) z by simp_all
  from attempt_quiet_step [OF Cons.prems(1) q(1) z] Cons.IH [OF _ q(2,3)] show ?case by fastforce
qed auto

lemma due_claim_step:
  assumes "order_ok u" "order_Due u (Unix now)" "commit order_mutate (ClaimOp base now) (Some u) = Some v"
  shows "order_ok v \<and> attempts_left v < attempts_left u"
proof -
  have r: "od_State u = DeliveryReserved" using assms(2) by (rule order_Due_reserved)
  then have "attempts_left v < attempts_left u"
    using assms
    by (auto simp: attempts_left_def Terminal_def commit_def order_ok_def order_mutate_defs Let_def i32_id
        split: if_splits)
  with attempt_quiet_step [OF assms(1) _ assms(3)] show ?thesis by simp
qed

section \<open>Retries under interference\<close>

text \<open>
  A history of the order \<open>k\<close> with \<open>n\<close> answered attempts that found it due. Between them attempts may fail or be
  answered otherwise, time passes, and others (callbacks, other processes, an operator who settles) commit what
  they like, short of reopening the order.
\<close>

definition due_at :: "('x, 'o) PlatformConfig \<Rightarrow> ('x \<Rightarrow> (string, Order) contents) \<Rightarrow> string \<Rightarrow> ('x, 'o) pworld \<Rightarrow> bool" where
  "due_at cfg om k w \<longleftrightarrow>
     (case order_in om w k of None \<Rightarrow> False | Some u \<Rightarrow> order_Due u (Unix (pf_Now cfg (env_ticks w))))"

inductive retries ::
  "('x, 'o) PlatformConfig \<Rightarrow> ('x \<Rightarrow> (string, Order) contents) \<Rightarrow> string \<Rightarrow> nat \<Rightarrow>
   ('x, 'o) pworld \<Rightarrow> ('x, 'o) pworld \<Rightarrow> bool" for cfg om k where
  start: "retries cfg om k 0 w w"
| others: "retries cfg om k n w w1 \<Longrightarrow> list_all quiet ops \<Longrightarrow>
    order_in om w2 k = commits order_mutate ops (order_in om w1 k) \<Longrightarrow> retries cfg om k n w w2"
| attempt: "retries cfg om k n w w1 \<Longrightarrow> AttemptDelivery cfg k w1 = (r, w2) \<Longrightarrow> retries cfg om k n w w2"
| answered: "retries cfg om k n w w1 \<Longrightarrow> due_at cfg om k w1 \<Longrightarrow> AttemptDelivery cfg k w1 = (Inr a, w2) \<Longrightarrow>
    retries cfg om k (Suc n) w w2"

lemma answered_attempt:
  assumes "vs_contract om (=) (pf_Orders cfg)" "AttemptDelivery cfg k w = (r, w')"
    and "order_in om w k = Some u" "order_ok u"
  shows "\<exists>v. order_in om w' k = Some v \<and> order_ok v \<and> attempts_left v \<le> attempts_left u \<and>
    (due_at cfg om k w \<and> (\<exists>a. r = Inr a) \<longrightarrow> attempts_left v < attempts_left u)"
proof -
  define claim where "claim = ClaimOp (pf_DeliveryBackoff cfg) (pf_Now cfg (env_ticks w))"
  from AttemptDelivery_commits [OF assms(1,2), unfolded assms(3), folded claim_def]
  obtain ops where ops': "list_all quiet ops \<and> order_in om w' k = commits order_mutate ops (Some u) \<and>
      ((\<exists>a. r = Inr a) \<longrightarrow> (\<exists>rest. ops = claim # rest))"
    by (rule exE)
  note ops = conjunct1 [OF ops'] conjunct1 [OF conjunct2 [OF ops']] conjunct2 [OF conjunct2 [OF ops']]
  obtain v where v: "commits order_mutate ops (Some u) = Some v" using commits_Some [of order_mutate ops u] by blast
  have "attempts_left v < attempts_left u" if due: "due_at cfg om k w" and ans: "\<exists>a. r = Inr a"
  proof -
    obtain rest z where rest: "ops = claim # rest" and z: "commit order_mutate claim (Some u) = Some z"
      using ans ops(3) commit_Some [of order_mutate claim u] by blast
    have "order_Due u (Unix (pf_Now cfg (env_ticks w)))" using due assms(3) by (simp add: due_at_def)
    from due_claim_step [OF assms(4) this z [unfolded claim_def]]
    have "order_ok z" "attempts_left z < attempts_left u" by simp_all
    moreover have "list_all quiet rest" "commits order_mutate rest (Some z) = Some v"
      using ops(1) v rest z by simp_all
    ultimately show ?thesis using attempt_quiet_run [of z rest v] by simp
  qed
  with attempt_quiet_run [OF assms(4) ops(1) v] ops(2) v show ?thesis by simp
qed

lemma retries_left:
  assumes "retries cfg om k n w w'" "vs_contract om (=) (pf_Orders cfg)" "order_in om w k = Some u" "order_ok u"
  shows "\<exists>v. order_in om w' k = Some v \<and> order_ok v \<and> int n + attempts_left v \<le> attempts_left u"
  using assms(1,3)
proof (induction rule: retries.induct)
  case (start w)
  with assms(4) show ?case by simp
next
  case (others n w w1 ops w2)
  then obtain v1 where v1: "order_in om w1 k = Some v1" "order_ok v1" "int n + attempts_left v1 \<le> attempts_left u"
    by blast
  obtain v where v: "commits order_mutate ops (Some v1) = Some v" using commits_Some [of order_mutate ops v1] by blast
  from attempt_quiet_run [OF v1(2) others.hyps(2) v] v v1 others.hyps(3) show ?case by auto
next
  case (attempt n w w1 r w2)
  then obtain v1 where v1: "order_in om w1 k = Some v1" "order_ok v1" "int n + attempts_left v1 \<le> attempts_left u"
    by blast
  from answered_attempt [OF assms(2) attempt.hyps(2) v1(1,2)] v1(3) show ?case by fastforce
next
  case (answered n w w1 a w2)
  then obtain v1 where v1: "order_in om w1 k = Some v1" "order_ok v1" "int n + attempts_left v1 \<le> attempts_left u"
    by blast
  from answered_attempt [OF assms(2) answered.hyps(3) v1(1,2)] answered.hyps(2) v1(3) show ?case by fastforce
qed

lemma attempts_left_nonneg: "order_ok u \<Longrightarrow> 0 \<le> attempts_left u \<and> (attempts_left u = 0 \<longleftrightarrow> Terminal u)"
  by (auto simp: attempts_left_def order_ok_def)

section \<open>Property\<close>

text \<open>C23: an owed order settles. Whatever else happens to it short of a reopening (failed attempts, claims lost
  with their process, other processes, an operator), at most as many answered attempts find it due as its budget
  has left and one more; after so many it is delivered, exhausted or settled. As long as it is none of these, it
  comes due again, at the latest at its stored retry time.\<close>

theorem due_order_settles:
  assumes "retries cfg om k n w w'" "vs_contract om (=) (pf_Orders cfg)"
    and "value_at (om (pw_Orders w)) k = Some u" "order_ok u"
  shows "int n \<le> od_MaxAttempts u - od_Attempts u + 1 \<and>
    (\<exists>v. value_at (om (pw_Orders w')) k = Some v \<and>
      (Terminal v \<or> int n \<le> od_MaxAttempts u - od_Attempts u \<and> (\<forall>t \<ge> od_NextAttemptAtUnix v. order_Due v t)))"
proof -
  obtain v where v: "order_in om w' k = Some v" "order_ok v" "int n + attempts_left v \<le> attempts_left u"
    using retries_left [OF assms] by blast
  have "attempts_left u \<le> od_MaxAttempts u - od_Attempts u + 1"
    using assms(4) by (simp add: attempts_left_def order_ok_def)
  moreover have "0 < attempts_left v" if "\<not> Terminal v"
    using that attempts_left_nonneg [OF v(2)] by linarith
  moreover have "0 \<le> attempts_left v" using attempts_left_nonneg [OF v(2)] by blast
  ultimately show ?thesis using v by (auto simp: order_Due_def)
qed

text \<open>A deliverer that always refuses: the two attempts of the example order use its budget up.\<close>

definition ex_refusing :: "((string, Order) mem, Order list) PlatformConfig" where
  "ex_refusing = ex_pcfg\<lparr>pf_Deliver := (\<lambda>o' log. (Some ([Foreign ''down''], ''down''), log @ [o'])),
     pf_Now := (\<lambda>n. (100 + 20 * int n) * Second)\<rparr>"

lemma ex_refusing_contract [simp]: "vs_contract mem_map (=) (pf_Orders ex_refusing)"
  by (simp add: ex_refusing_def)

lemmas attempt_run = AttemptDelivery_def deliver_claimed_def outsideE_def record_delivery_def recordFailure_def
  claim_mutate_def claim_result_def claim_next_def failure_mutate_def failure_next_def result_of_def seen_def
  order_Due_def Terminal_def Let_def handler_simps mem_eval

text \<open>The example order after one refused attempt, held until five seconds later.\<close>

definition ex_refused :: Order where
  "ex_refused = ex_order\<lparr>od_Attempts := 1, od_NextAttemptAtUnix := 105, od_UpdatedAtUnix := 100, od_LastError := ''down''\<rparr>"

lemma i32_small: "i32 1 = 1" "i32 2 = 2"
  by (simp_all add: i32_id)

lemmas attempt_times = i32_small backoff_def plat_maxBackoffMultiplier_def Add_def Unix_def Second_def plat_truncate_def

lemma ex_first_refusal:
  "\<exists>a w1. AttemptDelivery ex_refusing ''o1'' ex_pworld = (Inr a, w1) \<and> env_ticks w1 = 1 \<and>
     value_at (mem_map (pw_Orders w1)) ''o1'' = Some ex_refused"
  by (simp add: attempt_run attempt_times ex_refusing_def ex_pcfg_def ex_pworld_def ex_refused_def)

lemma ex_second_refusal:
  assumes "env_ticks w1 = 1" "value_at (mem_map (pw_Orders w1)) ''o1'' = Some ex_refused"
  shows "due_at ex_refusing mem_map ''o1'' w1"
  using assms by (simp add: due_at_def order_Due_def Terminal_def ex_refused_def ex_refusing_def attempt_times)

theorem due_order_settles_witness:
  "\<exists>w' v. retries ex_refusing mem_map ''o1'' 1 ex_pworld w' \<and> due_at ex_refusing mem_map ''o1'' w' \<and>
     value_at (mem_map (pw_Orders w')) ''o1'' = Some v \<and> od_Attempts v = 1 \<and> order_Due v 105"
proof -
  obtain a w1 where w1: "AttemptDelivery ex_refusing ''o1'' ex_pworld = (Inr a, w1)" "env_ticks w1 = 1"
    "value_at (mem_map (pw_Orders w1)) ''o1'' = Some ex_refused" using ex_first_refusal by blast
  have u: "value_at (mem_map (pw_Orders ex_pworld)) ''o1'' = Some ex_order"
    by (simp add: ex_pworld_def mem_of_def value_at_def)
  then have "due_at ex_refusing mem_map ''o1'' ex_pworld"
    by (simp add: due_at_def order_Due_def Terminal_def)
  then have h: "retries ex_refusing mem_map ''o1'' (Suc 0) ex_pworld w1"
    by (rule retries.answered [OF retries.start _ w1(1)])
  from due_order_settles [OF h ex_refusing_contract u ex_order_ok] w1(3)
  have "order_Due ex_refused 105" by (auto simp: ex_refused_def Terminal_def)
  with h ex_second_refusal [OF w1(2,3)] w1(3) show ?thesis
    by (intro exI [of _ w1] exI [of _ ex_refused]) (simp add: ex_refused_def)
qed

end
