(* ===== verification/Utf8.thy ===== *)
theory Utf8
  imports Prelude
begin

text \<open>
  What the services use of \<open>unicode/utf8\<close>: decoding the first rune of a byte string, validity and
  the rune count, as in Go (an invalid byte decodes to U+FFFD with width one).
\<close>

definition cont :: "nat \<Rightarrow> bool" where
  "cont b \<longleftrightarrow> 128 \<le> b \<and> b < 192"

text \<open>The rune at the head of a byte sequence and its width, if the encoding is valid.\<close>

definition decode_wide :: "nat \<Rightarrow> nat list \<Rightarrow> (int \<times> nat) option" where
  "decode_wide a rest =
     (case rest of
        [] \<Rightarrow> None
      | b # bs \<Rightarrow>
          if 194 \<le> a \<and> a < 224
          then if cont b then Some (int ((a - 192) * 64 + (b - 128)), 2) else None
          else case bs of
            [] \<Rightarrow> None
          | c # cs \<Rightarrow>
              if 224 \<le> a \<and> a < 240
              then if (if a = 224 then 160 else 128) \<le> b \<and> b < (if a = 237 then 160 else 192) \<and> cont c
                   then Some (int ((a - 224) * 4096 + (b - 128) * 64 + (c - 128)), 3) else None
              else case cs of
                [] \<Rightarrow> None
              | d # ds \<Rightarrow>
                  if 240 \<le> a \<and> a < 245 \<and> (if a = 240 then 144 else 128) \<le> b
                     \<and> b < (if a = 244 then 144 else 192) \<and> cont c \<and> cont d
                  then Some (int ((a - 240) * 262144 + (b - 128) * 4096 + (c - 128) * 64 + (d - 128)), 4)
                  else None)"

definition decode_rune :: "nat list \<Rightarrow> (int \<times> nat) option" where
  "decode_rune s =
     (case s of [] \<Rightarrow> None
      | a # rest \<Rightarrow> if a < 128 then Some (int a, 1) else decode_wide a rest)"

definition rune_width :: "nat list \<Rightarrow> nat" where
  "rune_width s = (case decode_rune s of None \<Rightarrow> 1 | Some (r, n) \<Rightarrow> n)"

lemma rune_width_pos: "0 < rune_width s"
  by (auto simp: rune_width_def decode_rune_def decode_wide_def split: option.split list.split if_splits)

text \<open>The runes a \<open>for range\<close> loop sees; \<open>None\<close> is the replacement for an invalid byte.\<close>

function decode_runes :: "nat list \<Rightarrow> int option list" where
  "decode_runes s =
     (if s = [] then [] else map_option fst (decode_rune s) # decode_runes (drop (rune_width s) s))"
  by pat_completeness auto
termination
proof (relation "measure length")
  fix s :: "nat list"
  assume "s \<noteq> []"
  then show "(drop (rune_width s) s, s) \<in> measure length"
    using rune_width_pos [of s] by (cases s) simp_all
qed simp

declare decode_runes.simps [simp del]

definition RuneError :: int where "RuneError = 65533"

definition runes :: "string \<Rightarrow> int list" where
  "runes s = map (\<lambda>r. case r of None \<Rightarrow> RuneError | Some c \<Rightarrow> c) (decode_runes (map of_char s))"

definition ValidString :: "string \<Rightarrow> bool" where
  "ValidString s \<longleftrightarrow> list_all (\<lambda>r. r \<noteq> None) (decode_runes (map of_char s))"

definition RuneCount :: "string \<Rightarrow> int" where
  "RuneCount s = int (length (decode_runes (map of_char s)))"

lemma decode_runes_ascii: "list_all (\<lambda>b. b < 128) s \<Longrightarrow> decode_runes s = map (\<lambda>b. Some (int b)) s"
proof (induction s)
  case (Cons a s)
  then show ?case
    by (subst decode_runes.simps) (simp add: rune_width_def decode_rune_def)
qed (simp add: decode_runes.simps)

lemma ascii_valid: "list_all (\<lambda>c. (of_char c :: nat) < 128) s \<Longrightarrow> ValidString s"
  using decode_runes_ascii [of "map of_char s"] by (simp add: ValidString_def list_all_iff)

lemma RuneCount_ascii:
  "list_all (\<lambda>c. (of_char c :: nat) < 128) s \<Longrightarrow> RuneCount s = int (length s)"
  using decode_runes_ascii [of "map of_char s"] by (simp add: RuneCount_def list_all_iff)

lemma RuneCount_le: "RuneCount s \<le> int (length s)"
proof -
  have "length (decode_runes b) \<le> length b" for b
  proof (induction b rule: decode_runes.induct)
    case (1 s)
    have "length (drop (rune_width s) s) < length s" if "s \<noteq> []"
      using that rune_width_pos [of s] by (cases s) simp_all
    with 1 show ?case by (subst decode_runes.simps) auto
  qed
  from this [of "map of_char s"] show ?thesis by (simp add: RuneCount_def)
qed

end
