(* ===== verification/Chat.thy ===== *)
theory Chat
  imports VersionStore Utf8 "HOL-Library.AList"
begin

text \<open>
  Package \<open>service/chat\<close> (\<open>chat.go\<close>, \<open>store.go\<close>, \<open>service.go\<close>, the retention tick of
  \<open>server_run.go\<close>): channels as rules held in a table, messages stored in a bounded ring with the
  sequence and the idempotency ledger in one versioned record, history pages in both directions,
  pruning by age, and the privileged publish. The policy, the body validators and the system
  authenticator are supplied by the deployment and are parameters; they share a state of their own.
\<close>

section \<open>Errors and bounds (chat.go)\<close>

abbreviation "ErrChannelInvalid \<equiv> Coded 580101"
abbreviation "ErrSenderInvalid \<equiv> Coded 580102"
abbreviation "ErrMessageInvalid \<equiv> Coded 580103"
abbreviation "ErrTypeUnknown \<equiv> Coded 580104"
abbreviation "ErrNotPermitted \<equiv> Coded 580105"
abbreviation "ErrChatRequestInvalid \<equiv> Coded 580106"
abbreviation "ErrCursorInvalid \<equiv> Coded 580107"
abbreviation "ErrChatRangeInvalid \<equiv> Coded 580108"
abbreviation "ErrSystemDenied \<equiv> Coded 580109"
abbreviation "ErrAlreadyPublished \<equiv> Coded 580110"
abbreviation "ErrChatConflict \<equiv> Coded 580111"

definition ChatError :: "(gerr \<Rightarrow> int \<times> string) \<Rightarrow> gerr option \<Rightarrow> int \<times> string" where
  "ChatError clientError err =
     (case err of None \<Rightarrow> (0, [])
      | Some e \<Rightarrow> if Is e StoreConflict then clientError [ErrChatConflict] else clientError e)"

definition ChatCode :: "(gerr \<Rightarrow> int \<times> string) \<Rightarrow> gerr option \<Rightarrow> int" where
  "ChatCode clientError err = fst (ChatError clientError err)"

definition MaxBodyBytes :: int where [bound_defs]: "MaxBodyBytes = 4096"
definition MaxSenderNameBytes :: nat where [bound_defs]: "MaxSenderNameBytes = 64"
definition MaxActorBytes :: nat where [bound_defs]: "MaxActorBytes = 64"
definition MaxRequestIDBytes :: nat where [bound_defs]: "MaxRequestIDBytes = 128"
definition ChatMaxPageSize :: int where [bound_defs]: "ChatMaxPageSize = 200"
definition DefaultRetain :: int where [bound_defs]: "DefaultRetain = 200"
definition MaxRetain :: int where [bound_defs]: "MaxRetain = 1000"
definition MaxRequestKeys :: int where [bound_defs]: "MaxRequestKeys = 2048"

section \<open>Channel rules\<close>

type_synonym ChannelKind = string

definition ChannelWorld :: ChannelKind where "ChannelWorld = ''world''"
definition ChannelGroup :: ChannelKind where "ChannelGroup = ''group''"
definition ChannelPrivate :: ChannelKind where "ChannelPrivate = ''private''"
definition ChannelSystem :: ChannelKind where "ChannelSystem = ''system''"

text \<open>A scope is a string; the two that have a meaning are constructors.\<close>

datatype ChannelScope = ScopeShared | ScopePair | ScopeUnknown string

record ChannelRule =
  rl_Kind :: ChannelKind
  rl_RequiresTarget :: bool
  rl_Scope :: ChannelScope
  rl_SystemOnly :: bool
  rl_Retain :: int

definition ChannelRule_validate :: "ChannelRule \<Rightarrow> gerr option" where
  "ChannelRule_validate r =
     (if blank (rl_Kind r) then Some [ErrChannelInvalid]
      else case rl_Scope r of
        ScopeUnknown _ \<Rightarrow> Some [ErrChannelInvalid]
      | scope \<Rightarrow>
          if scope = ScopePair \<and> \<not> rl_RequiresTarget r then Some [ErrChannelInvalid]
          else if rl_Retain r < 0 then Some [ErrChannelInvalid]
          else if rl_Retain r > MaxRetain then Some [ErrChannelInvalid]
          else None)"

definition DefaultChannelRules :: "ChannelRule list" where
  "DefaultChannelRules =
     [\<lparr>rl_Kind = ChannelWorld, rl_RequiresTarget = True, rl_Scope = ScopeShared, rl_SystemOnly = False,
       rl_Retain = DefaultRetain\<rparr>,
      \<lparr>rl_Kind = ChannelGroup, rl_RequiresTarget = True, rl_Scope = ScopeShared, rl_SystemOnly = False,
       rl_Retain = DefaultRetain\<rparr>,
      \<lparr>rl_Kind = ChannelPrivate, rl_RequiresTarget = True, rl_Scope = ScopePair, rl_SystemOnly = False,
       rl_Retain = DefaultRetain\<rparr>,
      \<lparr>rl_Kind = ChannelSystem, rl_RequiresTarget = False, rl_Scope = ScopeShared, rl_SystemOnly = True,
       rl_Retain = 100\<rparr>]"

type_synonym ruleTable = "ChannelKind \<rightharpoonup> ChannelRule"

fun table_loop :: "ruleTable \<Rightarrow> ChannelRule list \<Rightarrow> gerr + ruleTable" where
  "table_loop t [] = Inr t"
| "table_loop t (rule # rest) =
     (case ChannelRule_validate rule of
        Some err \<Rightarrow> Inl err
      | None \<Rightarrow>
          let rule = (if rl_Retain rule = 0 then rule\<lparr>rl_Retain := DefaultRetain\<rparr> else rule)
          in table_loop (t(rl_Kind rule \<mapsto> rule)) rest)"

definition newRuleTable :: "ChannelRule list \<Rightarrow> gerr + ruleTable" where
  "newRuleTable overrides = table_loop Map.empty (DefaultChannelRules @ overrides)"

definition rule_lookup :: "ruleTable \<Rightarrow> ChannelKind \<Rightarrow> gerr + ChannelRule" where
  "rule_lookup t kind = (case t kind of None \<Rightarrow> Inl [ErrChannelInvalid] | Some rule \<Rightarrow> Inr rule)"

section \<open>Channels and streams\<close>

record Channel =
  ch_Kind :: ChannelKind
  ch_Target :: int

definition Channel_String :: "Channel \<Rightarrow> string" where
  "Channel_String c = ch_Kind c @ '':'' @ FormatInt (ch_Target c)"

definition Channel_validate :: "Channel \<Rightarrow> ChannelRule \<Rightarrow> int \<Rightarrow> gerr option" where
  "Channel_validate c rule participant =
     (if ch_Kind c \<noteq> rl_Kind rule then Some [ErrChannelInvalid]
      else if ch_Target c < 0 then Some [ErrChannelInvalid]
      else if rl_RequiresTarget rule \<and> ch_Target c = 0 then Some [ErrChannelInvalid]
      else if rl_Scope rule = ScopePair then
        if participant \<le> 0 then Some [ErrChannelInvalid]
        else if ch_Target c = participant then Some [ErrChannelInvalid]
        else None
      else None)"

record ChannelRef =
  rf_Kind :: ChannelKind
  rf_key :: string

definition ref_valid :: "ChannelRef \<Rightarrow> bool" where
  "ref_valid r \<longleftrightarrow> rf_key r \<noteq> []"

definition resolveRef :: "Channel \<Rightarrow> ChannelRule \<Rightarrow> int \<Rightarrow> gerr + ChannelRef" where
  "resolveRef ch rule participant =
     (case Channel_validate ch rule participant of
        Some err \<Rightarrow> Inl err
      | None \<Rightarrow>
          (case rl_Scope rule of
             ScopeShared \<Rightarrow>
               Inr \<lparr>rf_Kind = ch_Kind ch, rf_key = ch_Kind ch @ '':'' @ FormatInt (ch_Target ch)\<rparr>
           | ScopePair \<Rightarrow>
               let (low, high) = (if participant > ch_Target ch then (ch_Target ch, participant)
                                  else (participant, ch_Target ch))
               in Inr \<lparr>rf_Kind = ch_Kind ch,
                       rf_key = ch_Kind ch @ '':'' @ FormatInt low @ '':'' @ FormatInt high\<rparr>
           | ScopeUnknown _ \<Rightarrow> Inl [ErrChannelInvalid]))"

section \<open>Senders, messages and requests\<close>

record Sender =
  sd_RoleID :: int
  sd_Name :: string

definition Sender_validate :: "Sender \<Rightarrow> gerr option" where
  "Sender_validate s =
     (if sd_RoleID s \<le> 0 then Some [ErrSenderInvalid]
      else if length (sd_Name s) > MaxSenderNameBytes then Some [ErrSenderInvalid]
      else if \<not> ValidString (sd_Name s) then Some [ErrSenderInvalid]
      else None)"

datatype Origin = OriginRole | OriginSystem

type_synonym MessageType = string

record Message =
  ms_Seq :: int
  ms_Channel :: Channel
  ms_From :: Sender
  ms_Origin :: Origin
  ms_Type :: MessageType
  ms_Body :: string
  ms_RequestID :: string
  ms_StoredAtUnix :: int

record PublishRequest =
  pq_Channel :: Channel
  pq_Type :: MessageType
  pq_Body :: string
  pq_RequestID :: string

record SystemPublishRequest =
  sq_Channel :: Channel
  sq_Actor :: string
  sq_Type :: MessageType
  sq_Body :: string
  sq_RequestID :: string

record HistoryQuery =
  hq_Channel :: Channel
  hq_AfterSeq :: int
  hq_BeforeSeq :: int
  hq_Limit :: int

definition HistoryQuery_validate :: "HistoryQuery \<Rightarrow> gerr option" where
  "HistoryQuery_validate q =
     (if hq_AfterSeq q > 0 \<and> hq_BeforeSeq q > 0 then Some [ErrCursorInvalid]
      else if hq_Limit q \<le> 0 then Some [ErrChatRangeInvalid]
      else if hq_Limit q > ChatMaxPageSize then Some [ErrChatRangeInvalid]
      else None)"

record ChatPage =
  pg_Messages :: "Message list"
  pg_NextCursor :: int
  pg_PrevCursor :: int
  pg_HasMore :: bool
  pg_Gap :: bool
  pg_OldestSeq :: int
  pg_LatestSeq :: int

record ChatStats =
  st_Retained :: int
  st_OldestSeq :: int
  st_LatestSeq :: int
  st_Evicted :: int
  st_RequestKeys :: int

definition validateRequestID :: "string \<Rightarrow> gerr option" where
  "validateRequestID requestID =
     (if blank requestID then Some [ErrChatRequestInvalid]
      else if length requestID > MaxRequestIDBytes then Some [ErrChatRequestInvalid]
      else if \<not> ValidString requestID then Some [ErrChatRequestInvalid]
      else None)"

definition validateActor :: "string \<Rightarrow> gerr option" where
  "validateActor actor =
     (if blank actor then Some [ErrSenderInvalid]
      else if length actor > MaxActorBytes then Some [ErrSenderInvalid]
      else if \<not> ValidString actor then Some [ErrSenderInvalid]
      else None)"

definition denied :: "gerr option \<Rightarrow> gerr" where
  "denied cause = (case cause of None \<Rightarrow> [ErrNotPermitted] | Some e \<Rightarrow> ErrNotPermitted # e)"

definition publishOp :: "ChannelKind \<Rightarrow> string" where
  "publishOp kind = ''publish.'' @ kind"

section \<open>The policy and the body registry\<close>

text \<open>A policy decides on a state of its own; an unset half of \<open>PolicyFuncs\<close> denies.\<close>

type_synonym 'o policy = "Sender \<Rightarrow> Channel \<Rightarrow> 'o \<Rightarrow> gerr option \<times> 'o"

definition policy_func :: "'o policy option \<Rightarrow> 'o policy" where
  "policy_func f = (case f of None \<Rightarrow> \<lambda>from ch x. (Some [ErrNotPermitted], x) | Some g \<Rightarrow> g)"

record BodySpec =
  bs_Validator :: "(string \<Rightarrow> gerr option) option"
  bs_MaxBytes :: int
  bs_SystemOnly :: bool
  bs_AllowEmpty :: bool

type_synonym BodyRegistry = "MessageType \<rightharpoonup> BodySpec"

definition NewBodyRegistry :: BodyRegistry where
  "NewBodyRegistry = Map.empty"

definition Register :: "BodyRegistry \<Rightarrow> MessageType \<Rightarrow> BodySpec \<Rightarrow> gerr + BodyRegistry" where
  "Register r messageType spec =
     (if blank messageType then Inl [ErrTypeUnknown]
      else if bs_Validator spec = None then Inl [ErrMessageInvalid]
      else if bs_MaxBytes spec < 0 \<or> bs_MaxBytes spec > MaxBodyBytes then Inl [ErrMessageInvalid]
      else let spec = (if bs_MaxBytes spec = 0 then spec\<lparr>bs_MaxBytes := MaxBodyBytes\<rparr> else spec)
           in if r messageType \<noteq> None then Inl [ErrChatConflict]
              else Inr (r(messageType \<mapsto> spec)))"

definition body_lookup :: "BodyRegistry \<Rightarrow> MessageType \<Rightarrow> gerr + BodySpec" where
  "body_lookup r messageType =
     (case r messageType of None \<Rightarrow> Inl [ErrTypeUnknown] | Some spec \<Rightarrow> Inr spec)"

text \<open>A registered type has a validator, so the call is on a present one.\<close>

definition validateBody :: "MessageType \<Rightarrow> BodySpec \<Rightarrow> string \<Rightarrow> gerr option" where
  "validateBody messageType spec body =
     (if length body = 0 \<and> \<not> bs_AllowEmpty spec then Some [ErrMessageInvalid]
      else if int (length body) > bs_MaxBytes spec then Some [ErrMessageInvalid]
      else if int (length body) > MaxBodyBytes then Some [ErrMessageInvalid]
      else case bs_Validator spec of
        None \<Rightarrow> None
      | Some validate \<Rightarrow> (case validate body of Some err \<Rightarrow> Some (ErrMessageInvalid # err) | None \<Rightarrow> None))"

definition TextValidator :: "int \<Rightarrow> string \<Rightarrow> gerr option" where
  "TextValidator maxRunes body =
     (if maxRunes \<le> 0 then Some [Foreign ''text validator: max runes must be positive'']
      else if \<not> ValidString body then Some [Foreign ''text is not valid utf-8'']
      else if RuneCount body > maxRunes then Some [Foreign ''text is too long'']
      else if list_ex (\<lambda>r. r < 32 \<and> r \<noteq> 10 \<and> r \<noteq> 9) (runes body)
           then Some [Foreign ''text contains control character'']
      else None)"

datatype SystemToken = SystemToken (token_granted: bool)

definition GrantSystem :: SystemToken where
  "GrantSystem = SystemToken True"

section \<open>The state of a channel (store.go)\<close>

text \<open>
  The ledger of idempotency keys is a Go map; it is kept as an association list with distinct
  keys, in insertion order. \<open>clone\<close> is the identity on values.
\<close>

record channelState =
  cs_LastSeq :: int
  cs_Ring :: "Message list"
  cs_Requests :: "(string \<times> int) list"
  cs_Evicted :: int

definition zero_channel :: channelState where
  "zero_channel = \<lparr>cs_LastSeq = 0, cs_Ring = [], cs_Requests = [], cs_Evicted = 0\<rparr>"

text \<open>\<open>sort.Search\<close>: the binary search of the standard library.\<close>

function search_loop :: "(nat \<Rightarrow> bool) \<Rightarrow> nat \<Rightarrow> nat \<Rightarrow> nat" where
  "search_loop f i j =
     (if i < j then
        let h = (i + j) div 2
        in if \<not> f h then search_loop f (h + 1) j else search_loop f i h
      else i)"
  by pat_completeness auto
termination
  by (relation "measure (\<lambda>(f, i, j). j - i)") auto

declare search_loop.simps [simp del]

definition Search :: "nat \<Rightarrow> (nat \<Rightarrow> bool) \<Rightarrow> nat" where
  "Search n f = search_loop f 0 n"

definition channel_find :: "channelState \<Rightarrow> int \<Rightarrow> Message option" where
  "channel_find s sq =
     (let index = Search (length (cs_Ring s)) (\<lambda>i. ms_Seq (cs_Ring s ! i) \<ge> sq)
      in if index < length (cs_Ring s) \<and> ms_Seq (cs_Ring s ! index) = sq
         then Some (cs_Ring s ! index) else None)"

definition oldestSeq :: "channelState \<Rightarrow> int" where
  "oldestSeq s = (case cs_Ring s of [] \<Rightarrow> 0 | m # _ \<Rightarrow> ms_Seq m)"

definition requestKeyBudget :: "int \<Rightarrow> int" where
  "requestKeyBudget retain =
     (let budget = retain * 2;
          budget = (if budget < DefaultRetain then DefaultRetain else budget)
      in if budget > MaxRequestKeys then MaxRequestKeys else budget)"

definition trim_ledger :: "int \<Rightarrow> (string \<times> int) list \<Rightarrow> (string \<times> int) list" where
  "trim_ledger budget requests =
     (if int (length requests) > budget
      then let entries = sort_key snd requests;
               dropped = map fst (take (length requests - nat budget) entries)
           in filter (\<lambda>e. fst e \<notin> set dropped) requests
      else requests)"

definition channel_trim :: "int \<Rightarrow> channelState \<Rightarrow> channelState \<times> int" where
  "channel_trim retain s =
     (let n = int (length (cs_Ring s));
          over = (retain > 0 \<and> n > retain);
          evicted = (if over then n - retain else 0)
      in (s\<lparr>cs_Ring := (if over then drop (nat (n - retain)) (cs_Ring s) else cs_Ring s),
            cs_Evicted := u64 (cs_Evicted s + evicted),
            cs_Requests := trim_ledger (requestKeyBudget retain) (cs_Requests s)\<rparr>, evicted))"

section \<open>Configuration\<close>

record ('x, 'o) ChatConfig =
  cc_State :: "('x, string, channelState) vstore"
  cc_Rules :: ruleTable
  cc_CanPublish :: "'o policy"
  cc_CanRead :: "'o policy"
  cc_Bodies :: BodyRegistry
  cc_Now :: "nat \<Rightarrow> time"
  cc_Age :: duration

record ('x, 'o) cworld = env +
  cw_State :: 'x
  cw_Outside :: 'o

definition DefaultRetentionAge :: duration where "DefaultRetentionAge = 72 * 60 * Minute"

text \<open>\<open>NewStore\<close>: the collaborators may be missing, the clock has a default.\<close>

definition NewStore ::
  "('x, string, channelState) vstore option \<Rightarrow> ('o policy \<times> 'o policy) option \<Rightarrow> BodyRegistry option \<Rightarrow>
   ChannelRule list \<Rightarrow> duration \<Rightarrow> (nat \<Rightarrow> time) option \<Rightarrow> (nat \<Rightarrow> time) \<Rightarrow> gerr + ('x, 'o) ChatConfig" where
  "NewStore state policy bodies rules age now systemNow =
     (case (state, policy, bodies) of
        (Some st, Some (publish, read), Some registry) \<Rightarrow>
          if age < 0 then Inl [Foreign ''chat: retention age must not be negative'']
          else (case newRuleTable rules of
                  Inl err \<Rightarrow> Inl err
                | Inr table \<Rightarrow>
                    Inr \<lparr>cc_State = st, cc_Rules = table, cc_CanPublish = publish, cc_CanRead = read,
                         cc_Bodies = registry, cc_Now = (case now of None \<Rightarrow> systemNow | Some n \<Rightarrow> n),
                         cc_Age = (if age = 0 then DefaultRetentionAge else age)\<rparr>)
      | _ \<Rightarrow> Inl [Foreign ''chat: store config is incomplete''])"

definition outsideC :: "('o \<Rightarrow> 'a \<times> 'o) \<Rightarrow> (('x, 'o) cworld, 'a) handler" where
  "outsideC f = (\<lambda>w. case f (cw_Outside w) of (a, o') \<Rightarrow> (Inr a, w\<lparr>cw_Outside := o'\<rparr>))"

abbreviation "chatGet cfg \<equiv> getE cw_State cw_State_update (cc_State cfg)"
abbreviation "chatUpdate cfg \<equiv> updateE cw_State cw_State_update (cc_State cfg)"

declare outsideC_def [handler_simps]

section \<open>Storing a message\<close>

definition zero_message :: Message where
  "zero_message = \<lparr>ms_Seq = 0, ms_Channel = \<lparr>ch_Kind = [], ch_Target = 0\<rparr>, ms_From = \<lparr>sd_RoleID = 0, sd_Name = []\<rparr>,
     ms_Origin = OriginRole, ms_Type = [], ms_Body = [], ms_RequestID = [], ms_StoredAtUnix = 0\<rparr>"

definition sameSender :: "Message \<Rightarrow> Message \<Rightarrow> bool" where
  "sameSender stored draft =
     (if ms_Origin stored \<noteq> ms_Origin draft then False
      else if ms_Origin stored = OriginSystem then sd_Name (ms_From stored) = sd_Name (ms_From draft)
      else sd_RoleID (ms_From stored) = sd_RoleID (ms_From draft))"

text \<open>What the callback of \<open>store\<close> finds for the draft, and what it writes.\<close>

datatype store_answer =
    Reused                          \<comment> \<open>the key is another sender's\<close>
  | Replay Message                  \<comment> \<open>the message stored for the key\<close>
  | Gone                            \<comment> \<open>the key is known, its message is not retained\<close>
  | Stored channelState Message int \<comment> \<open>next state, message, messages evicted\<close>

definition store_next :: "int \<Rightarrow> int \<Rightarrow> Message \<Rightarrow> channelState \<Rightarrow> store_answer" where
  "store_next retain storedAt draft s =
     (let sq = u64 (cs_LastSeq s + 1);
          message = draft\<lparr>ms_Seq := sq, ms_StoredAtUnix := storedAt\<rparr>;
          appended = s\<lparr>cs_LastSeq := sq, cs_Ring := cs_Ring s @ [message],
                       cs_Requests := AList.update (ms_RequestID message) sq (cs_Requests s)\<rparr>;
          (next, evicted) = channel_trim retain appended
      in Stored next message evicted)"

definition channel_or_zero :: "channelState option \<Rightarrow> channelState" where
  "channel_or_zero cur = (case cur of None \<Rightarrow> zero_channel | Some s \<Rightarrow> s)"

definition answer_for :: "int \<Rightarrow> int \<Rightarrow> Message \<Rightarrow> channelState option \<Rightarrow> store_answer" where
  "answer_for retain storedAt draft cur =
     (let s = channel_or_zero cur in
      case map_of (cs_Requests s) (ms_RequestID draft) of
        Some sq \<Rightarrow>
          (case channel_find s sq of
             Some existing \<Rightarrow> if \<not> sameSender existing draft then Reused else Replay existing
           | None \<Rightarrow> Gone)
      | None \<Rightarrow> store_next retain storedAt draft s)"

definition store_mutate :: "int \<Rightarrow> int \<Rightarrow> Message \<Rightarrow> channelState mutate" where
  "store_mutate retain storedAt draft cur =
     (case answer_for retain storedAt draft cur of
        Reused \<Rightarrow> Fail [ErrChatConflict]
      | Replay existing \<Rightarrow> Keep
      | Gone \<Rightarrow> Fail [ErrAlreadyPublished]
      | Stored next message evicted \<Rightarrow> Save next)"

text \<open>After the update: the variables the callback's last run left behind.\<close>

definition store_finish :: "ChannelKind \<Rightarrow> store_answer \<Rightarrow> (('x, 'o) cworld, Message) handler" where
  "store_finish kind answer =
     (case answer of
        Replay existing \<Rightarrow> thenE (reportE (Replayed (publishOp kind))) (retE existing)
      | Stored next message evicted \<Rightarrow>
          thenE (reportE (Accepted (publishOp kind)))
         (thenE (reportE (Dropped (''message.evicted.'' @ kind) evicted))
            (retE message))
      | _ \<Rightarrow> retE zero_message)"

definition chat_store ::
  "('x, 'o) ChatConfig \<Rightarrow> ChannelRef \<Rightarrow> ChannelRule \<Rightarrow> Message \<Rightarrow> (('x, 'o) cworld, Message) handler" where
  "chat_store cfg ref rule draft =
     bindE (nowE (cc_Now cfg)) (\<lambda>now.
     bindE (chatUpdate cfg (rf_key ref) (store_mutate (rl_Retain rule) (Unix now) draft)) (\<lambda>(calls, r).
       let answer = answer_for (rl_Retain rule) (Unix now) draft (seen calls) in
       case r of
         Inl err \<Rightarrow>
           thenE (if Is err StoreConflict then reportE (Conflict ''append'') else retE ())
          (thenE (if answer = Reused
                  then reportE (Refused (publishOp (rf_Kind ref)) ''key_reused'') else retE ())
             (raiseE err))
       | Inr applied \<Rightarrow> store_finish (rf_Kind ref) answer))"

definition role_draft :: "Sender \<Rightarrow> PublishRequest \<Rightarrow> Message" where
  "role_draft from req =
     zero_message\<lparr>ms_Channel := pq_Channel req, ms_From := from, ms_Origin := OriginRole,
       ms_Type := pq_Type req, ms_Body := pq_Body req, ms_RequestID := pq_RequestID req\<rparr>"

definition system_draft :: "SystemPublishRequest \<Rightarrow> Message" where
  "system_draft req =
     zero_message\<lparr>ms_Channel := sq_Channel req, ms_From := \<lparr>sd_RoleID = 0, sd_Name = sq_Actor req\<rparr>,
       ms_Origin := OriginSystem, ms_Type := sq_Type req, ms_Body := sq_Body req,
       ms_RequestID := sq_RequestID req\<rparr>"

definition Append ::
  "('x, 'o) ChatConfig \<Rightarrow> Sender \<Rightarrow> PublishRequest \<Rightarrow> (('x, 'o) cworld, Message) handler" where
  "Append cfg from req =
     bindE (liftE (rule_lookup (cc_Rules cfg) (ch_Kind (pq_Channel req)))) (\<lambda>rule.
     thenE (guardE (Sender_validate from))
    (thenE (guardE (validateRequestID (pq_RequestID req)))
    (if rl_SystemOnly rule
     then thenE (reportE (Refused (publishOp (ch_Kind (pq_Channel req))) ''system_only_channel''))
                (raiseE (denied (Some [Foreign ''kind accepts only privileged publishes''])))
     else bindE (liftE (body_lookup (cc_Bodies cfg) (pq_Type req))) (\<lambda>spec.
       if bs_SystemOnly spec
       then thenE (reportE (Refused (publishOp (ch_Kind (pq_Channel req))) ''system_only_type''))
                  (raiseE (denied (Some [Foreign ''type accepts only privileged publishes''])))
       else thenE (guardE (validateBody (pq_Type req) spec (pq_Body req)))
           (bindE (liftE (resolveRef (pq_Channel req) rule (sd_RoleID from))) (\<lambda>ref.
            bindE (outsideC (cc_CanPublish cfg from (pq_Channel req))) (\<lambda>verdict.
              case verdict of
                Some err \<Rightarrow>
                  thenE (reportE (Refused (publishOp (ch_Kind (pq_Channel req))) ''policy''))
                        (raiseE (denied (Some err)))
              | None \<Rightarrow> chat_store cfg ref rule (role_draft from req))))))))"

definition AppendSystem ::
  "('x, 'o) ChatConfig \<Rightarrow> SystemToken \<Rightarrow> SystemPublishRequest \<Rightarrow> (('x, 'o) cworld, Message) handler" where
  "AppendSystem cfg token req =
     (if \<not> token_granted token then raiseE [ErrSystemDenied]
      else bindE (liftE (rule_lookup (cc_Rules cfg) (ch_Kind (sq_Channel req)))) (\<lambda>rule.
        thenE (guardE (validateActor (sq_Actor req)))
       (thenE (guardE (validateRequestID (sq_RequestID req)))
       (if rl_Scope rule = ScopePair then raiseE [ErrChannelInvalid]
        else bindE (liftE (body_lookup (cc_Bodies cfg) (sq_Type req))) (\<lambda>spec.
          thenE (guardE (validateBody (sq_Type req) spec (sq_Body req)))
         (bindE (liftE (resolveRef (sq_Channel req) rule 0)) (\<lambda>ref.
            chat_store cfg ref rule (system_draft req))))))))"

definition chat_Resolve ::
  "('x, 'o) ChatConfig \<Rightarrow> Channel \<Rightarrow> int \<Rightarrow> gerr + ChannelRef" where
  "chat_Resolve cfg ch participant =
     (case rule_lookup (cc_Rules cfg) (ch_Kind ch) of
        Inl err \<Rightarrow> Inl err
      | Inr rule \<Rightarrow> resolveRef ch rule participant)"

section \<open>Reading a channel\<close>

text \<open>
  The three branches of \<open>pageOf\<close>: the slice \<open>ring[start:end]\<close> and \<open>HasMore\<close>. The loops that look
  for the cursor count the messages they pass.
\<close>

definition forward_slice :: "Message list \<Rightarrow> int \<Rightarrow> int \<Rightarrow> Message list \<times> bool" where
  "forward_slice ring after limit =
     (let start = int (length (takeWhile (\<lambda>m. ms_Seq m \<le> after) ring));
          stop = (if start + limit > int (length ring) then int (length ring) else start + limit)
      in (take (nat (stop - start)) (drop (nat start) ring), stop < int (length ring)))"

definition backward_slice :: "Message list \<Rightarrow> int \<Rightarrow> int \<Rightarrow> Message list \<times> bool" where
  "backward_slice ring before limit =
     (let stop = int (length (takeWhile (\<lambda>m. ms_Seq m < before) ring));
          start = (if stop - limit < 0 then 0 else stop - limit)
      in (take (nat (stop - start)) (drop (nat start) ring), start > 0))"

definition newest_slice :: "Message list \<Rightarrow> int \<Rightarrow> Message list \<times> bool" where
  "newest_slice ring limit =
     (let start = (if int (length ring) - limit < 0 then 0 else int (length ring) - limit)
      in (drop (nat start) ring, start > 0))"

definition page_gap :: "channelState \<Rightarrow> int \<Rightarrow> bool" where
  "page_gap s after =
     (if cs_Ring s = [] then after < cs_LastSeq s else u64 (after + 1) < oldestSeq s)"

definition pageOf :: "channelState \<Rightarrow> HistoryQuery \<Rightarrow> ChatPage" where
  "pageOf s query =
     (let (selected, more) =
            (if hq_AfterSeq query > 0 then forward_slice (cs_Ring s) (hq_AfterSeq query) (hq_Limit query)
             else if hq_BeforeSeq query > 0
             then backward_slice (cs_Ring s) (hq_BeforeSeq query) (hq_Limit query)
             else newest_slice (cs_Ring s) (hq_Limit query))
      in \<lparr>pg_Messages = selected,
          pg_NextCursor = (if selected \<noteq> [] then ms_Seq (last selected)
                           else if hq_AfterSeq query > 0 then hq_AfterSeq query else cs_LastSeq s),
          pg_PrevCursor = (if selected \<noteq> [] then ms_Seq (hd selected) else 0),
          pg_HasMore = more,
          pg_Gap = (hq_AfterSeq query > 0 \<and> page_gap s (hq_AfterSeq query)),
          pg_OldestSeq = oldestSeq s,
          pg_LatestSeq = cs_LastSeq s\<rparr>)"

definition channel_read :: "channelState versioned option \<Rightarrow> channelState" where
  "channel_read current = (case current of None \<Rightarrow> zero_channel | Some sv \<Rightarrow> ver_Value sv)"

definition History ::
  "('x, 'o) ChatConfig \<Rightarrow> Sender \<Rightarrow> HistoryQuery \<Rightarrow> (('x, 'o) cworld, ChatPage) handler" where
  "History cfg viewer query =
     bindE (liftE (rule_lookup (cc_Rules cfg) (ch_Kind (hq_Channel query)))) (\<lambda>rule.
     thenE (guardE (Sender_validate viewer))
    (thenE (guardE (HistoryQuery_validate query))
    (bindE (liftE (resolveRef (hq_Channel query) rule (sd_RoleID viewer))) (\<lambda>ref.
     bindE (outsideC (cc_CanRead cfg viewer (hq_Channel query))) (\<lambda>verdict.
       case verdict of
         Some err \<Rightarrow> raiseE (denied (Some err))
       | None \<Rightarrow>
           bindE (chatGet cfg (rf_key ref)) (\<lambda>current.
             let state = channel_read current in
             if hq_AfterSeq query > cs_LastSeq state then raiseE [ErrCursorInvalid]
             else let page = pageOf state query in
               thenE (if pg_Gap page then reportE (Dropped (''history.gap.'' @ rf_Kind ref) 1) else retE ())
                 (retE page)))))))"

section \<open>Retention\<close>

fun prune_loop :: "int \<Rightarrow> int \<Rightarrow> int \<Rightarrow> Message list \<Rightarrow> Message list \<times> int" where
  "prune_loop cutoff limit pruned [] = ([], pruned)"
| "prune_loop cutoff limit pruned (m # ring) =
     (if pruned < limit \<and> ms_StoredAtUnix m \<le> cutoff
      then prune_loop cutoff limit (pruned + 1) ring else (m # ring, pruned))"

definition prune_mutate :: "int \<Rightarrow> int \<Rightarrow> channelState mutate" where
  "prune_mutate cutoff limit cur =
     (case cur of
        None \<Rightarrow> Keep
      | Some current \<Rightarrow>
          (case prune_loop cutoff limit 0 (cs_Ring current) of
             (kept, pruned) \<Rightarrow>
               if pruned = 0 then Keep
               else Save (current\<lparr>cs_Ring := kept, cs_Evicted := u64 (cs_Evicted current + pruned)\<rparr>)))"

definition pruned_of :: "int \<Rightarrow> int \<Rightarrow> channelState option \<Rightarrow> int" where
  "pruned_of cutoff limit cur =
     (case cur of None \<Rightarrow> 0 | Some current \<Rightarrow> snd (prune_loop cutoff limit 0 (cs_Ring current)))"

definition Prune ::
  "('x, 'o) ChatConfig \<Rightarrow> ChannelRef \<Rightarrow> int \<Rightarrow> (('x, 'o) cworld, int) handler" where
  "Prune cfg ref limit =
     (if \<not> ref_valid ref then raiseE [ErrChannelInvalid]
      else if limit \<le> 0 then raiseE [ErrChatRangeInvalid]
      else if limit > MaxRetain then raiseE [ErrChatRangeInvalid]
      else bindE (nowE (cc_Now cfg)) (\<lambda>now.
        let cutoff = Unix (Add now (- cc_Age cfg)) in
        bindE (chatUpdate cfg (rf_key ref) (prune_mutate cutoff limit)) (\<lambda>(calls, r).
          case r of
            Inl err \<Rightarrow>
              thenE (if Is err StoreConflict then reportE (Conflict ''prune'')
                     else reportE (Dropped ''prune.failed'' 1)) (raiseE err)
          | Inr applied \<Rightarrow>
              let pruned = pruned_of cutoff limit (seen calls) in
              thenE (reportE (Dropped (''message.evicted.'' @ rf_Kind ref) pruned)) (retE pruned))))"

definition chat_Stats ::
  "('x, 'o) ChatConfig \<Rightarrow> ChannelRef \<Rightarrow> (('x, 'o) cworld, ChatStats) handler" where
  "chat_Stats cfg ref =
     (if \<not> ref_valid ref then raiseE [ErrChannelInvalid]
      else bindE (chatGet cfg (rf_key ref)) (\<lambda>current.
        case current of
          None \<Rightarrow> retE \<lparr>st_Retained = 0, st_OldestSeq = 0, st_LatestSeq = 0, st_Evicted = 0, st_RequestKeys = 0\<rparr>
        | Some sv \<Rightarrow>
            let s = ver_Value sv in
            retE \<lparr>st_Retained = int (length (cs_Ring s)), st_OldestSeq = oldestSeq s, st_LatestSeq = cs_LastSeq s,
                  st_Evicted = cs_Evicted s, st_RequestKeys = int (length (cs_Requests s))\<rparr>))"

section \<open>The service (service.go) and its retention tick (server\_run.go)\<close>

record ('x, 'o) ServiceConfig =
  sv_Store :: "('x, 'o) ChatConfig"
  sv_System :: "('o \<Rightarrow> (gerr + SystemToken) \<times> 'o) option"
  sv_PruneChannels :: "('o \<Rightarrow> ChannelRef list \<times> 'o) option"
  sv_ConversationKind :: ChannelKind

definition NewService :: "bool \<Rightarrow> ('x, 'o) ServiceConfig \<Rightarrow> gerr + ('x, 'o) ServiceConfig" where
  "NewService hasStore cfg =
     (if \<not> hasStore then Inl [Foreign ''chat: store is required'']
      else Inr (if sv_ConversationKind cfg = [] then cfg\<lparr>sv_ConversationKind := ChannelPrivate\<rparr> else cfg))"

definition Publish ::
  "('x, 'o) ServiceConfig \<Rightarrow> Sender \<Rightarrow> PublishRequest \<Rightarrow> (('x, 'o) cworld, Message) handler" where
  "Publish sv from req = Append (sv_Store sv) from req"

definition PublishSystem ::
  "('x, 'o) ServiceConfig \<Rightarrow> SystemPublishRequest \<Rightarrow> (('x, 'o) cworld, Message) handler" where
  "PublishSystem sv req =
     (case sv_System sv of
        None \<Rightarrow> raiseE [ErrSystemDenied]
      | Some authenticate \<Rightarrow>
          bindE (outsideC authenticate) (\<lambda>answer.
            case answer of
              Inl err \<Rightarrow> raiseE (ErrSystemDenied # err)
            | Inr token \<Rightarrow>
                if \<not> token_granted token then raiseE [ErrSystemDenied]
                else AppendSystem (sv_Store sv) token req))"

definition conversation_query :: "ChannelKind \<Rightarrow> int \<Rightarrow> int \<Rightarrow> int \<Rightarrow> int \<Rightarrow> HistoryQuery" where
  "conversation_query kind peer after before limit =
     \<lparr>hq_Channel = \<lparr>ch_Kind = kind, ch_Target = peer\<rparr>, hq_AfterSeq = after, hq_BeforeSeq = before,
      hq_Limit = limit\<rparr>"

definition Conversation ::
  "('x, 'o) ServiceConfig \<Rightarrow> Sender \<Rightarrow> int \<Rightarrow> int \<Rightarrow> int \<Rightarrow> (('x, 'o) cworld, ChatPage) handler" where
  "Conversation sv viewer peer afterSeq limit =
     (if peer \<le> 0 then raiseE [ErrChannelInvalid]
      else History (sv_Store sv) viewer
             (conversation_query (sv_ConversationKind sv) peer afterSeq 0 limit))"

definition Scrollback ::
  "('x, 'o) ServiceConfig \<Rightarrow> Sender \<Rightarrow> int \<Rightarrow> int \<Rightarrow> int \<Rightarrow> (('x, 'o) cworld, ChatPage) handler" where
  "Scrollback sv viewer peer beforeSeq limit =
     (if peer \<le> 0 then raiseE [ErrChannelInvalid]
      else History (sv_Store sv) viewer
             (conversation_query (sv_ConversationKind sv) peer 0 beforeSeq limit))"

definition pruneTargets :: "('x, 'o) ServiceConfig \<Rightarrow> (('x, 'o) cworld, ChannelRef list) handler" where
  "pruneTargets sv = (case sv_PruneChannels sv of None \<Rightarrow> retE [] | Some f \<Rightarrow> outsideC f)"

definition PruneBatch :: int where "PruneBatch = 200"

definition prune_tick :: "('x, 'o) ServiceConfig \<Rightarrow> (('x, 'o) cworld, unit) handler" where
  "prune_tick sv =
     bindE (pruneTargets sv) (\<lambda>refs.
       forE refs (\<lambda>ref. bindE (tryE (Prune (sv_Store sv) ref PruneBatch)) (\<lambda>_. retE ())))"

end
