(* ===== verification/ChatProps.thy ===== *)
theory ChatProps
  imports Chat
begin

text \<open>
  What holds of a chat channel: the invariant of its record under every interleaving of publishes and
  prunes, the deduplication window of the idempotency ledger, the history pages against the stream
  they page, who may speak, and which stream a channel resolves to.
\<close>

section \<open>The rule table\<close>

lemma ChannelRule_validate_retain:
  "ChannelRule_validate r = None \<Longrightarrow> 0 \<le> rl_Retain r \<and> rl_Retain r \<le> MaxRetain"
  by (auto simp: ChannelRule_validate_def split: if_splits ChannelScope.splits)

lemma ChannelRule_validate_pair:
  "ChannelRule_validate r = None \<Longrightarrow> rl_Scope r = ScopePair \<Longrightarrow> rl_RequiresTarget r"
  by (auto simp: ChannelRule_validate_def split: if_splits)

definition table_ok :: "ruleTable \<Rightarrow> bool" where
  "table_ok t \<longleftrightarrow> (\<forall>k r. t k = Some r \<longrightarrow>
     rl_Kind r = k \<and> 1 \<le> rl_Retain r \<and> rl_Retain r \<le> MaxRetain \<and>
     (rl_Scope r = ScopePair \<longrightarrow> rl_RequiresTarget r))"

lemma table_loop_ok: "table_ok t \<Longrightarrow> table_loop t rules = Inr t' \<Longrightarrow> table_ok t'"
proof (induction t rules rule: table_loop.induct)
  case (2 t rule rest)
  let ?r = "if rl_Retain rule = 0 then rule\<lparr>rl_Retain := DefaultRetain\<rparr> else rule"
  from "2.prems"(2) have v: "ChannelRule_validate rule = None"
    and l: "table_loop (t(rl_Kind ?r \<mapsto> ?r)) rest = Inr t'"
    by (auto simp: Let_def split: option.splits)
  have "table_ok (t(rl_Kind ?r \<mapsto> ?r))"
    using "2.prems"(1) ChannelRule_validate_retain [OF v] ChannelRule_validate_pair [OF v]
    by (auto simp: table_ok_def DefaultRetain_def MaxRetain_def)
  from "2.IH" [OF v refl this l] show ?case .
qed simp

lemma newRuleTable_ok: "newRuleTable rules = Inr t \<Longrightarrow> table_ok t"
  unfolding newRuleTable_def by (rule table_loop_ok) (auto simp: table_ok_def)

section \<open>Binary search\<close>

lemma search_loop_least:
  assumes "i \<le> j" "\<And>a b. a \<le> b \<Longrightarrow> b < j \<Longrightarrow> f a \<Longrightarrow> f b"
  shows "i \<le> search_loop f i j \<and> search_loop f i j \<le> j \<and>
    (\<forall>k. i \<le> k \<longrightarrow> k < search_loop f i j \<longrightarrow> \<not> f k) \<and> (search_loop f i j < j \<longrightarrow> f (search_loop f i j))"
  using assms
proof (induction f i j rule: search_loop.induct)
  case (1 f i j)
  let ?h = "(i + j) div 2"
  show ?case
  proof (cases "i < j")
    case False
    with "1.prems" show ?thesis by (subst (1 2 3 4 5) search_loop.simps) simp
  next
    case True
    then have h: "i \<le> ?h" "?h < j" by auto
    show ?thesis
    proof (cases "f ?h")
      case True
      have e: "search_loop f i j = search_loop f i ?h"
        using True \<open>i < j\<close> by (subst search_loop.simps) (simp add: Let_def)
      have ih: "i \<le> search_loop f i ?h \<and> search_loop f i ?h \<le> ?h \<and>
          (\<forall>k. i \<le> k \<longrightarrow> k < search_loop f i ?h \<longrightarrow> \<not> f k) \<and> (search_loop f i ?h < ?h \<longrightarrow> f (search_loop f i ?h))"
        using "1.IH"(2) [OF \<open>i < j\<close> refl] True h "1.prems"(2) by (meson less_trans)
      from ih have "search_loop f i ?h < j \<and> f (search_loop f i ?h) \<or> search_loop f i ?h = ?h"
        using h by fastforce
      with True h ih show ?thesis unfolding e by auto
    next
      case False
      have e: "search_loop f i j = search_loop f (?h + 1) j"
        using False \<open>i < j\<close> by (subst search_loop.simps) (simp add: Let_def)
      have ih: "?h + 1 \<le> search_loop f (?h + 1) j \<and> search_loop f (?h + 1) j \<le> j \<and>
          (\<forall>k. ?h + 1 \<le> k \<longrightarrow> k < search_loop f (?h + 1) j \<longrightarrow> \<not> f k) \<and>
          (search_loop f (?h + 1) j < j \<longrightarrow> f (search_loop f (?h + 1) j))"
        by (rule "1.IH"(1) [OF \<open>i < j\<close> refl False]) (use h "1.prems"(2) in auto)
      have low: "\<not> f k" if "k \<le> ?h" for k
        using that False h(2) "1.prems"(2) by blast
      have "\<not> f k" if "k < search_loop f (?h + 1) j" for k
        using ih low [of k] that by (cases "k \<le> ?h") auto
      with ih h show ?thesis unfolding e by auto
    qed
  qed
qed

lemma Search_least:
  assumes "\<And>a b. a \<le> b \<Longrightarrow> b < n \<Longrightarrow> f a \<Longrightarrow> f b"
  shows "Search n f \<le> n" "k < Search n f \<Longrightarrow> \<not> f k" "Search n f < n \<Longrightarrow> f (Search n f)"
  using search_loop_least [of 0 n f] assms unfolding Search_def by auto

section \<open>The record's invariant\<close>

definition ring_seqs :: "channelState \<Rightarrow> int list" where
  "ring_seqs s = map ms_Seq (cs_Ring s)"

text \<open>
  The ring holds the last messages under consecutive sequence numbers, the rest is counted as
  evicted, the ring and the ledger keep their bounds, and every retained message is in the ledger.
\<close>

definition chat_ok :: "int \<Rightarrow> channelState \<Rightarrow> bool" where
  "chat_ok retain s \<longleftrightarrow>
     0 \<le> cs_LastSeq s \<and> cs_LastSeq s < 2 ^ 64 \<and>
     ring_seqs s = [cs_LastSeq s - int (length (cs_Ring s)) + 1 .. cs_LastSeq s] \<and>
     cs_Evicted s + int (length (cs_Ring s)) = cs_LastSeq s \<and> 0 \<le> cs_Evicted s \<and>
     int (length (cs_Ring s)) \<le> retain \<and>
     int (length (cs_Requests s)) \<le> requestKeyBudget retain \<and>
     distinct (map fst (cs_Requests s)) \<and> distinct (map snd (cs_Requests s)) \<and>
     (\<forall>e \<in> set (cs_Requests s). 1 \<le> snd e \<and> snd e \<le> cs_LastSeq s) \<and>
     (\<forall>m \<in> set (cs_Ring s). map_of (cs_Requests s) (ms_RequestID m) = Some (ms_Seq m))"

lemma chat_ok_zero: "1 \<le> retain \<Longrightarrow> chat_ok retain zero_channel"
  by (simp add: chat_ok_def zero_channel_def ring_seqs_def requestKeyBudget_def Let_def bound_defs)

lemma drop_upto: "int k \<le> b - a + 1 \<Longrightarrow> drop k [a..b] = [a + int k..b]"
proof (induction k arbitrary: a)
  case (Suc k)
  then have "[a..b] = a # [a + 1..b]" by (simp add: upto_rec1)
  with Suc.IH [of "a + 1"] Suc.prems show ?case by (simp add: algebra_simps)
qed simp

lemma ring_in_ledger:
  "chat_ok retain s \<Longrightarrow> m \<in> set (cs_Ring s) \<Longrightarrow> (ms_RequestID m, ms_Seq m) \<in> set (cs_Requests s)"
  by (auto simp: chat_ok_def dest: map_of_SomeD)

lemma ring_seq_bounds:
  assumes "chat_ok retain s"
  shows "ms_Seq ` set (cs_Ring s) = {cs_Evicted s + 1 .. cs_LastSeq s}"
proof -
  have "ms_Seq ` set (cs_Ring s) = set (ring_seqs s)" by (simp add: ring_seqs_def)
  also have "\<dots> = {cs_LastSeq s - int (length (cs_Ring s)) + 1 .. cs_LastSeq s}"
    using assms unfolding chat_ok_def by (metis set_upto)
  finally show ?thesis using assms by (auto simp: chat_ok_def)
qed

lemma ring_nth_seq:
  assumes "chat_ok retain s" "i < length (cs_Ring s)"
  shows "ms_Seq (cs_Ring s ! i) = cs_Evicted s + 1 + int i"
proof -
  have "ms_Seq (cs_Ring s ! i) = ring_seqs s ! i" using assms(2) by (simp add: ring_seqs_def)
  also have "\<dots> = cs_LastSeq s - int (length (cs_Ring s)) + 1 + int i"
    using assms by (simp add: chat_ok_def nth_upto)
  finally show ?thesis using assms(1) by (simp add: chat_ok_def)
qed

text \<open>The binary search finds exactly the retained message of the sequence.\<close>

lemma channel_find_iff:
  assumes "chat_ok retain s"
  shows "channel_find s q = Some m \<longleftrightarrow> m \<in> set (cs_Ring s) \<and> ms_Seq m = q"
proof -
  let ?n = "length (cs_Ring s)" and ?f = "\<lambda>i. ms_Seq (cs_Ring s ! i) \<ge> q"
  have mono: "?f b" if "a \<le> b" "b < ?n" "?f a" for a b
    using that ring_nth_seq [OF assms, of a] ring_nth_seq [OF assms, of b] by simp
  let ?i = "Search ?n ?f"
  have least: "\<And>k. k < ?i \<Longrightarrow> \<not> ?f k" and le: "?i \<le> ?n"
    using Search_least [of ?n ?f] mono by blast+
  have "?i = j" if "j < ?n" "ms_Seq (cs_Ring s ! j) = q" for j
  proof (rule antisym)
    show "?i \<le> j" using least [of j] that by (cases "j < ?i") auto
    have "?i < ?n \<Longrightarrow> ?f ?i" using Search_least(3) [of ?n ?f] mono by blast
    then show "j \<le> ?i"
      using ring_nth_seq [OF assms, of ?i] ring_nth_seq [OF assms, of j] that le by (cases "?i < ?n") auto
  qed
  then show ?thesis
    by (auto simp: channel_find_def Let_def in_set_conv_nth) blast
qed

section \<open>Trimming the ledger\<close>

text \<open>
  The ledger keeps a sublist of at most \<open>budget\<close> entries; an entry is dropped only when \<open>budget\<close>
  entries with later sequences stay.
\<close>

lemma trim_ledger_subset: "set (trim_ledger b l) \<subseteq> set l"
  by (auto simp: trim_ledger_def Let_def)

lemma trim_ledger_distinct:
  "distinct (map g l) \<Longrightarrow> distinct (map g (trim_ledger b l))"
  by (auto simp: trim_ledger_def Let_def distinct_map_filter)

lemma trim_ledger_drops:
  assumes "distinct (map fst l)" "0 \<le> b" "int (length l) > b"
  defines "k \<equiv> length l - nat b"
  shows "set (trim_ledger b l) = set (drop k (sort_key snd l))"
    and "length (trim_ledger b l) = nat b"
proof -
  let ?e = "sort_key snd l"
  have d: "distinct (map fst ?e)"
    using assms(1) by (simp add: distinct_map inj_on_def)
  have tl: "trim_ledger b l = filter (\<lambda>x. fst x \<notin> set (map fst (take k ?e))) l"
    using assms(3) by (simp add: trim_ledger_def Let_def k_def)
  have "distinct (map fst (take k ?e @ drop k ?e))" using d by simp
  then have disj: "fst ` set (take k ?e) \<inter> fst ` set (drop k ?e) = {}"
    by (simp only: map_append distinct_append set_map)
  have "set l = set (take k ?e) \<union> set (drop k ?e)"
    by (metis append_take_drop_id set_append set_sort)
  then show eq: "set (trim_ledger b l) = set (drop k ?e)"
    using disj unfolding tl by auto
  have "length (trim_ledger b l) = card (set (trim_ledger b l))"
    using assms(1) by (intro distinct_card [symmetric]) (simp add: tl distinct_map)
  also have "\<dots> = length (drop k ?e)"
    unfolding eq using d by (intro distinct_card) (simp add: distinct_map)
  also have "\<dots> = nat b" using assms(2,3) by (simp add: k_def)
  finally show "length (trim_ledger b l) = nat b" .
qed

lemma trim_ledger_bound:
  assumes "distinct (map fst l)" "0 \<le> b"
  shows "int (length (trim_ledger b l)) \<le> b"
proof (cases "int (length l) > b")
  case True
  then show ?thesis using trim_ledger_drops(2) [OF assms] assms(2) by simp
qed (simp add: trim_ledger_def)

lemma trim_ledger_keeps:
  assumes l: "distinct (map fst l)" "distinct (map snd l)" "0 \<le> b"
    and e: "e \<in> set l" "hi - snd e < b" and hi: "\<forall>x \<in> set l. snd x \<le> hi"
  shows "e \<in> set (trim_ledger b l)"
proof (rule ccontr)
  assume gone: "e \<notin> set (trim_ledger b l)"
  then have big: "int (length l) > b" using e(1) by (auto simp: trim_ledger_def Let_def split: if_splits)
  note trim = trim_ledger_drops [OF l(1,3) big]
  let ?k = "length l - nat b" and ?e = "sort_key snd l"
  have "e \<in> set (take ?k ?e)"
    using e(1) gone trim(1) by (metis Un_iff append_take_drop_id set_append set_sort)
  moreover have "sorted (map snd (take ?k ?e) @ map snd (drop ?k ?e))"
    by (simp only: map_append [symmetric] append_take_drop_id sorted_sort_key)
  ultimately have later: "snd e \<le> snd x" if "x \<in> set (trim_ledger b l)" for x
    using that trim(1) by (auto simp: sorted_append)
  have "snd ` set (trim_ledger b l) \<subseteq> {snd e <.. hi}"
  proof
    fix q assume "q \<in> snd ` set (trim_ledger b l)"
    then obtain x where x: "x \<in> set (trim_ledger b l)" "q = snd x" by auto
    have "x \<in> set l" using x(1) trim_ledger_subset [of b l] by auto
    moreover have "x \<noteq> e" using x(1) gone by auto
    ultimately have "snd x \<noteq> snd e" using l(2) e(1) by (auto simp: distinct_map inj_on_def)
    with later [OF x(1)] x hi \<open>x \<in> set l\<close> show "q \<in> {snd e <.. hi}" by auto
  qed
  then have "card (snd ` set (trim_ledger b l)) \<le> nat (hi - snd e)"
    by (metis card_greaterThanAtMost_int card_mono finite_greaterThanAtMost_int)
  moreover have "card (snd ` set (trim_ledger b l)) = nat b"
    using trim_ledger_distinct [OF l(2), of b] trim(2) by (metis distinct_card length_map set_map)
  moreover have "snd e \<le> hi" using e(1) hi by blast
  ultimately show False using e(2) l(3) by linarith
qed

lemma trim_ledger_lookup:
  assumes "distinct (map fst l)" "(k, q) \<in> set (trim_ledger b l)"
  shows "map_of (trim_ledger b l) k = Some q"
  using assms trim_ledger_distinct [OF assms(1)] by (intro map_of_is_SomeI) auto

section \<open>Publishes and prunes keep the invariant\<close>

lemma budget_covers_ring: "1 \<le> retain \<Longrightarrow> retain \<le> MaxRetain \<Longrightarrow> retain \<le> requestKeyBudget retain"
  by (auto simp: requestKeyBudget_def Let_def bound_defs)

lemma store_next_ok:
  assumes ok: "chat_ok retain s" and r: "1 \<le> retain" "retain \<le> MaxRetain"
    and room: "cs_LastSeq s + 1 < 2 ^ 64"
    and new: "map_of (cs_Requests s) (ms_RequestID draft) = None"
    and st: "store_next retain storedAt draft s = Stored next message evicted"
  shows "chat_ok retain next" "cs_LastSeq next = cs_LastSeq s + 1"
    "message \<in> set (cs_Ring next)" "ms_Seq message = cs_LastSeq next"
    "cs_Requests next = trim_ledger (requestKeyBudget retain)
       (cs_Requests s @ [(ms_RequestID draft, cs_LastSeq s + 1)])"
    "evicted = (if int (length (cs_Ring s)) < retain then 0 else int (length (cs_Ring s)) + 1 - retain)"
proof -
  let ?L = "cs_LastSeq s + 1" and ?ring = "cs_Ring s @ [message]"
  let ?led = "cs_Requests s @ [(ms_RequestID draft, ?L)]" and ?b = "requestKeyBudget retain"
  let ?over = "int (length ?ring) > retain"
  let ?k = "if ?over then nat (int (length ?ring) - retain) else 0"
  have inv: "0 \<le> cs_LastSeq s" "ring_seqs s = [cs_LastSeq s - int (length (cs_Ring s)) + 1 .. cs_LastSeq s]"
    "cs_Evicted s + int (length (cs_Ring s)) = cs_LastSeq s" "0 \<le> cs_Evicted s"
    "int (length (cs_Ring s)) \<le> retain" "distinct (map fst (cs_Requests s))" "distinct (map snd (cs_Requests s))"
    "\<forall>e \<in> set (cs_Requests s). 1 \<le> snd e \<and> snd e \<le> cs_LastSeq s"
    using ok by (auto simp: chat_ok_def)
  have L: "u64 ?L = ?L" using inv(1) room by (simp add: u64_id)
  have upd: "AList.update (ms_RequestID draft) ?L (cs_Requests s) = ?led"
  proof -
    have "AList.update k v l = l @ [(k, v)]" if "map_of l k = None" for k and v :: int and l :: "(string \<times> int) list"
      using that by (induction l) (auto split: if_splits)
    then show ?thesis using new by blast
  qed
  have m: "message = draft\<lparr>ms_Seq := ?L, ms_StoredAtUnix := storedAt\<rparr>"
    and next_def: "cs_LastSeq next = ?L" "cs_Ring next = drop ?k ?ring"
      "cs_Evicted next = u64 (cs_Evicted s + int ?k)" "cs_Requests next = trim_ledger ?b ?led"
    and ev: "evicted = int ?k"
    using st L upd r(1) by (auto simp: store_next_def channel_trim_def Let_def)
  have kle: "?k \<le> length (cs_Ring s)" using inv(5) r(1) by auto
  have E: "u64 (cs_Evicted s + int ?k) = cs_Evicted s + int ?k"
    using inv room by (intro u64_id) auto
  have seqs: "map ms_Seq ?ring = [?L - int (length ?ring) + 1 .. ?L]"
    using inv(1,2,3,4) by (simp add: m ring_seqs_def upto_rec2)
  have nseqs: "ring_seqs next = [?L - int (length (cs_Ring next)) + 1 .. ?L]"
    unfolding ring_seqs_def next_def drop_map [symmetric] seqs using r(1) by (subst drop_upto) auto
  have led: "distinct (map fst ?led)" "distinct (map snd ?led)" "\<forall>e \<in> set ?led. 1 \<le> snd e \<and> snd e \<le> ?L"
    using inv new by (auto simp: map_of_eq_None_iff)
  have bpos: "0 \<le> ?b" and bring: "retain \<le> ?b" using budget_covers_ring [OF r] r by auto
  have rlen: "int (length (cs_Ring next)) \<le> retain" using inv(5) r(1) by (simp add: next_def)
  have inled: "map_of (cs_Requests next) (ms_RequestID x) = Some (ms_Seq x)" if x: "x \<in> set (cs_Ring next)" for x
  proof -
    have "x \<in> set ?ring" using x unfolding next_def(2) by (rule in_set_dropD)
    then have e: "(ms_RequestID x, ms_Seq x) \<in> set ?led"
      using ring_in_ledger [OF ok] by (auto simp: m)
    have "ms_Seq x \<in> set (ring_seqs next)" using x by (simp add: ring_seqs_def)
    then have "?L - ms_Seq x < ?b" using nseqs rlen bring by simp
    with led bpos e have "(ms_RequestID x, ms_Seq x) \<in> set (trim_ledger ?b ?led)"
      by (intro trim_ledger_keeps [where hi = ?L]) simp_all
    then show ?thesis unfolding next_def(4) by (rule trim_ledger_lookup [OF led(1)])
  qed
  show "chat_ok retain next"
    unfolding chat_ok_def next_def(1,3,4) E
  proof (intro conjI)
    show "ring_seqs next = [?L - int (length (cs_Ring next)) + 1..?L]" by (rule nseqs)
    show "cs_Evicted s + int ?k + int (length (cs_Ring next)) = ?L"
      using inv(3) kle by (simp add: next_def(2) of_nat_diff)
    show "int (length (trim_ledger ?b ?led)) \<le> ?b" using led(1) bpos by (rule trim_ledger_bound)
    show "distinct (map fst (trim_ledger ?b ?led))" "distinct (map snd (trim_ledger ?b ?led))"
      using led by (intro trim_ledger_distinct; simp)+
    show "\<forall>e\<in>set (trim_ledger ?b ?led). 1 \<le> snd e \<and> snd e \<le> ?L"
      using led(3) trim_ledger_subset [of ?b ?led] by blast
    show "\<forall>m\<in>set (cs_Ring next). map_of (trim_ledger ?b ?led) (ms_RequestID m) = Some (ms_Seq m)"
      using inled unfolding next_def(4) by blast
  qed (use inv room rlen in auto)
  show "cs_LastSeq next = ?L" "cs_Requests next = trim_ledger ?b ?led" by (fact next_def)+
  show "ms_Seq message = cs_LastSeq next" by (simp add: m next_def)
  show "message \<in> set (cs_Ring next)" using kle by (simp add: next_def(2))
  show "evicted = (if int (length (cs_Ring s)) < retain then 0 else int (length (cs_Ring s)) + 1 - retain)"
    using inv(5) by (auto simp: ev)
qed

lemma prune_loop_drop:
  "prune_loop cutoff limit p ring = (kept, q) \<Longrightarrow>
   \<exists>k. k \<le> length ring \<and> kept = drop k ring \<and> q = p + int k"
proof (induction cutoff limit p ring rule: prune_loop.induct)
  case (2 cutoff limit p m ring)
  show ?case
  proof (cases "p < limit \<and> ms_StoredAtUnix m \<le> cutoff")
    case True
    with 2 obtain k where "k \<le> length ring" "kept = drop k ring" "q = p + 1 + int k" by auto
    then show ?thesis by (intro exI [of _ "Suc k"]) simp
  qed (use 2 in auto)
qed auto

lemma prune_next_ok:
  assumes ok: "chat_ok retain s" and pr: "prune_mutate cutoff limit (Some s) = Save s'"
  shows "chat_ok retain s'" "cs_LastSeq s' = cs_LastSeq s" "cs_Requests s' = cs_Requests s"
proof -
  obtain kept q where l: "prune_loop cutoff limit 0 (cs_Ring s) = (kept, q)" by force
  obtain k where k: "k \<le> length (cs_Ring s)" "kept = drop k (cs_Ring s)" "q = int k"
    using prune_loop_drop [OF l] by auto
  have s': "s' = s\<lparr>cs_Ring := drop k (cs_Ring s), cs_Evicted := u64 (cs_Evicted s + int k)\<rparr>"
    using pr l k by (simp add: prune_mutate_def split: if_splits)
  have inv: "ring_seqs s = [cs_LastSeq s - int (length (cs_Ring s)) + 1 .. cs_LastSeq s]"
    "cs_Evicted s + int (length (cs_Ring s)) = cs_LastSeq s" "0 \<le> cs_Evicted s" "cs_LastSeq s < 2 ^ 64"
    using ok by (auto simp: chat_ok_def)
  have E: "u64 (cs_Evicted s + int k) = cs_Evicted s + int k"
    using inv k(1) by (intro u64_id) auto
  have "ring_seqs s' = [cs_LastSeq s - int (length (cs_Ring s)) + 1 + int k .. cs_LastSeq s]"
    using inv(1) k(1) unfolding ring_seqs_def s' by (simp add: drop_map [symmetric] drop_upto)
  moreover have "m \<in> set (cs_Ring s)" if "m \<in> set (drop k (cs_Ring s))" for m
    using that by (rule in_set_dropD)
  ultimately show "chat_ok retain s'"
    using ok k(1) unfolding chat_ok_def s' by (auto simp: E of_nat_diff algebra_simps)
  show "cs_LastSeq s' = cs_LastSeq s" "cs_Requests s' = cs_Requests s" by (simp_all add: s')
qed

text \<open>What commits on one channel: publishes and prunes, in any order, by any process.\<close>

datatype chat_op = PublishOp Message int | PruneOp int int

fun chat_mutate :: "int \<Rightarrow> chat_op \<Rightarrow> channelState mutate" where
  "chat_mutate retain (PublishOp draft storedAt) = store_mutate retain storedAt draft"
| "chat_mutate retain (PruneOp cutoff limit) = prune_mutate cutoff limit"

abbreviation "channel_after retain ops cur \<equiv> channel_or_zero (commits (chat_mutate retain) ops cur)"

lemma store_next_Stored: "\<exists>next m evicted. store_next retain storedAt draft s = Stored next m evicted"
  by (simp add: store_next_def Let_def split: prod.split)

lemma store_mutate_saves:
  assumes "store_mutate retain storedAt draft cur = Save next"
  obtains m evicted where "map_of (cs_Requests (channel_or_zero cur)) (ms_RequestID draft) = None"
    "store_next retain storedAt draft (channel_or_zero cur) = Stored next m evicted"
  using assms store_next_Stored [of retain storedAt draft "channel_or_zero cur"]
  by (auto simp: store_mutate_def answer_for_def Let_def split: store_answer.splits option.splits if_splits)

text \<open>One commit: the invariant stays, at most one sequence is issued, a live key keeps its entry.\<close>

lemma chat_commit:
  fixes a :: chat_op
  assumes ok: "chat_ok retain (channel_or_zero cur)" and r: "1 \<le> retain" "retain \<le> MaxRetain"
    and room: "cs_LastSeq (channel_or_zero cur) + 1 < 2 ^ 64"
  defines "s \<equiv> channel_or_zero cur" and "s' \<equiv> channel_or_zero (commit (chat_mutate retain) a cur)"
  shows "chat_ok retain s' \<and> cs_LastSeq s \<le> cs_LastSeq s' \<and> cs_LastSeq s' \<le> cs_LastSeq s + 1 \<and>
    (\<forall>k q. map_of (cs_Requests s) k = Some q \<longrightarrow> cs_LastSeq s' - q < requestKeyBudget retain \<longrightarrow>
       map_of (cs_Requests s') k = Some q)"
proof (cases "chat_mutate retain a cur")
  case (Save nx)
  then have s': "s' = nx" by (simp add: s'_def commit_def channel_or_zero_def)
  show ?thesis
  proof (cases a)
    case (PublishOp draft storedAt)
    with Save have "store_mutate retain storedAt draft cur = Save nx" by simp
    then obtain m evicted where new: "map_of (cs_Requests s) (ms_RequestID draft) = None"
      and st: "store_next retain storedAt draft s = Stored nx m evicted"
      unfolding s_def by (rule store_mutate_saves)
    note n = store_next_ok [OF ok [folded s_def] r room [folded s_def] new st]
    let ?led = "cs_Requests s @ [(ms_RequestID draft, cs_LastSeq s + 1)]"
    have led: "distinct (map fst ?led)" "distinct (map snd ?led)" "\<forall>x \<in> set ?led. snd x \<le> cs_LastSeq s + 1"
      using ok new unfolding s_def [symmetric] by (auto simp: chat_ok_def map_of_eq_None_iff)
    have bpos: "0 \<le> requestKeyBudget retain" using budget_covers_ring [OF r] r by auto
    have "map_of (cs_Requests nx) k = Some q"
      if "map_of (cs_Requests s) k = Some q" "cs_LastSeq nx - q < requestKeyBudget retain" for k q
      unfolding n(5) using that n(2) led bpos
      by (intro trim_ledger_lookup trim_ledger_keeps [where hi = "cs_LastSeq s + 1"])
        (auto dest: map_of_SomeD)
    with n s' show ?thesis by auto
  next
    case (PruneOp cutoff limit)
    with Save obtain c where c: "cur = Some c" by (cases cur) (auto simp: prune_mutate_def)
    with Save PruneOp have "prune_mutate cutoff limit (Some s) = Save nx"
      by (simp add: s_def channel_or_zero_def)
    from prune_next_ok [OF ok [folded s_def] this] s' show ?thesis by simp
  qed
qed (use ok in \<open>simp_all add: s_def s'_def commit_def channel_or_zero_def\<close>)

lemma chat_commits:
  fixes ops :: "chat_op list"
  assumes "chat_ok retain (channel_or_zero cur)" "1 \<le> retain" "retain \<le> MaxRetain"
    "cs_LastSeq (channel_or_zero cur) + int (length ops) < 2 ^ 64"
  defines "s \<equiv> channel_or_zero cur" and "s' \<equiv> channel_after retain ops cur"
  shows "chat_ok retain s' \<and> cs_LastSeq s \<le> cs_LastSeq s' \<and> cs_LastSeq s' \<le> cs_LastSeq s + int (length ops) \<and>
    (\<forall>k q. map_of (cs_Requests s) k = Some q \<longrightarrow> cs_LastSeq s' - q < requestKeyBudget retain \<longrightarrow>
       map_of (cs_Requests s') k = Some q)"
  unfolding s_def s'_def using assms(1-4)
proof (induction ops arbitrary: cur)
  case (Cons a ops)
  let ?cur = "commit (chat_mutate retain) a cur"
  from Cons.prems have "cs_LastSeq (channel_or_zero cur) + 1 < 2 ^ 64" by simp
  note one = chat_commit [OF Cons.prems(1,2,3) this, of a]
  have ih: "chat_ok retain (channel_after retain ops ?cur) \<and>
      cs_LastSeq (channel_or_zero ?cur) \<le> cs_LastSeq (channel_after retain ops ?cur) \<and>
      cs_LastSeq (channel_after retain ops ?cur) \<le> cs_LastSeq (channel_or_zero ?cur) + int (length ops) \<and>
      (\<forall>k q. map_of (cs_Requests (channel_or_zero ?cur)) k = Some q \<longrightarrow>
        cs_LastSeq (channel_after retain ops ?cur) - q < requestKeyBudget retain \<longrightarrow>
        map_of (cs_Requests (channel_after retain ops ?cur)) k = Some q)"
    by (rule Cons.IH) (use one Cons.prems in auto)
  show ?case
  proof (intro conjI allI impI)
    fix k q assume kq: "map_of (cs_Requests (channel_or_zero cur)) k = Some q"
      "cs_LastSeq (channel_after retain (a # ops) cur) - q < requestKeyBudget retain"
    then have "map_of (cs_Requests (channel_or_zero ?cur)) k = Some q" using one ih by simp
    with kq(2) ih show "map_of (cs_Requests (channel_after retain (a # ops) cur)) k = Some q" by simp
  qed (use one ih in auto)
qed auto

lemma channel_invariant_holds:
  assumes "newRuleTable rules = Inr table" "table kind = Some rule" "int (length ops) < 2 ^ 64 - 1"
  shows "chat_ok (rl_Retain rule) (channel_after (rl_Retain rule) ops None) \<and>
         cs_LastSeq (channel_after (rl_Retain rule) ops None) \<le> int (length ops)"
proof -
  have r: "1 \<le> rl_Retain rule" "rl_Retain rule \<le> MaxRetain"
    using newRuleTable_ok [OF assms(1)] assms(2) by (auto simp: table_ok_def)
  have z: "channel_or_zero None = zero_channel" by (simp add: channel_or_zero_def)
  have "chat_ok (rl_Retain rule) (channel_or_zero None)" using chat_ok_zero [OF r(1)] z by simp
  from chat_commits [OF this r, of ops] assms(3) show ?thesis
    by (simp add: z) (simp add: zero_channel_def)
qed

text \<open>C5: Whatever publishes and prunes are committed on a channel, in whatever order, fewer than
  2^64 - 1 of them: the sequences of the retained messages are consecutive and end at the last one
  issued, every message ever stored is retained or counted as evicted, the ring and the ledger keep
  their bounds, and every retained message is in the ledger under its own key.
\<close>

theorem channel_invariant:
  assumes "newRuleTable rules = Inr table" "table kind = Some rule" "int (length ops) < 2 ^ 64 - 1"
  shows "chat_ok (rl_Retain rule) (channel_after (rl_Retain rule) ops None) \<and>
         cs_LastSeq (channel_after (rl_Retain rule) ops None) \<le> int (length ops)"
  using assms by (rule channel_invariant_holds)

definition ex_rule :: ChannelRule where
  "ex_rule = \<lparr>rl_Kind = ''duel'', rl_RequiresTarget = True, rl_Scope = ScopePair, rl_SystemOnly = False,
              rl_Retain = 2\<rparr>"

definition ex_draft :: "int \<Rightarrow> string \<Rightarrow> Message" where
  "ex_draft role key = \<lparr>ms_Seq = 0, ms_Channel = \<lparr>ch_Kind = ''duel'', ch_Target = 8\<rparr>,
     ms_From = \<lparr>sd_RoleID = role, sd_Name = ''r''\<rparr>, ms_Origin = OriginRole, ms_Type = ''text'', ms_Body = ''hi'',
     ms_RequestID = key, ms_StoredAtUnix = 0\<rparr>"

lemma ex_table: "\<exists>table. newRuleTable [ex_rule] = Inr table \<and> table ''duel'' = Some ex_rule"
  by (auto simp: newRuleTable_def DefaultChannelRules_def ChannelRule_validate_def ex_rule_def bound_defs
      ChannelWorld_def ChannelGroup_def ChannelPrivate_def ChannelSystem_def)

text \<open>Three publishes into a ring of two: the first is evicted, its key is not.\<close>

definition ex_ops :: "chat_op list" where
  "ex_ops = [PublishOp (ex_draft 7 ''a'') 100, PublishOp (ex_draft 8 ''b'') 90, PublishOp (ex_draft 7 ''c'') 120]"

lemma ex_state:
  "map ms_RequestID (cs_Ring (channel_after 2 ex_ops None)) = [''b'', ''c''] \<and>
   ring_seqs (channel_after 2 ex_ops None) = [2, 3] \<and> cs_LastSeq (channel_after 2 ex_ops None) = 3 \<and>
   cs_Requests (channel_after 2 ex_ops None) = [(''a'', 1), (''b'', 2), (''c'', 3)]"
  by code_simp

theorem channel_invariant_witness:
  "\<exists>table. newRuleTable [ex_rule] = Inr table \<and> table ''duel'' = Some ex_rule \<and>
    chat_ok 2 (channel_after 2 ex_ops None) \<and> cs_Evicted (channel_after 2 ex_ops None) = 1"
proof -
  obtain table where t: "newRuleTable [ex_rule] = Inr table" "table ''duel'' = Some ex_rule"
    using ex_table by blast
  have "chat_ok 2 (channel_after 2 ex_ops None)"
    using channel_invariant [OF t, of ex_ops] by (simp add: ex_rule_def ex_ops_def)
  moreover have "cs_Evicted (channel_after 2 ex_ops None) = 1" by code_simp
  ultimately show ?thesis using t by blast
qed

section \<open>The deduplication window\<close>

lemma ledger_key_unique:
  assumes "chat_ok retain s" "map_of (cs_Requests s) k = Some q" "map_of (cs_Requests s) k' = Some q"
  shows "k = k'"
proof -
  have "(k, q) \<in> set (cs_Requests s)" "(k', q) \<in> set (cs_Requests s)"
    using assms(2,3) by (auto dest: map_of_SomeD)
  moreover have "inj_on snd (set (cs_Requests s))"
    using assms(1) by (simp add: chat_ok_def distinct_map)
  ultimately have "(k, q) = (k', q)" by (metis inj_onD snd_conv)
  then show ?thesis by simp
qed

text \<open>A draft whose key is in the ledger is never stored, and a replay answers with its message.\<close>

lemma known_key_answer:
  assumes ok: "chat_ok retain s" and k: "map_of (cs_Requests s) (ms_RequestID draft) = Some q"
  shows "case answer_for retain storedAt draft (Some s) of
      Replay m \<Rightarrow> m \<in> set (cs_Ring s) \<and> ms_Seq m = q \<and> ms_RequestID m = ms_RequestID draft \<and> sameSender m draft
    | Reused \<Rightarrow> \<exists>m \<in> set (cs_Ring s). ms_RequestID m = ms_RequestID draft \<and> \<not> sameSender m draft
    | Gone \<Rightarrow> \<forall>m \<in> set (cs_Ring s). ms_RequestID m \<noteq> ms_RequestID draft
    | Stored _ _ _ \<Rightarrow> False"
proof (cases "channel_find s q")
  case None
  have "ms_RequestID m \<noteq> ms_RequestID draft" if m: "m \<in> set (cs_Ring s)" for m
  proof
    assume e: "ms_RequestID m = ms_RequestID draft"
    have "map_of (cs_Requests s) (ms_RequestID m) = Some (ms_Seq m)" using ok m by (auto simp: chat_ok_def)
    then have "ms_Seq m = q" using e k by simp
    then show False using channel_find_iff [OF ok, of q m] m None by simp
  qed
  with None k show ?thesis by (simp add: answer_for_def channel_or_zero_def)
next
  case (Some m)
  then have m: "m \<in> set (cs_Ring s)" "ms_Seq m = q" using channel_find_iff [OF ok] by auto
  have "map_of (cs_Requests s) (ms_RequestID m) = Some q" using ok m by (auto simp: chat_ok_def)
  then have "ms_RequestID m = ms_RequestID draft" using ledger_key_unique [OF ok] k by blast
  with Some k m show ?thesis by (auto simp: answer_for_def channel_or_zero_def)
qed

text \<open>C15: The deduplication window. A key that stored a message as sequence q is remembered while fewer
  than the key budget (at least twice the ring) of messages follow it, whatever else is committed:
  until then a publish under the key stores nothing, answers its own sender with the stored message
  while that is retained, and is refused otherwise.
\<close>

theorem dedup_window:
  assumes "newRuleTable rules = Inr table" "table kind = Some rule"
    and "int (length ops) + int (length later) < 2 ^ 64 - 1"
    and "commits (chat_mutate (rl_Retain rule)) ops None = Some s"
    and "map_of (cs_Requests s) (ms_RequestID draft) = Some q"
    and "commits (chat_mutate (rl_Retain rule)) later (Some s) = Some s'"
    and "cs_LastSeq s' - q < requestKeyBudget (rl_Retain rule)"
  shows "case answer_for (rl_Retain rule) storedAt draft (Some s') of
      Replay m \<Rightarrow> m \<in> set (cs_Ring s') \<and> ms_Seq m = q \<and> ms_RequestID m = ms_RequestID draft \<and> sameSender m draft
    | Reused \<Rightarrow> \<exists>m \<in> set (cs_Ring s'). ms_RequestID m = ms_RequestID draft \<and> \<not> sameSender m draft
    | Gone \<Rightarrow> \<forall>m \<in> set (cs_Ring s'). ms_RequestID m \<noteq> ms_RequestID draft
    | Stored _ _ _ \<Rightarrow> False"
proof -
  have r: "1 \<le> rl_Retain rule" "rl_Retain rule \<le> MaxRetain"
    using newRuleTable_ok [OF assms(1)] assms(2) by (auto simp: table_ok_def)
  have "chat_ok (rl_Retain rule) s" "cs_LastSeq s \<le> int (length ops)"
    using channel_invariant_holds [OF assms(1,2), of ops] assms(3,4) by (simp_all add: channel_or_zero_def)
  then have "chat_ok (rl_Retain rule) s' \<and>
      (\<forall>k q. map_of (cs_Requests s) k = Some q \<longrightarrow> cs_LastSeq s' - q < requestKeyBudget (rl_Retain rule) \<longrightarrow>
        map_of (cs_Requests s') k = Some q)"
    using chat_commits [of "rl_Retain rule" "Some s" later] r assms(3,6) by (simp add: channel_or_zero_def)
  then show ?thesis using assms(5,7) by (intro known_key_answer) auto
qed

theorem dedup_window_witness:
  "\<exists>table s. newRuleTable [ex_rule] = Inr table \<and> commits (chat_mutate 2) ex_ops None = Some s \<and>
     map_of (cs_Requests s) ''a'' = Some 1 \<and> answer_for 2 130 (ex_draft 7 ''a'') (Some s) = Gone \<and>
     (\<forall>m \<in> set (cs_Ring s). ms_RequestID m \<noteq> ''a'')"
proof -
  obtain table where t: "newRuleTable [ex_rule] = Inr table" "table ''duel'' = Some ex_rule"
    using ex_table by blast
  have "case commits (chat_mutate 2) ex_ops None of None \<Rightarrow> False | Some s \<Rightarrow>
      map_of (cs_Requests s) ''a'' = Some 1 \<and> cs_LastSeq s = 3 \<and> answer_for 2 130 (ex_draft 7 ''a'') (Some s) = Gone"
    by code_simp
  then obtain s where s: "commits (chat_mutate 2) ex_ops None = Some s"
    "map_of (cs_Requests s) ''a'' = Some 1" "cs_LastSeq s = 3"
    "answer_for 2 130 (ex_draft 7 ''a'') (Some s) = Gone" by (auto split: option.splits)
  have "rl_Retain ex_rule = 2" "ms_RequestID (ex_draft 7 ''a'') = ''a''"
    by (simp_all add: ex_rule_def ex_draft_def)
  with dedup_window [OF t, of ex_ops "[]" s "ex_draft 7 ''a''" 1 s 130] s
  have "\<forall>m \<in> set (cs_Ring s). ms_RequestID m \<noteq> ''a''"
    by (simp add: ex_ops_def requestKeyBudget_def bound_defs)
  with t s show ?thesis by blast
qed

section \<open>History pages\<close>

lemma takeWhile_sorted:
  fixes f :: "'a \<Rightarrow> int"
  assumes down: "\<And>a b. a \<le> b \<Longrightarrow> P b \<Longrightarrow> P a"
  shows "sorted (map f xs) \<Longrightarrow> takeWhile (\<lambda>x. P (f x)) xs = filter (\<lambda>x. P (f x)) xs"
proof (induction xs)
  case (Cons x xs)
  have "filter (\<lambda>x. P (f x)) xs = []" if "\<not> P (f x)"
    using that Cons.prems down by (auto simp: filter_empty_conv)
  with Cons show ?case by auto
qed simp

lemma dropWhile_sorted:
  fixes f :: "'a \<Rightarrow> int"
  assumes down: "\<And>a b. a \<le> b \<Longrightarrow> P b \<Longrightarrow> P a"
  shows "sorted (map f xs) \<Longrightarrow> drop (length (takeWhile (\<lambda>x. P (f x)) xs)) xs = filter (\<lambda>x. \<not> P (f x)) xs"
proof (induction xs)
  case (Cons x xs)
  have "filter (\<lambda>x. \<not> P (f x)) xs = xs" if "\<not> P (f x)"
    using that Cons.prems down by (auto simp: filter_id_conv)
  with Cons show ?case by auto
qed simp

lemma ring_sorted: "chat_ok retain s \<Longrightarrow> sorted (map ms_Seq (cs_Ring s))"
  unfolding chat_ok_def ring_seqs_def by (metis sorted_upto)

text \<open>The messages a cursor asks for, and the newest or oldest \<open>limit\<close> of them.\<close>

definition newest :: "int \<Rightarrow> 'a list \<Rightarrow> 'a list" where
  "newest limit xs = drop (length xs - nat limit) xs"

definition wanted :: "channelState \<Rightarrow> HistoryQuery \<Rightarrow> Message list" where
  "wanted s q =
     (if hq_AfterSeq q > 0 then filter (\<lambda>m. hq_AfterSeq q < ms_Seq m) (cs_Ring s)
      else if hq_BeforeSeq q > 0 then filter (\<lambda>m. ms_Seq m < hq_BeforeSeq q) (cs_Ring s)
      else cs_Ring s)"

definition lost :: "channelState \<Rightarrow> int \<Rightarrow> int set" where
  "lost s after = {q. after < q \<and> q \<le> cs_LastSeq s} - ms_Seq ` set (cs_Ring s)"

lemma forward_slice_wanted:
  fixes after :: int
  assumes "chat_ok retain s" "0 < limit"
  defines "after_cursor \<equiv> filter (\<lambda>m. after < ms_Seq m) (cs_Ring s)"
  shows "forward_slice (cs_Ring s) after limit =
    (take (nat limit) after_cursor, int (length after_cursor) > limit)"
proof -
  let ?n = "length (takeWhile (\<lambda>m. ms_Seq m \<le> after) (cs_Ring s))"
  have d: "drop ?n (cs_Ring s) = after_cursor"
    using dropWhile_sorted [OF _ ring_sorted [OF assms(1)], of "\<lambda>q. q \<le> after"]
    by (simp add: after_cursor_def not_le)
  have n: "?n \<le> length (cs_Ring s)" by (rule length_takeWhile_le)
  have len: "int (length (cs_Ring s)) = int ?n + int (length after_cursor)"
    using d n by (metis length_drop of_nat_add le_add_diff_inverse)
  show ?thesis
  proof (cases "int (length after_cursor) > limit")
    case True
    then show ?thesis using len by (simp add: forward_slice_def Let_def d)
  next
    case False
    then have "nat (int (length (cs_Ring s)) - int ?n) = length after_cursor" using len by simp
    with False show ?thesis using len assms(2) by (auto simp: forward_slice_def Let_def d)
  qed
qed

lemma backward_slice_wanted:
  fixes before :: int
  assumes "chat_ok retain s" "0 < limit"
  defines "before_cursor \<equiv> filter (\<lambda>m. ms_Seq m < before) (cs_Ring s)"
  shows "backward_slice (cs_Ring s) before limit =
    (newest limit before_cursor, int (length before_cursor) > limit)"
proof -
  let ?n = "length (takeWhile (\<lambda>m. ms_Seq m < before) (cs_Ring s))"
  have t: "takeWhile (\<lambda>m. ms_Seq m < before) (cs_Ring s) = before_cursor"
    using takeWhile_sorted [OF _ ring_sorted [OF assms(1)], of "\<lambda>q. q < before"]
    by (simp add: before_cursor_def)
  then have "before_cursor = take ?n (cs_Ring s)" by (metis takeWhile_eq_take)
  moreover have "length before_cursor = ?n" using t by simp
  ultimately have d: "newest limit before_cursor = take (?n - (?n - nat limit)) (drop (?n - nat limit) (cs_Ring s))"
    by (metis drop_take newest_def)
  have "nat (if int ?n - limit < 0 then 0 else int ?n - limit) = ?n - nat limit"
    and "nat (int ?n - (if int ?n - limit < 0 then 0 else int ?n - limit)) = ?n - (?n - nat limit)"
    using assms(2) by auto
  with d t show ?thesis by (auto simp: backward_slice_def Let_def)
qed

lemma page_gap_lost:
  assumes ok: "chat_ok retain s" and after: "0 < after" "after \<le> cs_LastSeq s" and room: "cs_LastSeq s + 1 < 2 ^ 64"
  shows "page_gap s after \<longleftrightarrow> lost s after \<noteq> {}"
proof -
  have l: "lost s after = {q. after < q \<and> q \<le> cs_LastSeq s} - {cs_Evicted s + 1 .. cs_LastSeq s}"
    by (simp add: lost_def ring_seq_bounds [OF ok])
  have ev: "cs_Evicted s + int (length (cs_Ring s)) = cs_LastSeq s" using ok by (simp add: chat_ok_def)
  have some: "lost s after \<noteq> {} \<longleftrightarrow> after < cs_Evicted s"
  proof
    assume "after < cs_Evicted s"
    then have "after + 1 \<in> lost s after" using l ev by auto
    then show "lost s after \<noteq> {}" by blast
  next
    assume "lost s after \<noteq> {}"
    then obtain q where "q \<in> lost s after" by blast
    then have "after < q" "q \<le> cs_LastSeq s" "q \<notin> {cs_Evicted s + 1 .. cs_LastSeq s}"
      unfolding l by (simp, simp, auto)
    then show "after < cs_Evicted s" by simp
  qed
  show ?thesis
  proof (cases "cs_Ring s")
    case Nil
    with ev some show ?thesis by (simp add: page_gap_def)
  next
    case (Cons m ms)
    then have "oldestSeq s = cs_Evicted s + 1"
      using ring_nth_seq [OF ok, of 0] by (simp add: oldestSeq_def)
    moreover have "u64 (after + 1) = after + 1" using after room by (simp add: u64_id)
    ultimately show ?thesis using some Cons by (auto simp: page_gap_def)
  qed
qed

text \<open>C9: A page of a channel holds exactly the messages its cursor asks for: the first ones after the
  forward cursor, the last ones before the backward cursor, the newest ones without a cursor, never
  more than the limit and in sequence order; it says whether more are retained in that direction,
  and it reports a gap exactly when a message after the cursor has been dropped.
\<close>

theorem pages_exact:
  assumes "chat_ok retain s" "cs_LastSeq s + 1 < 2 ^ 64"
    and "HistoryQuery_validate q = None" "hq_AfterSeq q \<le> cs_LastSeq s"
  shows "pg_Messages (pageOf s q) =
           (if hq_AfterSeq q > 0 then take (nat (hq_Limit q)) (wanted s q) else newest (hq_Limit q) (wanted s q))
         \<and> (pg_HasMore (pageOf s q) \<longleftrightarrow> int (length (wanted s q)) > hq_Limit q)
         \<and> (pg_Gap (pageOf s q) \<longleftrightarrow> hq_AfterSeq q > 0 \<and> lost s (hq_AfterSeq q) \<noteq> {})"
proof -
  have lim: "0 < hq_Limit q"
    using assms(3) by (auto simp: HistoryQuery_validate_def split: if_splits)
  have "newest_slice (cs_Ring s) (hq_Limit q) =
      (newest (hq_Limit q) (cs_Ring s), int (length (cs_Ring s)) > hq_Limit q)"
    using lim by (auto simp: newest_slice_def newest_def Let_def nat_diff_distrib)
  then show ?thesis
    using forward_slice_wanted [OF assms(1) lim] backward_slice_wanted [OF assms(1) lim]
      page_gap_lost [OF assms(1) _ assms(4,2)]
    by (auto simp: pageOf_def wanted_def Let_def)
qed

definition ex_query :: "int \<Rightarrow> int \<Rightarrow> HistoryQuery" where
  "ex_query after limit = \<lparr>hq_Channel = \<lparr>ch_Kind = ''duel'', ch_Target = 8\<rparr>, hq_AfterSeq = after,
     hq_BeforeSeq = 0, hq_Limit = limit\<rparr>"

lemma ex_channel_ok:
  "chat_ok 2 (channel_after 2 ex_ops None)" "cs_LastSeq (channel_after 2 ex_ops None) = 3"
proof -
  obtain table where t: "newRuleTable [ex_rule] = Inr table" "table ''duel'' = Some ex_rule"
    using ex_table by blast
  show "chat_ok 2 (channel_after 2 ex_ops None)"
    using channel_invariant_holds [OF t, of ex_ops] by (simp add: ex_rule_def ex_ops_def)
  show "cs_LastSeq (channel_after 2 ex_ops None) = 3" using ex_state by simp
qed

theorem pages_exact_witness:
  "pg_Gap (pageOf (channel_after 2 ex_ops None) (ex_query 1 1)) = False \<and>
   pg_HasMore (pageOf (channel_after 2 ex_ops None) (ex_query 1 1)) \<and>
   map ms_RequestID (wanted (channel_after 2 ex_ops None) (ex_query 1 1)) = [''b'', ''c'']"
proof -
  let ?s = "channel_after 2 ex_ops None"
  have w: "map ms_RequestID (wanted ?s (ex_query 1 1)) = [''b'', ''c'']" by code_simp
  then have "length (wanted ?s (ex_query 1 1)) = 2" by (metis length_map length_Cons list.size(3) numeral_2_eq_2)
  moreover have "ms_Seq ` set (cs_Ring ?s) = {2, 3}"
    using ex_state by (metis ring_seqs_def set_map list.simps(15) empty_set)
  then have "lost ?s 1 = {}" using ex_channel_ok(2) by (auto simp: lost_def)
  moreover have "HistoryQuery_validate (ex_query 1 1) = None"
    by (simp add: HistoryQuery_validate_def ex_query_def bound_defs)
  ultimately show ?thesis
    using pages_exact [OF ex_channel_ok(1), of "ex_query 1 1"] w ex_channel_ok(2) by (simp add: ex_query_def)
qed

section \<open>Reading a channel page by page\<close>

text \<open>A client that follows \<open>NextCursor\<close> while the pages say there is more, for at most so many pages.\<close>

fun read_forward :: "nat \<Rightarrow> channelState \<Rightarrow> Channel \<Rightarrow> int \<Rightarrow> int \<Rightarrow> Message list" where
  "read_forward 0 s ch after limit = []"
| "read_forward (Suc pages) s ch after limit =
     (let page = pageOf s \<lparr>hq_Channel = ch, hq_AfterSeq = after, hq_BeforeSeq = 0, hq_Limit = limit\<rparr>
      in pg_Messages page @
         (if pg_HasMore page then read_forward pages s ch (pg_NextCursor page) limit else []))"

lemma ring_strict:
  assumes "chat_ok retain s"
  shows "sorted_wrt (<) (map ms_Seq (cs_Ring s))"
  using assms unfolding chat_ok_def ring_seqs_def
  by (metis distinct_upto sorted_upto strict_sorted_iff)

lemma filter_after_cut:
  fixes f :: "'a \<Rightarrow> int"
  assumes "sorted_wrt (<) (map f xs)" "0 < n" "n \<le> length xs"
  shows "filter (\<lambda>x. f (last (take n xs)) < f x) xs = drop n xs"
proof -
  let ?c = "f (last (take n xs))"
  have cut: "xs = take n xs @ drop n xs" by simp
  have s: "sorted_wrt (<) (map f (take n xs) @ map f (drop n xs))"
    using assms(1) cut by (metis map_append)
  have ne: "take n xs \<noteq> []" using assms(2,3) by auto
  have "f x \<le> ?c" if "x \<in> set (take n xs)" for x
  proof -
    have "sorted (map f (take n xs))" using s by (simp add: sorted_wrt_append strict_sorted_imp_sorted)
    moreover have "take n xs = butlast (take n xs) @ [last (take n xs)]" using ne by simp
    ultimately have "sorted (map f (butlast (take n xs)) @ [?c])"
      by (metis list.simps(8) list.simps(9) map_append)
    moreover have "x \<in> set (butlast (take n xs)) \<or> x = last (take n xs)"
      using that ne by (metis append_butlast_last_id in_set_conv_decomp set_ConsD append.assoc Un_iff set_append empty_iff empty_set)
    ultimately show ?thesis by (auto simp: sorted_append)
  qed
  then have "filter (\<lambda>x. ?c < f x) (take n xs) = []" by (simp add: filter_empty_conv not_less)
  moreover have "filter (\<lambda>x. ?c < f x) (drop n xs) = drop n xs"
    using s ne by (auto simp: filter_id_conv sorted_wrt_append)
  ultimately show ?thesis using cut by (metis filter_append append_Nil)
qed

lemma page_next_cursor:
  fixes ch :: Channel
  assumes ok: "chat_ok retain s" and lim: "0 < limit" and after: "0 < after"
  defines "page \<equiv> pageOf s \<lparr>hq_Channel = ch, hq_AfterSeq = after, hq_BeforeSeq = 0, hq_Limit = limit\<rparr>"
    and "rest \<equiv> filter (\<lambda>m. after < ms_Seq m) (cs_Ring s)"
  shows "pg_Messages page = take (nat limit) rest"
    and "pg_HasMore page \<longleftrightarrow> int (length rest) > limit"
    and "pg_HasMore page \<Longrightarrow> after < pg_NextCursor page \<and>
           filter (\<lambda>m. pg_NextCursor page < ms_Seq m) (cs_Ring s) = drop (nat limit) rest"
proof -
  show m: "pg_Messages page = take (nat limit) rest" and h: "pg_HasMore page \<longleftrightarrow> int (length rest) > limit"
    using forward_slice_wanted [OF ok lim, of after] after by (simp_all add: page_def pageOf_def rest_def)
  assume "pg_HasMore page"
  then have n: "0 < nat limit" "nat limit \<le> length rest" "take (nat limit) rest \<noteq> []" using h lim by auto
  let ?l = "last (take (nat limit) rest)"
  have c: "pg_NextCursor page = ms_Seq ?l"
    using n(3) m forward_slice_wanted [OF ok lim, of after] after
    by (simp add: page_def pageOf_def rest_def)
  have "?l \<in> set rest" using n(3) by (meson in_set_takeD last_in_set)
  then have a: "after < ms_Seq ?l" by (simp add: rest_def)
  have "filter (\<lambda>m. ms_Seq ?l < ms_Seq m) (cs_Ring s) = filter (\<lambda>m. ms_Seq ?l < ms_Seq m) rest"
    unfolding rest_def filter_filter by (rule filter_cong) (use a in \<open>auto simp: rest_def\<close>)
  also have "\<dots> = drop (nat limit) rest"
  proof (rule filter_after_cut [OF _ n(1,2)])
    show "sorted_wrt (<) (map ms_Seq rest)"
      unfolding rest_def using ring_strict [OF ok] by (simp add: sorted_wrt_map sorted_wrt_filter)
  qed
  finally show "after < pg_NextCursor page \<and>
      filter (\<lambda>m. pg_NextCursor page < ms_Seq m) (cs_Ring s) = drop (nat limit) rest"
    using a c by simp
qed

lemma read_forward_all:
  assumes ok: "chat_ok retain s" and lim: "0 < limit"
  shows "0 < after \<Longrightarrow> length (filter (\<lambda>m. after < ms_Seq m) (cs_Ring s)) < pages \<Longrightarrow>
    read_forward pages s ch after limit = filter (\<lambda>m. after < ms_Seq m) (cs_Ring s)"
proof (induction pages arbitrary: after)
  case (Suc pages)
  let ?page = "pageOf s \<lparr>hq_Channel = ch, hq_AfterSeq = after, hq_BeforeSeq = 0, hq_Limit = limit\<rparr>"
  let ?rest = "filter (\<lambda>m. after < ms_Seq m) (cs_Ring s)"
  note page = page_next_cursor [OF ok lim Suc.prems(1), of ch]
  show ?case
  proof (cases "pg_HasMore ?page")
    case True
    then have next_: "after < pg_NextCursor ?page"
      "filter (\<lambda>m. pg_NextCursor ?page < ms_Seq m) (cs_Ring s) = drop (nat limit) ?rest"
      using page(3) by blast+
    have "int (length ?rest) > limit" using True page(2) by blast
    then have "length (drop (nat limit) ?rest) < pages" using Suc.prems(2) lim by simp
    then have "read_forward pages s ch (pg_NextCursor ?page) limit = drop (nat limit) ?rest"
      using Suc.IH [of "pg_NextCursor ?page"] next_ Suc.prems(1) by simp
    then show ?thesis using True page(1) by (simp add: Let_def)
  next
    case False
    then have "take (nat limit) ?rest = ?rest" using page(2) by simp
    with False page(1) show ?thesis by (simp add: Let_def)
  qed
qed simp

text \<open>C21: A client that pages forward from any cursor, following \<open>NextCursor\<close> while a page says there is
  more, stops after at most one page per retained message and has then received every retained
  message after its cursor exactly once, in sequence order.
\<close>

theorem forward_reading_complete:
  assumes "chat_ok retain s" "0 < limit" "0 < after" "length (cs_Ring s) < pages"
  shows "read_forward pages s ch after limit = filter (\<lambda>m. after < ms_Seq m) (cs_Ring s)
         \<and> distinct (map ms_Seq (read_forward pages s ch after limit))"
proof -
  have "length (filter (\<lambda>m. after < ms_Seq m) (cs_Ring s)) < pages"
    using assms(4) length_filter_neq_le [of "\<lambda>m. after < ms_Seq m" "cs_Ring s"] by linarith
  then have r: "read_forward pages s ch after limit = filter (\<lambda>m. after < ms_Seq m) (cs_Ring s)"
    by (intro read_forward_all [OF assms(1,2,3)])
  have "distinct (map ms_Seq (cs_Ring s))"
    using ring_strict [OF assms(1)] by (simp add: strict_sorted_iff)
  then show ?thesis unfolding r by (simp add: distinct_map_filter)
qed

theorem forward_reading_complete_witness:
  "map ms_RequestID (read_forward 3 (channel_after 2 ex_ops None) \<lparr>ch_Kind = ''duel'', ch_Target = 8\<rparr> 1 1) =
     [''b'', ''c'']"
proof -
  let ?s = "channel_after 2 ex_ops None"
  have "map ms_RequestID (filter (\<lambda>m. 1 < ms_Seq m) (cs_Ring ?s)) = [''b'', ''c'']" by code_simp
  moreover have "length (cs_Ring ?s) < 3" by code_simp
  ultimately show ?thesis
    using forward_reading_complete [OF ex_channel_ok(1), of 1 1 3] by simp
qed

section \<open>Who may speak\<close>

text \<open>What the code decides before a role's message reaches the store.\<close>

definition publish_permitted :: "('x, 'o) ChatConfig \<Rightarrow> Sender \<Rightarrow> PublishRequest \<Rightarrow> 'o \<Rightarrow> bool" where
  "publish_permitted cfg from req x \<longleftrightarrow>
     (\<exists>rule spec ref.
        cc_Rules cfg (ch_Kind (pq_Channel req)) = Some rule \<and> \<not> rl_SystemOnly rule \<and>
        cc_Bodies cfg (pq_Type req) = Some spec \<and> \<not> bs_SystemOnly spec \<and>
        validateBody (pq_Type req) spec (pq_Body req) = None \<and>
        resolveRef (pq_Channel req) rule (sd_RoleID from) = Inr ref \<and>
        0 < sd_RoleID from \<and> validateRequestID (pq_RequestID req) = None \<and>
        fst (cc_CanPublish cfg from (pq_Channel req) x) = None)"

definition system_permitted :: "('x, 'o) ServiceConfig \<Rightarrow> 'o \<Rightarrow> bool" where
  "system_permitted sv x \<longleftrightarrow>
     (\<exists>authenticate token. sv_System sv = Some authenticate \<and> fst (authenticate x) = Inr token \<and>
        token_granted token)"

lemma outsideC_iff:
  "outsideC f w = (r, w') \<longleftrightarrow>
     r = Inr (fst (f (cw_Outside w))) \<and> w' = w\<lparr>cw_Outside := snd (f (cw_Outside w))\<rparr>"
  by (auto simp: outsideC_def split: prod.splits)

text \<open>Either a publish reaches the store, permitted, or it changes nothing there and is refused.\<close>

lemma Append_reaches_store:
  assumes "Append cfg from req w = (r, w')"
  shows "(\<exists>e. r = Inl e) \<and> cw_State w' = cw_State w \<or>
    publish_permitted cfg from req (cw_Outside w) \<and>
    (\<exists>ref rule w1. chat_store cfg ref rule (role_draft from req) w1 = (r, w') \<and> cw_State w1 = cw_State w \<and>
       cc_Rules cfg (ch_Kind (pq_Channel req)) = Some rule \<and>
       resolveRef (pq_Channel req) rule (sd_RoleID from) = Inr ref)"
  using assms unfolding Append_def
  by (auto simp: bindE_def thenE_def liftE_def guardE_def retE_def raiseE_def outsideC_def reportE_def modifyE_def
      rule_lookup_def body_lookup_def publish_permitted_def Sender_validate_def
      split: option.splits sum.splits prod.splits if_splits)

lemma channel_find_refl: "sameSender (draft\<lparr>ms_Seq := q, ms_StoredAtUnix := t\<rparr>) draft"
  by (simp add: sameSender_def)

lemma answer_sender:
  "answer_for retain t draft cur = Replay m \<Longrightarrow> sameSender m draft"
  "answer_for retain t draft cur = Stored nx m evicted \<Longrightarrow> sameSender m draft"
  by (auto simp: answer_for_def Let_def store_next_def channel_find_refl
      split: option.splits if_splits prod.splits)

text \<open>What the store answers with a message is by the sender of the draft.\<close>

lemma chat_store_sender:
  assumes st: "vs_contract m R (cc_State cfg)" and run: "chat_store cfg ref rule draft w = (Inr msg, w')"
  shows "sameSender msg draft"
proof -
  let ?t = "Unix (cc_Now cfg (env_ticks w))" and ?w = "w\<lparr>env_ticks := Suc (env_ticks w)\<rparr>"
  let ?mu = "store_mutate (rl_Retain rule) ?t draft"
  obtain calls res w1 where u: "chatUpdate cfg (rf_key ref) ?mu ?w = (Inr (calls, res), w1)"
    by (rule updateE_run)
  let ?a = "answer_for (rl_Retain rule) ?t draft (seen calls)"
  have ok: "(\<exists>b. res = Inr b) \<and> store_finish (rf_Kind ref) ?a w1 = (Inr msg, w')"
    using run u by (auto simp: chat_store_def bindE_def Let_def thenE_def raiseE_def split: sum.splits prod.splits if_splits)
  obtain b c c' where b: "res = Inr b" and up: "update_outcome (rf_key ref) ?mu c calls (Inr b) c'"
  proof -
    from st u show thesis
      by (rule updateE_cases) (use ok that in auto)
  qed
  have "?mu (seen calls) = Keep \<or> (\<exists>v. ?mu (seen calls) = Save v)"
    using up outcome_seen [OF up] by (cases b) (auto simp: update_outcome_def)
  then consider m where "?a = Replay m" | nx m evicted where "?a = Stored nx m evicted"
    by (cases ?a) (auto simp: store_mutate_def)
  then show ?thesis
  proof cases
    case 1
    with ok have "msg = m" by (simp add: store_finish_def)
    with 1 answer_sender(1) show ?thesis by blast
  next
    case 2
    with ok have "msg = m" by (simp add: store_finish_def)
    with 2 answer_sender(2) show ?thesis by blast
  qed
qed

lemma AppendSystem_reaches_store:
  assumes "AppendSystem cfg token req w = (r, w')"
  shows "(\<exists>e. r = Inl e) \<and> cw_State w' = cw_State w \<or>
    (\<exists>ref rule w1. chat_store cfg ref rule (system_draft req) w1 = (r, w') \<and> cw_State w1 = cw_State w)"
  using assms unfolding AppendSystem_def
  by (auto simp: bindE_def thenE_def liftE_def guardE_def retE_def raiseE_def
      rule_lookup_def body_lookup_def split: option.splits sum.splits prod.splits if_splits)

lemma PublishSystem_reaches_store:
  assumes "PublishSystem sv req w = (r, w')"
  shows "(\<exists>e. r = Inl e) \<and> cw_State w' = cw_State w \<or>
    system_permitted sv (cw_Outside w) \<and>
    (\<exists>ref rule w1. chat_store (sv_Store sv) ref rule (system_draft req) w1 = (r, w') \<and> cw_State w1 = cw_State w)"
proof (cases "sv_System sv")
  case None
  with assms show ?thesis by (auto simp: PublishSystem_def)
next
  case (Some authenticate)
  let ?a = "fst (authenticate (cw_Outside w))" and ?w = "w\<lparr>cw_Outside := snd (authenticate (cw_Outside w))\<rparr>"
  have run: "(case ?a of Inl err \<Rightarrow> raiseE (ErrSystemDenied # err)
      | Inr token \<Rightarrow> if \<not> token_granted token then raiseE [ErrSystemDenied]
          else AppendSystem (sv_Store sv) token req) ?w = (r, w')"
    using assms Some by (auto simp: PublishSystem_def bindE_def outsideC_def split: prod.splits)
  show ?thesis
  proof (cases ?a)
    case (Inl err)
    with run show ?thesis by auto
  next
    case (Inr token)
    show ?thesis
    proof (cases "token_granted token")
      case True
      with Some Inr have "system_permitted sv (cw_Outside w)" by (auto simp: system_permitted_def)
      moreover have "AppendSystem (sv_Store sv) token req ?w = (r, w')" using run Inr True by simp
      ultimately show ?thesis using AppendSystem_reaches_store [of "sv_Store sv" token req ?w r w'] by auto
    qed (use run Inr in auto)
  qed
qed

text \<open>C32: Nobody speaks without permission and nobody speaks as someone else. A role's publish is answered
  with a message only when the channel and the type are open to roles, the body is valid and the
  policy agreed, and that message is the role's; a system publish only when the deployment's
  authenticator granted a token, and that message carries the declared actor. Without permission
  both are refused and the stored state is untouched.
\<close>

theorem speech_authorized:
  assumes "vs_contract m R (cc_State (sv_Store sv))"
    and "Publish sv from req w = (r, w')" "PublishSystem sv sreq v = (q, v')"
  shows "(\<not> publish_permitted (sv_Store sv) from req (cw_Outside w) \<longrightarrow>
            cw_State w' = cw_State w \<and> (\<exists>e. r = Inl e))
       \<and> (\<not> system_permitted sv (cw_Outside v) \<longrightarrow> cw_State v' = cw_State v \<and> (\<exists>e. q = Inl e))
       \<and> (\<forall>msg. r = Inr msg \<longrightarrow>
            ms_Origin msg = OriginRole \<and> sd_RoleID (ms_From msg) = sd_RoleID from)
       \<and> (\<forall>msg. q = Inr msg \<longrightarrow>
            ms_Origin msg = OriginSystem \<and> sd_Name (ms_From msg) = sq_Actor sreq)"
proof -
  note role = Append_reaches_store [OF assms(2) [unfolded Publish_def]]
  note sys = PublishSystem_reaches_store [OF assms(3)]
  have roles: "ms_Origin msg = OriginRole \<and> sd_RoleID (ms_From msg) = sd_RoleID from" if "r = Inr msg" for msg
  proof -
    obtain ref rule w1 where "chat_store (sv_Store sv) ref rule (role_draft from req) w1 = (Inr msg, w')"
      using role \<open>r = Inr msg\<close> by auto
    from chat_store_sender [OF assms(1) this] show ?thesis
      by (auto simp: sameSender_def role_draft_def split: if_splits)
  qed
  have systems: "ms_Origin smsg = OriginSystem \<and> sd_Name (ms_From smsg) = sq_Actor sreq" if "q = Inr smsg" for smsg
  proof -
    obtain ref rule w1 where "chat_store (sv_Store sv) ref rule (system_draft sreq) w1 = (Inr smsg, v')"
      using sys \<open>q = Inr smsg\<close> by auto
    from chat_store_sender [OF assms(1) this] show ?thesis
      by (auto simp: sameSender_def system_draft_def split: if_splits)
  qed
  show ?thesis
    using role sys roles systems by blast
qed

definition ex_chat :: "((string, channelState) mem, unit) ServiceConfig" where
  "ex_chat = \<lparr>sv_Store = \<lparr>cc_State = mem_store, cc_Rules = [''duel'' \<mapsto> ex_rule],
       cc_CanPublish = policy_func (Some (\<lambda>from ch x. (None, x))), cc_CanRead = policy_func None,
       cc_Bodies = [''text'' \<mapsto> \<lparr>bs_Validator = Some (\<lambda>b. None), bs_MaxBytes = 10, bs_SystemOnly = False,
                               bs_AllowEmpty = False\<rparr>],
       cc_Now = (\<lambda>n. 100 * Second), cc_Age = Minute\<rparr>,
     sv_System = None, sv_PruneChannels = None, sv_ConversationKind = ''duel''\<rparr>"

definition ex_cworld :: "((string, channelState) mem, unit) cworld" where
  "ex_cworld = \<lparr>env_ticks = 0, env_events = [], cw_State = mem_of [], cw_Outside = ()\<rparr>"

definition ex_from :: Sender where
  "ex_from = \<lparr>sd_RoleID = 7, sd_Name = ''r''\<rparr>"

definition ex_publish :: PublishRequest where
  "ex_publish = \<lparr>pq_Channel = \<lparr>ch_Kind = ''duel'', ch_Target = 8\<rparr>, pq_Type = ''text'', pq_Body = ''hi'',
     pq_RequestID = ''a''\<rparr>"

definition ex_announce :: SystemPublishRequest where
  "ex_announce = \<lparr>sq_Channel = \<lparr>ch_Kind = ''duel'', ch_Target = 8\<rparr>, sq_Actor = ''gm'', sq_Type = ''text'',
     sq_Body = ''hi'', sq_RequestID = ''b''\<rparr>"

lemma ex_publish_runs:
  "\<exists>msg w'. Publish ex_chat ex_from ex_publish ex_cworld = (Inr msg, w')"
proof -
  have "case fst (Publish ex_chat ex_from ex_publish ex_cworld) of Inr _ \<Rightarrow> True | Inl _ \<Rightarrow> False"
    by code_simp
  then show ?thesis
    by (cases "Publish ex_chat ex_from ex_publish ex_cworld") (auto split: sum.splits)
qed

theorem speech_authorized_witness:
  "\<exists>msg w' q v'. Publish ex_chat ex_from ex_publish ex_cworld = (Inr msg, w') \<and>
     PublishSystem ex_chat ex_announce ex_cworld = (q, v') \<and>
     sd_RoleID (ms_From msg) = 7 \<and> cw_State v' = cw_State ex_cworld"
proof -
  obtain msg w' where run: "Publish ex_chat ex_from ex_publish ex_cworld = (Inr msg, w')"
    using ex_publish_runs by blast
  obtain q v' where sys: "PublishSystem ex_chat ex_announce ex_cworld = (q, v')" by force
  have "vs_contract mem_map (=) (cc_State (sv_Store ex_chat))"
    using mem_store_contract by (simp add: ex_chat_def)
  from speech_authorized [OF this run sys] have "sd_RoleID (ms_From msg) = 7"
    "\<not> system_permitted ex_chat (cw_Outside ex_cworld) \<longrightarrow> cw_State v' = cw_State ex_cworld"
    by (simp_all add: ex_from_def)
  moreover have "\<not> system_permitted ex_chat (cw_Outside ex_cworld)"
    by (simp add: system_permitted_def ex_chat_def)
  ultimately show ?thesis using run sys by blast
qed

section \<open>Channels and streams\<close>

text \<open>The participants of a channel's stream: both roles of a pair, else the target alone.\<close>

definition stream_of :: "('x, 'o) ChatConfig \<Rightarrow> Channel \<Rightarrow> int \<Rightarrow> int set" where
  "stream_of cfg c participant =
     (case cc_Rules cfg (ch_Kind c) of
        None \<Rightarrow> {}
      | Some rule \<Rightarrow> if rl_Scope rule = ScopePair then {participant, ch_Target c} else {ch_Target c})"

text \<open>The key of a resolved channel is its kind and its participants in ascending order, joined by colons.\<close>

lemma Resolve_parts:
  assumes "chat_Resolve cfg c p = Inr r"
  obtains (shared) rule where "cc_Rules cfg (ch_Kind c) = Some rule" "rl_Scope rule = ScopeShared"
      "rf_key r = Join CHR '':'' [ch_Kind c, FormatInt (ch_Target c)]"
  | (pair) rule where "cc_Rules cfg (ch_Kind c) = Some rule" "rl_Scope rule = ScopePair" "p \<noteq> ch_Target c"
      "rf_key r = Join CHR '':'' [ch_Kind c, FormatInt (min p (ch_Target c)), FormatInt (max p (ch_Target c))]"
proof -
  obtain rule where rule: "cc_Rules cfg (ch_Kind c) = Some rule" and res: "resolveRef c rule p = Inr r"
    using assms by (auto simp: chat_Resolve_def rule_lookup_def split: option.splits)
  have v: "Channel_validate c rule p = None"
    using res by (auto simp: resolveRef_def split: option.splits)
  show thesis
  proof (cases "rl_Scope rule")
    case ScopeShared
    with rule res v show thesis by (intro shared) (auto simp: resolveRef_def)
  next
    case ScopePair
    moreover have "p \<noteq> ch_Target c" using v ScopePair by (auto simp: Channel_validate_def split: if_splits)
    ultimately show thesis using rule res v by (intro pair) (auto simp: resolveRef_def split: if_splits)
  qed (use res v in \<open>simp add: resolveRef_def\<close>)
qed

lemma min_max_set: "{min a b, max a b} = {a, b}" for a b :: int
  by (auto simp: min_def max_def)

lemma pair_eq_set:
  fixes a b c d :: int
  shows "min a b = min c d \<and> max a b = max c d \<longleftrightarrow> {a, b} = {c, d}"
proof
  assume "{a, b} = {c, d}"
  then show "min a b = min c d \<and> max a b = max c d" by (auto simp: doubleton_eq_iff)
qed (metis min_max_set)

lemma Join_colon_inject:
  assumes "ws \<noteq> []" "vs \<noteq> []" "\<forall>w \<in> set ws. CHR '':'' \<notin> set w" "\<forall>w \<in> set vs. CHR '':'' \<notin> set w"
  shows "Join CHR '':'' ws = Join CHR '':'' vs \<longleftrightarrow> ws = vs"
  using assms by (metis Split_Join)

text \<open>A resolved channel is one stream and its key identifies it. For kinds without a colon, two
  resolved channels have the same key exactly when they are of one kind and have the same
  participants: both directions of a conversation are one stream, whoever asks, and no other
  channel reads or writes it.
\<close>

theorem stream_key_identifies:
  assumes "chat_Resolve cfg c p = Inr r" "chat_Resolve cfg c' p' = Inr r'"
    and "CHR '':'' \<notin> set (ch_Kind c)" "CHR '':'' \<notin> set (ch_Kind c')"
  shows "rf_key r = rf_key r' \<longleftrightarrow> ch_Kind c = ch_Kind c' \<and> stream_of cfg c p = stream_of cfg c' p'"
  using assms(1)
proof (cases rule: Resolve_parts)
  case (shared rule)
  note s = this
  from assms(2) show ?thesis
  proof (cases rule: Resolve_parts)
    case (shared rule')
    with s assms(3,4) show ?thesis
      by (auto simp: Join_colon_inject FormatInt_no_sep FormatInt_inject stream_of_def simp del: Join.simps)
  next
    case (pair rule')
    with s assms(3,4) show ?thesis
      by (auto simp: Join_colon_inject FormatInt_no_sep FormatInt_inject stream_of_def simp del: Join.simps)
  qed
next
  case (pair rule)
  note s = this
  from assms(2) show ?thesis
  proof (cases rule: Resolve_parts)
    case (shared rule')
    with s assms(3,4) show ?thesis
      by (auto simp: Join_colon_inject FormatInt_no_sep FormatInt_inject stream_of_def simp del: Join.simps)
  next
    case (pair rule')
    with s assms(3,4) show ?thesis
      by (auto simp: Join_colon_inject FormatInt_no_sep FormatInt_inject stream_of_def pair_eq_set simp del: Join.simps)
  qed
qed

theorem stream_key_identifies_witness:
  "\<exists>r r'. chat_Resolve (sv_Store ex_chat) \<lparr>ch_Kind = ''duel'', ch_Target = 8\<rparr> 7 = Inr r \<and>
     chat_Resolve (sv_Store ex_chat) \<lparr>ch_Kind = ''duel'', ch_Target = 7\<rparr> 8 = Inr r' \<and> rf_key r = rf_key r'"
proof -
  have r: "\<exists>r. chat_Resolve (sv_Store ex_chat) \<lparr>ch_Kind = ''duel'', ch_Target = 8\<rparr> 7 = Inr r"
    "\<exists>r. chat_Resolve (sv_Store ex_chat) \<lparr>ch_Kind = ''duel'', ch_Target = 7\<rparr> 8 = Inr r"
    by (simp_all add: chat_Resolve_def rule_lookup_def ex_chat_def resolveRef_def Channel_validate_def ex_rule_def)
  then obtain r r' where rr: "chat_Resolve (sv_Store ex_chat) \<lparr>ch_Kind = ''duel'', ch_Target = 8\<rparr> 7 = Inr r"
    "chat_Resolve (sv_Store ex_chat) \<lparr>ch_Kind = ''duel'', ch_Target = 7\<rparr> 8 = Inr r'" by blast
  have "rf_key r = rf_key r'"
    using stream_key_identifies [OF rr] by (auto simp: stream_of_def ex_chat_def ex_rule_def)
  with rr show ?thesis by blast
qed

lemma ex_numerals: "FormatInt 7 = ''7''" "FormatInt 8 = ''8''"
  by code_simp+

text \<open>The colon matters: a kind that contains one can share streams with a pair-scoped kind.\<close>

theorem kinds_with_colon_collide:
  "resolveRef \<lparr>ch_Kind = ''duel'', ch_Target = 8\<rparr> ex_rule 7 =
     Inr \<lparr>rf_Kind = ''duel'', rf_key = ''duel:7:8''\<rparr> \<and>
   (let room = \<lparr>rl_Kind = ''duel:7'', rl_RequiresTarget = True, rl_Scope = ScopeShared, rl_SystemOnly = False,
                rl_Retain = 2\<rparr> in
    (\<exists>table. newRuleTable [ex_rule, room] = Inr table \<and> table ''duel'' = Some ex_rule \<and> table ''duel:7'' = Some room) \<and>
    resolveRef \<lparr>ch_Kind = ''duel:7'', ch_Target = 8\<rparr> room 9 =
      Inr \<lparr>rf_Kind = ''duel:7'', rf_key = ''duel:7:8''\<rparr>)"
  by (auto simp: newRuleTable_def DefaultChannelRules_def ChannelRule_validate_def ex_rule_def bound_defs
      ChannelWorld_def ChannelGroup_def ChannelPrivate_def ChannelSystem_def resolveRef_def Channel_validate_def
      ex_numerals Let_def)

end
