(* ===== verification/Directory.thy ===== *)
theory Directory
  imports VersionStore
begin

text \<open>
  Package \<open>service/directory\<close> (\<open>directory.go\<close>, \<open>store.go\<close>): unique keys claimed in two phases.
  \<open>Reserve\<close> takes a key for an owner until it expires, \<open>Commit\<close> makes it permanent, \<open>Cancel\<close> and
  \<open>Release\<close> read it and delete it, version-checked; others may write in between, which the last
  section makes steps of. The normalizer and the token generator are supplied by the
  caller and are parameters, as is the lower-casing of \<open>strings.ToLower\<close>.
\<close>

section \<open>Errors and entries (directory.go)\<close>

abbreviation "ErrKeyTaken \<equiv> Coded 530101"
abbreviation "ErrClaimNotFound \<equiv> Coded 530102"
abbreviation "ErrClaimStale \<equiv> Coded 530103"
abbreviation "ErrOwnerMismatch \<equiv> Coded 530104"
abbreviation "ErrKeyEmpty \<equiv> Coded 530105"
abbreviation "ErrOwnerEmpty \<equiv> Coded 530106"

definition DirectoryError :: "(gerr \<Rightarrow> int \<times> string) \<Rightarrow> gerr option \<Rightarrow> int \<times> string" where
  "DirectoryError clientError err =
     (case err of None \<Rightarrow> (0, [])
      | Some e \<Rightarrow> if Is e VersionMismatch then clientError [ErrOwnerMismatch] else clientError e)"

definition DirectoryCode :: "(gerr \<Rightarrow> int \<times> string) \<Rightarrow> gerr option \<Rightarrow> int" where
  "DirectoryCode clientError err = fst (DirectoryError clientError err)"

datatype dir_state = StateReserved | StateCommitted

type_synonym Owner = string

record Entry =
  en_Key :: string
  en_Raw :: string
  en_Owner :: Owner
  en_State :: dir_state
  en_Token :: string
  en_ExpiresAtUnix :: int
  en_ReservedAtUnix :: int
  en_CommittedAtUnix :: int

definition entry_Expired :: "Entry \<Rightarrow> time \<Rightarrow> bool" where
  "entry_Expired e now =
     (if en_State e = StateCommitted \<or> en_ExpiresAtUnix e = 0 then False
      else Unix now \<ge> en_ExpiresAtUnix e)"

text \<open>\<open>None\<close> for \<open>ExpiresAt\<close> is the zero time of a claim on a committed entry.\<close>

record Claim =
  cl_Key :: string
  cl_Owner :: Owner
  cl_Token :: string
  cl_ExpiresAt :: "time option"

section \<open>Configuration (store.go)\<close>

record 'x DirectoryConfig =
  dc_State :: "('x, string, Entry) vstore"
  dc_Normalize :: "string \<Rightarrow> gerr + string"
  dc_DefaultTTL :: duration
  dc_Now :: "nat \<Rightarrow> time"
  dc_NewToken :: "nat \<Rightarrow> gerr + string"

record 'x dworld = env +
  dw_State :: 'x
  dw_Minted :: nat

definition DirectoryNew ::
  "('x, string, Entry) vstore option \<Rightarrow> (string \<Rightarrow> gerr + string) option \<Rightarrow> duration \<Rightarrow>
   (nat \<Rightarrow> time) option \<Rightarrow> (nat \<Rightarrow> gerr + string) option \<Rightarrow> (nat \<Rightarrow> time) \<Rightarrow> (nat \<Rightarrow> gerr + string) \<Rightarrow>
   gerr + 'x DirectoryConfig" where
  "DirectoryNew state normalizer defaultTTL now newToken systemNow randomToken =
     (case state of
        None \<Rightarrow> Inl [Foreign ''directory: state store is nil'']
      | Some st \<Rightarrow>
          (case normalizer of
             None \<Rightarrow> Inl [Foreign ''directory: normalizer is required'']
           | Some norm \<Rightarrow>
               if defaultTTL \<le> 0 then Inl [Foreign ''directory: default ttl must be positive'']
               else Inr \<lparr>dc_State = st, dc_Normalize = norm, dc_DefaultTTL = defaultTTL,
                         dc_Now = (case now of None \<Rightarrow> systemNow | Some n \<Rightarrow> n),
                         dc_NewToken = (case newToken of None \<Rightarrow> randomToken | Some t \<Rightarrow> t)\<rparr>))"

definition NormalizeLower :: "(string \<Rightarrow> string) \<Rightarrow> string \<Rightarrow> gerr + string" where
  "NormalizeLower toLower raw =
     (let trimmed = TrimSpace raw in if trimmed = [] then Inl [ErrKeyEmpty] else Inr (toLower trimmed))"

abbreviation "dirGet cfg \<equiv> getE dw_State dw_State_update (dc_State cfg)"
abbreviation "dirUpdate cfg \<equiv> updateE dw_State dw_State_update (dc_State cfg)"
abbreviation "dirDelete cfg \<equiv> deleteE dw_State dw_State_update (dc_State cfg)"

definition dir_mintE :: "'x DirectoryConfig \<Rightarrow> ('x dworld, string) handler" where
  "dir_mintE cfg = (\<lambda>w. (dc_NewToken cfg (dw_Minted w), w\<lparr>dw_Minted := Suc (dw_Minted w)\<rparr>))"

section \<open>Reserve\<close>

definition held :: "time \<Rightarrow> Entry option \<Rightarrow> bool" where
  "held now cur = (case cur of None \<Rightarrow> False | Some current \<Rightarrow> \<not> entry_Expired current now)"

definition new_entry :: "string \<Rightarrow> string \<Rightarrow> Owner \<Rightarrow> string \<Rightarrow> time \<Rightarrow> time \<Rightarrow> Entry" where
  "new_entry key raw owner token now expiresAt =
     \<lparr>en_Key = key, en_Raw = TrimSpace raw, en_Owner = owner, en_State = StateReserved, en_Token = token,
      en_ExpiresAtUnix = Unix expiresAt, en_ReservedAtUnix = Unix now, en_CommittedAtUnix = 0\<rparr>"

definition reserve_mutate :: "string \<Rightarrow> string \<Rightarrow> Owner \<Rightarrow> string \<Rightarrow> time \<Rightarrow> time \<Rightarrow> Entry mutate" where
  "reserve_mutate key raw owner token now expiresAt cur =
     (case cur of
        Some current \<Rightarrow>
          if \<not> entry_Expired current now then
            if en_Owner current \<noteq> owner then Fail [ErrKeyTaken] else Keep
          else Save (new_entry key raw owner token now expiresAt)
      | None \<Rightarrow> Save (new_entry key raw owner token now expiresAt))"

text \<open>The claim the callback captures on the value it saw last.\<close>

definition reserve_claim :: "string \<Rightarrow> Owner \<Rightarrow> string \<Rightarrow> time \<Rightarrow> time \<Rightarrow> Entry option \<Rightarrow> Claim" where
  "reserve_claim key owner token now expiresAt cur =
     (if held now cur then
        (case cur of
           Some current \<Rightarrow>
             \<lparr>cl_Key = key, cl_Owner = owner, cl_Token = en_Token current,
              cl_ExpiresAt = (if en_State current = StateCommitted then None
                              else Some (en_ExpiresAtUnix current * Second))\<rparr>
         | None \<Rightarrow> \<lparr>cl_Key = [], cl_Owner = [], cl_Token = [], cl_ExpiresAt = None\<rparr>)
      else \<lparr>cl_Key = key, cl_Owner = owner, cl_Token = token, cl_ExpiresAt = Some expiresAt\<rparr>)"

definition Reserve :: "'x DirectoryConfig \<Rightarrow> string \<Rightarrow> Owner \<Rightarrow> duration \<Rightarrow> ('x dworld, Claim) handler" where
  "Reserve cfg raw owner ttl =
     bindE (liftE (dc_Normalize cfg raw)) (\<lambda>key.
     if owner = [] then raiseE [ErrOwnerEmpty]
     else let ttl = (if ttl \<le> 0 then dc_DefaultTTL cfg else ttl) in
       bindE (nowE (dc_Now cfg)) (\<lambda>now.
       let expiresAt = Add now ttl in
       bindE (dir_mintE cfg) (\<lambda>token.
       bindE (dirUpdate cfg key (reserve_mutate key raw owner token now expiresAt)) (\<lambda>(calls, r).
         case r of
           Inl err \<Rightarrow>
             if Is err ErrKeyTaken
             then thenE (reportE (Refused ''reserve'' ''taken'')) (raiseE err)
             else raiseE err
         | Inr applied \<Rightarrow>
             thenE (reportE (if held now (seen calls) then Replayed ''reserve'' else Accepted ''reserve''))
               (retE (reserve_claim key owner token now expiresAt (seen calls)))))))"

section \<open>Commit\<close>

definition commit_next :: "time \<Rightarrow> Entry \<Rightarrow> Entry" where
  "commit_next now current =
     current\<lparr>en_State := StateCommitted, en_ExpiresAtUnix := 0, en_CommittedAtUnix := Unix now\<rparr>"

definition commit_mutate :: "string \<Rightarrow> time \<Rightarrow> Entry mutate" where
  "commit_mutate token now cur =
     (case cur of
        None \<Rightarrow> Fail [ErrClaimNotFound]
      | Some current \<Rightarrow>
          if en_Token current \<noteq> token then Fail [ErrClaimStale]
          else if en_State current = StateCommitted then Keep
          else if entry_Expired current now then Fail [ErrClaimNotFound]
          else Save (commit_next now current))"

definition commit_refusal :: "string \<Rightarrow> time \<Rightarrow> Entry option \<Rightarrow> string" where
  "commit_refusal token now cur =
     (case cur of
        None \<Rightarrow> []
      | Some current \<Rightarrow>
          if en_Token current \<noteq> token then ''stale''
          else if en_State current = StateCommitted then []
          else if entry_Expired current now then ''lapsed'' else [])"

definition zero_entry :: Entry where
  "zero_entry = \<lparr>en_Key = [], en_Raw = [], en_Owner = [], en_State = StateReserved, en_Token = [],
     en_ExpiresAtUnix = 0, en_ReservedAtUnix = 0, en_CommittedAtUnix = 0\<rparr>"

definition Commit :: "'x DirectoryConfig \<Rightarrow> Claim \<Rightarrow> ('x dworld, Entry) handler" where
  "Commit cfg claim =
     (if cl_Key claim = [] then raiseE [ErrKeyEmpty]
      else if cl_Token claim = [] then raiseE [ErrClaimNotFound]
      else bindE (nowE (dc_Now cfg)) (\<lambda>now.
        bindE (dirUpdate cfg (cl_Key claim) (commit_mutate (cl_Token claim) now)) (\<lambda>(calls, r).
          case r of
            Inl err \<Rightarrow>
              let refusal = commit_refusal (cl_Token claim) now (seen calls) in
              thenE (if refusal \<noteq> [] then reportE (Refused ''commit'' refusal) else retE ()) (raiseE err)
          | Inr applied \<Rightarrow>
              thenE (reportE (if applied then Accepted ''commit'' else Replayed ''commit''))
                (retE (result_of (commit_mutate (cl_Token claim) now) zero_entry (seen calls))))))"

section \<open>Cancel, Lookup and Release\<close>

text \<open>\<open>Cancel\<close> and \<open>Release\<close> read the entry and delete it later; what each does with what it read is a
  definition of its own, since others may write in between.\<close>

definition cancel_found :: "'x DirectoryConfig \<Rightarrow> Claim \<Rightarrow> Entry versioned option \<Rightarrow> ('x dworld, unit) handler" where
  "cancel_found cfg claim current =
     (case current of
        None \<Rightarrow> reportE (Replayed ''cancel'')
      | Some sv \<Rightarrow>
          if en_Token (ver_Value sv) \<noteq> cl_Token claim then reportE (Dropped ''cancel.not_ours'' 1)
          else if en_State (ver_Value sv) = StateCommitted
          then thenE (reportE (Refused ''cancel'' ''committed'')) (raiseE [ErrClaimStale])
          else bindE (dirDelete cfg (cl_Key claim) sv) (\<lambda>r.
            case r of
              Some err \<Rightarrow>
                if Is err VersionMismatch then reportE (Dropped ''cancel.raced'' 1) else raiseE err
            | None \<Rightarrow> reportE (Accepted ''cancel'')))"

definition Cancel :: "'x DirectoryConfig \<Rightarrow> Claim \<Rightarrow> ('x dworld, unit) handler" where
  "Cancel cfg claim =
     (if cl_Key claim = [] then raiseE [ErrKeyEmpty]
      else bindE (dirGet cfg (cl_Key claim)) (cancel_found cfg claim))"

definition dir_Lookup :: "'x DirectoryConfig \<Rightarrow> string \<Rightarrow> ('x dworld, Entry option) handler" where
  "dir_Lookup cfg raw =
     bindE (liftE (dc_Normalize cfg raw)) (\<lambda>key.
     bindE (dirGet cfg key) (\<lambda>current.
       case current of
         None \<Rightarrow> retE None
       | Some sv \<Rightarrow>
           bindE (nowE (dc_Now cfg)) (\<lambda>now.
             if entry_Expired (ver_Value sv) now then retE None else retE (Some (ver_Value sv)))))"

definition release_found ::
  "'x DirectoryConfig \<Rightarrow> string \<Rightarrow> Owner \<Rightarrow> Entry versioned option \<Rightarrow> ('x dworld, unit) handler" where
  "release_found cfg key owner current =
     (case current of
        None \<Rightarrow> reportE (Replayed ''release'')
      | Some sv \<Rightarrow>
          if en_Owner (ver_Value sv) \<noteq> owner
          then thenE (reportE (Refused ''release'' ''not_owner'')) (raiseE [ErrOwnerMismatch])
          else bindE (dirDelete cfg key sv) (\<lambda>r.
            case r of
              Some err \<Rightarrow>
                if Is err VersionMismatch
                then thenE (reportE (Conflict ''release'')) (raiseE [ErrOwnerMismatch])
                else raiseE err
            | None \<Rightarrow> reportE (Accepted ''release'')))"

definition Release :: "'x DirectoryConfig \<Rightarrow> string \<Rightarrow> Owner \<Rightarrow> ('x dworld, unit) handler" where
  "Release cfg raw owner =
     bindE (liftE (dc_Normalize cfg raw)) (\<lambda>key.
     if owner = [] then raiseE [ErrOwnerEmpty]
     else bindE (dirGet cfg key) (release_found cfg key owner))"

declare dir_mintE_def [handler_simps]

section \<open>Callers that interleave\<close>

text \<open>
  Any number of callers at work on one store. A \<open>Reserve\<close>, a \<open>Commit\<close> and a \<open>Lookup\<close> reach the store once
  and are one step each. A \<open>Cancel\<close> or a \<open>Release\<close> is two: its read, and what it does with the entry it
  read, which waits among the pending deletes while other steps run. A caller that dies in between leaves
  its pending delete there for good. The stores may restart versions when a key is deleted and written again.
\<close>

datatype pending_delete =
    CancelAfter Claim "Entry versioned option"
  | ReleaseAfter string Owner "Entry versioned option"

record 'x dir_sys =
  ds_World :: "'x dworld"
  ds_Pending :: "pending_delete list"

datatype dir_act =
    DoReserve string Owner duration
  | DoCommit Claim
  | DoLookup string
  | BeginCancel Claim
  | BeginRelease string Owner
  | Finish nat

fun resume :: "'x DirectoryConfig \<Rightarrow> pending_delete \<Rightarrow> ('x dworld, unit) handler" where
  "resume cfg (CancelAfter claim current) = cancel_found cfg claim current"
| "resume cfg (ReleaseAfter key owner current) = release_found cfg key owner current"

text \<open>The first half of a delete: the read, and what then waits to be finished.\<close>

definition begin_delete ::
  "'x DirectoryConfig \<Rightarrow> string \<Rightarrow> (Entry versioned option \<Rightarrow> pending_delete) \<Rightarrow> 'x dir_sys \<Rightarrow> 'x dir_sys" where
  "begin_delete cfg key after s =
     (case dirGet cfg key (ds_World s) of
        (Inl err, w) \<Rightarrow> s\<lparr>ds_World := w\<rparr>
      | (Inr current, w) \<Rightarrow> \<lparr>ds_World = w, ds_Pending = ds_Pending s @ [after current]\<rparr>)"

fun dir_step :: "'x DirectoryConfig \<Rightarrow> dir_act \<Rightarrow> 'x dir_sys \<Rightarrow> 'x dir_sys" where
  "dir_step cfg (DoReserve raw owner ttl) s = s\<lparr>ds_World := snd (Reserve cfg raw owner ttl (ds_World s))\<rparr>"
| "dir_step cfg (DoCommit claim) s = s\<lparr>ds_World := snd (Commit cfg claim (ds_World s))\<rparr>"
| "dir_step cfg (DoLookup raw) s = s\<lparr>ds_World := snd (dir_Lookup cfg raw (ds_World s))\<rparr>"
| "dir_step cfg (BeginCancel claim) s =
     (if cl_Key claim = [] then s else begin_delete cfg (cl_Key claim) (CancelAfter claim) s)"
| "dir_step cfg (BeginRelease raw owner) s =
     (case dc_Normalize cfg raw of
        Inl err \<Rightarrow> s
      | Inr key \<Rightarrow> if owner = [] then s else begin_delete cfg key (ReleaseAfter key owner) s)"
| "dir_step cfg (Finish i) s =
     (if i < length (ds_Pending s)
      then \<lparr>ds_World = snd (resume cfg (ds_Pending s ! i) (ds_World s)),
            ds_Pending = take i (ds_Pending s) @ drop (Suc i) (ds_Pending s)\<rparr>
      else s)"

fun dir_run :: "'x DirectoryConfig \<Rightarrow> dir_act list \<Rightarrow> 'x dir_sys \<Rightarrow> 'x dir_sys" where
  "dir_run cfg [] s = s"
| "dir_run cfg (a # acts) s = dir_run cfg acts (dir_step cfg a s)"

end
