(* ===== verification/DirectoryProps.thy ===== *)
theory DirectoryProps
  imports Directory
begin

text \<open>
  What the directory promises: each handler implements the step of an abstract directory and gives its answer,
  a key that is held changes only through its holder even while reads and deletes of other callers interleave,
  and a key that was never committed comes free again.
\<close>

section \<open>What the operations do to the store\<close>

text \<open>What a handler around one \<open>Update\<close> answers and leaves: \<open>ans\<close> is its answer from the value it saw.\<close>

definition settles ::
  "string \<Rightarrow> Entry mutate \<Rightarrow> (Entry option \<Rightarrow> 'a) \<Rightarrow> (string, Entry) contents \<Rightarrow> gerr + 'a \<Rightarrow>
   (string, Entry) contents \<Rightarrow> bool" where
  "settles k f ans c r c' \<longleftrightarrow>
     (case f (value_at c k) of
        Fail e \<Rightarrow> r = Inl e \<and> c' = c
      | Keep \<Rightarrow> r = Inr (ans (value_at c k)) \<and> c' = c
      | Save v \<Rightarrow> r = Inr (ans (value_at c k)) \<and> written k v c c') \<or>
     (\<exists>e. r = Inl e \<and> store_error e \<and> (c' = c \<or> (\<exists>v. f (value_at c k) = Save v \<and> written k v c c')))"

lemma settles_update:
  assumes "vs_contract m (=) (dc_State cfg)" "dirUpdate cfg k f w = (Inr (calls, res), w1)"
    and "r = (case res of Inl e \<Rightarrow> Inl e | Inr b \<Rightarrow> Inr (ans (seen calls)))" "dw_State w' = dw_State w1"
  shows "settles k f ans (m (dw_State w)) r (m (dw_State w'))"
  using assms(1,2)
proof (rule updateE_cases)
  fix calls' res' x' c
  assume u: "m (dw_State w) = c" "update_outcome k f c calls' res' (m x')"
    "w1 = dw_State_update (\<lambda>_. x') w" "Inr (calls, res) = Inr (calls', res')"
  then have o': "update_outcome k f c calls res (m x')" by simp
  have c': "m (dw_State w') = m x'" using u(3) assms(4) by simp
  show ?thesis
  proof (cases res)
    case (Inl e)
    with o' u(1) c' assms(3) show ?thesis by (auto simp: settles_def update_outcome_def)
  next
    case (Inr b)
    have "seen calls = value_at c k" by (rule conjunct1 [OF outcome_seen [OF o' [unfolded Inr]]])
    then have r: "r = Inr (ans (value_at c k))" using assms(3) Inr by simp
    show ?thesis
      unfolding u(1) c' r using o' Inr by (cases b) (auto simp: settles_def update_outcome_def)
  qed
qed

lemma Reserve_settles:
  assumes st: "vs_contract m (=) (dc_State cfg)" and run: "Reserve cfg raw owner ttl w = (r, w')"
    and ok: "dc_Normalize cfg raw = Inr key" "owner \<noteq> []" "dc_NewToken cfg (dw_Minted w) = Inr token"
  defines "now \<equiv> dc_Now cfg (env_ticks w)"
  defines "until \<equiv> Add now (if ttl \<le> 0 then dc_DefaultTTL cfg else ttl)"
  shows "settles key (reserve_mutate key raw owner token now until) (reserve_claim key owner token now until)
    (m (dw_State w)) r (m (dw_State w'))"
proof -
  let ?f = "reserve_mutate key raw owner token now until"
  let ?w2 = "w\<lparr>env_ticks := Suc (env_ticks w), dw_Minted := Suc (dw_Minted w)\<rparr>"
  obtain u w3 where u: "dirUpdate cfg key ?f ?w2 = (u, w3)" by force
  then obtain calls res where res: "u = Inr (calls, res)" by (auto simp: updateE_def split: prod.splits)
  have "r = (case res of Inl e \<Rightarrow> Inl e | Inr b \<Rightarrow> Inr (reserve_claim key owner token now until (seen calls)))"
    "dw_State w' = dw_State w3"
    using run u res ok
    by (auto simp: Reserve_def liftE_def Let_def bindE_def dir_mintE_def nowE_def thenE_def reportE_def modifyE_def
        raiseE_def retE_def now_def until_def split: sum.splits if_splits)+
  from settles_update [where ans = "reserve_claim key owner token now until", OF st u [unfolded res] this] show ?thesis by simp
qed

lemma Reserve_early:
  assumes "Reserve cfg raw owner ttl w = (r, w')"
    and "\<not> (\<exists>key token. dc_Normalize cfg raw = Inr key \<and> owner \<noteq> [] \<and> dc_NewToken cfg (dw_Minted w) = Inr token)"
  shows "dw_State w' = dw_State w \<and> (\<exists>e. r = Inl e)"
  using assms
  by (cases "dc_Normalize cfg raw"; cases "dc_NewToken cfg (dw_Minted w)")
    (auto simp: Reserve_def liftE_def Let_def bindE_def dir_mintE_def nowE_def retE_def raiseE_def split: if_splits)

lemma Commit_settles:
  assumes st: "vs_contract m (=) (dc_State cfg)" and run: "Commit cfg claim w = (r, w')"
    and ok: "cl_Key claim \<noteq> []" "cl_Token claim \<noteq> []"
  defines "f \<equiv> commit_mutate (cl_Token claim) (dc_Now cfg (env_ticks w))"
  shows "settles (cl_Key claim) f (result_of f zero_entry) (m (dw_State w)) r (m (dw_State w'))"
proof -
  let ?w1 = "w\<lparr>env_ticks := Suc (env_ticks w)\<rparr>"
  obtain u w3 where u: "dirUpdate cfg (cl_Key claim) f ?w1 = (u, w3)" by force
  then obtain calls res where res: "u = Inr (calls, res)" by (auto simp: updateE_def split: prod.splits)
  have "r = (case res of Inl e \<Rightarrow> Inl e | Inr b \<Rightarrow> Inr (result_of f zero_entry (seen calls)))"
    "dw_State w' = dw_State w3"
    using run u res ok
    by (auto simp: Commit_def Let_def bindE_def nowE_def thenE_def reportE_def modifyE_def raiseE_def retE_def f_def
        split: sum.splits if_splits)+
  from settles_update [where ans = "result_of f zero_entry", OF st u [unfolded res] this] show ?thesis by simp
qed

lemma Commit_early:
  assumes "Commit cfg claim w = (r, w')" "cl_Key claim = [] \<or> cl_Token claim = []"
  shows "dw_State w' = dw_State w \<and> (\<exists>e. r = Inl e)"
  using assms by (auto simp: Commit_def raiseE_def split: if_splits)

text \<open>The delete of what was read: it removes the key only at the version that was read.\<close>

definition deletes_read :: "string \<Rightarrow> Entry versioned \<Rightarrow> (string, Entry) contents \<Rightarrow> (string, Entry) contents \<Rightarrow> bool" where
  "deletes_read k sv c c' \<longleftrightarrow> version_at c k = ver_Version sv \<and> c' = c(k := None)"

lemma delete_effect:
  assumes "vs_contract m (=) (dc_State cfg)" "dirDelete cfg k sv w = (q, w')"
  obtains (deleted) "q = Inr None" "deletes_read k sv (m (dw_State w)) (m (dw_State w'))"
  | (raced) "q = Inr (Some [VersionMismatch])" "version_at (m (dw_State w)) k \<noteq> ver_Version sv"
      "m (dw_State w') = m (dw_State w)"
  | (failed) e where "q = Inr (Some e)" "store_error e" "\<not> Is e VersionMismatch"
      "m (dw_State w') = m (dw_State w) \<or> deletes_read k sv (m (dw_State w)) (m (dw_State w'))"
  using assms(1,2)
proof (rule deleteE_cases)
  fix x' c p
  assume d: "m (dw_State w) = c" "delete_outcome k sv c p (m x')" "w' = dw_State_update (\<lambda>_. x') w" "q = Inr p"
  then show thesis
    by (cases p) (auto simp: delete_outcome_def deletes_read_def Is_def intro: that)
qed

lemma cancel_found_effect:
  assumes "vs_contract m (=) (dc_State cfg)" "cancel_found cfg claim current w = (r, w')"
  shows "m (dw_State w') = m (dw_State w) \<or>
    (\<exists>sv. current = Some sv \<and> en_Token (ver_Value sv) = cl_Token claim \<and> en_State (ver_Value sv) \<noteq> StateCommitted \<and>
       deletes_read (cl_Key claim) sv (m (dw_State w)) (m (dw_State w')))"
proof (cases "\<exists>sv. current = Some sv \<and> en_Token (ver_Value sv) = cl_Token claim \<and> en_State (ver_Value sv) \<noteq> StateCommitted")
  case True
  then obtain sv where sv: "current = Some sv" "en_Token (ver_Value sv) = cl_Token claim"
    "en_State (ver_Value sv) \<noteq> StateCommitted" by blast
  obtain q w1 where q: "dirDelete cfg (cl_Key claim) sv w = (q, w1)" by force
  have w1: "dw_State w' = dw_State w1"
    using assms(2) sv q
    by (auto simp: cancel_found_def bindE_def reportE_def modifyE_def raiseE_def split: sum.splits option.splits if_splits)
  from assms(1) q show ?thesis by (cases rule: delete_effect) (use sv w1 in auto)
next
  case False
  with assms(2) show ?thesis
    by (auto simp: cancel_found_def thenE_def bindE_def reportE_def modifyE_def raiseE_def split: option.splits if_splits)
qed

lemma release_found_effect:
  assumes "vs_contract m (=) (dc_State cfg)" "release_found cfg key owner current w = (r, w')"
  shows "m (dw_State w') = m (dw_State w) \<or>
    (\<exists>sv. current = Some sv \<and> en_Owner (ver_Value sv) = owner \<and>
       deletes_read key sv (m (dw_State w)) (m (dw_State w')))"
proof (cases "\<exists>sv. current = Some sv \<and> en_Owner (ver_Value sv) = owner")
  case True
  then obtain sv where sv: "current = Some sv" "en_Owner (ver_Value sv) = owner" by blast
  obtain q w1 where q: "dirDelete cfg key sv w = (q, w1)" by force
  have w1: "dw_State w' = dw_State w1"
    using assms(2) sv q
    by (auto simp: release_found_def bindE_def thenE_def reportE_def modifyE_def raiseE_def
        split: sum.splits option.splits if_splits)
  from assms(1) q show ?thesis by (cases rule: delete_effect) (use sv w1 in auto)
next
  case False
  with assms(2) show ?thesis
    by (auto simp: release_found_def thenE_def bindE_def reportE_def modifyE_def raiseE_def split: option.splits if_splits)
qed

lemma Lookup_effect:
  assumes "vs_contract m (=) (dc_State cfg)" "dir_Lookup cfg raw w = (r, w')"
  shows "m (dw_State w') = m (dw_State w)"
proof -
  have "steps (same (\<lambda>w. m (dw_State w))) (dir_Lookup cfg raw)"
    unfolding dir_Lookup_def
    by (auto intro!: same_intros same_get_contents [OF assms(1)] simp: liftE_def split: option.split sum.split)
  from stepsD [OF this assms(2)] show ?thesis by (simp add: same_def)
qed

section \<open>The abstract directory\<close>

text \<open>What there is to know of a key, and what each request does to it at a time in seconds.\<close>

datatype status = Free | ReservedBy Owner string int | OwnedBy Owner string

datatype dir_request = Claiming Owner string int | Confirming string | Cancelling string | Releasing Owner

datatype verdict = Granted Owner string "int option" | Confirmed Owner string | Obeyed | Refusal sentinel

definition lapsed :: "int \<Rightarrow> int \<Rightarrow> bool" where
  "lapsed t deadline \<longleftrightarrow> deadline \<noteq> 0 \<and> deadline \<le> t"

fun dir_spec :: "int \<Rightarrow> dir_request \<Rightarrow> status \<Rightarrow> status \<times> verdict" where
  "dir_spec t (Claiming p x d) Free = (ReservedBy p x d, Granted p x (Some d))"
| "dir_spec t (Claiming p x d) (ReservedBy q y c) =
     (if lapsed t c then (ReservedBy p x d, Granted p x (Some d))
      else (ReservedBy q y c, if q = p then Granted p y (Some c) else Refusal ErrKeyTaken))"
| "dir_spec t (Claiming p x d) (OwnedBy q y) = (OwnedBy q y, if q = p then Granted p y None else Refusal ErrKeyTaken)"
| "dir_spec t (Confirming x) Free = (Free, Refusal ErrClaimNotFound)"
| "dir_spec t (Confirming x) (ReservedBy q y c) =
     (if y \<noteq> x then (ReservedBy q y c, Refusal ErrClaimStale)
      else if lapsed t c then (ReservedBy q y c, Refusal ErrClaimNotFound)
      else (OwnedBy q y, Confirmed q y))"
| "dir_spec t (Confirming x) (OwnedBy q y) = (OwnedBy q y, if y = x then Confirmed q y else Refusal ErrClaimStale)"
| "dir_spec t (Cancelling x) Free = (Free, Obeyed)"
| "dir_spec t (Cancelling x) (ReservedBy q y c) = (if y = x then Free else ReservedBy q y c, Obeyed)"
| "dir_spec t (Cancelling x) (OwnedBy q y) = (OwnedBy q y, if y = x then Refusal ErrClaimStale else Obeyed)"
| "dir_spec t (Releasing p) Free = (Free, Obeyed)"
| "dir_spec t (Releasing p) (ReservedBy q y c) =
     (if q = p then (Free, Obeyed) else (ReservedBy q y c, Refusal ErrOwnerMismatch))"
| "dir_spec t (Releasing p) (OwnedBy q y) =
     (if q = p then (Free, Obeyed) else (OwnedBy q y, Refusal ErrOwnerMismatch))"

definition status_of :: "Entry option \<Rightarrow> status" where
  "status_of cur =
     (case cur of
        None \<Rightarrow> Free
      | Some e \<Rightarrow> if en_State e = StateCommitted then OwnedBy (en_Owner e) (en_Token e)
                  else ReservedBy (en_Owner e) (en_Token e) (en_ExpiresAtUnix e))"

section \<open>The handlers implement it\<close>

datatype dir_call =
    CallReserve string Owner duration
  | CallCommit Claim
  | CallCancel Claim
  | CallRelease string Owner

datatype dir_answer = AnswerClaim Claim | AnswerEntry Entry | AnswerDone

fun dir_handler :: "'x DirectoryConfig \<Rightarrow> dir_call \<Rightarrow> ('x dworld, dir_answer) handler" where
  "dir_handler cfg (CallReserve raw owner ttl) = bindE (Reserve cfg raw owner ttl) (\<lambda>c. retE (AnswerClaim c))"
| "dir_handler cfg (CallCommit claim) = bindE (Commit cfg claim) (\<lambda>e. retE (AnswerEntry e))"
| "dir_handler cfg (CallCancel claim) = bindE (Cancel cfg claim) (\<lambda>_. retE AnswerDone)"
| "dir_handler cfg (CallRelease raw owner) = bindE (Release cfg raw owner) (\<lambda>_. retE AnswerDone)"

text \<open>The key, the time and the request a call stands for, or the error with which it is refused at the door.\<close>

fun dir_abs :: "'x DirectoryConfig \<Rightarrow> dir_call \<Rightarrow> 'x dworld \<Rightarrow> gerr + string \<times> int \<times> dir_request" where
  "dir_abs cfg (CallReserve raw owner ttl) w =
     (case dc_Normalize cfg raw of
        Inl e \<Rightarrow> Inl e
      | Inr key \<Rightarrow>
          if owner = [] then Inl [ErrOwnerEmpty]
          else (case dc_NewToken cfg (dw_Minted w) of
                  Inl e \<Rightarrow> Inl e
                | Inr token \<Rightarrow>
                    let now = dc_Now cfg (env_ticks w)
                    in Inr (key, Unix now,
                            Claiming owner token (Unix (Add now (if ttl \<le> 0 then dc_DefaultTTL cfg else ttl))))))"
| "dir_abs cfg (CallCommit claim) w =
     (if cl_Key claim = [] then Inl [ErrKeyEmpty]
      else if cl_Token claim = [] then Inl [ErrClaimNotFound]
      else Inr (cl_Key claim, Unix (dc_Now cfg (env_ticks w)), Confirming (cl_Token claim)))"
| "dir_abs cfg (CallCancel claim) w =
     (if cl_Key claim = [] then Inl [ErrKeyEmpty] else Inr (cl_Key claim, 0, Cancelling (cl_Token claim)))"
| "dir_abs cfg (CallRelease raw owner) w =
     (case dc_Normalize cfg raw of
        Inl e \<Rightarrow> Inl e
      | Inr key \<Rightarrow> if owner = [] then Inl [ErrOwnerEmpty] else Inr (key, 0, Releasing owner))"

fun answers :: "string \<Rightarrow> verdict \<Rightarrow> gerr + dir_answer \<Rightarrow> bool" where
  "answers key (Granted p x d) r \<longleftrightarrow>
     (\<exists>c. r = Inr (AnswerClaim c) \<and> cl_Key c = key \<and> cl_Owner c = p \<and> cl_Token c = x \<and>
          map_option Unix (cl_ExpiresAt c) = d)"
| "answers key (Confirmed p x) r \<longleftrightarrow>
     (\<exists>e. r = Inr (AnswerEntry e) \<and> en_Owner e = p \<and> en_Token e = x \<and> en_State e = StateCommitted)"
| "answers key Obeyed r \<longleftrightarrow> r = Inr AnswerDone"
| "answers key (Refusal x) r \<longleftrightarrow> r = Inl [x]"

text \<open>What a call may leave and answer, for what it stands for.\<close>

definition implements ::
  "(string, Entry) contents \<Rightarrow> (string, Entry) contents \<Rightarrow> gerr + string \<times> int \<times> dir_request \<Rightarrow> gerr + dir_answer \<Rightarrow> bool" where
  "implements c c' act r \<longleftrightarrow>
     (case act of
        Inl e \<Rightarrow> c' = c \<and> r = Inl e
      | Inr (key, t, req) \<Rightarrow>
          (\<forall>k. k \<noteq> key \<longrightarrow> c' k = c k) \<and>
          (case dir_spec t req (status_of (value_at c key)) of
             (st', v) \<Rightarrow>
               status_of (value_at c' key) = st' \<and> answers key v r \<or>
               (\<exists>e. r = Inl e \<and> store_error e \<and> status_of (value_at c' key) \<in> {status_of (value_at c key), st'})))"

lemma Unix_Second [simp]: "Unix (x * Second) = x" "Unix 0 = 0"
  by (simp_all add: Unix_def Second_def)

lemma reserve_implements:
  assumes "settles key (reserve_mutate key raw owner token now until) (reserve_claim key owner token now until) c r c'"
  shows "implements c c' (Inr (key, Unix now, Claiming owner token (Unix until))) (map_sum id AnswerClaim r)"
proof (cases "value_at c key")
  case None
  with assms show ?thesis
    by (auto simp: settles_def implements_def reserve_mutate_def reserve_claim_def held_def new_entry_def status_of_def
        written_other)
next
  case (Some e)
  with assms show ?thesis
    by (cases "en_State e")
      (auto simp: settles_def implements_def reserve_mutate_def reserve_claim_def held_def new_entry_def status_of_def
        entry_Expired_def lapsed_def written_other split: if_splits)
qed

lemma commit_implements:
  assumes "settles key (commit_mutate token now) (result_of (commit_mutate token now) zero_entry) c r c'"
  shows "implements c c' (Inr (key, Unix now, Confirming token)) (map_sum id AnswerEntry r)"
proof (cases "value_at c key")
  case None
  with assms show ?thesis by (auto simp: settles_def implements_def commit_mutate_def status_of_def)
next
  case (Some e)
  with assms show ?thesis
    by (cases "en_State e")
      (auto simp: settles_def implements_def commit_mutate_def commit_next_def result_of_def status_of_def
        entry_Expired_def lapsed_def written_other split: if_splits)
qed

text \<open>A read that is followed at once by its delete.\<close>

lemma read_now:
  assumes "vs_contract m (=) (dc_State cfg)" "dirGet cfg key w = (v, w1)"
  shows "m (dw_State w1) = m (dw_State w)"
    and "v = Inr (m (dw_State w) key) \<or> (\<exists>e. v = Inl e \<and> store_error e)"
  using assms by (cases rule: getE_outcomes; auto)+

lemma delete_now:
  assumes "vs_contract m (=) (dc_State cfg)" "dirDelete cfg key sv w = (q, w')" "m (dw_State w) key = Some sv"
  shows "q = Inr None \<and> m (dw_State w') = (m (dw_State w))(key := None) \<or>
    (\<exists>e. q = Inr (Some e) \<and> store_error e \<and> \<not> Is e VersionMismatch \<and>
       (m (dw_State w') = m (dw_State w) \<or> m (dw_State w') = (m (dw_State w))(key := None)))"
  using assms(1,2)
  by (cases rule: delete_effect) (use assms(3) in \<open>auto simp: deletes_read_def version_at_def\<close>)

text \<open>The outcome of a read and its delete, from the verdict on the entry: none to delete it.\<close>

definition reads_deletes ::
  "string \<Rightarrow> (Entry option \<Rightarrow> (gerr + unit) option) \<Rightarrow> (string, Entry) contents \<Rightarrow> gerr + unit \<Rightarrow>
   (string, Entry) contents \<Rightarrow> bool" where
  "reads_deletes key verdict c r c' \<longleftrightarrow>
     (\<exists>e. r = Inl e \<and> store_error e \<and> (c' = c \<or> verdict (value_at c key) = None \<and> c' = c(key := None))) \<or>
     (case verdict (value_at c key) of Some a \<Rightarrow> r = a \<and> c' = c | None \<Rightarrow> r = Inr () \<and> c' = c(key := None))"

definition cancel_verdict :: "string \<Rightarrow> Entry option \<Rightarrow> (gerr + unit) option" where
  "cancel_verdict token cur =
     (case cur of
        None \<Rightarrow> Some (Inr ())
      | Some e \<Rightarrow> if en_Token e \<noteq> token then Some (Inr ())
                  else if en_State e = StateCommitted then Some (Inl [ErrClaimStale]) else None)"

definition release_verdict :: "Owner \<Rightarrow> Entry option \<Rightarrow> (gerr + unit) option" where
  "release_verdict owner cur =
     (case cur of
        None \<Rightarrow> Some (Inr ())
      | Some e \<Rightarrow> if en_Owner e \<noteq> owner then Some (Inl [ErrOwnerMismatch]) else None)"

lemma reads_deletes_run:
  assumes st: "vs_contract m (=) (dc_State cfg)" and run: "bindE (dirGet cfg key) found w = (r, w')"
    and found: "\<And>cur w1. (case verdict (map_option ver_Value cur) of
        Some a \<Rightarrow> fst (found cur w1) = a \<and> dw_State (snd (found cur w1)) = dw_State w1
      | None \<Rightarrow> \<exists>sv q w2. cur = Some sv \<and> dirDelete cfg key sv w1 = (q, w2) \<and>
          dw_State (snd (found cur w1)) = dw_State w2 \<and>
          (q = Inr None \<longrightarrow> fst (found cur w1) = Inr ()) \<and>
          (\<forall>e. q = Inr (Some e) \<longrightarrow> \<not> Is e VersionMismatch \<longrightarrow> fst (found cur w1) = Inl e))"
  shows "reads_deletes key verdict (m (dw_State w)) r (m (dw_State w'))"
proof -
  obtain v w1 where get: "dirGet cfg key w = (v, w1)" by force
  note read = read_now [OF st get]
  show ?thesis
  proof (cases v)
    case (Inl e)
    with run get read show ?thesis by (auto simp: bindE_def reads_deletes_def)
  next
    case (Inr cur)
    with read(2) have cur: "cur = m (dw_State w) key" by simp
    have rw: "r = fst (found cur w1)" "w' = snd (found cur w1)" using run get Inr by (simp_all add: bindE_def)
    have val: "value_at (m (dw_State w)) key = map_option ver_Value cur" by (simp add: cur value_at_def)
    show ?thesis
    proof (cases "verdict (map_option ver_Value cur)")
      case (Some a)
      with found [of cur w1] rw read(1) val show ?thesis by (auto simp: reads_deletes_def)
    next
      case None
      with found [of cur w1] obtain sv q w2 where d: "cur = Some sv" "dirDelete cfg key sv w1 = (q, w2)"
        "dw_State w' = dw_State w2" "q = Inr None \<longrightarrow> r = Inr ()"
        "\<forall>e. q = Inr (Some e) \<longrightarrow> \<not> Is e VersionMismatch \<longrightarrow> r = Inl e" using rw by auto
      have "m (dw_State w1) key = Some sv" using d(1) cur read(1) by simp
      from delete_now [OF st d(2) this] d(3-5) read(1) None val show ?thesis
        by (auto simp: reads_deletes_def)
    qed
  qed
qed

lemma found_deletes:
  obtains q w2 where "dirDelete cfg key sv w1 = (Inr q, w2)"
  by (cases "dirDelete cfg key sv w1") (auto simp: deleteE_def split: prod.splits)

lemma Cancel_reads_deletes:
  assumes "vs_contract m (=) (dc_State cfg)" "Cancel cfg claim w = (r, w')" "cl_Key claim \<noteq> []"
  shows "reads_deletes (cl_Key claim) (cancel_verdict (cl_Token claim)) (m (dw_State w)) r (m (dw_State w'))"
proof (rule reads_deletes_run [OF assms(1)])
  show "bindE (dirGet cfg (cl_Key claim)) (cancel_found cfg claim) w = (r, w')" using assms(2,3) by (simp add: Cancel_def)
  fix cur w1
  show "case cancel_verdict (cl_Token claim) (map_option ver_Value cur) of
        Some a \<Rightarrow> fst (cancel_found cfg claim cur w1) = a \<and> dw_State (snd (cancel_found cfg claim cur w1)) = dw_State w1
      | None \<Rightarrow> \<exists>sv q w2. cur = Some sv \<and> dirDelete cfg (cl_Key claim) sv w1 = (q, w2) \<and>
          dw_State (snd (cancel_found cfg claim cur w1)) = dw_State w2 \<and>
          (q = Inr None \<longrightarrow> fst (cancel_found cfg claim cur w1) = Inr ()) \<and>
          (\<forall>e. q = Inr (Some e) \<longrightarrow> \<not> Is e VersionMismatch \<longrightarrow> fst (cancel_found cfg claim cur w1) = Inl e)"
  proof (cases cur)
    case (Some sv)
    obtain q w2 where "dirDelete cfg (cl_Key claim) sv w1 = (Inr q, w2)" by (rule found_deletes)
    with Some show ?thesis
      by (auto simp: cancel_verdict_def cancel_found_def bindE_def thenE_def reportE_def modifyE_def raiseE_def
          split: option.split)
  qed (simp add: cancel_verdict_def cancel_found_def reportE_def modifyE_def)
qed

lemma Release_reads_deletes:
  assumes "vs_contract m (=) (dc_State cfg)" "Release cfg raw owner w = (r, w')"
    and "dc_Normalize cfg raw = Inr key" "owner \<noteq> []"
  shows "reads_deletes key (release_verdict owner) (m (dw_State w)) r (m (dw_State w'))"
proof (rule reads_deletes_run [OF assms(1)])
  show "bindE (dirGet cfg key) (release_found cfg key owner) w = (r, w')"
    using assms(2-4) by (simp add: Release_def liftE_def)
  fix cur w1
  show "case release_verdict owner (map_option ver_Value cur) of
        Some a \<Rightarrow> fst (release_found cfg key owner cur w1) = a \<and>
          dw_State (snd (release_found cfg key owner cur w1)) = dw_State w1
      | None \<Rightarrow> \<exists>sv q w2. cur = Some sv \<and> dirDelete cfg key sv w1 = (q, w2) \<and>
          dw_State (snd (release_found cfg key owner cur w1)) = dw_State w2 \<and>
          (q = Inr None \<longrightarrow> fst (release_found cfg key owner cur w1) = Inr ()) \<and>
          (\<forall>e. q = Inr (Some e) \<longrightarrow> \<not> Is e VersionMismatch \<longrightarrow> fst (release_found cfg key owner cur w1) = Inl e)"
  proof (cases cur)
    case (Some sv)
    obtain q w2 where "dirDelete cfg key sv w1 = (Inr q, w2)" by (rule found_deletes)
    with Some show ?thesis
      by (auto simp: release_verdict_def release_found_def bindE_def thenE_def reportE_def modifyE_def raiseE_def
          split: option.split)
  qed (simp add: release_verdict_def release_found_def reportE_def modifyE_def)
qed

lemma value_deleted [simp]: "value_at (c(k := None)) j = (if j = k then None else value_at c j)"
  by (simp add: value_at_def)

lemma cancel_implements:
  assumes "reads_deletes key (cancel_verdict token) c r c'"
  shows "implements c c' (Inr (key, t, Cancelling token)) (map_sum id (\<lambda>_. AnswerDone) r)"
proof (cases "value_at c key")
  case None
  with assms show ?thesis by (auto simp: reads_deletes_def implements_def cancel_verdict_def status_of_def)
next
  case (Some e)
  with assms show ?thesis
    by (auto simp: reads_deletes_def implements_def cancel_verdict_def status_of_def split: if_splits)
qed

lemma release_implements:
  assumes "reads_deletes key (release_verdict owner) c r c'"
  shows "implements c c' (Inr (key, t, Releasing owner)) (map_sum id (\<lambda>_. AnswerDone) r)"
proof (cases "value_at c key")
  case None
  with assms show ?thesis by (auto simp: reads_deletes_def implements_def release_verdict_def status_of_def)
next
  case (Some e)
  with assms show ?thesis
    by (auto simp: reads_deletes_def implements_def release_verdict_def status_of_def split: if_splits)
qed

lemma bindE_ret_map: "bindE h (\<lambda>x. retE (g x)) w = (map_sum id g (fst (h w)), snd (h w))"
  by (auto simp: bindE_def retE_def split: prod.split sum.split)

lemma Reserve_refused:
  assumes "Reserve cfg raw owner ttl w = (r, w')" "dir_abs cfg (CallReserve raw owner ttl) w = Inl e"
  shows "dw_State w' = dw_State w \<and> r = Inl e"
  using assms
  by (cases "dc_Normalize cfg raw"; cases "dc_NewToken cfg (dw_Minted w)")
    (auto simp: Reserve_def liftE_def Let_def bindE_def dir_mintE_def nowE_def retE_def raiseE_def split: if_splits)

text \<open>C6: The handlers refine the abstract directory, a map from keys to free, reserved and owned. Called alone,
  over any store that keeps its contract, a call that is refused at the door (no key, no owner, no token)
  answers that error and changes nothing. Any other call changes at most its own key, as the abstract step
  for its time says, and gives the abstract answer: the claim with its token and expiry, the committed
  entry, or exactly the error the step is refused with. Only a failure of the store itself may be answered
  instead, with the step taken or not.\<close>

theorem directory_refines:
  assumes "vs_contract m (=) (dc_State cfg)" "dir_handler cfg call w = (r, w')"
  shows "implements (m (dw_State w)) (m (dw_State w')) (dir_abs cfg call w) r"
proof (cases "dir_abs cfg call w")
  case (Inl e)
  have "dw_State w' = dw_State w \<and> r = Inl e"
  proof (cases call)
    case (CallReserve raw owner ttl)
    obtain r0 w0 where run: "Reserve cfg raw owner ttl w = (r0, w0)" by force
    from Reserve_refused [OF run] Inl CallReserve have "dw_State w0 = dw_State w \<and> r0 = Inl e" by simp
    with run assms(2) CallReserve show ?thesis by (simp add: bindE_def)
  qed (use Inl assms(2) in \<open>auto simp: bindE_def Commit_def Cancel_def Release_def liftE_def raiseE_def retE_def
      split: if_splits sum.splits\<close>)
  with Inl show ?thesis by (simp add: implements_def)
next
  case (Inr act)
  show ?thesis
  proof (cases call)
    case (CallReserve raw owner ttl)
    with Inr obtain key token where ok: "dc_Normalize cfg raw = Inr key" "owner \<noteq> []"
      "dc_NewToken cfg (dw_Minted w) = Inr token" by (auto split: sum.splits if_splits)
    obtain r0 w0 where run: "Reserve cfg raw owner ttl w = (r0, w0)" by force
    from reserve_implements [OF Reserve_settles [OF assms(1) run ok]] CallReserve assms(2) run ok
    show ?thesis by (simp add: bindE_ret_map Let_def)
  next
    case (CallCommit claim)
    with Inr have "cl_Key claim \<noteq> []" "cl_Token claim \<noteq> []" by (auto split: if_splits)
    with commit_implements [OF Commit_settles [OF assms(1) prod.collapse [symmetric] this]] CallCommit assms(2)
    show ?thesis by (auto simp: bindE_ret_map)
  next
    case (CallCancel claim)
    with Inr have "cl_Key claim \<noteq> []" by (auto split: if_splits)
    with cancel_implements [OF Cancel_reads_deletes [OF assms(1) prod.collapse [symmetric] this]] CallCancel assms(2)
    show ?thesis by (auto simp: bindE_ret_map)
  next
    case (CallRelease raw owner)
    with Inr obtain key where "dc_Normalize cfg raw = Inr key" "owner \<noteq> []" by (auto split: sum.splits if_splits)
    with release_implements [OF Release_reads_deletes [OF assms(1) prod.collapse [symmetric] this]] CallRelease assms(2)
    show ?thesis by (auto simp: bindE_ret_map)
  qed
qed

definition ex_directory :: "(string, Entry) mem DirectoryConfig" where
  "ex_directory = \<lparr>dc_State = mem_store, dc_Normalize = NormalizeLower (\<lambda>s. s), dc_DefaultTTL = 30 * Second,
     dc_Now = (\<lambda>n. (100 + int n) * Second), dc_NewToken = (\<lambda>n. Inr (''t'' @ show_nat n))\<rparr>"

lemma ex_directory_contract [simp]: "vs_contract mem_map (=) (dc_State ex_directory)"
  using mem_store_contract by (simp add: ex_directory_def)

text \<open>A world in which the key holds the given entry under version one, or nothing.\<close>

definition ex_world_with :: "Entry option \<Rightarrow> nat \<Rightarrow> nat \<Rightarrow> event list \<Rightarrow> (string, Entry) mem dworld" where
  "ex_world_with e ticks minted evs =
     \<lparr>env_ticks = ticks, env_events = evs,
      dw_State = mem_of (case e of None \<Rightarrow> [] | Some v \<Rightarrow> [(''bob'', v)]), dw_Minted = minted\<rparr>"

definition ex_reserved :: "Owner \<Rightarrow> string \<Rightarrow> int \<Rightarrow> Entry" where
  "ex_reserved owner token at =
     \<lparr>en_Key = ''bob'', en_Raw = ''bob'', en_Owner = owner, en_State = StateReserved, en_Token = token,
      en_ExpiresAtUnix = at + 30, en_ReservedAtUnix = at, en_CommittedAtUnix = 0\<rparr>"

lemma ex_strings: "TrimSpace ''bob'' = ''bob''" "show_nat 0 = ''0''" "show_nat 1 = ''1''" "show_nat (Suc 0) = ''1''"
  by code_simp+

lemma ex_bob: "dc_Normalize ex_directory ''bob'' = Inr ''bob''"
  by (simp add: ex_directory_def NormalizeLower_def ex_strings)

lemma ex_value [simp]: "value_at (mem_map (dw_State (ex_world_with e i j evs))) ''bob'' = e"
  by (cases e) (simp_all add: ex_world_with_def mem_of_def value_at_def)

text \<open>Another owner's reservation, which has not lapsed: the call is refused, and the key stays reserved.\<close>

theorem directory_refines_witness:
  "\<exists>r w'. dir_handler ex_directory (CallReserve ''bob'' ''b'' 0)
       (ex_world_with (Some (ex_reserved ''a'' ''t0'' 100)) 1 1 []) = (r, w') \<and>
     (r = Inl [ErrKeyTaken] \<or> (\<exists>e. r = Inl e \<and> store_error e)) \<and>
     status_of (value_at (mem_map (dw_State w')) ''bob'') = ReservedBy ''a'' ''t0'' 130"
proof -
  let ?w = "ex_world_with (Some (ex_reserved ''a'' ''t0'' 100)) 1 1 []" and ?call = "CallReserve ''bob'' ''b'' 0"
  obtain r w' where run: "dir_handler ex_directory ?call ?w = (r, w')" by force
  have a: "dir_abs ex_directory ?call ?w = Inr (''bob'', 101, Claiming ''b'' ''t1'' 131)"
    by (simp add: ex_bob Let_def) (simp add: ex_directory_def ex_world_with_def ex_strings Add_def Unix_def Second_def)
  have "implements (mem_map (dw_State ?w)) (mem_map (dw_State w')) (dir_abs ex_directory ?call ?w) r"
    by (rule directory_refines [OF ex_directory_contract run])
  then have "(r = Inl [ErrKeyTaken] \<or> (\<exists>e. r = Inl e \<and> store_error e)) \<and>
     status_of (value_at (mem_map (dw_State w')) ''bob'') = ReservedBy ''a'' ''t0'' 130"
    unfolding a by (auto simp: implements_def ex_reserved_def status_of_def lapsed_def)
  with run show ?thesis by blast
qed

section \<open>Callers that interleave\<close>

text \<open>A pending delete that read this very version of the key and means to delete it.\<close>

fun aims :: "string \<Rightarrow> int \<Rightarrow> pending_delete \<Rightarrow> bool" where
  "aims k n (CancelAfter claim (Some sv)) \<longleftrightarrow>
     cl_Key claim = k \<and> ver_Version sv = n \<and> en_Token (ver_Value sv) = cl_Token claim \<and>
     en_State (ver_Value sv) \<noteq> StateCommitted"
| "aims k n (ReleaseAfter key owner (Some sv)) \<longleftrightarrow>
     key = k \<and> ver_Version sv = n \<and> en_Owner (ver_Value sv) = owner"
| "aims k n _ \<longleftrightarrow> False"

text \<open>Steps that may act on the entry \<open>e\<close> at \<open>k\<close>: before it is committed, those with its token and a reservation
  that finds it lapsed; always, its owner's release.\<close>

fun touches :: "'x DirectoryConfig \<Rightarrow> string \<Rightarrow> Entry \<Rightarrow> 'x dir_sys \<Rightarrow> dir_act \<Rightarrow> bool" where
  "touches cfg k e s (DoReserve raw owner ttl) \<longleftrightarrow>
     dc_Normalize cfg raw = Inr k \<and> entry_Expired e (dc_Now cfg (env_ticks (ds_World s)))"
| "touches cfg k e s (DoCommit claim) \<longleftrightarrow>
     en_State e \<noteq> StateCommitted \<and> cl_Key claim = k \<and> cl_Token claim = en_Token e"
| "touches cfg k e s (BeginCancel claim) \<longleftrightarrow>
     en_State e \<noteq> StateCommitted \<and> cl_Key claim = k \<and> cl_Token claim = en_Token e"
| "touches cfg k e s (BeginRelease raw owner) \<longleftrightarrow> dc_Normalize cfg raw = Inr k \<and> owner = en_Owner e"
| "touches cfg k e s _ \<longleftrightarrow> False"

fun untouched :: "'x DirectoryConfig \<Rightarrow> string \<Rightarrow> Entry \<Rightarrow> dir_act list \<Rightarrow> 'x dir_sys \<Rightarrow> bool" where
  "untouched cfg k e [] s \<longleftrightarrow> True"
| "untouched cfg k e (a # acts) s \<longleftrightarrow> \<not> touches cfg k e s a \<and> untouched cfg k e acts (dir_step cfg a s)"

text \<open>The entry is where it was, and nobody is about to delete it.\<close>

definition secure :: "('x \<Rightarrow> (string, Entry) contents) \<Rightarrow> string \<Rightarrow> Entry versioned \<Rightarrow> 'x dir_sys \<Rightarrow> bool" where
  "secure m k sv s \<longleftrightarrow>
     m (dw_State (ds_World s)) k = Some sv \<and> (\<forall>p \<in> set (ds_Pending s). \<not> aims k (ver_Version sv) p)"

lemma settles_elsewhere: "settles key f ans c r c' \<Longrightarrow> key \<noteq> k \<Longrightarrow> c' k = c k"
  by (auto simp: settles_def written_other split: decision.splits)

lemma settles_idle: "settles k f ans c r c' \<Longrightarrow> \<nexists>v. f (value_at c k) = Save v \<Longrightarrow> c' = c"
  by (auto simp: settles_def split: decision.splits)

lemma reserve_secure:
  assumes st: "vs_contract m (=) (dc_State cfg)" and c: "m (dw_State w) k = Some sv"
    and out: "\<not> (dc_Normalize cfg raw = Inr k \<and> entry_Expired (ver_Value sv) (dc_Now cfg (env_ticks w)))"
    and run: "Reserve cfg raw owner ttl w = (r, w')"
  shows "m (dw_State w') k = Some sv"
proof (cases "\<exists>key token. dc_Normalize cfg raw = Inr key \<and> owner \<noteq> [] \<and> dc_NewToken cfg (dw_Minted w) = Inr token")
  case True
  then obtain key token where ok: "dc_Normalize cfg raw = Inr key" "owner \<noteq> []" "dc_NewToken cfg (dw_Minted w) = Inr token"
    by blast
  note set = Reserve_settles [OF st run ok]
  show ?thesis
  proof (cases "key = k")
    case True
    then have "m (dw_State w') = m (dw_State w)"
      by (intro settles_idle [OF set [unfolded True]]) (use c out ok(1) in \<open>auto simp: reserve_mutate_def value_at_def\<close>)
    with c show ?thesis by simp
  next
    case False
    with settles_elsewhere [OF set] c show ?thesis by simp
  qed
next
  case False
  with Reserve_early [OF run] c show ?thesis by simp
qed

lemma commit_secure:
  assumes st: "vs_contract m (=) (dc_State cfg)" and c: "m (dw_State w) k = Some sv"
    and out: "\<not> (en_State (ver_Value sv) \<noteq> StateCommitted \<and> cl_Key claim = k \<and> cl_Token claim = en_Token (ver_Value sv))"
    and run: "Commit cfg claim w = (r, w')"
  shows "m (dw_State w') k = Some sv"
proof (cases "cl_Key claim = [] \<or> cl_Token claim = []")
  case False
  then have ok: "cl_Key claim \<noteq> []" "cl_Token claim \<noteq> []" by simp_all
  note set = Commit_settles [OF st run ok]
  show ?thesis
  proof (cases "cl_Key claim = k")
    case True
    then have "m (dw_State w') = m (dw_State w)"
      by (intro settles_idle [OF set [unfolded True]]) (use c out True in \<open>auto simp: commit_mutate_def value_at_def\<close>)
    with c show ?thesis by simp
  next
    case False
    with settles_elsewhere [OF set] c show ?thesis by simp
  qed
next
  case True
  with Commit_early [OF run] c show ?thesis by simp
qed

lemma resume_effect:
  assumes "vs_contract m (=) (dc_State cfg)" "resume cfg p w = (r, w')"
  shows "m (dw_State w') = m (dw_State w) \<or>
    (\<exists>key. aims key (version_at (m (dw_State w)) key) p \<and> m (dw_State w') = (m (dw_State w))(key := None))"
proof (cases p)
  case (CancelAfter claim current)
  with cancel_found_effect [OF assms(1)] assms(2) show ?thesis by (fastforce simp: deletes_read_def)
next
  case (ReleaseAfter key owner current)
  with release_found_effect [OF assms(1)] assms(2) show ?thesis by (fastforce simp: deletes_read_def)
qed

lemma begin_secure:
  assumes st: "vs_contract m (=) (dc_State cfg)" and sec: "secure m k sv s"
    and new: "key = k \<Longrightarrow> \<not> aims k (ver_Version sv) (after (Some sv))" "\<And>cur. key \<noteq> k \<Longrightarrow> \<not> aims k (ver_Version sv) (after cur)"
  shows "secure m k sv (begin_delete cfg key after s)"
proof -
  obtain v w1 where get: "dirGet cfg key (ds_World s) = (v, w1)" by force
  note read = read_now [OF st get]
  show ?thesis
    using sec read get new by (cases "key = k") (auto simp: secure_def begin_delete_def)
qed

lemma secure_step:
  assumes st: "vs_contract m (=) (dc_State cfg)" and sec: "secure m k sv s"
    and out: "\<not> touches cfg k (ver_Value sv) s a"
  shows "secure m k sv (dir_step cfg a s)"
proof -
  have c: "m (dw_State (ds_World s)) k = Some sv" using sec by (simp add: secure_def)
  show ?thesis
  proof (cases a)
    case (DoReserve raw owner ttl)
    with reserve_secure [OF st c _ prod.collapse [symmetric]] sec out show ?thesis by (simp add: secure_def)
  next
    case (DoCommit claim)
    with commit_secure [OF st c _ prod.collapse [symmetric]] sec out show ?thesis by (simp add: secure_def)
  next
    case (DoLookup raw)
    with Lookup_effect [OF st prod.collapse [symmetric]] sec show ?thesis by (simp add: secure_def)
  next
    case (BeginCancel claim)
    have "secure m k sv (begin_delete cfg (cl_Key claim) (CancelAfter claim) s)"
      by (rule begin_secure [OF st sec]) (use out BeginCancel in \<open>auto elim: aims.elims\<close>)
    with BeginCancel sec show ?thesis by simp
  next
    case (BeginRelease raw owner)
    have "secure m k sv (begin_delete cfg key (ReleaseAfter key owner) s)" if "dc_Normalize cfg raw = Inr key" for key
      by (rule begin_secure [OF st sec]) (use out BeginRelease that in \<open>auto elim: aims.elims\<close>)
    with BeginRelease sec show ?thesis by (auto split: sum.split)
  next
    case (Finish i)
    show ?thesis
    proof (cases "i < length (ds_Pending s)")
      case True
      let ?p = "ds_Pending s ! i"
      have "\<not> aims k (ver_Version sv) ?p" using sec True by (simp add: secure_def)
      with resume_effect [OF st prod.collapse [symmetric], of ?p "ds_World s"] c
      have "m (dw_State (snd (resume cfg ?p (ds_World s)))) k = Some sv" by (auto simp: version_at_def)
      moreover have "set (take i (ds_Pending s) @ drop (Suc i) (ds_Pending s)) \<subseteq> set (ds_Pending s)"
        using set_take_subset [of i "ds_Pending s"] set_drop_subset [of "Suc i" "ds_Pending s"] by auto
      ultimately show ?thesis using sec True Finish unfolding secure_def by auto
    qed (use Finish sec in simp)
  qed
qed

lemma secure_run:
  "vs_contract m (=) (dc_State cfg) \<Longrightarrow> secure m k sv s \<Longrightarrow> untouched cfg k (ver_Value sv) acts s \<Longrightarrow>
   secure m k sv (dir_run cfg acts s)"
  by (induction acts arbitrary: s) (simp_all add: secure_step)

lemma committed_untouched:
  assumes "en_State e = StateCommitted" "\<forall>raw owner. BeginRelease raw owner \<in> set acts \<longrightarrow>
    dc_Normalize cfg raw \<noteq> Inr k \<or> owner \<noteq> en_Owner e"
  shows "untouched cfg k e acts s"
  using assms(2)
proof (induction acts arbitrary: s)
  case (Cons a acts s)
  have "\<not> touches cfg k e s a" using Cons.prems assms(1) by (cases a) (auto simp: entry_Expired_def)
  moreover have "untouched cfg k e acts (dir_step cfg a s)" by (rule Cons.IH) (use Cons.prems in auto)
  ultimately show ?case by simp
qed simp

text \<open>C13: A held key is safe. Other callers may reserve, commit, cancel, release and look up keys of any name, their
  reads and deletes in any order among each other and the store failing at any point. An entry stays as it is, with
  its version, as long as no step presents its token, is its owner's release, or reserves the key when it has
  lapsed; and once it is committed only a release by its owner can touch it: no reservation, commit or cancel,
  whatever their times and tokens. This supposes that no delete is in flight that has read an earlier entry of the
  same version: versions restart when a key is deleted, and \<open>stale_cancel_removes_new_claim\<close> shows such a
  delete take a later owner's claim.\<close>

theorem held_key_safe:
  assumes "vs_contract m (=) (dc_State cfg)"
    and "m (dw_State (ds_World s)) k = Some sv" "\<forall>p \<in> set (ds_Pending s). \<not> aims k (ver_Version sv) p"
  shows "(untouched cfg k (ver_Value sv) acts s \<longrightarrow> m (dw_State (ds_World (dir_run cfg acts s))) k = Some sv) \<and>
    (en_State (ver_Value sv) = StateCommitted \<and>
       (\<forall>raw owner. BeginRelease raw owner \<in> set acts \<longrightarrow>
          dc_Normalize cfg raw \<noteq> Inr k \<or> owner \<noteq> en_Owner (ver_Value sv)) \<longrightarrow>
     m (dw_State (ds_World (dir_run cfg acts s))) k = Some sv)"
proof -
  have "secure m k sv s" using assms(2,3) by (simp add: secure_def)
  from secure_run [OF assms(1) this, of acts] committed_untouched [of "ver_Value sv" acts cfg k s]
  show ?thesis by (auto simp: secure_def)
qed

text \<open>The holder's entry against another owner's reservation, a commit, a cancel and a release, each with its delete.\<close>

theorem held_key_safe_witness:
  "mem_map (dw_State (ds_World (dir_run ex_directory
       [DoReserve ''bob'' ''b'' 0, BeginCancel \<lparr>cl_Key = ''bob'', cl_Owner = ''b'', cl_Token = ''t1'', cl_ExpiresAt = None\<rparr>,
        BeginRelease ''bob'' ''b'', DoCommit \<lparr>cl_Key = ''bob'', cl_Owner = ''b'', cl_Token = ''t1'', cl_ExpiresAt = None\<rparr>,
        Finish 1, Finish 0]
       \<lparr>ds_World = ex_world_with (Some (ex_reserved ''a'' ''t0'' 100)) 1 1 [], ds_Pending = []\<rparr>))) ''bob'' =
   Some \<lparr>ver_Value = ex_reserved ''a'' ''t0'' 100, ver_Version = 1\<rparr>"
proof (rule held_key_safe [OF ex_directory_contract, THEN conjunct1, THEN mp])
  show "mem_map (dw_State (ds_World \<lparr>ds_World = ex_world_with (Some (ex_reserved ''a'' ''t0'' 100)) 1 1 [], ds_Pending = []\<rparr>))
      ''bob'' = Some \<lparr>ver_Value = ex_reserved ''a'' ''t0'' 100, ver_Version = 1\<rparr>"
    by (simp add: ex_world_with_def mem_of_def)
qed (simp_all add: ex_bob, simp_all add: ex_reserved_def entry_Expired_def ex_directory_def ex_world_with_def Unix_def Second_def)

section \<open>Lapsed reservations\<close>

text \<open>The deadlines of the reservations made for a key along a run.\<close>

fun deadline :: "'x DirectoryConfig \<Rightarrow> string \<Rightarrow> 'x dir_sys \<Rightarrow> dir_act \<Rightarrow> int option" where
  "deadline cfg k s (DoReserve raw owner ttl) =
     (if dc_Normalize cfg raw = Inr k
      then Some (Unix (Add (dc_Now cfg (env_ticks (ds_World s))) (if ttl \<le> 0 then dc_DefaultTTL cfg else ttl)))
      else None)"
| "deadline cfg k s _ = None"

fun deadlines :: "'x DirectoryConfig \<Rightarrow> string \<Rightarrow> dir_act list \<Rightarrow> 'x dir_sys \<Rightarrow> int list" where
  "deadlines cfg k [] s = []"
| "deadlines cfg k (a # acts) s =
     (case deadline cfg k s a of None \<Rightarrow> [] | Some d \<Rightarrow> [d]) @ deadlines cfg k acts (dir_step cfg a s)"

abbreviation (input) "entry_in m s k \<equiv> value_at (m (dw_State (ds_World s))) k"

text \<open>An uncommitted entry after a step was there before or carries the deadline of the step.\<close>

definition aged :: "Entry option \<Rightarrow> Entry option \<Rightarrow> int option \<Rightarrow> bool" where
  "aged cur cur' d \<longleftrightarrow>
     (\<forall>e. cur' = Some e \<and> en_State e \<noteq> StateCommitted \<longrightarrow> cur = Some e \<or> d = Some (en_ExpiresAtUnix e))"

lemma aged_same: "cur' = cur \<or> cur' = None \<Longrightarrow> aged cur cur' d"
  by (auto simp: aged_def)

lemma aged_reserve:
  assumes st: "vs_contract m (=) (dc_State cfg)"
  shows "aged (entry_in m s k) (entry_in m (dir_step cfg (DoReserve raw owner ttl) s) k) (deadline cfg k s (DoReserve raw owner ttl))"
proof -
  obtain r w' where run: "Reserve cfg raw owner ttl (ds_World s) = (r, w')" by force
  show ?thesis
  proof (cases "\<exists>key token. dc_Normalize cfg raw = Inr key \<and> owner \<noteq> [] \<and>
      dc_NewToken cfg (dw_Minted (ds_World s)) = Inr token")
    case True
    then obtain key token where ok: "dc_Normalize cfg raw = Inr key" "owner \<noteq> []"
      "dc_NewToken cfg (dw_Minted (ds_World s)) = Inr token" by blast
    note set = Reserve_settles [OF st run ok]
    show ?thesis
    proof (cases "key = k")
      case True
      with set run ok show ?thesis
        by (auto simp: aged_def settles_def reserve_mutate_def new_entry_def split: option.splits if_splits)
    next
      case False
      with settles_elsewhere [OF set] run show ?thesis by (intro aged_same) (simp add: value_at_def)
    qed
  next
    case False
    with Reserve_early [OF run] run show ?thesis by (intro aged_same) simp
  qed
qed

lemma aged_commit:
  assumes st: "vs_contract m (=) (dc_State cfg)"
  shows "aged (entry_in m s k) (entry_in m (dir_step cfg (DoCommit claim) s) k) d"
proof -
  obtain r w' where run: "Commit cfg claim (ds_World s) = (r, w')" by force
  show ?thesis
  proof (cases "cl_Key claim = [] \<or> cl_Token claim = []")
    case False
    then have ok: "cl_Key claim \<noteq> []" "cl_Token claim \<noteq> []" by simp_all
    note set = Commit_settles [OF st run ok]
    show ?thesis
    proof (cases "cl_Key claim = k")
      case True
      with set run show ?thesis
        by (auto simp: aged_def settles_def commit_mutate_def commit_next_def split: option.splits if_splits)
    next
      case False
      with settles_elsewhere [OF set] run show ?thesis by (intro aged_same) (simp add: value_at_def)
    qed
  next
    case True
    with Commit_early [OF run True] run show ?thesis by (intro aged_same) simp
  qed
qed

lemma aged_begin:
  assumes "vs_contract m (=) (dc_State cfg)"
  shows "aged (entry_in m s k) (entry_in m (begin_delete cfg key after s) k) d"
proof -
  obtain v w1 where get: "dirGet cfg key (ds_World s) = (v, w1)" by force
  from read_now(1) [OF assms get] get show ?thesis
    by (intro aged_same) (auto simp: begin_delete_def split: sum.split)
qed

lemma aged_step:
  assumes st: "vs_contract m (=) (dc_State cfg)"
  shows "aged (entry_in m s k) (entry_in m (dir_step cfg a s) k) (deadline cfg k s a)"
proof (cases a)
  case (DoReserve raw owner ttl)
  show ?thesis unfolding DoReserve by (rule aged_reserve [OF st])
next
  case (DoCommit claim)
  show ?thesis unfolding DoCommit by (rule aged_commit [OF st])
next
  case (DoLookup raw)
  with Lookup_effect [OF st prod.collapse [symmetric]] show ?thesis by (intro aged_same) simp
next
  case (BeginCancel claim)
  then show ?thesis using aged_begin [OF st] by (auto intro: aged_same)
next
  case (BeginRelease raw owner)
  then show ?thesis using aged_begin [OF st] by (auto intro: aged_same split: sum.split)
next
  case (Finish i)
  then show ?thesis
    using resume_effect [OF st prod.collapse [symmetric], of "ds_Pending s ! i" "ds_World s"]
    by (intro aged_same) (auto split: if_splits)
qed

lemma aged_run:
  assumes st: "vs_contract m (=) (dc_State cfg)"
  shows "entry_in m (dir_run cfg acts s) k = Some e \<Longrightarrow> en_State e \<noteq> StateCommitted \<Longrightarrow>
    entry_in m s k = Some e \<or> en_ExpiresAtUnix e \<in> set (deadlines cfg k acts s)"
proof (induction acts arbitrary: s)
  case (Cons a acts)
  then have "entry_in m (dir_step cfg a s) k = Some e \<or> en_ExpiresAtUnix e \<in> set (deadlines cfg k acts (dir_step cfg a s))"
    by simp
  with aged_step [OF st, of s k a] Cons.prems(2) show ?case by (auto simp: aged_def)
qed simp

text \<open>C38: No key is burned. Whatever interleaving of callers reserved, cancelled and abandoned it before: once the
  deadline of every reservation that was made for it has passed (each was after the epoch, which a positive
  lifetime gives), a key without a committed entry is taken by the next reservation, whoever makes it, and the
  claim it answers is the new one. Only the store failing can keep it from that.\<close>

theorem abandoned_key_is_free:
  assumes "vs_contract m (=) (dc_State cfg)"
    and "m (dw_State (ds_World s)) k = None" "dir_run cfg acts s = s'"
    and "\<forall>e. value_at (m (dw_State (ds_World s'))) k = Some e \<longrightarrow> en_State e \<noteq> StateCommitted"
    and "now = dc_Now cfg (env_ticks (ds_World s'))"
    and "\<forall>d \<in> set (deadlines cfg k acts s). 0 < d \<and> d \<le> Unix now"
    and "dc_Normalize cfg raw = Inr k" "owner \<noteq> []" "dc_NewToken cfg (dw_Minted (ds_World s')) = Inr token"
    and "Reserve cfg raw owner ttl (ds_World s') = (r, w)"
    and "until = Add now (if ttl \<le> 0 then dc_DefaultTTL cfg else ttl)"
  shows "(\<exists>e. r = Inl e \<and> store_error e) \<or>
    r = Inr \<lparr>cl_Key = k, cl_Owner = owner, cl_Token = token, cl_ExpiresAt = Some until\<rparr> \<and>
    value_at (m (dw_State w)) k = Some (new_entry k raw owner token now until)"
proof -
  have free: "\<not> held now (entry_in m s' k)"
  proof (cases "entry_in m s' k")
    case (Some e)
    then have "en_State e \<noteq> StateCommitted" using assms(4) by simp
    with aged_run [OF assms(1), of acts s k e] Some assms(2,3) have "en_ExpiresAtUnix e \<in> set (deadlines cfg k acts s)"
      by (auto simp: value_at_def)
    with assms(6) \<open>en_State e \<noteq> StateCommitted\<close> Some show ?thesis by (auto simp: held_def entry_Expired_def)
  qed (simp add: held_def)
  then have "reserve_mutate k raw owner token now until (entry_in m s' k) = Save (new_entry k raw owner token now until)"
    by (auto simp: held_def reserve_mutate_def split: option.splits)
  with Reserve_settles [OF assms(1,10,7,8,9)] free show ?thesis
    unfolding assms(5) [symmetric] assms(11) [symmetric] by (auto simp: settles_def reserve_claim_def)
qed

text \<open>One reservation that was abandoned, forty seconds later.\<close>

definition ex_later :: "(string, Entry) mem DirectoryConfig" where
  "ex_later = ex_directory\<lparr>dc_Now := (\<lambda>n. (100 + 40 * int n) * Second)\<rparr>"

lemma ex_abandoned:
  "dir_run ex_later [DoReserve ''bob'' ''a'' 0] \<lparr>ds_World = ex_world_with None 0 0 [], ds_Pending = []\<rparr> =
     \<lparr>ds_World = ex_world_with (Some (ex_reserved ''a'' ''t0'' 100)) 1 1 [Accepted ''reserve''], ds_Pending = []\<rparr>"
  by (simp add: Reserve_def handler_simps ex_later_def ex_directory_def NormalizeLower_def ex_strings Let_def
      ex_world_with_def mem_eval reserve_mutate_def reserve_claim_def held_def seen_def new_entry_def ex_reserved_def
      Add_def Unix_def Second_def)

theorem abandoned_key_is_free_witness:
  "\<exists>r w. Reserve ex_later ''bob'' ''b'' 0
       (ds_World (dir_run ex_later [DoReserve ''bob'' ''a'' 0] \<lparr>ds_World = ex_world_with None 0 0 [], ds_Pending = []\<rparr>)) = (r, w) \<and>
     ((\<exists>e. r = Inl e \<and> store_error e) \<or>
      value_at (mem_map (dw_State w)) ''bob'' =
        Some (new_entry ''bob'' ''bob'' ''b'' ''t1'' (140 * Second) (170 * Second)))"
proof -
  let ?s = "\<lparr>ds_World = ex_world_with None 0 0 [], ds_Pending = []\<rparr>"
  obtain r w where run: "Reserve ex_later ''bob'' ''b'' 0 (ds_World (dir_run ex_later [DoReserve ''bob'' ''a'' 0] ?s)) = (r, w)"
    by force
  have "vs_contract mem_map (=) (dc_State ex_later)"
    using ex_directory_contract by (simp add: ex_later_def)
  from abandoned_key_is_free [OF this _ refl _ refl _ _ _ _ run refl, of "''bob''" "''t1''"]
  have "(\<exists>e. r = Inl e \<and> store_error e) \<or>
      value_at (mem_map (dw_State w)) ''bob'' = Some (new_entry ''bob'' ''bob'' ''b'' ''t1'' (140 * Second) (170 * Second))"
    unfolding ex_abandoned
    by (simp add: ex_reserved_def ex_world_with_def mem_of_def value_at_def ex_later_def ex_directory_def
        NormalizeLower_def ex_strings Add_def Unix_def Second_def) blast
  with run show ?thesis by blast
qed

section \<open>A delete that outlived its read\<close>

text \<open>
  The stores restart versions at one when a key is deleted and written again. A cancel that read the
  first owner's reservation therefore still deletes after that owner cancelled twice and another
  owner reserved the key: the new owner's commit finds nothing.
\<close>

lemma ex_reserve_a:
  "Reserve ex_directory ''bob'' ''a'' 0 (ex_world_with None 0 0 []) =
     (Inr \<lparr>cl_Key = ''bob'', cl_Owner = ''a'', cl_Token = ''t0'', cl_ExpiresAt = Some (130 * Second)\<rparr>,
      ex_world_with (Some (ex_reserved ''a'' ''t0'' 100)) 1 1 [Accepted ''reserve''])"
  by (simp add: Reserve_def handler_simps ex_directory_def NormalizeLower_def ex_strings Let_def ex_world_with_def
      mem_eval reserve_mutate_def reserve_claim_def held_def seen_def new_entry_def ex_reserved_def Add_def Unix_def
      Second_def)

lemma ex_cancel_a:
  "Cancel ex_directory \<lparr>cl_Key = ''bob'', cl_Owner = ''a'', cl_Token = ''t0'', cl_ExpiresAt = x\<rparr>
     (ex_world_with (Some (ex_reserved ''a'' ''t0'' 100)) i j evs) =
   (Inr (), ex_world_with None i j (evs @ [Accepted ''cancel'']))"
  by (simp add: Cancel_def cancel_found_def handler_simps ex_directory_def ex_world_with_def mem_eval ex_reserved_def)

lemma ex_reserve_b:
  "Reserve ex_directory ''bob'' ''b'' 0 (ex_world_with None 1 1 evs) =
     (Inr \<lparr>cl_Key = ''bob'', cl_Owner = ''b'', cl_Token = ''t1'', cl_ExpiresAt = Some (131 * Second)\<rparr>,
      ex_world_with (Some (ex_reserved ''b'' ''t1'' 101)) 2 2 (evs @ [Accepted ''reserve'']))"
  by (simp add: Reserve_def handler_simps ex_directory_def NormalizeLower_def ex_strings Let_def ex_world_with_def
      mem_eval reserve_mutate_def reserve_claim_def held_def seen_def new_entry_def ex_reserved_def Add_def Unix_def
      Second_def)

text \<open>The pending delete of a second cancel of the first claim, which read version one of that claim's entry.\<close>

lemma ex_pending_delete:
  "dirDelete ex_directory ''bob'' \<lparr>ver_Value = ex_reserved ''a'' ''t0'' 100, ver_Version = 1\<rparr>
     (ex_world_with (Some (ex_reserved ''b'' ''t1'' 101)) i j evs) = (Inr None, ex_world_with None i j evs)"
  by (simp add: handler_simps ex_directory_def ex_world_with_def mem_eval)

theorem stale_cancel_removes_new_claim:
  "\<exists>claimA claimB w1 w2 w3 w4.
     Reserve ex_directory ''bob'' ''a'' 0 (ex_world_with None 0 0 []) = (Inr claimA, w1) \<and>
     mem_map (dw_State w1) ''bob'' = Some \<lparr>ver_Value = ex_reserved ''a'' ''t0'' 100, ver_Version = 1\<rparr> \<and>
     Cancel ex_directory claimA w1 = (Inr (), w2) \<and>
     Reserve ex_directory ''bob'' ''b'' 0 w2 = (Inr claimB, w3) \<and>
     dirDelete ex_directory ''bob'' \<lparr>ver_Value = ex_reserved ''a'' ''t0'' 100, ver_Version = 1\<rparr> w3 = (Inr None, w4) \<and>
     fst (Commit ex_directory claimB w4) = Inl [ErrClaimNotFound]"
proof -
  have "fst (Commit ex_directory \<lparr>cl_Key = ''bob'', cl_Owner = ''b'', cl_Token = ''t1'', cl_ExpiresAt = Some (131 * Second)\<rparr>
      (ex_world_with None 2 2 evs)) = Inl [ErrClaimNotFound]" for evs
    by (simp add: Commit_def handler_simps ex_directory_def ex_world_with_def mem_eval commit_mutate_def
        commit_refusal_def seen_def Let_def)
  moreover have "mem_map (dw_State (ex_world_with (Some (ex_reserved ''a'' ''t0'' 100)) 1 1 [Accepted ''reserve''])) ''bob'' =
      Some \<lparr>ver_Value = ex_reserved ''a'' ''t0'' 100, ver_Version = 1\<rparr>"
    by (simp add: ex_world_with_def mem_of_def)
  ultimately show ?thesis
    using ex_reserve_a ex_cancel_a ex_reserve_b ex_pending_delete by blast
qed


section \<open>What a claim and a commit promise\<close>

text \<open>After \<open>Reserve\<close> the key holds an entry of the owner under the claim's token.\<close>

lemma Reserve_claims:
  assumes st: "vs_contract m (=) (dc_State cfg)" and run: "Reserve cfg raw owner ttl w = (Inr claim, w')"
  shows "dc_Normalize cfg raw = Inr (cl_Key claim) \<and>
    (\<exists>e. value_at (m (dw_State w')) (cl_Key claim) = Some e \<and> en_Owner e = owner \<and> en_Token e = cl_Token claim)"
proof -
  obtain key token where ok: "dc_Normalize cfg raw = Inr key" "owner \<noteq> []" "dc_NewToken cfg (dw_Minted w) = Inr token"
    using Reserve_early [OF run] by blast
  from Reserve_settles [OF st run ok] ok(1) show ?thesis
    by (auto simp: settles_def reserve_mutate_def reserve_claim_def held_def new_entry_def
        split: option.splits if_splits)
qed

text \<open>After \<open>Commit\<close> the key holds the entry of the claim's token, committed, under the same owner.\<close>

lemma Commit_commits:
  assumes st: "vs_contract m (=) (dc_State cfg)" and run: "Commit cfg claim w = (Inr e', w')"
  shows "\<exists>e. value_at (m (dw_State w)) (cl_Key claim) = Some e \<and> en_Token e = cl_Token claim \<and>
    en_Owner e' = en_Owner e \<and> en_State e' = StateCommitted \<and>
    value_at (m (dw_State w')) (cl_Key claim) = Some e'"
proof -
  have ok: "cl_Key claim \<noteq> []" "cl_Token claim \<noteq> []" using Commit_early [OF run] by blast+
  from Commit_settles [OF st run ok] show ?thesis
    by (auto simp: settles_def commit_mutate_def commit_next_def result_of_def split: option.splits if_splits)
qed

end
