(* ===== verification/Account.thy ===== *)
theory Account
  imports Directory
begin

text \<open>
  Package \<open>service/account\<close> (\<open>types.go\<close>, \<open>identity.go\<close>, \<open>service.go\<close>): accounts derived from
  verified identities, roles created under a name claim and an exclusive slot with every failure
  rolled back, role sessions, profiles and servers. The verifier, the player id allocator and the name
  rules are supplied by the deployment and share a state of their own; the signing functions of
  \<open>security\<close> and \<open>strings.ToLower\<close> are parameters. The name directory is used through its interface.
\<close>

section \<open>Errors and bounds (types.go)\<close>

abbreviation "ErrIdentityInvalid \<equiv> Coded 560101"
abbreviation "ErrAcctIdentityDenied \<equiv> Coded 560102"
abbreviation "ErrAccountMissing \<equiv> Coded 560103"
abbreviation "ErrServerInvalid \<equiv> Coded 560104"
abbreviation "ErrServerClosed \<equiv> Coded 560105"
abbreviation "ErrNameInvalid \<equiv> Coded 560106"
abbreviation "ErrNameTaken \<equiv> Coded 560107"
abbreviation "ErrRoleLimit \<equiv> Coded 560108"
abbreviation "ErrRoleMissing \<equiv> Coded 560109"
abbreviation "ErrAcctNotPermitted \<equiv> Coded 560110"
abbreviation "ErrSessionInvalid \<equiv> Coded 560111"
abbreviation "ErrAcctRangeInvalid \<equiv> Coded 560112"
abbreviation "ErrAcctConflict \<equiv> Coded 560113"
abbreviation "ErrVerifierUnavailable \<equiv> Foreign ''account: identity channel is unavailable''"

definition AccountError :: "(gerr \<Rightarrow> int \<times> string) \<Rightarrow> gerr option \<Rightarrow> int \<times> string" where
  "AccountError clientError err =
     (case err of None \<Rightarrow> (0, [])
      | Some e \<Rightarrow> if Is e StoreConflict then clientError [ErrAcctConflict] else clientError e)"

definition AccountCode :: "(gerr \<Rightarrow> int \<times> string) \<Rightarrow> gerr option \<Rightarrow> int" where
  "AccountCode clientError err = fst (AccountError clientError err)"

definition MaxProfileBytes :: nat where [bound_defs]: "MaxProfileBytes = 4096"

section \<open>Identities and records (types.go, identity.go)\<close>

record Identity =
  id_Channel :: string
  id_OpenID :: string
  id_Credential :: string

definition Identity_Validate :: "Identity \<Rightarrow> gerr option" where
  "Identity_Validate i =
     (if blank (id_Channel i) then Some [ErrIdentityInvalid]
      else if blank (id_OpenID i) then Some [ErrIdentityInvalid]
      else None)"

definition AccountID :: "(string \<Rightarrow> string) \<Rightarrow> Identity \<Rightarrow> string" where
  "AccountID toLower i = toLower (TrimSpace (id_Channel i)) @ '':'' @ TrimSpace (id_OpenID i)"

record AcctVerified =
  vd_Channel :: string
  vd_OpenID :: string

definition AcctVerified_Validate :: "AcctVerified \<Rightarrow> gerr option" where
  "AcctVerified_Validate v = (if vd_Channel v = [] \<or> vd_OpenID v = [] then Some [ErrIdentityInvalid] else None)"

record Account =
  at_ID :: string
  at_Channel :: string
  at_OpenID :: string
  at_Banned :: bool
  at_CreatedAtUnix :: int
  at_LastLoginAtUnix :: int

datatype server_status = ServerOpen | ServerMaintenance | ServerFull | ServerClosed | ServerStatusText string

definition acceptsNewRoles :: "server_status \<Rightarrow> bool" where
  "acceptsNewRoles s \<longleftrightarrow> s = ServerOpen"

record GameServer =
  gs_ID :: int
  gs_Name :: string
  gs_Status :: server_status
  gs_Region :: string
  gs_UpdatedAtUnix :: int

record Role =
  ro_PlayerID :: int
  ro_AccountID :: string
  ro_ServerID :: int
  ro_Name :: string
  ro_Profile :: string
  ro_CreatedAtUnix :: int
  ro_LastLoginAtUnix :: int
  ro_LastLogoutAtUnix :: int

record AcctSession =
  sn_PlayerID :: int
  sn_AccountID :: string
  sn_ServerID :: int
  sn_Token :: string
  sn_ExpiresAtUnix :: int

record Slot =
  sl_AccountID :: string
  sl_ServerID :: int
  sl_PlayerID :: int

section \<open>Configuration and state (service.go)\<close>

text \<open>The name directory as the service calls it, on a state of its own.\<close>

record 'n NameDirectory =
  nd_Reserve :: "string \<Rightarrow> Owner \<Rightarrow> duration \<Rightarrow> ('n, Claim) handler"
  nd_Commit :: "Claim \<Rightarrow> ('n, Entry) handler"
  nd_Cancel :: "Claim \<Rightarrow> ('n, unit) handler"
  nd_Release :: "string \<Rightarrow> Owner \<Rightarrow> ('n, unit) handler"

definition directory_names :: "'x DirectoryConfig \<Rightarrow> 'x dworld NameDirectory" where
  "directory_names cfg =
     \<lparr>nd_Reserve = Reserve cfg, nd_Commit = Commit cfg, nd_Cancel = Cancel cfg, nd_Release = Release cfg\<rparr>"

record ('a, 'r, 's, 'l, 'n, 'o) AccountConfig =
  uc_Accounts :: "('a, string, Account) vstore"
  uc_Roles :: "('r, int, Role) vstore"
  uc_Servers :: "('s, int, GameServer) vstore"
  uc_Slots :: "('l, string, Slot) vstore"
  uc_Names :: "'n NameDirectory"
  uc_Verify :: "Identity \<Rightarrow> 'o \<Rightarrow> (gerr + AcctVerified) \<times> 'o"
  uc_Allocate :: "int \<Rightarrow> 'o \<Rightarrow> (gerr + int) \<times> 'o"
  uc_NameRules :: "string \<Rightarrow> 'o \<Rightarrow> gerr option \<times> 'o"
  uc_SessionSecret :: string
  uc_SessionTTL :: duration
  uc_RolesPerServer :: int
  uc_ClaimTTL :: duration
  uc_Now :: "nat \<Rightarrow> time"
  uc_ToLower :: "string \<Rightarrow> string"
  uc_SignSessionToken :: "int \<Rightarrow> string \<Rightarrow> duration \<Rightarrow> time \<Rightarrow> gerr + string"
  uc_VerifySessionToken :: "string \<Rightarrow> string \<Rightarrow> int \<Rightarrow> time \<Rightarrow> gerr option"

record ('a, 'r, 's, 'l, 'n, 'o) uworld = env +
  uw_Accounts :: 'a
  uw_Roles :: 'r
  uw_Servers :: 's
  uw_Slots :: 'l
  uw_Names :: 'n
  uw_Outside :: 'o

definition acct_DefaultSessionTTL :: duration where "acct_DefaultSessionTTL = 30 * Minute"
definition DefaultClaimTTL :: duration where "DefaultClaimTTL = 30 * Second"

text \<open>\<open>New\<close>: \<open>present\<close> says, in the order of the code, which collaborators were supplied.\<close>

definition AccountNew ::
  "bool list \<Rightarrow> (nat \<Rightarrow> time) option \<Rightarrow> (nat \<Rightarrow> time) \<Rightarrow> ('a, 'r, 's, 'l, 'n, 'o) AccountConfig \<Rightarrow>
   gerr + ('a, 'r, 's, 'l, 'n, 'o) AccountConfig" where
  "AccountNew present now systemNow cfg =
     (if \<not> list_all id present \<or> blank (uc_SessionSecret cfg)
      then Inl [Foreign ''account: incomplete configuration'']
      else let cfg = cfg\<lparr>uc_SessionTTL := (if uc_SessionTTL cfg \<le> 0 then acct_DefaultSessionTTL else uc_SessionTTL cfg),
                         uc_ClaimTTL := (if uc_ClaimTTL cfg \<le> 0 then DefaultClaimTTL else uc_ClaimTTL cfg),
                         uc_RolesPerServer := (if uc_RolesPerServer cfg \<le> 0 then 1 else uc_RolesPerServer cfg)\<rparr>
           in if uc_RolesPerServer cfg \<noteq> 1
              then Inl [Foreign ''account: RolesPerServer above one is not implemented'']
              else Inr (cfg\<lparr>uc_Now := (case now of None \<Rightarrow> systemNow | Some n \<Rightarrow> n)\<rparr>))"

abbreviation "accountsGet cfg \<equiv> getE uw_Accounts uw_Accounts_update (uc_Accounts cfg)"
abbreviation "accountsUpdate cfg \<equiv> mutateE uw_Accounts uw_Accounts_update (uc_Accounts cfg)"
abbreviation "rolesGet cfg \<equiv> getE uw_Roles uw_Roles_update (uc_Roles cfg)"
abbreviation "rolesCreate cfg \<equiv> createE uw_Roles uw_Roles_update (uc_Roles cfg)"
abbreviation "rolesUpdate cfg \<equiv> mutateE uw_Roles uw_Roles_update (uc_Roles cfg)"
abbreviation "rolesDelete cfg \<equiv> deleteE uw_Roles uw_Roles_update (uc_Roles cfg)"
abbreviation "serversGet cfg \<equiv> getE uw_Servers uw_Servers_update (uc_Servers cfg)"
abbreviation "serversUpdate cfg \<equiv> mutateE uw_Servers uw_Servers_update (uc_Servers cfg)"
abbreviation "slotsCreate cfg \<equiv> createE uw_Slots uw_Slots_update (uc_Slots cfg)"
abbreviation "slotsUpdate cfg \<equiv> mutateE uw_Slots uw_Slots_update (uc_Slots cfg)"
abbreviation "slotsDelete cfg \<equiv> deleteE uw_Slots uw_Slots_update (uc_Slots cfg)"

definition outsideU :: "('o \<Rightarrow> 'x \<times> 'o) \<Rightarrow> (('a, 'r, 's, 'l, 'n, 'o) uworld, 'x) handler" where
  "outsideU f = (\<lambda>w. case f (uw_Outside w) of (a, o') \<Rightarrow> (Inr a, w\<lparr>uw_Outside := o'\<rparr>))"

definition namesU :: "('n, 'x) handler \<Rightarrow> (('a, 'r, 's, 'l, 'n, 'o) uworld, 'x) handler" where
  "namesU h = (\<lambda>w. case h (uw_Names w) of (r, n) \<Rightarrow> (r, w\<lparr>uw_Names := n\<rparr>))"

declare outsideU_def [handler_simps] namesU_def [handler_simps]

text \<open>\<open>errors.Join\<close> of errors that may be absent.\<close>

definition join :: "gerr option \<Rightarrow> gerr option \<Rightarrow> gerr option" where
  "join a b = (case (a, b) of (None, _) \<Rightarrow> b | (_, None) \<Rightarrow> a | (Some e, Some f) \<Rightarrow> Some (e @ f))"

definition join_err :: "gerr \<Rightarrow> gerr option \<Rightarrow> gerr" where
  "join_err e b = (case b of None \<Rightarrow> e | Some f \<Rightarrow> e @ f)"

definition error_of :: "gerr + 'x \<Rightarrow> gerr option" where
  "error_of r = (case r of Inl e \<Rightarrow> Some e | Inr _ \<Rightarrow> None)"

section \<open>Login\<close>

definition login_next :: "string \<Rightarrow> AcctVerified \<Rightarrow> int \<Rightarrow> Account option \<Rightarrow> Account" where
  "login_next accountID verified nowUnix cur =
     (case cur of
        Some current \<Rightarrow> current\<lparr>at_LastLoginAtUnix := nowUnix\<rparr>
      | None \<Rightarrow> \<lparr>at_ID = accountID, at_Channel = vd_Channel verified, at_OpenID = vd_OpenID verified,
                 at_Banned = False, at_CreatedAtUnix = nowUnix, at_LastLoginAtUnix = nowUnix\<rparr>)"

definition banned :: "Account option \<Rightarrow> bool" where
  "banned cur = (case cur of Some current \<Rightarrow> at_Banned current | None \<Rightarrow> False)"

definition login_mutate :: "string \<Rightarrow> AcctVerified \<Rightarrow> int \<Rightarrow> Account mutate" where
  "login_mutate accountID verified nowUnix cur =
     (if banned cur then Fail [ErrAcctIdentityDenied] else Save (login_next accountID verified nowUnix cur))"

definition login_events :: "Account option \<Rightarrow> event list" where
  "login_events cur = (if banned cur then [Refused ''login'' ''banned''] else [])"

definition Login ::
  "('a, 'r, 's, 'l, 'n, 'o) AccountConfig \<Rightarrow> Identity \<Rightarrow> (('a, 'r, 's, 'l, 'n, 'o) uworld, Account) handler" where
  "Login cfg identity =
     thenE (guardE (Identity_Validate identity))
    (bindE (outsideU (uc_Verify cfg identity)) (\<lambda>answer.
       case answer of
         Inl err \<Rightarrow>
           if Is err ErrVerifierUnavailable
           then thenE (reportE (Refused ''login'' ''verifier_unavailable'')) (raiseE err)
           else thenE (reportE (Refused ''login'' ''denied'')) (raiseE [ErrAcctIdentityDenied])
       | Inr verified \<Rightarrow>
           thenE (guardE (AcctVerified_Validate verified))
          (let accountID = AccountID (uc_ToLower cfg)
                 \<lparr>id_Channel = vd_Channel verified, id_OpenID = vd_OpenID verified, id_Credential = []\<rparr>
           in bindE (nowE (uc_Now cfg)) (\<lambda>now.
              bindE (accountsUpdate cfg accountID login_events (login_mutate accountID verified (Unix now)))
                (\<lambda>(calls, applied).
                   thenE (reportE (Accepted ''login''))
                     (retE (login_next accountID verified (Unix now) (seen calls))))))))"

section \<open>Creating a role\<close>

definition slotKeyFor :: "string \<Rightarrow> int \<Rightarrow> string" where
  "slotKeyFor accountID serverID = accountID @ ''@'' @ FormatInt serverID"

definition releaseSlot ::
  "('a, 'r, 's, 'l, 'n, 'o) AccountConfig \<Rightarrow> string \<Rightarrow> Slot versioned \<Rightarrow>
   (('a, 'r, 's, 'l, 'n, 'o) uworld, gerr option) handler" where
  "releaseSlot cfg slotKey slot =
     bindE (slotsDelete cfg slotKey slot) (\<lambda>r.
       case r of
         Some err \<Rightarrow> retE (if Is err VersionMismatch then None else Some err)
       | None \<Rightarrow> retE None)"

definition rollback ::
  "('a, 'r, 's, 'l, 'n, 'o) AccountConfig \<Rightarrow> Claim \<Rightarrow> string \<Rightarrow> Slot versioned \<Rightarrow>
   (('a, 'r, 's, 'l, 'n, 'o) uworld, gerr option) handler" where
  "rollback cfg nameClaim slotKey slot =
     bindE (tryE (namesU (nd_Cancel (uc_Names cfg) nameClaim))) (\<lambda>cancelled.
     let nameErr = (case error_of cancelled of
                      Some err \<Rightarrow> if Is err ErrClaimStale then None else Some err
                    | None \<Rightarrow> None) in
     bindE (releaseSlot cfg slotKey slot) (\<lambda>slotErr.
     let joined = join nameErr slotErr in
       thenE (if joined \<noteq> None then reportE (Dropped ''rollback.failed'' 1) else retE ())
         (retE joined)))"

definition rollbackRole ::
  "('a, 'r, 's, 'l, 'n, 'o) AccountConfig \<Rightarrow> Role versioned \<Rightarrow>
   (('a, 'r, 's, 'l, 'n, 'o) uworld, gerr option) handler" where
  "rollbackRole cfg stored =
     bindE (rolesDelete cfg (ro_PlayerID (ver_Value stored)) stored) (\<lambda>r.
       case r of
         Some err \<Rightarrow>
           if Is err VersionMismatch then retE None
           else thenE (reportE (Dropped ''rollback.failed'' 1)) (retE (Some err))
       | None \<Rightarrow> retE None)"

definition new_role :: "int \<Rightarrow> string \<Rightarrow> int \<Rightarrow> string \<Rightarrow> int \<Rightarrow> Role" where
  "new_role playerID accountID serverID name nowUnix =
     \<lparr>ro_PlayerID = playerID, ro_AccountID = accountID, ro_ServerID = serverID, ro_Name = TrimSpace name,
      ro_Profile = [], ro_CreatedAtUnix = nowUnix, ro_LastLoginAtUnix = 0, ro_LastLogoutAtUnix = 0\<rparr>"

definition fill_slot :: "int \<Rightarrow> Slot mutate" where
  "fill_slot playerID cur =
     (case cur of None \<Rightarrow> Fail [ErrAcctConflict] | Some current \<Rightarrow> Save (current\<lparr>sl_PlayerID := playerID\<rparr>))"

text \<open>The stages of \<open>CreateRole\<close>, last first: after the role is inserted, after the name is claimed, after the
  slot is claimed.\<close>

definition create_commit ::
  "('a, 'r, 's, 'l, 'n, 'o) AccountConfig \<Rightarrow> string \<Rightarrow> Claim \<Rightarrow> Slot versioned \<Rightarrow> Role versioned \<Rightarrow> Role \<Rightarrow>
   (('a, 'r, 's, 'l, 'n, 'o) uworld, Role) handler" where
  "create_commit cfg accountID nameClaim slot storedRole role =
     (let slotKey = slotKeyFor accountID (ro_ServerID role) in
      bindE (tryE (namesU (nd_Commit (uc_Names cfg) nameClaim))) (\<lambda>committed.
        case error_of committed of
          Some err \<Rightarrow>
            bindE (rollbackRole cfg storedRole) (\<lambda>roleErr.
            bindE (rollback cfg nameClaim slotKey slot) (\<lambda>undone.
              raiseE (join_err (join_err err roleErr) undone)))
        | None \<Rightarrow>
            bindE (tryE (slotsUpdate cfg slotKey (\<lambda>_. []) (fill_slot (ro_PlayerID role)))) (\<lambda>filled.
              case error_of filled of
                Some err \<Rightarrow>
                  bindE (tryE (namesU (nd_Release (uc_Names cfg) (ro_Name role) accountID))) (\<lambda>released.
                  bindE (rollbackRole cfg storedRole) (\<lambda>roleErr.
                  bindE (releaseSlot cfg slotKey slot) (\<lambda>slotErr.
                  let joined = join (error_of released) (join roleErr slotErr) in
                    thenE (if joined \<noteq> None then reportE (Dropped ''rollback.failed'' 1) else retE ())
                      (raiseE (join_err err joined)))))
              | None \<Rightarrow> thenE (reportE (Accepted ''create_role'')) (retE role))))"

definition create_insert ::
  "('a, 'r, 's, 'l, 'n, 'o) AccountConfig \<Rightarrow> string \<Rightarrow> int \<Rightarrow> string \<Rightarrow> Claim \<Rightarrow> Slot versioned \<Rightarrow>
   (('a, 'r, 's, 'l, 'n, 'o) uworld, Role) handler" where
  "create_insert cfg accountID serverID name nameClaim slot =
     (let slotKey = slotKeyFor accountID serverID;
          undo = (\<lambda>err. bindE (rollback cfg nameClaim slotKey slot) (\<lambda>undone. raiseE (join_err err undone))) in
      bindE (outsideU (uc_Allocate cfg serverID)) (\<lambda>allocated.
        case allocated of
          Inl err \<Rightarrow> undo err
        | Inr playerID \<Rightarrow>
            if playerID = 0 then undo [Foreign ''account: allocator returned a zero player id'']
            else bindE (nowE (uc_Now cfg)) (\<lambda>now.
              let role = new_role playerID accountID serverID name (Unix now) in
              bindE (tryE (rolesCreate cfg playerID role)) (\<lambda>created.
                case created of
                  Inl err \<Rightarrow> undo err
                | Inr None \<Rightarrow> thenE (reportE (Conflict ''create_role'')) (undo [ErrAcctConflict])
                | Inr (Some storedRole) \<Rightarrow> create_commit cfg accountID nameClaim slot storedRole role))))"

definition create_named ::
  "('a, 'r, 's, 'l, 'n, 'o) AccountConfig \<Rightarrow> string \<Rightarrow> int \<Rightarrow> string \<Rightarrow> Slot versioned \<Rightarrow>
   (('a, 'r, 's, 'l, 'n, 'o) uworld, Role) handler" where
  "create_named cfg accountID serverID name slot =
     bindE (tryE (namesU (nd_Reserve (uc_Names cfg) name accountID (uc_ClaimTTL cfg)))) (\<lambda>reserved.
       case reserved of
         Inl err \<Rightarrow>
           bindE (releaseSlot cfg (slotKeyFor accountID serverID) slot) (\<lambda>releaseErr.
             let err = join_err err releaseErr in
             if Is err ErrKeyTaken
             then thenE (reportE (Refused ''create_role'' ''name_taken'')) (raiseE [ErrNameTaken])
             else raiseE err)
       | Inr nameClaim \<Rightarrow> create_insert cfg accountID serverID name nameClaim slot)"

definition create_claimed ::
  "('a, 'r, 's, 'l, 'n, 'o) AccountConfig \<Rightarrow> string \<Rightarrow> int \<Rightarrow> string \<Rightarrow>
   (('a, 'r, 's, 'l, 'n, 'o) uworld, Role) handler" where
  "create_claimed cfg accountID serverID name =
     bindE (slotsCreate cfg (slotKeyFor accountID serverID)
              \<lparr>sl_AccountID = accountID, sl_ServerID = serverID, sl_PlayerID = 0\<rparr>) (\<lambda>claimed.
       case claimed of
         None \<Rightarrow> thenE (reportE (Refused ''create_role'' ''role_limit'')) (raiseE [ErrRoleLimit])
       | Some slot \<Rightarrow> create_named cfg accountID serverID name slot)"

definition CreateRole ::
  "('a, 'r, 's, 'l, 'n, 'o) AccountConfig \<Rightarrow> string \<Rightarrow> int \<Rightarrow> string \<Rightarrow>
   (('a, 'r, 's, 'l, 'n, 'o) uworld, Role) handler" where
  "CreateRole cfg accountID serverID name =
     (if blank accountID then raiseE [ErrAccountMissing]
      else bindE (outsideU (uc_NameRules cfg name)) (\<lambda>verdict.
        if verdict \<noteq> None then raiseE [ErrNameInvalid]
        else bindE (accountsGet cfg accountID) (\<lambda>account.
          case account of
            None \<Rightarrow> raiseE [ErrAccountMissing]
          | Some av \<Rightarrow>
              if at_Banned (ver_Value av) then raiseE [ErrAcctIdentityDenied]
              else bindE (serversGet cfg serverID) (\<lambda>server.
                case server of
                  None \<Rightarrow> raiseE [ErrServerInvalid]
                | Some sv \<Rightarrow>
                    if \<not> acceptsNewRoles (gs_Status (ver_Value sv))
                    then thenE (reportE (Refused ''create_role'' ''server_closed'')) (raiseE [ErrServerClosed])
                    else create_claimed cfg accountID serverID name))))"

section \<open>Sessions, profiles and servers\<close>

text \<open>The writes a role's account may make on the role, and nobody else.\<close>

definition owned_mutate :: "string \<Rightarrow> (Role \<Rightarrow> Role) \<Rightarrow> Role mutate" where
  "owned_mutate accountID f cur =
     (case cur of
        None \<Rightarrow> Fail [ErrRoleMissing]
      | Some current \<Rightarrow> if ro_AccountID current \<noteq> accountID then Fail [ErrAcctNotPermitted] else Save (f current))"

definition not_owner_events :: "string \<Rightarrow> string \<Rightarrow> Role option \<Rightarrow> event list" where
  "not_owner_events what accountID cur =
     (case cur of
        None \<Rightarrow> []
      | Some current \<Rightarrow> if ro_AccountID current \<noteq> accountID then [Refused what ''not_owner''] else [])"

definition login_role :: "int \<Rightarrow> Role \<Rightarrow> Role" where
  "login_role nowUnix current = current\<lparr>ro_LastLoginAtUnix := nowUnix\<rparr>"

definition SelectRole ::
  "('a, 'r, 's, 'l, 'n, 'o) AccountConfig \<Rightarrow> string \<Rightarrow> int \<Rightarrow>
   (('a, 'r, 's, 'l, 'n, 'o) uworld, AcctSession) handler" where
  "SelectRole cfg accountID playerID =
     bindE (rolesGet cfg playerID) (\<lambda>role.
       case role of
         None \<Rightarrow> raiseE [ErrRoleMissing]
       | Some rv \<Rightarrow>
           if ro_AccountID (ver_Value rv) \<noteq> accountID
           then thenE (reportE (Refused ''select_role'' ''not_owner'')) (raiseE [ErrAcctNotPermitted])
           else bindE (nowE (uc_Now cfg)) (\<lambda>now.
             bindE (liftE (uc_SignSessionToken cfg playerID (uc_SessionSecret cfg) (uc_SessionTTL cfg) now)) (\<lambda>token.
             thenE (rolesUpdate cfg playerID (\<lambda>_. []) (owned_mutate accountID (login_role (Unix now))))
               (retE \<lparr>sn_PlayerID = playerID, sn_AccountID = accountID, sn_ServerID = ro_ServerID (ver_Value rv),
                     sn_Token = token, sn_ExpiresAtUnix = Unix (Add now (uc_SessionTTL cfg))\<rparr>))))"

definition acct_ValidateSession ::
  "('a, 'r, 's, 'l, 'n, 'o) AccountConfig \<Rightarrow> int \<Rightarrow> string \<Rightarrow> (('a, 'r, 's, 'l, 'n, 'o) uworld, Role) handler" where
  "acct_ValidateSession cfg playerID token =
     bindE (nowE (uc_Now cfg)) (\<lambda>now.
       case uc_VerifySessionToken cfg token (uc_SessionSecret cfg) playerID now of
         Some err \<Rightarrow> thenE (reportE (Refused ''validate_session'' ''bad_token'')) (raiseE [ErrSessionInvalid])
       | None \<Rightarrow>
           bindE (rolesGet cfg playerID) (\<lambda>role.
             case role of None \<Rightarrow> raiseE [ErrRoleMissing] | Some rv \<Rightarrow> retE (ver_Value rv)))"

definition zero_role :: Role where
  "zero_role = \<lparr>ro_PlayerID = 0, ro_AccountID = [], ro_ServerID = 0, ro_Name = [], ro_Profile = [],
     ro_CreatedAtUnix = 0, ro_LastLoginAtUnix = 0, ro_LastLogoutAtUnix = 0\<rparr>"

definition profile_role :: "string \<Rightarrow> Role \<Rightarrow> Role" where
  "profile_role profile current = current\<lparr>ro_Profile := profile\<rparr>"

definition UpdateProfile ::
  "('a, 'r, 's, 'l, 'n, 'o) AccountConfig \<Rightarrow> string \<Rightarrow> int \<Rightarrow> string \<Rightarrow>
   (('a, 'r, 's, 'l, 'n, 'o) uworld, Role) handler" where
  "UpdateProfile cfg accountID playerID profile =
     (if length profile > MaxProfileBytes then raiseE [ErrAcctRangeInvalid]
      else let f = owned_mutate accountID (profile_role profile) in
        bindE (rolesUpdate cfg playerID (not_owner_events ''update_profile'' accountID) f) (\<lambda>(calls, applied).
          retE (saved_or zero_role (f (seen calls)))))"

definition logout_role :: "int \<Rightarrow> Role \<Rightarrow> Role" where
  "logout_role nowUnix current = current\<lparr>ro_LastLogoutAtUnix := nowUnix\<rparr>"

definition MarkLogout ::
  "('a, 'r, 's, 'l, 'n, 'o) AccountConfig \<Rightarrow> string \<Rightarrow> int \<Rightarrow> (('a, 'r, 's, 'l, 'n, 'o) uworld, unit) handler" where
  "MarkLogout cfg accountID playerID =
     bindE (nowE (uc_Now cfg)) (\<lambda>now.
       thenE (rolesUpdate cfg playerID (not_owner_events ''mark_logout'' accountID)
                (owned_mutate accountID (logout_role (Unix now))))
         (retE ()))"

definition UpsertServer ::
  "('a, 'r, 's, 'l, 'n, 'o) AccountConfig \<Rightarrow> GameServer \<Rightarrow> (('a, 'r, 's, 'l, 'n, 'o) uworld, GameServer) handler" where
  "UpsertServer cfg server =
     (if gs_ID server = 0 then raiseE [ErrServerInvalid]
      else let server = (if gs_Status server = ServerStatusText [] then server\<lparr>gs_Status := ServerOpen\<rparr> else server) in
        bindE (nowE (uc_Now cfg)) (\<lambda>now.
        let stamped = server\<lparr>gs_UpdatedAtUnix := Unix now\<rparr> in
          thenE (serversUpdate cfg (gs_ID server) (\<lambda>_. []) (\<lambda>_. Save stamped)) (retE stamped)))"

end
