(* ===== verification/AccountProps.thy ===== *)
theory AccountProps
  imports Account DirectoryProps
begin

text \<open>
  What holds of accounts and roles: a role's identity is fixed and only its account writes it, a role
  creation that fails takes back its role and its slot unless a store's answer was lost, and one that
  succeeds owns its name, its slot and its player id.
\<close>

section \<open>Roles under every interleaving\<close>

text \<open>The committed writes on one role: by an account, of the login time, the logout time or the profile.\<close>

datatype role_write = WriteLogin int | WriteLogout int | WriteProfile string

fun apply_write :: "role_write \<Rightarrow> Role \<Rightarrow> Role" where
  "apply_write (WriteLogin t) = login_role t"
| "apply_write (WriteLogout t) = logout_role t"
| "apply_write (WriteProfile p) = profile_role p"

fun role_mutate :: "string \<times> role_write \<Rightarrow> Role mutate" where
  "role_mutate (accountID, wr) = owned_mutate accountID (apply_write wr)"

definition same_role :: "Role \<Rightarrow> Role \<Rightarrow> bool" where
  "same_role u v \<longleftrightarrow>
     ro_PlayerID v = ro_PlayerID u \<and> ro_AccountID v = ro_AccountID u \<and> ro_ServerID v = ro_ServerID u \<and>
     ro_Name v = ro_Name u \<and> ro_CreatedAtUnix v = ro_CreatedAtUnix u"

lemma same_role_write: "same_role u (apply_write wr u)"
  by (cases wr) (simp_all add: same_role_def login_role_def logout_role_def profile_role_def)

interpretation role: cas_cell role_mutate "\<lambda>_. True" "\<lambda>_. True" same_role
proof unfold_locales
  fix a u v
  assume "role_mutate a (Some u) = Save v"
  then show "same_role u v"
    by (cases a) (auto simp: owned_mutate_def same_role_write split: if_splits)
qed (auto simp: same_role_def)

lemma foreign_write:
  "fst a \<noteq> ro_AccountID u \<Longrightarrow> commit role_mutate a (Some u) = Some u"
  by (cases a) (auto simp: commit_def owned_mutate_def)

lemma foreign_writes:
  "\<forall>a \<in> set ops. fst a \<noteq> ro_AccountID u \<Longrightarrow> commits role_mutate ops (Some u) = Some u"
  by (induction ops) (auto simp: foreign_write)

text \<open>C33: Once created, a role keeps its player id, its account, its server, its name and its creation time
  under every interleaving of logins, logouts and profile updates by whatever accounts, and writes
  that do not come from its own account change nothing at all.\<close>

theorem role_identity_fixed:
  assumes "commits role_mutate ops (Some u) = Some v"
  shows "same_role u v \<and> ((\<forall>a \<in> set ops. fst a \<noteq> ro_AccountID u) \<longrightarrow> v = u)"
  using role.commits_le [of ops u v] assms foreign_writes [of ops u] by (auto simp: list_all_iff)

definition ex_role :: Role where
  "ex_role = new_role 7 ''acct'' 1 ''Bob'' 100"

theorem role_identity_fixed_witness:
  "\<exists>v. commits role_mutate [(''other'', WriteProfile ''x''), (''acct'', WriteLogin 120)] (Some ex_role) = Some v \<and>
     same_role ex_role v \<and> ro_LastLoginAtUnix v = 120"
proof -
  let ?ops = "[(''other'', WriteProfile ''x''), (''acct'', WriteLogin 120)]"
  have c: "commits role_mutate ?ops (Some ex_role) = Some (login_role 120 ex_role)"
    by (simp add: commit_def owned_mutate_def ex_role_def new_role_def)
  from role_identity_fixed [OF this] have "same_role ex_role (login_role 120 ex_role)" by blast
  with c show ?thesis by (intro exI [of _ "login_role 120 ex_role"]) (simp add: login_role_def)
qed

section \<open>The rollbacks\<close>

text \<open>What the calls into the collaborators leave alone.\<close>

lemma namesU_run:
  assumes "namesU h w = (r, w')"
  shows "uw_Roles w' = uw_Roles w" "uw_Slots w' = uw_Slots w" "h (uw_Names w) = (r, uw_Names w')"
  using assms by (auto simp: namesU_def split: prod.splits)

lemma outsideU_run:
  assumes "outsideU f w = (r, w')"
  shows "uw_Roles w' = uw_Roles w" "uw_Slots w' = uw_Slots w" "uw_Names w' = uw_Names w" "\<exists>x. r = Inr x"
  using assms by (auto simp: outsideU_def split: prod.splits)

lemma tryE_run: "tryE m w = (r, w') \<Longrightarrow> \<exists>q. r = Inr q \<and> m w = (q, w')"
  by (auto simp: tryE_iff)

text \<open>
  The roles and the slots of a creation, each watched for answers that were lost. The mark of a store stays once it
  is made, so that a creation that ends without one had none on the way.
\<close>

abbreviation (input) "watched_stores mr lr ms ls cfg \<equiv>
  vs_watched mr lr (uc_Roles cfg) \<and> vs_watched ms ls (uc_Slots cfg)"

abbreviation (input) "unmarked lr ls w \<equiv> \<not> lr (uw_Roles w) \<and> \<not> ls (uw_Slots w)"

text \<open>A slot that was claimed and a role that was inserted can be taken back exactly.\<close>

definition claimed_slot :: "(string, Slot) contents \<Rightarrow> string \<Rightarrow> Slot versioned \<Rightarrow> (string, Slot) contents \<Rightarrow> bool" where
  "claimed_slot S k slot S' \<longleftrightarrow> S k = None \<and> S' = S(k \<mapsto> slot)"

definition inserted_role :: "(int, Role) contents \<Rightarrow> Role versioned \<Rightarrow> (int, Role) contents \<Rightarrow> bool" where
  "inserted_role R rv R' \<longleftrightarrow> R (ro_PlayerID (ver_Value rv)) = None \<and> R' = R(ro_PlayerID (ver_Value rv) \<mapsto> rv)"

text \<open>The rollbacks always answer, and touch one store each.\<close>

lemma releaseSlot_run:
  assumes "releaseSlot cfg k slot w = (r, w')"
  shows "\<exists>x. r = Inr x" "uw_Roles w' = uw_Roles w" "uw_Names w' = uw_Names w"
    "\<exists>q. slotsDelete cfg k slot w = (q, w')"
  using assms by (auto simp: releaseSlot_def bindE_def deleteE_def retE_def split: prod.splits option.splits)

lemma rollbackRole_run:
  assumes "rollbackRole cfg rv w = (r, w')"
  shows "\<exists>x. r = Inr x" "uw_Slots w' = uw_Slots w" "uw_Names w' = uw_Names w"
    "\<exists>q w1. rolesDelete cfg (ro_PlayerID (ver_Value rv)) rv w = (q, w1) \<and> uw_Roles w' = uw_Roles w1"
  using assms
  by (auto simp: rollbackRole_def bindE_def deleteE_def retE_def thenE_def reportE_def modifyE_def
      split: prod.splits option.splits if_splits)

lemma rollback_run:
  assumes "rollback cfg claim k slot w = (r, w')"
  shows "\<exists>x. r = Inr x" "uw_Roles w' = uw_Roles w"
    "\<exists>c w1 q w2. namesU (nd_Cancel (uc_Names cfg) claim) w = (c, w1) \<and> releaseSlot cfg k slot w1 = (q, w2) \<and>
       uw_Slots w' = uw_Slots w2"
proof -
  obtain c w1 where c: "namesU (nd_Cancel (uc_Names cfg) claim) w = (c, w1)" by force
  obtain q w2 where q: "releaseSlot cfg k slot w1 = (q, w2)" by force
  note rel = releaseSlot_run [OF q]
  have "uw_Slots w' = uw_Slots w2 \<and> uw_Roles w' = uw_Roles w2 \<and> (\<exists>x. r = Inr x)"
    using assms c q rel(1)
    by (auto simp: rollback_def bindE_def tryE_def Let_def thenE_def reportE_def modifyE_def retE_def
        split: if_splits)
  with c q rel(2) namesU_run(1) [OF c] show "\<exists>x. r = Inr x" "uw_Roles w' = uw_Roles w"
    "\<exists>c w1 q w2. namesU (nd_Cancel (uc_Names cfg) claim) w = (c, w1) \<and> releaseSlot cfg k slot w1 = (q, w2) \<and>
       uw_Slots w' = uw_Slots w2" by auto
qed

lemma releaseSlot_undoes:
  assumes "vs_watched ms ls (uc_Slots cfg)" "claimed_slot S k slot (ms (uw_Slots w))"
    and "releaseSlot cfg k slot w = (r, w')" "\<not> ls (uw_Slots w')"
  shows "ms (uw_Slots w') = S"
proof -
  obtain q where d: "slotsDelete cfg k slot w = (q, w')" using releaseSlot_run(4) [OF assms(3)] by blast
  have v: "version_at (ms (uw_Slots w)) k = ver_Version slot"
    using assms(2) by (simp add: claimed_slot_def version_at_def)
  have "ms (uw_Slots w') = (ms (uw_Slots w))(k := None)"
    by (rule watched_delete [OF assms(1) d]) (use v assms(4) in auto)
  then show ?thesis using assms(2) by (auto simp: claimed_slot_def fun_eq_iff)
qed

lemma rollback_undoes:
  assumes "vs_watched ms ls (uc_Slots cfg)" "claimed_slot S k slot (ms (uw_Slots w))"
    and "rollback cfg claim k slot w = (r, w')" "\<not> ls (uw_Slots w')"
  shows "ms (uw_Slots w') = S"
proof -
  from rollback_run(3) [OF assms(3)] obtain c w1 q w2 where c: "namesU (nd_Cancel (uc_Names cfg) claim) w = (c, w1)"
    and q: "releaseSlot cfg k slot w1 = (q, w2)" and w': "uw_Slots w' = uw_Slots w2" by blast
  have "claimed_slot S k slot (ms (uw_Slots w1))" using assms(2) namesU_run(2) [OF c] by simp
  from releaseSlot_undoes [OF assms(1) this q] w' assms(4) show ?thesis by simp
qed

lemma rollbackRole_undoes:
  assumes "vs_watched mr lr (uc_Roles cfg)" "inserted_role R rv (mr (uw_Roles w))"
    and "rollbackRole cfg rv w = (r, w')" "\<not> lr (uw_Roles w')"
  shows "mr (uw_Roles w') = R"
proof -
  let ?p = "ro_PlayerID (ver_Value rv)"
  from rollbackRole_run(4) [OF assms(3)] obtain q w1 where d: "rolesDelete cfg ?p rv w = (q, w1)"
    and w': "uw_Roles w' = uw_Roles w1" by blast
  have v: "version_at (mr (uw_Roles w)) ?p = ver_Version rv"
    using assms(2) by (simp add: inserted_role_def version_at_def)
  have "mr (uw_Roles w1) = (mr (uw_Roles w))(?p := None)"
    by (rule watched_delete [OF assms(1) d]) (use v w' assms(4) in auto)
  then show ?thesis using assms(2) w' by (auto simp: inserted_role_def fun_eq_iff)
qed

text \<open>The marks of both stores, and what else they hold, over the stages.\<close>

lemma names_same [intro]: "steps (same uw_Roles) (namesU h)" "steps (same uw_Slots) (namesU h)"
  by (auto simp: steps_def same_def namesU_def split: prod.splits)

lemma outsideU_same [intro]: "steps (same uw_Roles) (outsideU f)" "steps (same uw_Slots) (outsideU f)"
  by (auto simp: steps_def same_def outsideU_def split: prod.splits)

lemmas create_stages = releaseSlot_def rollback_def rollbackRole_def create_commit_def create_insert_def create_named_def

lemmas stage_splits = option.split sum.split prod.split if_split

lemma slots_same [intro]:
  "steps (same uw_Slots) (rolesCreate cfg p v)" "steps (same uw_Slots) (rolesDelete cfg p rv)"
  "steps (same uw_Slots) (nowE now)" "steps (same uw_Slots) (reportE ev)"
  by (auto intro!: same_intros)

lemma roles_same [intro]:
  "steps (same uw_Roles) (slotsDelete cfg k slot)" "steps (same uw_Roles) (slotsUpdate cfg k evs f)"
  "steps (same uw_Roles) (nowE now)" "steps (same uw_Roles) (reportE ev)"
  by (auto intro!: same_intros)

lemma quiet [intro!]:
  "steps (marked uw_Slots ls) (reportE ev)" "steps (marked uw_Roles lr) (reportE ev)"
  "steps (only_at (\<lambda>w. ms (uw_Slots w)) k) (reportE ev)" "steps (only_at (\<lambda>w. mr (uw_Roles w)) p) (reportE ev)"
  "steps (only_at (\<lambda>w. ms (uw_Slots w)) k) (namesU h)" "steps (only_at (\<lambda>w. mr (uw_Roles w)) p) (namesU h)"
  "steps (only_at (\<lambda>w. ms (uw_Slots w)) k) (nowE now)" "steps (only_at (\<lambda>w. ms (uw_Slots w)) k) (rolesCreate cfg q v)"
  "steps (only_at (\<lambda>w. mr (uw_Roles w)) p) (slotsUpdate cfg j evs f)"
  by (rule same_marked same_only_at, blast)+

lemma rollback_slots_marked:
  assumes "vs_watched ms ls (uc_Slots cfg)"
  shows "steps (marked uw_Slots ls) (releaseSlot cfg k slot)" "steps (marked uw_Slots ls) (rollbackRole cfg rv)"
    "steps (marked uw_Slots ls) (rollback cfg claim k slot)"
  unfolding releaseSlot_def rollback_def rollbackRole_def Let_def
  by (auto intro!: marked.intros marked_delete [OF assms] intro: same_marked split: stage_splits)

lemma rollback_roles_marked:
  assumes "vs_watched mr lr (uc_Roles cfg)"
  shows "steps (marked uw_Roles lr) (releaseSlot cfg k slot)" "steps (marked uw_Roles lr) (rollbackRole cfg rv)"
    "steps (marked uw_Roles lr) (rollback cfg claim k slot)"
  unfolding releaseSlot_def rollback_def rollbackRole_def Let_def
  by (auto intro!: marked.intros marked_delete [OF assms] intro: same_marked split: stage_splits)

section \<open>Creating a role\<close>

lemma slot_filled:
  assumes "vs_watched ms ls (uc_Slots cfg)" "claimed_slot S k slot (ms (uw_Slots w))"
    and "slotsUpdate cfg k (\<lambda>_. []) (fill_slot p) w = (r, w')"
  shows "uw_Roles w' = uw_Roles w \<and> uw_Names w' = uw_Names w \<and>
    ((\<exists>e. r = Inl e) \<and> (ls (uw_Slots w') \<or> claimed_slot S k slot (ms (uw_Slots w'))) \<or>
     (\<exists>x. r = Inr x) \<and> value_at (ms (uw_Slots w')) k = Some ((ver_Value slot)\<lparr>sl_PlayerID := p\<rparr>))"
proof -
  have cur: "value_at (ms (uw_Slots w)) k = Some (ver_Value slot)"
    using assms(2) by (simp add: claimed_slot_def value_at_def)
  have "uw_Roles w' = uw_Roles w" "uw_Names w' = uw_Names w"
    using assms(3)
    by (auto simp: mutateE_def updateE_def bindE_def thenE_def reportsE_def modifyE_def raiseE_def retE_def
        split: sum.splits prod.splits)
  moreover have "(\<exists>e. r = Inl e) \<and> (ls (uw_Slots w') \<or> claimed_slot S k slot (ms (uw_Slots w'))) \<or>
     (\<exists>x. r = Inr x) \<and> value_at (ms (uw_Slots w')) k = Some ((ver_Value slot)\<lparr>sl_PlayerID := p\<rparr>)"
    by (rule watched_mutate [OF assms(1,3)])
      (use assms(2) cur in \<open>auto simp: fill_slot_def\<close>)
  ultimately show ?thesis by blast
qed

text \<open>How a stage of the creation may end, for the contents before the slot was claimed; \<open>ok\<close> says that no answer
  was lost.\<close>

definition create_ends ::
  "bool \<Rightarrow> (int, Role) contents \<Rightarrow> (string, Slot) contents \<Rightarrow> string \<Rightarrow> int \<Rightarrow> string \<Rightarrow> gerr + Role \<Rightarrow>
   (int, Role) contents \<Rightarrow> (string, Slot) contents \<Rightarrow> bool" where
  "create_ends ok R S accountID serverID name r R' S' \<longleftrightarrow>
     (case r of
        Inl e \<Rightarrow> ok \<longrightarrow> R' = R \<and> S' = S
      | Inr role \<Rightarrow>
          R (ro_PlayerID role) = None \<and> value_at R' (ro_PlayerID role) = Some role \<and>
          S (slotKeyFor accountID serverID) = None \<and>
          value_at S' (slotKeyFor accountID serverID) =
            Some \<lparr>sl_AccountID = accountID, sl_ServerID = serverID, sl_PlayerID = ro_PlayerID role\<rparr> \<and>
          ro_AccountID role = accountID \<and> ro_ServerID role = serverID \<and> ro_Name role = TrimSpace name)"

abbreviation (input) "ends mr lr ms ls R S a s n r w' \<equiv>
  create_ends (unmarked lr ls w') R S a s n r (mr (uw_Roles w')) (ms (uw_Slots w'))"

lemma ends_error: "(unmarked lr ls w' \<Longrightarrow> mr (uw_Roles w') = R \<and> ms (uw_Slots w') = S) \<Longrightarrow>
    ends mr lr ms ls R S a s n (Inl e) w'"
  by (auto simp: create_ends_def)

lemma marked_back: "steps (marked rd lost) h \<Longrightarrow> h w = (r, w') \<Longrightarrow> \<not> lost (rd w') \<Longrightarrow> \<not> lost (rd w)"
  by (auto simp: steps_def marked_def)

text \<open>Taking back the role, then the name and the slot.\<close>

lemma undo_all:
  assumes at: "vs_watched mr lr (uc_Roles cfg)" "vs_watched ms ls (uc_Slots cfg)"
    and slot: "claimed_slot S k slot (ms (uw_Slots w))" and role: "inserted_role R rv (mr (uw_Roles w))"
    and q: "rollbackRole cfg rv w = (q, w2)" and u: "rollback cfg claim k slot w2 = (u, w3)"
    and ok: "unmarked lr ls w3"
  shows "mr (uw_Roles w3) = R \<and> ms (uw_Slots w3) = S"
proof -
  have "\<not> lr (uw_Roles w2)" using ok rollback_run(2) [OF u] by simp
  with rollbackRole_undoes [OF at(1) role q] have "mr (uw_Roles w2) = R" by simp
  moreover have "claimed_slot S k slot (ms (uw_Slots w2))" using slot rollbackRole_run(2) [OF q] by simp
  with rollback_undoes [OF at(2) _ u] ok have "ms (uw_Slots w3) = S" by simp
  ultimately show ?thesis using rollback_run(2) [OF u] by simp
qed

text \<open>Taking back the role and the slot, when the name was committed and is released.\<close>

lemma undo_filled:
  assumes at: "vs_watched mr lr (uc_Roles cfg)" "vs_watched ms ls (uc_Slots cfg)"
    and slot: "ls (uw_Slots w) \<or> claimed_slot S k slot (ms (uw_Slots w))" and role: "inserted_role R rv (mr (uw_Roles w))"
    and q: "rollbackRole cfg rv w = (q, w2)" and u: "releaseSlot cfg k slot w2 = (u, w3)"
    and ok: "unmarked lr ls w3"
  shows "mr (uw_Roles w3) = R \<and> ms (uw_Slots w3) = S"
proof -
  have "\<not> lr (uw_Roles w2)" using ok releaseSlot_run(2) [OF u] by simp
  with rollbackRole_undoes [OF at(1) role q] have R: "mr (uw_Roles w2) = R" by simp
  have "\<not> ls (uw_Slots w2)" by (rule marked_back [OF rollback_slots_marked(1) [OF at(2)] u]) (use ok in simp)
  then have "claimed_slot S k slot (ms (uw_Slots w2))" using slot rollbackRole_run(2) [OF q] by simp
  with releaseSlot_undoes [OF at(2) _ u] ok have "ms (uw_Slots w3) = S" by simp
  with R show ?thesis using releaseSlot_run(2) [OF u] by simp
qed

lemma create_commit_ends:
  assumes at: "vs_watched mr lr (uc_Roles cfg)" "vs_watched ms ls (uc_Slots cfg)"
    and k: "k = slotKeyFor accountID serverID"
    and slot: "claimed_slot S k slot (ms (uw_Slots w))"
      "ver_Value slot = \<lparr>sl_AccountID = accountID, sl_ServerID = serverID, sl_PlayerID = 0\<rparr>"
    and role: "inserted_role R rv (mr (uw_Roles w))" "ver_Value rv = role"
      "role = new_role p accountID serverID name t"
    and run: "create_commit cfg accountID claim slot rv role w = (r, w')"
  shows "ends mr lr ms ls R S accountID serverID name r w'"
proof -
  have key: "slotKeyFor accountID (ro_ServerID role) = k" by (simp add: k role(3) new_role_def)
  obtain c w1 where c: "namesU (nd_Commit (uc_Names cfg) claim) w = (c, w1)" by force
  note n1 = namesU_run [OF c]
  have role1: "inserted_role R rv (mr (uw_Roles w1))" and slot1: "claimed_slot S k slot (ms (uw_Slots w1))"
    using role(1) slot(1) n1 by simp_all
  show ?thesis
  proof (cases "error_of c")
    case (Some err)
    obtain q w2 where q: "rollbackRole cfg rv w1 = (q, w2)" by force
    obtain u w3 where u: "rollback cfg claim k slot w2 = (u, w3)" by force
    have w': "w' = w3" "\<exists>e. r = Inl e"
      using run c q u rollbackRole_run(1) [OF q] rollback_run(1) [OF u] Some key
      by (auto simp: create_commit_def bindE_def tryE_def Let_def raiseE_def)
    with undo_all [OF at slot1 role1 q u] show ?thesis by (auto intro!: ends_error)
  next
    case None
    obtain f w2 where f: "slotsUpdate cfg k (\<lambda>_. []) (fill_slot (ro_PlayerID role)) w1 = (f, w2)" by force
    note fill = slot_filled [OF at(2) slot1 f]
    show ?thesis
    proof (cases f)
      case (Inl err)
      obtain d w3 where d: "namesU (nd_Release (uc_Names cfg) (ro_Name role) accountID) w2 = (d, w3)" by force
      note n3 = namesU_run [OF d]
      obtain q w4 where q: "rollbackRole cfg rv w3 = (q, w4)" by force
      obtain u w5 where u: "releaseSlot cfg k slot w4 = (u, w5)" by force
      have s3: "ls (uw_Slots w3) \<or> claimed_slot S k slot (ms (uw_Slots w3))" using fill Inl n3(2) by auto
      have r3: "inserted_role R rv (mr (uw_Roles w3))" using role1 n3(1) fill by simp
      have "uw_Roles w' = uw_Roles w5 \<and> uw_Slots w' = uw_Slots w5 \<and> (\<exists>e. r = Inl e)"
        using run c f d q u rollbackRole_run(1) [OF q] releaseSlot_run(1) [OF u] None Inl key
        by (auto simp: create_commit_def bindE_def tryE_def Let_def raiseE_def thenE_def reportE_def modifyE_def
            retE_def error_of_def split: if_splits)
      with undo_filled [OF at s3 r3 q u] show ?thesis by (auto intro!: ends_error)
    next
      case (Inr x)
      then have v: "value_at (ms (uw_Slots w2)) k = Some ((ver_Value slot)\<lparr>sl_PlayerID := ro_PlayerID role\<rparr>)"
        "uw_Roles w2 = uw_Roles w1" using fill by auto
      have "uw_Roles w' = uw_Roles w2 \<and> uw_Slots w' = uw_Slots w2 \<and> r = Inr role"
        using run c f None Inr key
        by (auto simp: create_commit_def bindE_def tryE_def Let_def thenE_def reportE_def modifyE_def
            retE_def error_of_def)
      with v n1 role slot k show ?thesis
        by (auto simp: create_ends_def inserted_role_def claimed_slot_def new_role_def value_at_def)
    qed
  qed
qed

text \<open>Undoing the two claims ends a stage that has not inserted a role.\<close>

lemma undo_ends:
  assumes "vs_watched ms ls (uc_Slots cfg)" "claimed_slot S k slot (ms (uw_Slots w))"
    and "lr (uw_Roles w) \<or> R = mr (uw_Roles w)"
    and "bindE (rollback cfg claim k slot) (\<lambda>undone. raiseE (join_err err undone)) w = (r, w')"
  shows "ends mr lr ms ls R S accountID serverID name r w'"
proof -
  obtain u w1 where u: "rollback cfg claim k slot w = (u, w1)" by force
  have w': "w' = w1" "\<exists>e. r = Inl e" using assms(4) u rollback_run(1) [OF u] by (auto simp: bindE_def raiseE_def)
  with rollback_undoes [OF assms(1,2) u] rollback_run(2) [OF u] assms(3) show ?thesis
    by (auto intro!: ends_error)
qed

lemma create_insert_ends:
  assumes at: "vs_watched mr lr (uc_Roles cfg)" "vs_watched ms ls (uc_Slots cfg)"
    and slot: "claimed_slot S (slotKeyFor accountID serverID) slot (ms (uw_Slots w))"
      "ver_Value slot = \<lparr>sl_AccountID = accountID, sl_ServerID = serverID, sl_PlayerID = 0\<rparr>"
    and R: "R = mr (uw_Roles w)"
    and run: "create_insert cfg accountID serverID name claim slot w = (r, w')"
  shows "ends mr lr ms ls R S accountID serverID name r w'"
proof -
  let ?k = "slotKeyFor accountID serverID"
  let ?undo = "\<lambda>err. bindE (rollback cfg claim ?k slot) (\<lambda>undone. raiseE (join_err err undone))"
  obtain o1 w1 where o1: "outsideU (uc_Allocate cfg serverID) w = (o1, w1)" by force
  note n1 = outsideU_run [OF o1]
  have s1: "claimed_slot S ?k slot (ms (uw_Slots w1))" "R = mr (uw_Roles w1)" using slot n1 R by simp_all
  obtain allocated where al: "o1 = Inr allocated" using n1(4) by auto
  show ?thesis
  proof (cases "\<exists>err. (allocated = Inl err \<or> allocated = Inr 0)")
    case True
    then obtain err where "?undo err w1 = (r, w')"
      using run o1 al by (auto simp: create_insert_def bindE_def Let_def)
    with s1(2) show ?thesis by (intro undo_ends [OF at(2) s1(1), where mr = mr]) simp_all
  next
    case False
    then obtain p where p: "allocated = Inr p" "p \<noteq> 0" by (cases allocated) auto
    let ?now = "uc_Now cfg (env_ticks w1)" and ?w2 = "w1\<lparr>env_ticks := Suc (env_ticks w1)\<rparr>"
    let ?role = "new_role p accountID serverID name (Unix ?now)"
    obtain c w3 where c: "rolesCreate cfg p ?role ?w2 = (c, w3)" by force
    have slots3: "uw_Slots w3 = uw_Slots w1" using c by (auto simp: createE_def split: prod.splits)
    then have s3: "claimed_slot S ?k slot (ms (uw_Slots w3))" using s1 by simp
    have rest: "(case c of Inl err \<Rightarrow> ?undo err
        | Inr None \<Rightarrow> thenE (reportE (Conflict ''create_role'')) (?undo [ErrAcctConflict])
        | Inr (Some rv) \<Rightarrow> create_commit cfg accountID claim slot rv ?role) w3 = (r, w')"
    proof -
      have "bindE (outsideU (uc_Allocate cfg serverID)) f w = f allocated w1" for f :: "_ \<Rightarrow> (_, Role) handler"
        by (rule bindE_Inr) (simp add: o1 al)
      moreover have "bindE (tryE (rolesCreate cfg p ?role)) f ?w2 = f c w3" for f :: "_ \<Rightarrow> (_, Role) handler"
        by (rule bindE_Inr) (simp add: tryE_def c)
      ultimately show ?thesis using run p by (simp add: create_insert_def Let_def)
    qed
    from at(1) c show ?thesis
    proof (rule watched_create)
      fix e assume "c = Inl e" "lr (uw_Roles w3) \<or> mr (uw_Roles w3) = mr (uw_Roles ?w2)"
      with rest s1 show ?thesis by (intro undo_ends [OF at(2) s3, where mr = mr]) auto
    next
      assume "c = Inr None" "mr (uw_Roles w3) = mr (uw_Roles ?w2)"
      with rest s1 s3 show ?thesis
        by (intro undo_ends [OF at(2), where mr = mr and w = "w3\<lparr>env_events := env_events w3 @ [Conflict ''create_role'']\<rparr>"]) simp_all
    next
      fix rv assume c: "c = Inr (Some rv)" "mr (uw_Roles ?w2) p = None" "ver_Value rv = ?role"
        "mr (uw_Roles w3) = (mr (uw_Roles ?w2))(p \<mapsto> rv)"
      have "inserted_role R rv (mr (uw_Roles w3))"
        using c s1 by (simp add: inserted_role_def new_role_def)
      from create_commit_ends [OF at refl s3 slot(2) this c(3) refl] rest c(1) show ?thesis by simp
    qed simp
  qed
qed

lemma create_named_ends:
  assumes at: "vs_watched mr lr (uc_Roles cfg)" "vs_watched ms ls (uc_Slots cfg)"
    and slot: "claimed_slot S (slotKeyFor accountID serverID) slot (ms (uw_Slots w))"
      "ver_Value slot = \<lparr>sl_AccountID = accountID, sl_ServerID = serverID, sl_PlayerID = 0\<rparr>"
    and R: "R = mr (uw_Roles w)"
    and run: "create_named cfg accountID serverID name slot w = (r, w')"
  shows "ends mr lr ms ls R S accountID serverID name r w'"
proof -
  let ?k = "slotKeyFor accountID serverID"
  obtain c w1 where c: "namesU (nd_Reserve (uc_Names cfg) name accountID (uc_ClaimTTL cfg)) w = (c, w1)" by force
  note n1 = namesU_run [OF c]
  have s1: "claimed_slot S ?k slot (ms (uw_Slots w1))" "R = mr (uw_Roles w1)" using slot n1 R by simp_all
  show ?thesis
  proof (cases c)
    case (Inl err)
    obtain u w2 where u: "releaseSlot cfg ?k slot w1 = (u, w2)" by force
    have "uw_Roles w' = uw_Roles w2 \<and> uw_Slots w' = uw_Slots w2 \<and> (\<exists>e. r = Inl e)"
      using run c u releaseSlot_run(1) [OF u] Inl
      by (auto simp: create_named_def bindE_def tryE_def Let_def thenE_def reportE_def modifyE_def raiseE_def
          split: if_splits)
    with releaseSlot_undoes [OF at(2) s1(1) u] releaseSlot_run(2) [OF u] s1(2) show ?thesis
      by (auto intro!: ends_error)
  next
    case (Inr claim)
    with run c have "create_insert cfg accountID serverID name claim slot w1 = (r, w')"
      by (simp add: create_named_def bindE_def tryE_def)
    then show ?thesis by (rule create_insert_ends [OF at s1(1) slot(2) s1(2)])
  qed
qed

lemma create_claimed_ends:
  assumes at: "vs_watched mr lr (uc_Roles cfg)" "vs_watched ms ls (uc_Slots cfg)"
    and run: "create_claimed cfg accountID serverID name w = (r, w')"
  shows "ends mr lr ms ls (mr (uw_Roles w)) (ms (uw_Slots w)) accountID serverID name r w'"
proof -
  let ?k = "slotKeyFor accountID serverID"
  let ?v = "\<lparr>sl_AccountID = accountID, sl_ServerID = serverID, sl_PlayerID = 0\<rparr>"
  obtain c w1 where c: "slotsCreate cfg ?k ?v w = (c, w1)" by force
  have roles: "uw_Roles w1 = uw_Roles w" using c by (auto simp: createE_def split: prod.splits)
  have rest: "(case c of Inl e \<Rightarrow> raiseE e
      | Inr None \<Rightarrow> thenE (reportE (Refused ''create_role'' ''role_limit'')) (raiseE [ErrRoleLimit])
      | Inr (Some slot) \<Rightarrow> create_named cfg accountID serverID name slot) w1 = (r, w')"
    using run c by (cases c) (auto simp: create_claimed_def bindE_def raiseE_def split: option.splits)
  from at(2) c show ?thesis
  proof (rule watched_create)
    fix slot assume s: "c = Inr (Some slot)" "ms (uw_Slots w) ?k = None" "ver_Value slot = ?v"
      "ms (uw_Slots w1) = (ms (uw_Slots w))(?k \<mapsto> slot)"
    then have "claimed_slot (ms (uw_Slots w)) ?k slot (ms (uw_Slots w1))" by (simp add: claimed_slot_def)
    from create_named_ends [OF at this s(3), of "mr (uw_Roles w)" name r w'] rest s(1) roles show ?thesis by simp
  qed (use rest roles in \<open>auto simp: create_ends_def\<close>)
qed

text \<open>A creation ends before it claims the slot, with an error, or with what follows the claim.\<close>

lemma get_keeps:
  assumes "getE rd wr st k w = (r, w')" "\<And>h w. g (wr h w) = g w"
  shows "g w' = g w"
  using assms by (auto simp: getE_def split: prod.splits)

lemma CreateRole_stages:
  assumes "CreateRole cfg accountID serverID name w = (r, w')"
  shows "(\<exists>e. r = Inl e) \<and> uw_Roles w' = uw_Roles w \<and> uw_Slots w' = uw_Slots w \<or>
    (\<exists>w1. create_claimed cfg accountID serverID name w1 = (r, w') \<and> uw_Roles w1 = uw_Roles w \<and>
       uw_Slots w1 = uw_Slots w \<and> uw_Names w1 = uw_Names w)"
  using assms unfolding CreateRole_def
  by (auto simp: bindE_def raiseE_def outsideU_def getE_def thenE_def reportE_def modifyE_def
      split: if_splits prod.splits sum.splits option.splits)

text \<open>
  Whatever is lost, a creation works on one slot and on one role: other entries, and those that were there before,
  stay as they were.
\<close>

definition create_frame ::
  "(int, Role) contents \<Rightarrow> (string, Slot) contents \<Rightarrow> string \<Rightarrow>
   (int, Role) contents \<Rightarrow> (string, Slot) contents \<Rightarrow> bool" where
  "create_frame R S k R' S' \<longleftrightarrow>
     (\<exists>p. \<forall>q. q \<noteq> p \<or> R q \<noteq> None \<longrightarrow> R' q = R q) \<and> (\<forall>j. j \<noteq> k \<or> S j \<noteq> None \<longrightarrow> S' j = S j)"

lemma create_frame_refl [simp]: "create_frame R S k R S"
  by (simp add: create_frame_def)

lemma slots_only_at:
  assumes "vs_contract ms (=) (uc_Slots cfg)"
  shows "steps (only_at (\<lambda>w. ms (uw_Slots w)) k) (slotsDelete cfg k slot)"
    "steps (only_at (\<lambda>w. ms (uw_Slots w)) k) (slotsUpdate cfg k evs f)"
  by (rule only_at_delete [OF assms] only_at_mutate [OF assms]; simp)+

lemma rollback_slots_only_at:
  assumes "vs_contract ms (=) (uc_Slots cfg)"
  shows "steps (only_at (\<lambda>w. ms (uw_Slots w)) k) (releaseSlot cfg k slot)"
    "steps (only_at (\<lambda>w. ms (uw_Slots w)) k) (rollbackRole cfg rv)"
    "steps (only_at (\<lambda>w. ms (uw_Slots w)) k) (rollback cfg claim k slot)"
  unfolding releaseSlot_def rollback_def rollbackRole_def Let_def
  by (auto intro!: only_at.intros slots_only_at [OF assms] intro: same_only_at split: stage_splits)

lemma create_slots_only_at:
  assumes "vs_contract ms (=) (uc_Slots cfg)"
  shows "steps (only_at (\<lambda>w. ms (uw_Slots w)) (slotKeyFor a (ro_ServerID role))) (create_commit cfg a claim slot rv role)"
    "steps (only_at (\<lambda>w. ms (uw_Slots w)) (slotKeyFor a s)) (create_insert cfg a s name claim slot)"
    "steps (only_at (\<lambda>w. ms (uw_Slots w)) (slotKeyFor a s)) (create_named cfg a s name slot)"
proof -
  note intros = only_at.intros slots_only_at [OF assms] rollback_slots_only_at [OF assms]
  show commit: "steps (only_at (\<lambda>w. ms (uw_Slots w)) (slotKeyFor a (ro_ServerID role)))
    (create_commit cfg a claim slot rv role)" for claim slot rv role
    unfolding create_commit_def Let_def by (auto intro!: intros intro: same_only_at split: stage_splits)
  have commit': "steps (only_at (\<lambda>w. ms (uw_Slots w)) (slotKeyFor a s))
    (create_commit cfg a claim slot rv (new_role p a s name t))" for claim slot rv p t
    using commit [where role = "new_role p a s name t"] by (simp add: new_role_def)
  show insert: "steps (only_at (\<lambda>w. ms (uw_Slots w)) (slotKeyFor a s)) (create_insert cfg a s name claim slot)" for claim
    unfolding create_insert_def Let_def
    by (auto intro!: intros commit' intro: same_only_at split: stage_splits)
  show "steps (only_at (\<lambda>w. ms (uw_Slots w)) (slotKeyFor a s)) (create_named cfg a s name slot)"
    unfolding create_named_def Let_def
    by (auto intro!: intros insert intro: same_only_at split: stage_splits)
qed

lemma create_commit_roles_only_at:
  assumes "vs_contract mr (=) (uc_Roles cfg)"
  shows "steps (only_at (\<lambda>w. mr (uw_Roles w)) (ro_PlayerID (ver_Value rv))) (create_commit cfg a claim slot rv role)"
proof -
  have undo: "steps (only_at (\<lambda>w. mr (uw_Roles w)) (ro_PlayerID (ver_Value rv))) (rollbackRole cfg rv)"
    unfolding rollbackRole_def Let_def
    by (auto intro!: only_at.intros only_at_delete [OF assms] intro: same_only_at split: stage_splits)
  have slot: "steps (only_at (\<lambda>w. mr (uw_Roles w)) p) (releaseSlot cfg k slot)"
    "steps (only_at (\<lambda>w. mr (uw_Roles w)) p) (rollback cfg claim k slot)" for k p
    by (rule same_only_at; auto simp: steps_def same_def dest: releaseSlot_run(2) rollback_run(2))+
  show ?thesis unfolding create_commit_def Let_def
    by (auto intro!: only_at.intros undo slot split: stage_splits)
qed

text \<open>The roles of a creation, from the id it is given on.\<close>

definition roles_framed :: "('w \<Rightarrow> (int, Role) contents) \<Rightarrow> 'w \<Rightarrow> 'w \<Rightarrow> bool" where
  "roles_framed c w w' \<longleftrightarrow> (\<exists>p. \<forall>q. q \<noteq> p \<or> c w q \<noteq> None \<longrightarrow> c w' q = c w q)"

lemma create_insert_framed:
  assumes st: "vs_contract mr (=) (uc_Roles cfg)"
    and run: "create_insert cfg accountID serverID name claim slot w = (r, w')"
  shows "roles_framed (\<lambda>w. mr (uw_Roles w)) w w'"
proof -
  let ?k = "slotKeyFor accountID serverID"
  let ?undo = "\<lambda>err. bindE (rollback cfg claim ?k slot) (\<lambda>undone. raiseE (join_err err undone))"
  have undo: "uw_Roles v' = uw_Roles v" if "?undo err v = (r, v')" for err v v' and r :: "gerr + Role"
  proof -
    obtain u v1 where u: "rollback cfg claim ?k slot v = (u, v1)" by force
    with that rollback_run(1) [OF u] have "v' = v1" by (auto simp: bindE_def raiseE_def)
    with rollback_run(2) [OF u] show ?thesis by simp
  qed
  obtain o1 w1 where o1: "outsideU (uc_Allocate cfg serverID) w = (o1, w1)" by force
  note n1 = outsideU_run [OF o1]
  obtain allocated where al: "o1 = Inr allocated" using n1(4) by auto
  show ?thesis
  proof (cases "\<exists>err. (allocated = Inl err \<or> allocated = Inr 0)")
    case True
    then obtain err where "?undo err w1 = (r, w')"
      using run o1 al by (auto simp: create_insert_def bindE_def Let_def)
    with undo n1 show ?thesis by (simp add: roles_framed_def)
  next
    case False
    then obtain p where p: "allocated = Inr p" "p \<noteq> 0" by (cases allocated) auto
    let ?w2 = "w1\<lparr>env_ticks := Suc (env_ticks w1)\<rparr>"
    let ?role = "new_role p accountID serverID name (Unix (uc_Now cfg (env_ticks w1)))"
    obtain c w3 where c: "rolesCreate cfg p ?role ?w2 = (c, w3)" by force
    have rest: "(case c of Inl err \<Rightarrow> ?undo err
        | Inr None \<Rightarrow> thenE (reportE (Conflict ''create_role'')) (?undo [ErrAcctConflict])
        | Inr (Some rv) \<Rightarrow> create_commit cfg accountID claim slot rv ?role) w3 = (r, w')"
    proof -
      have "bindE (outsideU (uc_Allocate cfg serverID)) f w = f allocated w1" for f :: "_ \<Rightarrow> (_, Role) handler"
        by (rule bindE_Inr) (simp add: o1 al)
      moreover have "bindE (tryE (rolesCreate cfg p ?role)) f ?w2 = f c w3" for f :: "_ \<Rightarrow> (_, Role) handler"
        by (rule bindE_Inr) (simp add: tryE_def c)
      ultimately show ?thesis using run p by (simp add: create_insert_def Let_def)
    qed
    have made: "(\<exists>rv. c = Inr (Some rv) \<and> ver_Value rv = ?role \<and> mr (uw_Roles w) p = None \<or> c = Inr None \<or> (\<exists>e. c = Inl e))
        \<and> (\<forall>q. q \<noteq> p \<or> mr (uw_Roles w) q \<noteq> None \<longrightarrow> mr (uw_Roles w3) q = mr (uw_Roles w) q)"
      using st c n1(1) by (cases rule: createE_outcomes) (auto simp: written_def)
    show ?thesis
    proof (cases "\<exists>rv. c = Inr (Some rv)")
      case True
      then obtain rv where rv: "c = Inr (Some rv)" by blast
      with made have at: "ver_Value rv = ?role" "mr (uw_Roles w) p = None" by auto
      from rest rv have "only_at (\<lambda>w. mr (uw_Roles w)) (ro_PlayerID (ver_Value rv)) w3 w'"
        by (intro stepsD [OF create_commit_roles_only_at [OF st]]) simp
      with made at show ?thesis
        unfolding roles_framed_def only_at_def by (intro exI [of _ p]) (simp add: new_role_def)
    next
      case False
      then have "uw_Roles w' = uw_Roles w3"
        using rest by (auto simp: thenE_def reportE_def modifyE_def bindE_Inr dest: undo split: sum.splits option.splits)
      with made show ?thesis unfolding roles_framed_def by (intro exI [of _ p]) simp
    qed
  qed
qed

lemma create_claimed_framed:
  assumes at: "vs_contract mr (=) (uc_Roles cfg)" "vs_contract ms (=) (uc_Slots cfg)"
    and run: "create_claimed cfg accountID serverID name w = (r, w')"
  shows "create_frame (mr (uw_Roles w)) (ms (uw_Slots w)) (slotKeyFor accountID serverID)
    (mr (uw_Roles w')) (ms (uw_Slots w'))"
proof -
  let ?k = "slotKeyFor accountID serverID"
  let ?v = "\<lparr>sl_AccountID = accountID, sl_ServerID = serverID, sl_PlayerID = 0\<rparr>"
  obtain c w1 where c: "slotsCreate cfg ?k ?v w = (c, w1)" by force
  have roles: "uw_Roles w1 = uw_Roles w" using c by (auto simp: createE_def split: prod.splits)
  have made: "(\<forall>j. j \<noteq> ?k \<longrightarrow> ms (uw_Slots w1) j = ms (uw_Slots w) j) \<and>
      (ms (uw_Slots w) ?k \<noteq> None \<longrightarrow> ms (uw_Slots w1) = ms (uw_Slots w) \<and> (\<forall>slot. c \<noteq> Inr (Some slot)))"
    using at(2) c by (cases rule: createE_outcomes) (auto simp: written_def)
  show ?thesis
  proof (cases "\<exists>slot. c = Inr (Some slot)")
    case True
    then obtain slot where named: "create_named cfg accountID serverID name slot w1 = (r, w')"
      using run c by (auto simp: create_claimed_def bindE_def)
    from stepsD [OF create_slots_only_at(3) [OF at(2)] named]
    have slots: "\<forall>j. j \<noteq> ?k \<longrightarrow> ms (uw_Slots w') j = ms (uw_Slots w1) j" by (simp add: only_at_def)
    obtain d w2 where d: "namesU (nd_Reserve (uc_Names cfg) name accountID (uc_ClaimTTL cfg)) w1 = (d, w2)" by force
    have "roles_framed (\<lambda>w. mr (uw_Roles w)) w2 w'"
    proof (cases d)
      case (Inr claim)
      with named d have "create_insert cfg accountID serverID name claim slot w2 = (r, w')"
        by (simp add: create_named_def bindE_def tryE_def)
      from create_insert_framed [OF at(1) this] show ?thesis .
    next
      case (Inl err)
      obtain u w3 where u: "releaseSlot cfg ?k slot w2 = (u, w3)" by force
      have "uw_Roles w' = uw_Roles w3"
        using named d u releaseSlot_run(1) [OF u] Inl
        by (auto simp: create_named_def bindE_def tryE_def Let_def thenE_def reportE_def modifyE_def raiseE_def
            split: if_splits)
      with releaseSlot_run(2) [OF u] show ?thesis by (simp add: roles_framed_def)
    qed
    with slots made True roles namesU_run(1) [OF d] show ?thesis
      unfolding create_frame_def roles_framed_def by (intro conjI) auto
  next
    case False
    then have "uw_Roles w' = uw_Roles w1 \<and> uw_Slots w' = uw_Slots w1"
      using run c by (auto simp: create_claimed_def bindE_def raiseE_def thenE_def reportE_def modifyE_def
          split: sum.splits option.splits)
    with made roles show ?thesis unfolding create_frame_def by auto
  qed
qed

text \<open>C8: A role creation that runs alone is all or nothing as far as the stores let it. On success the role is
  stored under an id no role had, and the account's slot on that server, free before, names it. When it
  fails at any point (the slot, the name, the allocator, an id already in use, the commit of the name,
  the final slot write), the roles and the slots are exactly as they were, unless an answer was lost: a
  write of the role store or of the slot store took effect behind an error, or one of the compensating deletes
  was refused. Even then no role and no slot that existed before is touched, and at most that one slot and one new role are.
  The stores are any that keep the store contract, each watched by an observer of the lost answers.\<close>

theorem create_role_all_or_nothing:
  assumes "vs_contract mr (=) sr" "vs_contract ms (=) ss"
    and "uc_Roles cfg = watched mr sr" "uc_Slots cfg = watched ms ss"
    and "CreateRole cfg accountID serverID name w = (r, w')"
  shows "create_ends (\<not> snd (uw_Roles w') \<and> \<not> snd (uw_Slots w'))
           (mr (fst (uw_Roles w))) (ms (fst (uw_Slots w))) accountID serverID name r
           (mr (fst (uw_Roles w'))) (ms (fst (uw_Slots w'))) \<and>
         create_frame (mr (fst (uw_Roles w))) (ms (fst (uw_Slots w))) (slotKeyFor accountID serverID)
           (mr (fst (uw_Roles w'))) (ms (fst (uw_Slots w')))"
  using CreateRole_stages [OF assms(5)]
proof
  assume "(\<exists>e. r = Inl e) \<and> uw_Roles w' = uw_Roles w \<and> uw_Slots w' = uw_Slots w"
  then show ?thesis by (auto simp: create_ends_def)
next
  assume "\<exists>w1. create_claimed cfg accountID serverID name w1 = (r, w') \<and> uw_Roles w1 = uw_Roles w \<and>
       uw_Slots w1 = uw_Slots w \<and> uw_Names w1 = uw_Names w"
  then obtain w1 where w1: "create_claimed cfg accountID serverID name w1 = (r, w')" "uw_Roles w1 = uw_Roles w"
    "uw_Slots w1 = uw_Slots w" by blast
  have at: "vs_watched (\<lambda>x. mr (fst x)) snd (uc_Roles cfg)" "vs_watched (\<lambda>x. ms (fst x)) snd (uc_Slots cfg)"
    using watched_store [OF assms(1)] watched_store [OF assms(2)] assms(3,4) by simp_all
  from create_claimed_ends [OF at w1(1)]
    create_claimed_framed [OF at(1)[THEN vs_watched_contract] at(2)[THEN vs_watched_contract] w1(1)] w1(2,3)
  show ?thesis by simp
qed

text \<open>A deployment on stores in memory: two open servers, one account, the name directory of the development.\<close>

type_synonym ('r, 'l) ex_uworld =
  "((string, Account) mem, 'r, (int, GameServer) mem, 'l, (string, Entry) mem dworld, unit) uworld"

type_synonym ('r, 'l) ex_uconfig =
  "((string, Account) mem, 'r, (int, GameServer) mem, 'l, (string, Entry) mem dworld, unit) AccountConfig"

definition ex_account_on ::
  "('r, int, Role) vstore \<Rightarrow> ('l, string, Slot) vstore \<Rightarrow> gerr + int \<Rightarrow> ('r, 'l) ex_uconfig" where
  "ex_account_on roles slots allocated =
     \<lparr>uc_Accounts = safe_store, uc_Roles = roles, uc_Servers = safe_store, uc_Slots = slots,
      uc_Names = directory_names ex_directory, uc_Verify = (\<lambda>i x. (Inl [], x)),
      uc_Allocate = (\<lambda>s x. (allocated, x)), uc_NameRules = (\<lambda>n x. (None, x)), uc_SessionSecret = ''s'',
      uc_SessionTTL = Minute, uc_RolesPerServer = 1, uc_ClaimTTL = 30 * Second, uc_Now = (\<lambda>n. 100 * Second),
      uc_ToLower = (\<lambda>s. s), uc_SignSessionToken = (\<lambda>p s d t. Inr ''tok''),
      uc_VerifySessionToken = (\<lambda>t s p n. None)\<rparr>"

definition ex_account ::
  "((string, Slot) mem, string, Slot) vstore \<Rightarrow> gerr + int \<Rightarrow> ((int, Role) mem, (string, Slot) mem) ex_uconfig" where
  "ex_account = ex_account_on safe_store"

definition ex_server :: "int \<Rightarrow> GameServer" where
  "ex_server n = \<lparr>gs_ID = n, gs_Name = ''s'', gs_Status = ServerOpen, gs_Region = [], gs_UpdatedAtUnix = 0\<rparr>"

definition ex_owner :: Account where
  "ex_owner = \<lparr>at_ID = ''acct'', at_Channel = ''c'', at_OpenID = ''o'', at_Banned = False, at_CreatedAtUnix = 0,
     at_LastLoginAtUnix = 0\<rparr>"

definition ex_uworld_on :: "'r \<Rightarrow> 'l \<Rightarrow> Entry option \<Rightarrow> ('r, 'l) ex_uworld" where
  "ex_uworld_on roles slots name =
     \<lparr>env_ticks = 0, env_events = [], uw_Accounts = mem_of [(''acct'', ex_owner)], uw_Roles = roles,
      uw_Servers = mem_of [(1, ex_server 1), (2, ex_server 2)],
      uw_Slots = slots, uw_Names = ex_world_with name 0 0 [], uw_Outside = ()\<rparr>"

definition ex_uworld ::
  "(int \<times> Role) list \<Rightarrow> (string \<times> Slot) list \<Rightarrow> bool list \<Rightarrow> Entry option \<Rightarrow>
   ((int, Role) mem, (string, Slot) mem) ex_uworld" where
  "ex_uworld roles slots faults name = ex_uworld_on (mem_of roles) ((mem_of slots)\<lparr>mem_faults := faults\<rparr>) name"

lemma ex_numeral_strings: "FormatInt 1 = ''1''" "FormatInt 2 = ''2''"
  by code_simp+

lemmas ex_create_stages = CreateRole_def create_claimed_def create_named_def create_insert_def create_commit_def
  rollback_def rollbackRole_def releaseSlot_def slotKeyFor_def new_role_def fill_slot_def join_def join_err_def
  error_of_def

lemmas ex_name_stages = Reserve_def Commit_def Cancel_def Release_def cancel_found_def release_found_def NormalizeLower_def reserve_mutate_def
  reserve_claim_def held_def new_entry_def commit_mutate_def commit_next_def entry_Expired_def

lemmas ex_create_run = ex_create_stages ex_name_stages handler_simps mem_eval safe_store_def Let_def ex_account_def ex_account_on_def
  ex_uworld_def ex_uworld_on_def watched_def
  ex_world_with_def ex_directory_def directory_names_def ex_owner_def ex_server_def ex_strings ex_numeral_strings
  acceptsNewRoles_def seen_def result_of_def Add_def Unix_def Second_def

text \<open>The name is committed and the last write, the slot's, is refused by its store: the role, the name and the slot are
  taken back, no answer is lost, and the stores are as before.\<close>

theorem create_role_all_or_nothing_witness:
  "\<exists>r w'. CreateRole (ex_account_on (watched mem_map mem_store) (watched mem_map mem_store) (Inr 8)) ''acct'' 2 ''bob''
       (ex_uworld_on (mem_of [], False) ((mem_of [])\<lparr>mem_faults := [False, True]\<rparr>, False) None) = (r, w') \<and>
     r = Inl [Foreign ''store unavailable''] \<and> mem_map (fst (uw_Roles w')) = Map.empty \<and>
     mem_map (fst (uw_Slots w')) = Map.empty"
proof -
  let ?cfg = "ex_account_on (watched mem_map mem_store) (watched mem_map mem_store) (Inr 8)"
  let ?w = "ex_uworld_on (mem_of [], False) ((mem_of [])\<lparr>mem_faults := [False, True]\<rparr>, False) None"
  obtain r w' where run: "CreateRole ?cfg ''acct'' 2 ''bob'' ?w = (r, w')" by force
  have "case CreateRole ?cfg ''acct'' 2 ''bob'' ?w of (r, w') \<Rightarrow>
      r = Inl [Foreign ''store unavailable''] \<and> \<not> snd (uw_Roles w') \<and> \<not> snd (uw_Slots w')"
    by (simp add: ex_create_run Is_def)
  then have r: "r = Inl [Foreign ''store unavailable'']" "\<not> snd (uw_Roles w')" "\<not> snd (uw_Slots w')"
    using run by simp_all
  have "uc_Roles ?cfg = watched mem_map mem_store" "uc_Slots ?cfg = watched mem_map mem_store"
    by (simp_all add: ex_account_on_def)
  from create_role_all_or_nothing [OF mem_store_contract mem_store_contract this run] r
  have "mem_map (fst (uw_Roles w')) = Map.empty" "mem_map (fst (uw_Slots w')) = Map.empty"
    by (simp_all add: create_ends_def ex_uworld_on_def mem_of_def fun_eq_iff)
  with run r show ?thesis by blast
qed

section \<open>Where the rollback goes wrong\<close>

definition ex_committed :: "Owner \<Rightarrow> Entry" where
  "ex_committed owner = \<lparr>en_Key = ''bob'', en_Raw = ''bob'', en_Owner = owner, en_State = StateCommitted,
     en_Token = ''t9'', en_ExpiresAtUnix = 0, en_ReservedAtUnix = 50, en_CommittedAtUnix = 60\<rparr>"

text \<open>
  A name belongs to the account, not to the role. The account's second role of the same name, on
  another server, is given the committed claim of the first; when its final slot write fails the
  rollback releases that name while the first role still bears it.
\<close>

theorem failed_create_frees_a_living_name:
  "case CreateRole (ex_account mem_store (Inr 8)) ''acct'' 2 ''bob''
       (ex_uworld [(7, new_role 7 ''acct'' 1 ''bob'' 60)] [] [False, True] (Some (ex_committed ''acct''))) of
     (r, w') \<Rightarrow>
       r = Inl [Foreign ''store unavailable''] \<and>
       map_option ro_Name (value_at (mem_map (uw_Roles w')) 7) = Some ''bob'' \<and>
       value_at (mem_map (dw_State (uw_Names w'))) ''bob'' = None"
  by (simp add: ex_create_run ex_committed_def Is_def)

text \<open>Without the failure the account ends with two roles of one name.\<close>

theorem one_name_two_roles:
  "case CreateRole (ex_account mem_store (Inr 8)) ''acct'' 2 ''bob''
       (ex_uworld [(7, new_role 7 ''acct'' 1 ''bob'' 60)] [] [] (Some (ex_committed ''acct''))) of
     (r, w') \<Rightarrow>
       map_option ro_Name (value_at (mem_map (uw_Roles w')) 7) = Some ''bob'' \<and>
       map_option ro_Name (value_at (mem_map (uw_Roles w')) 8) = Some ''bob''"
  by (simp add: ex_create_run ex_committed_def Is_def)

text \<open>
  A slot whose release fails after the name turned out to be taken is kept without a trace: the answer
  is the taken name alone, nothing counts the failed rollback, and every later creation by that
  account on that server is refused.
\<close>

theorem leaked_slot_is_silent:
  "case CreateRole (ex_account mem_store (Inr 8)) ''acct'' 2 ''bob''
       (ex_uworld [] [] [False, True] (Some (ex_committed ''other''))) of
     (r, w') \<Rightarrow>
       r = Inl [ErrNameTaken] \<and> env_events w' = [Refused ''create_role'' ''name_taken''] \<and>
       value_at (mem_map (uw_Slots w')) ''acct@2'' =
         Some \<lparr>sl_AccountID = ''acct'', sl_ServerID = 2, sl_PlayerID = 0\<rparr> \<and>
       fst (CreateRole (ex_account mem_store (Inr 8)) ''acct'' 2 ''free'' w') = Inl [ErrRoleLimit]"
  by (simp add: ex_create_run ex_committed_def Is_def)

section \<open>The name of a created role\<close>

lemma create_commit_names:
  assumes "create_commit cfg accountID claim slot rv role w = (Inr role', w')"
  shows "\<exists>e. nd_Commit (uc_Names cfg) claim (uw_Names w) = (Inr e, uw_Names w')"
proof -
  obtain c w1 where c: "namesU (nd_Commit (uc_Names cfg) claim) w = (c, w1)" by force
  let ?k = "slotKeyFor accountID (ro_ServerID role)"
  obtain f w2 where f: "slotsUpdate cfg ?k (\<lambda>_. []) (fill_slot (ro_PlayerID role)) w1 = (f, w2)" by force
  have n: "uw_Names w2 = uw_Names w1"
    using f by (auto simp: mutateE_def updateE_def bindE_def thenE_def reportsE_def modifyE_def raiseE_def retE_def
        split: sum.splits prod.splits)
  have "(\<exists>e. c = Inr e) \<and> uw_Names w' = uw_Names w2"
    using assms c f
    by (auto simp: create_commit_def bindE_def tryE_def Let_def raiseE_def thenE_def reportE_def modifyE_def retE_def
        error_of_def split: sum.splits prod.splits if_splits)
  then show ?thesis using namesU_run(3) [OF c] n by auto
qed

lemma create_insert_names:
  assumes "create_insert cfg accountID serverID name claim slot w = (Inr role, w')"
  shows "\<exists>e. nd_Commit (uc_Names cfg) claim (uw_Names w) = (Inr e, uw_Names w')"
proof -
  obtain o1 w1 where o1: "outsideU (uc_Allocate cfg serverID) w = (o1, w1)" by force
  note n1 = outsideU_run [OF o1]
  obtain p where p: "o1 = Inr (Inr p)" "p \<noteq> 0"
    using assms o1 n1(4)
    by (auto simp: create_insert_def bindE_def Let_def raiseE_def split: sum.splits prod.splits if_splits)
  let ?role = "new_role p accountID serverID name (Unix (uc_Now cfg (env_ticks w1)))"
  obtain c w2 where c: "rolesCreate cfg p ?role (w1\<lparr>env_ticks := Suc (env_ticks w1)\<rparr>) = (c, w2)" by force
  have n2: "uw_Names w2 = uw_Names w1" using c by (auto simp: createE_def split: prod.splits)
  have "\<exists>rv. create_commit cfg accountID claim slot rv ?role w2 = (Inr role, w')"
    using assms o1 p c
    by (auto simp: create_insert_def bindE_def Let_def raiseE_def tryE_def nowE_def thenE_def reportE_def modifyE_def
        split: sum.splits prod.splits if_splits option.splits)
  then obtain rv where "create_commit cfg accountID claim slot rv ?role w2 = (Inr role, w')" by blast
  from create_commit_names [OF this] show ?thesis using n1(3) n2 by simp
qed

lemma CreateRole_names:
  assumes "CreateRole cfg accountID serverID name w = (Inr role, w')"
  shows "\<exists>claim n e. nd_Reserve (uc_Names cfg) name accountID (uc_ClaimTTL cfg) (uw_Names w) = (Inr claim, n) \<and>
    nd_Commit (uc_Names cfg) claim n = (Inr e, uw_Names w')"
proof -
  obtain w1 where w1: "create_claimed cfg accountID serverID name w1 = (Inr role, w')" "uw_Names w1 = uw_Names w"
    using CreateRole_stages [OF assms] by auto
  let ?k = "slotKeyFor accountID serverID"
  obtain c w2 where c: "slotsCreate cfg ?k \<lparr>sl_AccountID = accountID, sl_ServerID = serverID, sl_PlayerID = 0\<rparr> w1 = (c, w2)"
    by force
  have n2: "uw_Names w2 = uw_Names w1" using c by (auto simp: createE_def split: prod.splits)
  obtain slot where named: "create_named cfg accountID serverID name slot w2 = (Inr role, w')"
    using w1(1) c by (auto simp: create_claimed_def bindE_def raiseE_def thenE_def reportE_def modifyE_def
        split: sum.splits option.splits)
  obtain d w3 where d: "namesU (nd_Reserve (uc_Names cfg) name accountID (uc_ClaimTTL cfg)) w2 = (d, w3)" by force
  obtain claim where claim: "d = Inr claim"
    using named d by (auto simp: create_named_def bindE_def tryE_def Let_def thenE_def reportE_def modifyE_def raiseE_def
        split: sum.splits prod.splits if_splits)
  then have "create_insert cfg accountID serverID name claim slot w3 = (Inr role, w')"
    using named d by (simp add: create_named_def bindE_def tryE_def)
  from create_insert_names [OF this] show ?thesis
    using namesU_run(3) [OF d] claim n2 w1(2) by auto
qed

text \<open>A role that was created owns its name: run over the name directory of the repository, a
  successful creation leaves the normalized name committed to the account, whatever the name's
  entry was before.\<close>

theorem created_role_owns_name:
  assumes "vs_contract md (=) (dc_State dcfg)" "uc_Names cfg = directory_names dcfg"
    and "CreateRole cfg accountID serverID name w = (Inr role, w')"
  shows "\<exists>key e. dc_Normalize dcfg name = Inr key \<and>
    value_at (md (dw_State (uw_Names w'))) key = Some e \<and> en_Owner e = accountID \<and> en_State e = StateCommitted"
proof -
  obtain claim n e where r: "Reserve dcfg name accountID (uc_ClaimTTL cfg) (uw_Names w) = (Inr claim, n)"
    and c: "Commit dcfg claim n = (Inr e, uw_Names w')"
    using CreateRole_names [OF assms(3)] assms(2) by (auto simp: directory_names_def)
  note claimed = Reserve_claims [OF assms(1) r] and committed = Commit_commits [OF assms(1) c]
  have e: "en_Owner e = accountID" "en_State e = StateCommitted"
    "value_at (md (dw_State (uw_Names w'))) (cl_Key claim) = Some e"
    using claimed committed by auto
  with claimed e show ?thesis by blast
qed

theorem created_role_owns_name_witness:
  "\<exists>role w' e. CreateRole (ex_account safe_store (Inr 8)) ''acct'' 2 ''bob'' (ex_uworld [] [] [] None) = (Inr role, w') \<and>
     value_at (mem_map (dw_State (uw_Names w'))) ''bob'' = Some e \<and> en_Owner e = ''acct''"
proof -
  let ?cfg = "ex_account safe_store (Inr 8)" and ?w = "ex_uworld [] [] [] None"
  have "fst (CreateRole ?cfg ''acct'' 2 ''bob'' ?w) = Inr (new_role 8 ''acct'' 2 ''bob'' 100)"
    by (simp add: ex_create_run)
  then obtain role w' where run: "CreateRole ?cfg ''acct'' 2 ''bob'' ?w = (Inr role, w')"
    by (cases "CreateRole ?cfg ''acct'' 2 ''bob'' ?w") auto
  have "vs_contract mem_map (=) (dc_State ex_directory)"
    using mem_store_contract by (simp add: ex_directory_def)
  moreover have "uc_Names ?cfg = directory_names ex_directory" by (simp add: ex_account_def ex_account_on_def)
  ultimately obtain key e where
    "dc_Normalize ex_directory ''bob'' = Inr key" "value_at (mem_map (dw_State (uw_Names w'))) key = Some e"
    "en_Owner e = ''acct''" using created_role_owns_name [OF _ _ run] by blast
  moreover have "dc_Normalize ex_directory ''bob'' = Inr ''bob''"
    by (simp add: ex_directory_def NormalizeLower_def ex_strings)
  ultimately show ?thesis using run by auto
qed

end
