(* ===== verification/RankCodec.thy ===== *)
theory RankCodec
  imports Prelude "HOL-Library.Word" "HOL-Library.List_Lexorder" "HOL-Library.Char_ord"
begin

text \<open>
  The ordering member of \<open>service/rank\<close> (\<open>member.go\<close>): an owner's score as one byte string, whose
  byte order is the ranking order. Go's \<open>int64\<close> and \<open>uint64\<close> are both \<^typ>\<open>64 word\<close>; the signed
  reading is \<open>sint\<close>. The verbs \<open>%016x\<close> and \<open>%020d\<close>, \<open>strconv.ParseUint\<close> and
  \<open>base64.RawStdEncoding\<close> are the standard library's. Redis orders the members of a sorted set
  with equal scores by their bytes, which is the library's order on \<^typ>\<open>string\<close>.
\<close>

unbundle bit_operations_syntax

type_synonym int64 = "64 word"
type_synonym uint64 = "64 word"

section \<open>Hexadecimal numbers\<close>

definition hex_digit :: "nat \<Rightarrow> char" where
  "hex_digit d = char_of (if d < 10 then 48 + d else 87 + d)"

fun show_hex :: "nat \<Rightarrow> string" where
  "show_hex n = (if n < 16 then [hex_digit n] else show_hex (n div 16) @ [hex_digit (n mod 16)])"

declare show_hex.simps [simp del]

definition zero_pad :: "nat \<Rightarrow> string \<Rightarrow> string" where
  "zero_pad width s = replicate (width - length s) (CHR ''0'') @ s"

text \<open>\<open>fmt.Sprintf("%016x", v)\<close> and \<open>fmt.Sprintf("%020d", v)\<close>: the sign counts towards the width.\<close>

definition fmt_016x :: "uint64 \<Rightarrow> string" where
  "fmt_016x v = zero_pad 16 (show_hex (unat v))"

definition fmt_020d :: "int64 \<Rightarrow> string" where
  "fmt_020d v =
     (if sint v < 0 then CHR ''-'' # zero_pad 19 (show_nat (nat (- sint v)))
      else zero_pad 20 (show_nat (nat (sint v))))"

definition hex_val :: "char \<Rightarrow> nat option" where
  "hex_val c =
     (let n = (of_char c :: nat) in
      if 48 \<le> n \<and> n < 58 then Some (n - 48)
      else if 97 \<le> n \<and> n < 103 then Some (n - 87)
      else if 65 \<le> n \<and> n < 71 then Some (n - 55) else None)"

fun hex_value :: "nat \<Rightarrow> string \<Rightarrow> nat option" where
  "hex_value a [] = Some a"
| "hex_value a (c # cs) = (case hex_val c of None \<Rightarrow> None | Some d \<Rightarrow> hex_value (a * 16 + d) cs)"

text \<open>\<open>strconv.ParseUint(s, 16, 64)\<close>: hexadecimal digits of either case, no sign, below \<open>2^64\<close>.\<close>

definition ParseUint16 :: "string \<Rightarrow> uint64 option" where
  "ParseUint16 s =
     (if s = [] then None
      else case hex_value 0 s of
             None \<Rightarrow> None
           | Some n \<Rightarrow> if n < 2 ^ 64 then Some (word_of_nat n) else None)"

section \<open>\<open>base64.RawStdEncoding\<close>\<close>

definition b64_char :: "nat \<Rightarrow> char" where
  "b64_char n =
     (if n < 26 then char_of (65 + n) else if n < 52 then char_of (71 + n)
      else if n < 62 then char_of (n - 4) else if n = 62 then CHR ''+'' else CHR ''/'')"

definition b64_val :: "char \<Rightarrow> nat option" where
  "b64_val c =
     (let n = (of_char c :: nat) in
      if 65 \<le> n \<and> n < 91 then Some (n - 65)
      else if 97 \<le> n \<and> n < 123 then Some (n - 71)
      else if 48 \<le> n \<and> n < 58 then Some (n + 4)
      else if n = 43 then Some 62 else if n = 47 then Some 63 else None)"

fun b64_encode :: "nat list \<Rightarrow> nat list" where
  "b64_encode [] = []"
| "b64_encode [a] = [a div 4, a mod 4 * 16]"
| "b64_encode [a, b] = [a div 4, a mod 4 * 16 + b div 16, b mod 16 * 4]"
| "b64_encode (a # b # c # r) =
     a div 4 # (a mod 4 * 16 + b div 16) # (b mod 16 * 4 + c div 64) # c mod 64 # b64_encode r"

definition EncodeToString :: "string \<Rightarrow> string" where
  "EncodeToString s = map b64_char (b64_encode (map of_char s))"

text \<open>
  Decoding: line breaks are skipped, any other byte outside the alphabet and a single left-over
  digit are errors, left-over bits are dropped.
\<close>

fun b64_decode :: "nat list \<Rightarrow> nat list option" where
  "b64_decode [] = Some []"
| "b64_decode [w] = None"
| "b64_decode [w, x] = Some [w * 4 + x div 16]"
| "b64_decode [w, x, y] = Some [w * 4 + x div 16, x mod 16 * 16 + y div 4]"
| "b64_decode (w # x # y # z # r) =
     (case b64_decode r of
        None \<Rightarrow> None
      | Some bs \<Rightarrow> Some ((w * 4 + x div 16) # (x mod 16 * 16 + y div 4) # (y mod 4 * 64 + z) # bs))"

fun b64_vals :: "string \<Rightarrow> nat list option" where
  "b64_vals [] = Some []"
| "b64_vals (c # cs) =
     (if c = CHR 0x0A \<or> c = CHR 0x0D then b64_vals cs
      else case b64_val c of None \<Rightarrow> None | Some v \<Rightarrow> map_option ((#) v) (b64_vals cs))"

definition DecodeString :: "string \<Rightarrow> string option" where
  "DecodeString s =
     (case b64_vals s of None \<Rightarrow> None | Some vs \<Rightarrow> map_option (map char_of) (b64_decode vs))"

section \<open>Scores and members (types.go, member.go)\<close>

record Score =
  sc_OwnerID :: int64
  sc_Value :: int64
  sc_Tie :: int64
  sc_Brief :: string

definition sortableUint :: "int64 \<Rightarrow> uint64" where
  "sortableUint value = value XOR push_bit 63 1"

definition memberFieldSeparator :: char where
  "memberFieldSeparator = CHR '':''"

definition encodeMember :: "Score \<Rightarrow> string" where
  "encodeMember score =
     fmt_016x (sortableUint (sc_Value score)) @ [memberFieldSeparator] @
     fmt_016x (NOT (sortableUint (sc_Tie score))) @ [memberFieldSeparator] @
     fmt_016x (NOT (sortableUint (sc_OwnerID score))) @ [memberFieldSeparator] @
     fmt_020d (sc_OwnerID score)"

definition encodeEntry :: "Score \<Rightarrow> string" where
  "encodeEntry score =
     (let member = encodeMember score in
      if length (sc_Brief score) = 0 then member @ [memberFieldSeparator]
      else member @ [memberFieldSeparator] @ EncodeToString (sc_Brief score))"

definition decodeEntry :: "string \<Rightarrow> gerr + Score" where
  "decodeEntry raw =
     (let parts = Split memberFieldSeparator raw in
      if length parts \<noteq> 5 then Inl [Foreign ''rank: member fields'']
      else case ParseUint16 (parts ! 0) of
        None \<Rightarrow> Inl [Foreign ''rank: member value'']
      | Some value' \<Rightarrow>
      (case ParseUint16 (parts ! 1) of
        None \<Rightarrow> Inl [Foreign ''rank: member tie'']
      | Some tie \<Rightarrow>
      (case ParseInt 64 (parts ! 3) of
        None \<Rightarrow> Inl [Foreign ''rank: member owner'']
      | Some owner \<Rightarrow>
          let score = \<lparr>sc_OwnerID = word_of_int owner, sc_Value = value' XOR push_bit 63 1,
                       sc_Tie = NOT tie XOR push_bit 63 1, sc_Brief = []\<rparr> in
          if parts ! 4 \<noteq> [] then
            (case DecodeString (parts ! 4) of
               None \<Rightarrow> Inl [Foreign ''rank: member brief'']
             | Some brief \<Rightarrow> Inr (score\<lparr>sc_Brief := brief\<rparr>))
          else Inr score)))"

text \<open>The ranking the members stand for: value descending, then tie and owner ascending.\<close>

definition ranks_before :: "Score \<Rightarrow> Score \<Rightarrow> bool" where
  "ranks_before a b \<longleftrightarrow>
     sint (sc_Value b) < sint (sc_Value a) \<or>
     sc_Value a = sc_Value b \<and>
       (sint (sc_Tie a) < sint (sc_Tie b) \<or>
        sc_Tie a = sc_Tie b \<and> sint (sc_OwnerID a) < sint (sc_OwnerID b))"

section \<open>Fixed-width digits\<close>

fun fixed_hex :: "nat \<Rightarrow> nat \<Rightarrow> string" where
  "fixed_hex 0 n = []"
| "fixed_hex (Suc k) n = fixed_hex k (n div 16) @ [hex_digit (n mod 16)]"

lemma fixed_hex_length [simp]: "length (fixed_hex k n) = k"
  by (induction k arbitrary: n) simp_all

lemma of_char_hex_digit: "d < 16 \<Longrightarrow> (of_char (hex_digit d) :: nat) = (if d < 10 then 48 + d else 87 + d)"
  by (simp add: hex_digit_def of_char_of)

lemma hex_val_digit [simp]: "d < 16 \<Longrightarrow> hex_val (hex_digit d) = Some d"
  by (auto simp: hex_val_def of_char_hex_digit Let_def)

lemma hex_digit_mono: "c < 16 \<Longrightarrow> d < 16 \<Longrightarrow> hex_digit c < hex_digit d \<longleftrightarrow> c < d"
  by (auto simp: less_char_def of_char_hex_digit)

lemma hex_digit_not_colon: "d < 16 \<Longrightarrow> hex_digit d \<noteq> memberFieldSeparator"
proof
  assume "d < 16" "hex_digit d = memberFieldSeparator"
  then have "(of_char (hex_digit d) :: nat) = 58" by (simp add: memberFieldSeparator_def)
  with \<open>d < 16\<close> show False by (simp add: of_char_hex_digit split: if_splits)
qed

lemma fixed_hex_no_colon: "memberFieldSeparator \<notin> set (fixed_hex k n)"
  by (induction k arbitrary: n) (simp_all add: hex_digit_not_colon [THEN not_sym])

lemma hex_digit_zero: "hex_digit 0 = CHR ''0''"
proof -
  have "(of_char (hex_digit 0) :: nat) = of_char (CHR ''0'')" by (simp add: hex_digit_def of_char_of)
  then show ?thesis by (simp only: of_char_eq_iff)
qed

lemma fixed_hex_0: "fixed_hex k 0 = replicate k (CHR ''0'')"
  by (induction k) (simp_all add: hex_digit_zero replicate_append_same)

lemma zero_pad_show_hex: "0 < k \<Longrightarrow> n < 16 ^ k \<Longrightarrow> zero_pad k (show_hex n) = fixed_hex k n"
proof (induction k arbitrary: n)
  case (Suc k)
  show ?case
  proof (cases "n < 16")
    case True
    then have "fixed_hex (Suc k) n = replicate k (CHR ''0'') @ [hex_digit n]" by (simp add: fixed_hex_0)
    with True show ?thesis by (subst show_hex.simps) (simp add: zero_pad_def)
  next
    case False
    then have "k \<noteq> 0" using Suc.prems by (cases k) simp_all
    moreover have "n div 16 < 16 ^ k" using Suc.prems by (simp add: less_mult_imp_div_less)
    ultimately have "zero_pad k (show_hex (n div 16)) = fixed_hex k (n div 16)" using Suc.IH by simp
    with False show ?thesis
      by (subst show_hex.simps) (simp add: zero_pad_def)
  qed
qed simp

lemma unat_64: "unat (v :: 64 word) < 16 ^ 16"
  by (rule order_less_le_trans [OF unsigned_less]) simp

lemma fmt_016x_fixed: "fmt_016x v = fixed_hex 16 (unat v)"
  using unat_64 [of v] by (simp add: fmt_016x_def zero_pad_show_hex)

lemma hex_value_fixed:
  "n < 16 ^ k \<Longrightarrow> hex_value a (fixed_hex k n @ s) = hex_value (a * 16 ^ k + n) s"
proof (induction k arbitrary: n a s)
  case (Suc k)
  have "n div 16 < 16 ^ k" using Suc.prems by (simp add: less_mult_imp_div_less)
  then show ?case
    using Suc.IH [of "n div 16" a "hex_digit (n mod 16) # s"] by (simp add: algebra_simps)
qed simp

lemma ParseUint16_fmt [simp]: "ParseUint16 (fmt_016x v) = Some v"
  using hex_value_fixed [of "unat v" 16 0 "[]"] unat_64 [of v]
  by (auto simp: ParseUint16_def fmt_016x_fixed simp flip: length_0_conv)

text \<open>Strings of one width compare field by field.\<close>

lemma append_less_append:
  fixes xs ys us vs :: "'a::linorder list"
  shows "length xs = length ys \<Longrightarrow> xs @ us < ys @ vs \<longleftrightarrow> xs < ys \<or> xs = ys \<and> us < vs"
  proof (induction xs ys rule: list_induct2)
  case (Cons x xs y ys)
  then show ?case by (simp only: append_Cons Cons_less_Cons list.inject) blast
qed simp

lemma fixed_hex_inject: "m < 16 ^ k \<Longrightarrow> n < 16 ^ k \<Longrightarrow> fixed_hex k m = fixed_hex k n \<longleftrightarrow> m = n"
proof
  assume "m < 16 ^ k" "n < 16 ^ k" "fixed_hex k m = fixed_hex k n"
  then show "m = n"
    using hex_value_fixed [of m k 0 "[]"] hex_value_fixed [of n k 0 "[]"] by simp
qed simp

lemma digit_less:
  fixes m n :: nat
  shows "m < n \<longleftrightarrow> m div 16 < n div 16 \<or> m div 16 = n div 16 \<and> m mod 16 < n mod 16"
proof -
  have "m = 16 * (m div 16) + m mod 16" "n = 16 * (n div 16) + n mod 16" by simp_all
  moreover have "m mod 16 < 16" "n mod 16 < 16" by simp_all
  ultimately show ?thesis by linarith
qed

lemma fixed_hex_less: "m < 16 ^ k \<Longrightarrow> n < 16 ^ k \<Longrightarrow> fixed_hex k m < fixed_hex k n \<longleftrightarrow> m < n"
proof (induction k arbitrary: m n)
  case (Suc k)
  have d: "m div 16 < 16 ^ k" "n div 16 < 16 ^ k"
    using Suc.prems by (simp_all add: less_mult_imp_div_less)
  have "m < n \<longleftrightarrow> m div 16 < n div 16 \<or> m div 16 = n div 16 \<and> m mod 16 < n mod 16"
    by (rule digit_less)
  then show ?case
    using Suc.IH [OF d] d by (simp add: append_less_append fixed_hex_inject hex_digit_mono)
qed simp

lemma fmt_016x_length [simp]: "length (fmt_016x v) = 16"
  by (simp add: fmt_016x_fixed)

lemma fmt_016x_less [simp]: "fmt_016x v < fmt_016x w \<longleftrightarrow> v < w"
  using unat_64 [of v] unat_64 [of w] by (simp add: fmt_016x_fixed fixed_hex_less word_less_nat_alt)

lemma fmt_016x_eq [simp]: "fmt_016x v = fmt_016x w \<longleftrightarrow> v = w"
  by (metis ParseUint16_fmt option.inject)

lemma fmt_016x_no_colon: "memberFieldSeparator \<notin> set (fmt_016x v)"
  by (simp add: fmt_016x_fixed fixed_hex_no_colon)

section \<open>Signed order as unsigned order\<close>

lemma sortable_flip: "value XOR push_bit 63 1 = flip_bit 63 (value :: 64 word)"
  by (simp add: flip_bit_eq_xor)

lemma sortable_plus: "sortableUint v = v + 2 ^ 63"
proof -
  have "- (2 ^ 63) = (2 ^ 63 :: 64 word)" by (rule word_unat_eq_iff [THEN iffD2]) simp
  then have "v - 2 ^ 63 = v + (2 ^ 63 :: 64 word)" by (metis diff_conv_add_uminus)
  then show ?thesis
    unfolding sortableUint_def sortable_flip
    by (cases "bit v 63") (simp_all only: flip_bit_eq_if if_True if_False not_True_eq_False not_False_eq_True
        Bit_Operations.unset_bit_eq Bit_Operations.set_bit_eq of_bool_eq mult_1)
qed

lemma uint_sortable: "uint (sortableUint v) = sint v + 2 ^ 63"
proof -
  have "sint v = take_bit 64 (uint v + 2 ^ 63) - 2 ^ 63"
    by (simp add: sint_uint signed_take_bit_eq_take_bit_shift)
  moreover have "uint (sortableUint v) = take_bit 64 (uint v + 2 ^ 63)"
    by (simp add: sortable_plus uint_word_ariths take_bit_eq_mod)
  ultimately show ?thesis by simp
qed

lemma sortable_less [simp]: "sortableUint v < sortableUint w \<longleftrightarrow> sint v < sint w"
  by (simp add: word_less_def uint_sortable)

lemma sortable_eq [simp]: "sortableUint v = sortableUint w \<longleftrightarrow> v = w"
  by (simp add: sortable_plus)

lemma unsortable [simp]: "sortableUint v XOR 9223372036854775808 = v"
  by (simp add: sortableUint_def xor.assoc)

lemma uint_not: "uint (NOT v) = 2 ^ 64 - 1 - uint (v :: 64 word)"
proof -
  have r: "0 \<le> uint v" "uint v < 2 ^ 64" using uint_bounded [of v] by simp_all
  have "uint (NOT v) = (- uint v - 1) mod 2 ^ 64"
    unfolding word_not_def not_eq_complement uint_word_of_int by simp
  also have "\<dots> = (2 ^ 64 - 1 - uint v) mod 2 ^ 64"
    using mod_add_self2 [of "- uint v - 1" "2 ^ 64"] by (simp add: algebra_simps)
  also have "\<dots> = 2 ^ 64 - 1 - uint v" using r by (intro mod_pos_pos_trivial) linarith+
  finally show ?thesis .
qed

lemma not_less_not [simp]: "NOT v < NOT (w :: 64 word) \<longleftrightarrow> w < v"
  by (simp add: word_less_def uint_not)

section \<open>Decimal owners\<close>

lemma digits_value_zeros: "digits_value (replicate n (CHR ''0'') @ s) = digits_value s"
  by (induction n) (simp_all add: digits_value_def)

lemma is_digit_zero [simp]: "is_digit (CHR ''0'')"
  by (simp add: is_digit_def)

lemma list_all_replicate: "P x \<Longrightarrow> list_all P (replicate n x)"
  by (induction n) simp_all

lemma parse_digits_zero_pad: "parse_digits (zero_pad w (show_nat n)) = Some n"
  using show_nat_digits [of n]
  by (simp add: parse_digits_def zero_pad_def digits_value_zeros digits_value_show list_all_append list_all_replicate is_digit_zero)

lemma zero_pad_hd: "\<exists>c cs. zero_pad w (show_nat n) = c # cs \<and> is_digit c"
proof (cases "w - length (show_nat n)")
  case 0
  then show ?thesis using show_nat_hd [of n] by (simp add: zero_pad_def)
next
  case (Suc k)
  then show ?thesis by (simp add: zero_pad_def is_digit_def)
qed

lemma sint_range: "- (2 ^ 63) \<le> sint (v :: 64 word) \<and> sint v < 2 ^ 63"
  using sint_ge [of v] sint_lt [of v] by simp

lemma ParseInt_fmt [simp]: "ParseInt 64 (fmt_020d v) = Some (sint v)"
proof (cases "sint v < 0")
  case True
  then show ?thesis using sint_range [of v] by (simp add: ParseInt_def fmt_020d_def parse_digits_zero_pad)
next
  case False
  obtain c cs where c: "zero_pad 20 (show_nat (nat (sint v))) = c # cs" "is_digit c"
    using zero_pad_hd by blast
  with False digit_not_sign [OF c(2)] parse_digits_zero_pad [of 20 "nat (sint v)"] sint_range [of v]
  show ?thesis by (simp add: ParseInt_def fmt_020d_def)
qed

lemma fmt_020d_no_colon: "memberFieldSeparator \<notin> set (fmt_020d v)"
  using show_nat_no_sep by (auto simp: fmt_020d_def zero_pad_def memberFieldSeparator_def)

section \<open>Base64\<close>

lemma b64_encode_decode:
  "\<forall>b \<in> set bs. b < 256 \<Longrightarrow> b64_decode (b64_encode bs) = Some bs"
  by (induction bs rule: b64_encode.induct) (auto simp: )

lemma b64_encode_range: "\<forall>b \<in> set bs. b < 256 \<Longrightarrow> d \<in> set (b64_encode bs) \<Longrightarrow> d < 64"
  by (induction bs rule: b64_encode.induct) auto

lemma of_char_b64: "n < 64 \<Longrightarrow> (of_char (b64_char n) :: nat) =
   (if n < 26 then 65 + n else if n < 52 then 71 + n else if n < 62 then n - 4 else if n = 62 then 43 else 47)"
  by (simp add: b64_char_def of_char_of)

lemma b64_val_char: "n < 64 \<Longrightarrow> b64_val (b64_char n) = Some n"
  by (auto simp: b64_val_def of_char_b64 Let_def)

lemma b64_char_plain: "n < 64 \<Longrightarrow> b64_char n \<noteq> CHR 0x0A \<and> b64_char n \<noteq> CHR 0x0D \<and> b64_char n \<noteq> CHR '':''"
proof (intro conjI notI)
qed (drule arg_cong [where f = "of_char :: char \<Rightarrow> nat"], simp add: of_char_b64 split: if_splits)+

lemma b64_vals_map: "\<forall>n \<in> set ns. n < 64 \<Longrightarrow> b64_vals (map b64_char ns) = Some ns"
  by (induction ns) (simp_all add: b64_val_char b64_char_plain)

lemma DecodeString_Encode [simp]: "DecodeString (EncodeToString s) = Some s"
proof -
  have r: "\<forall>b \<in> set (map of_char s). b < (256::nat)" by simp
  have "b64_vals (EncodeToString s) = Some (b64_encode (map of_char s))"
    unfolding EncodeToString_def by (rule b64_vals_map) (use b64_encode_range [OF r] in blast)
  then show ?thesis by (simp add: DecodeString_def b64_encode_decode [OF r] comp_def)
qed

lemma EncodeToString_no_colon: "memberFieldSeparator \<notin> set (EncodeToString s)"
proof -
  have r: "\<forall>b \<in> set (map of_char s). b < (256::nat)" by simp
  show ?thesis
    using b64_encode_range [OF r] b64_char_plain
    unfolding EncodeToString_def memberFieldSeparator_def set_map image_iff by metis
qed

lemma EncodeToString_Nil [simp]: "EncodeToString s = [] \<longleftrightarrow> s = []"
  by (metis DecodeString_Encode EncodeToString_def b64_encode.simps(1) list.simps(8) option.inject)

section \<open>Members\<close>

lemmas member_no_colon = fmt_016x_no_colon fmt_020d_no_colon EncodeToString_no_colon

definition member_parts :: "Score \<Rightarrow> string list" where
  "member_parts s =
     [fmt_016x (sortableUint (sc_Value s)), fmt_016x (NOT (sortableUint (sc_Tie s))),
      fmt_016x (NOT (sortableUint (sc_OwnerID s))), fmt_020d (sc_OwnerID s), EncodeToString (sc_Brief s)]"

lemma encodeEntry_Join: "encodeEntry s = Join memberFieldSeparator (member_parts s)"
  by (simp add: encodeEntry_def encodeMember_def member_parts_def Let_def EncodeToString_def)

lemma Split_encodeEntry: "Split memberFieldSeparator (encodeEntry s) = member_parts s"
  unfolding encodeEntry_Join by (rule Split_Join) (simp_all add: member_parts_def member_no_colon)

lemma decode_encode: "decodeEntry (encodeEntry s) = Inr s"
  by (cases s) (auto simp: decodeEntry_def Split_encodeEntry member_parts_def Let_def)

lemma encodeEntry_inject [simp]: "encodeEntry s = encodeEntry t \<longleftrightarrow> s = t"
  by (metis decode_encode sum.inject(2))

lemma encodeEntry_nonempty [simp]: "encodeEntry s \<noteq> []"
proof
  assume "encodeEntry s = []"
  then have "decodeEntry [] = Inr s" using decode_encode [of s] by simp
  then show False by (simp add: decodeEntry_def)
qed

lemma encodeEntry_split:
  "encodeEntry s = fmt_016x (sortableUint (sc_Value s)) @ memberFieldSeparator #
     fmt_016x (NOT (sortableUint (sc_Tie s))) @ memberFieldSeparator #
     fmt_016x (NOT (sortableUint (sc_OwnerID s))) @ memberFieldSeparator #
     fmt_020d (sc_OwnerID s) @ memberFieldSeparator # EncodeToString (sc_Brief s)"
  by (simp add: encodeEntry_Join member_parts_def)

lemma member_order:
  assumes "sc_OwnerID a \<noteq> sc_OwnerID b"
  shows "encodeEntry b < encodeEntry a \<longleftrightarrow> ranks_before a b"
  using assms by (auto simp: encodeEntry_split append_less_append ranks_before_def)

lemma ranks_before_asym: "ranks_before a b \<Longrightarrow> \<not> ranks_before b a"
  by (auto simp: ranks_before_def)

lemma ranks_before_total: "sc_OwnerID a \<noteq> sc_OwnerID b \<Longrightarrow> ranks_before a b \<or> ranks_before b a"
  by (metis member_order neqE encodeEntry_inject)

end
