(* ===== verification/Rank.thy ===== *)
theory Rank
  imports RankCodec "HOL-Library.FSet"
begin

text \<open>
  Package \<open>service/rank\<close> (\<open>types.go\<close>, \<open>store.go\<close>, \<open>redis_store.go\<close>): a leaderboard kept in one
  sorted set per board, whose members carry the whole entry, and a hash from owner to member. The
  two are written by Lua scripts only, which are translated with the rest. Redis itself is a
  parameter: a record of the client's calls on a state type of its own, and \<open>redis_contract\<close> states
  what the code relies on. A contract mentions an \<open>rdb\<close>, what Redis holds at the commit point
  of a call.
\<close>

section \<open>Errors and bounds (types.go)\<close>

abbreviation "ErrBoardInvalid \<equiv> Coded 540101"
abbreviation "ErrRankOwnerInvalid \<equiv> Coded 540102"
abbreviation "ErrRangeInvalid \<equiv> Coded 540103"
abbreviation "ErrScoreInvalid \<equiv> Coded 540104"
abbreviation "ErrRequestInvalid \<equiv> Coded 540105"
abbreviation "ErrRankNotFound \<equiv> Coded 540106"
abbreviation "ErrSubmitConflict \<equiv> Coded 540108"

definition RankError :: "(gerr \<Rightarrow> int \<times> string) \<Rightarrow> gerr option \<Rightarrow> int \<times> string" where
  "RankError clientError err = (case err of None \<Rightarrow> (0, []) | Some e \<Rightarrow> clientError e)"

definition RankCode :: "(gerr \<Rightarrow> int \<times> string) \<Rightarrow> gerr option \<Rightarrow> int" where
  "RankCode clientError err = fst (RankError clientError err)"

definition RankMaxPageSize :: int where [bound_defs]: "RankMaxPageSize = 200"
definition MaxBriefBytes :: nat where [bound_defs]: "MaxBriefBytes = 512"
definition maxAppliedRequests :: nat where [bound_defs]: "maxAppliedRequests = 8"
definition maxSubmitAttempts :: nat where [bound_defs]: "maxSubmitAttempts = 8"

section \<open>Boards, modes, entries (types.go)\<close>

text \<open>\<open>Scope\<close> and \<open>UpdateMode\<close> are string types: any string may arrive in them.\<close>

type_synonym Scope = string
type_synonym UpdateMode = string

definition ScopeServer :: Scope where "ScopeServer = ''server''"
definition ScopeGroup :: Scope where "ScopeGroup = ''group''"
definition ScopeGlobal :: Scope where "ScopeGlobal = ''global''"

definition Scope_valid :: "Scope \<Rightarrow> bool" where
  "Scope_valid s \<longleftrightarrow> s = ScopeServer \<or> s = ScopeGroup \<or> s = ScopeGlobal"

definition UpdateSet :: UpdateMode where "UpdateSet = ''set''"
definition UpdateMax :: UpdateMode where "UpdateMax = ''max''"
definition UpdateAdd :: UpdateMode where "UpdateAdd = ''add''"

definition UpdateMode_valid :: "UpdateMode \<Rightarrow> bool" where
  "UpdateMode_valid m \<longleftrightarrow> m = UpdateSet \<or> m = UpdateMax \<or> m = UpdateAdd"

record Board =
  bo_ID :: string
  bo_Scope :: Scope
  bo_ScopeID :: int64
  bo_Season :: int64

definition Board_Validate :: "Board \<Rightarrow> gerr option" where
  "Board_Validate b =
     (if bo_ID b = [] then Some [ErrBoardInvalid]
      else if \<not> Scope_valid (bo_Scope b) then Some [ErrBoardInvalid]
      else if bo_Scope b = ScopeGlobal \<and> bo_ScopeID b \<noteq> 0 then Some [ErrBoardInvalid]
      else if bo_Scope b \<noteq> ScopeGlobal \<and> bo_ScopeID b = 0 then Some [ErrBoardInvalid]
      else if sint (bo_Season b) < 0 then Some [ErrBoardInvalid]
      else None)"

definition Board_String :: "Board \<Rightarrow> string" where
  "Board_String b =
     bo_ID b @ CHR '':'' # bo_Scope b @ CHR '':'' # FormatInt (sint (bo_ScopeID b)) @
     CHR '':'' # FormatInt (sint (bo_Season b))"

record RankEntry =
  re_Rank :: int
  re_Score :: Score

record RankPage =
  pg_Entries :: "RankEntry list"
  pg_Total :: int

section \<open>Validation (store.go)\<close>

definition validateSubmit :: "Board \<Rightarrow> Score \<Rightarrow> UpdateMode \<Rightarrow> string \<Rightarrow> gerr option" where
  "validateSubmit board score mode requestID =
     (case Board_Validate board of
        Some err \<Rightarrow> Some err
      | None \<Rightarrow>
          if sc_OwnerID score = 0 then Some [ErrRankOwnerInvalid]
          else if \<not> UpdateMode_valid mode then Some [ErrScoreInvalid]
          else if MaxBriefBytes < length (sc_Brief score) then Some [ErrScoreInvalid]
          else if mode = UpdateAdd \<and> requestID = [] then Some [ErrRequestInvalid]
          else None)"

definition validateRange :: "int \<Rightarrow> int \<Rightarrow> gerr option" where
  "validateRange offset limit =
     (if offset < 0 then Some [ErrRangeInvalid]
      else if limit \<le> 0 then Some [ErrRangeInvalid]
      else if RankMaxPageSize < limit then Some [ErrRangeInvalid]
      else None)"

section \<open>What Redis holds, and the commands of the scripts\<close>

text \<open>
  Sorted sets whose scores are all zero are sets of members; a hash maps fields to values. A key
  that holds nothing is an empty set and an empty hash.
\<close>

record rdb =
  zs :: "string \<Rightarrow> string fset"
  hs :: "string \<Rightarrow> string \<Rightarrow> string option"

definition HSET :: "string \<Rightarrow> string \<Rightarrow> string \<Rightarrow> rdb \<Rightarrow> rdb" where
  "HSET k f v c = c\<lparr>hs := (hs c)(k := (hs c k)(f \<mapsto> v))\<rparr>"

definition HDEL :: "string \<Rightarrow> string \<Rightarrow> rdb \<Rightarrow> rdb" where
  "HDEL k f c = c\<lparr>hs := (hs c)(k := (hs c k)(f := None))\<rparr>"

definition ZADD :: "string \<Rightarrow> string \<Rightarrow> rdb \<Rightarrow> rdb" where
  "ZADD k m c = c\<lparr>zs := (zs c)(k := finsert m (zs c k))\<rparr>"

definition ZREM :: "string \<Rightarrow> string \<Rightarrow> rdb \<Rightarrow> rdb" where
  "ZREM k m c = c\<lparr>zs := (zs c)(k := zs c k |-| {|m|})\<rparr>"

definition DEL :: "string \<Rightarrow> rdb \<Rightarrow> rdb" where
  "DEL k c = c\<lparr>zs := (zs c)(k := {||}), hs := (hs c)(k := (\<lambda>_. None))\<rparr>"

text \<open>The members from the greatest down, and the window \<open>ZREVRANGE\<close> takes of them.\<close>

definition descending :: "string fset \<Rightarrow> string list" where
  "descending s = rev (sorted_list_of_fset s)"

definition index_range :: "int \<Rightarrow> int \<Rightarrow> 'a list \<Rightarrow> 'a list" where
  "index_range start stop xs =
     (let n = int (length xs);
          a = max 0 (if start < 0 then start + n else start);
          b = (if stop < 0 then stop + n else stop) in
      take (nat (b - a + 1)) (drop (nat a) xs))"

section \<open>The scripts\<close>

datatype lua = LInt int | LStr string | LTable "lua list"

text \<open>A script is run with its \<open>KEYS\<close> and \<open>ARGV\<close>; \<open>or_empty\<close> is Lua's \<open>v or ""\<close>.\<close>

type_synonym script = "string list \<Rightarrow> string list \<Rightarrow> rdb \<Rightarrow> lua \<times> rdb"

definition or_empty :: "string option \<Rightarrow> string" where
  "or_empty v = (case v of None \<Rightarrow> [] | Some s \<Rightarrow> s)"

definition applied_field :: "string \<Rightarrow> string" where
  "applied_field ownerID = ownerID @ '':applied''"

definition readScript :: script where
  "readScript KEYS ARGV c =
     (let m = hs c (KEYS ! 0) (ARGV ! 0); a = hs c (KEYS ! 0) (applied_field (ARGV ! 0)) in
      (LTable [LStr (or_empty m), LStr (or_empty a)], c))"

definition swap_write :: "string list \<Rightarrow> string \<Rightarrow> string \<Rightarrow> string \<Rightarrow> string \<Rightarrow> rdb \<Rightarrow> lua \<times> rdb" where
  "swap_write KEYS ownerID nextMember reqID ring c =
     (let c = ZADD (KEYS ! 0) nextMember c;
          c = HSET (KEYS ! 1) ownerID nextMember c;
          c = (if reqID \<noteq> [] then HSET (KEYS ! 1) (applied_field ownerID) ring c else c) in
      (LTable [LInt 1, LStr nextMember], c))"

definition swapScript :: script where
  "swapScript KEYS ARGV c =
     (let ownerID = ARGV ! 0; expected = ARGV ! 1; nextMember = ARGV ! 2; reqID = ARGV ! 3; ring = ARGV ! 4;
          stored = hs c (KEYS ! 1) ownerID in
      if expected = [] then
        (case stored of
           Some s \<Rightarrow> (LTable [LInt 0, LStr s], c)
         | None \<Rightarrow> swap_write KEYS ownerID nextMember reqID ring c)
      else
        (if stored \<noteq> Some expected then (LTable [LInt 0, LStr (or_empty stored)], c)
         else swap_write KEYS ownerID nextMember reqID ring (ZREM (KEYS ! 0) expected c)))"

definition removeScript :: script where
  "removeScript KEYS ARGV c =
     (let ownerID = ARGV ! 0 in
      case hs c (KEYS ! 1) ownerID of
        None \<Rightarrow> (LInt 0, c)
      | Some stored \<Rightarrow>
          (LInt 1, HDEL (KEYS ! 1) (applied_field ownerID)
                     (HDEL (KEYS ! 1) ownerID (ZREM (KEYS ! 0) stored c))))"

section \<open>The Redis client\<close>

text \<open>The Go values a script's result may arrive as.\<close>

datatype any =
    AnyString string | AnyBytes string | AnyInt64 int | AnyInt int | AnyNil | AnyList "any list" | AnyOther

definition luaString :: "any \<Rightarrow> string" where
  "luaString v = (case v of AnyString s \<Rightarrow> s | AnyBytes s \<Rightarrow> s | AnyNil \<Rightarrow> [] | _ \<Rightarrow> [])"

definition luaInt :: "any \<Rightarrow> gerr + int" where
  "luaInt v =
     (case v of
        AnyInt64 n \<Rightarrow> Inr n
      | AnyInt n \<Rightarrow> Inr n
      | AnyString s \<Rightarrow> (case ParseInt 64 s of None \<Rightarrow> Inl [Foreign ''strconv.ParseInt''] | Some n \<Rightarrow> Inr n)
      | _ \<Rightarrow> Inl [Foreign ''rank: unexpected lua integer''])"

record 'x redis =
  rd_Eval :: "script \<Rightarrow> string list \<Rightarrow> string list \<Rightarrow> 'x \<Rightarrow> (gerr + any) \<times> 'x"
  rd_Del :: "string list \<Rightarrow> 'x \<Rightarrow> (gerr + int) \<times> 'x"
  rd_ZCard :: "string \<Rightarrow> 'x \<Rightarrow> (gerr + int) \<times> 'x"
  rd_ZRevRange :: "string \<Rightarrow> int \<Rightarrow> int \<Rightarrow> 'x \<Rightarrow> (gerr + string list) \<times> 'x"
  rd_ZRevRank :: "string \<Rightarrow> string \<Rightarrow> 'x \<Rightarrow> (gerr + int) \<times> 'x"

fun represents :: "lua \<Rightarrow> any \<Rightarrow> bool" where
  "represents (LInt n) a \<longleftrightarrow> a = AnyInt64 n \<or> a = AnyInt n \<or> a = AnyString (FormatInt n)"
| "represents (LStr s) a \<longleftrightarrow> a = AnyString s \<or> a = AnyBytes s"
| "represents (LTable vs) a \<longleftrightarrow> (\<exists>as. a = AnyList as \<and> list_all2 represents vs as)"

text \<open>
  The outcome of a call between what Redis held at its commit point and what it holds after. A
  script and a \<open>DEL\<close> of several keys are atomic; a failed call may have taken effect or not.
\<close>

definition eval_outcome :: "(rdb \<Rightarrow> lua \<times> rdb) \<Rightarrow> rdb \<Rightarrow> gerr + any \<Rightarrow> rdb \<Rightarrow> bool" where
  "eval_outcome f c r c' \<longleftrightarrow>
     (case r of
        Inl e \<Rightarrow> store_error e \<and> (c' = c \<or> c' = snd (f c))
      | Inr a \<Rightarrow> represents (fst (f c)) a \<and> c' = snd (f c))"

definition del_outcome :: "string list \<Rightarrow> rdb \<Rightarrow> gerr + int \<Rightarrow> rdb \<Rightarrow> bool" where
  "del_outcome ks c r c' \<longleftrightarrow>
     (case r of Inl e \<Rightarrow> store_error e \<and> (c' = c \<or> c' = fold DEL ks c) | Inr n \<Rightarrow> c' = fold DEL ks c)"

definition rank_outcome :: "string \<Rightarrow> string \<Rightarrow> rdb \<Rightarrow> gerr + int \<Rightarrow> bool" where
  "rank_outcome k mem c r \<longleftrightarrow>
     (case r of
        Inl e \<Rightarrow> store_error e \<and> (RedisNil \<in> set e \<longrightarrow> mem |\<notin>| zs c k)
      | Inr n \<Rightarrow> 0 \<le> n \<and> n < int (length (descending (zs c k))) \<and> descending (zs c k) ! nat n = mem)"

definition redis_contract ::
  "('x \<Rightarrow> rdb) \<Rightarrow> (rdb \<Rightarrow> rdb \<Rightarrow> bool) \<Rightarrow> 'x redis \<Rightarrow> bool" where
  "redis_contract m R rd \<longleftrightarrow>
     (\<forall>s ks as x r x'. rd_Eval rd s ks as x = (r, x') \<longrightarrow>
        (\<exists>c. R (m x) c \<and> eval_outcome (s ks as) c r (m x'))) \<and>
     (\<forall>ks x r x'. rd_Del rd ks x = (r, x') \<longrightarrow> (\<exists>c. R (m x) c \<and> del_outcome ks c r (m x'))) \<and>
     (\<forall>k x r x'. rd_ZCard rd k x = (r, x') \<longrightarrow>
        (\<exists>c. R (m x) c \<and> m x' = c \<and>
          (case r of Inl e \<Rightarrow> store_error e | Inr n \<Rightarrow> n = int (fcard (zs c k))))) \<and>
     (\<forall>k a b x r x'. rd_ZRevRange rd k a b x = (r, x') \<longrightarrow>
        (\<exists>c. R (m x) c \<and> m x' = c \<and>
          (case r of Inl e \<Rightarrow> store_error e | Inr xs \<Rightarrow> xs = index_range a b (descending (zs c k))))) \<and>
     (\<forall>k mem x r x'. rd_ZRevRank rd k mem x = (r, x') \<longrightarrow>
        (\<exists>c. R (m x) c \<and> m x' = c \<and> rank_outcome k mem c r))"

lemma contract_eval:
  "redis_contract m R rd \<Longrightarrow> rd_Eval rd s ks as x = (r, x') \<Longrightarrow>
   \<exists>c. R (m x) c \<and> eval_outcome (s ks as) c r (m x')"
  by (simp add: redis_contract_def)

lemma contract_del:
  "redis_contract m R rd \<Longrightarrow> rd_Del rd ks x = (r, x') \<Longrightarrow> \<exists>c. R (m x) c \<and> del_outcome ks c r (m x')"
  by (simp add: redis_contract_def)

lemma contract_zcard:
  "redis_contract m R rd \<Longrightarrow> rd_ZCard rd k x = (r, x') \<Longrightarrow>
   \<exists>c. R (m x) c \<and> m x' = c \<and> (case r of Inl e \<Rightarrow> store_error e | Inr n \<Rightarrow> n = int (fcard (zs c k)))"
  by (simp add: redis_contract_def)

lemma contract_zrange:
  "redis_contract m R rd \<Longrightarrow> rd_ZRevRange rd k a b x = (r, x') \<Longrightarrow>
   \<exists>c. R (m x) c \<and> m x' = c \<and>
     (case r of Inl e \<Rightarrow> store_error e | Inr xs \<Rightarrow> xs = index_range a b (descending (zs c k)))"
  by (simp add: redis_contract_def)

lemma contract_zrank:
  "redis_contract m R rd \<Longrightarrow> rd_ZRevRank rd k mem x = (r, x') \<Longrightarrow>
   \<exists>c. R (m x) c \<and> m x' = c \<and> rank_outcome k mem c r"
  by (simp add: redis_contract_def)

section \<open>The store (redis_store.go)\<close>

record 'x RankConfig =
  rc_Client :: "'x redis"
  rc_Prefix :: string
  rc_Now :: "nat \<Rightarrow> time"

record 'x rworld = env +
  rw_State :: 'x

definition RankNewRedisStore ::
  "'x redis option \<Rightarrow> string \<Rightarrow> (nat \<Rightarrow> time) option \<Rightarrow> (nat \<Rightarrow> time) \<Rightarrow> gerr + 'x RankConfig" where
  "RankNewRedisStore client keyPrefix now systemNow =
     (case client of
        None \<Rightarrow> Inl [Foreign ''rank: redis client is nil'']
      | Some cl \<Rightarrow>
          if TrimSpace keyPrefix = [] then Inl [Foreign ''rank: redis prefix is required'']
          else Inr \<lparr>rc_Client = cl, rc_Prefix = keyPrefix,
                    rc_Now = (case now of None \<Rightarrow> systemNow | Some n \<Rightarrow> n)\<rparr>)"

definition boardKey :: "'x RankConfig \<Rightarrow> Board \<Rightarrow> string" where
  "boardKey cfg board = rc_Prefix cfg @ '':z:'' @ Board_String board"

definition ownerKey :: "'x RankConfig \<Rightarrow> Board \<Rightarrow> string" where
  "ownerKey cfg board = rc_Prefix cfg @ '':o:'' @ Board_String board"

definition callE :: "('x \<Rightarrow> (gerr + 'a) \<times> 'x) \<Rightarrow> ('x rworld, 'a) handler" where
  "callE f = (\<lambda>w. case f (rw_State w) of (r, x) \<Rightarrow> (r, w\<lparr>rw_State := x\<rparr>))"

definition owner_arg :: "int64 \<Rightarrow> string" where
  "owner_arg ownerID = FormatInt (sint ownerID)"

definition readOwner :: "'x RankConfig \<Rightarrow> string \<Rightarrow> int64 \<Rightarrow> ('x rworld, string \<times> string) handler" where
  "readOwner cfg okey ownerID =
     bindE (callE (rd_Eval (rc_Client cfg) readScript [okey] [owner_arg ownerID])) (\<lambda>ret.
       case ret of
         AnyList [m, a] \<Rightarrow> retE (luaString m, luaString a)
       | _ \<Rightarrow> raiseE [Foreign ''rank: unexpected owner read result''])"

definition rank_swap ::
  "'x RankConfig \<Rightarrow> string \<Rightarrow> string \<Rightarrow> int64 \<Rightarrow> string \<Rightarrow> string \<Rightarrow> string \<Rightarrow> string \<Rightarrow>
   ('x rworld, bool \<times> string) handler" where
  "rank_swap cfg zkey okey ownerID expected next' requestID ring =
     bindE (callE (rd_Eval (rc_Client cfg) swapScript [zkey, okey]
              [owner_arg ownerID, expected, next', requestID, ring])) (\<lambda>ret.
       case ret of
         AnyList [f, s] \<Rightarrow> bindE (liftE (luaInt f)) (\<lambda>appliedFlag. retE (appliedFlag = 1, luaString s))
       | _ \<Rightarrow> raiseE [Foreign ''rank: unexpected swap result''])"

definition entryFor :: "'x RankConfig \<Rightarrow> string \<Rightarrow> string \<Rightarrow> ('x rworld, RankEntry) handler" where
  "entryFor cfg zkey member =
     (if member = [] then raiseE [ErrRankNotFound]
      else bindE (liftE (decodeEntry member)) (\<lambda>score.
        bindE (tryE (callE (rd_ZRevRank (rc_Client cfg) zkey member))) (\<lambda>r.
          case r of
            Inl err \<Rightarrow>
              if Is err RedisNil then retE \<lparr>re_Rank = 0, re_Score = score\<rparr> else raiseE err
          | Inr position \<Rightarrow> retE \<lparr>re_Rank = position + 1, re_Score = score\<rparr>)))"

text \<open>The value of an accumulating submit wraps at 64 bits, as in Go.\<close>

definition keep_brief :: "Score \<Rightarrow> Score \<Rightarrow> Score" where
  "keep_brief current next' =
     (if length (sc_Brief next') = 0 then next'\<lparr>sc_Brief := sc_Brief current\<rparr> else next')"

definition nextScore :: "string \<Rightarrow> Score \<Rightarrow> UpdateMode \<Rightarrow> gerr + Score \<times> bool" where
  "nextScore stored incoming mode =
     (if stored = [] then Inr (incoming, True)
      else case decodeEntry stored of
        Inl err \<Rightarrow> Inl err
      | Inr current \<Rightarrow>
          if mode = UpdateSet then Inr (keep_brief current incoming, True)
          else if mode = UpdateMax then
            if sint (sc_Value current) > sint (sc_Value incoming) then Inr (current, False)
            else if sc_Value current = sc_Value incoming \<and> sint (sc_Tie current) \<le> sint (sc_Tie incoming)
            then Inr (current, False)
            else Inr (keep_brief current incoming, True)
          else if mode = UpdateAdd then
            Inr (keep_brief current (incoming\<lparr>sc_Value := sc_Value current + sc_Value incoming\<rparr>), True)
          else Inl [ErrScoreInvalid])"

definition ringContains :: "string \<Rightarrow> string \<Rightarrow> bool" where
  "ringContains ring requestID =
     (if ring = [] \<or> requestID = [] then False else requestID \<in> set (Split (CHR '','') ring))"

definition appendRing :: "string \<Rightarrow> string \<Rightarrow> string" where
  "appendRing ring requestID =
     (if requestID = [] then ring
      else let tokens = (if ring \<noteq> [] then Split (CHR '','') ring else []) in
        if requestID \<in> set tokens then ring
        else let tokens = tokens @ [requestID] in
          Join (CHR '','')
            (if maxAppliedRequests < length tokens
             then drop (length tokens - maxAppliedRequests) tokens else tokens))"

section \<open>Submit\<close>

text \<open>
  The loop of at most \<open>maxSubmitAttempts\<close> compare-and-swaps; the pause between two attempts is left
  out, it changes nothing.
\<close>

fun submit_loop ::
  "'x RankConfig \<Rightarrow> string \<Rightarrow> string \<Rightarrow> Score \<Rightarrow> UpdateMode \<Rightarrow> string \<Rightarrow> nat \<Rightarrow>
   ('x rworld, RankEntry) handler" where
  "submit_loop cfg zkey okey score mode requestID 0 =
     thenE (reportE (Conflict ''submit'')) (raiseE [ErrSubmitConflict])"
| "submit_loop cfg zkey okey score mode requestID (Suc attempts) =
     bindE (readOwner cfg okey (sc_OwnerID score)) (\<lambda>(stored, ring).
     if requestID \<noteq> [] \<and> ringContains ring requestID
     then thenE (reportE (Replayed ''submit'')) (entryFor cfg zkey stored)
     else bindE (liftE (nextScore stored score mode)) (\<lambda>(next', changed).
     if \<not> changed then
       thenE (if requestID \<noteq> []
              then thenE (rank_swap cfg zkey okey (sc_OwnerID score) stored stored requestID
                           (appendRing ring requestID)) (retE ())
              else retE ())
         (entryFor cfg zkey stored)
     else bindE (rank_swap cfg zkey okey (sc_OwnerID score) stored (encodeEntry next') requestID
                   (appendRing ring requestID)) (\<lambda>(applied, current).
       if applied then thenE (reportE (Accepted ''submit'')) (entryFor cfg zkey (encodeEntry next'))
       else submit_loop cfg zkey okey score mode requestID attempts)))"

definition Submit ::
  "'x RankConfig \<Rightarrow> Board \<Rightarrow> Score \<Rightarrow> UpdateMode \<Rightarrow> string \<Rightarrow> ('x rworld, RankEntry) handler" where
  "Submit cfg board score mode requestID =
     thenE (guardE (validateSubmit board score mode requestID))
       (bindE (if sc_Tie score = 0
               then bindE (nowE (rc_Now cfg)) (\<lambda>now. retE (score\<lparr>sc_Tie := word_of_int (UnixMilli now)\<rparr>))
               else retE score) (\<lambda>score.
         submit_loop cfg (boardKey cfg board) (ownerKey cfg board) score mode requestID maxSubmitAttempts))"

section \<open>Remove, pages, ranks, Reset and Size\<close>

definition validateOwner :: "Board \<Rightarrow> int64 \<Rightarrow> gerr option" where
  "validateOwner board ownerID =
     (case Board_Validate board of
        Some err \<Rightarrow> Some err
      | None \<Rightarrow> if ownerID = 0 then Some [ErrRankOwnerInvalid] else None)"

definition board_Remove :: "'x RankConfig \<Rightarrow> Board \<Rightarrow> int64 \<Rightarrow> ('x rworld, unit) handler" where
  "board_Remove cfg board ownerID =
     thenE (guardE (validateOwner board ownerID))
       (thenE (callE (rd_Eval (rc_Client cfg) removeScript [boardKey cfg board, ownerKey cfg board]
                 [owner_arg ownerID])) (retE ()))"

fun page_entries :: "int \<Rightarrow> string list \<Rightarrow> gerr + RankEntry list" where
  "page_entries pos [] = Inr []"
| "page_entries pos (member # members) =
     (case decodeEntry member of
        Inl err \<Rightarrow> Inl err
      | Inr score \<Rightarrow>
          (case page_entries (pos + 1) members of
             Inl err \<Rightarrow> Inl err
           | Inr entries \<Rightarrow> Inr (\<lparr>re_Rank = pos + 1, re_Score = score\<rparr> # entries)))"

definition board_Page :: "'x RankConfig \<Rightarrow> Board \<Rightarrow> int \<Rightarrow> int \<Rightarrow> ('x rworld, RankPage) handler" where
  "board_Page cfg board offset limit =
     thenE (guardE (Board_Validate board))
     (thenE (guardE (validateRange offset limit))
     (let zkey = boardKey cfg board in
      bindE (callE (rd_ZRevRange (rc_Client cfg) zkey offset (i64 (offset + limit - 1)))) (\<lambda>members.
      bindE (callE (rd_ZCard (rc_Client cfg) zkey)) (\<lambda>total.
      thenE (reportE (Depth (''board.'' @ bo_ID board) total))
      (bindE (liftE (page_entries offset members)) (\<lambda>entries.
        retE \<lparr>pg_Entries = entries, pg_Total = total\<rparr>))))))"

definition board_Rank :: "'x RankConfig \<Rightarrow> Board \<Rightarrow> int64 \<Rightarrow> ('x rworld, RankEntry option) handler" where
  "board_Rank cfg board ownerID =
     thenE (guardE (validateOwner board ownerID))
     (bindE (readOwner cfg (ownerKey cfg board) ownerID) (\<lambda>(member, ring).
        if member = [] then retE None
        else bindE (entryFor cfg (boardKey cfg board) member) (\<lambda>entry. retE (Some entry))))"

definition validateRadius :: "int \<Rightarrow> gerr option" where
  "validateRadius radius =
     (if radius \<le> 0 \<or> RankMaxPageSize div 2 < radius then Some [ErrRangeInvalid] else None)"

definition board_Around :: "'x RankConfig \<Rightarrow> Board \<Rightarrow> int64 \<Rightarrow> int \<Rightarrow> ('x rworld, RankPage) handler" where
  "board_Around cfg board ownerID radius =
     thenE (guardE (validateRadius radius))
     (bindE (board_Rank cfg board ownerID) (\<lambda>found.
        case found of
          None \<Rightarrow> raiseE [ErrRankNotFound]
        | Some entry \<Rightarrow>
            let offset = re_Rank entry - 1 - radius in
            board_Page cfg board (if offset < 0 then 0 else offset) (radius * 2 + 1)))"

definition board_Reset :: "'x RankConfig \<Rightarrow> Board \<Rightarrow> ('x rworld, unit) handler" where
  "board_Reset cfg board =
     thenE (guardE (Board_Validate board))
       (thenE (callE (rd_Del (rc_Client cfg) [boardKey cfg board, ownerKey cfg board])) (retE ()))"

definition board_Size :: "'x RankConfig \<Rightarrow> Board \<Rightarrow> ('x rworld, int) handler" where
  "board_Size cfg board =
     thenE (guardE (Board_Validate board)) (callE (rd_ZCard (rc_Client cfg) (boardKey cfg board)))"

declare callE_def [handler_simps]

end
