(* ===== verification/RankBoards.thy ===== *)
theory RankBoards
  imports Rank
begin

text \<open>
  The facts of \<open>service/rank\<close> its properties rest on: storage keys identify boards and owners, the
  scripts keep sorted set and hash in step (the locale \<open>board_invariant\<close>, under any interference of
  other processes).
\<close>

section \<open>Keys and fields\<close>

lemma sint_inject [simp]: "sint (a :: 64 word) = sint b \<longleftrightarrow> a = b"
  by (auto intro: signed_word_eqI)

lemma owner_arg_inject [simp]: "owner_arg o1 = owner_arg o2 \<longleftrightarrow> o1 = o2"
  by (simp add: owner_arg_def FormatInt_inject)

lemma applied_field_inject [simp]: "applied_field a = applied_field b \<longleftrightarrow> a = b"
  by (simp add: applied_field_def)

lemma applied_not_owner [simp]: "applied_field a \<noteq> owner_arg p" "owner_arg p \<noteq> applied_field a"
proof -
  have "CHR '':'' \<notin> set (owner_arg p)" by (simp add: owner_arg_def FormatInt_no_sep)
  moreover have "CHR '':'' \<in> set (applied_field a)" by (simp add: applied_field_def)
  ultimately show "applied_field a \<noteq> owner_arg p" "owner_arg p \<noteq> applied_field a" by metis+
qed

lemma append_unique_last:
  assumes "c \<notin> set s" "c \<notin> set t" and "p @ c # s = q @ c # t"
  shows "p = q \<and> s = t"
  using assms(3)
proof (induction p arbitrary: q)
  case Nil
  with assms(1) show ?case by (cases q) auto
next
  case (Cons x p)
  with assms(2) show ?case by (cases q) auto
qed

lemma Scope_no_colon: "Scope_valid s \<Longrightarrow> CHR '':'' \<notin> set s"
  by (auto simp: Scope_valid_def ScopeServer_def ScopeGroup_def ScopeGlobal_def)

lemma valid_scope: "Board_Validate b = None \<Longrightarrow> Scope_valid (bo_Scope b)"
  by (simp add: Board_Validate_def split: if_splits)

lemma Board_String_inject:
  assumes "Board_Validate a = None" "Board_Validate b = None" "Board_String a = Board_String b"
  shows "a = b"
proof -
  have e: "(bo_ID a @ CHR '':'' # bo_Scope a @ CHR '':'' # FormatInt (sint (bo_ScopeID a))) @ CHR '':'' # FormatInt (sint (bo_Season a))
     = (bo_ID b @ CHR '':'' # bo_Scope b @ CHR '':'' # FormatInt (sint (bo_ScopeID b))) @ CHR '':'' # FormatInt (sint (bo_Season b))"
    using assms(3) by (simp add: Board_String_def)
  note 1 = append_unique_last [OF FormatInt_no_sep(2) FormatInt_no_sep(2) e]
  from 1 have "(bo_ID a @ CHR '':'' # bo_Scope a) @ CHR '':'' # FormatInt (sint (bo_ScopeID a))
     = (bo_ID b @ CHR '':'' # bo_Scope b) @ CHR '':'' # FormatInt (sint (bo_ScopeID b))" by simp
  note 2 = append_unique_last [OF FormatInt_no_sep(2) FormatInt_no_sep(2) this]
  from 2 have "bo_ID a @ CHR '':'' # bo_Scope a = bo_ID b @ CHR '':'' # bo_Scope b" by simp
  note 3 = append_unique_last [OF Scope_no_colon [OF valid_scope [OF assms(1)]]
      Scope_no_colon [OF valid_scope [OF assms(2)]] this]
  from 1 2 3 have "bo_ID a = bo_ID b" "bo_Scope a = bo_Scope b" "bo_ScopeID a = bo_ScopeID b" "bo_Season a = bo_Season b"
    by (simp_all add: FormatInt_inject)
  then show ?thesis by (cases a; cases b) simp
qed

lemma boardKey_inject:
  "Board_Validate a = None \<Longrightarrow> Board_Validate b = None \<Longrightarrow> boardKey cfg a = boardKey cfg b \<longleftrightarrow> a = b"
  by (auto simp: boardKey_def dest: Board_String_inject)

lemma ownerKey_inject:
  "Board_Validate a = None \<Longrightarrow> Board_Validate b = None \<Longrightarrow> ownerKey cfg a = ownerKey cfg b \<longleftrightarrow> a = b"
  by (auto simp: ownerKey_def dest: Board_String_inject)

lemma board_owner_keys [simp]: "boardKey cfg a \<noteq> ownerKey cfg b" "ownerKey cfg b \<noteq> boardKey cfg a"
  by (simp_all add: boardKey_def ownerKey_def)

section \<open>Boards as maps from owner to score\<close>

definition board_of :: "'x RankConfig \<Rightarrow> Board \<Rightarrow> rdb \<Rightarrow> int64 \<Rightarrow> Score option" where
  "board_of cfg b c owner =
     (case hs c (ownerKey cfg b) (owner_arg owner) of
        None \<Rightarrow> None
      | Some m \<Rightarrow> (case decodeEntry m of Inl e \<Rightarrow> None | Inr s \<Rightarrow> Some s))"

definition entry_of :: "int64 \<Rightarrow> string \<Rightarrow> bool" where
  "entry_of owner m \<longleftrightarrow> (\<exists>s. sc_OwnerID s = owner \<and> m = encodeEntry s)"

definition in_sync :: "'x RankConfig \<Rightarrow> Board \<Rightarrow> rdb \<Rightarrow> bool" where
  "in_sync cfg b c \<longleftrightarrow>
     (\<forall>owner m. hs c (ownerKey cfg b) (owner_arg owner) = Some m \<longrightarrow> entry_of owner m) \<and>
     (\<forall>m. m |\<in>| zs c (boardKey cfg b) \<longleftrightarrow> (\<exists>owner. hs c (ownerKey cfg b) (owner_arg owner) = Some m))"

definition boards_in_sync :: "'x RankConfig \<Rightarrow> rdb \<Rightarrow> bool" where
  "boards_in_sync cfg c \<longleftrightarrow> (\<forall>b. Board_Validate b = None \<longrightarrow> in_sync cfg b c)"

section \<open>What the scripts do\<close>

lemmas command_defs = HSET_def HDEL_def ZADD_def ZREM_def DEL_def

text \<open>A swap applies when the stored member is the expected one, where empty stands for none.\<close>

definition swap_applies :: "string \<Rightarrow> string \<Rightarrow> string \<Rightarrow> rdb \<Rightarrow> bool" where
  "swap_applies okey ownerID expected c \<longleftrightarrow>
     hs c okey ownerID = (if expected = [] then None else Some expected)"

definition swapped :: "string \<Rightarrow> string \<Rightarrow> string \<Rightarrow> string \<Rightarrow> string \<Rightarrow> string \<Rightarrow> string \<Rightarrow> rdb \<Rightarrow> rdb" where
  "swapped zkey okey ownerID expected nxt reqID ring c =
     c\<lparr>zs := (zs c)(zkey := finsert nxt (if expected = [] then zs c zkey else zs c zkey |-| {|expected|})),
       hs := (hs c)(okey := (\<lambda>f. if reqID \<noteq> [] \<and> f = applied_field ownerID then Some ring
                                else if f = ownerID then Some nxt else hs c okey f))\<rparr>"

lemma swapScript_run:
  "swapScript [zkey, okey] [ownerID, expected, nxt, reqID, ring] c =
     (if swap_applies okey ownerID expected c
      then (LTable [LInt 1, LStr nxt], swapped zkey okey ownerID expected nxt reqID ring c)
      else (LTable [LInt 0, LStr (or_empty (hs c okey ownerID))], c))"
  by (auto simp: swapScript_def swap_applies_def swapped_def swap_write_def command_defs Let_def or_empty_def
      fun_eq_iff split: option.splits)

definition removed :: "string \<Rightarrow> string \<Rightarrow> string \<Rightarrow> rdb \<Rightarrow> rdb" where
  "removed zkey okey ownerID c =
     (case hs c okey ownerID of
        None \<Rightarrow> c
      | Some stored \<Rightarrow>
          c\<lparr>zs := (zs c)(zkey := zs c zkey |-| {|stored|}),
            hs := (hs c)(okey := (hs c okey)(ownerID := None, applied_field ownerID := None))\<rparr>)"

lemma removeScript_run: "snd (removeScript [zkey, okey] [ownerID] c) = removed zkey okey ownerID c"
  by (auto simp: removeScript_def removed_def command_defs Let_def split: option.splits)

lemma entry_of_unique: "entry_of a m \<Longrightarrow> entry_of b m \<Longrightarrow> a = b"
  by (auto simp: entry_of_def)

lemma swapped_sync:
  assumes s: "in_sync cfg b c" and ap: "swap_applies (ownerKey cfg b) (owner_arg owner) expected c"
    and n: "entry_of owner nxt"
  shows "in_sync cfg b (swapped (boardKey cfg b) (ownerKey cfg b) (owner_arg owner) expected nxt reqID ring c)"
    (is "in_sync cfg b ?c'")
proof -
  let ?h = "hs c (ownerKey cfg b)"
  have h': "hs ?c' (ownerKey cfg b) (owner_arg p) = (if p = owner then Some nxt else ?h (owner_arg p))" for p
    by (simp add: swapped_def)
  have z': "m |\<in>| zs ?c' (boardKey cfg b) \<longleftrightarrow>
      m = nxt \<or> m |\<in>| zs c (boardKey cfg b) \<and> ?h (owner_arg owner) \<noteq> Some m" for m
    using ap by (auto simp: swapped_def swap_applies_def split: if_splits)
  have old: "?h (owner_arg p) = Some m \<Longrightarrow> entry_of p m" for p m using s by (simp add: in_sync_def)
  have other: "?h (owner_arg p) = Some m \<Longrightarrow> p \<noteq> owner \<Longrightarrow> m \<noteq> nxt \<and> ?h (owner_arg owner) \<noteq> Some m" for p m
    using old n entry_of_unique by blast
  have zs: "m |\<in>| zs c (boardKey cfg b) \<longleftrightarrow> (\<exists>p. ?h (owner_arg p) = Some m)" for m
    using s by (simp add: in_sync_def)
  have "m |\<in>| zs ?c' (boardKey cfg b) \<longleftrightarrow> (\<exists>p. hs ?c' (ownerKey cfg b) (owner_arg p) = Some m)" for m
  proof
    assume "m |\<in>| zs ?c' (boardKey cfg b)"
    then consider "m = nxt" | p where "?h (owner_arg p) = Some m" "?h (owner_arg owner) \<noteq> Some m"
      unfolding z' zs by blast
    then show "\<exists>p. hs ?c' (ownerKey cfg b) (owner_arg p) = Some m"
    proof cases
      case 1
      then show ?thesis by (intro exI [of _ owner]) (simp add: h')
    next
      case 2
      then have "p \<noteq> owner" by auto
      with 2 show ?thesis by (intro exI [of _ p]) (simp add: h')
    qed
  next
    assume "\<exists>p. hs ?c' (ownerKey cfg b) (owner_arg p) = Some m"
    then obtain p where "(if p = owner then Some nxt else ?h (owner_arg p)) = Some m" unfolding h' by blast
    then show "m |\<in>| zs ?c' (boardKey cfg b)"
      unfolding z' zs using other by (cases "p = owner") auto
  qed
  moreover have "entry_of p m" if "hs ?c' (ownerKey cfg b) (owner_arg p) = Some m" for p m
    using that n old unfolding h' by (auto split: if_splits)
  ultimately show ?thesis unfolding in_sync_def by blast
qed

lemma removed_sync:
  assumes s: "in_sync cfg b c"
  shows "in_sync cfg b (removed (boardKey cfg b) (ownerKey cfg b) (owner_arg owner) c)"
proof (cases "hs c (ownerKey cfg b) (owner_arg owner)")
  case (Some m)
  have "entry_of p n" if "hs c (ownerKey cfg b) (owner_arg p) = Some n" for p n
    using s that by (simp add: in_sync_def)
  then have u: "p = owner" if "hs c (ownerKey cfg b) (owner_arg p) = Some m" for p
    using Some entry_of_unique that by blast
  let ?c' = "removed (boardKey cfg b) (ownerKey cfg b) (owner_arg owner) c"
  have h': "hs ?c' (ownerKey cfg b) (owner_arg p) = Some n \<longleftrightarrow>
      p \<noteq> owner \<and> hs c (ownerKey cfg b) (owner_arg p) = Some n" for p n
    using Some by (simp add: removed_def)
  have z': "n |\<in>| zs ?c' (boardKey cfg b) \<longleftrightarrow> n \<noteq> m \<and> n |\<in>| zs c (boardKey cfg b)" for n
    using Some by (auto simp: removed_def)
  show ?thesis using s u Some unfolding in_sync_def h' z' by (metis option.inject)
qed (simp add: removed_def s)

lemma in_sync_cong:
  "hs c' (ownerKey cfg b) = hs c (ownerKey cfg b) \<Longrightarrow> zs c' (boardKey cfg b) = zs c (boardKey cfg b) \<Longrightarrow>
   in_sync cfg b c' = in_sync cfg b c"
  by (simp add: in_sync_def)

lemma swapped_frame:
  assumes "Board_Validate a = None" "Board_Validate b = None" "a \<noteq> b"
  shows "hs (swapped (boardKey cfg b) (ownerKey cfg b) f e n r ring c) (ownerKey cfg a) = hs c (ownerKey cfg a)"
    "zs (swapped (boardKey cfg b) (ownerKey cfg b) f e n r ring c) (boardKey cfg a) = zs c (boardKey cfg a)"
  using assms by (simp_all add: swapped_def boardKey_inject ownerKey_inject)

lemma removed_frame:
  assumes "Board_Validate a = None" "Board_Validate b = None" "a \<noteq> b"
  shows "hs (removed (boardKey cfg b) (ownerKey cfg b) f c) (ownerKey cfg a) = hs c (ownerKey cfg a)"
    "zs (removed (boardKey cfg b) (ownerKey cfg b) f c) (boardKey cfg a) = zs c (boardKey cfg a)"
  using assms by (simp_all add: removed_def boardKey_inject ownerKey_inject split: option.split)

definition cleared :: "string list \<Rightarrow> rdb \<Rightarrow> rdb" where
  "cleared ks c = fold DEL ks c"

lemma cleared_board:
  "hs (cleared [boardKey cfg b, ownerKey cfg b] c) =
     (hs c)(boardKey cfg b := (\<lambda>_. None), ownerKey cfg b := (\<lambda>_. None))"
  "zs (cleared [boardKey cfg b, ownerKey cfg b] c) =
     (zs c)(boardKey cfg b := {||}, ownerKey cfg b := {||})"
  by (simp_all add: cleared_def DEL_def)

section \<open>Calls under a stable predicate\<close>

text \<open>\<open>I\<close> survives whatever other processes do between two calls.\<close>

definition stable :: "(rdb \<Rightarrow> bool) \<Rightarrow> ('x \<Rightarrow> rdb) \<Rightarrow> (rdb \<Rightarrow> rdb \<Rightarrow> bool) \<Rightarrow> 'x redis \<Rightarrow> bool" where
  "stable I m R rd \<longleftrightarrow> redis_contract m R rd \<and> (\<forall>c c'. R c c' \<longrightarrow> I c \<longrightarrow> I c')"

abbreviation (input) "keeping I m \<equiv> (\<lambda>w. I (m (rw_State w)))"

lemma triple_call:
  assumes "\<And>x r x'. I (m x) \<Longrightarrow> f x = (r, x') \<Longrightarrow> I (m x') \<and> (case r of Inl e \<Rightarrow> True | Inr a \<Rightarrow> Q a)"
  shows "triple (keeping I m) (callE f) (\<lambda>a w. keeping I m w \<and> Q a) (\<lambda>_. keeping I m)"
proof (rule tripleI)
  fix w a w' assume "I (m (rw_State w))" "callE f w = (Inr a, w')"
  then show "I (m (rw_State w')) \<and> Q a"
    using assms [of "rw_State w" "Inr a"] by (auto simp: callE_def split: prod.splits)
next
  fix w e w' assume "I (m (rw_State w))" "callE f w = (Inl e, w')"
  then show "I (m (rw_State w'))"
    using assms [of "rw_State w" "Inl e"] by (auto simp: callE_def split: prod.splits)
qed

lemma triple_eval:
  assumes st: "stable I m R rd"
    and keeps: "\<And>c. I c \<Longrightarrow> I (snd (s ks as c))"
    and gives: "\<And>c a. I c \<Longrightarrow> represents (fst (s ks as c)) a \<Longrightarrow> Q a"
  shows "triple (keeping I m) (callE (rd_Eval rd s ks as)) (\<lambda>a w. keeping I m w \<and> Q a) (\<lambda>_. keeping I m)"
proof (rule triple_call)
  fix x r x' assume "I (m x)" and run: "rd_Eval rd s ks as x = (r, x')"
  with st obtain c where c: "I c" "eval_outcome (s ks as) c r (m x')"
    unfolding stable_def using contract_eval [OF _ run] by blast
  then show "I (m x') \<and> (case r of Inl e \<Rightarrow> True | Inr a \<Rightarrow> Q a)"
    using keeps gives by (auto simp: eval_outcome_def split: sum.splits)
qed

lemma triple_keep:
  assumes "\<And>x r x'. I (m x) \<Longrightarrow> f x = (r, x') \<Longrightarrow> I (m x')"
  shows "triple (keeping I m) (callE f) (\<lambda>_. keeping I m) (\<lambda>_. keeping I m)"
  using triple_call [where Q = "\<lambda>_. True" and I = I and m = m and f = f] assms
  by (auto split: sum.splits)

lemma triple_del:
  assumes st: "stable I m R rd" and keeps: "\<And>c. I c \<Longrightarrow> I (fold DEL ks c)"
  shows "triple (keeping I m) (callE (rd_Del rd ks)) (\<lambda>_. keeping I m) (\<lambda>_. keeping I m)"
proof (rule triple_keep)
  fix x r x' assume "I (m x)" and run: "rd_Del rd ks x = (r, x')"
  with st obtain c where c: "I c" "del_outcome ks c r (m x')"
    unfolding stable_def using contract_del [OF _ run] by blast
  then show "I (m x')" using keeps by (auto simp: del_outcome_def split: sum.splits)
qed

lemma triple_reads:
  assumes st: "stable I m R rd"
  shows "triple (keeping I m) (callE (rd_ZCard rd k)) (\<lambda>_. keeping I m) (\<lambda>_. keeping I m)"
    and "triple (keeping I m) (callE (rd_ZRevRange rd k a b)) (\<lambda>_. keeping I m) (\<lambda>_. keeping I m)"
    and "triple (keeping I m) (callE (rd_ZRevRank rd k mem)) (\<lambda>_. keeping I m) (\<lambda>_. keeping I m)"
proof -
  have keep: "I (m x')" if "I (m x)" "\<exists>c. R (m x) c \<and> m x' = c \<and> P c" for x x' P
    using st that unfolding stable_def by metis
  have con: "redis_contract m R rd" using st by (simp add: stable_def)
  show "triple (keeping I m) (callE (rd_ZCard rd k)) (\<lambda>_. keeping I m) (\<lambda>_. keeping I m)"
    by (rule triple_keep, erule keep, rule contract_zcard [OF con])
  show "triple (keeping I m) (callE (rd_ZRevRange rd k a b)) (\<lambda>_. keeping I m) (\<lambda>_. keeping I m)"
    by (rule triple_keep, erule keep, rule contract_zrange [OF con])
  show "triple (keeping I m) (callE (rd_ZRevRank rd k mem)) (\<lambda>_. keeping I m) (\<lambda>_. keeping I m)"
    by (rule triple_keep, erule keep, rule contract_zrank [OF con])
qed

lemma keep_eval:
  assumes st: "stable I m R rd" and keeps: "\<And>c. I c \<Longrightarrow> I (snd (s ks as c))"
  shows "triple (keeping I m) (callE (rd_Eval rd s ks as)) (\<lambda>_. keeping I m) (\<lambda>_. keeping I m)"
proof (rule triple_keep)
  fix x r x' assume "I (m x)" and run: "rd_Eval rd s ks as x = (r, x')"
  with st obtain c where c: "I c" "eval_outcome (s ks as) c r (m x')"
    unfolding stable_def using contract_eval [OF _ run] by blast
  then show "I (m x')" using keeps by (auto simp: eval_outcome_def split: sum.splits)
qed

text \<open>Handlers that keep \<open>I\<close> whatever they answer.\<close>

abbreviation (input) "keeps_inv I m h \<equiv> triple (keeping I m) h (\<lambda>_. keeping I m) (\<lambda>_. keeping I m)"

lemma keeps_ret: "keeps_inv I m (retE a)" by (rule triple_ret)
lemma keeps_raise: "keeps_inv I m (raiseE e)" by (rule triple_raise)
lemma keeps_report: "keeps_inv I m (reportE ev)" by (rule triple_report) simp
lemma keeps_now: "keeps_inv I m (nowE f)" by (rule triple_now) simp
lemma keeps_guard: "keeps_inv I m (guardE c)" by (rule triple_guard)
lemma keeps_lift: "keeps_inv I m (liftE r)" by (cases r) (simp_all add: triple_def liftE_def retE_def raiseE_def)
lemma keeps_bind: "keeps_inv I m h \<Longrightarrow> (\<And>a. keeps_inv I m (f a)) \<Longrightarrow> keeps_inv I m (bindE h f)"
  by (rule triple_bind)
lemma keeps_then: "keeps_inv I m h \<Longrightarrow> keeps_inv I m k \<Longrightarrow> keeps_inv I m (thenE h k)"
  by (rule triple_then)
lemma keeps_try: "keeps_inv I m h \<Longrightarrow> keeps_inv I m (tryE h)"
  by (rule triple_try)

lemma keeps_if: "(c \<Longrightarrow> keeps_inv I m h) \<Longrightarrow> (\<not> c \<Longrightarrow> keeps_inv I m k) \<Longrightarrow> keeps_inv I m (if c then h else k)"
  by simp

lemma keeps_sum:
  "(\<And>e. keeps_inv I m (f e)) \<Longrightarrow> (\<And>a. keeps_inv I m (g a)) \<Longrightarrow>
   keeps_inv I m (case r of Inl e \<Rightarrow> f e | Inr a \<Rightarrow> g a)"
  by (cases r) simp_all

lemma keeps_option:
  "keeps_inv I m f \<Longrightarrow> (\<And>a. keeps_inv I m (g a)) \<Longrightarrow> keeps_inv I m (case r of None \<Rightarrow> f | Some a \<Rightarrow> g a)"
  by (cases r) simp_all

lemma keeps_pairs: "(\<And>u v. keeps_inv I m (f u v)) \<Longrightarrow> keeps_inv I m (case a of (u, v) \<Rightarrow> f u v)"
  by (cases a) simp

lemma keeps_pair:
  assumes "\<And>u v. keeps_inv I m (f u v)" and "keeps_inv I m h"
  shows "keeps_inv I m (case a of AnyList [u, v] \<Rightarrow> f u v | _ \<Rightarrow> h)"
proof (cases a)
  case (AnyList l)
  show ?thesis
  proof (cases "\<exists>u v. l = [u, v]")
    case True
    with AnyList assms(1) show ?thesis by auto
  next
    case False
    then have "(case l of [u, v] \<Rightarrow> f u v | _ \<Rightarrow> h) = h" by (simp split: list.split)
    with AnyList assms(2) show ?thesis by (simp only: any.case)
  qed
qed (simp_all only: any.case assms(2))

lemma keeps_lift_bind: "(\<And>a. r = Inr a \<Longrightarrow> keeps_inv I m (f a)) \<Longrightarrow> keeps_inv I m (bindE (liftE r) f)"
  by (cases r) (simp_all add: triple_def liftE_def bindE_def retE_def raiseE_def)

lemma triple_pure: "(p \<Longrightarrow> triple P h Q E) \<Longrightarrow> triple (\<lambda>w. P w \<and> p) h Q E"
  by (simp add: triple_def)

lemmas keeps_intros = keeps_ret keeps_raise keeps_report keeps_now keeps_guard keeps_lift keeps_bind
  keeps_then keeps_try

lemma represents_pair:
  "represents (LTable [LStr s, LStr t]) a \<longleftrightarrow> (\<exists>u v. a = AnyList [u, v] \<and> luaString u = s \<and> luaString v = t \<and>
     represents (LStr s) u \<and> represents (LStr t) v)"
  by (auto simp: luaString_def list_all2_Cons1)

lemma nextScore_owner: "nextScore stored score mode = Inr (nxt, True) \<Longrightarrow> sc_OwnerID nxt = sc_OwnerID score"
  by (auto simp: nextScore_def keep_brief_def split: if_splits sum.splits)

section \<open>Invariants of the boards\<close>

text \<open>
  What the handlers promise about any predicate \<open>I\<close> on the contents of Redis that the three writing
  commands keep: \<open>mem_ok\<close> and \<open>ring_ok\<close> say what it guarantees of a stored member and of a stored
  ring of request ids, and what it needs of those a swap writes.
\<close>

locale board_invariant =
  fixes cfg :: "'x RankConfig" and I :: "rdb \<Rightarrow> bool"
    and mem_ok :: "int64 \<Rightarrow> string \<Rightarrow> bool" and ring_ok :: "string \<Rightarrow> bool"
  assumes read_mem: "I c \<Longrightarrow> Board_Validate b = None \<Longrightarrow>
        hs c (ownerKey cfg b) (owner_arg p) = Some mm \<Longrightarrow> mem_ok p mm"
    and read_ring: "I c \<Longrightarrow> Board_Validate b = None \<Longrightarrow>
        hs c (ownerKey cfg b) (applied_field (owner_arg p)) = Some a \<Longrightarrow> ring_ok a"
    and ring_empty: "ring_ok []"
    and ring_append: "ring_ok a \<Longrightarrow> ring_ok (appendRing a reqID)"
    and mem_new: "sc_OwnerID s = p \<Longrightarrow> mem_ok p (encodeEntry s)"
    and swap_keeps: "I c \<Longrightarrow> Board_Validate b = None \<Longrightarrow>
        swap_applies (ownerKey cfg b) (owner_arg p) expected c \<Longrightarrow> mem_ok p nxt \<Longrightarrow> ring_ok ring \<Longrightarrow>
        I (swapped (boardKey cfg b) (ownerKey cfg b) (owner_arg p) expected nxt reqID ring c)"
    and remove_keeps: "I c \<Longrightarrow> Board_Validate b = None \<Longrightarrow>
        I (removed (boardKey cfg b) (ownerKey cfg b) (owner_arg p) c)"
    and reset_keeps: "I c \<Longrightarrow> Board_Validate b = None \<Longrightarrow> I (cleared [boardKey cfg b, ownerKey cfg b] c)"
begin


lemma readOwner_triple:
  assumes st: "stable I m R (rc_Client cfg)" and b: "Board_Validate b = None"
  shows "triple (keeping I m) (readOwner cfg (ownerKey cfg b) p)
     (\<lambda>(stored, ring) w. keeping I m w \<and> (stored = [] \<or> mem_ok p stored) \<and> ring_ok ring) (\<lambda>_. keeping I m)"
  unfolding readOwner_def
proof (rule triple_bind)
  show "triple (keeping I m) (callE (rd_Eval (rc_Client cfg) readScript [ownerKey cfg b] [owner_arg p]))
     (\<lambda>a w. keeping I m w \<and> (\<exists>u v. a = AnyList [u, v] \<and>
        (luaString u = [] \<or> mem_ok p (luaString u)) \<and> ring_ok (luaString v))) (\<lambda>_. keeping I m)"
  proof (rule triple_eval [OF st])
    fix c a assume c: "I c" and "represents (fst (readScript [ownerKey cfg b] [owner_arg p] c)) a"
    then obtain u v where a: "a = AnyList [u, v]"
      and u: "luaString u = or_empty (hs c (ownerKey cfg b) (owner_arg p))"
      and v: "luaString v = or_empty (hs c (ownerKey cfg b) (applied_field (owner_arg p)))"
      by (auto simp: readScript_def Let_def represents_pair simp del: represents.simps)
    have "luaString u = [] \<or> mem_ok p (luaString u)"
      using read_mem [OF c b] unfolding u by (auto simp: or_empty_def split: option.split)
    moreover have "ring_ok (luaString v)"
      using read_ring [OF c b] ring_empty unfolding v by (auto simp: or_empty_def split: option.split)
    ultimately show "\<exists>u v. a = AnyList [u, v] \<and> (luaString u = [] \<or> mem_ok p (luaString u)) \<and> ring_ok (luaString v)"
      using a by blast
  qed (simp add: readScript_def)
qed (auto simp: triple_def raiseE_def retE_def split: any.splits list.splits)

lemma swap_keeps_inv:
  assumes st: "stable I m R (rc_Client cfg)" and b: "Board_Validate b = None"
    and ok: "mem_ok p nxt" "ring_ok ring"
  shows "keeps_inv I m (rank_swap cfg (boardKey cfg b) (ownerKey cfg b) p expected nxt reqID ring)"
  unfolding rank_swap_def
proof (rule keeps_bind)
  show "keeps_inv I m (callE (rd_Eval (rc_Client cfg) swapScript [boardKey cfg b, ownerKey cfg b]
      [owner_arg p, expected, nxt, reqID, ring]))"
  proof (rule keep_eval [OF st])
    fix c assume "I c"
    then show "I (snd (swapScript [boardKey cfg b, ownerKey cfg b] [owner_arg p, expected, nxt, reqID, ring] c))"
      using swap_keeps [OF _ b _ ok] by (simp add: swapScript_run)
  qed
  fix a
  show "keeps_inv I m (case a of AnyList [f, s] \<Rightarrow> bindE (liftE (luaInt f)) (\<lambda>flag. retE (flag = 1, luaString s))
      | _ \<Rightarrow> raiseE [Foreign ''rank: unexpected swap result''])"
    by (rule keeps_pair) (intro keeps_intros)+
qed

lemma entryFor_keeps: "stable I m R (rc_Client cfg) \<Longrightarrow> keeps_inv I m (entryFor cfg k mem)"
  unfolding entryFor_def by (intro keeps_intros keeps_if keeps_sum triple_reads)

lemma submit_loop_keeps:
  assumes st: "stable I m R (rc_Client cfg)" and b: "Board_Validate b = None"
  shows "keeps_inv I m (submit_loop cfg (boardKey cfg b) (ownerKey cfg b) score mode reqID n)"
proof (induction n)
  case 0
  show ?case unfolding submit_loop.simps by (intro keeps_intros)
next
  case (Suc n)
  have swap: "keeps_inv I m (rank_swap cfg (boardKey cfg b) (ownerKey cfg b) (sc_OwnerID score) stored nxt reqID
      (appendRing ring reqID))"
    if "mem_ok (sc_OwnerID score) nxt" "ring_ok ring" for stored nxt ring
    by (rule swap_keeps_inv [OF st b that(1) ring_append [OF that(2)]])
  have rest: "keeps_inv I m (entryFor cfg (boardKey cfg b) mem)" for mem
    by (rule entryFor_keeps [OF st])
  show ?case
    unfolding submit_loop.simps
  proof (rule triple_bind [OF readOwner_triple [OF st b]], simp only: split_paired_all prod.case, intro triple_pure,
      elim conjE)
    fix stored ring
    assume stored: "stored = [] \<or> mem_ok (sc_OwnerID score) stored" and ring: "ring_ok ring"
    have new: "mem_ok (sc_OwnerID score) (encodeEntry (fst x))" if "nextScore stored score mode = Inr x" "snd x" for x
      using that by (cases x) (auto intro!: mem_new dest: nextScore_owner)
    have old: "mem_ok (sc_OwnerID score) stored" if "nextScore stored score mode = Inr x" "\<not> snd x" for x
      using that stored by (auto simp: nextScore_def)
    show "keeps_inv I m (if reqID \<noteq> [] \<and> ringContains ring reqID
       then thenE (reportE (Replayed ''submit'')) (entryFor cfg (boardKey cfg b) stored)
       else bindE (liftE (nextScore stored score mode)) (\<lambda>(next', changed).
         if \<not> changed
         then thenE (if reqID \<noteq> []
                then thenE (rank_swap cfg (boardKey cfg b) (ownerKey cfg b) (sc_OwnerID score) stored stored reqID
                             (appendRing ring reqID)) (retE ())
                else retE ()) (entryFor cfg (boardKey cfg b) stored)
         else bindE (rank_swap cfg (boardKey cfg b) (ownerKey cfg b) (sc_OwnerID score) stored (encodeEntry next') reqID
                      (appendRing ring reqID)) (\<lambda>(applied, current).
                if applied then thenE (reportE (Accepted ''submit'')) (entryFor cfg (boardKey cfg b) (encodeEntry next'))
                else submit_loop cfg (boardKey cfg b) (ownerKey cfg b) score mode reqID n)))"
      apply (intro keeps_if keeps_lift_bind keeps_then keeps_report rest)
      apply (simp only: split_paired_all prod.case)
      apply (intro keeps_if keeps_bind keeps_then keeps_report rest keeps_ret swap ring)
        apply (erule old, simp)
       apply (drule new, simp, simp)
      apply (simp only: split_paired_all prod.case)
      apply (intro keeps_if keeps_then keeps_report rest Suc)
      done
  qed
qed

lemma Submit_keeps:
  assumes st: "stable I m R (rc_Client cfg)"
  shows "keeps_inv I m (Submit cfg b score mode reqID)"
proof (cases "validateSubmit b score mode reqID")
  case None
  then have b: "Board_Validate b = None" by (auto simp: validateSubmit_def split: option.splits)
  show ?thesis
    unfolding Submit_def
    by (intro keeps_then keeps_guard keeps_bind keeps_if keeps_now keeps_ret submit_loop_keeps [OF st b])
qed (simp add: Submit_def keeps_raise guardE_def)

lemma Remove_keeps:
  assumes st: "stable I m R (rc_Client cfg)"
  shows "keeps_inv I m (board_Remove cfg b p)"
proof (cases "validateOwner b p")
  case None
  then have b: "Board_Validate b = None" by (auto simp: validateOwner_def split: option.splits)
  show ?thesis
    unfolding board_Remove_def
    by (intro keeps_then keeps_guard keeps_ret keep_eval [OF st])
      (simp add: removeScript_run remove_keeps b)
qed (simp add: board_Remove_def keeps_raise guardE_def)

lemma Reset_keeps:
  assumes st: "stable I m R (rc_Client cfg)"
  shows "keeps_inv I m (board_Reset cfg b)"
proof (cases "Board_Validate b")
  case None
  show ?thesis
    unfolding board_Reset_def
    by (intro keeps_then keeps_guard keeps_ret triple_del [OF st])
      (use reset_keeps [OF _ None] in \<open>simp add: cleared_def\<close>)
qed (simp add: board_Reset_def keeps_raise guardE_def)

lemma Page_keeps:
  assumes st: "stable I m R (rc_Client cfg)"
  shows "keeps_inv I m (board_Page cfg b offset limit)"
  unfolding board_Page_def Let_def
  by (intro keeps_then keeps_guard keeps_bind keeps_lift keeps_report keeps_ret triple_reads [OF st])

lemma Rank_keeps:
  assumes st: "stable I m R (rc_Client cfg)"
  shows "keeps_inv I m (board_Rank cfg b p)"
proof (cases "validateOwner b p")
  case None
  then have b: "Board_Validate b = None" by (auto simp: validateOwner_def split: option.splits)
  have "keeps_inv I m (readOwner cfg (ownerKey cfg b) p)"
    by (rule triple_weaken [OF readOwner_triple [OF st b]]) auto
  then show ?thesis
    unfolding board_Rank_def
    by (intro keeps_then keeps_guard keeps_bind keeps_pairs keeps_if keeps_ret keeps_raise entryFor_keeps [OF st])
qed (simp add: board_Rank_def keeps_raise guardE_def)

lemma Around_keeps:
  assumes st: "stable I m R (rc_Client cfg)"
  shows "keeps_inv I m (board_Around cfg b p radius)"
  unfolding board_Around_def Let_def
  by (intro keeps_then keeps_guard keeps_bind keeps_option keeps_raise Rank_keeps [OF st] Page_keeps [OF st])

lemma Size_keeps:
  assumes st: "stable I m R (rc_Client cfg)"
  shows "keeps_inv I m (board_Size cfg b)"
  unfolding board_Size_def by (intro keeps_then keeps_guard triple_reads [OF st])

lemmas operations = Submit_keeps Remove_keeps Reset_keeps Page_keeps Rank_keeps Around_keeps Size_keeps

end

section \<open>Every owner has one member\<close>

interpretation sync: board_invariant cfg "boards_in_sync cfg" entry_of "\<lambda>_. True" for cfg :: "'x RankConfig"
proof
  fix c b p mm
  assume "boards_in_sync cfg c" "Board_Validate b = None" "hs c (ownerKey cfg b) (owner_arg p) = Some mm"
  then show "entry_of p mm" by (simp add: boards_in_sync_def in_sync_def)
next
  fix s :: Score and p
  assume "sc_OwnerID s = p"
  then show "entry_of p (encodeEntry s)" by (auto simp: entry_of_def)
next
  fix c b p expected nxt ring reqID
  assume c: "boards_in_sync cfg c" and b: "Board_Validate b = None"
    and a: "swap_applies (ownerKey cfg b) (owner_arg p) expected c" "entry_of p nxt"
  let ?c' = "swapped (boardKey cfg b) (ownerKey cfg b) (owner_arg p) expected nxt reqID ring c"
  show "boards_in_sync cfg ?c'"
    unfolding boards_in_sync_def
  proof (intro allI impI)
    fix d assume d: "Board_Validate d = None"
    show "in_sync cfg d ?c'"
    proof (cases "d = b")
      case True
      then show ?thesis using swapped_sync [OF _ a] c b by (simp add: boards_in_sync_def)
    next
      case False
      show ?thesis
        unfolding in_sync_cong [OF swapped_frame [OF d b False]] using c d by (simp add: boards_in_sync_def)
    qed
  qed
next
  fix c b p
  assume c: "boards_in_sync cfg c" and b: "Board_Validate b = None"
  let ?c' = "removed (boardKey cfg b) (ownerKey cfg b) (owner_arg p) c"
  show "boards_in_sync cfg ?c'"
    unfolding boards_in_sync_def
  proof (intro allI impI)
    fix d assume d: "Board_Validate d = None"
    show "in_sync cfg d ?c'"
    proof (cases "d = b")
      case True
      have "in_sync cfg b c" using c b by (simp add: boards_in_sync_def)
      from removed_sync [OF this] True show ?thesis by simp
    next
      case False
      show ?thesis
        unfolding in_sync_cong [OF removed_frame [OF d b False]] using c d by (simp add: boards_in_sync_def)
    qed
  qed
next
  fix c b
  assume c: "boards_in_sync cfg c" and b: "Board_Validate b = None"
  show "boards_in_sync cfg (cleared [boardKey cfg b, ownerKey cfg b] c)"
    unfolding boards_in_sync_def
  proof (intro allI impI)
    fix d assume d: "Board_Validate d = None"
    show "in_sync cfg d (cleared [boardKey cfg b, ownerKey cfg b] c)"
      using c d b by (cases "d = b") (simp_all add: in_sync_def boards_in_sync_def cleared_board boardKey_inject ownerKey_inject)
  qed
qed simp_all

end
