(* ===== verification/RankAlone.thy ===== *)
theory RankAlone
  imports RankBoards
begin

text \<open>
  \<open>service/rank\<close> without interference: what each call of a lone process answers and leaves, the
  position of a member in the ranking, and the four ways one attempt of a submit can end.
\<close>

section \<open>Calls of a lone process\<close>

text \<open>With equality for the interference, a call sees what the process left.\<close>

abbreviation (input) "db m w \<equiv> m (rw_State w)"

lemma callE_iff: "callE f w = (r, w') \<longleftrightarrow> (\<exists>x'. f (rw_State w) = (r, x') \<and> w' = w\<lparr>rw_State := x'\<rparr>)"
  by (auto simp: callE_def split: prod.splits)

lemma evalE_alone:
  assumes "redis_contract m (=) rd" "callE (rd_Eval rd s ks as) w = (r, w')"
  shows "eval_outcome (s ks as) (db m w) r (db m w')"
  using assms contract_eval [OF assms(1), of s ks as "rw_State w"] by (auto simp: callE_iff)

lemma luaInt_represents: "represents (LInt n) a \<Longrightarrow> n = 0 \<or> n = 1 \<Longrightarrow> luaInt a = Inr n"
  by (auto simp: luaInt_def ParseInt_FormatInt)

lemma represents_read:
  "represents (LTable [LStr s, LStr t]) a \<Longrightarrow> \<exists>u v. a = AnyList [u, v] \<and> luaString u = s \<and> luaString v = t"
  by (auto simp: represents_pair simp del: represents.simps)

lemma readOwner_alone:
  assumes con: "redis_contract m (=) (rc_Client cfg)" and run: "readOwner cfg okey p w = (r, w')"
  obtains (error) e where "r = Inl e" "store_error e" "db m w' = db m w"
  | (read) "r = Inr (or_empty (hs (db m w) okey (owner_arg p)), or_empty (hs (db m w) okey (applied_field (owner_arg p))))"
      "db m w' = db m w"
proof -
  obtain q w1 where c: "callE (rd_Eval (rc_Client cfg) readScript [okey] [owner_arg p]) w = (q, w1)" by force
  note o = evalE_alone [OF con c]
  show thesis
  proof (cases q)
    case (Inl e)
    with o c run show thesis
      by (intro error [of e]) (auto simp: eval_outcome_def readScript_def readOwner_def bindE_def Let_def)
  next
    case (Inr a)
    with o obtain u v where "a = AnyList [u, v]"
      "luaString u = or_empty (hs (db m w) okey (owner_arg p))"
      "luaString v = or_empty (hs (db m w) okey (applied_field (owner_arg p)))" "db m w1 = db m w"
      by (auto simp: eval_outcome_def readScript_def Let_def simp del: represents.simps dest!: represents_read)
    with Inr c run show thesis
      by (intro read) (auto simp: readOwner_def bindE_def)
  qed
qed

lemma swap_alone:
  assumes con: "redis_contract m (=) (rc_Client cfg)"
    and run: "rank_swap cfg zkey okey p expected nxt reqID ring w = (r, w')"
    and ap: "swap_applies okey (owner_arg p) expected (db m w)"
  defines "c' \<equiv> swapped zkey okey (owner_arg p) expected nxt reqID ring (db m w)"
  obtains (error) e where "r = Inl e" "store_error e" "db m w' = db m w \<or> db m w' = c'"
  | (swapped) "r = Inr (True, nxt)" "db m w' = c'"
proof -
  obtain q w1 where c: "callE (rd_Eval (rc_Client cfg) swapScript [zkey, okey]
      [owner_arg p, expected, nxt, reqID, ring]) w = (q, w1)" by force
  note o = evalE_alone [OF con c, unfolded eval_outcome_def swapScript_run if_P [OF ap] fst_conv snd_conv, folded c'_def]
  show thesis
  proof (cases q)
    case (Inl e)
    with o c run show thesis by (intro error [of e]) (auto simp: rank_swap_def bindE_def)
  next
    case (Inr a)
    with o obtain u v where a: "a = AnyList [u, v]" "represents (LInt 1) u" "represents (LStr nxt) v"
      by (auto simp: list_all2_Cons1)
    have "luaInt u = Inr 1" by (rule luaInt_represents [OF a(2)]) simp
    moreover have "luaString v = nxt" using a(3) by (auto simp: luaString_def)
    ultimately have "rank_swap cfg zkey okey p expected nxt reqID ring w = (Inr (True, nxt), w1)"
      using Inr a(1) c by (simp add: rank_swap_def bindE_def liftE_def retE_def)
    with run have "r = Inr (True, nxt)" "w' = w1" by simp_all
    with o Inr show thesis by (intro swapped) simp_all
  qed
qed

lemma entryFor_alone:
  assumes con: "redis_contract m (=) (rc_Client cfg)" and run: "entryFor cfg zkey mem w = (r, w')"
  obtains (error) e where "r = Inl e" "store_error e \<or> mem = [] \<and> e = [ErrRankNotFound] \<or> decodeEntry mem = Inl e"
      "db m w' = db m w"
  | (gone) s where "r = Inr \<lparr>re_Rank = 0, re_Score = s\<rparr>" "decodeEntry mem = Inr s"
      "mem |\<notin>| zs (db m w) zkey" "db m w' = db m w" "mem \<noteq> []"
  | (found) s n where "r = Inr \<lparr>re_Rank = int n + 1, re_Score = s\<rparr>" "decodeEntry mem = Inr s"
      "n < length (descending (zs (db m w) zkey))" "descending (zs (db m w) zkey) ! n = mem" "db m w' = db m w"
      "mem \<noteq> []"
proof (cases "mem = []")
  case True
  with run show thesis by (intro error) (auto simp: entryFor_def)
next
  case False
  show thesis
  proof (cases "decodeEntry mem")
    case (Inl e)
    with False run show thesis by (intro error) (auto simp: entryFor_def bindE_def liftE_def raiseE_def)
  next
    case (Inr s)
    obtain q x' where c: "rd_ZRevRank (rc_Client cfg) zkey mem (rw_State w) = (q, x')" by force
    with contract_zrank [OF con c] have o: "m x' = db m w" "rank_outcome zkey mem (db m w) q" by auto
    show thesis
    proof (cases q)
      case (Inl e)
      have e: "entryFor cfg zkey mem w =
          (if Is e RedisNil then (Inr \<lparr>re_Rank = 0, re_Score = s\<rparr>, w\<lparr>rw_State := x'\<rparr>) else (Inl e, w\<lparr>rw_State := x'\<rparr>))"
        using c False \<open>decodeEntry mem = Inr s\<close> Inl
        by (simp add: entryFor_def bindE_def tryE_def callE_def liftE_def retE_def raiseE_def)
      show thesis
      proof (cases "Is e RedisNil")
        case True
        with e run have "r = Inr \<lparr>re_Rank = 0, re_Score = s\<rparr>" "w' = w\<lparr>rw_State := x'\<rparr>" by simp_all
        with o Inl True False \<open>decodeEntry mem = Inr s\<close> show thesis
          by (intro gone [of s]) (simp_all add: rank_outcome_def Is_def)
      next
        case nonil: False
        with e run have "r = Inl e" "w' = w\<lparr>rw_State := x'\<rparr>" by simp_all
        with o Inl show thesis by (intro error [of e]) (simp_all add: rank_outcome_def)
      qed
    next
      case (Inr n)
      have "entryFor cfg zkey mem w = (Inr \<lparr>re_Rank = n + 1, re_Score = s\<rparr>, w\<lparr>rw_State := x'\<rparr>)"
        using c False \<open>decodeEntry mem = Inr s\<close> Inr
        by (simp add: entryFor_def bindE_def tryE_def callE_def liftE_def retE_def)
      with run have "r = Inr \<lparr>re_Rank = n + 1, re_Score = s\<rparr>" "w' = w\<lparr>rw_State := x'\<rparr>" by simp_all
      with o Inr False \<open>decodeEntry mem = Inr s\<close> show thesis
        by (intro found [of "nat n" s]) (simp_all add: rank_outcome_def, linarith)
    qed
  qed
qed

section \<open>Positions in the ranking\<close>

lemma descending_set [simp]: "set (descending s) = fset s"
  by (simp add: descending_def sorted_list_of_fset.rep_eq)

lemma descending_sorted: "sorted_wrt (>) (descending s)"
  by (simp add: descending_def sorted_list_of_fset.rep_eq sorted_wrt_rev strict_sorted_iff)

lemma descending_length: "length (descending s) = fcard s"
  by (simp add: descending_def sorted_list_of_fset.rep_eq fcard.rep_eq)

lemma position_counts:
  fixes xs :: "'a::linorder list"
  assumes "sorted_wrt (>) xs" "n < length xs"
  shows "card {x \<in> set xs. xs ! n < x} = n"
  using assms
proof (induction xs arbitrary: n)
  case (Cons y ys)
  show ?case
  proof (cases n)
    case 0
    then have "{x \<in> set (y # ys). (y # ys) ! n < x} = {}" using Cons.prems(1) by auto
    then show ?thesis using 0 by simp
  next
    case (Suc k)
    then have k: "k < length ys" using Cons.prems(2) by simp
    then have "ys ! k < y" using Cons.prems(1) by simp
    then have "{x \<in> set (y # ys). (y # ys) ! n < x} = insert y {x \<in> set ys. ys ! k < x}" using Suc by auto
    moreover have "y \<notin> {x \<in> set ys. ys ! k < x}" using Cons.prems(1) by auto
    moreover have "card {x \<in> set ys. ys ! k < x} = k" using Cons.IH Cons.prems(1) k by simp
    ultimately show ?thesis using Suc by simp
  qed
qed simp

text \<open>The rank of a score: one more than the number of owners that rank before it.\<close>

definition rank_in :: "(int64 \<Rightarrow> Score option) \<Rightarrow> Score \<Rightarrow> int" where
  "rank_in B s = 1 + int (card {p. \<exists>t. B p = Some t \<and> ranks_before t s})"

lemma sync_board:
  assumes "in_sync cfg b c"
  shows "hs c (ownerKey cfg b) (owner_arg p) = map_option encodeEntry (board_of cfg b c p)"
    and "board_of cfg b c p = Some s \<Longrightarrow> sc_OwnerID s = p"
proof -
  have "\<exists>s. sc_OwnerID s = p \<and> m = encodeEntry s" if "hs c (ownerKey cfg b) (owner_arg p) = Some m" for m
    using assms that unfolding in_sync_def entry_of_def by blast
  then show "hs c (ownerKey cfg b) (owner_arg p) = map_option encodeEntry (board_of cfg b c p)"
    and "board_of cfg b c p = Some s \<Longrightarrow> sc_OwnerID s = p"
    by (cases "hs c (ownerKey cfg b) (owner_arg p)"; force simp: board_of_def decode_encode)+
qed

lemma sync_members:
  assumes "in_sync cfg b c"
  shows "fset (zs c (boardKey cfg b)) = encodeEntry ` ran (board_of cfg b c)"
proof -
  have "m \<in> fset (zs c (boardKey cfg b)) \<longleftrightarrow> (\<exists>p t. board_of cfg b c p = Some t \<and> m = encodeEntry t)" for m
    using assms unfolding in_sync_def sync_board(1) [OF assms] by auto
  then show ?thesis unfolding ran_def by blast
qed

lemma rank_position:
  assumes s: "in_sync cfg b c" and t: "board_of cfg b c p = Some t"
    and n: "n < length (descending (zs c (boardKey cfg b)))" "descending (zs c (boardKey cfg b)) ! n = encodeEntry t"
  shows "int n + 1 = rank_in (board_of cfg b c) t"
proof -
  let ?B = "board_of cfg b c" and ?d = "descending (zs c (boardKey cfg b))"
  have own: "?B q = Some u \<Longrightarrow> sc_OwnerID u = q" for q u by (rule sync_board(2) [OF s])
  have "n = card {x \<in> set ?d. encodeEntry t < x}"
    using position_counts [OF descending_sorted n(1)] n(2) by simp
  also have "{x \<in> set ?d. encodeEntry t < x} = (\<lambda>q. encodeEntry (the (?B q))) ` {q. \<exists>u. ?B q = Some u \<and> ranks_before u t}"
    (is "?L = ?f ` ?Q")
  proof
    show "?L \<subseteq> ?f ` ?Q"
    proof
      fix x assume "x \<in> ?L"
      then obtain q u where u: "?B q = Some u" "x = encodeEntry u" "encodeEntry t < encodeEntry u"
        using sync_members [OF s] by (auto simp: ran_def)
      then have "q \<noteq> p" using t by auto
      then have "sc_OwnerID u \<noteq> sc_OwnerID t" using own [OF u(1)] own [OF t] by simp
      then have "ranks_before u t" using u(3) member_order by blast
      with u show "x \<in> ?f ` ?Q" by (auto intro!: rev_image_eqI [of q])
    qed
    show "?f ` ?Q \<subseteq> ?L"
    proof
      fix x assume "x \<in> ?f ` ?Q"
      then obtain q u where u: "?B q = Some u" "ranks_before u t" "x = encodeEntry u" by auto
      then have "u \<noteq> t" using ranks_before_asym by blast
      then have "q \<noteq> p" using u(1) t by auto
      then have "sc_OwnerID u \<noteq> sc_OwnerID t" using own [OF u(1)] own [OF t] by simp
      then have "encodeEntry t < encodeEntry u" using u(2) member_order by blast
      then show "x \<in> ?L" using u sync_members [OF s] by (auto simp: ran_def)
    qed
  qed
  also have "card (?f ` ?Q) = card ?Q"
  proof (rule card_image, rule inj_onI)
    fix q r assume "q \<in> ?Q" "r \<in> ?Q" "?f q = ?f r"
    then show "q = r" using own by (auto simp del: ) (metis own)
  qed
  finally show ?thesis by (simp add: rank_in_def)
qed

section \<open>What a submit stores\<close>

text \<open>The stored score as a function of the one before, over scores instead of members.\<close>

definition apply_mode :: "UpdateMode \<Rightarrow> Score option \<Rightarrow> Score \<Rightarrow> Score" where
  "apply_mode mode old s =
     (case old of
        None \<Rightarrow> s
      | Some cur \<Rightarrow>
          if mode = UpdateAdd then keep_brief cur (s\<lparr>sc_Value := sc_Value cur + sc_Value s\<rparr>)
          else if mode = UpdateMax \<and>
              (sint (sc_Value s) < sint (sc_Value cur) \<or>
               sc_Value s = sc_Value cur \<and> sint (sc_Tie cur) \<le> sint (sc_Tie s)) then cur
          else keep_brief cur s)"

lemma nextScore_apply:
  assumes "UpdateMode_valid mode"
  shows "\<exists>changed. nextScore (or_empty (map_option encodeEntry old)) s mode = Inr (apply_mode mode old s, changed) \<and>
    (\<not> changed \<longrightarrow> old = Some (apply_mode mode old s))"
  using assms
  by (cases old) (auto simp: nextScore_def apply_mode_def or_empty_def decode_encode UpdateMode_valid_def
      UpdateSet_def UpdateMax_def UpdateAdd_def)

definition with_tie :: "'x RankConfig \<Rightarrow> 'x rworld \<Rightarrow> Score \<Rightarrow> Score" where
  "with_tie cfg w s =
     (if sc_Tie s = 0 then s\<lparr>sc_Tie := word_of_int (UnixMilli (rc_Now cfg (env_ticks w)))\<rparr> else s)"

lemma with_tie_owner [simp]: "sc_OwnerID (with_tie cfg w s) = sc_OwnerID s"
  by (simp add: with_tie_def)

definition ring_of :: "'x RankConfig \<Rightarrow> Board \<Rightarrow> rdb \<Rightarrow> int64 \<Rightarrow> string" where
  "ring_of cfg b c p = or_empty (hs c (ownerKey cfg b) (applied_field (owner_arg p)))"

lemma Submit_unfold:
  assumes "Submit cfg b score mode reqID w = (r, w')"
  obtains (refused) e where "validateSubmit b score mode reqID = Some e" "r = Inl e" "w' = w"
  | (run) w1 where "validateSubmit b score mode reqID = None" "rw_State w1 = rw_State w"
      "submit_loop cfg (boardKey cfg b) (ownerKey cfg b) (with_tie cfg w score) mode reqID 8 w1 = (r, w')"
proof (cases "validateSubmit b score mode reqID")
  case (Some e)
  with assms show thesis by (intro refused [of e]) (simp_all add: Submit_def guardE_def)
next
  case None
  let ?w1 = "if sc_Tie score = 0 then w\<lparr>env_ticks := Suc (env_ticks w)\<rparr> else w"
  have "submit_loop cfg (boardKey cfg b) (ownerKey cfg b) (with_tie cfg w score) mode reqID 8 ?w1 = (r, w')"
    using assms None by (auto simp: Submit_def with_tie_def maxSubmitAttempts_def bindE_def retE_def thenE_def nowE_def split: if_splits)
  with None show thesis by (intro run [of ?w1]) (auto split: if_splits)
qed

lemma applied_self: "hs c okey f = (if e = [] then None else Some e) \<Longrightarrow> swap_applies okey f e c"
  by (simp add: swap_applies_def)

lemma swapped_hs:
  "hs (swapped zkey okey f e nxt reqID ring c) okey g =
     (if reqID \<noteq> [] \<and> g = applied_field f then Some ring else if g = f then Some nxt else hs c okey g)"
  by (simp add: swapped_def)

lemma stored_applies:
  assumes "in_sync cfg b c"
  shows "swap_applies (ownerKey cfg b) (owner_arg p) (or_empty (map_option encodeEntry (board_of cfg b c p))) c"
  by (cases "board_of cfg b c p") (simp_all add: swap_applies_def or_empty_def sync_board(1) [OF assms])

lemma swapped_board:
  fixes reqID ring expected
  assumes s: "in_sync cfg b c" and ap: "swap_applies (ownerKey cfg b) (owner_arg p) expected c"
    and o: "sc_OwnerID t = p"
  defines "c' \<equiv> swapped (boardKey cfg b) (ownerKey cfg b) (owner_arg p) expected (encodeEntry t) reqID ring c"
  shows "board_of cfg b c' = (board_of cfg b c)(p \<mapsto> t)" and "in_sync cfg b c'"
    and "encodeEntry t |\<in>| zs c' (boardKey cfg b)"
    and "reqID \<noteq> [] \<Longrightarrow> ring_of cfg b c' p = ring"
proof -
  have "entry_of p (encodeEntry t)" using o by (auto simp: entry_of_def)
  then show sync: "in_sync cfg b c'" unfolding c'_def by (rule swapped_sync [OF s ap])
  show "board_of cfg b c' = (board_of cfg b c)(p \<mapsto> t)"
    by (rule ext) (simp add: board_of_def c'_def swapped_hs decode_encode)
  show "encodeEntry t |\<in>| zs c' (boardKey cfg b)" by (simp add: c'_def swapped_def)
  show "ring_of cfg b c' p = ring" if "reqID \<noteq> []" using that by (simp add: ring_of_def c'_def swapped_hs or_empty_def)
qed

text \<open>An entry read back for a member that is on the board has the member's position.\<close>

lemma entryFor_on_board:
  assumes con: "redis_contract m (=) (rc_Client cfg)" and run: "entryFor cfg (boardKey cfg b) (encodeEntry t) w = (Inr e, w')"
    and s: "in_sync cfg b (db m w)" and t: "board_of cfg b (db m w) p = Some t"
  shows "e = \<lparr>re_Rank = rank_in (board_of cfg b (db m w)) t, re_Score = t\<rparr> \<and> db m w' = db m w"
  using con run
proof (cases rule: entryFor_alone)
  case (gone u)
  have "encodeEntry t |\<in>| zs (db m w) (boardKey cfg b)" using sync_members [OF s] t by (auto simp: ran_def)
  with gone show ?thesis by simp
next
  case (found u n)
  then show ?thesis using rank_position [OF s t] by (simp add: decode_encode)
qed simp

lemma apply_mode_owner:
  "(\<And>u. old = Some u \<Longrightarrow> sc_OwnerID u = sc_OwnerID s) \<Longrightarrow> sc_OwnerID (apply_mode mode old s) = sc_OwnerID s"
  by (cases old) (auto simp: apply_mode_def keep_brief_def)

lemma decode_error: "decodeEntry mem = Inl e \<Longrightarrow> store_error e"
  unfolding decodeEntry_def Let_def
  by (simp split: if_splits option.splits) (auto simp: store_error_def)

lemma entryFor_error:
  assumes "redis_contract m (=) (rc_Client cfg)" "entryFor cfg zkey mem w = (Inl e, w')"
  shows "\<not> Is e ErrSubmitConflict \<and> db m w' = db m w"
  using assms
proof (cases rule: entryFor_alone)
  case (error e')
  then show ?thesis using decode_error store_error_not_coded by auto
qed simp_all

lemma entry_after:
  assumes con: "redis_contract m (=) (rc_Client cfg)" and run: "entryFor cfg (boardKey cfg b) (encodeEntry t) w = (r, w')"
    and s: "in_sync cfg b (db m w)" and t: "board_of cfg b (db m w) p = Some t"
  shows "((\<exists>e. r = Inl e \<and> \<not> Is e ErrSubmitConflict) \<or>
      r = Inr \<lparr>re_Rank = rank_in (board_of cfg b (db m w)) t, re_Score = t\<rparr>) \<and> db m w' = db m w"
proof (cases r)
  case (Inl e)
  then show ?thesis using entryFor_error [OF con] run by blast
next
  case (Inr e)
  then show ?thesis using entryFor_on_board [OF con _ s t] run by blast
qed

text \<open>
  The answers of a submit that is not disturbed: one attempt decides. \<open>submitted\<close> is what Redis
  holds once the swap took effect.
\<close>

definition submitted :: "'x RankConfig \<Rightarrow> Board \<Rightarrow> Score \<Rightarrow> UpdateMode \<Rightarrow> string \<Rightarrow> rdb \<Rightarrow> rdb" where
  "submitted cfg b score mode reqID c =
     (let p = sc_OwnerID score; old = board_of cfg b c p in
      swapped (boardKey cfg b) (ownerKey cfg b) (owner_arg p) (or_empty (map_option encodeEntry old))
        (encodeEntry (apply_mode mode old score)) reqID (appendRing (ring_of cfg b c p) reqID) c)"

lemma submit_loop_alone:
  assumes con: "redis_contract m (=) (rc_Client cfg)" and run:
    "submit_loop cfg (boardKey cfg b) (ownerKey cfg b) score mode reqID (Suc n) w = (r, w')"
    and s: "in_sync cfg b (db m w)" and mode: "UpdateMode_valid mode"
  defines "B \<equiv> board_of cfg b (db m w)" and "ring \<equiv> ring_of cfg b (db m w) (sc_OwnerID score)"
    and "t \<equiv> apply_mode mode (board_of cfg b (db m w) (sc_OwnerID score)) score"
  obtains (failed) e where "r = Inl e" "\<not> Is e ErrSubmitConflict"
      "db m w' = db m w \<or> \<not> ringContains ring reqID \<and> db m w' = submitted cfg b score mode reqID (db m w)"
  | (replayed) u where "ringContains ring reqID" "B (sc_OwnerID score) = Some u"
      "r = Inr \<lparr>re_Rank = rank_in B u, re_Score = u\<rparr>" "db m w' = db m w"
  | (unchanged) "\<not> ringContains ring reqID" "reqID = []" "B (sc_OwnerID score) = Some t"
      "r = Inr \<lparr>re_Rank = rank_in B t, re_Score = t\<rparr>" "db m w' = db m w"
  | (written) "\<not> ringContains ring reqID" "db m w' = submitted cfg b score mode reqID (db m w)"
      "r = Inr \<lparr>re_Rank = rank_in (B(sc_OwnerID score \<mapsto> t)) t, re_Score = t\<rparr>"
proof -
  let ?p = "sc_OwnerID score" and ?z = "boardKey cfg b" and ?o = "ownerKey cfg b"
  let ?stored = "or_empty (map_option encodeEntry (B ?p))"
  obtain q w1 where rd: "readOwner cfg ?o ?p w = (q, w1)" by force
  from con rd show thesis
  proof (cases rule: readOwner_alone)
    case (error e)
    with run rd show thesis by (intro failed [of e]) (auto simp: bindE_def store_error_not_coded)
  next
    case read
    have q: "q = Inr (?stored, ring)"
      using read sync_board(1) [OF s, of ?p] by (simp add: B_def ring_def ring_of_def)
    have w1: "db m w1 = db m w" using read by simp
    have loop: "submit_loop cfg ?z ?o score mode reqID (Suc n) w =
      (if reqID \<noteq> [] \<and> ringContains ring reqID
       then thenE (reportE (Replayed ''submit'')) (entryFor cfg ?z ?stored)
       else bindE (liftE (nextScore ?stored score mode)) (\<lambda>(next', changed).
         if \<not> changed
         then thenE (if reqID \<noteq> []
                then thenE (rank_swap cfg ?z ?o ?p ?stored ?stored reqID (appendRing ring reqID)) (retE ())
                else retE ()) (entryFor cfg ?z ?stored)
         else bindE (rank_swap cfg ?z ?o ?p ?stored (encodeEntry next') reqID (appendRing ring reqID))
                (\<lambda>(applied, current).
                   if applied then thenE (reportE (Accepted ''submit'')) (entryFor cfg ?z (encodeEntry next'))
                   else submit_loop cfg ?z ?o score mode reqID n))) w1"
      using rd q by (simp add: bindE_def)
    have sub: "submitted cfg b score mode reqID (db m w) =
        swapped ?z ?o (owner_arg ?p) ?stored (encodeEntry t) reqID (appendRing ring reqID) (db m w)"
      by (simp add: submitted_def Let_def B_def ring_def t_def)
    have ap: "swap_applies ?o (owner_arg ?p) ?stored (db m w1)"
      unfolding w1 B_def by (rule stored_applies [OF s])
    have own: "sc_OwnerID t = ?p"
      unfolding t_def by (rule apply_mode_owner) (rule sync_board(2) [OF s])
    show thesis
    proof (cases "reqID \<noteq> [] \<and> ringContains ring reqID")
      case True
      then have run': "entryFor cfg ?z ?stored (w1\<lparr>env_events := env_events w1 @ [Replayed ''submit'']\<rparr>) = (r, w')"
        using run loop by simp
      show thesis
      proof (cases "B ?p")
        case None
        with run' show thesis by (intro failed [of "[ErrRankNotFound]"]) (auto simp: entryFor_def or_empty_def w1)
      next
        case (Some u)
        with run' have "entryFor cfg ?z (encodeEntry u) (w1\<lparr>env_events := env_events w1 @ [Replayed ''submit'']\<rparr>) = (r, w')"
          by (simp add: or_empty_def)
        from entry_after [OF con this, of ?p] s w1 Some
        consider e where "r = Inl e" "\<not> Is e ErrSubmitConflict" "db m w' = db m w"
          | "r = Inr \<lparr>re_Rank = rank_in B u, re_Score = u\<rparr>" "db m w' = db m w"
          by (auto simp: B_def)
        then show thesis
        proof cases
          case 1
          then show thesis by (intro failed) simp_all
        next
          case 2
          with True Some show thesis by (intro replayed) simp_all
        qed
      qed
    next
      case False
      obtain changed where nx: "nextScore ?stored score mode = Inr (t, changed)"
        "\<not> changed \<longrightarrow> B ?p = Some t"
        using nextScore_apply [OF mode, of "B ?p" score] unfolding t_def B_def by blast
      note run1 = run [unfolded loop if_not_P [OF False] nx(1) liftE_def sum.case bindE_ret prod.case]
      have notring: "\<not> ringContains ring reqID" using False by (auto simp: ringContains_def)
      show thesis
      proof (cases changed)
        case True
        then obtain q2 w2 where sw: "rank_swap cfg ?z ?o ?p ?stored (encodeEntry t) reqID (appendRing ring reqID) w1 = (q2, w2)"
          by force
        from con sw ap show thesis
        proof (cases rule: swap_alone)
          case (error e)
          with run1 True sw show thesis
            by (intro failed [of e]) (auto simp: bindE_def store_error_not_coded w1 sub notring)
        next
          case swapped
          with run1 True sw have run2: "entryFor cfg ?z (encodeEntry t) (w2\<lparr>env_events := env_events w2 @ [Accepted ''submit'']\<rparr>) = (r, w')"
            by (simp add: bindE_def)
          note sb = swapped_board [OF s ap [unfolded w1] own, of reqID "appendRing ring reqID"]
          note db2 = swapped(2) [unfolded w1]
          have "board_of cfg b (db m w2) = B(?p \<mapsto> t)" "in_sync cfg b (db m w2)"
            using sb unfolding db2 B_def by simp_all
          with entry_after [OF con run2, of ?p]
          consider e where "r = Inl e" "\<not> Is e ErrSubmitConflict" "db m w' = db m w2"
            | "r = Inr \<lparr>re_Rank = rank_in (B(?p \<mapsto> t)) t, re_Score = t\<rparr>" "db m w' = db m w2"
            by auto
          then show thesis
          proof cases
            case 1
            then show thesis by (intro failed) (simp_all add: db2 sub notring)
          next
            case 2
            show thesis
              by (rule written) (use 2 db2 notring sub in simp_all)
          qed
        qed
      next
        case same: False
        with nx have Bt: "B ?p = Some t" by simp
        then have st: "?stored = encodeEntry t" by (simp add: or_empty_def)
        show thesis
        proof (cases "reqID = []")
          case True
          with run1 same st have run2: "entryFor cfg ?z (encodeEntry t) w1 = (r, w')" by (simp add: liftE_def)
          from entry_after [OF con run2, of ?p] s w1 Bt
          consider e where "r = Inl e" "\<not> Is e ErrSubmitConflict" "db m w' = db m w"
            | "r = Inr \<lparr>re_Rank = rank_in B t, re_Score = t\<rparr>" "db m w' = db m w"
            by (auto simp: B_def)
          then show thesis
          proof cases
            case 1
            then show thesis by (intro failed) simp_all
          next
            case 2
            with True Bt notring show thesis by (intro unchanged) simp_all
          qed
        next
          case id: False
          obtain q2 w2 where sw: "rank_swap cfg ?z ?o ?p ?stored ?stored reqID (appendRing ring reqID) w1 = (q2, w2)"
            by force
          from con sw ap show thesis
          proof (cases rule: swap_alone)
            case (error e)
            with run1 same id sw show thesis
              by (intro failed [of e]) (auto simp: bindE_def thenE_def store_error_not_coded w1 sub notring st)
          next
            case swapped
            with sw st have "rank_swap cfg ?z ?o ?p (encodeEntry t) (encodeEntry t) reqID (appendRing ring reqID) w1 =
                (Inr (True, encodeEntry t), w2)" by simp
            with run1 same id st have run2: "entryFor cfg ?z (encodeEntry t) w2 = (r, w')"
              by (simp add: thenE_def bindE_def retE_def)
            note sb = swapped_board [OF s ap [unfolded w1] own, of reqID "appendRing ring reqID"]
            note db2 = swapped(2) [unfolded w1 st]
            have "board_of cfg b (db m w2) = B(?p \<mapsto> t)" "in_sync cfg b (db m w2)"
              unfolding db2 B_def using sb [unfolded st] by simp_all
            with entry_after [OF con run2, of ?p]
            consider e where "r = Inl e" "\<not> Is e ErrSubmitConflict" "db m w' = db m w2"
              | "r = Inr \<lparr>re_Rank = rank_in (B(?p \<mapsto> t)) t, re_Score = t\<rparr>" "db m w' = db m w2"
              by auto
            then show thesis
            proof cases
              case 1
              then show thesis by (intro failed) (simp_all add: db2 sub notring st)
            next
              case 2
              show thesis
                by (rule written) (use 2 db2 notring st sub in simp_all)
            qed
          qed
        qed
      qed
    qed
  qed
qed

end
