(* ===== verification/RankProps.thy ===== *)
theory RankProps
  imports RankAlone
begin

text \<open>
  The properties of \<open>service/rank\<close>: the members carry the scores in ranking order, sorted set and
  hash never disagree, an undisturbed submit refines the board as a map from owner to score, pages
  and windows are slices of the ranking, a redelivered request is not applied again, and the max mode
  keeps the best score. Hypotheses on Redis are \<open>redis_contract\<close>; the witnesses use a Redis in memory.
\<close>


section \<open>A Redis in memory\<close>

fun any_of :: "lua \<Rightarrow> any" where
  "any_of (LInt n) = AnyInt64 n"
| "any_of (LStr s) = AnyString s"
| "any_of (LTable vs) = AnyList (map any_of vs)"

lemma represents_any_of: "represents v (any_of v)"
proof (induction v)
  case (LTable vs)
  then have "list_all2 represents vs (map any_of vs)" by (simp add: list.rel_map list.rel_refl_strong)
  then show ?case by simp
qed simp_all

definition position :: "string \<Rightarrow> string list \<Rightarrow> nat" where
  "position x xs = length (takeWhile (\<lambda>y. y \<noteq> x) xs)"

lemma position_nth: "x \<in> set xs \<Longrightarrow> position x xs < length xs \<and> xs ! position x xs = x"
  by (induction xs) (auto simp: position_def)

definition mem_redis :: "rdb redis" where
  "mem_redis =
     \<lparr>rd_Eval = (\<lambda>s ks as c. (Inr (any_of (fst (s ks as c))), snd (s ks as c))),
      rd_Del = (\<lambda>ks c. (Inr (int (length ks)), fold DEL ks c)),
      rd_ZCard = (\<lambda>k c. (Inr (int (fcard (zs c k))), c)),
      rd_ZRevRange = (\<lambda>k a b c. (Inr (index_range a b (descending (zs c k))), c)),
      rd_ZRevRank = (\<lambda>k mem c.
        (if mem |\<in>| zs c k then Inr (int (position mem (descending (zs c k)))) else Inl [RedisNil], c))\<rparr>"

lemma mem_redis_contract: "redis_contract (\<lambda>c. c) (=) mem_redis"
  by (auto simp: redis_contract_def mem_redis_def eval_outcome_def represents_any_of del_outcome_def
      rank_outcome_def position_nth store_error_def split: if_splits)

definition ex_rank_cfg :: "rdb RankConfig" where
  "ex_rank_cfg = \<lparr>rc_Client = mem_redis, rc_Prefix = ''rank'', rc_Now = (\<lambda>n. 1700000000000000000 + int n)\<rparr>"

definition ex_rank_world :: "rdb rworld" where
  "ex_rank_world = \<lparr>env_ticks = 0, env_events = [], rw_State = \<lparr>zs = (\<lambda>_. {||}), hs = (\<lambda>_ _. None)\<rparr>\<rparr>"

definition ex_board :: Board where
  "ex_board = \<lparr>bo_ID = ''arena'', bo_Scope = ''server'', bo_ScopeID = 7, bo_Season = 1\<rparr>"

definition ex_score :: "int64 \<Rightarrow> int64 \<Rightarrow> Score" where
  "ex_score p v = \<lparr>sc_OwnerID = p, sc_Value = v, sc_Tie = 5, sc_Brief = []\<rparr>"

lemma ex_board_valid [simp]: "Board_Validate ex_board = None"
  by (simp add: Board_Validate_def ex_board_def Scope_valid_def ScopeServer_def ScopeGlobal_def)

lemma ex_contract: "redis_contract (\<lambda>c. c) (=) (rc_Client ex_rank_cfg)"
  by (simp add: ex_rank_cfg_def mem_redis_contract)

lemma ex_empty_sync: "boards_in_sync ex_rank_cfg (rw_State ex_rank_world)"
  by (simp add: boards_in_sync_def in_sync_def ex_rank_world_def)


lemma descending_single: "descending {|x|} = [x]"
  by (simp add: descending_def sorted_list_of_fset.rep_eq)

lemmas rank_run = Submit_def readOwner_def rank_swap_def entryFor_def handler_simps handler_defs callE_def
  mem_redis_def swapScript_run readScript_def or_empty_def luaString_def luaInt_def
  ringContains_def nextScore_def decode_encode

lemmas submit_loop_8 = submit_loop.simps(2) [where attempts = 7, unfolded Suc_numeral semiring_norm]

lemma ex_submit: "\<exists>w'. Submit ex_rank_cfg ex_board (ex_score 3 10) UpdateSet [] ex_rank_world =
   (Inr \<lparr>re_Rank = 1, re_Score = ex_score 3 10\<rparr>, w')"
proof -
  have v: "validateSubmit ex_board (ex_score 3 10) UpdateSet [] = None" "sc_Tie (ex_score 3 10) = 5"
    by (simp_all add: validateSubmit_def ex_score_def UpdateMode_valid_def UpdateAdd_def UpdateSet_def MaxBriefBytes_def)
  have z: "zs (rw_State ex_rank_world) k = {||}" "hs (rw_State ex_rank_world) k f = None" for k f
    by (simp_all add: ex_rank_world_def)
  have c: "rc_Client ex_rank_cfg = mem_redis" by (simp add: ex_rank_cfg_def)
  show ?thesis
    by (simp add: rank_run v z c maxSubmitAttempts_def submit_loop_8 swap_applies_def swapped_def position_def descending_single)
qed


lemma ex_submit_add: "\<exists>e w'. Submit ex_rank_cfg ex_board (ex_score 3 10) UpdateAdd ''r1'' ex_rank_world = (Inr e, w')"
proof -
  have v: "validateSubmit ex_board (ex_score 3 10) UpdateAdd ''r1'' = None" "sc_Tie (ex_score 3 10) = 5"
    by (simp_all add: validateSubmit_def ex_score_def UpdateMode_valid_def UpdateAdd_def UpdateSet_def MaxBriefBytes_def)
  have z: "zs (rw_State ex_rank_world) k = {||}" "hs (rw_State ex_rank_world) k f = None" for k f
    by (simp_all add: ex_rank_world_def)
  have c: "rc_Client ex_rank_cfg = mem_redis" by (simp add: ex_rank_cfg_def)
  show ?thesis
    by (simp add: rank_run v z c maxSubmitAttempts_def submit_loop_8 swap_applies_def swapped_def position_def descending_single)
qed

section \<open>The order of the members\<close>

text \<open>C37: A score is recovered from the member that stores it, whatever its signs and its brief, and different scores have different members; no member is the empty string the swap script takes for none.\<close>
theorem member_round_trip:
  "decodeEntry (encodeEntry s) = Inr s \<and> (encodeEntry s = encodeEntry t \<longleftrightarrow> s = t) \<and> encodeEntry s \<noteq> []"
  by (simp add: decode_encode)

text \<open>C17: The byte order Redis keeps the members in is the ranking: of two owners the one with the greater member has the larger value, or the same value and the smaller tie, or both the same and the smaller owner id, as signed numbers.\<close>
theorem byte_order_is_ranking:
  assumes "sc_OwnerID a \<noteq> sc_OwnerID b"
  shows "encodeEntry b < encodeEntry a \<longleftrightarrow> ranks_before a b"
  using assms by (rule member_order)

lemma byte_order_is_ranking_witness:
  "encodeEntry (ex_score 4 (- 9)) < encodeEntry (ex_score 3 10) \<and>
   (encodeEntry (ex_score 4 (- 9)) < encodeEntry (ex_score 3 10)) = ranks_before (ex_score 3 10) (ex_score 4 (- 9))"
proof -
  have "sc_OwnerID (ex_score 3 10) \<noteq> sc_OwnerID (ex_score 4 (- 9))" by (simp add: ex_score_def)
  note e = byte_order_is_ranking [OF this]
  have "ranks_before (ex_score 3 10) (ex_score 4 (- 9))" by (simp add: ranks_before_def ex_score_def)
  with e show ?thesis by simp
qed

section \<open>Sorted set and hash\<close>

text \<open>C1: No operation lets the sorted set of a board and its owner hash disagree, whatever other processes do between its calls as long as they keep the same invariant, and whether the calls succeed or fail with or without effect: every owner on a board has exactly one member, the encoding of a score of that owner.\<close>
theorem boards_stay_in_sync:
  fixes cfg :: "'x RankConfig" and m :: "'x \<Rightarrow> rdb" and w :: "'x rworld"
  assumes con: "redis_contract m R (rc_Client cfg)"
    and rely: "\<And>c c'. R c c' \<Longrightarrow> boards_in_sync cfg c \<Longrightarrow> boards_in_sync cfg c'"
    and w: "boards_in_sync cfg (m (rw_State w))"
  shows "boards_in_sync cfg (m (rw_State (snd (Submit cfg b score mode reqID w)))) \<and>
    boards_in_sync cfg (m (rw_State (snd (board_Remove cfg b p w)))) \<and>
    boards_in_sync cfg (m (rw_State (snd (board_Reset cfg b w)))) \<and>
    boards_in_sync cfg (m (rw_State (snd (board_Page cfg b offset limit w)))) \<and>
    boards_in_sync cfg (m (rw_State (snd (board_Rank cfg b p w)))) \<and>
    boards_in_sync cfg (m (rw_State (snd (board_Around cfg b p radius w)))) \<and>
    boards_in_sync cfg (m (rw_State (snd (board_Size cfg b w))))"
proof -
  have st: "stable (boards_in_sync cfg) m R (rc_Client cfg)" using con rely by (simp add: stable_def)
  show ?thesis
    by (intro conjI; rule triple_snd [where P = "\<lambda>w. boards_in_sync cfg (m (rw_State w))" and
            Q = "\<lambda>w. boards_in_sync cfg (m (rw_State w))", OF _ w]; rule sync.operations [OF st])
qed

lemma boards_stay_in_sync_witness:
  "boards_in_sync ex_rank_cfg
     (rw_State (snd (Submit ex_rank_cfg ex_board (ex_score 3 10) UpdateSet [] ex_rank_world)))"
  using boards_stay_in_sync [OF ex_contract _ ex_empty_sync] by blast

section \<open>Submit\<close>

lemma valid_submit: "validateSubmit b score mode reqID = None \<Longrightarrow> Board_Validate b = None \<and> UpdateMode_valid mode"
  by (auto simp: validateSubmit_def split: option.splits if_splits)

lemma submitted_board:
  assumes s: "in_sync cfg b c"
  shows "board_of cfg b (submitted cfg b score mode reqID c) =
      (board_of cfg b c)(sc_OwnerID score \<mapsto> apply_mode mode (board_of cfg b c (sc_OwnerID score)) score)"
    and "in_sync cfg b (submitted cfg b score mode reqID c)"
proof -
  let ?p = "sc_OwnerID score"
  have own: "sc_OwnerID (apply_mode mode (board_of cfg b c ?p) score) = ?p"
    by (rule apply_mode_owner) (rule sync_board(2) [OF s])
  note sb = swapped_board [OF s stored_applies [OF s] own]
  show "board_of cfg b (submitted cfg b score mode reqID c) =
      (board_of cfg b c)(?p \<mapsto> apply_mode mode (board_of cfg b c ?p) score)"
    and "in_sync cfg b (submitted cfg b score mode reqID c)"
    using sb(1,2) unfolding submitted_def Let_def by simp_all
qed

lemma submitted_frame:
  assumes "Board_Validate d = None" "Board_Validate b = None" "d \<noteq> b"
  shows "board_of cfg d (submitted cfg b score mode reqID c) = board_of cfg d c"
proof -
  have "hs (submitted cfg b score mode reqID c) (ownerKey cfg d) = hs c (ownerKey cfg d)"
    by (simp only: submitted_def Let_def swapped_frame(1) [OF assms])
  then show ?thesis by (simp add: board_of_def fun_eq_iff)
qed

text \<open>C2: Submit of a process that is not disturbed refines the board as a map from owner to score: unless the request id is one of those already applied, the owner's score becomes what the mode makes of the old and the new one, with the submit time for an unset tie; nobody else's score and no other board changes; and the answer is the stored score with its exact rank, one more than the number of owners ranking before it.\<close>
theorem submit_refines:
  assumes con: "redis_contract m (=) (rc_Client cfg)" and sync: "boards_in_sync cfg (m (rw_State w))"
    and run: "Submit cfg b score mode reqID w = (Inr e, w')"
  shows "board_of cfg b (m (rw_State w')) =
      (board_of cfg b (m (rw_State w)))(sc_OwnerID score \<mapsto> re_Score e) \<and>
    Some (re_Score e) =
      (if ringContains (ring_of cfg b (m (rw_State w)) (sc_OwnerID score)) reqID
       then board_of cfg b (m (rw_State w)) (sc_OwnerID score)
       else Some (apply_mode mode (board_of cfg b (m (rw_State w)) (sc_OwnerID score)) (with_tie cfg w score))) \<and>
    re_Rank e = rank_in (board_of cfg b (m (rw_State w'))) (re_Score e) \<and>
    (\<forall>d. Board_Validate d = None \<and> d \<noteq> b \<longrightarrow>
       board_of cfg d (m (rw_State w')) = board_of cfg d (m (rw_State w)))"
  using run
proof (cases rule: Submit_unfold)
  case (run w1)
  note v = valid_submit [OF run(1)]
  have s: "in_sync cfg b (m (rw_State w1))" using sync v run(2) by (simp add: boards_in_sync_def)
  have loop: "submit_loop cfg (boardKey cfg b) (ownerKey cfg b) (with_tie cfg w score) mode reqID (Suc 7) w1 = (Inr e, w')"
    using run(3) by simp
  from con loop s conjunct2 [OF v] show ?thesis
  proof (cases rule: submit_loop_alone)
    case (replayed u)
    then show ?thesis using run(2) by (auto simp: fun_upd_idem)
  next
    case unchanged
    then show ?thesis using run(2) by (auto simp: fun_upd_idem)
  next
    case written
    then show ?thesis
      using run(2) submitted_board(1) [OF s] submitted_frame [OF _ conjunct1 [OF v]] by auto
  qed simp_all
qed simp_all

lemma submit_refines_witness:
  "\<exists>e w'. Submit ex_rank_cfg ex_board (ex_score 3 10) UpdateSet [] ex_rank_world = (Inr e, w') \<and>
     board_of ex_rank_cfg ex_board (rw_State w') 3 = Some (re_Score e)"
proof -
  obtain w' where r: "Submit ex_rank_cfg ex_board (ex_score 3 10) UpdateSet [] ex_rank_world =
      (Inr \<lparr>re_Rank = 1, re_Score = ex_score 3 10\<rparr>, w')"
    using ex_submit by blast
  from submit_refines [OF ex_contract ex_empty_sync r] r show ?thesis by (auto simp: ex_score_def)
qed

text \<open>A loop whose first round does not lose its compare-and-swap ends in that round, whatever its bound.\<close>

lemma submit_loop_first_round:
  assumes "submit_loop cfg zkey okey score mode reqID (Suc 0) w = (r, w')"
    and "\<And>e. r = Inl e \<Longrightarrow> \<not> Is e ErrSubmitConflict"
  shows "submit_loop cfg zkey okey score mode reqID (Suc n) w = (r, w')"
proof -
  let ?last = "\<lambda>next' rounds (applied, current). if applied
      then thenE (reportE (Accepted ''submit'')) (entryFor cfg zkey (encodeEntry next'))
      else submit_loop cfg zkey okey score mode reqID rounds"
  have last: "?last next' n x v = (r, w')" if "?last next' 0 x v = (r, w')" for next' x v
    using that assms(2) by (cases x) (auto simp: thenE_def bindE_def reportE_def modifyE_def raiseE_def split: if_splits)
  have loop: "bindE m (?last next' n) v = (r, w')" if "bindE m (?last next' 0) v = (r, w')" for m next' v
  proof -
    obtain q v' where "m v = (q, v')" by force
    with that last [of next' _ v'] show ?thesis by (cases q) (simp_all add: bindE_def del: submit_loop.simps)
  qed
  show ?thesis
    using assms(1) loop unfolding submit_loop.simps(2)
    by (auto simp: bindE_def [of "readOwner _ _ _"] bindE_def [of "liftE _"] liftE_def split: prod.splits sum.splits if_splits)
qed

text \<open>C22: A submit that is not disturbed never loses its compare-and-swap: whatever it answers, it is not the conflict error, and a submit that passes validation ends in the first round of its retry loop: with any bound of at least one round the loop ends the same way.\<close>
theorem submit_alone_never_conflicts:
  assumes con: "redis_contract m (=) (rc_Client cfg)" and sync: "boards_in_sync cfg (m (rw_State w))"
    and run: "Submit cfg b score mode reqID w = (r, w')"
  shows "(\<forall>e. r = Inl e \<longrightarrow> \<not> Is e ErrSubmitConflict) \<and>
    (validateSubmit b score mode reqID = None \<longrightarrow>
      (\<exists>w1. rw_State w1 = rw_State w \<and>
        (\<forall>n. submit_loop cfg (boardKey cfg b) (ownerKey cfg b) (with_tie cfg w score) mode reqID (Suc n) w1 = (r, w'))))"
  using run
proof (cases rule: Submit_unfold)
  case (refused e')
  then show ?thesis
    by (auto simp: validateSubmit_def Board_Validate_def split: option.splits if_splits)
next
  case (run w1)
  note v = valid_submit [OF run(1)]
  have s: "in_sync cfg b (m (rw_State w1))" using sync v run(2) by (simp add: boards_in_sync_def)
  let ?loop = "\<lambda>n. submit_loop cfg (boardKey cfg b) (ownerKey cfg b) (with_tie cfg w score) mode reqID n w1"
  obtain r1 w2 where one: "?loop (Suc 0) = (r1, w2)" by force
  from con one s conjunct2 [OF v] have calm: "\<not> Is e ErrSubmitConflict" if "r1 = Inl e" for e
    by (cases rule: submit_loop_alone) (use that in simp_all)
  note rounds = submit_loop_first_round [OF one calm]
  from rounds [of 7] run(3) have "r1 = r" "w2 = w'" by simp_all
  with calm rounds run(2) show ?thesis by blast
qed

lemma submit_alone_never_conflicts_witness:
  "\<exists>r w' w1. Submit ex_rank_cfg ex_board (ex_score 3 10) UpdateSet [] ex_rank_world = (r, w') \<and>
     r = Inr \<lparr>re_Rank = 1, re_Score = ex_score 3 10\<rparr> \<and>
     submit_loop ex_rank_cfg (boardKey ex_rank_cfg ex_board) (ownerKey ex_rank_cfg ex_board)
       (with_tie ex_rank_cfg ex_rank_world (ex_score 3 10)) UpdateSet [] (Suc 0) w1 = (r, w')"
proof -
  obtain w' where r: "Submit ex_rank_cfg ex_board (ex_score 3 10) UpdateSet [] ex_rank_world =
      (Inr \<lparr>re_Rank = 1, re_Score = ex_score 3 10\<rparr>, w')"
    using ex_submit by blast
  have "validateSubmit ex_board (ex_score 3 10) UpdateSet [] = None"
    by (simp add: validateSubmit_def ex_score_def UpdateMode_valid_def UpdateAdd_def UpdateSet_def MaxBriefBytes_def)
  with submit_alone_never_conflicts [OF ex_contract ex_empty_sync r] r show ?thesis by blast
qed

section \<open>Pages\<close>

definition is_ranking :: "(int64 \<Rightarrow> Score option) \<Rightarrow> Score list \<Rightarrow> bool" where
  "is_ranking B xs \<longleftrightarrow> sorted_wrt ranks_before xs \<and> set xs = ran B"

lemma encoded_list: "set ms \<subseteq> range encodeEntry \<Longrightarrow> \<exists>xs. ms = map encodeEntry xs"
proof (induction ms)
  case (Cons a ms)
  then obtain xs x where "ms = map encodeEntry xs" "a = encodeEntry x" by auto
  then show ?case by (intro exI [of _ "x # xs"]) simp
qed simp

lemma descending_ranking:
  assumes "in_sync cfg b c"
  obtains xs where "descending (zs c (boardKey cfg b)) = map encodeEntry xs" "is_ranking (board_of cfg b c) xs"
proof -
  let ?B = "board_of cfg b c"
  obtain xs where xs: "descending (zs c (boardKey cfg b)) = map encodeEntry xs"
    using encoded_list [of "descending (zs c (boardKey cfg b))"] sync_members [OF assms] by (auto simp: ran_def)
  have "encodeEntry ` set xs = encodeEntry ` ran ?B"
    using sync_members [OF assms] descending_set [of "zs c (boardKey cfg b)"] xs by simp
  then have set: "set xs = ran ?B" by (rule inj_image_eq_iff [OF injI, THEN iffD1, rotated]) simp
  have "sorted_wrt (\<lambda>x y. encodeEntry y < encodeEntry x) xs"
    using descending_sorted [of "zs c (boardKey cfg b)"] unfolding xs sorted_wrt_map by simp
  then have "sorted_wrt ranks_before xs"
  proof (rule sorted_wrt_mono_rel [rotated])
    fix x y assume xy: "x \<in> set xs" "y \<in> set xs" "encodeEntry y < encodeEntry x"
    then obtain p q where "?B p = Some x" "?B q = Some y" using set by (auto simp: ran_def)
    moreover from this have "p \<noteq> q" using xy(3) by auto
    ultimately have "sc_OwnerID x \<noteq> sc_OwnerID y" using sync_board(2) [OF assms] by blast
    then show "ranks_before x y" using xy(3) member_order by blast
  qed
  with set show thesis by (intro that [OF xs]) (simp add: is_ranking_def)
qed

lemma page_entries_map:
  "page_entries pos (map encodeEntry ts) =
     Inr (map (\<lambda>i. \<lparr>re_Rank = pos + int i + 1, re_Score = ts ! i\<rparr>) [0 ..< length ts])"
proof (induction ts arbitrary: pos)
  case (Cons t ts)
  have "map (\<lambda>i. \<lparr>re_Rank = pos + int i + 1, re_Score = (t # ts) ! i\<rparr>) [0 ..< length (t # ts)] =
      \<lparr>re_Rank = pos + 1, re_Score = t\<rparr> #
        map (\<lambda>i. \<lparr>re_Rank = pos + 1 + int i + 1, re_Score = ts ! i\<rparr>) [0 ..< length ts]"
    by (simp only: length_Cons map_upt_Suc) (simp add: algebra_simps)
  then show ?case using Cons by (simp add: decode_encode)
qed simp

lemma Page_run:
  assumes con: "redis_contract m (=) (rc_Client cfg)" and run: "board_Page cfg b offset limit w = (Inr pg, w')"
  shows "Board_Validate b = None \<and> 0 \<le> offset \<and> 0 < limit \<and> limit \<le> 200 \<and> db m w' = db m w \<and>
    page_entries offset (index_range offset (i64 (offset + limit - 1)) (descending (zs (db m w) (boardKey cfg b)))) =
      Inr (pg_Entries pg) \<and> pg_Total pg = int (fcard (zs (db m w) (boardKey cfg b)))"
proof -
  have v: "Board_Validate b = None"
    using run by (cases "Board_Validate b") (simp_all add: board_Page_def guardE_def)
  moreover have "validateRange offset limit = None"
    using run v by (cases "validateRange offset limit") (simp_all add: board_Page_def guardE_def)
  ultimately have v: "Board_Validate b = None" "validateRange offset limit = None" .
  obtain q x1 where q: "rd_ZRevRange (rc_Client cfg) (boardKey cfg b) offset (i64 (offset + limit - 1)) (rw_State w) = (q, x1)"
    by force
  obtain t x2 where t: "rd_ZCard (rc_Client cfg) (boardKey cfg b) x1 = (t, x2)" by force
  note cs = contract_zrange [OF con q] contract_zcard [OF con t]
  note run' = run [unfolded board_Page_def Let_def, simplified v guardE_None thenE_ret]
  show ?thesis
    using run' v q t cs
    by (auto simp: bindE_def callE_def liftE_def retE_def raiseE_def validateRange_def RankMaxPageSize_def
        split: sum.splits if_splits)
qed

text \<open>A page is the requested slice of the ranking: its scores are those at the positions from offset on, at most limit (and never more than 200) of them, each with its position as rank, the total is the number of owners on the board, and reading changes nothing.\<close>
theorem page_is_slice:
  assumes con: "redis_contract m (=) (rc_Client cfg)" and sync: "boards_in_sync cfg (m (rw_State w))"
    and run: "board_Page cfg b offset limit w = (Inr pg, w')" and range: "offset + limit \<le> 2 ^ 63"
  shows "\<exists>xs. is_ranking (board_of cfg b (m (rw_State w))) xs \<and>
    map re_Score (pg_Entries pg) = take (nat limit) (drop (nat offset) xs) \<and>
    map re_Rank (pg_Entries pg) = map (\<lambda>i. offset + int i + 1) [0 ..< length (pg_Entries pg)] \<and>
    pg_Total pg = int (length xs) \<and> length (pg_Entries pg) \<le> 200 \<and> m (rw_State w') = m (rw_State w)"
proof -
  note p = Page_run [OF con run]
  then have s: "in_sync cfg b (m (rw_State w))" using sync by (simp add: boards_in_sync_def)
  from s obtain xs where xs: "descending (zs (m (rw_State w)) (boardKey cfg b)) = map encodeEntry xs"
    "is_ranking (board_of cfg b (m (rw_State w))) xs" by (rule descending_ranking)
  have "index_range offset (i64 (offset + limit - 1)) (map encodeEntry xs) =
      map encodeEntry (take (nat limit) (drop (nat offset) xs))"
    using p range by (simp add: i64_id index_range_def Let_def take_map drop_map)
  with p xs(1) have "Inr (pg_Entries pg) =
      Inr (map (\<lambda>i. \<lparr>re_Rank = offset + int i + 1, re_Score = take (nat limit) (drop (nat offset) xs) ! i\<rparr>)
        [0 ..< length (take (nat limit) (drop (nat offset) xs))])"
    by (simp add: page_entries_map)
  then have e: "pg_Entries pg =
      map (\<lambda>i. \<lparr>re_Rank = offset + int i + 1, re_Score = take (nat limit) (drop (nat offset) xs) ! i\<rparr>)
        [0 ..< length (take (nat limit) (drop (nat offset) xs))]" by (rule sum.inject(2) [THEN iffD1])
  have "map re_Score (pg_Entries pg) = take (nat limit) (drop (nat offset) xs)"
    unfolding e by (rule nth_equalityI) simp_all
  moreover have "map re_Rank (pg_Entries pg) = map (\<lambda>i. offset + int i + 1) [0 ..< length (pg_Entries pg)]"
    unfolding e by simp
  moreover have "length xs = fcard (zs (m (rw_State w)) (boardKey cfg b))"
    using descending_length [of "zs (m (rw_State w)) (boardKey cfg b)"] xs(1) by simp
  moreover have "length (pg_Entries pg) \<le> 200"
  proof -
    have "nat limit \<le> 200" using p by linarith
    then show ?thesis unfolding e by (simp add: min.coboundedI2)
  qed
  ultimately show ?thesis using xs(2) p by auto
qed

lemma page_is_slice_witness:
  "\<exists>pg w'. board_Page ex_rank_cfg ex_board 0 10 ex_rank_world = (Inr pg, w') \<and> pg_Total pg = 0"
proof -
  have z: "zs (rw_State ex_rank_world) k = {||}" for k by (simp add: ex_rank_world_def)
  have d: "descending {||} = []" by (simp add: descending_def sorted_list_of_fset.rep_eq)
  have c: "rc_Client ex_rank_cfg = mem_redis" by (simp add: ex_rank_cfg_def)
  have "\<exists>pg w'. board_Page ex_rank_cfg ex_board 0 10 ex_rank_world = (Inr pg, w')"
    by (simp add: board_Page_def validateRange_def RankMaxPageSize_def handler_defs reportE_def callE_def c
        mem_redis_def z d index_range_def Let_def i64_def)
  then obtain pg w' where r: "board_Page ex_rank_cfg ex_board 0 10 ex_rank_world = (Inr pg, w')" by blast
  have "(0 :: int) + 10 \<le> 2 ^ 63" by simp
  from page_is_slice [OF ex_contract ex_empty_sync r this] obtain xs where
    "is_ranking (board_of ex_rank_cfg ex_board (rw_State ex_rank_world)) xs" "pg_Total pg = int (length xs)" by blast
  moreover have "board_of ex_rank_cfg ex_board (rw_State ex_rank_world) = Map.empty"
    by (simp add: board_of_def ex_rank_world_def fun_eq_iff)
  ultimately have "pg_Total pg = 0" by (simp add: is_ranking_def)
  with r show ?thesis by blast
qed

lemma bindE_value:
  assumes "bindE m f w = (Inr a, w')"
  obtains x w1 where "m w = (Inr x, w1)" "f x w1 = (Inr a, w')"
  using assms by (auto elim: bindE_cases)

lemma Rank_run:
  assumes con: "redis_contract m (=) (rc_Client cfg)" and sync: "boards_in_sync cfg (db m w)"
    and run: "board_Rank cfg b p w = (Inr (Some e), w')"
  shows "Board_Validate b = None \<and> db m w' = db m w \<and>
    (\<exists>t. board_of cfg b (db m w) p = Some t \<and> e = \<lparr>re_Rank = rank_in (board_of cfg b (db m w)) t, re_Score = t\<rparr>)"
proof -
  have "validateOwner b p = None"
    using run by (cases "validateOwner b p") (simp_all add: board_Rank_def guardE_def)
  then have b: "Board_Validate b = None" by (simp add: validateOwner_def split: option.splits)
  have s: "in_sync cfg b (db m w)" using sync b by (simp add: boards_in_sync_def)
  obtain q w1 where rd: "readOwner cfg (ownerKey cfg b) p w = (q, w1)" by force
  from con rd show ?thesis
  proof (cases rule: readOwner_alone)
    case (error e')
    with run rd \<open>validateOwner b p = None\<close> show ?thesis by (simp add: board_Rank_def bindE_def)
  next
    case read
    let ?m = "or_empty (hs (db m w) (ownerKey cfg b) (owner_arg p))"
    have r1: "(if ?m = [] then retE None
        else bindE (entryFor cfg (boardKey cfg b) ?m) (\<lambda>entry. retE (Some entry))) w1 = (Inr (Some e), w')"
      using run rd read(1) \<open>validateOwner b p = None\<close> by (simp add: board_Rank_def bindE_def)
    then have ne: "?m \<noteq> []" by (auto simp: retE_def)
    then obtain t where t: "board_of cfg b (db m w) p = Some t" "?m = encodeEntry t"
      using sync_board(1) [OF s, of p] by (cases "board_of cfg b (db m w) p") (auto simp: or_empty_def)
    from r1 ne have "bindE (entryFor cfg (boardKey cfg b) (encodeEntry t)) (\<lambda>entry. retE (Some entry)) w1 = (Inr (Some e), w')"
      using t(2) by simp
    then have "entryFor cfg (boardKey cfg b) (encodeEntry t) w1 = (Inr e, w')"
      by (rule bindE_value) simp
    from entryFor_on_board [OF con this, of p] s t(1) read(2) b show ?thesis by simp
  qed
qed

text \<open>The rank of an owner is its place in the ranking.\<close>

lemma rank_in_place:
  assumes s: "in_sync cfg b c" and xs: "descending (zs c (boardKey cfg b)) = map encodeEntry xs"
    and t: "board_of cfg b c p = Some t"
  obtains n where "n < length xs" "xs ! n = t" "rank_in (board_of cfg b c) t = int n + 1"
proof -
  have "encodeEntry t \<in> set (map encodeEntry xs)"
    using sync_members [OF s] t descending_set [of "zs c (boardKey cfg b)"] unfolding xs by (auto simp: ran_def)
  then obtain n where n: "n < length xs" "xs ! n = t"
    by (auto simp: in_set_conv_nth)
  with rank_position [OF s t, of n] xs show thesis by (intro that [of n]) simp_all
qed

text \<open>The window around an owner contains the owner's own entry, with its rank, and at most radius entries on either side of it.\<close>
theorem around_shows_owner:
  assumes con: "redis_contract m (=) (rc_Client cfg)" and sync: "boards_in_sync cfg (m (rw_State w))"
    and run: "board_Around cfg b p radius w = (Inr pg, w')"
    and small: "int (fcard (zs (m (rw_State w)) (boardKey cfg b))) < 2 ^ 62"
  shows "\<exists>e \<in> set (pg_Entries pg). board_of cfg b (m (rw_State w)) p = Some (re_Score e) \<and>
    re_Rank e = rank_in (board_of cfg b (m (rw_State w))) (re_Score e) \<and>
    int (length (pg_Entries pg)) \<le> 2 * radius + 1"
proof -
  have rad: "0 < radius" "radius \<le> 100"
    using run by (auto simp: board_Around_def validateRadius_def RankMaxPageSize_def guardE_def split: if_splits)
  have "board_Around cfg b p radius = bindE (board_Rank cfg b p) (\<lambda>found.
        case found of
          None \<Rightarrow> raiseE [ErrRankNotFound]
        | Some entry \<Rightarrow>
            let offset = re_Rank entry - 1 - radius in
            board_Page cfg b (if offset < 0 then 0 else offset) (radius * 2 + 1))"
    using rad by (simp add: board_Around_def validateRadius_def RankMaxPageSize_def)
  with run obtain found w1 where f: "board_Rank cfg b p w = (Inr found, w1)"
    "(case found of None \<Rightarrow> raiseE [ErrRankNotFound]
      | Some entry \<Rightarrow> let offset = re_Rank entry - 1 - radius in
          board_Page cfg b (if offset < 0 then 0 else offset) (radius * 2 + 1)) w1 = (Inr pg, w')"
    by (auto elim: bindE_value)
  then obtain e where e: "found = Some e" by (cases found) simp_all
  from Rank_run [OF con sync f(1) [unfolded e]] obtain t where
    b: "Board_Validate b = None" and w1: "db m w1 = db m w" and t: "board_of cfg b (db m w) p = Some t"
    "e = \<lparr>re_Rank = rank_in (board_of cfg b (db m w)) t, re_Score = t\<rparr>" by blast
  have s: "in_sync cfg b (db m w)" using sync b by (simp add: boards_in_sync_def)
  let ?off = "if re_Rank e - 1 - radius < 0 then 0 else re_Rank e - 1 - radius"
  have pg: "board_Page cfg b ?off (radius * 2 + 1) w1 = (Inr pg, w')" using f(2) e by (simp add: Let_def)
  from s obtain xs where xs: "descending (zs (db m w) (boardKey cfg b)) = map encodeEntry xs" by (rule descending_ranking)
  from rank_in_place [OF s xs t(1)] obtain n where n: "n < length xs" "xs ! n = t"
    "rank_in (board_of cfg b (db m w)) t = int n + 1" .
  have len: "length xs = fcard (zs (db m w) (boardKey cfg b))"
    using descending_length [of "zs (db m w) (boardKey cfg b)"] xs by simp
  note p = Page_run [OF con pg, unfolded w1]
  have off: "?off = int (n - nat radius)" using n(3) t(2) rad by (simp add: nat_diff_distrib)
  have i64: "i64 (?off + (radius * 2 + 1) - 1) = ?off + radius * 2"
    unfolding off using rad small n(1) len by (intro trans [OF i64_id]) simp_all
  have "index_range ?off (i64 (?off + (radius * 2 + 1) - 1)) (map encodeEntry xs) =
      map encodeEntry (take (2 * nat radius + 1) (drop (n - nat radius) xs))"
    unfolding i64 unfolding off using rad by (simp add: index_range_def Let_def take_map drop_map nat_add_distrib nat_mult_distrib mult.commute)
  with p xs have "Inr (pg_Entries pg) = page_entries ?off
      (map encodeEntry (take (2 * nat radius + 1) (drop (n - nat radius) xs)))" by simp
  then have en: "pg_Entries pg = map (\<lambda>i. \<lparr>re_Rank = int (n - nat radius) + int i + 1,
        re_Score = take (2 * nat radius + 1) (drop (n - nat radius) xs) ! i\<rparr>)
      [0 ..< length (take (2 * nat radius + 1) (drop (n - nat radius) xs))]"
    unfolding page_entries_map off by (rule sum.inject(2) [THEN iffD1])
  let ?i = "n - (n - nat radius)"
  have i: "?i < length (take (2 * nat radius + 1) (drop (n - nat radius) xs))"
    using n(1) rad unfolding length_take length_drop min_less_iff_conj by linarith
  have "\<lparr>re_Rank = int n + 1, re_Score = t\<rparr> \<in> set (pg_Entries pg)"
    unfolding en set_map image_iff
    by (rule bexI [of _ ?i]) (use n rad i in \<open>simp_all add: of_nat_diff\<close>)
  moreover have "int (length (pg_Entries pg)) \<le> 2 * radius + 1" unfolding en using rad by simp
  ultimately show ?thesis using t n(3) by force
qed

text \<open>The example board once one score is on it.\<close>

lemma ex_one_entry:
  obtains w :: "rdb rworld" where "boards_in_sync ex_rank_cfg (rw_State w)"
    "zs (rw_State w) (boardKey ex_rank_cfg ex_board) = {|encodeEntry (ex_score 3 10)|}"
    "hs (rw_State w) (ownerKey ex_rank_cfg ex_board) (owner_arg 3) = Some (encodeEntry (ex_score 3 10))"
    "hs (rw_State w) (ownerKey ex_rank_cfg ex_board) (applied_field (owner_arg 3)) = Some ''r1''"
proof -
  let ?c = "rw_State ex_rank_world"
  let ?c' = "swapped (boardKey ex_rank_cfg ex_board) (ownerKey ex_rank_cfg ex_board) (owner_arg 3) []
     (encodeEntry (ex_score 3 10)) ''r1'' ''r1'' ?c"
  have "boards_in_sync ex_rank_cfg ?c'"
    by (rule sync.swap_keeps [OF ex_empty_sync ex_board_valid])
      (simp_all add: swap_applies_def ex_rank_world_def entry_of_def ex_score_def exI [of _ "ex_score 3 10"])
  then show thesis
    by (intro that [of "ex_rank_world\<lparr>rw_State := ?c'\<rparr>"]) (simp_all add: swapped_def ex_rank_world_def)
qed

lemma around_shows_owner_witness:
  "\<exists>w pg w'. board_Around ex_rank_cfg ex_board 3 2 w = (Inr pg, w') \<and>
     (\<exists>e \<in> set (pg_Entries pg). sc_OwnerID (re_Score e) = 3)"
proof -
  obtain w :: "rdb rworld" where w: "boards_in_sync ex_rank_cfg (rw_State w)"
    "zs (rw_State w) (boardKey ex_rank_cfg ex_board) = {|encodeEntry (ex_score 3 10)|}"
    "hs (rw_State w) (ownerKey ex_rank_cfg ex_board) (owner_arg 3) = Some (encodeEntry (ex_score 3 10))"
    by (rule ex_one_entry)
  have c: "rc_Client ex_rank_cfg = mem_redis" by (simp add: ex_rank_cfg_def)
  have "\<exists>pg w'. board_Around ex_rank_cfg ex_board 3 2 w = (Inr pg, w')"
    by (simp add: board_Around_def validateRadius_def RankMaxPageSize_def board_Rank_def validateOwner_def
        board_Page_def validateRange_def rank_run reportE_def c w descending_single position_def index_range_def
        i64_def Let_def)
  then obtain pg w' where r: "board_Around ex_rank_cfg ex_board 3 2 w = (Inr pg, w')" by blast
  have small: "int (fcard (zs (rw_State w) (boardKey ex_rank_cfg ex_board))) < 2 ^ 62"
    by (simp add: w(2) fcard_finsert_if fcard_fempty)
  from around_shows_owner [OF ex_contract w(1) r small]
  have "\<exists>e \<in> set (pg_Entries pg). board_of ex_rank_cfg ex_board (rw_State w) 3 = Some (re_Score e)" by blast
  moreover have "board_of ex_rank_cfg ex_board (rw_State w) 3 = Some (ex_score 3 10)"
    by (simp add: board_of_def w(3) decode_encode)
  ultimately obtain e where e: "e \<in> set (pg_Entries pg)" "re_Score e = ex_score 3 10" by auto
  then have "sc_OwnerID (re_Score e) = 3" by (simp add: ex_score_def)
  with r e(1) show ?thesis by blast
qed

section \<open>Replays\<close>

text \<open>The ids a ring holds, oldest first.\<close>

definition ring_ids :: "string \<Rightarrow> string list" where
  "ring_ids ring = (if ring = [] then [] else Split (CHR '','') ring)"

lemma Split_no_sep_in: "t \<in> set (Split c s) \<Longrightarrow> c \<notin> set t"
  by (induction s arbitrary: t) (auto split: if_splits list.splits)

lemma ring_ids_plain: "t \<in> set (ring_ids ring) \<Longrightarrow> CHR '','' \<notin> set t"
  by (auto simp: ring_ids_def split: if_splits dest: Split_no_sep_in)

lemma ringContains_ids: "reqID \<noteq> [] \<Longrightarrow> ringContains ring reqID \<longleftrightarrow> reqID \<in> set (ring_ids ring)"
  by (simp add: ringContains_def ring_ids_def)

lemma Join_eq_Nil: "Join c ws = [] \<longleftrightarrow> ws = [] \<or> ws = [[]]"
  by (cases ws rule: list.exhaust; cases "tl ws") auto

definition last_8 :: "string list \<Rightarrow> string list" where
  "last_8 ids = drop (length ids - 8) ids"

lemma appendRing_ids:
  assumes "reqID \<noteq> []" "CHR '','' \<notin> set reqID"
  shows "ring_ids (appendRing ring reqID) =
    (if reqID \<in> set (ring_ids ring) then ring_ids ring else last_8 (ring_ids ring @ [reqID]))"
proof (cases "reqID \<in> set (ring_ids ring)")
  case True
  then show ?thesis using assms by (auto simp: appendRing_def ring_ids_def Let_def split: if_splits)
next
  case False
  let ?ids = "last_8 (ring_ids ring @ [reqID])"
  have "appendRing ring reqID = Join (CHR '','') ?ids"
    using False assms(1) by (auto simp: appendRing_def ring_ids_def Let_def last_8_def maxAppliedRequests_def)
  moreover have ne: "?ids \<noteq> []" "last ?ids = reqID" by (simp_all add: last_8_def)
  moreover have "\<forall>t \<in> set ?ids. CHR '','' \<notin> set t"
    using assms(2) ring_ids_plain [of _ ring] by (auto simp: last_8_def dest!: in_set_dropD)
  ultimately have "Split (CHR '','') (appendRing ring reqID) = ?ids" by (simp add: Split_Join)
  moreover have "appendRing ring reqID \<noteq> []"
    using ne assms(1) \<open>appendRing ring reqID = Join (CHR '','') ?ids\<close> by (auto simp: Join_eq_Nil)
  ultimately show ?thesis using False by (simp add: ring_ids_def)
qed

text \<open>An id is remembered with \<open>k\<close> younger ids behind it.\<close>

definition remembered :: "string \<Rightarrow> nat \<Rightarrow> string \<Rightarrow> bool" where
  "remembered reqID k ring \<longleftrightarrow> (\<exists>ys zs. ring_ids ring = ys @ reqID # zs \<and> length zs \<le> k)"

lemma remembered_contains: "remembered reqID k ring \<Longrightarrow> reqID \<noteq> [] \<Longrightarrow> ringContains ring reqID"
  by (auto simp: remembered_def ringContains_ids)

lemma remembered_new:
  assumes "reqID \<noteq> []" "CHR '','' \<notin> set reqID" "\<not> ringContains ring reqID"
  shows "remembered reqID 0 (appendRing ring reqID)"
proof -
  have "last_8 (ring_ids ring @ [reqID]) = drop (Suc (length (ring_ids ring)) - 8) (ring_ids ring) @ [reqID]"
    by (simp add: last_8_def)
  then show ?thesis using assms by (auto simp: remembered_def appendRing_ids ringContains_ids)
qed

lemma remembered_mono: "remembered reqID k ring \<Longrightarrow> k \<le> j \<Longrightarrow> remembered reqID j ring"
  unfolding remembered_def by (meson order_trans)

lemma remembered_append:
  assumes r: "remembered reqID k ring" and k: "k < 7" and other: "CHR '','' \<notin> set oid"
  shows "remembered reqID (Suc k) (appendRing ring oid)"
proof (cases "oid = [] \<or> oid \<in> set (ring_ids ring)")
  case True
  then have "ring_ids (appendRing ring oid) = ring_ids ring"
    using other appendRing_ids [of oid ring] by (cases "oid = []") (simp add: appendRing_def, simp)
  then have "remembered reqID k (appendRing ring oid)" using r by (simp add: remembered_def)
  then show ?thesis by (rule remembered_mono) simp
next
  case False
  obtain ys zs where ids: "ring_ids ring = ys @ reqID # zs" "length zs \<le> k" using r by (auto simp: remembered_def)
  let ?n = "length ys + length zs + 2"
  have "?n - 8 \<le> length ys" using ids(2) k by simp
  then have "last_8 (ring_ids ring @ [oid]) = drop (?n - 8) ys @ reqID # (zs @ [oid])"
    by (simp add: last_8_def ids(1))
  moreover have "ring_ids (appendRing ring oid) = last_8 (ring_ids ring @ [oid])"
    using False other by (simp add: appendRing_ids)
  ultimately show ?thesis
    using ids(2) unfolding remembered_def by (intro exI [of _ "drop (?n - 8) ys"] exI [of _ "zs @ [oid]"]) simp
qed

text \<open>What an undisturbed submit does to the rings, whatever it answers.\<close>

lemma Submit_db:
  assumes con: "redis_contract m (=) (rc_Client cfg)" and sync: "boards_in_sync cfg (db m w)"
    and b: "Board_Validate b = None" and run: "Submit cfg b score mode reqID w = (r, w')"
  shows "db m w' = db m w \<or>
    \<not> ringContains (ring_of cfg b (db m w) (sc_OwnerID score)) reqID \<and>
    db m w' = submitted cfg b (with_tie cfg w score) mode reqID (db m w)"
  using run
proof (cases rule: Submit_unfold)
  case (run w1)
  have s: "in_sync cfg b (db m w1)" using sync b run(2) by (simp add: boards_in_sync_def)
  have loop: "submit_loop cfg (boardKey cfg b) (ownerKey cfg b) (with_tie cfg w score) mode reqID (Suc 7) w1 = (r, w')"
    using run(3) by simp
  from con loop s conjunct2 [OF valid_submit [OF run(1)]] show ?thesis
    using run(2) by (cases rule: submit_loop_alone) simp_all
qed simp

lemma submitted_ring:
  "ring_of cfg b (submitted cfg b score mode reqID c) p =
     (if p = sc_OwnerID score then appendRing (ring_of cfg b c p) reqID else ring_of cfg b c p)"
  by (simp add: submitted_def Let_def ring_of_def swapped_hs appendRing_def or_empty_def)

lemma Submit_sync:
  assumes "redis_contract m (=) (rc_Client cfg)" "boards_in_sync cfg (db m w)"
    and "Submit cfg b score mode reqID w = (r, w')"
  shows "boards_in_sync cfg (db m w')"
proof -
  have "stable (boards_in_sync cfg) m (=) (rc_Client cfg)" using assms(1) by (simp add: stable_def)
  from triple_snd [where P = "\<lambda>w. boards_in_sync cfg (m (rw_State w))" and
      Q = "\<lambda>w. boards_in_sync cfg (m (rw_State w))", OF sync.Submit_keeps [OF this] assms(2)] assms(3)
  show ?thesis by (metis snd_conv)
qed

text \<open>A sequence of submits on one board, each with whatever it answers.\<close>

fun submits :: "'x RankConfig \<Rightarrow> Board \<Rightarrow> (Score \<times> UpdateMode \<times> string) list \<Rightarrow> 'x rworld \<Rightarrow> 'x rworld" where
  "submits cfg b [] w = w"
| "submits cfg b ((score, mode, reqID) # rest) w = submits cfg b rest (snd (Submit cfg b score mode reqID w))"

text \<open>Those of one owner: only they share a ring of request ids.\<close>

definition submits_of :: "int64 \<Rightarrow> (Score \<times> UpdateMode \<times> string) list \<Rightarrow> (Score \<times> UpdateMode \<times> string) list" where
  "submits_of p others = filter (\<lambda>(s, mo, oid). sc_OwnerID s = p) others"

lemma submits_remember:
  assumes con: "redis_contract m (=) (rc_Client cfg)" and b: "Board_Validate b = None"
  shows "boards_in_sync cfg (db m w) \<Longrightarrow> remembered reqID k (ring_of cfg b (db m w) p) \<Longrightarrow>
    k + length (submits_of p others) \<le> 7 \<Longrightarrow> \<forall>(s, mo, oid) \<in> set (submits_of p others). CHR '','' \<notin> set oid \<Longrightarrow>
    boards_in_sync cfg (db m (submits cfg b others w)) \<and>
    remembered reqID (k + length (submits_of p others)) (ring_of cfg b (db m (submits cfg b others w)) p)"
proof (induction others arbitrary: w k)
  case (Cons a others)
  obtain s mo oid where a: "a = (s, mo, oid)" by (cases a)
  obtain r w' where run: "Submit cfg b s mo oid w = (r, w')" by force
  have sync': "boards_in_sync cfg (db m w')" by (rule Submit_sync [OF con Cons.prems(1) run])
  have ring: "ring_of cfg b (db m w') p = ring_of cfg b (db m w) p \<or>
      sc_OwnerID s = p \<and> ring_of cfg b (db m w') p = appendRing (ring_of cfg b (db m w) p) oid"
    using Submit_db [OF con Cons.prems(1) b run] by (auto simp: submitted_ring split: if_splits)
  show ?case
  proof (cases "sc_OwnerID s = p")
    case False
    with ring Cons.prems(2) have "remembered reqID k (ring_of cfg b (db m w') p)" by auto
    from Cons.IH [OF sync' this] Cons.prems(3,4) False a run show ?thesis by (simp add: submits_of_def)
  next
    case True
    then have oid: "CHR '','' \<notin> set oid" and k: "k < 7" using Cons.prems(3,4) a by (auto simp: submits_of_def)
    have "remembered reqID (Suc k) (ring_of cfg b (db m w') p)"
      using ring remembered_append [OF Cons.prems(2) k oid] remembered_mono [OF Cons.prems(2), of "Suc k"] by auto
    from Cons.IH [OF sync' this] Cons.prems(3,4) True a run show ?thesis by (simp add: submits_of_def)
  qed
qed (simp add: submits_of_def)

text \<open>C16: A redelivered submit is not applied again. Submits run one after another: once a submit with a fresh request id was answered, a further submit of that request for the same owner, after any submits on the board by other owners and at most seven for this owner, of any modes and whatever they answer, leaves Redis as it is, in particular in the accumulating mode. The request id and the ids of those seven hold no comma: the ring joins its ids with commas, an id with one is never recognised (comma_id_never_recognised), and one among the others would push out more than one id.\<close>
theorem replay_not_applied:
  assumes con: "redis_contract m (=) (rc_Client cfg)" and sync: "boards_in_sync cfg (m (rw_State w))"
    and id: "reqID \<noteq> []" "CHR '','' \<notin> set reqID"
    and fresh: "\<not> ringContains (ring_of cfg b (m (rw_State w)) (sc_OwnerID score)) reqID"
    and first: "Submit cfg b score mode reqID w = (Inr e, w1)"
    and others: "length (submits_of (sc_OwnerID score) others) \<le> 7"
      "\<forall>(s, mo, oid) \<in> set (submits_of (sc_OwnerID score) others). CHR '','' \<notin> set oid"
    and owner: "sc_OwnerID score' = sc_OwnerID score"
    and again: "Submit cfg b score' mode' reqID (submits cfg b others w1) = (r, w2)"
  shows "m (rw_State w2) = m (rw_State (submits cfg b others w1))"
proof -
  let ?p = "sc_OwnerID score"
  have v: "validateSubmit b score mode reqID = None"
    using first by (cases rule: Submit_unfold) simp_all
  note b = conjunct1 [OF valid_submit [OF v]]
  have sync1: "boards_in_sync cfg (m (rw_State w1))" by (rule Submit_sync [OF con sync first])
  have "m (rw_State w1) = submitted cfg b (with_tie cfg w score) mode reqID (m (rw_State w))"
    using first
  proof (cases rule: Submit_unfold)
    case (run w0)
    have s: "in_sync cfg b (m (rw_State w0))" using sync b run(2) by (simp add: boards_in_sync_def)
    have loop: "submit_loop cfg (boardKey cfg b) (ownerKey cfg b) (with_tie cfg w score) mode reqID (Suc 7) w0 = (Inr e, w1)"
      using run(3) by simp
    from con loop s conjunct2 [OF valid_submit [OF v]] show ?thesis
      using run(2) fresh id(1) by (cases rule: submit_loop_alone) simp_all
  qed simp_all
  then have "remembered reqID 0 (ring_of cfg b (m (rw_State w1)) ?p)"
    using remembered_new [OF id fresh] by (simp add: submitted_ring)
  from submits_remember [OF con b sync1 this _ others(2)] others(1)
  have sync2: "boards_in_sync cfg (m (rw_State (submits cfg b others w1)))"
    and "remembered reqID (length (submits_of ?p others)) (ring_of cfg b (m (rw_State (submits cfg b others w1))) ?p)" by simp_all
  then have "ringContains (ring_of cfg b (m (rw_State (submits cfg b others w1))) ?p) reqID"
    using remembered_contains id(1) by blast
  with Submit_db [OF con sync2 b again] owner show ?thesis by simp
qed

text \<open>On an empty board: two accumulating submits of the owner and one of another owner, whose id has a comma,
  come between an accumulating submit and its second delivery, which changes nothing.\<close>

lemma replay_not_applied_witness:
  "\<exists>e w1 r w2. Submit ex_rank_cfg ex_board (ex_score 3 10) UpdateAdd ''r1'' ex_rank_world = (Inr e, w1) \<and>
     Submit ex_rank_cfg ex_board (ex_score 3 10) UpdateAdd ''r1''
       (submits ex_rank_cfg ex_board [(ex_score 3 1, UpdateAdd, ''r2''), (ex_score 4 1, UpdateSet, ''a,b''),
         (ex_score 3 1, UpdateAdd, ''r3'')] w1) = (r, w2) \<and>
     rw_State w2 = rw_State (submits ex_rank_cfg ex_board [(ex_score 3 1, UpdateAdd, ''r2''),
       (ex_score 4 1, UpdateSet, ''a,b''), (ex_score 3 1, UpdateAdd, ''r3'')] w1)"
proof -
  let ?others = "[(ex_score 3 1, UpdateAdd, ''r2''), (ex_score 4 1, UpdateSet, ''a,b''), (ex_score 3 1, UpdateAdd, ''r3'')]"
  obtain e w1 where f: "Submit ex_rank_cfg ex_board (ex_score 3 10) UpdateAdd ''r1'' ex_rank_world = (Inr e, w1)"
    using ex_submit_add by blast
  obtain r w2 where a: "Submit ex_rank_cfg ex_board (ex_score 3 10) UpdateAdd ''r1''
      (submits ex_rank_cfg ex_board ?others w1) = (r, w2)" by force
  have o: "sc_OwnerID (ex_score 3 10) = 3" "submits_of 3 ?others = [(ex_score 3 1, UpdateAdd, ''r2''), (ex_score 3 1, UpdateAdd, ''r3'')]"
    by (simp_all add: submits_of_def ex_score_def)
  have "rw_State w2 = rw_State (submits ex_rank_cfg ex_board ?others w1)"
    by (rule replay_not_applied [OF ex_contract ex_empty_sync _ _ _ f _ _ _ a])
      (simp_all only: o, simp_all add: o ring_of_def ex_rank_world_def or_empty_def ringContains_def)
  with f a show ?thesis by blast
qed

section \<open>The best score\<close>

definition better :: "Score \<Rightarrow> Score \<Rightarrow> bool" where
  "better a b \<longleftrightarrow> sint (sc_Value b) < sint (sc_Value a) \<or>
     sc_Value a = sc_Value b \<and> sint (sc_Tie a) < sint (sc_Tie b)"

definition max_run :: "Score list \<Rightarrow> string \<Rightarrow> string" where
  "max_run ss stored = fold (\<lambda>s stored.
     case nextScore stored s UpdateMax of Inl e \<Rightarrow> stored | Inr (t, changed) \<Rightarrow> encodeEntry t) ss stored"

lemma nextScore_max:
  "nextScore (encodeEntry cur) s UpdateMax =
     Inr (if better s cur then (keep_brief cur s, True) else (cur, False))"
  by (auto simp: nextScore_def decode_encode better_def UpdateMax_def UpdateSet_def
      simp del: sint_inject simp flip: sint_inject)

lemma keep_brief_fields [simp]: "sc_Value (keep_brief c s) = sc_Value s" "sc_Tie (keep_brief c s) = sc_Tie s"
  by (simp_all add: keep_brief_def)

lemma better_keep_brief [simp]: "better (keep_brief c s) t = better s t" "better t (keep_brief c s) = better t s"
  by (simp_all add: better_def keep_brief_def)

lemma max_run_from:
  "\<exists>t. max_run ss (encodeEntry cur) = encodeEntry t \<and> (\<forall>s \<in> set ss \<union> {cur}. \<not> better s t) \<and>
     (\<exists>s \<in> set ss \<union> {cur}. sc_Value t = sc_Value s \<and> sc_Tie t = sc_Tie s)"
proof (induction ss arbitrary: cur)
  case Nil
  then show ?case by (auto simp: max_run_def better_def)
next
  case (Cons s ss)
  let ?n = "if better s cur then keep_brief cur s else cur"
  obtain t where t: "max_run ss (encodeEntry ?n) = encodeEntry t" "\<forall>u \<in> set ss \<union> {?n}. \<not> better u t"
    "\<exists>u \<in> set ss \<union> {?n}. sc_Value t = sc_Value u \<and> sc_Tie t = sc_Tie u"
    using Cons.IH by blast
  have "max_run (s # ss) (encodeEntry cur) = encodeEntry t"
    using t(1) by (simp add: max_run_def nextScore_max split: if_splits)
  moreover have "\<not> better s t \<and> \<not> better cur t"
  proof (cases "better s cur")
    case True
    with t(2) have st: "\<not> better s t" by simp
    moreover have "\<not> better cur t"
      using True st by (auto simp: better_def simp del: sint_inject simp flip: sint_inject)
    ultimately show ?thesis by simp
  next
    case False
    with t(2) have "\<not> better cur t" by simp
    then show ?thesis using False by (auto simp: better_def simp del: sint_inject simp flip: sint_inject)
  qed
  moreover have "\<exists>u \<in> set (s # ss) \<union> {cur}. sc_Value t = sc_Value u \<and> sc_Tie t = sc_Tie u"
    using t(3) by (auto simp: keep_brief_def split: if_splits)
  ultimately show ?case using t(2) by auto
qed

text \<open>Submits in the max mode leave the best score, in whatever order they arrive: after any non-empty sequence of them the stored score has the value and tie of one of the submitted scores, and none of them has a larger value, or the same value and a smaller tie.\<close>
theorem max_keeps_best:
  assumes "ss \<noteq> []"
  shows "\<exists>t. decodeEntry (max_run ss []) = Inr t \<and> (\<forall>s \<in> set ss. \<not> better s t) \<and>
    (\<exists>s \<in> set ss. sc_Value t = sc_Value s \<and> sc_Tie t = sc_Tie s)"
proof -
  obtain s rest where ss: "ss = s # rest" using assms by (cases ss) auto
  then have "max_run ss [] = max_run rest (encodeEntry s)" by (simp add: max_run_def nextScore_def)
  with max_run_from [of rest s] ss show ?thesis by (auto simp: decode_encode)
qed

lemma max_keeps_best_witness:
  "\<exists>t. decodeEntry (max_run [ex_score 3 10, ex_score 3 40, ex_score 3 25] []) = Inr t \<and> \<not> better (ex_score 3 40) t"
  using max_keeps_best [of "[ex_score 3 10, ex_score 3 40, ex_score 3 25]"] by auto

section \<open>Request ids with a comma\<close>

text \<open>
  The ring joins request ids with commas and splits it again, and nothing forbids a comma in a request
  id: such an id is never recognised, so its redelivery is applied again.
\<close>

theorem comma_id_never_recognised: "CHR '','' \<in> set reqID \<Longrightarrow> \<not> ringContains ring reqID"
  by (auto simp: ringContains_def dest: Split_no_sep_in)

end
