(* ===== verification/Mods.thy ===== *)
theory Mods
  imports Prelude
begin

text \<open>
  What every Mod of the repository is wired with (\<open>mods/\<close>): the capability registry and the
  all-or-nothing publication \<open>RegisterAll\<close> (\<open>registry.go\<close>), the readers of the configuration
  (\<open>service_servicemods.go\<close>), the choice of the persistence engine (\<open>persistence.go\<close>) and the
  tables of capability names (\<open>name.go\<close>, \<open>service_name.go\<close>).

  The registry (\<open>app.Registry\<close>) and the configuration (\<open>viper.Viper\<close>) are not part of the
  repository and are parameters: the first a record of the operations the code calls on a state
  type of its own, with \<open>reg_contract\<close> as its documented behaviour, the second a record of its
  typed readers.
\<close>

section \<open>Configuration\<close>

record viper =
  cfg_IsSet :: "string \<Rightarrow> bool"
  cfg_GetString :: "string \<Rightarrow> string"
  cfg_GetBool :: "string \<Rightarrow> bool"
  cfg_GetInt :: "string \<Rightarrow> int"
  cfg_GetInt32 :: "string \<Rightarrow> int"
  cfg_GetInt64 :: "string \<Rightarrow> int"
  cfg_GetUint64 :: "string \<Rightarrow> int"
  cfg_GetDuration :: "string \<Rightarrow> duration"
  cfg_GetStringSlice :: "string \<Rightarrow> string list"

text \<open>A fresh \<open>viper.New()\<close>: nothing is set, every reader answers the zero value.\<close>

definition empty_viper :: viper where
  "empty_viper = \<lparr>cfg_IsSet = (\<lambda>_. False), cfg_GetString = (\<lambda>_. []), cfg_GetBool = (\<lambda>_. False),
     cfg_GetInt = (\<lambda>_. 0), cfg_GetInt32 = (\<lambda>_. 0), cfg_GetInt64 = (\<lambda>_. 0),
     cfg_GetUint64 = (\<lambda>_. 0),
     cfg_GetDuration = (\<lambda>_. 0), cfg_GetStringSlice = (\<lambda>_. [])\<rparr>"

text \<open>\<open>strings.ContainsAny\<close>.\<close>

definition ContainsAny :: "string \<Rightarrow> string \<Rightarrow> bool" where
  "ContainsAny s chars \<longleftrightarrow> (\<exists>c \<in> set s. c \<in> set chars)"

definition KeyPrefix :: "viper \<Rightarrow> string \<Rightarrow> gerr + string" where
  "KeyPrefix cfg service =
     (let prefix = TrimSpace (cfg_GetString cfg (service @ ''.key_prefix'')) in
      if prefix = [] then Inl [Foreign ''servicemods: key_prefix is required and has no default'']
      else if ContainsAny prefix (CHR '' '' # bytes [9, 10])
           then Inl [Foreign ''servicemods: key_prefix contains whitespace'']
      else Inr prefix)"

definition Secret :: "viper \<Rightarrow> string \<Rightarrow> gerr + string" where
  "Secret cfg key =
     (let secret = cfg_GetString cfg key in
      if TrimSpace secret = [] then Inl [Foreign ''servicemods: secret is required and must not be empty'']
      else Inr secret)"

definition Duration :: "viper \<Rightarrow> string \<Rightarrow> duration \<Rightarrow> gerr + duration" where
  "Duration cfg key fallback =
     (if \<not> cfg_IsSet cfg key then Inr fallback
      else let v = cfg_GetDuration cfg key in
        if v < 0 then Inl [Foreign ''servicemods: duration must not be negative'']
        else if v = 0 then Inr fallback
        else Inr v)"

definition RequiredDuration :: "viper \<Rightarrow> string \<Rightarrow> gerr + duration" where
  "RequiredDuration cfg key =
     (if \<not> cfg_IsSet cfg key then Inl [Foreign ''servicemods: duration is required and has no default'']
      else let v = cfg_GetDuration cfg key in
        if v \<le> 0 then Inl [Foreign ''servicemods: duration must be positive'']
        else Inr v)"

lemma KeyPrefix_cases:
  assumes "KeyPrefix cfg service = Inr p"
  shows "p \<noteq> []" "CHR '' '' \<notin> set p"
  using assms by (auto simp: KeyPrefix_def Let_def ContainsAny_def bytes_def split: if_splits)

lemma Secret_nonblank: "Secret cfg key = Inr s \<Longrightarrow> \<not> blank s"
  by (auto simp: Secret_def blank_def Let_def split: if_splits)

lemma Duration_positive: "Duration cfg key fallback = Inr d \<Longrightarrow> d = fallback \<or> 0 < d"
  by (auto simp: Duration_def Let_def split: if_splits)

lemma RequiredDuration_positive: "RequiredDuration cfg key = Inr d \<Longrightarrow> 0 < d"
  by (auto simp: RequiredDuration_def Let_def split: if_splits)

section \<open>The persistence engine\<close>

definition ErrPersistenceEngineSelection :: sentinel where
  "ErrPersistenceEngineSelection = Foreign ''persistence: dataengine is the only supported engine''"

definition PersistenceDataEngine :: string where "PersistenceDataEngine = ''dataengine''"

record PersistenceSelection =
  ps_Engine :: string
  ps_DataEngineEnabled :: bool

definition ResolvePersistenceEngine :: "(string \<Rightarrow> string) \<Rightarrow> viper option \<Rightarrow> gerr + PersistenceSelection" where
  "ResolvePersistenceEngine toLower vp =
     (let cfg = (case vp of None \<Rightarrow> empty_viper | Some c \<Rightarrow> c);
          configured = toLower (TrimSpace (cfg_GetString cfg ''persistence.engine''));
          engine = (if configured = [] then PersistenceDataEngine else configured) in
      if engine \<noteq> PersistenceDataEngine then Inl [ErrPersistenceEngineSelection]
      else if cfg_IsSet cfg ''checkpoint.enabled'' then Inl [ErrPersistenceEngineSelection]
      else if cfg_IsSet cfg ''dataengine.enabled'' \<and> \<not> cfg_GetBool cfg ''dataengine.enabled''
           then Inl [ErrPersistenceEngineSelection]
      else Inr \<lparr>ps_Engine = PersistenceDataEngine, ps_DataEngineEnabled = True\<rparr>)"

section \<open>The registry\<close>

record ('r, 'c) registry =
  rg_Get :: "string \<Rightarrow> 'r \<Rightarrow> 'c option"
  rg_Register :: "string \<Rightarrow> 'c \<Rightarrow> 'r \<Rightarrow> gerr option \<times> 'r"

record 'c Capability =
  cp_Name :: string
  cp_Value :: 'c

text \<open>The preflight loop of \<open>RegisterAll\<close> and the loop that publishes.\<close>

fun preflight :: "('r, 'c) registry \<Rightarrow> string list \<Rightarrow> 'c Capability list \<Rightarrow> 'r \<Rightarrow> gerr option" where
  "preflight rg seen_names [] r = None"
| "preflight rg seen_names (c # cs) r =
     (if cp_Name c = [] then Some [Foreign ''mods: capability name is empty'']
      else if cp_Name c \<in> set seen_names then Some [Foreign ''mods: duplicate capability in batch'']
      else if rg_Get rg (cp_Name c) r \<noteq> None then Some [Foreign ''mods: capability already registered'']
      else preflight rg (cp_Name c # seen_names) cs r)"

fun publish_all :: "('r, 'c) registry \<Rightarrow> 'c Capability list \<Rightarrow> ('r, unit) handler" where
  "publish_all rg [] r = (Inr (), r)"
| "publish_all rg (c # cs) r =
     (case rg_Register rg (cp_Name c) (cp_Value c) r of
        (Some err, r') \<Rightarrow> (Inl err, r')
      | (None, r') \<Rightarrow> publish_all rg cs r')"

definition RegisterAll :: "('r, 'c) registry option \<Rightarrow> 'c Capability list \<Rightarrow> ('r, unit) handler" where
  "RegisterAll registry capabilities r =
     (case registry of
        None \<Rightarrow> (Inl [Foreign ''mods: nil registry''], r)
      | Some rg \<Rightarrow>
          (case preflight rg [] capabilities r of
             Some err \<Rightarrow> (Inl err, r)
           | None \<Rightarrow> publish_all rg capabilities r))"

text \<open>
  The documented behaviour of the registry: \<open>contents\<close> is what it holds, \<open>Get\<close> reads it, and
  \<open>Register\<close> refuses the empty and the taken name and otherwise adds exactly its entry.
\<close>

definition reg_contract :: "('r \<Rightarrow> string \<rightharpoonup> 'c) \<Rightarrow> ('r, 'c) registry \<Rightarrow> bool" where
  "reg_contract contents rg \<longleftrightarrow>
     (\<forall>n r. rg_Get rg n r = contents r n) \<and>
     (\<forall>n v r. case rg_Register rg n v r of
        (Some err, r') \<Rightarrow> (n = [] \<or> contents r n \<noteq> None) \<and> contents r' = contents r
      | (None, r') \<Rightarrow> n \<noteq> [] \<and> contents r n = None \<and> contents r' = (contents r)(n \<mapsto> v))"

lemma registry_get: "reg_contract contents rg \<Longrightarrow> rg_Get rg n r = contents r n"
  by (simp add: reg_contract_def)

lemma contract_register:
  assumes "reg_contract contents rg" "n \<noteq> []" "contents r n = None"
  obtains r' where "rg_Register rg n v r = (None, r')" "contents r' = (contents r)(n \<mapsto> v)"
proof -
  obtain e r' where e: "rg_Register rg n v r = (e, r')" by (cases "rg_Register rg n v r")
  have "case rg_Register rg n v r of
        (Some err, r') \<Rightarrow> (n = [] \<or> contents r n \<noteq> None) \<and> contents r' = contents r
      | (None, r') \<Rightarrow> n \<noteq> [] \<and> contents r n = None \<and> contents r' = (contents r)(n \<mapsto> v)"
    using assms(1) by (auto simp: reg_contract_def)
  with e assms(2,3) have "e = None" "contents r' = (contents r)(n \<mapsto> v)"
    by (auto split: option.splits)
  with e that show thesis by auto
qed

definition batch_ok :: "(string \<rightharpoonup> 'c) \<Rightarrow> 'c Capability list \<Rightarrow> bool" where
  "batch_ok held cs \<longleftrightarrow>
     distinct (map cp_Name cs) \<and> (\<forall>c \<in> set cs. cp_Name c \<noteq> [] \<and> held (cp_Name c) = None)"

definition batch_map :: "'c Capability list \<Rightarrow> string \<rightharpoonup> 'c" where
  "batch_map cs = map_of (map (\<lambda>c. (cp_Name c, cp_Value c)) cs)"

lemma preflight_ok:
  assumes "reg_contract contents rg"
  shows "preflight rg names cs r = None \<longleftrightarrow>
    batch_ok (contents r) cs \<and> (\<forall>c \<in> set cs. cp_Name c \<notin> set names)"
proof (induction cs arbitrary: names)
  case (Cons c cs)
  then show ?case using registry_get [OF assms, of "cp_Name c" r] by (auto simp: batch_ok_def image_iff)
qed (simp add: batch_ok_def)

lemma publish_all_ok:
  assumes "reg_contract contents rg"
  shows "batch_ok (contents r) cs \<Longrightarrow>
    \<exists>r'. publish_all rg cs r = (Inr (), r') \<and> contents r' = contents r ++ batch_map cs"
proof (induction cs arbitrary: r)
  case (Cons c cs)
  then have "cp_Name c \<noteq> []" "contents r (cp_Name c) = None" by (auto simp: batch_ok_def)
  from contract_register [OF assms this, of "cp_Value c"]
  obtain r' where r': "rg_Register rg (cp_Name c) (cp_Value c) r = (None, r')"
    "contents r' = (contents r)(cp_Name c \<mapsto> cp_Value c)" by blast
  have new: "cp_Name c \<notin> cp_Name ` set cs" using Cons.prems by (auto simp: batch_ok_def)
  then have "cp_Name c \<notin> dom (batch_map cs)"
    by (auto simp: batch_map_def dom_map_of_conv_image_fst image_iff)
  then have "contents r' ++ batch_map cs = contents r ++ batch_map (c # cs)"
    by (simp add: r'(2) map_add_upd_left batch_map_def)
  moreover have "batch_ok (contents r') cs"
    using Cons.prems new by (auto simp: batch_ok_def image_iff r')
  ultimately show ?case
    using Cons.IH [of r'] r'(1) by simp
qed (simp add: batch_map_def)

lemma RegisterAll_exact:
  assumes "reg_contract contents rg"
  shows "\<exists>res r'. RegisterAll (Some rg) cs r = (res, r') \<and>
    (if batch_ok (contents r) cs then res = Inr () \<and> contents r' = contents r ++ batch_map cs
     else isl res \<and> r' = r)"
  using preflight_ok [OF assms, of "[]" cs r] publish_all_ok [OF assms, of r cs]
  by (auto simp: RegisterAll_def split: option.splits)

text \<open>A registry that keeps the contract: an association list, newest entry first.\<close>

definition list_registry :: "((string \<times> 'c) list, 'c) registry" where
  "list_registry =
     \<lparr>rg_Get = (\<lambda>n r. map_of r n),
      rg_Register = (\<lambda>n v r. if n = [] \<or> map_of r n \<noteq> None then (Some [Foreign ''registered''], r)
                              else (None, (n, v) # r))\<rparr>"

lemma list_registry_contract: "reg_contract map_of list_registry"
  by (simp add: reg_contract_def list_registry_def)

text \<open>C26: RegisterAll publishes a batch of capabilities as a whole or not at all. With any registry
  that behaves as documented, it succeeds exactly when every name is non-empty, unregistered and
  unique in the batch, and then the registry holds what it held plus the batch; otherwise it answers
  an error and the registry is untouched.\<close>

theorem publication_all_or_nothing:
  assumes "reg_contract contents rg" and "RegisterAll (Some rg) cs r = (res, r')"
  shows "(res = Inr () \<longleftrightarrow>
            distinct (map cp_Name cs) \<and> (\<forall>c \<in> set cs. cp_Name c \<noteq> [] \<and> contents r (cp_Name c) = None)) \<and>
         (res = Inr () \<longrightarrow>
            contents r' = contents r ++ map_of (map (\<lambda>c. (cp_Name c, cp_Value c)) cs)) \<and>
         (res \<noteq> Inr () \<longrightarrow> r' = r)"
  using RegisterAll_exact [OF assms(1), of cs r] assms(2)
  by (auto simp: batch_ok_def batch_map_def split: if_splits)

lemma publication_all_or_nothing_witness:
  "snd (RegisterAll (Some list_registry)
     [\<lparr>cp_Name = ''a'', cp_Value = 1\<rparr>, \<lparr>cp_Name = ''b'', cp_Value = 2\<rparr>] [(''b'', 0 :: nat)]) = [(''b'', 0)] \<and>
   map_of (snd (RegisterAll (Some list_registry)
     [\<lparr>cp_Name = ''a'', cp_Value = 1\<rparr>, \<lparr>cp_Name = ''b'', cp_Value = 2\<rparr>] [(''c'', 0 :: nat)])) ''b'' = Some 2"
proof
  let ?cs = "[\<lparr>cp_Name = ''a'', cp_Value = 1\<rparr>, \<lparr>cp_Name = ''b'', cp_Value = 2 :: nat\<rparr>]"
  show "snd (RegisterAll (Some list_registry) ?cs [(''b'', 0)]) = [(''b'', 0)]"
    using publication_all_or_nothing [OF list_registry_contract prod.collapse [symmetric],
        of ?cs "[(''b'', 0 :: nat)]"] by force
  show "map_of (snd (RegisterAll (Some list_registry) ?cs [(''c'', 0 :: nat)])) ''b'' = Some 2"
    using publication_all_or_nothing [OF list_registry_contract prod.collapse [symmetric],
        of ?cs "[(''c'', 0 :: nat)]"] by force
qed

section \<open>The capability names\<close>

definition ModAccount :: string where "ModAccount = ''service.account''"
definition ModChat :: string where "ModChat = ''service.chat''"
definition ModDirectory :: string where "ModDirectory = ''service.directory''"
definition ModGlobal :: string where "ModGlobal = ''service.global''"
definition ModGlobalActivity :: string where "ModGlobalActivity = ''service.global.activity''"
definition ModMail :: string where "ModMail = ''service.mail''"
definition ModMatch :: string where "ModMatch = ''service.match''"
definition ModPlatform :: string where "ModPlatform = ''service.platform''"
definition ModRank :: string where "ModRank = ''service.rank''"
definition ModSession :: string where "ModSession = ''service.session''"

definition AllNames :: "string list" where
  "AllNames = [ModAccount, ModChat, ModDirectory, ModGlobal, ModGlobalActivity,
     ModMail, ModMatch, ModPlatform, ModRank, ModSession]"

definition ModRedis :: string where "ModRedis = ''redis''"
definition ModBus :: string where "ModBus = ''bus''"
definition ModNats :: string where "ModNats = ''nats''"

text \<open>The literals of \<open>name.go\<close>; the ones it takes over from \<open>app\<close> are parameters there.\<close>

definition kit_names :: "string list" where
  "kit_names =
     [''mongo'', ModRedis, ''redis.lock'', ''redis.versioned_lock'', ModNats, ''nats.rpc'', ''nats.jetstream'',
      ModBus, ''etcd'', ''etcd.discovery'', ''etcd.election'', ''room'', ''dataengine'', ''remote_entity'',
      ''remote_entity.atomic_store'', ''lock'', ''ops'', ''stats_log'', ''config_data'', ''nest'', ''saga'',
      ''entity.runtime'', ''manager'']"

lemmas name_defs = AllNames_def ModAccount_def ModChat_def ModDirectory_def ModGlobal_def ModGlobalActivity_def
  ModMail_def ModMatch_def ModPlatform_def ModRank_def ModSession_def kit_names_def ModRedis_def ModBus_def ModNats_def

text \<open>No name is used twice, and the owner-only name \<open>service.x.local\<close> of a service is nobody's name.\<close>

lemma names_distinct:
  "distinct (AllNames @ map (\<lambda>n. n @ ''.local'') AllNames @ kit_names)"
  unfolding name_defs by code_simp

text \<open>\<open>Redis\<close>: the client, or an error that names what is missing. \<open>lookup\<close> is \<open>app.Lookup\<close> at the client's
  type, nothing where the capability is absent, of another type or nil.\<close>

definition LookupRedis :: "('r \<Rightarrow> string \<Rightarrow> 'k option) \<Rightarrow> 'r \<Rightarrow> gerr + 'k" where
  "LookupRedis lookup r =
     (case lookup r ModRedis of
        None \<Rightarrow> Inl [Foreign ''servicemods: capability redis not found'']
      | Some client \<Rightarrow> Inr client)"

end
