(* ===== verification/StatsLog.thy ===== *)
theory StatsLog
  imports Mods "HOL-Library.AList"
begin

text \<open>
  The statistics log (\<open>statslog/statslog.go\<close>): a Mod that observes the process once a minute, appends
  the record as a line of JSON to a file and mirrors it into the metrics registry. This theory has its
  configuration, the registered providers, the counters it turns into windows, the rendering of byte
  counts and one flush; \<open>StatsLogLife\<close> has the lifecycle of its goroutines.

  The operating system, the JSON encoder, the memory statistics and the runtimes it asks (entities,
  nest) are not part of the repository: what one observation reads is the record \<open>observation\<close>, the file
  operations are the record \<open>osfile\<close>.
\<close>

section \<open>Records\<close>

record RuntimeStats =
  ru_Goroutines :: int
  ru_NumCPU :: int
  ru_GOMAXPROCS :: int
  ru_HeapAlloc :: string
  ru_HeapAllocBytes :: int
  ru_HeapSys :: string
  ru_HeapSysBytes :: int
  ru_Sys :: string
  ru_SysBytes :: int
  ru_NumGC :: int

record EntityStats =
  es_Total :: int
  es_ByCategory :: "(string \<times> int) list"
  es_ByKind :: "(string \<times> int) list"

text \<open>What the nest dispatcher and its worker pools answer, as far as it is read.\<close>

record workStats =
  wk_ProcessedMessages :: int
  wk_Slow200msMessages :: int

record poolStats =
  pl_Name :: string
  pl_WorkerNum :: int
  pl_QueueLen :: int
  pl_QueueCap :: int
  pl_Started :: bool
  pl_Stopped :: bool

record dispatcherStats =
  ds_Main :: poolStats
  ds_Heart :: poolStats
  ds_Cost :: poolStats
  ds_Work :: workStats
  ds_Delayed :: int
  ds_Stopped :: bool

record NestQueueStats =
  nq_Name :: string
  nq_Workers :: int
  nq_QueueLen :: int
  nq_QueueCap :: int
  nq_QueueUsage :: string
  nq_Running :: bool
  nq_Stopped :: bool

text \<open>\<open>WindowSeconds\<close> is held in nanoseconds, before the float division by \<open>time.Second\<close>.\<close>

record NestStats =
  ns_Main :: NestQueueStats
  ns_Broadcast :: NestQueueStats
  ns_Cost :: NestQueueStats
  ns_WindowSeconds :: duration
  ns_ProcessedMessages :: int
  ns_Slow200msMessages :: int
  ns_ProcessedMessagesTotal :: int
  ns_Slow200msMessagesTotal :: int
  ns_DelayedMessages :: int
  ns_Stopped :: bool

text \<open>The value of a provider in the record: what it returned, or \<open>{"error": text}\<close>.\<close>

datatype 'j provided = Provided 'j | ProviderError string

record 'j StatsRecord =
  sr_Timestamp :: time
  sr_Service :: string
  sr_Sid :: int
  sr_Runtime :: RuntimeStats
  sr_Entity :: EntityStats
  sr_Nest :: "NestStats option"
  sr_Providers :: "(string \<times> 'j provided) list"

record 'p providerEntry =
  pe_id :: int
  pe_fn :: 'p

record ('f, 'p) statslog =
  sg_enabled :: bool
  sg_service :: string
  sg_sid :: int
  sg_dir :: string
  sg_filename :: string
  sg_interval :: duration
  sg_metrics :: bool
  sg_file :: "'f option"
  sg_providers :: "(string \<times> 'p providerEntry) list"
  sg_nextProviderID :: int
  sg_lastNestWork :: workStats
  sg_lastNestAt :: "time option"

definition NewStatsLogMod :: "('f, 'p) statslog" where
  "NewStatsLogMod =
     \<lparr>sg_enabled = False, sg_service = [], sg_sid = 0, sg_dir = [], sg_filename = [], sg_interval = Minute,
      sg_metrics = False, sg_file = None, sg_providers = [], sg_nextProviderID = 0,
      sg_lastNestWork = \<lparr>wk_ProcessedMessages = 0, wk_Slow200msMessages = 0\<rparr>, sg_lastNestAt = None\<rparr>"

definition or_default :: "string \<Rightarrow> string \<Rightarrow> string" where
  "or_default s fallback = (if s = [] then fallback else s)"

definition StatsLogInit :: "viper option \<Rightarrow> ('f, 'p) statslog \<Rightarrow> ('f, 'p) statslog" where
  "StatsLogInit vp m =
     (let cfg = (case vp of None \<Rightarrow> empty_viper | Some c \<Rightarrow> c);
          service = or_default (cfg_GetString cfg ''server_type'') ''roost'';
          sid = cfg_GetInt32 cfg ''sid'';
          interval = cfg_GetDuration cfg ''stats_log.interval'' in
      m\<lparr>sg_enabled := cfg_GetBool cfg ''stats_log.enabled'',
        sg_service := service,
        sg_sid := sid,
        sg_dir := or_default (cfg_GetString cfg ''stats_log.dir'') ''log'',
        sg_filename := or_default (cfg_GetString cfg ''stats_log.filename'')
                         (service @ ''-'' @ FormatInt sid @ ''.stats.log''),
        sg_interval := (if interval \<le> 0 then Minute else interval)\<rparr>)"

lemma interval_positive: "0 < sg_interval (StatsLogInit vp m)"
  by (simp add: StatsLogInit_def Let_def Minute_def Second_def)

section \<open>Providers\<close>

text \<open>
  \<open>RegisterProvider\<close> answers the closure that takes the registration back; the closure keeps the name
  and the id it was given, nothing where nothing was registered.
\<close>

definition RegisterProvider ::
  "string \<Rightarrow> 'p option \<Rightarrow> ('f, 'p) statslog \<Rightarrow> (string \<times> int) option \<times> ('f, 'p) statslog" where
  "RegisterProvider name fn m =
     (case fn of
        None \<Rightarrow> (None, m)
      | Some f \<Rightarrow>
          if name = [] then (None, m)
          else let pid = u64 (sg_nextProviderID m + 1) in
            (Some (name, pid),
             m\<lparr>sg_nextProviderID := pid,
               sg_providers := AList.update name \<lparr>pe_id = pid, pe_fn = f\<rparr> (sg_providers m)\<rparr>))"

definition unregister :: "(string \<times> int) option \<Rightarrow> ('f, 'p) statslog \<Rightarrow> ('f, 'p) statslog" where
  "unregister closure m =
     (case closure of
        None \<Rightarrow> m
      | Some (name, pid) \<Rightarrow>
          (case map_of (sg_providers m) name of
             None \<Rightarrow> m
           | Some entry \<Rightarrow>
               if pe_id entry = pid then m\<lparr>sg_providers := AList.delete name (sg_providers m)\<rparr> else m))"

text \<open>A provider returns a value, returns an error or panics; \<open>collectProvider\<close> recovers the panic.\<close>

datatype 'j called = Returned 'j | Failed string | Panicked string

definition collectProvider :: "'j called \<Rightarrow> string + 'j" where
  "collectProvider c =
     (case c of Returned v \<Rightarrow> Inr v | Failed e \<Rightarrow> Inl e | Panicked r \<Rightarrow> Inl (''panic: '' @ r))"

definition collectProviders ::
  "('p \<Rightarrow> 'j called) \<Rightarrow> ('f, 'p) statslog \<Rightarrow> (string \<times> 'j provided) list" where
  "collectProviders call m =
     map (\<lambda>(name, entry). (name,
            case collectProvider (call (pe_fn entry)) of Inl e \<Rightarrow> ProviderError e | Inr v \<Rightarrow> Provided v))
       (sg_providers m)"

section \<open>Counters and windows\<close>

definition subtractCounter :: "int \<Rightarrow> int \<Rightarrow> int" where
  "subtractCounter cur prev = (if cur < prev then cur else cur - prev)"

definition nestWorkDelta :: "workStats \<Rightarrow> workStats \<Rightarrow> workStats" where
  "nestWorkDelta cur prev =
     \<lparr>wk_ProcessedMessages = subtractCounter (wk_ProcessedMessages cur) (wk_ProcessedMessages prev),
      wk_Slow200msMessages = subtractCounter (wk_Slow200msMessages cur) (wk_Slow200msMessages prev)\<rparr>"

text \<open>\<open>Duration.Round\<close> of a positive duration, and \<open>Time.Sub\<close> with its saturation.\<close>

definition maxDuration :: duration where "maxDuration = 2 ^ 63 - 1"

definition Round :: "duration \<Rightarrow> duration \<Rightarrow> duration" where
  "Round d m =
     (let r = d mod m in
      if r + r < m then d - r
      else if d + m - r \<le> maxDuration then d + m - r else maxDuration)"

definition TimeSub :: "time \<Rightarrow> time \<Rightarrow> duration" where
  "TimeSub t u = max (- (2 ^ 63)) (min maxDuration (t - u))"

definition Millisecond :: duration where "Millisecond = 1000000"

definition roundSeconds :: "duration \<Rightarrow> duration" where
  "roundSeconds d = (if d \<le> 0 then 0 else Round d Millisecond)"

definition formatNestPoolStats :: "poolStats \<Rightarrow> NestQueueStats" where
  "formatNestPoolStats stats =
     \<lparr>nq_Name = pl_Name stats, nq_Workers = pl_WorkerNum stats, nq_QueueLen = pl_QueueLen stats,
      nq_QueueCap = pl_QueueCap stats,
      nq_QueueUsage = FormatInt (pl_QueueLen stats) @ ''/'' @ FormatInt (pl_QueueCap stats),
      nq_Running = (pl_Started stats \<and> \<not> pl_Stopped stats), nq_Stopped = pl_Stopped stats\<rparr>"

definition formatNestStats :: "dispatcherStats \<Rightarrow> workStats \<Rightarrow> duration \<Rightarrow> NestStats" where
  "formatNestStats stats delta interval =
     \<lparr>ns_Main = formatNestPoolStats (ds_Main stats), ns_Broadcast = formatNestPoolStats (ds_Heart stats),
      ns_Cost = formatNestPoolStats (ds_Cost stats), ns_WindowSeconds = roundSeconds interval,
      ns_ProcessedMessages = wk_ProcessedMessages delta, ns_Slow200msMessages = wk_Slow200msMessages delta,
      ns_ProcessedMessagesTotal = wk_ProcessedMessages (ds_Work stats),
      ns_Slow200msMessagesTotal = wk_Slow200msMessages (ds_Work stats),
      ns_DelayedMessages = ds_Delayed stats, ns_Stopped = ds_Stopped stats\<rparr>"

text \<open>The method of the same name: it takes the previous observation and leaves this one in its place.\<close>

definition nest_window ::
  "dispatcherStats \<Rightarrow> time \<Rightarrow> ('f, 'p) statslog \<Rightarrow> NestStats \<times> ('f, 'p) statslog" where
  "nest_window stats now m =
     (let interval = (case sg_lastNestAt m of Some prevAt \<Rightarrow> TimeSub now prevAt | None \<Rightarrow> sg_interval m) in
      (formatNestStats stats (nestWorkDelta (ds_Work stats) (sg_lastNestWork m)) interval,
       m\<lparr>sg_lastNestWork := ds_Work stats, sg_lastNestAt := Some now\<rparr>))"

section \<open>Entities\<close>

text \<open>What the entity runtime answers: its length and, through \<open>Range\<close>, its entities (a nil entity is
  \<open>None\<close>), each by the text of its category and of its kind.\<close>

record entityRuntime =
  er_Len :: int
  er_Range :: "(string \<times> string) option list"

definition count_in :: "string \<Rightarrow> (string \<times> int) list \<Rightarrow> (string \<times> int) list" where
  "count_in k counts = AList.update k ((case map_of counts k of None \<Rightarrow> 0 | Some n \<Rightarrow> n) + 1) counts"

fun count_entity :: "(string \<times> string) option \<Rightarrow> EntityStats \<Rightarrow> EntityStats" where
  "count_entity None stats = stats"
| "count_entity (Some (category, kind)) stats =
     stats\<lparr>es_ByCategory := count_in category (es_ByCategory stats),
           es_ByKind := count_in kind (es_ByKind stats)\<rparr>"

definition collectEntityStats :: "entityRuntime option \<Rightarrow> EntityStats" where
  "collectEntityStats rt =
     (case rt of
        None \<Rightarrow> \<lparr>es_Total = 0, es_ByCategory = [], es_ByKind = []\<rparr>
      | Some er \<Rightarrow> fold count_entity (er_Range er) \<lparr>es_Total = er_Len er, es_ByCategory = [], es_ByKind = []\<rparr>)"

section \<open>Byte counts\<close>

text \<open>
  \<open>formatBytes\<close>: \<open>float64(bytes)\<close> keeps the 53 leading bits of a \<open>uint64\<close> (\<open>float53\<close>, ties to even);
  dividing by 1024 is exact, so after \<open>k\<close> divisions the value is \<open>float53 bytes / 1024 ^ k\<close>, and
  \<open>%.2f\<close> prints the nearest hundredth (\<open>half_even\<close>).
\<close>

definition half_even :: "int \<Rightarrow> int \<Rightarrow> int" where
  "half_even a b =
     (let q = a div b; r = a mod b in
      if 2 * r < b then q else if 2 * r > b then q + 1 else if even q then q else q + 1)"

fun float_exp :: "nat \<Rightarrow> int \<Rightarrow> nat" where
  "float_exp 0 n = 0"
| "float_exp (Suc k) n = (if n < 2 ^ 53 then 0 else Suc (float_exp k (n div 2)))"

definition float53 :: "int \<Rightarrow> int" where
  "float53 n = (let e = float_exp 64 n in half_even n (2 ^ e) * 2 ^ e)"

definition show_hundredths :: "int \<Rightarrow> string" where
  "show_hundredths c =
     FormatInt (c div 100) @ ''.'' @ [digit (nat (c mod 100 div 10)), digit (nat (c mod 10))]"

text \<open>The loop over the suffixes; \<open>scale\<close> is what the value has been divided by.\<close>

fun suffix_loop :: "int \<Rightarrow> int \<Rightarrow> string list \<Rightarrow> int \<times> string" where
  "suffix_loop v scale [] = (half_even (100 * v) (scale * 1024), ''EB'')"
| "suffix_loop v scale (sfx # rest) =
     (if v < scale * 1024 * 1024 then (half_even (100 * v) (scale * 1024), sfx)
      else suffix_loop v (scale * 1024) rest)"

definition formatBytes :: "int \<Rightarrow> string" where
  "formatBytes n =
     (if n < 1024 then FormatInt n @ '' B''
      else let (hundredths, sfx) = suffix_loop (float53 n) 1 [''KB'', ''MB'', ''GB'', ''TB'', ''PB''] in
        show_hundredths hundredths @ '' '' @ sfx)"

section \<open>One observation\<close>

record observation =
  ob_Now :: time
  ob_Goroutines :: int
  ob_NumCPU :: int
  ob_GOMAXPROCS :: int
  ob_HeapAlloc :: int
  ob_HeapSys :: int
  ob_Sys :: int
  ob_NumGC :: int
  ob_Entities :: "entityRuntime option"
  ob_Nest :: "dispatcherStats option"

text \<open>A gauge: its name, its labels, its value.\<close>

type_synonym gauge = "string \<times> (string \<times> string) list \<times> int"

definition publishGauges :: "RuntimeStats \<Rightarrow> EntityStats \<Rightarrow> gauge list" where
  "publishGauges rs es =
     [(''runtime.goroutines'', [], ru_Goroutines rs),
      (''runtime.heap_alloc_bytes'', [], i64 (ru_HeapAllocBytes rs)),
      (''runtime.heap_sys_bytes'', [], i64 (ru_HeapSysBytes rs)),
      (''runtime.sys_bytes'', [], i64 (ru_SysBytes rs)),
      (''runtime.num_gc'', [], ru_NumGC rs),
      (''entity.count'', [], es_Total es)] @
     map (\<lambda>(category, n). (''entity.count_by_category'', [(''category'', category)], n)) (es_ByCategory es) @
     map (\<lambda>(kind, n). (''entity.count_by_kind'', [(''kind'', kind)], n)) (es_ByKind es)"

record ('f, 'p, 'o) slworld =
  sw_Mod :: "('f, 'p) statslog"
  sw_Gauges :: "gauge list"
  sw_OS :: 'o

definition runtime_of :: "observation \<Rightarrow> RuntimeStats" where
  "runtime_of ob =
     \<lparr>ru_Goroutines = ob_Goroutines ob, ru_NumCPU = ob_NumCPU ob, ru_GOMAXPROCS = ob_GOMAXPROCS ob,
      ru_HeapAlloc = formatBytes (ob_HeapAlloc ob), ru_HeapAllocBytes = ob_HeapAlloc ob,
      ru_HeapSys = formatBytes (ob_HeapSys ob), ru_HeapSysBytes = ob_HeapSys ob,
      ru_Sys = formatBytes (ob_Sys ob), ru_SysBytes = ob_Sys ob, ru_NumGC = ob_NumGC ob\<rparr>"

definition collect_stats ::
  "('p \<Rightarrow> 'j called) \<Rightarrow> observation \<Rightarrow> (('f, 'p, 'o) slworld, 'j StatsRecord) handler" where
  "collect_stats call ob w =
     (let m = sw_Mod w;
          rs = runtime_of ob; es = collectEntityStats (ob_Entities ob);
          providers = collectProviders call m;
          (ns, m') = (case ob_Nest ob of
                       None \<Rightarrow> (None, m)
                     | Some stats \<Rightarrow> (let (n, m') = nest_window stats (ob_Now ob) m in (Some n, m'))) in
      (Inr \<lparr>sr_Timestamp = ob_Now ob, sr_Service = sg_service m, sr_Sid = sg_sid m, sr_Runtime = rs,
            sr_Entity = es, sr_Nest = ns, sr_Providers = providers\<rparr>,
       w\<lparr>sw_Mod := m', sw_Gauges := sw_Gauges w @ (if sg_metrics m then publishGauges rs es else [])\<rparr>))"

section \<open>One flush\<close>

record ('f, 'o) osfile =
  of_MkdirAll :: "string \<Rightarrow> 'o \<Rightarrow> gerr option \<times> 'o"
  of_OpenFile :: "string \<Rightarrow> 'o \<Rightarrow> (gerr + 'f) \<times> 'o"
  of_Write :: "'f \<Rightarrow> string \<Rightarrow> 'o \<Rightarrow> gerr option \<times> 'o"
  of_Sync :: "'f \<Rightarrow> 'o \<Rightarrow> gerr option \<times> 'o"
  of_Close :: "'f \<Rightarrow> 'o \<Rightarrow> gerr option \<times> 'o"
  of_Join :: "string \<Rightarrow> string \<Rightarrow> string"

definition osE :: "('o \<Rightarrow> gerr option \<times> 'o) \<Rightarrow> (('f, 'p, 'o) slworld, unit) handler" where
  "osE f w = (case f (sw_OS w) of (e, o') \<Rightarrow>
     ((case e of None \<Rightarrow> Inr () | Some err \<Rightarrow> Inl err), w\<lparr>sw_OS := o'\<rparr>))"

definition open_file :: "('f, 'o) osfile \<Rightarrow> (('f, 'p, 'o) slworld, 'f) handler" where
  "open_file os w =
     (case sg_file (sw_Mod w) of
        Some f \<Rightarrow> (Inr f, w)
      | None \<Rightarrow>
          (case of_MkdirAll os (sg_dir (sw_Mod w)) (sw_OS w) of
             (Some err, o1) \<Rightarrow> (Inl err, w\<lparr>sw_OS := o1\<rparr>)
           | (None, o1) \<Rightarrow>
               (case of_OpenFile os (of_Join os (sg_dir (sw_Mod w)) (sg_filename (sw_Mod w))) o1 of
                  (Inl err, o2) \<Rightarrow> (Inl err, w\<lparr>sw_OS := o2\<rparr>)
                | (Inr f, o2) \<Rightarrow>
                    (Inr f, w\<lparr>sw_OS := o2, sw_Mod := (sw_Mod w)\<lparr>sg_file := Some f\<rparr>\<rparr>))))"

definition FlushOnce ::
  "('p \<Rightarrow> 'j called) \<Rightarrow> ('j StatsRecord \<Rightarrow> gerr + string) \<Rightarrow> ('f, 'o) osfile \<Rightarrow> observation \<Rightarrow>
   (('f, 'p, 'o) slworld, unit) handler" where
  "FlushOnce call marshal os ob w =
     (if \<not> sg_enabled (sw_Mod w) then (Inr (), w)
      else bindE (collect_stats call ob) (\<lambda>observed.
           bindE (liftE (marshal observed)) (\<lambda>raw.
           bindE (open_file os) (\<lambda>f.
           thenE (osE (of_Write os f (raw @ bytes [10]))) (osE (of_Sync os f))))) w)"

definition closeFile :: "('f, 'o) osfile \<Rightarrow> ('f, 'p, 'o) slworld \<Rightarrow> ('f, 'p, 'o) slworld" where
  "closeFile os w =
     (case sg_file (sw_Mod w) of
        None \<Rightarrow> w
      | Some f \<Rightarrow> w\<lparr>sw_OS := snd (of_Close os f (sw_OS w)), sw_Mod := (sw_Mod w)\<lparr>sg_file := None\<rparr>\<rparr>)"

end
