(* ===== verification/StatsLogProps.thy ===== *)
theory StatsLogProps
  imports StatsLog
begin

text \<open>
  Properties of the statistics log: whose provider an unregistration removes, how the windows of the
  nest counters add up, how far a rendered byte count is from the count, and what a successful flush
  has written.
\<close>

section \<open>Providers\<close>

text \<open>
  A run of registrations and of calls to the closures they answered; \<open>Unreg k\<close> calls the closure of
  the \<open>k\<close>-th registration, possibly more than once.
\<close>

datatype 'p prov_op = Reg string 'p | Unreg nat

fun prov_step :: "'p prov_op \<Rightarrow> ('f, 'p) statslog \<times> (string \<times> int) option list \<Rightarrow>
    ('f, 'p) statslog \<times> (string \<times> int) option list" where
  "prov_step (Reg n f) (m, cs) = (let (c, m') = RegisterProvider n (Some f) m in (m', cs @ [c]))"
| "prov_step (Unreg k) (m, cs) = (if k < length cs then (unregister (cs ! k) m, cs) else (m, cs))"

definition prov_run :: "'p prov_op list \<Rightarrow> ('f, 'p) statslog \<times> (string \<times> int) option list \<Rightarrow>
    ('f, 'p) statslog \<times> (string \<times> int) option list" where
  "prov_run ops st = fold prov_step ops st"

fun regs :: "'p prov_op list \<Rightarrow> nat" where
  "regs [] = 0"
| "regs (Reg n f # ops) = Suc (regs ops)"
| "regs (Unreg k # ops) = regs ops"

text \<open>Ids are handed out in order: the closures that registered something hold different ids, none above the counter.\<close>

definition prov_ok :: "('f, 'p) statslog \<times> (string \<times> int) option list \<Rightarrow> bool" where
  "prov_ok st = (case st of (m, cs) \<Rightarrow>
     0 \<le> sg_nextProviderID m \<and> sg_nextProviderID m \<le> int (length cs) \<and>
     (\<forall>k < length cs. \<forall>n i. cs ! k = Some (n, i) \<longrightarrow> i \<le> sg_nextProviderID m) \<and>
     (\<forall>j < length cs. \<forall>k < j. \<forall>n i n' i'. cs ! j = Some (n, i) \<and> cs ! k = Some (n', i') \<longrightarrow> i' < i))"

lemma register_effect:
  assumes "n \<noteq> []" "sg_nextProviderID m + 1 < 2 ^ 64" "0 \<le> sg_nextProviderID m"
  shows "RegisterProvider n (Some f) m =
    (Some (n, sg_nextProviderID m + 1),
     m\<lparr>sg_nextProviderID := sg_nextProviderID m + 1,
       sg_providers := AList.update n \<lparr>pe_id = sg_nextProviderID m + 1, pe_fn = f\<rparr> (sg_providers m)\<rparr>)"
  using assms by (simp add: RegisterProvider_def Let_def u64_id)

lemma prov_ok_step:
  assumes ok: "prov_ok st" and b: "length (snd st) < 2 ^ 64 - 1"
  shows "prov_ok (prov_step op st)"
proof -
  obtain m cs where st: "st = (m, cs)" by (cases st)
  show ?thesis
  proof (cases op)
    case (Reg n f)
    show ?thesis
    proof (cases "n = []")
      case True
      then show ?thesis using ok
        by (auto simp: st Reg prov_ok_def RegisterProvider_def nth_append less_Suc_eq)
    next
      case False
      have "sg_nextProviderID m + 1 < 2 ^ 64" "0 \<le> sg_nextProviderID m"
        using ok b by (auto simp: st prov_ok_def)
      note e = register_effect [OF False this, of f]
      have "\<forall>k < length cs. \<forall>n i. cs ! k = Some (n, i) \<longrightarrow> i \<le> sg_nextProviderID m"
        using ok by (simp add: st prov_ok_def)
      then have "\<forall>k < length cs. \<forall>n i. cs ! k = Some (n, i) \<longrightarrow> i < sg_nextProviderID m + 1" by force
      then show ?thesis using ok
        by (auto simp: st Reg prov_ok_def e nth_append less_Suc_eq)
    qed
  next
    case (Unreg k)
    have "sg_nextProviderID (unregister c m) = sg_nextProviderID m" for c
      by (auto simp: unregister_def split: option.split)
    then show ?thesis using ok by (auto simp: st Unreg prov_ok_def)
  qed
qed

lemma prov_length_step: "length (snd (prov_step op st)) = length (snd st) + regs [op]"
  by (cases st; cases op) (auto split: prod.split)

lemma prov_length: "length (snd (prov_run ops st)) = length (snd st) + regs ops"
proof (induction ops arbitrary: st)
  case (Cons op ops)
  then show ?case using prov_length_step [of op st] by (cases op) (simp_all add: prov_run_def)
qed (simp add: prov_run_def)

lemma prov_ok_run:
  "prov_ok st \<Longrightarrow> length (snd st) + regs ops < 2 ^ 64 - 1 \<Longrightarrow> prov_ok (prov_run ops st)"
proof (induction ops arbitrary: st)
  case (Cons op ops)
  have r: "regs (op # ops) = regs [op] + regs ops" by (cases op) simp_all
  with Cons.prems have "prov_ok (prov_step op st)"
    "length (snd (prov_step op st)) + regs ops < 2 ^ 64 - 1"
    by (auto simp: prov_length_step intro!: prov_ok_step)
  from Cons.IH [OF this] show ?case by (simp add: prov_run_def)
qed (simp add: prov_run_def)

text \<open>What keeps the registration with closure number \<open>k\<close> in place.\<close>

fun leaves_alone :: "string \<Rightarrow> nat \<Rightarrow> 'p prov_op \<Rightarrow> bool" where
  "leaves_alone n k (Reg n' f) \<longleftrightarrow> n' \<noteq> n"
| "leaves_alone n k (Unreg j) \<longleftrightarrow> j \<noteq> k"

lemma prov_keeps:
  assumes "prov_ok (m, cs)" "length cs < 2 ^ 64 - 1" "k < length cs" "cs ! k = Some (n, i)"
    and "map_of (sg_providers m) n = Some \<lparr>pe_id = i, pe_fn = f\<rparr>" "leaves_alone n k op"
    and "prov_step op (m, cs) = (m', cs')"
  shows "map_of (sg_providers m') n = Some \<lparr>pe_id = i, pe_fn = f\<rparr> \<and> k < length cs' \<and> cs' ! k = Some (n, i)"
proof (cases op)
  case (Reg n' f')
  then show ?thesis using assms
    by (auto simp: RegisterProvider_def Let_def nth_append update_conv' split: if_splits)
next
  case (Unreg j)
  show ?thesis
  proof (cases "j < length cs \<and> (\<exists>i'. cs ! j = Some (n, i'))")
    case True
    then obtain i' where i': "cs ! j = Some (n, i')" "j < length cs" by blast
    from Unreg assms(6) have "j \<noteq> k" by simp
    then have "i' \<noteq> i" using assms(1,3,4) i' by (auto simp: prov_ok_def neq_iff)
    then show ?thesis using assms Unreg i' by (auto simp: unregister_def)
  next
    case False
    then show ?thesis using assms Unreg
      by (auto simp: unregister_def delete_conv' split: option.splits if_splits)
  qed
qed

lemma prov_keeps_run:
  assumes "prov_ok (m, cs)" "length cs + regs ops < 2 ^ 64 - 1" "k < length cs" "cs ! k = Some (n, i)"
    and "map_of (sg_providers m) n = Some \<lparr>pe_id = i, pe_fn = f\<rparr>" "list_all (leaves_alone n k) ops"
  shows "map_of (sg_providers (fst (prov_run ops (m, cs)))) n = Some \<lparr>pe_id = i, pe_fn = f\<rparr>"
  using assms
proof (induction ops arbitrary: m cs)
  case (Cons op ops)
  obtain m1 cs1 where s: "prov_step op (m, cs) = (m1, cs1)" by (cases "prov_step op (m, cs)")
  have r: "regs (op # ops) = regs [op] + regs ops" by (cases op) simp_all
  with Cons.prems(2) have b: "length cs < 2 ^ 64 - 1" by simp
  have "prov_ok (m1, cs1)" "length cs1 + regs ops < 2 ^ 64 - 1"
    using prov_ok_step [OF Cons.prems(1), of op] prov_length_step [of op "(m, cs)"] s b r Cons.prems(2) by auto
  moreover note prov_keeps [OF Cons.prems(1) b Cons.prems(3,4,5) _ s]
  ultimately show ?case
    using Cons.IH [of m1 cs1] Cons.prems(6) s by (auto simp: prov_run_def)
qed (simp add: prov_run_def)

lemma prov_ok_fresh: "prov_ok (NewStatsLogMod :: ('f, 'p) statslog, [])"
  by (simp add: prov_ok_def NewStatsLogMod_def)

text \<open>A registered provider stays the one that is collected under its name, under any further
  registrations of other names and any calls to other closures (stale ones and repeated ones
  included), until its own closure is called or its name is registered again.\<close>

theorem provider_owned:
  assumes "regs before + regs after + 1 < 2 ^ 64 - 1" and "n \<noteq> []"
    and "list_all (leaves_alone n (regs before)) after"
  shows "map_of (collectProviders call (fst (prov_run (before @ Reg n f # after) (NewStatsLogMod :: ('f, 'p) statslog, [])))) n =
    Some (case collectProvider (call f) of Inl e \<Rightarrow> ProviderError e | Inr v \<Rightarrow> Provided v)"
    (is "map_of (collectProviders call (fst (prov_run _ ?fresh))) n = _")
proof -
  obtain m cs where r: "prov_run before ?fresh = (m, cs)"
    by (cases "prov_run before ?fresh")
  have ok: "prov_ok (m, cs)"
    using prov_ok_run [of ?fresh before] assms(1) r prov_ok_fresh [where ?'f = 'f and ?'p = 'p] by (simp add: add.commute)
  have len: "length cs = regs before"
    using prov_length [of before "?fresh"] r by simp
  have i: "sg_nextProviderID m + 1 < 2 ^ 64" "0 \<le> sg_nextProviderID m"
    using ok assms(1) len by (auto simp: prov_ok_def)
  define m1 where "m1 = snd (RegisterProvider n (Some f) m)"
  note e = register_effect [OF assms(2) i, of f]
  have s: "prov_step (Reg n f) (m, cs) = (m1, cs @ [Some (n, sg_nextProviderID m + 1)])"
    by (simp add: e m1_def)
  have ok1: "prov_ok (m1, cs @ [Some (n, sg_nextProviderID m + 1)])"
    using prov_ok_step [OF ok, of "Reg n f"] s assms(1) len by simp
  have "map_of (sg_providers m1) n = Some \<lparr>pe_id = sg_nextProviderID m + 1, pe_fn = f\<rparr>"
    by (simp add: e m1_def update_conv')
  with prov_keeps_run [OF ok1, of after "regs before" n "sg_nextProviderID m + 1" f] assms(1,3) len
  have "map_of (sg_providers (fst (prov_run after (m1, cs @ [Some (n, sg_nextProviderID m + 1)])))) n =
      Some \<lparr>pe_id = sg_nextProviderID m + 1, pe_fn = f\<rparr>" by (simp add: nth_append)
  moreover have "prov_run (before @ Reg n f # after) ?fresh =
      prov_run after (m1, cs @ [Some (n, sg_nextProviderID m + 1)])"
    using r s by (simp add: prov_run_def)
  ultimately show ?thesis
    by (simp add: collectProviders_def map_of_map)
qed
lemma provider_owned_witness:
  "map_of (collectProviders Returned (fst (prov_run
     ([Reg ''db'' 1] @ Reg ''db'' 2 # [Unreg 0, Reg ''bus'' 3, Unreg 0])
     (NewStatsLogMod :: (unit, nat) statslog, [])))) ''db'' = Some (Provided 2)"
  by (subst provider_owned) (simp_all add: collectProvider_def)

section \<open>Windows\<close>

text \<open>The nest windows of a sequence of observations.\<close>

fun nest_windows :: "(dispatcherStats \<times> time) list \<Rightarrow> ('f, 'p) statslog \<Rightarrow> NestStats list" where
  "nest_windows [] m = []"
| "nest_windows ((stats, now) # obs) m =
     (let (ns, m') = nest_window stats now m in ns # nest_windows obs m')"

definition total_of :: "dispatcherStats \<times> time \<Rightarrow> int" where
  "total_of ob = wk_ProcessedMessages (ds_Work (fst ob))"

lemma total_of_pair [simp]: "total_of (stats, now) = wk_ProcessedMessages (ds_Work stats)"
  by (simp add: total_of_def)

definition observed :: "(dispatcherStats \<times> time) list \<Rightarrow> ('f, 'p) statslog \<Rightarrow> ('f, 'p) statslog" where
  "observed obs m = fold (\<lambda>(stats, now) m. snd (nest_window stats now m)) obs m"

lemma nest_windows_append: "nest_windows (xs @ ys) m = nest_windows xs m @ nest_windows ys (observed xs m)"
  by (induction xs arbitrary: m) (auto simp: observed_def split: prod.split)

lemma last_work [simp]:
  "wk_ProcessedMessages (sg_lastNestWork (snd (nest_window stats now m))) = wk_ProcessedMessages (ds_Work stats)"
  by (simp add: nest_window_def Let_def)

lemma observed_work:
  "obs \<noteq> [] \<Longrightarrow> wk_ProcessedMessages (sg_lastNestWork (observed obs m)) = total_of (last obs)"
  by (induction obs rule: rev_induct) (auto simp: observed_def)

lemma windows_sum:
  assumes "sorted (map total_of obs)"
  shows "sum_list (map ns_ProcessedMessages (nest_windows obs m)) =
    (if obs = [] then 0
     else total_of (last obs) - (if total_of (hd obs) < wk_ProcessedMessages (sg_lastNestWork m) then 0
                                 else wk_ProcessedMessages (sg_lastNestWork m)))"
  using assms
proof (induction obs arbitrary: m)
  case (Cons ob obs)
  obtain stats now where ob: "ob = (stats, now)" by (cases ob)
  have "obs = [] \<or> \<not> total_of (hd obs) < wk_ProcessedMessages (ds_Work stats)"
    using Cons.prems by (cases obs) (simp_all add: ob)
  moreover have "ns_ProcessedMessages (fst (nest_window stats now m)) =
      subtractCounter (total_of ob) (wk_ProcessedMessages (sg_lastNestWork m))"
    by (simp add: ob nest_window_def Let_def formatNestStats_def nestWorkDelta_def)
  ultimately show ?case
    using Cons.IH [of "snd (nest_window stats now m)"] Cons.prems
    by (auto simp: ob split_def Let_def subtractCounter_def)
qed simp

text \<open>C36: The windows of the nest counter add up. While the counter only grows, the processed messages of
  the windows sum to the last total; after a restart of the dispatcher, seen as a smaller total, the
  next window counts what was processed since, and the windows from there again sum to the last
  total.\<close>

theorem windows_account:
  assumes "sorted (map total_of first)" and "\<forall>ob \<in> set (first @ second). 0 \<le> total_of ob"
    and "first \<noteq> []" "second \<noteq> []" and "total_of (hd second) < total_of (last first)"
    and "sorted (map total_of second)"
  shows "sum_list (map ns_ProcessedMessages (nest_windows first (NewStatsLogMod :: ('f, 'p) statslog))) = total_of (last first) \<and>
         sum_list (map ns_ProcessedMessages (nest_windows (first @ second) (NewStatsLogMod :: ('f, 'p) statslog))) =
           total_of (last first) + total_of (last second)"
proof -
  let ?m = "NewStatsLogMod :: ('f, 'p) statslog"
  have f: "sum_list (map ns_ProcessedMessages (nest_windows first ?m)) = total_of (last first)"
    using windows_sum [OF assms(1), of ?m] assms(2,3) by (simp add: NewStatsLogMod_def)
  then show ?thesis
    using windows_sum [OF assms(6), of "observed first ?m"] assms(3,4,5)
    by (simp add: nest_windows_append observed_work)
qed

definition ex_pool :: poolStats where
  "ex_pool = \<lparr>pl_Name = [], pl_WorkerNum = 0, pl_QueueLen = 0, pl_QueueCap = 0, pl_Started = True, pl_Stopped = False\<rparr>"

definition ex_stats :: "int \<Rightarrow> dispatcherStats" where
  "ex_stats n = \<lparr>ds_Main = ex_pool, ds_Heart = ex_pool, ds_Cost = ex_pool,
     ds_Work = \<lparr>wk_ProcessedMessages = n, wk_Slow200msMessages = 0\<rparr>, ds_Delayed = 0, ds_Stopped = False\<rparr>"

lemma windows_account_witness:
  "sum_list (map ns_ProcessedMessages (nest_windows
     ([(ex_stats 5, 0), (ex_stats 9, 60)] @ [(ex_stats 2, 120), (ex_stats 4, 180)])
     (NewStatsLogMod :: (unit, unit) statslog))) = 13"
  using windows_account [of "[(ex_stats 5, 0), (ex_stats 9, 60)]" "[(ex_stats 2, 120), (ex_stats 4, 180)]",
      where ?'f = unit and ?'p = unit]
  by (simp add: ex_stats_def)

section \<open>Byte counts\<close>

lemma half_even_near:
  assumes "0 < b"
  shows "\<bar>half_even a b * b - a\<bar> * 2 \<le> b"
proof -
  have r: "a = b * (a div b) + a mod b" "0 \<le> a mod b" "a mod b < b" using assms by simp_all
  show ?thesis
  proof (cases "2 * (a mod b) < b \<or> 2 * (a mod b) = b \<and> even (a div b)")
    case True
    then have "half_even a b = a div b" by (auto simp: half_even_def Let_def)
    then have "half_even a b * b - a = - (a mod b)" using r(1) by (simp add: algebra_simps)
    with True r show ?thesis by auto
  next
    case False
    then have "half_even a b = a div b + 1" by (auto simp: half_even_def Let_def)
    then have "half_even a b * b - a = b - a mod b" using r(1) by (simp add: algebra_simps)
    with False r show ?thesis by auto
  qed
qed

lemma half_even_ge: "0 < b \<Longrightarrow> k * b \<le> a \<Longrightarrow> k \<le> half_even a b"
proof -
  assume "0 < b" "k * b \<le> a"
  then have "k \<le> a div b" by (simp add: zdiv_mono1 [of "k * b" a b, simplified])
  then show ?thesis by (auto simp: half_even_def Let_def)
qed

lemma half_even_le: "0 < b \<Longrightarrow> a \<le> k * b \<Longrightarrow> half_even a b \<le> k"
proof -
  assume b: "0 < b" and a: "a \<le> k * b"
  obtain x y where x: "x = half_even a b * b" and y: "y = k * b" by blast
  have "\<bar>x - a\<bar> * 2 \<le> b" using half_even_near [OF b, of a] by (simp add: x)
  then have "x < y + b" using a b unfolding y [symmetric] by arith
  then have "half_even a b * b < (k + 1) * b" by (simp add: x y algebra_simps)
  then have "half_even a b < k + 1" using b by (simp add: mult_less_cancel_right)
  then show ?thesis by simp
qed

text \<open>The loop stops at a scale at which the value has at most four digits before the point.\<close>

lemma suffix_loop_exact:
  assumes "suffix_loop v scale sfxs = (h, u)" "0 < scale" "scale * 1024 \<le> v"
    and "v \<le> scale * 1024 * 1024 ^ Suc (length sfxs)"
  shows "\<exists>k. k \<le> length sfxs \<and> u = (sfxs @ [''EB'']) ! k \<and>
     \<bar>h * (scale * 1024 ^ Suc k) - 100 * v\<bar> * 2 \<le> scale * 1024 ^ Suc k \<and> 100 \<le> h \<and> h \<le> 102400"
  using assms
proof (induction sfxs arbitrary: scale)
  case Nil
  then have "h = half_even (100 * v) (scale * 1024)" "u = ''EB''" by simp_all
  moreover have "100 \<le> half_even (100 * v) (scale * 1024)"
    using Nil.prems(2,3) by (intro half_even_ge) simp_all
  moreover have "half_even (100 * v) (scale * 1024) \<le> 102400"
    using Nil.prems(2,4) by (intro half_even_le) simp_all
  ultimately show ?case
    using half_even_near [of "scale * 1024" "100 * v"] Nil.prems(2) by simp
next
  case (Cons s sfxs)
  show ?case
  proof (cases "v < scale * 1024 * 1024")
    case True
    then have h: "h = half_even (100 * v) (scale * 1024)" "u = s" using Cons.prems(1) by simp_all
    have "100 \<le> half_even (100 * v) (scale * 1024)"
      using Cons.prems(2,3) by (intro half_even_ge) simp_all
    moreover have "half_even (100 * v) (scale * 1024) \<le> 102400"
      using Cons.prems(2) True by (intro half_even_le) simp_all
    ultimately show ?thesis
      using half_even_near [of "scale * 1024" "100 * v"] Cons.prems(2) h
      by (intro exI [of _ 0]) simp
  next
    case False
    then have "suffix_loop v (scale * 1024) sfxs = (h, u)" using Cons.prems(1) by simp
    from Cons.IH [OF this] Cons.prems False obtain k where
      "k \<le> length sfxs" "u = (sfxs @ [''EB'']) ! k" "100 \<le> h" "h \<le> 102400"
      "\<bar>h * (scale * 1024 * 1024 ^ Suc k) - 100 * v\<bar> * 2 \<le> scale * 1024 * 1024 ^ Suc k"
      by (auto simp: mult.assoc)
    then show ?thesis by (intro exI [of _ "Suc k"]) (simp add: mult.assoc)
  qed
qed

lemma float_exp_le: "float_exp k n \<le> k"
  by (induction k arbitrary: n) simp_all

lemma float_exp_low: "0 < float_exp k n \<Longrightarrow> 2 ^ 52 * 2 ^ float_exp k n \<le> n"
proof (induction k arbitrary: n)
  case (Suc k)
  then have n: "2 ^ 53 \<le> n" and e: "float_exp (Suc k) n = Suc (float_exp k (n div 2))"
    by (auto split: if_splits)
  show ?case
  proof (cases "float_exp k (n div 2)")
    case 0
    with n e show ?thesis by simp
  next
    case (Suc j)
    then have "2 ^ 52 * 2 ^ float_exp k (n div 2) \<le> n div 2" by (intro Suc.IH) simp
    then have "2 ^ 52 * 2 ^ float_exp k (n div 2) * 2 \<le> n" by linarith
    with e show ?thesis by simp
  qed
qed simp

lemma float53_bounds:
  assumes "1024 \<le> n" "n < 2 ^ 64"
  shows "1024 \<le> float53 n" "float53 n \<le> 2 ^ 64"
proof -
  define e where "e = float_exp 64 n"
  have f: "float53 n = half_even n (2 ^ e) * 2 ^ e" by (simp add: float53_def e_def Let_def)
  show "1024 \<le> float53 n"
  proof (cases "e = 0")
    case True
    then show ?thesis using assms by (simp add: f half_even_def)
  next
    case False
    then have "2 ^ 52 * 2 ^ e \<le> n" unfolding e_def by (intro float_exp_low) simp
    then have h: "2 ^ 52 \<le> half_even n (2 ^ e)" by (intro half_even_ge) simp_all
    have "(1024 :: int) \<le> 2 ^ 52 * 1" by simp
    also have "\<dots> \<le> half_even n (2 ^ e) * 2 ^ e" using h by (intro mult_mono) simp_all
    finally show ?thesis by (simp add: f)
  qed
  have e64: "(2 :: int) ^ 64 = 2 ^ (64 - e) * 2 ^ e"
    using float_exp_le [of 64 n] by (simp add: e_def flip: power_add)
  then have "half_even n (2 ^ e) \<le> 2 ^ (64 - e)"
    using assms(2) by (intro half_even_le) simp_all
  then show "float53 n \<le> 2 ^ 64" unfolding f e64 by (intro mult_right_mono) simp_all
qed

text \<open>A rendered byte count is the nearest hundredth in its unit. Up to 1023 the count is printed
  exactly; above, the text is the hundredths of a unit of \<open>1024 ^ k\<close> bytes, between 1.00 and 1024.00,
  and they are within half a hundredth of the count as a 64 bit float.\<close>

theorem formatBytes_nearest:
  assumes "0 \<le> n" "n < 2 ^ 64"
  shows "formatBytes n = FormatInt n @ '' B'' \<and> n < 1024 \<or>
    (\<exists>h k. formatBytes n = show_hundredths h @ '' '' @ [''KB'', ''MB'', ''GB'', ''TB'', ''PB'', ''EB''] ! k \<and>
       k < 6 \<and> 100 \<le> h \<and> h \<le> 102400 \<and>
       2 * \<bar>h * 1024 ^ Suc k - 100 * float53 n\<bar> \<le> 1024 ^ Suc k)"
proof (cases "n < 1024")
  case False
  let ?sfxs = "[''KB'', ''MB'', ''GB'', ''TB'', ''PB'']"
  obtain h u where l: "suffix_loop (float53 n) 1 ?sfxs = (h, u)" by (cases "suffix_loop (float53 n) 1 ?sfxs")
  have "1024 \<le> float53 n" "float53 n \<le> 2 ^ 64" using float53_bounds [of n] assms False by simp_all
  then obtain k where k: "k \<le> length ?sfxs" "u = (?sfxs @ [''EB'']) ! k" "100 \<le> h" "h \<le> 102400"
      "\<bar>h * (1 * 1024 ^ Suc k) - 100 * float53 n\<bar> * 2 \<le> 1 * 1024 ^ Suc k"
    using suffix_loop_exact [OF l] by auto
  have "formatBytes n = show_hundredths h @ '' '' @ u"
    using False l by (simp add: formatBytes_def)
  moreover from k(1) have "k < 6" by simp
  ultimately show ?thesis using k(2-) by (intro disjI2 exI [of _ h] exI [of _ k]) (simp add: mult.commute)
qed (use assms in \<open>simp add: formatBytes_def\<close>)

lemma formatBytes_nearest_witness:
  "formatBytes 1536 = ''1.50 KB'' \<and>
   (\<exists>h k. formatBytes 1536 = show_hundredths h @ '' '' @ [''KB'', ''MB'', ''GB'', ''TB'', ''PB'', ''EB''] ! k \<and> k < 6)"
proof
  have f: "float53 1536 = 1536" by code_simp
  show "formatBytes 1536 = ''1.50 KB''" by code_simp
  show "\<exists>h k. formatBytes 1536 = show_hundredths h @ '' '' @ [''KB'', ''MB'', ''GB'', ''TB'', ''PB'', ''EB''] ! k \<and> k < 6"
    using formatBytes_nearest [of 1536] by auto
qed

section \<open>A flush\<close>

lemma open_file_holds: "open_file os w = (Inr f, w') \<Longrightarrow> sg_file (sw_Mod w') = Some f"
  by (auto simp: open_file_def split: option.splits prod.splits sum.splits)

lemma osE_ok: "osE f w = (Inr u, w') \<Longrightarrow> f (sw_OS w) = (None, sw_OS w') \<and> sw_Mod w' = sw_Mod w"
  by (auto simp: osE_def split: option.splits prod.splits)

text \<open>A flush that answers no error has written the encoded record and a line end to the file the Mod keeps, and synced it.\<close>

lemma flush_writes_a_line:
  assumes "FlushOnce call marshal os ob w = (Inr (), w')" and "sg_enabled (sw_Mod w)"
  shows "\<exists>raw f o1 o2. marshal (projr (fst (collect_stats call ob w))) = Inr raw \<and>
    sg_file (sw_Mod w') = Some f \<and> of_Write os f (raw @ bytes [10]) o1 = (None, o2) \<and>
    of_Sync os f o2 = (None, sw_OS w')"
proof -
  from assms have "bindE (collect_stats call ob) (\<lambda>observed. bindE (liftE (marshal observed)) (\<lambda>raw.
      bindE (open_file os) (\<lambda>f.
        thenE (osE (of_Write os f (raw @ bytes [10]))) (osE (of_Sync os f))))) w = (Inr (), w')"
    by (simp add: FlushOnce_def)
  then obtain observed raw f w1 w2 where c: "collect_stats call ob w = (Inr observed, w1)"
    and r: "marshal observed = Inr raw"
    and o: "open_file os w1 = (Inr f, w2)"
    and t: "thenE (osE (of_Write os f (raw @ bytes [10]))) (osE (of_Sync os f)) w2 = (Inr (), w')"
    by (auto simp: bindE_Inr_iff eq_commute [of "Inr _" "marshal _"])
  from t obtain u w3 where wr: "osE (of_Write os f (raw @ bytes [10])) w2 = (Inr u, w3)"
    and sy: "osE (of_Sync os f) w3 = (Inr (), w')"
    by (auto elim!: thenE_cases)
  show ?thesis
    using c r open_file_holds [OF o] osE_ok [OF wr] osE_ok [OF sy] by fastforce
qed

end
