(* ===== verification/StatsLogLife.thy ===== *)
theory StatsLogLife
  imports StatsLog
begin

text \<open>
  The lifecycle of the statistics log (\<open>Start\<close>, \<open>Stop\<close>, \<open>StopWithContext\<close> in
  \<open>statslog/statslog.go\<close>) as a state machine: the ticker goroutine \<open>Start\<close> starts, the goroutine the
  first \<open>StopWithContext\<close> starts to end it, and the three channels they speak through. Closing a channel
  twice is a panic and is recorded as one.
\<close>

datatype ticker = NotRunning | Running | Returned_loop

text \<open>Where the goroutine of \<open>StopWithContext\<close> is: not started; before its test of \<open>started\<close>; waiting for
  \<open>doneCh\<close>; before \<open>closeFile\<close>; before \<open>close(m.closedCh)\<close>; returned.\<close>

datatype closer = NoCloser | Begin bool | AwaitDone | Closing | Announcing | Returned_closer

record life =
  lf_started :: bool
  lf_stopOnce :: bool
  lf_stopCh :: bool
  lf_doneCh :: bool
  lf_closedCh :: bool
  lf_ticker :: ticker
  lf_closer :: closer
  lf_file :: bool
  lf_panic :: bool

definition life_init :: life where
  "life_init = \<lparr>lf_started = False, lf_stopOnce = False, lf_stopCh = False, lf_doneCh = False,
     lf_closedCh = False, lf_ticker = NotRunning, lf_closer = NoCloser, lf_file = False, lf_panic = False\<rparr>"

definition StatsLogStart :: "bool \<Rightarrow> life \<Rightarrow> life" where
  "StatsLogStart enabled s =
     (if \<not> enabled then s
      else if lf_started s then s
      else s\<lparr>lf_started := True, lf_ticker := Running\<rparr>)"

text \<open>The two branches of the ticker's \<open>select\<close>. A tick flushes; the flush opens the file or fails to.\<close>

definition tick_step :: "bool \<Rightarrow> life \<Rightarrow> life" where
  "tick_step opened s = s\<lparr>lf_file := (lf_file s \<or> opened)\<rparr>"

definition exit_step :: "life \<Rightarrow> life" where
  "exit_step s = s\<lparr>lf_ticker := Returned_loop, lf_doneCh := True, lf_panic := (lf_panic s \<or> lf_doneCh s)\<rparr>"

text \<open>A call of \<open>StopWithContext\<close> up to its wait: the first one starts the closer.\<close>

definition StopWithContext :: "life \<Rightarrow> life" where
  "StopWithContext s =
     (if lf_stopOnce s then s else s\<lparr>lf_stopOnce := True, lf_closer := Begin (lf_started s)\<rparr>)"

definition closer_step :: "life \<Rightarrow> life" where
  "closer_step s =
     (case lf_closer s of
        Begin True \<Rightarrow> s\<lparr>lf_stopCh := True, lf_panic := (lf_panic s \<or> lf_stopCh s), lf_closer := AwaitDone\<rparr>
      | Begin False \<Rightarrow> s\<lparr>lf_closer := Closing\<rparr>
      | AwaitDone \<Rightarrow> if lf_doneCh s then s\<lparr>lf_closer := Closing\<rparr> else s
      | Closing \<Rightarrow> s\<lparr>lf_file := False, lf_closer := Announcing\<rparr>
      | Announcing \<Rightarrow> s\<lparr>lf_closedCh := True, lf_panic := (lf_panic s \<or> lf_closedCh s), lf_closer := Returned_closer\<rparr>
      | _ \<Rightarrow> s)"

datatype life_event = Start_call | Tick bool | Exit | Stop_call | Closer

inductive life_step :: "bool \<Rightarrow> life_event \<Rightarrow> life \<Rightarrow> life \<Rightarrow> bool" for enabled where
  start: "life_step enabled Start_call s (StatsLogStart enabled s)"
| tick: "lf_ticker s = Running \<Longrightarrow> life_step enabled (Tick opened) s (tick_step opened s)"
| exit: "lf_ticker s = Running \<Longrightarrow> lf_stopCh s \<Longrightarrow> life_step enabled Exit s (exit_step s)"
| stop: "life_step enabled Stop_call s (StopWithContext s)"
| closer: "closer_step s \<noteq> s \<Longrightarrow> life_step enabled Closer s (closer_step s)"

inductive_cases life_stepE: "life_step enabled ev s s'"

inductive life_reach :: "bool \<Rightarrow> life \<Rightarrow> bool" for enabled where
  init: "life_reach enabled life_init"
| step: "life_reach enabled s \<Longrightarrow> life_step enabled ev s s' \<Longrightarrow> life_reach enabled s'"

text \<open>The invariant: which channel is closed is determined by where the goroutines are.\<close>

definition life_inv :: "life \<Rightarrow> bool" where
  "life_inv s \<longleftrightarrow>
     \<not> lf_panic s \<and>
     (lf_doneCh s \<longleftrightarrow> lf_ticker s = Returned_loop) \<and>
     (lf_started s \<longleftrightarrow> lf_ticker s \<noteq> NotRunning) \<and>
     (lf_stopOnce s \<longleftrightarrow> lf_closer s \<noteq> NoCloser) \<and>
     (lf_closedCh s \<longleftrightarrow> lf_closer s = Returned_closer) \<and>
     (lf_stopCh s \<longrightarrow> lf_started s \<and> lf_closer s \<notin> {NoCloser, Begin True, Begin False}) \<and>
     (lf_ticker s = Returned_loop \<longrightarrow> lf_stopCh s) \<and>
     (lf_closer s = Begin True \<longrightarrow> lf_started s) \<and>
     (lf_closer s = AwaitDone \<longrightarrow> lf_stopCh s) \<and>
     (lf_stopCh s \<and> lf_closer s \<in> {Closing, Announcing, Returned_closer} \<longrightarrow> lf_ticker s = Returned_loop) \<and>
     (lf_stopCh s \<and> lf_closer s \<in> {Announcing, Returned_closer} \<longrightarrow> \<not> lf_file s)"

lemmas life_defs = StatsLogStart_def tick_step_def exit_step_def StopWithContext_def

lemma life_inv_step: "life_inv s \<Longrightarrow> life_step enabled ev s s' \<Longrightarrow> life_inv s'"
proof (erule life_stepE)
  assume inv: "life_inv s" and s': "s' = closer_step s"
  then show "life_inv s'"
    by (cases "lf_closer s") (auto simp: life_inv_def closer_step_def split: bool.splits)
qed (auto simp: life_inv_def life_defs)

lemma life_inv_reach: "life_reach enabled s \<Longrightarrow> life_inv s"
proof (induction rule: life_reach.induct)
  case init
  show ?case by (simp add: life_inv_def life_init_def)
qed (rule life_inv_step)

text \<open>How far the stop is from its end: the ticker counts once, the closer by its remaining steps.\<close>

definition stop_distance :: "life \<Rightarrow> nat" where
  "stop_distance s =
     (if lf_ticker s = Running then 1 else 0) +
     (case lf_closer s of NoCloser \<Rightarrow> 0 | Begin b \<Rightarrow> 4 | AwaitDone \<Rightarrow> 3 | Closing \<Rightarrow> 2 | Announcing \<Rightarrow> 1
      | Returned_closer \<Rightarrow> 0)"

lemma exit_nearer: "lf_ticker s = Running \<Longrightarrow> stop_distance (exit_step s) < stop_distance s"
  by (simp add: exit_step_def stop_distance_def)

lemma closer_nearer: "closer_step s \<noteq> s \<Longrightarrow> stop_distance (closer_step s) < stop_distance s"
  by (cases "lf_closer s") (auto simp: closer_step_def stop_distance_def split: bool.splits if_splits)

lemma closer_enabled:
  assumes "lf_closer s \<noteq> NoCloser" "lf_closer s \<noteq> Returned_closer" "lf_closer s = AwaitDone \<longrightarrow> lf_doneCh s"
  shows "closer_step s \<noteq> s"
proof
  assume eq: "closer_step s = s"
  have "lf_closer (closer_step s) \<noteq> lf_closer s"
    using assms by (cases "lf_closer s") (simp_all add: closer_step_def split: bool.split)
  with eq show False by simp
qed

lemma step_nearer:
  assumes "life_step enabled Exit s s' \<or> life_step enabled Closer s s'"
  shows "stop_distance s' < stop_distance s"
  using assms by (auto elim: life_step.cases intro: exit_nearer closer_nearer)

definition stopping :: "life \<Rightarrow> bool" where
  "stopping s \<longleftrightarrow> lf_stopCh s \<or> lf_closer s = Begin True"

lemma stopping_inv:
  assumes "life_inv s" "stopping s"
  shows "lf_started s" "lf_stopOnce s" "lf_closedCh s \<Longrightarrow> lf_ticker s = Returned_loop \<and> \<not> lf_file s"
  using assms by (auto simp: life_inv_def stopping_def)

lemma stopping_progress:
  assumes "life_inv s" "stopping s" "\<not> lf_closedCh s"
  shows "\<exists>s'. life_step enabled Exit s s' \<or> life_step enabled Closer s s'"
proof (cases "lf_closer s = AwaitDone \<and> lf_ticker s = Running")
  case True
  then have "lf_stopCh s" using assms(1) by (simp add: life_inv_def)
  with True show ?thesis using life_step.exit [of s] by blast
next
  case False
  then have "closer_step s \<noteq> s"
    using assms by (intro closer_enabled) (cases "lf_ticker s"; auto simp: life_inv_def stopping_def)+
  then show ?thesis using life_step.closer by blast
qed

lemma stopping_never_away:
  assumes "life_inv s" "stopping s" "life_step enabled ev s s'"
  shows "stop_distance s' \<le> stop_distance s"
  using assms(3) stopping_inv(1,2) [OF assms(1,2)]
  by (cases rule: life_step.cases)
    (auto simp: StatsLogStart_def StopWithContext_def tick_step_def exit_step_def stop_distance_def
      dest: closer_nearer)

lemma stop_distance_bound: "stop_distance s \<le> 5"
  by (cases "lf_closer s") (simp_all add: stop_distance_def)

text \<open>C25: Stopping ends. No channel is closed twice. Once the mod was started and then told to stop, the
  stop is never stuck: until \<open>closedCh\<close> is closed, the exit of the ticker or a step of the closer is
  possible, every such step brings the end nearer by one of at most five, and no other event moves it
  away. When \<open>closedCh\<close> is closed, the ticker has returned and the file is closed.\<close>

theorem stop_completes:
  assumes "life_reach enabled s"
  shows "\<not> lf_panic s \<and>
    (lf_stopCh s \<or> lf_closer s = Begin True \<longrightarrow>
       (lf_closedCh s \<longrightarrow> lf_ticker s = Returned_loop \<and> \<not> lf_file s) \<and>
       (\<not> lf_closedCh s \<longrightarrow> (\<exists>s'. life_step enabled Exit s s' \<or> life_step enabled Closer s s')) \<and>
       stop_distance s \<le> 5 \<and>
       (\<forall>s'. life_step enabled Exit s s' \<or> life_step enabled Closer s s' \<longrightarrow> stop_distance s' < stop_distance s) \<and>
       (\<forall>ev s'. life_step enabled ev s s' \<longrightarrow> stop_distance s' \<le> stop_distance s))"
proof -
  have inv: "life_inv s" by (rule life_inv_reach [OF assms])
  then have "\<not> lf_panic s" by (simp add: life_inv_def)
  with stopping_inv(3) [OF inv] stopping_progress [OF inv] stopping_never_away [OF inv] step_nearer stop_distance_bound
  show ?thesis by (simp add: stopping_def)
qed

text \<open>A run: start, stop, the closer closes \<open>stopCh\<close>.\<close>

lemma stop_completes_witness:
  "\<exists>s. life_reach True s \<and> lf_stopCh s \<and> \<not> lf_closedCh s \<and> stop_distance s \<le> 5"
proof -
  define s where "s = closer_step (StopWithContext (StatsLogStart True life_init))"
  have "closer_step (StopWithContext (StatsLogStart True life_init)) \<noteq> StopWithContext (StatsLogStart True life_init)"
    by (simp add: life_defs closer_step_def life_init_def)
  then have r: "life_reach True s"
    unfolding s_def
    by (intro life_reach.step [OF _ life_step.closer] life_reach.step [OF _ life_step.stop]
        life_reach.step [OF _ life_step.start] life_reach.init)
  moreover have "lf_stopCh s" "\<not> lf_closedCh s"
    by (simp_all add: s_def life_defs closer_step_def life_init_def)
  ultimately show ?thesis using stop_completes [OF r] by blast
qed

text \<open>A mod stopped before it was started and started then runs forever: \<open>closedCh\<close> is closed, so every
  further stop answers at once, and nothing closes \<open>stopCh\<close>.\<close>

lemma stop_before_start_runs_on:
  "\<exists>s. life_reach True s \<and> lf_closedCh s \<and> lf_ticker s = Running \<and> \<not> lf_stopCh s \<and>
     (\<forall>ev s'. life_step True ev s s' \<longrightarrow> lf_ticker s' = Running \<and> \<not> lf_stopCh s' \<and> lf_closer s' = Returned_closer)"
proof -
  define s0 where "s0 = StopWithContext life_init"
  define s where "s = StatsLogStart True (closer_step (closer_step (closer_step s0)))"
  have n: "closer_step s0 \<noteq> s0" "closer_step (closer_step s0) \<noteq> closer_step s0"
    "closer_step (closer_step (closer_step s0)) \<noteq> closer_step (closer_step s0)"
    by (simp_all add: s0_def life_defs closer_step_def life_init_def)
  have "life_reach True s0" unfolding s0_def by (intro life_reach.step [OF _ life_step.stop] life_reach.init)
  then have "life_reach True s"
    unfolding s_def
    by (intro life_reach.step [OF _ life_step.start] life_reach.step [OF _ life_step.closer] n)
  moreover have "lf_closedCh s \<and> lf_ticker s = Running \<and> \<not> lf_stopCh s \<and> lf_closer s = Returned_closer \<and>
      lf_stopOnce s \<and> lf_started s"
    by (simp add: s_def s0_def life_defs closer_step_def life_init_def)
  ultimately show ?thesis
    by (intro exI [of _ s]) (auto elim!: life_stepE simp: life_defs closer_step_def)
qed

end
