(* ===== verification/OpsMod.thy ===== *)
theory OpsMod
  imports Mods
begin

text \<open>
  The operations endpoint (\<open>ops/ops_mod.go\<close>): its configuration, the readiness it derives from the
  lifecycle of the service, and its six HTTP handlers with the check of the admin token. The HTTP
  server, the registries it reads (health, metrics, admin commands, lifecycle) and the JSON decoder
  are not part of the repository: a request is what the handlers read of it, a response is what they
  write, the registries are parameters.
\<close>

section \<open>The Mod\<close>

record opsmod =
  om_enabled :: bool
  om_addr :: string
  om_adminEnabled :: bool
  om_adminToken :: string
  om_allowDevToken :: bool
  om_sid :: int
  om_service :: string
  om_ready :: bool
  om_readyMsg :: "string option"
  om_serving :: bool          \<comment> \<open>\<open>m.server != nil\<close>\<close>

definition NewOpsMod :: opsmod where
  "NewOpsMod = \<lparr>om_enabled = False, om_addr = [], om_adminEnabled = False, om_adminToken = [],
     om_allowDevToken = False, om_sid = 0, om_service = [], om_ready = False, om_readyMsg = None,
     om_serving = False\<rparr>"

text \<open>\<open>strings.HasPrefix\<close>.\<close>

definition HasPrefix :: "string \<Rightarrow> string \<Rightarrow> bool" where
  "HasPrefix s p \<longleftrightarrow> take (length p) s = p"

definition OpsInit :: "viper \<Rightarrow> opsmod \<Rightarrow> gerr option \<times> opsmod" where
  "OpsInit cfg m =
     (let addr = cfg_GetString cfg ''ops.addr'';
          m' = m\<lparr>om_enabled := cfg_GetBool cfg ''ops.enabled'',
                 om_addr := (if addr = [] then ''127.0.0.1:9100'' else addr),
                 om_adminEnabled := cfg_GetBool cfg ''ops.admin_enabled'',
                 om_adminToken := cfg_GetString cfg ''ops.admin_token'',
                 om_allowDevToken := cfg_GetBool cfg ''ops.allow_dev_token'',
                 om_sid := cfg_GetInt32 cfg ''sid'',
                 om_service := cfg_GetString cfg ''server_type''\<rparr> in
      ((if om_adminEnabled m' then
          if om_adminToken m' = [] then Some [Foreign ''ops: admin_enabled requires admin_token'']
          else if HasPrefix (om_adminToken m') ''dev-'' \<and> \<not> om_allowDevToken m'
               then Some [Foreign ''ops: dev admin token is not allowed'']
          else None
        else None), m'))"

text \<open>What \<open>Provide\<close> found in the registry, in the order it looks.\<close>

record ops_found =
  of_health :: bool
  of_metrics :: bool
  of_admin :: bool
  of_lifecycle :: bool

definition ops_missing :: "ops_found \<Rightarrow> gerr option" where
  "ops_missing f =
     (if \<not> of_health f then Some [Foreign ''ops: capability health not found'']
      else if \<not> of_metrics f then Some [Foreign ''ops: capability metrics not found'']
      else if \<not> of_admin f then Some [Foreign ''ops: capability admin not found'']
      else if \<not> of_lifecycle f then Some [Foreign ''ops: capability lifecycle not found'']
      else None)"

section \<open>Readiness\<close>

definition setReady :: "bool \<Rightarrow> string \<Rightarrow> opsmod \<Rightarrow> opsmod" where
  "setReady ok msg m = m\<lparr>om_ready := ok, om_readyMsg := Some msg\<rparr>"

definition readyMessage :: "opsmod \<Rightarrow> string" where
  "readyMessage m = (case om_readyMsg m of Some s \<Rightarrow> s | None \<Rightarrow> ''starting'')"

text \<open>The two lifecycle hooks \<open>Provide\<close> registers; events of other phases reach neither.\<close>

datatype phase = PhaseServiceStarted | PhaseServiceStopping | OtherPhase

definition on_lifecycle :: "phase \<Rightarrow> opsmod \<Rightarrow> opsmod" where
  "on_lifecycle p m =
     (case p of
        PhaseServiceStarted \<Rightarrow> setReady True ''service started'' m
      | PhaseServiceStopping \<Rightarrow> setReady False ''service stopping'' m
      | OtherPhase \<Rightarrow> m)"

definition OpsStart :: "opsmod \<Rightarrow> opsmod" where
  "OpsStart m = (if \<not> om_enabled m then m else m\<lparr>om_serving := True\<rparr>)"

text \<open>\<open>StopWithContext\<close>: \<open>ctxErr\<close> is the error of the context, \<open>shutdown\<close> what the server's shutdown answers.\<close>

definition OpsStop :: "gerr option \<Rightarrow> gerr option \<Rightarrow> opsmod \<Rightarrow> gerr option \<times> opsmod" where
  "OpsStop ctxErr shutdown m =
     (if \<not> om_serving m then (None, m)
      else case ctxErr of
        Some err \<Rightarrow> (Some err, m)
      | None \<Rightarrow> (shutdown, m\<lparr>om_serving := False\<rparr>))"

section \<open>The token\<close>

definition secretEqual :: "string \<Rightarrow> string \<Rightarrow> bool" where
  "secretEqual presented want \<longleftrightarrow> presented = want"

text \<open>\<open>strings.EqualFold\<close> against an ASCII word without the letters k and s, whose only case variants are the ASCII ones.\<close>

definition lower_byte :: "char \<Rightarrow> char" where
  "lower_byte c = (let n = of_char c :: nat in if 65 \<le> n \<and> n \<le> 90 then char_of (n + 32) else c)"

definition bearerToken :: "string \<Rightarrow> string" where
  "bearerToken raw =
     (let header = TrimSpace raw in
      if 7 \<le> length header \<and> map lower_byte (take 7 header) = ''bearer ''
      then TrimSpace (drop 7 header) else header)"

record request =
  rq_Method :: string
  rq_AdminToken :: string       \<comment> \<open>\<open>r.Header.Get("X-Admin-Token")\<close>\<close>
  rq_Authorization :: string    \<comment> \<open>\<open>r.Header.Get("Authorization")\<close>\<close>
  rq_Body :: "int + string"    \<comment> \<open>\<open>httpserver.ReadBody\<close>: the status it answered itself, or the body\<close>

definition authorized :: "opsmod \<Rightarrow> request \<Rightarrow> bool" where
  "authorized m r =
     (if om_adminToken m = [] then False
      else if secretEqual (rq_AdminToken r) (om_adminToken m) then True
      else secretEqual (bearerToken (rq_Authorization r)) (om_adminToken m))"

section \<open>The handlers\<close>

datatype ('j, 'res, 'dep) body =
    ErrorBody string
  | HealthBody string int
  | ReadyBody bool string int string int nat 'dep
  | MetricsText string
  | StatsBody 'j
  | CommandsBody "string list"
  | ResultBody 'res
  | RefusedBody        \<comment> \<open>written by \<open>httpserver.ReadBody\<close>\<close>

type_synonym ('j, 'res, 'dep) response = "int \<times> ('j, 'res, 'dep) body"

definition handleHealth :: "opsmod \<Rightarrow> ('j, 'res, 'dep) response" where
  "handleHealth m = (200, HealthBody (om_service m) (om_sid m))"

text \<open>
  The health registry when there is one: its snapshot says whether all is well and the results. \<open>none\<close> is
  the empty list of results, \<open>nowMs\<close> the clock.
\<close>

definition metricCount :: "'m list option \<Rightarrow> nat" where
  "metricCount snapshot = (case snapshot of None \<Rightarrow> 0 | Some ms \<Rightarrow> length ms)"

definition handleReady ::
  "'dep \<Rightarrow> (bool \<times> 'dep) option \<Rightarrow> 'm list option \<Rightarrow> int \<Rightarrow> opsmod \<Rightarrow> ('j, 'res, 'dep) response" where
  "handleReady none snapshot metrics nowMs m =
     (let deps = (case snapshot of None \<Rightarrow> (True, none) | Some d \<Rightarrow> d);
          ok = (om_ready m \<and> fst deps) in
      ((if ok then 200 else 503),
       ReadyBody ok (om_service m) (om_sid m) (readyMessage m) nowMs (metricCount metrics) (snd deps)))"

definition handleMetrics :: "('m list \<Rightarrow> string) \<Rightarrow> 'm list option \<Rightarrow> ('j, 'res, 'dep) response" where
  "handleMetrics prometheusText snapshot =
     (200, MetricsText (prometheusText (case snapshot of None \<Rightarrow> [] | Some ms \<Rightarrow> ms)))"

definition handleStats :: "bool \<Rightarrow> 'j option \<Rightarrow> ('j, 'res, 'dep) response" where
  "handleStats has_registry collected =
     (if \<not> has_registry then (503, ErrorBody ''stats unavailable: no registry'')
      else case collected of
        None \<Rightarrow> (404, ErrorBody ''stats unavailable: statslog mod is not assembled in this process'')
      | Some record \<Rightarrow> (200, StatsBody record))"

text \<open>The command registry: the names it holds and the execution of one command on its state.\<close>

record command =
  cm_Source :: string
  cm_Rest :: string

record ('a, 'res) commands =
  ar_Names :: "'a \<Rightarrow> string list"
  ar_Execute :: "command \<Rightarrow> 'a \<Rightarrow> (bool \<times> 'res) \<times> 'a"   \<comment> \<open>whether an error came with the result\<close>

definition handleAdminCommands ::
  "('a, 'res) commands option \<Rightarrow> opsmod \<Rightarrow> request \<Rightarrow> 'a \<Rightarrow> ('j, 'res, 'dep) response \<times> 'a" where
  "handleAdminCommands commands m r a =
     (if \<not> om_adminEnabled m then ((404, ErrorBody ''admin disabled''), a)
      else if \<not> authorized m r then ((401, ErrorBody ''unauthorized''), a)
      else case commands of
        None \<Rightarrow> ((500, ErrorBody ''admin registry unavailable''), a)
      | Some reg \<Rightarrow> ((200, CommandsBody (ar_Names reg a)), a))"

definition handleAdminExecute ::
  "(string \<Rightarrow> string + command) \<Rightarrow> ('a, 'res) commands option \<Rightarrow> opsmod \<Rightarrow> request \<Rightarrow> 'a \<Rightarrow>
   ('j, 'res, 'dep) response \<times> 'a" where
  "handleAdminExecute unmarshal commands m r a =
     (if \<not> om_adminEnabled m then ((404, ErrorBody ''admin disabled''), a)
      else if \<not> authorized m r then ((401, ErrorBody ''unauthorized''), a)
      else if rq_Method r \<noteq> ''POST'' then ((405, ErrorBody ''method not allowed''), a)
      else case rq_Body r of
        Inl status \<Rightarrow> ((status, RefusedBody), a)
      | Inr raw \<Rightarrow>
          (case unmarshal raw of
             Inl err \<Rightarrow> ((400, ErrorBody err), a)
           | Inr decoded \<Rightarrow>
               (let cmd = (if cm_Source decoded = []
                           then decoded\<lparr>cm_Source := ''ops:'' @ om_service m @ '':'' @ FormatInt (om_sid m)\<rparr>
                           else decoded) in
                case commands of
                  None \<Rightarrow> ((500, ErrorBody ''admin registry unavailable''), a)
                | Some reg \<Rightarrow>
                    (case ar_Execute reg cmd a of ((failed, result), a') \<Rightarrow>
                       ((if failed then 400 else 200, ResultBody result), a')))))"

section \<open>Properties\<close>

text \<open>The token a request presents, in either of its places.\<close>

definition presents :: "request \<Rightarrow> string \<Rightarrow> bool" where
  "presents r token \<longleftrightarrow> rq_AdminToken r = token \<or> bearerToken (rq_Authorization r) = token"

lemma authorized_iff: "authorized m r \<longleftrightarrow> om_adminToken m \<noteq> [] \<and> presents r (om_adminToken m)"
  by (simp add: authorized_def presents_def secretEqual_def)

lemma bearer_scheme_any_case:
  assumes "map lower_byte scheme = ''bearer''" "TrimSpace (scheme @ '' '' @ token) = scheme @ '' '' @ token"
    and "TrimSpace token = token"
  shows "bearerToken (scheme @ '' '' @ token) = token"
proof -
  have "length scheme = 6" using arg_cong [OF assms(1), of length] by simp
  moreover have "map lower_byte (scheme @ '' '') = ''bearer ''" using assms(1) by (simp add: lower_byte_def Let_def)
  ultimately show ?thesis using assms(2,3) by (simp add: bearerToken_def Let_def take_append drop_append)
qed

text \<open>C27: An admin command reaches the command registry only behind the guards. After any configuration
  that Init accepted, the endpoint executes a command only when admin is enabled and the request is a
  POST that presents the configured token, which is not empty and not a development token unless
  those are allowed; every other request leaves the registry as it was and is answered 404, 401, 405,
  400 or 500, or with the status the body reader gave it.\<close>

theorem admin_needs_token:
  assumes "OpsInit cfg m0 = (None, m)"
    and "handleAdminExecute unmarshal commands m r a = ((status, answer), a')"
  shows "(a' \<noteq> a \<or> status = 200 \<and> answer \<noteq> RefusedBody \<longrightarrow>
            cfg_GetBool cfg ''ops.admin_enabled'' \<and> rq_Method r = ''POST'' \<and>
            (\<exists>token. token = cfg_GetString cfg ''ops.admin_token'' \<and> token \<noteq> [] \<and> presents r token \<and>
               (HasPrefix token ''dev-'' \<longrightarrow> cfg_GetBool cfg ''ops.allow_dev_token'') \<and>
               (\<exists>reg cmd. commands = Some reg \<and> a' = snd (ar_Execute reg cmd a)))) \<and>
         (\<not> cfg_GetBool cfg ''ops.admin_enabled'' \<longrightarrow> status = 404) \<and>
         (cfg_GetBool cfg ''ops.admin_enabled'' \<and> \<not> presents r (cfg_GetString cfg ''ops.admin_token'') \<longrightarrow>
            status = 401) \<and>
         (answer = RefusedBody \<or> status \<in> {200, 400, 401, 404, 405, 500})"
proof -
  have m: "om_adminEnabled m = cfg_GetBool cfg ''ops.admin_enabled''"
    "om_adminToken m = cfg_GetString cfg ''ops.admin_token''"
    "om_adminEnabled m \<Longrightarrow> om_adminToken m \<noteq> []"
    "om_adminEnabled m \<Longrightarrow> HasPrefix (om_adminToken m) ''dev-'' \<Longrightarrow> cfg_GetBool cfg ''ops.allow_dev_token''"
    using assms(1) by (auto simp: OpsInit_def Let_def split: if_splits)
  show ?thesis
  proof (cases "om_adminEnabled m \<and> authorized m r \<and> rq_Method r = ''POST''")
    case True
    then have g: "om_adminEnabled m" "authorized m r" "rq_Method r = ''POST''" by simp_all
    then have p: "presents r (om_adminToken m)" by (simp add: authorized_iff)
    have ex: "\<exists>cmd. a' = snd (ar_Execute reg cmd a)" if "ar_Execute reg cmd a = (x, a')"
      for reg cmd x
      using that by (metis snd_conv)
    have "(a' \<noteq> a \<or> status = 200 \<and> answer \<noteq> RefusedBody \<longrightarrow>
          (\<exists>reg cmd. commands = Some reg \<and> a' = snd (ar_Execute reg cmd a))) \<and>
        (answer = RefusedBody \<or> status \<in> {200, 400, 500})"
      using assms(2) g
      by (auto simp: handleAdminExecute_def Let_def intro: ex split: option.splits sum.splits prod.splits if_splits)
    with g p m show ?thesis by auto
  next
    case False
    then have "a' = a \<and> status \<in> {401, 404, 405} \<and> (\<not> om_adminEnabled m \<longrightarrow> status = 404) \<and>
        (om_adminEnabled m \<and> \<not> authorized m r \<longrightarrow> status = 401)"
      using assms(2) by (auto simp: handleAdminExecute_def split: if_splits)
    with m show ?thesis by (auto simp: authorized_iff)
  qed
qed

definition ex_cfg :: viper where
  "ex_cfg = empty_viper\<lparr>cfg_GetBool := (\<lambda>k. k = ''ops.admin_enabled''),
     cfg_GetString := (\<lambda>k. if k = ''ops.admin_token'' then ''s3cret'' else [])\<rparr>"

definition ex_commands :: "(nat, unit) commands" where
  "ex_commands = \<lparr>ar_Names = (\<lambda>_. []), ar_Execute = (\<lambda>cmd a. ((False, ()), Suc a))\<rparr>"

definition ex_request :: "string \<Rightarrow> request" where
  "ex_request authorization = \<lparr>rq_Method = ''POST'', rq_AdminToken = [], rq_Authorization = authorization,
     rq_Body = Inr []\<rparr>"

lemma admin_needs_token_witness:
  "fst (fst (handleAdminExecute (\<lambda>_. Inr \<lparr>cm_Source = [], cm_Rest = []\<rparr>) (Some ex_commands)
     (snd (OpsInit ex_cfg NewOpsMod)) (ex_request ''Bearer wrong'') 0) :: (unit, unit, unit) response) = 401 \<and>
   handleAdminExecute (\<lambda>_. Inr \<lparr>cm_Source = [], cm_Rest = []\<rparr>) (Some ex_commands)
     (snd (OpsInit ex_cfg NewOpsMod)) (ex_request ''bearer s3cret'') 0 =
     ((200, ResultBody ()) :: (unit, unit, unit) response, 1)"
proof
  let ?m = "snd (OpsInit ex_cfg NewOpsMod)"
  let ?dec = "\<lambda>_. Inr \<lparr>cm_Source = [], cm_Rest = []\<rparr>"
  have i: "OpsInit ex_cfg NewOpsMod = (None, ?m)"
    by (simp add: OpsInit_def ex_cfg_def empty_viper_def HasPrefix_def)
  have b: "bearerToken ''Bearer wrong'' = ''wrong''" "bearerToken ''bearer s3cret'' = ''s3cret''"
    by (simp_all add: bearerToken_def TrimSpace_plain lower_byte_def Let_def char_of_def bit_0)
  have "\<not> presents (ex_request ''Bearer wrong'') (cfg_GetString ex_cfg ''ops.admin_token'')"
    by (simp add: presents_def ex_request_def ex_cfg_def b)
  moreover have "cfg_GetBool ex_cfg ''ops.admin_enabled''" by (simp add: ex_cfg_def)
  moreover obtain st and an :: "(unit, unit, unit) body" and a' where
    h: "handleAdminExecute ?dec (Some ex_commands) ?m (ex_request ''Bearer wrong'') 0 = ((st, an), a')"
    by (metis prod.collapse)
  ultimately have "st = 401" using admin_needs_token [OF i h] by blast
  with h show "fst (fst (handleAdminExecute ?dec (Some ex_commands) ?m (ex_request ''Bearer wrong'') 0)
      :: (unit, unit, unit) response) = 401" by simp
  show "handleAdminExecute ?dec (Some ex_commands) ?m (ex_request ''bearer s3cret'') 0 =
      ((200, ResultBody ()) :: (unit, unit, unit) response, 1)"
    by (simp add: handleAdminExecute_def authorized_def secretEqual_def OpsInit_def ex_cfg_def ex_commands_def
        ex_request_def NewOpsMod_def empty_viper_def b)
qed

text \<open>The service is ready exactly after its last lifecycle event was the start, and then as long as its dependencies are.\<close>

lemma ready_tracks_lifecycle:
  assumes "handleReady none snapshot metrics nowMs (fold on_lifecycle (ps @ p # qs) NewOpsMod) = (status, answer)"
    and "p \<noteq> OtherPhase" and "\<forall>q \<in> set qs. q = OtherPhase"
  shows "status = 200 \<longleftrightarrow> p = PhaseServiceStarted \<and> (\<forall>deps. snapshot = Some deps \<longrightarrow> fst deps)"
proof -
  have "\<forall>q \<in> set qs. q = OtherPhase \<Longrightarrow> fold on_lifecycle qs m = m" for m
    by (induction qs) (auto simp: on_lifecycle_def)
  with assms(3) have "om_ready (fold on_lifecycle (ps @ p # qs) NewOpsMod) \<longleftrightarrow> p = PhaseServiceStarted"
    using assms(2) by (cases p) (simp_all add: on_lifecycle_def setReady_def)
  moreover have "status = 200 \<longleftrightarrow>
      om_ready m \<and> (\<forall>deps. snapshot = Some deps \<longrightarrow> fst deps)"
    if "handleReady none snapshot metrics nowMs m = (status, answer)" for m
    using that by (cases snapshot) (auto simp: handleReady_def Let_def split: if_splits)
  ultimately show ?thesis using assms(1) by simp
qed

end
