(* ===== verification/Rpc.thy ===== *)
theory Rpc
  imports Mods
begin

text \<open>
  The part of the generated transport that is the same for every service: the status envelope of a
  response, one entry of a handler table, the registration of a table on a bus, one call of a bus
  client, and the pieces of the assembly half (the capabilities of an owner, the server and the client
  Mod). The theories \<open>Rpc<Service>\<close> have what differs: the interface, the wire types, the table and the
  client of each service.

  The bus and the call of \<open>servicerpc.BusClient\<close> are not part of the repository. The bus is a record of
  the one operation the code calls; \<open>CallChecked\<close> is a parameter, with \<open>rpc_contract\<close> as its documented
  behaviour: an answered call hands back what the owner's handler answered, and its error is the check of
  the status in it; a call that fails on the bus leaves the response as it was and may or may not have
  reached the owner.
\<close>

section \<open>Go functions of a value and an error\<close>

type_synonym ('w, 'a) gofun = "'w \<Rightarrow> ('a \<times> gerr option) \<times> 'w"

text \<open>A handler as such a function: on an error the value is the zero value.\<close>

definition both :: "'a \<Rightarrow> ('w, 'a) handler \<Rightarrow> ('w, 'a) gofun" where
  "both zero h w = (case h w of (Inl e, w') \<Rightarrow> ((zero, Some e), w') | (Inr a, w') \<Rightarrow> ((a, None), w'))"

text \<open>A handler that may return a value together with an error.\<close>

definition both_joint :: "'a \<Rightarrow> ('w, 'a \<times> gerr option) handler \<Rightarrow> ('w, 'a) gofun" where
  "both_joint zero h w = (case h w of (Inl e, w') \<Rightarrow> ((zero, Some e), w') | (Inr (a, e), w') \<Rightarrow> ((a, e), w'))"

text \<open>A handler that answers \<open>(value, found, err)\<close>.\<close>

definition both_found :: "'a \<Rightarrow> ('w, 'a option) handler \<Rightarrow> ('w, 'a \<times> bool) gofun" where
  "both_found zero h w = (case h w of
      (Inl e, w') \<Rightarrow> (((zero, False), Some e), w')
    | (Inr None, w') \<Rightarrow> (((zero, False), None), w')
    | (Inr (Some a), w') \<Rightarrow> (((a, True), None), w'))"

section \<open>The envelope and the table\<close>

record rpcStatus =
  st_Code :: int
  st_Reason :: string

definition zero_status :: rpcStatus where "zero_status = \<lparr>st_Code = 0, st_Reason = []\<rparr>"

definition status_of :: "(gerr option \<Rightarrow> int \<times> string) \<Rightarrow> gerr option \<Rightarrow> rpcStatus" where
  "status_of Err err = (case Err err of (code, reason) \<Rightarrow> \<lparr>st_Code = code, st_Reason = reason\<rparr>)"

text \<open>
  One entry of the table: decode the payload into the zero request, answer a payload that does not decode
  with its error, otherwise run the method and answer its value with the status of its error.
\<close>

definition serve ::
  "('p \<Rightarrow> 'q \<Rightarrow> gerr + 'q) \<Rightarrow> 'q \<Rightarrow> (gerr \<Rightarrow> 'r) \<Rightarrow> ('q \<Rightarrow> ('w, 'a) gofun) \<Rightarrow> ('a \<Rightarrow> gerr option \<Rightarrow> 'r) \<Rightarrow>
   'p \<Rightarrow> 'w \<Rightarrow> 'r \<times> 'w" where
  "serve decode wire bad run answer payload w =
     (case decode payload wire of
        Inl err \<Rightarrow> (bad err, w)
      | Inr req \<Rightarrow> (case run req w of ((value, err), w') \<Rightarrow> (answer value err, w')))"

record ('b, 'h) bus =
  bus_HandleRpc :: "string \<Rightarrow> 'h \<Rightarrow> 'b \<Rightarrow> gerr option \<times> 'b"

fun register_loop :: "('b, 'h) bus \<Rightarrow> (string \<rightharpoonup> 'h) \<Rightarrow> string list \<Rightarrow> 'b \<Rightarrow> gerr option \<times> 'b" where
  "register_loop b handlers [] s = (None, s)"
| "register_loop b handlers (m # ms) s =
     (case handlers m of
        None \<Rightarrow> (Some [Foreign ''no handler for method''], s)
      | Some h \<Rightarrow>
          (case bus_HandleRpc b m h s of
             (Some err, s') \<Rightarrow> (Some err, s')
           | (None, s') \<Rightarrow> register_loop b handlers ms s'))"

text \<open>\<open>RegisterHandlers\<close> of a service whose table is \<open>table service\<close>.\<close>

definition register_handlers ::
  "('svc \<Rightarrow> (string \<times> 'h) list) \<Rightarrow> string list \<Rightarrow> ('b, 'h) bus option \<Rightarrow> 'svc option \<Rightarrow> 'b \<Rightarrow> gerr option \<times> 'b" where
  "register_handlers table methods b service s =
     (case b of None \<Rightarrow> (Some [Foreign ''bus is nil''], s)
      | Some bb \<Rightarrow>
     (case service of None \<Rightarrow> (Some [Foreign ''service is nil''], s)
      | Some svc \<Rightarrow>
     (case register_loop bb (map_of (table svc)) methods s of
        (Some err, s') \<Rightarrow> (Some err, s')
      | (None, s') \<Rightarrow>
          if length (table svc) \<noteq> length methods then (Some [Foreign ''handlers for methods''], s') else (None, s'))))"

text \<open>The documented behaviour of \<open>HandleRpc\<close>: \<open>on s\<close> is what the bus in state \<open>s\<close> answers methods with.\<close>

definition bus_contract :: "('b \<Rightarrow> string \<rightharpoonup> 'h) \<Rightarrow> ('b, 'h) bus \<Rightarrow> bool" where
  "bus_contract on b \<longleftrightarrow>
     (\<forall>m h s. case bus_HandleRpc b m h s of
        (Some err, s') \<Rightarrow> on s' = on s | (None, s') \<Rightarrow> on s' = (on s)(m \<mapsto> h))"

lemma register_loop_ok:
  assumes "bus_contract on b" "register_loop b handlers ms s = (None, s')" "distinct ms"
  shows "\<forall>m. on s' m = (if m \<in> set ms then handlers m else on s m)" "\<forall>m \<in> set ms. handlers m \<noteq> None"
proof -
  have "(\<forall>m. on s' m = (if m \<in> set ms then handlers m else on s m)) \<and> (\<forall>m \<in> set ms. handlers m \<noteq> None)"
    using assms(2,3)
  proof (induction ms arbitrary: s)
    case (Cons m ms)
    then obtain h s1 where h: "handlers m = Some h" "bus_HandleRpc b m h s = (None, s1)"
      "register_loop b handlers ms s1 = (None, s')"
      by (auto split: option.splits prod.splits)
    have "case bus_HandleRpc b m h s of (Some err, s') \<Rightarrow> on s' = on s | (None, s') \<Rightarrow> on s' = (on s)(m \<mapsto> h)"
      using assms(1) by (simp add: bus_contract_def)
    with h(2) have "on s1 = (on s)(m \<mapsto> h)" by simp
    with Cons.IH [OF h(3)] Cons.prems(2) h(1) show ?case by auto
  qed simp
  then show "\<forall>m. on s' m = (if m \<in> set ms then handlers m else on s m)" "\<forall>m \<in> set ms. handlers m \<noteq> None"
    by blast+
qed

text \<open>A registration that succeeds has published a handler for every method and touched no other.\<close>

lemma register_handlers_ok:
  assumes "bus_contract on b" "distinct methods"
    and "register_handlers table methods (Some b) (Some svc) s = (None, s')"
  shows "\<forall>m. on s' m = (if m \<in> set methods then map_of (table svc) m else on s m)"
    "\<forall>m \<in> set methods. m \<in> dom (map_of (table svc))" "length (table svc) = length methods"
  using register_loop_ok [OF assms(1) _ assms(2), of "map_of (table svc)" s s'] assms(3)
  by (auto simp: register_handlers_def split: option.splits prod.splits if_splits)

section \<open>The client\<close>

text \<open>\<open>CallChecked\<close>: the affinity key of the context, the method, the request, the response to fill.\<close>

type_synonym ('w, 'q, 'r) call_checked =
  "string option \<Rightarrow> string \<Rightarrow> 'q \<Rightarrow> 'r \<Rightarrow> 'w \<Rightarrow> (gerr option \<times> 'r) \<times> 'w"

text \<open>\<open>BusClient.call\<close>: the client may be nil or hold no connection.\<close>

definition client_call :: "('w, 'q, 'r) call_checked option \<Rightarrow> ('w, 'q, 'r) call_checked" where
  "client_call rpc affinity method req resp w =
     (case rpc of
        None \<Rightarrow> ((Some [Foreign ''client is not configured''], resp), w)
      | Some call \<Rightarrow> call affinity method req resp w)"

text \<open>One method of the client: \<open>get\<close> takes the values out of the response.\<close>

definition remote ::
  "('w, 'q, 'r) call_checked option \<Rightarrow> string option \<Rightarrow> string \<Rightarrow> 'q \<Rightarrow> 'r \<Rightarrow> ('r \<Rightarrow> 'a) \<Rightarrow> ('w, 'a) gofun" where
  "remote rpc affinity method req resp get w =
     (case client_call rpc affinity method req resp w of ((err, resp'), w') \<Rightarrow> ((get resp', err), w'))"

text \<open>
  The documented behaviour of the call, against the table the owner registered: \<open>enc\<close> is the payload of a
  request, \<open>check\<close> the error \<open>servicerpc.CheckResponse\<close> makes of the status of a response.
\<close>

definition rpc_contract ::
  "('q \<Rightarrow> 'p) \<Rightarrow> (rpcStatus \<Rightarrow> gerr option) \<Rightarrow> ('r \<Rightarrow> rpcStatus) \<Rightarrow> (string \<rightharpoonup> ('p \<Rightarrow> 'w \<Rightarrow> 'r \<times> 'w)) \<Rightarrow>
   ('w, 'q, 'r) call_checked \<Rightarrow> bool" where
  "rpc_contract enc check status table call \<longleftrightarrow>
     (\<forall>affinity m q resp w e r w'. call affinity m q resp w = ((e, r), w') \<longrightarrow>
        (\<exists>h. table m = Some h \<and> h (enc q) w = (r, w') \<and> e = check (status r)) \<or>
        (e \<noteq> None \<and> r = resp \<and> (w' = w \<or> (\<exists>h. table m = Some h \<and> w' = snd (h (enc q) w)))))"

text \<open>What the error made of a status says: none for the code zero, otherwise one with that code and reason.\<close>

definition check_contract :: "(gerr option \<Rightarrow> int \<times> string) \<Rightarrow> (rpcStatus \<Rightarrow> gerr option) \<Rightarrow> bool" where
  "check_contract Err check \<longleftrightarrow>
     Err None = (0, []) \<and> (\<forall>e. fst (Err (Some e)) \<noteq> 0) \<and>
     (\<forall>st. case check st of None \<Rightarrow> st_Code st = 0
                           | Some e \<Rightarrow> st_Code st \<noteq> 0 \<and> Err (Some e) = (st_Code st, st_Reason st))"

text \<open>
  A remote method is faithful to the local one: either it answers what the local method answers, with an
  error that reports the same code and reason, and leaves the world the local method leaves; or the bus
  failed, which is an error with the zero value, and the owner ran the method once or not at all.
\<close>

definition faithful ::
  "(gerr option \<Rightarrow> int \<times> string) \<Rightarrow> 'a \<Rightarrow> ('w, 'a) gofun \<Rightarrow> ('w, 'a) gofun \<Rightarrow> bool" where
  "faithful Err zero local over_bus \<longleftrightarrow>
     (\<forall>w v e w'. over_bus w = ((v, e), w') \<longrightarrow>
        (case local w of ((lv, le), lw) \<Rightarrow>
           (v = lv \<and> w' = lw \<and> (e = None \<longleftrightarrow> le = None) \<and> Err e = Err le) \<or>
           (e \<noteq> None \<and> v = zero \<and> (w' = w \<or> w' = lw))))"

lemma remote_faithful:
  assumes contract: "rpc_contract enc check status table call" and check: "check_contract Err check"
    and entry: "table m = Some (serve decode wire bad run answer)"
    and codec: "decode (enc q) wire = Inr q"
    and answers: "\<And>v e. get (answer v e) = v" "\<And>v e. status (answer v e) = status_of Err e"
    and zero: "get resp = zero" and loc: "run q = loc"
  shows "faithful Err zero loc (remote (Some call) affinity m q resp get)"
  unfolding faithful_def
proof (intro allI impI)
  fix w v e w'
  assume "remote (Some call) affinity m q resp get w = ((v, e), w')"
  then obtain r where c: "call affinity m q resp w = ((e, r), w')" and v: "v = get r"
    by (auto simp: remote_def client_call_def split: prod.splits)
  obtain lv le lw where l: "loc w = ((lv, le), lw)" by (metis prod.collapse)
  then have h: "serve decode wire bad run answer (enc q) w = (answer lv le, lw)"
    by (simp add: serve_def codec loc)
  have "(serve decode wire bad run answer (enc q) w = (r, w') \<and> e = check (status r)) \<or>
      (e \<noteq> None \<and> r = resp \<and> (w' = w \<or> w' = snd (serve decode wire bad run answer (enc q) w)))"
    using contract c entry unfolding rpc_contract_def by fastforce
  then show "case loc w of ((lv, le), lw) \<Rightarrow>
      (v = lv \<and> w' = lw \<and> (e = None \<longleftrightarrow> le = None) \<and> Err e = Err le) \<or>
      (e \<noteq> None \<and> v = zero \<and> (w' = w \<or> w' = lw))"
  proof
    assume a: "serve decode wire bad run answer (enc q) w = (r, w') \<and> e = check (status r)"
    with h have r: "r = answer lv le" "w' = lw" "e = check (status_of Err le)" by (auto simp: answers)
    have law: "case check (status_of Err le) of None \<Rightarrow> st_Code (status_of Err le) = 0
          | Some e \<Rightarrow> st_Code (status_of Err le) \<noteq> 0 \<and>
              Err (Some e) = (st_Code (status_of Err le), st_Reason (status_of Err le))"
      using check unfolding check_contract_def by blast
    have "(e = None \<longleftrightarrow> le = None) \<and> Err e = Err le"
    proof (cases "check (status_of Err le)")
      case None
      then have "st_Code (status_of Err le) = 0" using law by simp
      then have "fst (Err le) = 0" by (simp add: status_of_def split: prod.splits)
      then have "le = None" using check by (cases le) (auto simp: check_contract_def)
      with None r(3) show ?thesis by simp
    next
      case (Some e')
      with law have s: "st_Code (status_of Err le) \<noteq> 0"
        "Err (Some e') = (st_Code (status_of Err le), st_Reason (status_of Err le))" by simp_all
      then have "Err (Some e') = Err le" "fst (Err le) \<noteq> 0" by (simp_all add: status_of_def split: prod.splits)
      moreover from this have "le \<noteq> None" using check by (cases le) (auto simp: check_contract_def)
      ultimately show ?thesis using r(3) Some by simp
    qed
    with r v l show ?thesis by (simp add: answers)
  next
    assume "e \<noteq> None \<and> r = resp \<and> (w' = w \<or> w' = snd (serve decode wire bad run answer (enc q) w))"
    with h v l zero show ?thesis by auto
  qed
qed

text \<open>A transport that keeps the contract: the bus in one process, where every call arrives.\<close>

definition local_call ::
  "('q \<Rightarrow> 'p) \<Rightarrow> (rpcStatus \<Rightarrow> gerr option) \<Rightarrow> ('r \<Rightarrow> rpcStatus) \<Rightarrow> (string \<rightharpoonup> ('p \<Rightarrow> 'w \<Rightarrow> 'r \<times> 'w)) \<Rightarrow>
   ('w, 'q, 'r) call_checked" where
  "local_call enc check status table affinity m q resp w =
     (case table m of
        None \<Rightarrow> ((Some [Foreign ''no responders''], resp), w)
      | Some h \<Rightarrow> (case h (enc q) w of (r, w') \<Rightarrow> ((check (status r), r), w')))"

lemma local_call_contract: "rpc_contract enc check status table (local_call enc check status table)"
  by (auto simp: rpc_contract_def local_call_def split: option.splits prod.splits)

text \<open>
  Error codes as the witnesses use them: an error is its code and reason, a status makes the error that
  has them.
\<close>

definition code_error :: "gerr \<Rightarrow> int \<times> string" where
  "code_error e =
     (case e of
        Coded c # rest \<Rightarrow> (if c = 0 then (1, []) else (c, case rest of [Foreign r] \<Rightarrow> r | _ \<Rightarrow> []))
      | _ \<Rightarrow> (1, []))"

definition code_check :: "rpcStatus \<Rightarrow> gerr option" where
  "code_check st = (if st_Code st = 0 then None else Some [Coded (st_Code st), Foreign (st_Reason st)])"

lemma code_error_nonzero: "fst (code_error e) \<noteq> 0"
  by (auto simp: code_error_def split: list.split sentinel.split)

lemma code_check_contract:
  assumes "Err None = (0, [])" "\<And>e. fst (Err (Some e)) \<noteq> 0"
    and "\<And>e. \<not> Is e StoreConflict \<Longrightarrow> Err (Some e) = code_error e"
  shows "check_contract Err code_check"
  using assms by (auto simp: check_contract_def code_check_def code_error_def Is_def)

section \<open>The assembly half\<close>

text \<open>\<open>DefaultCallTimeout\<close> is the same constant in every transport.\<close>

definition DefaultCallTimeout :: duration where "DefaultCallTimeout = 3 * Second"

definition NewBusClient ::
  "string \<Rightarrow> 'opt list \<Rightarrow> ('b \<Rightarrow> string \<Rightarrow> duration \<Rightarrow> 'opt list \<Rightarrow> 'rpc) \<Rightarrow> 'b option \<Rightarrow> string \<Rightarrow> duration \<Rightarrow> 'opt list \<Rightarrow>
   gerr + 'rpc" where
  "NewBusClient ServiceType base newRpc b serviceType timeout opts =
     (case b of
        None \<Rightarrow> Inl [Foreign ''bus is nil'']
      | Some bb \<Rightarrow> Inr (newRpc bb (if serviceType = [] then ServiceType else serviceType)
                         (if timeout \<le> 0 then DefaultCallTimeout else timeout) (base @ opts)))"

text \<open>The two publications of an owner: the wrapped interface and the implementation itself.\<close>

definition owner_capabilities :: "string \<Rightarrow> string \<Rightarrow> ('svc \<Rightarrow> 'c) \<Rightarrow> ('svc \<Rightarrow> 'c) \<Rightarrow> 'svc \<Rightarrow> 'c Capability list" where
  "owner_capabilities name localName wrapped bare service =
     [\<lparr>cp_Name = name, cp_Value = wrapped service\<rparr>, \<lparr>cp_Name = localName, cp_Value = bare service\<rparr>]"

text \<open>
  \<open>Server.Init\<close>. The three lookups of the registry: the implementation under the owner's name, whether
  anything of the interface's type is under the consumers' name, and the bus. It answers what it keeps.
\<close>

definition server_init ::
  "('b \<Rightarrow> 'svc \<Rightarrow> 's \<Rightarrow> gerr option \<times> 's) \<Rightarrow> 'svc option \<Rightarrow> bool \<Rightarrow> 'b option \<Rightarrow> 's \<Rightarrow>
   (gerr + 'svc \<times> 'b) \<times> 's" where
  "server_init registerHandlers localService remotePublished b s =
     (case localService of
        None \<Rightarrow> (Inl [Foreign (if remotePublished then ''server: this process holds a client, not the implementation''
                             else ''server: capability not found'')], s)
      | Some service \<Rightarrow>
          (case b of
             None \<Rightarrow> (Inl [Foreign ''server: a process that serves needs a bus''], s)
           | Some bb \<Rightarrow>
               (case registerHandlers bb service s of
                  (Some err, s') \<Rightarrow> (Inl err, s')
                | (None, s') \<Rightarrow> (Inr (service, bb), s'))))"

text \<open>\<open>ClientMod.Init\<close>: the service type and the call timeout under the section of the service.\<close>

definition client_init :: "string \<Rightarrow> string \<Rightarrow> viper \<Rightarrow> gerr + string \<times> duration" where
  "client_init sect ServiceType cfg =
     (let configured = cfg_GetString cfg (sect @ ''.service_type'');
          serviceType = (if configured = [] then ServiceType else configured) in
      if cfg_IsSet cfg (sect @ ''.call_timeout'') then
        let timeout = cfg_GetDuration cfg (sect @ ''.call_timeout'') in
        if timeout < 0 then Inl [Foreign ''client mod: call_timeout must not be negative'']
        else Inr (serviceType, if 0 < timeout then timeout else DefaultCallTimeout)
      else Inr (serviceType, DefaultCallTimeout))"

definition client_provide ::
  "string \<Rightarrow> ('svc \<Rightarrow> 'c) \<Rightarrow> ('b option \<Rightarrow> string \<Rightarrow> duration \<Rightarrow> gerr + 'svc) \<Rightarrow> 'b option \<Rightarrow>
   ('r, 'c) registry option \<Rightarrow> string \<times> duration \<Rightarrow> ('r, unit) handler" where
  "client_provide name wrapped newClient b registry config =
     (case b of
        None \<Rightarrow> raiseE [Foreign ''client mod: a process that calls needs a bus'']
      | Some bb \<Rightarrow>
          bindE (liftE (newClient (Some bb) (fst config) (snd config))) (\<lambda>client.
            RegisterAll registry [\<lparr>cp_Name = name, cp_Value = wrapped client\<rparr>]))"

lemma client_init_timeout: "client_init sect ServiceType cfg = Inr (serviceType, timeout) \<Longrightarrow> 0 < timeout"
  by (auto simp: client_init_def Let_def DefaultCallTimeout_def Second_def split: if_splits)

text \<open>Publishing both halves of a service in one process is refused whichever comes second.\<close>

lemma owner_and_client_exclude:
  assumes "reg_contract contents rg" "name \<noteq> []" "localName \<noteq> []" "name \<noteq> localName"
    and "RegisterAll (Some rg) (owner_capabilities name localName wrapped bare service) r = (Inr (), r1)"
  shows "isl (fst (client_provide name wrapped' newClient b (Some rg) config r1)) \<and>
    snd (client_provide name wrapped' newClient b (Some rg) config r1) = r1"
proof -
  have "contents r1 name \<noteq> None"
    using RegisterAll_exact [OF assms(1), of "owner_capabilities name localName wrapped bare service" r] assms
    by (auto simp: owner_capabilities_def batch_map_def split: if_splits)
  then have "\<not> batch_ok (contents r1) [\<lparr>cp_Name = name, cp_Value = wrapped' client\<rparr>]" for client
    by (auto simp: batch_ok_def)
  with RegisterAll_exact [OF assms(1)]
  have refused: "isl (fst (RegisterAll (Some rg) [\<lparr>cp_Name = name, cp_Value = wrapped' client\<rparr>] r1)) \<and>
      snd (RegisterAll (Some rg) [\<lparr>cp_Name = name, cp_Value = wrapped' client\<rparr>] r1) = r1" for client
    by (metis fst_conv snd_conv)
  show ?thesis
  proof (cases b)
    case (Some bb)
    then show ?thesis
      using refused
      by (cases "newClient (Some bb) (fst config) (snd config)")
        (simp_all add: client_provide_def liftE_def bindE_def raiseE_def retE_def)
  qed (simp add: client_provide_def raiseE_def)
qed

end
