(* ===== verification/RpcRank.thy ===== *)
theory RpcRank
  imports Rpc Rank
begin

text \<open>
  The transport of the rank service (\<open>service/rank/rank_rpc_gen.go\<close> and the assembly file beside it) over the
  interface of \<open>service/rank/rank.go\<close>: the wire types, the handler table, the bus client, the wrapper
  that is registered, and the server and client Mods. A wire struct is a constructor of one datatype of
  requests or of responses; a field has the same selector in every struct that has it.
\<close>

section \<open>The interface\<close>

record 'w RankService =
  rki_Submit :: "Board \<Rightarrow> Score \<Rightarrow> UpdateMode \<Rightarrow> string \<Rightarrow> ('w, RankEntry) gofun"
  rki_Remove :: "Board \<Rightarrow> int64 \<Rightarrow> ('w, unit) gofun"
  rki_Page :: "Board \<Rightarrow> int \<Rightarrow> int \<Rightarrow> ('w, RankPage) gofun"
  rki_Rank :: "Board \<Rightarrow> int64 \<Rightarrow> ('w, RankEntry \<times> bool) gofun"
  rki_Around :: "Board \<Rightarrow> int64 \<Rightarrow> int \<Rightarrow> ('w, RankPage) gofun"
  rki_Size :: "Board \<Rightarrow> ('w, int) gofun"

section \<open>Names\<close>

definition rank_ServiceType :: string where "rank_ServiceType = ''rank''"
definition MethodSubmit :: string where "MethodSubmit = ''rank.Submit''"
definition MethodRemove :: string where "MethodRemove = ''rank.Remove''"
definition MethodPage :: string where "MethodPage = ''rank.Page''"
definition MethodRank :: string where "MethodRank = ''rank.Rank''"
definition MethodAround :: string where "MethodAround = ''rank.Around''"
definition MethodSize :: string where "MethodSize = ''rank.Size''"

definition rank_Methods :: "string list" where
  "rank_Methods =
     [MethodSubmit, MethodRemove, MethodPage, MethodRank, MethodAround,
      MethodSize]"

definition rank_CapabilityName :: string where "rank_CapabilityName = ''service.rank''"
definition rank_LocalCapabilityName :: string where "rank_LocalCapabilityName = ''service.rank.local''"

lemmas rank_method_defs = MethodSubmit_def MethodRemove_def MethodPage_def MethodRank_def MethodAround_def MethodSize_def

lemma rank_methods_distinct: "distinct rank_Methods"
  by (simp add: rank_Methods_def rank_method_defs)

section \<open>Zero values\<close>

definition zero_Board :: Board where
  "zero_Board = \<lparr>bo_ID = [], bo_Scope = [], bo_ScopeID = 0, bo_Season = 0\<rparr>"

definition zero_Score :: Score where
  "zero_Score = \<lparr>sc_OwnerID = 0, sc_Value = 0, sc_Tie = 0, sc_Brief = []\<rparr>"

definition zero_RankEntry :: RankEntry where
  "zero_RankEntry = \<lparr>re_Rank = 0, re_Score = zero_Score\<rparr>"

definition zero_RankPage :: RankPage where
  "zero_RankPage = \<lparr>pg_Entries = [], pg_Total = 0\<rparr>"

section \<open>Wire types\<close>

datatype rank_request =
    rpcSubmitRequest (rkq_board: Board) (rkq_score: Score) (rkq_mode: UpdateMode) (rkq_requestID: string)
  | rpcRemoveRequest (rkq_board: Board) (rkq_ownerID: int64)
  | rpcPageRequest (rkq_board: Board) (rkq_offset: int) (rkq_limit: int)
  | rpcRankRequest (rkq_board: Board) (rkq_ownerID: int64)
  | rpcAroundRequest (rkq_board: Board) (rkq_ownerID: int64) (rkq_radius: int)
  | rpcSizeRequest (rkq_board: Board)

datatype rank_response =
    rpcSubmitResponse (rkr_status: rpcStatus) (rkr_entry: RankEntry)
  | rpcRemoveResponse (rkr_status: rpcStatus)
  | rpcPageResponse (rkr_status: rpcStatus) (rkr_page: RankPage)
  | rpcRankResponse (rkr_status: rpcStatus) (rkr_entry: RankEntry) (rkr_found: bool)
  | rpcAroundResponse (rkr_status: rpcStatus) (rkr_page: RankPage)
  | rpcSizeResponse (rkr_status: rpcStatus) (rkr_size: int)

definition rank_statusOf :: "(gerr \<Rightarrow> int \<times> string) \<Rightarrow> gerr option \<Rightarrow> rpcStatus" where
  "rank_statusOf clientError err = status_of (RankError clientError) err"

text \<open>The zero value of the struct a request is.\<close>

fun rank_zero_request :: "rank_request \<Rightarrow> rank_request" where
  "rank_zero_request (rpcSubmitRequest _ _ _ _) = rpcSubmitRequest zero_Board zero_Score [] []"
| "rank_zero_request (rpcRemoveRequest _ _) = rpcRemoveRequest zero_Board 0"
| "rank_zero_request (rpcPageRequest _ _ _) = rpcPageRequest zero_Board 0 0"
| "rank_zero_request (rpcRankRequest _ _) = rpcRankRequest zero_Board 0"
| "rank_zero_request (rpcAroundRequest _ _ _) = rpcAroundRequest zero_Board 0 0"
| "rank_zero_request (rpcSizeRequest _) = rpcSizeRequest zero_Board"

section \<open>The handler table\<close>

definition rank_handlers ::
  "(gerr \<Rightarrow> int \<times> string) \<Rightarrow> ('p \<Rightarrow> rank_request \<Rightarrow> gerr + rank_request) \<Rightarrow> 'w RankService \<Rightarrow>
   (string \<times> ('p \<Rightarrow> 'w \<Rightarrow> rank_response \<times> 'w)) list" where
  "rank_handlers clientError decode service =
     (let statusOf = rank_statusOf clientError;
          bad = statusOf (Some [ErrRequestInvalid]) in
     [
      (MethodSubmit, serve decode (rpcSubmitRequest zero_Board zero_Score [] [])
         (\<lambda>_. rpcSubmitResponse bad zero_RankEntry)
         (\<lambda>wire. rki_Submit service (rkq_board wire) (rkq_score wire) (rkq_mode wire) (rkq_requestID wire))
         (\<lambda>entry err. rpcSubmitResponse (statusOf err) entry)),
      (MethodRemove, serve decode (rpcRemoveRequest zero_Board 0)
         (\<lambda>_. rpcRemoveResponse bad)
         (\<lambda>wire. rki_Remove service (rkq_board wire) (rkq_ownerID wire))
         (\<lambda>_ err. rpcRemoveResponse (statusOf err))),
      (MethodPage, serve decode (rpcPageRequest zero_Board 0 0)
         (\<lambda>_. rpcPageResponse bad zero_RankPage)
         (\<lambda>wire. rki_Page service (rkq_board wire) (rkq_offset wire) (rkq_limit wire))
         (\<lambda>page err. rpcPageResponse (statusOf err) page)),
      (MethodRank, serve decode (rpcRankRequest zero_Board 0)
         (\<lambda>_. rpcRankResponse bad zero_RankEntry False)
         (\<lambda>wire. rki_Rank service (rkq_board wire) (rkq_ownerID wire))
         (\<lambda>(entry, found) err. rpcRankResponse (statusOf err) entry found)),
      (MethodAround, serve decode (rpcAroundRequest zero_Board 0 0)
         (\<lambda>_. rpcAroundResponse bad zero_RankPage)
         (\<lambda>wire. rki_Around service (rkq_board wire) (rkq_ownerID wire) (rkq_radius wire))
         (\<lambda>page err. rpcAroundResponse (statusOf err) page)),
      (MethodSize, serve decode (rpcSizeRequest zero_Board)
         (\<lambda>_. rpcSizeResponse bad 0)
         (\<lambda>wire. rki_Size service (rkq_board wire))
         (\<lambda>size err. rpcSizeResponse (statusOf err) size))])"

definition rank_RegisterHandlers ::
  "(gerr \<Rightarrow> int \<times> string) \<Rightarrow> ('p \<Rightarrow> rank_request \<Rightarrow> gerr + rank_request) \<Rightarrow>
   ('b, 'p \<Rightarrow> 'w \<Rightarrow> rank_response \<times> 'w) bus option \<Rightarrow> 'w RankService option \<Rightarrow> 'b \<Rightarrow> gerr option \<times> 'b" where
  "rank_RegisterHandlers clientError decode = register_handlers (rank_handlers clientError decode) rank_Methods"

section \<open>The client\<close>

definition rank_NewBusClient ::
  "('b \<Rightarrow> string \<Rightarrow> duration \<Rightarrow> 'opt list \<Rightarrow> ('w, rank_request, rank_response) call_checked) \<Rightarrow>
   'b option \<Rightarrow> string \<Rightarrow> duration \<Rightarrow> 'opt list \<Rightarrow> gerr + ('w, rank_request, rank_response) call_checked" where
  "rank_NewBusClient = NewBusClient rank_ServiceType []"

definition rank_client_Submit ::
  "('w, rank_request, rank_response) call_checked option \<Rightarrow> Board \<Rightarrow> Score \<Rightarrow> UpdateMode \<Rightarrow> string \<Rightarrow> ('w, RankEntry) gofun" where
  "rank_client_Submit rpc board score mode requestID =
     remote rpc None MethodSubmit (rpcSubmitRequest board score mode requestID)
       (rpcSubmitResponse zero_status zero_RankEntry) rkr_entry"

definition rank_client_Remove ::
  "('w, rank_request, rank_response) call_checked option \<Rightarrow> Board \<Rightarrow> int64 \<Rightarrow> ('w, unit) gofun" where
  "rank_client_Remove rpc board ownerID =
     remote rpc None MethodRemove (rpcRemoveRequest board ownerID)
       (rpcRemoveResponse zero_status) (\<lambda>_. ())"

definition rank_client_Page ::
  "('w, rank_request, rank_response) call_checked option \<Rightarrow> Board \<Rightarrow> int \<Rightarrow> int \<Rightarrow> ('w, RankPage) gofun" where
  "rank_client_Page rpc board offset limit =
     remote rpc None MethodPage (rpcPageRequest board offset limit)
       (rpcPageResponse zero_status zero_RankPage) rkr_page"

definition rank_client_Rank ::
  "('w, rank_request, rank_response) call_checked option \<Rightarrow> Board \<Rightarrow> int64 \<Rightarrow> ('w, RankEntry \<times> bool) gofun" where
  "rank_client_Rank rpc board ownerID =
     remote rpc None MethodRank (rpcRankRequest board ownerID)
       (rpcRankResponse zero_status zero_RankEntry False) (\<lambda>resp. (rkr_entry resp, rkr_found resp))"

definition rank_client_Around ::
  "('w, rank_request, rank_response) call_checked option \<Rightarrow> Board \<Rightarrow> int64 \<Rightarrow> int \<Rightarrow> ('w, RankPage) gofun" where
  "rank_client_Around rpc board ownerID radius =
     remote rpc None MethodAround (rpcAroundRequest board ownerID radius)
       (rpcAroundResponse zero_status zero_RankPage) rkr_page"

definition rank_client_Size ::
  "('w, rank_request, rank_response) call_checked option \<Rightarrow> Board \<Rightarrow> ('w, int) gofun" where
  "rank_client_Size rpc board =
     remote rpc None MethodSize (rpcSizeRequest board)
       (rpcSizeResponse zero_status 0) rkr_size"

definition RankClient :: "('w, rank_request, rank_response) call_checked option \<Rightarrow> 'w RankService" where
  "RankClient rpc =
     \<lparr>rki_Submit = rank_client_Submit rpc,
      rki_Remove = rank_client_Remove rpc,
      rki_Page = rank_client_Page rpc,
      rki_Rank = rank_client_Rank rpc,
      rki_Around = rank_client_Around rpc,
      rki_Size = rank_client_Size rpc\<rparr>"

text \<open>The wrapper that is registered forwards each method.\<close>

definition rank_Capability :: "'w RankService \<Rightarrow> 'w RankService" where
  "rank_Capability inner =
     \<lparr>rki_Submit = (\<lambda>board score mode requestID. rki_Submit inner board score mode requestID),
      rki_Remove = (\<lambda>board ownerID. rki_Remove inner board ownerID),
      rki_Page = (\<lambda>board offset limit. rki_Page inner board offset limit),
      rki_Rank = (\<lambda>board ownerID. rki_Rank inner board ownerID),
      rki_Around = (\<lambda>board ownerID radius. rki_Around inner board ownerID radius),
      rki_Size = (\<lambda>board. rki_Size inner board)\<rparr>"

lemma rank_Capability_id [simp]: "rank_Capability service = service"
  by (simp add: rank_Capability_def)

text \<open>The implementation of the owning process.\<close>

definition rank_service :: "'x RankConfig \<Rightarrow> 'x rworld RankService" where
  "rank_service cfg =
     \<lparr>rki_Submit = (\<lambda>board score mode requestID. both zero_RankEntry (Submit cfg board score mode requestID)),
      rki_Remove = (\<lambda>board ownerID. both () (board_Remove cfg board ownerID)),
      rki_Page = (\<lambda>board offset limit. both zero_RankPage (board_Page cfg board offset limit)),
      rki_Rank = (\<lambda>board ownerID. both_found zero_RankEntry (board_Rank cfg board ownerID)),
      rki_Around = (\<lambda>board ownerID radius. both zero_RankPage (board_Around cfg board ownerID radius)),
      rki_Size = (\<lambda>board. both 0 (board_Size cfg board))\<rparr>"

section \<open>The assembly half\<close>

definition rank_OwnerCapabilities :: "('w RankService \<Rightarrow> 'c) \<Rightarrow> ('w RankService \<Rightarrow> 'c) \<Rightarrow> 'w RankService \<Rightarrow> 'c Capability list" where
  "rank_OwnerCapabilities wrapped bare service =
     owner_capabilities rank_CapabilityName rank_LocalCapabilityName (\<lambda>s. wrapped (rank_Capability s)) bare service"

definition rank_ServerInit ::
  "(gerr \<Rightarrow> int \<times> string) \<Rightarrow> ('p \<Rightarrow> rank_request \<Rightarrow> gerr + rank_request) \<Rightarrow> 'w RankService option \<Rightarrow> bool \<Rightarrow>
   ('b, 'p \<Rightarrow> 'w \<Rightarrow> rank_response \<times> 'w) bus option \<Rightarrow> 'b \<Rightarrow>
   (gerr + 'w RankService \<times> ('b, 'p \<Rightarrow> 'w \<Rightarrow> rank_response \<times> 'w) bus) \<times> 'b" where
  "rank_ServerInit clientError decode =
     server_init (\<lambda>b service. rank_RegisterHandlers clientError decode (Some b) (Some service))"

definition rank_ClientModInit :: "viper \<Rightarrow> gerr + string \<times> duration" where
  "rank_ClientModInit = client_init ''rank'' rank_ServiceType"

definition rank_ClientModProvide ::
  "('b \<Rightarrow> string \<Rightarrow> duration \<Rightarrow> 'opt list \<Rightarrow> ('w, rank_request, rank_response) call_checked) \<Rightarrow> 'opt list \<Rightarrow>
   ('w RankService \<Rightarrow> 'c) \<Rightarrow> 'b option \<Rightarrow> ('r, 'c) registry option \<Rightarrow> string \<times> duration \<Rightarrow> ('r, unit) handler" where
  "rank_ClientModProvide newRpc opts wrapped =
     client_provide rank_CapabilityName (\<lambda>c. wrapped (rank_Capability c))
       (\<lambda>b serviceType timeout.
          case rank_NewBusClient newRpc b serviceType timeout opts of
            Inl err \<Rightarrow> Inl err | Inr rpc \<Rightarrow> Inr (RankClient (Some rpc)))"

section \<open>The client is faithful\<close>

lemmas rank_table = rank_handlers_def rank_method_defs Let_def

lemmas rank_clients = rank_client_Submit_def rank_client_Remove_def rank_client_Page_def rank_client_Rank_def
  rank_client_Around_def rank_client_Size_def

lemma rank_entry:
  "map_of (rank_handlers clientError decode service) m = Some h \<Longrightarrow> m \<in> set rank_Methods"
  by (auto simp: rank_handlers_def rank_Methods_def Let_def split: if_splits)

text \<open>A registration that succeeds has published the whole table.\<close>

lemma rank_registered:
  assumes "bus_contract on b"
    and "rank_RegisterHandlers clientError decode (Some b) (Some service) s = (None, s')"
  shows "\<forall>m. on s' m = (if m \<in> set rank_Methods then map_of (rank_handlers clientError decode service) m else on s m)"
  by (rule register_handlers_ok(1) [OF assms(1) rank_methods_distinct
        assms(2) [unfolded rank_RegisterHandlers_def]])

text \<open>The bus client of the rank service is faithful to the service.\<close>

theorem rank_remote_faithful:
  assumes "rpc_contract enc check rkr_status (map_of (rank_handlers clientError decode service)) call"
    and "check_contract (RankError clientError) check"
    and "\<And>q. decode (enc q) (rank_zero_request q) = Inr q"
  shows "faithful (RankError clientError) zero_RankEntry (rki_Submit service board score mode requestID)
           (rki_Submit (RankClient (Some call)) board score mode requestID) \<and>
         faithful (RankError clientError) () (rki_Remove service board ownerID)
           (rki_Remove (RankClient (Some call)) board ownerID) \<and>
         faithful (RankError clientError) zero_RankPage (rki_Page service board offset limit)
           (rki_Page (RankClient (Some call)) board offset limit) \<and>
         faithful (RankError clientError) (zero_RankEntry, False) (rki_Rank service board ownerID)
           (rki_Rank (RankClient (Some call)) board ownerID) \<and>
         faithful (RankError clientError) zero_RankPage (rki_Around service board ownerID radius)
           (rki_Around (RankClient (Some call)) board ownerID radius) \<and>
         faithful (RankError clientError) 0 (rki_Size service board)
           (rki_Size (RankClient (Some call)) board)"
proof -
  note decoded =
    assms(3) [of "rpcSubmitRequest board score mode requestID", simplified]
    assms(3) [of "rpcRemoveRequest board ownerID", simplified]
    assms(3) [of "rpcPageRequest board offset limit", simplified]
    assms(3) [of "rpcRankRequest board ownerID", simplified]
    assms(3) [of "rpcAroundRequest board ownerID radius", simplified]
    assms(3) [of "rpcSizeRequest board", simplified]
  show ?thesis
    unfolding RankClient_def RankService.select_convs rank_clients
    by (intro conjI;
        (rule remote_faithful [OF assms(1,2)], simp add: rank_table,
         simp_all add: decoded rank_statusOf_def split: prod.split))
qed

end
