(* ===== verification/RpcAccount.thy ===== *)
theory RpcAccount
  imports Rpc Account
begin

text \<open>
  The transport of the account service (\<open>service/account/accounts_rpc_gen.go\<close> and the assembly file beside it) over the
  interface of \<open>service/account/account_rpc.go\<close>: the wire types, the handler table, the bus client, the wrapper
  that is registered, and the server and client Mods. A wire struct is a constructor of one datatype of
  requests or of responses; a field has the same selector in every struct that has it.
\<close>

section \<open>The interface\<close>

record 'w AccountsService =
  awi_Login :: "Identity \<Rightarrow> ('w, Account) gofun"
  awi_CreateRole :: "string \<Rightarrow> int \<Rightarrow> string \<Rightarrow> ('w, Role) gofun"
  awi_SelectRole :: "string \<Rightarrow> int \<Rightarrow> ('w, AcctSession) gofun"
  awi_ValidateSession :: "int \<Rightarrow> string \<Rightarrow> ('w, Role) gofun"
  awi_UpdateProfile :: "string \<Rightarrow> int \<Rightarrow> string \<Rightarrow> ('w, Role) gofun"
  awi_MarkLogout :: "string \<Rightarrow> int \<Rightarrow> ('w, unit) gofun"

section \<open>Names\<close>

definition account_ServiceType :: string where "account_ServiceType = ''account''"
definition MethodLogin :: string where "MethodLogin = ''account.Login''"
definition MethodCreateRole :: string where "MethodCreateRole = ''account.CreateRole''"
definition MethodSelectRole :: string where "MethodSelectRole = ''account.SelectRole''"
definition MethodValidateSession :: string where "MethodValidateSession = ''account.ValidateSession''"
definition MethodUpdateProfile :: string where "MethodUpdateProfile = ''account.UpdateProfile''"
definition MethodMarkLogout :: string where "MethodMarkLogout = ''account.MarkLogout''"

definition account_Methods :: "string list" where
  "account_Methods =
     [MethodLogin, MethodCreateRole, MethodSelectRole, MethodValidateSession, MethodUpdateProfile,
      MethodMarkLogout]"

definition account_CapabilityName :: string where "account_CapabilityName = ''service.account''"
definition account_LocalCapabilityName :: string where "account_LocalCapabilityName = ''service.account.local''"

lemmas account_method_defs = MethodLogin_def MethodCreateRole_def MethodSelectRole_def MethodValidateSession_def MethodUpdateProfile_def MethodMarkLogout_def

lemma account_methods_distinct: "distinct account_Methods"
  by (simp add: account_Methods_def account_method_defs)

section \<open>Zero values\<close>

abbreviation "ErrAcctRequestInvalid \<equiv> Coded 560114"

definition zero_Identity :: Identity where
  "zero_Identity = \<lparr>id_Channel = [], id_OpenID = [], id_Credential = []\<rparr>"

definition zero_Account :: Account where
  "zero_Account = \<lparr>at_ID = [], at_Channel = [], at_OpenID = [], at_Banned = False, at_CreatedAtUnix = 0,
     at_LastLoginAtUnix = 0\<rparr>"

definition zero_AcctSession :: AcctSession where
  "zero_AcctSession = \<lparr>sn_PlayerID = 0, sn_AccountID = [], sn_ServerID = 0, sn_Token = [], sn_ExpiresAtUnix = 0\<rparr>"

section \<open>Wire types\<close>

datatype account_request =
    rpcLoginRequest (awq_identity: Identity)
  | rpcCreateRoleRequest (awq_accountID: string) (awq_serverID: int) (awq_name: string)
  | rpcSelectRoleRequest (awq_accountID: string) (awq_playerID: int)
  | rpcValidateSessionRequest (awq_playerID: int) (awq_token: string)
  | rpcUpdateProfileRequest (awq_accountID: string) (awq_playerID: int) (awq_profile: string)
  | rpcMarkLogoutRequest (awq_accountID: string) (awq_playerID: int)

datatype account_response =
    rpcLoginResponse (awr_status: rpcStatus) (awr_account: Account)
  | rpcCreateRoleResponse (awr_status: rpcStatus) (awr_role: Role)
  | rpcSelectRoleResponse (awr_status: rpcStatus) (awr_session: AcctSession)
  | rpcValidateSessionResponse (awr_status: rpcStatus) (awr_role: Role)
  | rpcUpdateProfileResponse (awr_status: rpcStatus) (awr_role: Role)
  | rpcMarkLogoutResponse (awr_status: rpcStatus)

definition account_statusOf :: "(gerr \<Rightarrow> int \<times> string) \<Rightarrow> gerr option \<Rightarrow> rpcStatus" where
  "account_statusOf clientError err = status_of (AccountError clientError) err"

text \<open>The zero value of the struct a request is.\<close>

fun account_zero_request :: "account_request \<Rightarrow> account_request" where
  "account_zero_request (rpcLoginRequest _) = rpcLoginRequest zero_Identity"
| "account_zero_request (rpcCreateRoleRequest _ _ _) = rpcCreateRoleRequest [] 0 []"
| "account_zero_request (rpcSelectRoleRequest _ _) = rpcSelectRoleRequest [] 0"
| "account_zero_request (rpcValidateSessionRequest _ _) = rpcValidateSessionRequest 0 []"
| "account_zero_request (rpcUpdateProfileRequest _ _ _) = rpcUpdateProfileRequest [] 0 []"
| "account_zero_request (rpcMarkLogoutRequest _ _) = rpcMarkLogoutRequest [] 0"

section \<open>The handler table\<close>

definition account_handlers ::
  "(gerr \<Rightarrow> int \<times> string) \<Rightarrow> ('p \<Rightarrow> account_request \<Rightarrow> gerr + account_request) \<Rightarrow> 'w AccountsService \<Rightarrow>
   (string \<times> ('p \<Rightarrow> 'w \<Rightarrow> account_response \<times> 'w)) list" where
  "account_handlers clientError decode service =
     (let statusOf = account_statusOf clientError;
          bad = statusOf (Some [ErrAcctRequestInvalid]) in
     [
      (MethodLogin, serve decode (rpcLoginRequest zero_Identity)
         (\<lambda>_. rpcLoginResponse bad zero_Account)
         (\<lambda>wire. awi_Login service (awq_identity wire))
         (\<lambda>account err. rpcLoginResponse (statusOf err) account)),
      (MethodCreateRole, serve decode (rpcCreateRoleRequest [] 0 [])
         (\<lambda>_. rpcCreateRoleResponse bad zero_role)
         (\<lambda>wire. awi_CreateRole service (awq_accountID wire) (awq_serverID wire) (awq_name wire))
         (\<lambda>role err. rpcCreateRoleResponse (statusOf err) role)),
      (MethodSelectRole, serve decode (rpcSelectRoleRequest [] 0)
         (\<lambda>_. rpcSelectRoleResponse bad zero_AcctSession)
         (\<lambda>wire. awi_SelectRole service (awq_accountID wire) (awq_playerID wire))
         (\<lambda>session err. rpcSelectRoleResponse (statusOf err) session)),
      (MethodValidateSession, serve decode (rpcValidateSessionRequest 0 [])
         (\<lambda>_. rpcValidateSessionResponse bad zero_role)
         (\<lambda>wire. awi_ValidateSession service (awq_playerID wire) (awq_token wire))
         (\<lambda>role err. rpcValidateSessionResponse (statusOf err) role)),
      (MethodUpdateProfile, serve decode (rpcUpdateProfileRequest [] 0 [])
         (\<lambda>_. rpcUpdateProfileResponse bad zero_role)
         (\<lambda>wire. awi_UpdateProfile service (awq_accountID wire) (awq_playerID wire) (awq_profile wire))
         (\<lambda>role err. rpcUpdateProfileResponse (statusOf err) role)),
      (MethodMarkLogout, serve decode (rpcMarkLogoutRequest [] 0)
         (\<lambda>_. rpcMarkLogoutResponse bad)
         (\<lambda>wire. awi_MarkLogout service (awq_accountID wire) (awq_playerID wire))
         (\<lambda>_ err. rpcMarkLogoutResponse (statusOf err)))])"

definition account_RegisterHandlers ::
  "(gerr \<Rightarrow> int \<times> string) \<Rightarrow> ('p \<Rightarrow> account_request \<Rightarrow> gerr + account_request) \<Rightarrow>
   ('b, 'p \<Rightarrow> 'w \<Rightarrow> account_response \<times> 'w) bus option \<Rightarrow> 'w AccountsService option \<Rightarrow> 'b \<Rightarrow> gerr option \<times> 'b" where
  "account_RegisterHandlers clientError decode = register_handlers (account_handlers clientError decode) account_Methods"

section \<open>The client\<close>

definition account_NewBusClient ::
  "('b \<Rightarrow> string \<Rightarrow> duration \<Rightarrow> 'opt list \<Rightarrow> ('w, account_request, account_response) call_checked) \<Rightarrow>
   'b option \<Rightarrow> string \<Rightarrow> duration \<Rightarrow> 'opt list \<Rightarrow> gerr + ('w, account_request, account_response) call_checked" where
  "account_NewBusClient = NewBusClient account_ServiceType []"

definition account_client_Login ::
  "('w, account_request, account_response) call_checked option \<Rightarrow> Identity \<Rightarrow> ('w, Account) gofun" where
  "account_client_Login rpc identity =
     remote rpc None MethodLogin (rpcLoginRequest identity)
       (rpcLoginResponse zero_status zero_Account) awr_account"

definition account_client_CreateRole ::
  "('w, account_request, account_response) call_checked option \<Rightarrow> string \<Rightarrow> int \<Rightarrow> string \<Rightarrow> ('w, Role) gofun" where
  "account_client_CreateRole rpc accountID serverID name =
     remote rpc None MethodCreateRole (rpcCreateRoleRequest accountID serverID name)
       (rpcCreateRoleResponse zero_status zero_role) awr_role"

definition account_client_SelectRole ::
  "('w, account_request, account_response) call_checked option \<Rightarrow> string \<Rightarrow> int \<Rightarrow> ('w, AcctSession) gofun" where
  "account_client_SelectRole rpc accountID playerID =
     remote rpc None MethodSelectRole (rpcSelectRoleRequest accountID playerID)
       (rpcSelectRoleResponse zero_status zero_AcctSession) awr_session"

definition account_client_ValidateSession ::
  "('w, account_request, account_response) call_checked option \<Rightarrow> int \<Rightarrow> string \<Rightarrow> ('w, Role) gofun" where
  "account_client_ValidateSession rpc playerID token =
     remote rpc None MethodValidateSession (rpcValidateSessionRequest playerID token)
       (rpcValidateSessionResponse zero_status zero_role) awr_role"

definition account_client_UpdateProfile ::
  "('w, account_request, account_response) call_checked option \<Rightarrow> string \<Rightarrow> int \<Rightarrow> string \<Rightarrow> ('w, Role) gofun" where
  "account_client_UpdateProfile rpc accountID playerID profile =
     remote rpc None MethodUpdateProfile (rpcUpdateProfileRequest accountID playerID profile)
       (rpcUpdateProfileResponse zero_status zero_role) awr_role"

definition account_client_MarkLogout ::
  "('w, account_request, account_response) call_checked option \<Rightarrow> string \<Rightarrow> int \<Rightarrow> ('w, unit) gofun" where
  "account_client_MarkLogout rpc accountID playerID =
     remote rpc None MethodMarkLogout (rpcMarkLogoutRequest accountID playerID)
       (rpcMarkLogoutResponse zero_status) (\<lambda>_. ())"

definition AccountsClient :: "('w, account_request, account_response) call_checked option \<Rightarrow> 'w AccountsService" where
  "AccountsClient rpc =
     \<lparr>awi_Login = account_client_Login rpc,
      awi_CreateRole = account_client_CreateRole rpc,
      awi_SelectRole = account_client_SelectRole rpc,
      awi_ValidateSession = account_client_ValidateSession rpc,
      awi_UpdateProfile = account_client_UpdateProfile rpc,
      awi_MarkLogout = account_client_MarkLogout rpc\<rparr>"

text \<open>The wrapper that is registered forwards each method.\<close>

definition account_Capability :: "'w AccountsService \<Rightarrow> 'w AccountsService" where
  "account_Capability inner =
     \<lparr>awi_Login = (\<lambda>identity. awi_Login inner identity),
      awi_CreateRole = (\<lambda>accountID serverID name. awi_CreateRole inner accountID serverID name),
      awi_SelectRole = (\<lambda>accountID playerID. awi_SelectRole inner accountID playerID),
      awi_ValidateSession = (\<lambda>playerID token. awi_ValidateSession inner playerID token),
      awi_UpdateProfile = (\<lambda>accountID playerID profile. awi_UpdateProfile inner accountID playerID profile),
      awi_MarkLogout = (\<lambda>accountID playerID. awi_MarkLogout inner accountID playerID)\<rparr>"

lemma account_Capability_id [simp]: "account_Capability service = service"
  by (simp add: account_Capability_def)

text \<open>The implementation of the owning process.\<close>

definition account_service :: "('a, 'r, 's, 'l, 'n, 'o) AccountConfig \<Rightarrow> ('a, 'r, 's, 'l, 'n, 'o) uworld AccountsService" where
  "account_service cfg =
     \<lparr>awi_Login = (\<lambda>identity. both zero_Account (Login cfg identity)),
      awi_CreateRole = (\<lambda>accountID serverID name. both zero_role (CreateRole cfg accountID serverID name)),
      awi_SelectRole = (\<lambda>accountID playerID. both zero_AcctSession (SelectRole cfg accountID playerID)),
      awi_ValidateSession = (\<lambda>playerID token. both zero_role (acct_ValidateSession cfg playerID token)),
      awi_UpdateProfile = (\<lambda>accountID playerID profile. both zero_role (UpdateProfile cfg accountID playerID profile)),
      awi_MarkLogout = (\<lambda>accountID playerID. both () (MarkLogout cfg accountID playerID))\<rparr>"

section \<open>The assembly half\<close>

definition account_OwnerCapabilities :: "('w AccountsService \<Rightarrow> 'c) \<Rightarrow> ('w AccountsService \<Rightarrow> 'c) \<Rightarrow> 'w AccountsService \<Rightarrow> 'c Capability list" where
  "account_OwnerCapabilities wrapped bare service =
     owner_capabilities account_CapabilityName account_LocalCapabilityName (\<lambda>s. wrapped (account_Capability s)) bare service"

definition account_ServerInit ::
  "(gerr \<Rightarrow> int \<times> string) \<Rightarrow> ('p \<Rightarrow> account_request \<Rightarrow> gerr + account_request) \<Rightarrow> 'w AccountsService option \<Rightarrow> bool \<Rightarrow>
   ('b, 'p \<Rightarrow> 'w \<Rightarrow> account_response \<times> 'w) bus option \<Rightarrow> 'b \<Rightarrow>
   (gerr + 'w AccountsService \<times> ('b, 'p \<Rightarrow> 'w \<Rightarrow> account_response \<times> 'w) bus) \<times> 'b" where
  "account_ServerInit clientError decode =
     server_init (\<lambda>b service. account_RegisterHandlers clientError decode (Some b) (Some service))"

definition account_ClientModInit :: "viper \<Rightarrow> gerr + string \<times> duration" where
  "account_ClientModInit = client_init ''account'' account_ServiceType"

definition account_ClientModProvide ::
  "('b \<Rightarrow> string \<Rightarrow> duration \<Rightarrow> 'opt list \<Rightarrow> ('w, account_request, account_response) call_checked) \<Rightarrow> 'opt list \<Rightarrow>
   ('w AccountsService \<Rightarrow> 'c) \<Rightarrow> 'b option \<Rightarrow> ('r, 'c) registry option \<Rightarrow> string \<times> duration \<Rightarrow> ('r, unit) handler" where
  "account_ClientModProvide newRpc opts wrapped =
     client_provide account_CapabilityName (\<lambda>c. wrapped (account_Capability c))
       (\<lambda>b serviceType timeout.
          case account_NewBusClient newRpc b serviceType timeout opts of
            Inl err \<Rightarrow> Inl err | Inr rpc \<Rightarrow> Inr (AccountsClient (Some rpc)))"

section \<open>The client is faithful\<close>

lemmas account_table = account_handlers_def account_method_defs Let_def

lemmas account_clients = account_client_Login_def account_client_CreateRole_def account_client_SelectRole_def
  account_client_ValidateSession_def account_client_UpdateProfile_def account_client_MarkLogout_def

lemma account_entry:
  "map_of (account_handlers clientError decode service) m = Some h \<Longrightarrow> m \<in> set account_Methods"
  by (auto simp: account_handlers_def account_Methods_def Let_def split: if_splits)

text \<open>A registration that succeeds has published the whole table.\<close>

lemma account_registered:
  assumes "bus_contract on b"
    and "account_RegisterHandlers clientError decode (Some b) (Some service) s = (None, s')"
  shows "\<forall>m. on s' m = (if m \<in> set account_Methods then map_of (account_handlers clientError decode service) m else on s m)"
  by (rule register_handlers_ok(1) [OF assms(1) account_methods_distinct
        assms(2) [unfolded account_RegisterHandlers_def]])

text \<open>The bus client of the account service is faithful to the service.\<close>

theorem account_remote_faithful:
  assumes "rpc_contract enc check awr_status (map_of (account_handlers clientError decode service)) call"
    and "check_contract (AccountError clientError) check"
    and "\<And>q. decode (enc q) (account_zero_request q) = Inr q"
  shows "faithful (AccountError clientError) zero_Account (awi_Login service identity)
           (awi_Login (AccountsClient (Some call)) identity) \<and>
         faithful (AccountError clientError) zero_role (awi_CreateRole service accountID serverID name)
           (awi_CreateRole (AccountsClient (Some call)) accountID serverID name) \<and>
         faithful (AccountError clientError) zero_AcctSession (awi_SelectRole service accountID playerID)
           (awi_SelectRole (AccountsClient (Some call)) accountID playerID) \<and>
         faithful (AccountError clientError) zero_role (awi_ValidateSession service playerID token)
           (awi_ValidateSession (AccountsClient (Some call)) playerID token) \<and>
         faithful (AccountError clientError) zero_role (awi_UpdateProfile service accountID playerID profile)
           (awi_UpdateProfile (AccountsClient (Some call)) accountID playerID profile) \<and>
         faithful (AccountError clientError) () (awi_MarkLogout service accountID playerID)
           (awi_MarkLogout (AccountsClient (Some call)) accountID playerID)"
proof -
  note decoded =
    assms(3) [of "rpcLoginRequest identity", simplified]
    assms(3) [of "rpcCreateRoleRequest accountID serverID name", simplified]
    assms(3) [of "rpcSelectRoleRequest accountID playerID", simplified]
    assms(3) [of "rpcValidateSessionRequest playerID token", simplified]
    assms(3) [of "rpcUpdateProfileRequest accountID playerID profile", simplified]
    assms(3) [of "rpcMarkLogoutRequest accountID playerID", simplified]
  show ?thesis
    unfolding AccountsClient_def AccountsService.select_convs account_clients
    by (intro conjI;
        (rule remote_faithful [OF assms(1,2)], simp add: account_table,
         simp_all add: decoded account_statusOf_def split: prod.split))
qed

end
