(* ===== verification/RpcChat.thy ===== *)
theory RpcChat
  imports Rpc Chat
begin

text \<open>
  The transport of the chat service (\<open>service/chat/messaging_rpc_gen.go\<close> and the assembly file beside it) over the
  interface of \<open>service/chat/chat_rpc.go\<close>: the wire types, the handler table, the bus client, the wrapper
  that is registered, and the server and client Mods. A wire struct is a constructor of one datatype of
  requests or of responses; a field has the same selector in every struct that has it.
\<close>

section \<open>The interface\<close>

record 'w MessagingService =
  cwi_Publish :: "Sender \<Rightarrow> PublishRequest \<Rightarrow> ('w, Message) gofun"
  cwi_PublishSystem :: "SystemPublishRequest \<Rightarrow> ('w, Message) gofun"
  cwi_History :: "Sender \<Rightarrow> HistoryQuery \<Rightarrow> ('w, ChatPage) gofun"
  cwi_Conversation :: "Sender \<Rightarrow> int \<Rightarrow> int \<Rightarrow> int \<Rightarrow> ('w, ChatPage) gofun"
  cwi_Scrollback :: "Sender \<Rightarrow> int \<Rightarrow> int \<Rightarrow> int \<Rightarrow> ('w, ChatPage) gofun"

section \<open>Names\<close>

definition chat_ServiceType :: string where "chat_ServiceType = ''chat''"
definition MethodPublish :: string where "MethodPublish = ''chat.Publish''"
definition MethodPublishSystem :: string where "MethodPublishSystem = ''chat.PublishSystem''"
definition MethodHistory :: string where "MethodHistory = ''chat.History''"
definition MethodConversation :: string where "MethodConversation = ''chat.Conversation''"
definition MethodScrollback :: string where "MethodScrollback = ''chat.Scrollback''"

definition chat_Methods :: "string list" where
  "chat_Methods =
     [MethodPublish, MethodPublishSystem, MethodHistory, MethodConversation, MethodScrollback]"

definition chat_CapabilityName :: string where "chat_CapabilityName = ''service.chat''"
definition chat_LocalCapabilityName :: string where "chat_LocalCapabilityName = ''service.chat.local''"

lemmas chat_method_defs = MethodPublish_def MethodPublishSystem_def MethodHistory_def MethodConversation_def MethodScrollback_def

lemma chat_methods_distinct: "distinct chat_Methods"
  by (simp add: chat_Methods_def chat_method_defs)

section \<open>Zero values\<close>

definition zero_Channel :: Channel where
  "zero_Channel = \<lparr>ch_Kind = [], ch_Target = 0\<rparr>"

definition zero_Sender :: Sender where
  "zero_Sender = \<lparr>sd_RoleID = 0, sd_Name = []\<rparr>"

definition zero_PublishRequest :: PublishRequest where
  "zero_PublishRequest = \<lparr>pq_Channel = zero_Channel, pq_Type = [], pq_Body = [], pq_RequestID = []\<rparr>"

definition zero_SystemPublishRequest :: SystemPublishRequest where
  "zero_SystemPublishRequest = \<lparr>sq_Channel = zero_Channel, sq_Actor = [], sq_Type = [], sq_Body = [], sq_RequestID = []\<rparr>"

definition zero_HistoryQuery :: HistoryQuery where
  "zero_HistoryQuery = \<lparr>hq_Channel = zero_Channel, hq_AfterSeq = 0, hq_BeforeSeq = 0, hq_Limit = 0\<rparr>"

definition zero_ChatPage :: ChatPage where
  "zero_ChatPage = \<lparr>pg_Messages = [], pg_NextCursor = 0, pg_PrevCursor = 0, pg_HasMore = False, pg_Gap = False,
     pg_OldestSeq = 0, pg_LatestSeq = 0\<rparr>"

section \<open>Wire types\<close>

datatype chat_request =
    rpcPublishRequest (cwq_from: Sender) (cwq_req: PublishRequest)
  | rpcPublishSystemRequest (cwq_systemReq: SystemPublishRequest)
  | rpcHistoryRequest (cwq_viewer: Sender) (cwq_query: HistoryQuery)
  | rpcConversationRequest (cwq_viewer: Sender) (cwq_peer: int) (cwq_afterSeq: int) (cwq_limit: int)
  | rpcScrollbackRequest (cwq_viewer: Sender) (cwq_peer: int) (cwq_beforeSeq: int) (cwq_limit: int)

datatype chat_response =
    rpcPublishResponse (cwr_status: rpcStatus) (cwr_message: Message)
  | rpcPublishSystemResponse (cwr_status: rpcStatus) (cwr_message: Message)
  | rpcHistoryResponse (cwr_status: rpcStatus) (cwr_page: ChatPage)
  | rpcConversationResponse (cwr_status: rpcStatus) (cwr_page: ChatPage)
  | rpcScrollbackResponse (cwr_status: rpcStatus) (cwr_page: ChatPage)

definition chat_statusOf :: "(gerr \<Rightarrow> int \<times> string) \<Rightarrow> gerr option \<Rightarrow> rpcStatus" where
  "chat_statusOf clientError err = status_of (ChatError clientError) err"

text \<open>The zero value of the struct a request is.\<close>

fun chat_zero_request :: "chat_request \<Rightarrow> chat_request" where
  "chat_zero_request (rpcPublishRequest _ _) = rpcPublishRequest zero_Sender zero_PublishRequest"
| "chat_zero_request (rpcPublishSystemRequest _) = rpcPublishSystemRequest zero_SystemPublishRequest"
| "chat_zero_request (rpcHistoryRequest _ _) = rpcHistoryRequest zero_Sender zero_HistoryQuery"
| "chat_zero_request (rpcConversationRequest _ _ _ _) = rpcConversationRequest zero_Sender 0 0 0"
| "chat_zero_request (rpcScrollbackRequest _ _ _ _) = rpcScrollbackRequest zero_Sender 0 0 0"

section \<open>The handler table\<close>

definition chat_handlers ::
  "(gerr \<Rightarrow> int \<times> string) \<Rightarrow> ('p \<Rightarrow> chat_request \<Rightarrow> gerr + chat_request) \<Rightarrow> 'w MessagingService \<Rightarrow>
   (string \<times> ('p \<Rightarrow> 'w \<Rightarrow> chat_response \<times> 'w)) list" where
  "chat_handlers clientError decode service =
     (let statusOf = chat_statusOf clientError;
          bad = statusOf (Some [ErrChatRequestInvalid]) in
     [
      (MethodPublish, serve decode (rpcPublishRequest zero_Sender zero_PublishRequest)
         (\<lambda>_. rpcPublishResponse bad zero_message)
         (\<lambda>wire. cwi_Publish service (cwq_from wire) (cwq_req wire))
         (\<lambda>message err. rpcPublishResponse (statusOf err) message)),
      (MethodPublishSystem, serve decode (rpcPublishSystemRequest zero_SystemPublishRequest)
         (\<lambda>_. rpcPublishSystemResponse bad zero_message)
         (\<lambda>wire. cwi_PublishSystem service (cwq_systemReq wire))
         (\<lambda>message err. rpcPublishSystemResponse (statusOf err) message)),
      (MethodHistory, serve decode (rpcHistoryRequest zero_Sender zero_HistoryQuery)
         (\<lambda>_. rpcHistoryResponse bad zero_ChatPage)
         (\<lambda>wire. cwi_History service (cwq_viewer wire) (cwq_query wire))
         (\<lambda>page err. rpcHistoryResponse (statusOf err) page)),
      (MethodConversation, serve decode (rpcConversationRequest zero_Sender 0 0 0)
         (\<lambda>_. rpcConversationResponse bad zero_ChatPage)
         (\<lambda>wire. cwi_Conversation service (cwq_viewer wire) (cwq_peer wire) (cwq_afterSeq wire) (cwq_limit wire))
         (\<lambda>page err. rpcConversationResponse (statusOf err) page)),
      (MethodScrollback, serve decode (rpcScrollbackRequest zero_Sender 0 0 0)
         (\<lambda>_. rpcScrollbackResponse bad zero_ChatPage)
         (\<lambda>wire. cwi_Scrollback service (cwq_viewer wire) (cwq_peer wire) (cwq_beforeSeq wire) (cwq_limit wire))
         (\<lambda>page err. rpcScrollbackResponse (statusOf err) page))])"

definition chat_RegisterHandlers ::
  "(gerr \<Rightarrow> int \<times> string) \<Rightarrow> ('p \<Rightarrow> chat_request \<Rightarrow> gerr + chat_request) \<Rightarrow>
   ('b, 'p \<Rightarrow> 'w \<Rightarrow> chat_response \<times> 'w) bus option \<Rightarrow> 'w MessagingService option \<Rightarrow> 'b \<Rightarrow> gerr option \<times> 'b" where
  "chat_RegisterHandlers clientError decode = register_handlers (chat_handlers clientError decode) chat_Methods"

section \<open>The client\<close>

definition chat_NewBusClient ::
  "('b \<Rightarrow> string \<Rightarrow> duration \<Rightarrow> 'opt list \<Rightarrow> ('w, chat_request, chat_response) call_checked) \<Rightarrow>
   'b option \<Rightarrow> string \<Rightarrow> duration \<Rightarrow> 'opt list \<Rightarrow> gerr + ('w, chat_request, chat_response) call_checked" where
  "chat_NewBusClient = NewBusClient chat_ServiceType []"

definition chat_client_Publish ::
  "('w, chat_request, chat_response) call_checked option \<Rightarrow> Sender \<Rightarrow> PublishRequest \<Rightarrow> ('w, Message) gofun" where
  "chat_client_Publish rpc sender req =
     remote rpc None MethodPublish (rpcPublishRequest sender req)
       (rpcPublishResponse zero_status zero_message) cwr_message"

definition chat_client_PublishSystem ::
  "('w, chat_request, chat_response) call_checked option \<Rightarrow> SystemPublishRequest \<Rightarrow> ('w, Message) gofun" where
  "chat_client_PublishSystem rpc systemReq =
     remote rpc None MethodPublishSystem (rpcPublishSystemRequest systemReq)
       (rpcPublishSystemResponse zero_status zero_message) cwr_message"

definition chat_client_History ::
  "('w, chat_request, chat_response) call_checked option \<Rightarrow> Sender \<Rightarrow> HistoryQuery \<Rightarrow> ('w, ChatPage) gofun" where
  "chat_client_History rpc viewer query =
     remote rpc None MethodHistory (rpcHistoryRequest viewer query)
       (rpcHistoryResponse zero_status zero_ChatPage) cwr_page"

definition chat_client_Conversation ::
  "('w, chat_request, chat_response) call_checked option \<Rightarrow> Sender \<Rightarrow> int \<Rightarrow> int \<Rightarrow> int \<Rightarrow> ('w, ChatPage) gofun" where
  "chat_client_Conversation rpc viewer peer afterSeq limit =
     remote rpc None MethodConversation (rpcConversationRequest viewer peer afterSeq limit)
       (rpcConversationResponse zero_status zero_ChatPage) cwr_page"

definition chat_client_Scrollback ::
  "('w, chat_request, chat_response) call_checked option \<Rightarrow> Sender \<Rightarrow> int \<Rightarrow> int \<Rightarrow> int \<Rightarrow> ('w, ChatPage) gofun" where
  "chat_client_Scrollback rpc viewer peer beforeSeq limit =
     remote rpc None MethodScrollback (rpcScrollbackRequest viewer peer beforeSeq limit)
       (rpcScrollbackResponse zero_status zero_ChatPage) cwr_page"

definition MessagingClient :: "('w, chat_request, chat_response) call_checked option \<Rightarrow> 'w MessagingService" where
  "MessagingClient rpc =
     \<lparr>cwi_Publish = chat_client_Publish rpc,
      cwi_PublishSystem = chat_client_PublishSystem rpc,
      cwi_History = chat_client_History rpc,
      cwi_Conversation = chat_client_Conversation rpc,
      cwi_Scrollback = chat_client_Scrollback rpc\<rparr>"

text \<open>The wrapper that is registered forwards each method.\<close>

definition chat_Capability :: "'w MessagingService \<Rightarrow> 'w MessagingService" where
  "chat_Capability inner =
     \<lparr>cwi_Publish = (\<lambda>sender req. cwi_Publish inner sender req),
      cwi_PublishSystem = (\<lambda>systemReq. cwi_PublishSystem inner systemReq),
      cwi_History = (\<lambda>viewer query. cwi_History inner viewer query),
      cwi_Conversation = (\<lambda>viewer peer afterSeq limit. cwi_Conversation inner viewer peer afterSeq limit),
      cwi_Scrollback = (\<lambda>viewer peer beforeSeq limit. cwi_Scrollback inner viewer peer beforeSeq limit)\<rparr>"

lemma chat_Capability_id [simp]: "chat_Capability service = service"
  by (simp add: chat_Capability_def)

text \<open>The implementation of the owning process.\<close>

definition chat_service :: "('x, 'o) ServiceConfig \<Rightarrow> ('x, 'o) cworld MessagingService" where
  "chat_service cfg =
     \<lparr>cwi_Publish = (\<lambda>sender req. both zero_message (Publish cfg sender req)),
      cwi_PublishSystem = (\<lambda>systemReq. both zero_message (PublishSystem cfg systemReq)),
      cwi_History = (\<lambda>viewer query. both zero_ChatPage (History (sv_Store cfg) viewer query)),
      cwi_Conversation = (\<lambda>viewer peer afterSeq limit. both zero_ChatPage (Conversation cfg viewer peer afterSeq limit)),
      cwi_Scrollback = (\<lambda>viewer peer beforeSeq limit. both zero_ChatPage (Scrollback cfg viewer peer beforeSeq limit))\<rparr>"

section \<open>The assembly half\<close>

definition chat_OwnerCapabilities :: "('w MessagingService \<Rightarrow> 'c) \<Rightarrow> ('w MessagingService \<Rightarrow> 'c) \<Rightarrow> 'w MessagingService \<Rightarrow> 'c Capability list" where
  "chat_OwnerCapabilities wrapped bare service =
     owner_capabilities chat_CapabilityName chat_LocalCapabilityName (\<lambda>s. wrapped (chat_Capability s)) bare service"

definition chat_ServerInit ::
  "(gerr \<Rightarrow> int \<times> string) \<Rightarrow> ('p \<Rightarrow> chat_request \<Rightarrow> gerr + chat_request) \<Rightarrow> 'w MessagingService option \<Rightarrow> bool \<Rightarrow>
   ('b, 'p \<Rightarrow> 'w \<Rightarrow> chat_response \<times> 'w) bus option \<Rightarrow> 'b \<Rightarrow>
   (gerr + 'w MessagingService \<times> ('b, 'p \<Rightarrow> 'w \<Rightarrow> chat_response \<times> 'w) bus) \<times> 'b" where
  "chat_ServerInit clientError decode =
     server_init (\<lambda>b service. chat_RegisterHandlers clientError decode (Some b) (Some service))"

definition chat_ClientModInit :: "viper \<Rightarrow> gerr + string \<times> duration" where
  "chat_ClientModInit = client_init ''chat'' chat_ServiceType"

definition chat_ClientModProvide ::
  "('b \<Rightarrow> string \<Rightarrow> duration \<Rightarrow> 'opt list \<Rightarrow> ('w, chat_request, chat_response) call_checked) \<Rightarrow> 'opt list \<Rightarrow>
   ('w MessagingService \<Rightarrow> 'c) \<Rightarrow> 'b option \<Rightarrow> ('r, 'c) registry option \<Rightarrow> string \<times> duration \<Rightarrow> ('r, unit) handler" where
  "chat_ClientModProvide newRpc opts wrapped =
     client_provide chat_CapabilityName (\<lambda>c. wrapped (chat_Capability c))
       (\<lambda>b serviceType timeout.
          case chat_NewBusClient newRpc b serviceType timeout opts of
            Inl err \<Rightarrow> Inl err | Inr rpc \<Rightarrow> Inr (MessagingClient (Some rpc)))"

section \<open>The client is faithful\<close>

lemmas chat_table = chat_handlers_def chat_method_defs Let_def

lemmas chat_clients = chat_client_Publish_def chat_client_PublishSystem_def chat_client_History_def
  chat_client_Conversation_def chat_client_Scrollback_def

lemma chat_entry:
  "map_of (chat_handlers clientError decode service) m = Some h \<Longrightarrow> m \<in> set chat_Methods"
  by (auto simp: chat_handlers_def chat_Methods_def Let_def split: if_splits)

text \<open>A registration that succeeds has published the whole table.\<close>

lemma chat_registered:
  assumes "bus_contract on b"
    and "chat_RegisterHandlers clientError decode (Some b) (Some service) s = (None, s')"
  shows "\<forall>m. on s' m = (if m \<in> set chat_Methods then map_of (chat_handlers clientError decode service) m else on s m)"
  by (rule register_handlers_ok(1) [OF assms(1) chat_methods_distinct
        assms(2) [unfolded chat_RegisterHandlers_def]])

text \<open>The bus client of the chat service is faithful to the service.\<close>

theorem chat_remote_faithful:
  assumes "rpc_contract enc check cwr_status (map_of (chat_handlers clientError decode service)) call"
    and "check_contract (ChatError clientError) check"
    and "\<And>q. decode (enc q) (chat_zero_request q) = Inr q"
  shows "faithful (ChatError clientError) zero_message (cwi_Publish service sender req)
           (cwi_Publish (MessagingClient (Some call)) sender req) \<and>
         faithful (ChatError clientError) zero_message (cwi_PublishSystem service systemReq)
           (cwi_PublishSystem (MessagingClient (Some call)) systemReq) \<and>
         faithful (ChatError clientError) zero_ChatPage (cwi_History service viewer query)
           (cwi_History (MessagingClient (Some call)) viewer query) \<and>
         faithful (ChatError clientError) zero_ChatPage (cwi_Conversation service viewer peer afterSeq limit)
           (cwi_Conversation (MessagingClient (Some call)) viewer peer afterSeq limit) \<and>
         faithful (ChatError clientError) zero_ChatPage (cwi_Scrollback service viewer peer beforeSeq limit)
           (cwi_Scrollback (MessagingClient (Some call)) viewer peer beforeSeq limit)"
proof -
  note decoded =
    assms(3) [of "rpcPublishRequest sender req", simplified]
    assms(3) [of "rpcPublishSystemRequest systemReq", simplified]
    assms(3) [of "rpcHistoryRequest viewer query", simplified]
    assms(3) [of "rpcConversationRequest viewer peer afterSeq limit", simplified]
    assms(3) [of "rpcScrollbackRequest viewer peer beforeSeq limit", simplified]
  show ?thesis
    unfolding MessagingClient_def MessagingService.select_convs chat_clients
    by (intro conjI;
        (rule remote_faithful [OF assms(1,2)], simp add: chat_table,
         simp_all add: decoded chat_statusOf_def split: prod.split))
qed

end
