(* ===== verification/RpcGlobal.thy ===== *)
theory RpcGlobal
  imports Rpc Global
begin

text \<open>
  The transport of the global service (\<open>service/global/routing_rpc_gen.go\<close> and the assembly file beside it) over the
  interface of \<open>service/global/global_rpc.go\<close>: the wire types, the handler table, the bus client, the wrapper
  that is registered, and the server and client Mods. A wire struct is a constructor of one datatype of
  requests or of responses; a field has the same selector in every struct that has it.
\<close>

section \<open>The interface\<close>

record 'w RoutingService =
  gwi_Bind :: "int \<Rightarrow> string \<Rightarrow> int \<Rightarrow> ('w, RouteBinding) gofun"
  gwi_Resolve :: "int \<Rightarrow> ('w, RouteBinding) gofun"
  gwi_BeginMigration :: "int \<Rightarrow> int \<Rightarrow> int \<Rightarrow> ('w, RouteBinding) gofun"
  gwi_CompleteMigration :: "int \<Rightarrow> int \<Rightarrow> ('w, RouteBinding) gofun"
  gwi_AbortMigration :: "int \<Rightarrow> int \<Rightarrow> ('w, RouteBinding) gofun"
  gwi_AcquireLease :: "int \<Rightarrow> ('w, GameLease) gofun"
  gwi_RenewLease :: "int \<Rightarrow> string \<Rightarrow> ((string \<times> string) list) \<Rightarrow> ('w, GameLease) gofun"
  gwi_ReleaseLease :: "int \<Rightarrow> string \<Rightarrow> ('w, unit) gofun"
  gwi_Lease :: "int \<Rightarrow> ('w, GameLease \<times> bool) gofun"
  gwi_LiveGames :: "string \<Rightarrow> int list \<Rightarrow> int \<Rightarrow> ('w, GameLease list) gofun"

section \<open>Names\<close>

definition global_ServiceType :: string where "global_ServiceType = ''global''"
definition MethodBind :: string where "MethodBind = ''global.Bind''"
definition MethodResolve :: string where "MethodResolve = ''global.Resolve''"
definition MethodBeginMigration :: string where "MethodBeginMigration = ''global.BeginMigration''"
definition MethodCompleteMigration :: string where "MethodCompleteMigration = ''global.CompleteMigration''"
definition MethodAbortMigration :: string where "MethodAbortMigration = ''global.AbortMigration''"
definition MethodAcquireLease :: string where "MethodAcquireLease = ''global.AcquireLease''"
definition MethodRenewLease :: string where "MethodRenewLease = ''global.RenewLease''"
definition MethodReleaseLease :: string where "MethodReleaseLease = ''global.ReleaseLease''"
definition MethodLease :: string where "MethodLease = ''global.Lease''"
definition MethodLiveGames :: string where "MethodLiveGames = ''global.LiveGames''"

definition global_Methods :: "string list" where
  "global_Methods =
     [MethodBind, MethodResolve, MethodBeginMigration, MethodCompleteMigration, MethodAbortMigration,
      MethodAcquireLease, MethodRenewLease, MethodReleaseLease, MethodLease, MethodLiveGames]"

definition global_CapabilityName :: string where "global_CapabilityName = ''service.global''"
definition global_LocalCapabilityName :: string where "global_LocalCapabilityName = ''service.global.local''"

lemmas global_method_defs = MethodBind_def MethodResolve_def MethodBeginMigration_def MethodCompleteMigration_def MethodAbortMigration_def MethodAcquireLease_def MethodRenewLease_def MethodReleaseLease_def MethodLease_def MethodLiveGames_def

lemma global_methods_distinct: "distinct global_Methods"
  by (simp add: global_Methods_def global_method_defs)

section \<open>Zero values\<close>

abbreviation "ErrGlobalRequestInvalid \<equiv> Coded 570125"

section \<open>Wire types\<close>

datatype global_request =
    rpcBindRequest (gwq_gameSID: int) (gwq_groupID: string) (gwq_globalSID: int)
  | rpcResolveRequest (gwq_gameSID: int)
  | rpcBeginMigrationRequest (gwq_gameSID: int) (gwq_targetGlobalSID: int) (gwq_expectEpoch: int)
  | rpcCompleteMigrationRequest (gwq_gameSID: int) (gwq_expectEpoch: int)
  | rpcAbortMigrationRequest (gwq_gameSID: int) (gwq_expectEpoch: int)
  | rpcAcquireLeaseRequest (gwq_gameSID: int)
  | rpcRenewLeaseRequest (gwq_gameSID: int) (gwq_incarnation: string) (gwq_load: "(string \<times> string) list")
  | rpcReleaseLeaseRequest (gwq_gameSID: int) (gwq_incarnation: string)
  | rpcLeaseRequest (gwq_gameSID: int)
  | rpcLiveGamesRequest (gwq_groupID: string) (gwq_candidates: "int list") (gwq_limit: int)

datatype global_response =
    rpcBindResponse (gwr_status: rpcStatus) (gwr_binding: RouteBinding)
  | rpcResolveResponse (gwr_status: rpcStatus) (gwr_binding: RouteBinding)
  | rpcBeginMigrationResponse (gwr_status: rpcStatus) (gwr_binding: RouteBinding)
  | rpcCompleteMigrationResponse (gwr_status: rpcStatus) (gwr_binding: RouteBinding)
  | rpcAbortMigrationResponse (gwr_status: rpcStatus) (gwr_binding: RouteBinding)
  | rpcAcquireLeaseResponse (gwr_status: rpcStatus) (gwr_lease: GameLease)
  | rpcRenewLeaseResponse (gwr_status: rpcStatus) (gwr_lease: GameLease)
  | rpcReleaseLeaseResponse (gwr_status: rpcStatus)
  | rpcLeaseResponse (gwr_status: rpcStatus) (gwr_lease: GameLease) (gwr_found: bool)
  | rpcLiveGamesResponse (gwr_status: rpcStatus) (gwr_leases: "GameLease list")

definition global_statusOf :: "(gerr \<Rightarrow> int \<times> string) \<Rightarrow> gerr option \<Rightarrow> rpcStatus" where
  "global_statusOf clientError err = status_of (GlobalError clientError) err"

text \<open>The zero value of the struct a request is.\<close>

fun global_zero_request :: "global_request \<Rightarrow> global_request" where
  "global_zero_request (rpcBindRequest _ _ _) = rpcBindRequest 0 [] 0"
| "global_zero_request (rpcResolveRequest _) = rpcResolveRequest 0"
| "global_zero_request (rpcBeginMigrationRequest _ _ _) = rpcBeginMigrationRequest 0 0 0"
| "global_zero_request (rpcCompleteMigrationRequest _ _) = rpcCompleteMigrationRequest 0 0"
| "global_zero_request (rpcAbortMigrationRequest _ _) = rpcAbortMigrationRequest 0 0"
| "global_zero_request (rpcAcquireLeaseRequest _) = rpcAcquireLeaseRequest 0"
| "global_zero_request (rpcRenewLeaseRequest _ _ _) = rpcRenewLeaseRequest 0 [] []"
| "global_zero_request (rpcReleaseLeaseRequest _ _) = rpcReleaseLeaseRequest 0 []"
| "global_zero_request (rpcLeaseRequest _) = rpcLeaseRequest 0"
| "global_zero_request (rpcLiveGamesRequest _ _ _) = rpcLiveGamesRequest [] [] 0"

section \<open>The handler table\<close>

definition global_handlers ::
  "(gerr \<Rightarrow> int \<times> string) \<Rightarrow> ('p \<Rightarrow> global_request \<Rightarrow> gerr + global_request) \<Rightarrow> 'w RoutingService \<Rightarrow>
   (string \<times> ('p \<Rightarrow> 'w \<Rightarrow> global_response \<times> 'w)) list" where
  "global_handlers clientError decode service =
     (let statusOf = global_statusOf clientError;
          bad = statusOf (Some [ErrGlobalRequestInvalid]) in
     [
      (MethodBind, serve decode (rpcBindRequest 0 [] 0)
         (\<lambda>_. rpcBindResponse bad zero_binding)
         (\<lambda>wire. gwi_Bind service (gwq_gameSID wire) (gwq_groupID wire) (gwq_globalSID wire))
         (\<lambda>binding err. rpcBindResponse (statusOf err) binding)),
      (MethodResolve, serve decode (rpcResolveRequest 0)
         (\<lambda>_. rpcResolveResponse bad zero_binding)
         (\<lambda>wire. gwi_Resolve service (gwq_gameSID wire))
         (\<lambda>binding err. rpcResolveResponse (statusOf err) binding)),
      (MethodBeginMigration, serve decode (rpcBeginMigrationRequest 0 0 0)
         (\<lambda>_. rpcBeginMigrationResponse bad zero_binding)
         (\<lambda>wire. gwi_BeginMigration service (gwq_gameSID wire) (gwq_targetGlobalSID wire) (gwq_expectEpoch wire))
         (\<lambda>binding err. rpcBeginMigrationResponse (statusOf err) binding)),
      (MethodCompleteMigration, serve decode (rpcCompleteMigrationRequest 0 0)
         (\<lambda>_. rpcCompleteMigrationResponse bad zero_binding)
         (\<lambda>wire. gwi_CompleteMigration service (gwq_gameSID wire) (gwq_expectEpoch wire))
         (\<lambda>binding err. rpcCompleteMigrationResponse (statusOf err) binding)),
      (MethodAbortMigration, serve decode (rpcAbortMigrationRequest 0 0)
         (\<lambda>_. rpcAbortMigrationResponse bad zero_binding)
         (\<lambda>wire. gwi_AbortMigration service (gwq_gameSID wire) (gwq_expectEpoch wire))
         (\<lambda>binding err. rpcAbortMigrationResponse (statusOf err) binding)),
      (MethodAcquireLease, serve decode (rpcAcquireLeaseRequest 0)
         (\<lambda>_. rpcAcquireLeaseResponse bad zero_lease)
         (\<lambda>wire. gwi_AcquireLease service (gwq_gameSID wire))
         (\<lambda>lease err. rpcAcquireLeaseResponse (statusOf err) lease)),
      (MethodRenewLease, serve decode (rpcRenewLeaseRequest 0 [] [])
         (\<lambda>_. rpcRenewLeaseResponse bad zero_lease)
         (\<lambda>wire. gwi_RenewLease service (gwq_gameSID wire) (gwq_incarnation wire) (gwq_load wire))
         (\<lambda>lease err. rpcRenewLeaseResponse (statusOf err) lease)),
      (MethodReleaseLease, serve decode (rpcReleaseLeaseRequest 0 [])
         (\<lambda>_. rpcReleaseLeaseResponse bad)
         (\<lambda>wire. gwi_ReleaseLease service (gwq_gameSID wire) (gwq_incarnation wire))
         (\<lambda>_ err. rpcReleaseLeaseResponse (statusOf err))),
      (MethodLease, serve decode (rpcLeaseRequest 0)
         (\<lambda>_. rpcLeaseResponse bad zero_lease False)
         (\<lambda>wire. gwi_Lease service (gwq_gameSID wire))
         (\<lambda>(lease, found) err. rpcLeaseResponse (statusOf err) lease found)),
      (MethodLiveGames, serve decode (rpcLiveGamesRequest [] [] 0)
         (\<lambda>_. rpcLiveGamesResponse bad [])
         (\<lambda>wire. gwi_LiveGames service (gwq_groupID wire) (gwq_candidates wire) (gwq_limit wire))
         (\<lambda>leases err. rpcLiveGamesResponse (statusOf err) leases))])"

definition global_RegisterHandlers ::
  "(gerr \<Rightarrow> int \<times> string) \<Rightarrow> ('p \<Rightarrow> global_request \<Rightarrow> gerr + global_request) \<Rightarrow>
   ('b, 'p \<Rightarrow> 'w \<Rightarrow> global_response \<times> 'w) bus option \<Rightarrow> 'w RoutingService option \<Rightarrow> 'b \<Rightarrow> gerr option \<times> 'b" where
  "global_RegisterHandlers clientError decode = register_handlers (global_handlers clientError decode) global_Methods"

section \<open>The client\<close>

definition global_NewBusClient ::
  "('b \<Rightarrow> string \<Rightarrow> duration \<Rightarrow> 'opt list \<Rightarrow> ('w, global_request, global_response) call_checked) \<Rightarrow>
   'b option \<Rightarrow> string \<Rightarrow> duration \<Rightarrow> 'opt list \<Rightarrow> gerr + ('w, global_request, global_response) call_checked" where
  "global_NewBusClient = NewBusClient global_ServiceType []"

definition global_client_Bind ::
  "('w, global_request, global_response) call_checked option \<Rightarrow> int \<Rightarrow> string \<Rightarrow> int \<Rightarrow> ('w, RouteBinding) gofun" where
  "global_client_Bind rpc gameSID groupID globalSID =
     remote rpc None MethodBind (rpcBindRequest gameSID groupID globalSID)
       (rpcBindResponse zero_status zero_binding) gwr_binding"

definition global_client_Resolve ::
  "('w, global_request, global_response) call_checked option \<Rightarrow> int \<Rightarrow> ('w, RouteBinding) gofun" where
  "global_client_Resolve rpc gameSID =
     remote rpc None MethodResolve (rpcResolveRequest gameSID)
       (rpcResolveResponse zero_status zero_binding) gwr_binding"

definition global_client_BeginMigration ::
  "('w, global_request, global_response) call_checked option \<Rightarrow> int \<Rightarrow> int \<Rightarrow> int \<Rightarrow> ('w, RouteBinding) gofun" where
  "global_client_BeginMigration rpc gameSID targetGlobalSID expectEpoch =
     remote rpc None MethodBeginMigration (rpcBeginMigrationRequest gameSID targetGlobalSID expectEpoch)
       (rpcBeginMigrationResponse zero_status zero_binding) gwr_binding"

definition global_client_CompleteMigration ::
  "('w, global_request, global_response) call_checked option \<Rightarrow> int \<Rightarrow> int \<Rightarrow> ('w, RouteBinding) gofun" where
  "global_client_CompleteMigration rpc gameSID expectEpoch =
     remote rpc None MethodCompleteMigration (rpcCompleteMigrationRequest gameSID expectEpoch)
       (rpcCompleteMigrationResponse zero_status zero_binding) gwr_binding"

definition global_client_AbortMigration ::
  "('w, global_request, global_response) call_checked option \<Rightarrow> int \<Rightarrow> int \<Rightarrow> ('w, RouteBinding) gofun" where
  "global_client_AbortMigration rpc gameSID expectEpoch =
     remote rpc None MethodAbortMigration (rpcAbortMigrationRequest gameSID expectEpoch)
       (rpcAbortMigrationResponse zero_status zero_binding) gwr_binding"

definition global_client_AcquireLease ::
  "('w, global_request, global_response) call_checked option \<Rightarrow> int \<Rightarrow> ('w, GameLease) gofun" where
  "global_client_AcquireLease rpc gameSID =
     remote rpc None MethodAcquireLease (rpcAcquireLeaseRequest gameSID)
       (rpcAcquireLeaseResponse zero_status zero_lease) gwr_lease"

definition global_client_RenewLease ::
  "('w, global_request, global_response) call_checked option \<Rightarrow> int \<Rightarrow> string \<Rightarrow> ((string \<times> string) list) \<Rightarrow> ('w, GameLease) gofun" where
  "global_client_RenewLease rpc gameSID incarnation load =
     remote rpc None MethodRenewLease (rpcRenewLeaseRequest gameSID incarnation load)
       (rpcRenewLeaseResponse zero_status zero_lease) gwr_lease"

definition global_client_ReleaseLease ::
  "('w, global_request, global_response) call_checked option \<Rightarrow> int \<Rightarrow> string \<Rightarrow> ('w, unit) gofun" where
  "global_client_ReleaseLease rpc gameSID incarnation =
     remote rpc None MethodReleaseLease (rpcReleaseLeaseRequest gameSID incarnation)
       (rpcReleaseLeaseResponse zero_status) (\<lambda>_. ())"

definition global_client_Lease ::
  "('w, global_request, global_response) call_checked option \<Rightarrow> int \<Rightarrow> ('w, GameLease \<times> bool) gofun" where
  "global_client_Lease rpc gameSID =
     remote rpc None MethodLease (rpcLeaseRequest gameSID)
       (rpcLeaseResponse zero_status zero_lease False) (\<lambda>resp. (gwr_lease resp, gwr_found resp))"

definition global_client_LiveGames ::
  "('w, global_request, global_response) call_checked option \<Rightarrow> string \<Rightarrow> int list \<Rightarrow> int \<Rightarrow> ('w, GameLease list) gofun" where
  "global_client_LiveGames rpc groupID candidates limit =
     remote rpc None MethodLiveGames (rpcLiveGamesRequest groupID candidates limit)
       (rpcLiveGamesResponse zero_status []) gwr_leases"

definition RoutingClient :: "('w, global_request, global_response) call_checked option \<Rightarrow> 'w RoutingService" where
  "RoutingClient rpc =
     \<lparr>gwi_Bind = global_client_Bind rpc,
      gwi_Resolve = global_client_Resolve rpc,
      gwi_BeginMigration = global_client_BeginMigration rpc,
      gwi_CompleteMigration = global_client_CompleteMigration rpc,
      gwi_AbortMigration = global_client_AbortMigration rpc,
      gwi_AcquireLease = global_client_AcquireLease rpc,
      gwi_RenewLease = global_client_RenewLease rpc,
      gwi_ReleaseLease = global_client_ReleaseLease rpc,
      gwi_Lease = global_client_Lease rpc,
      gwi_LiveGames = global_client_LiveGames rpc\<rparr>"

text \<open>The wrapper that is registered forwards each method.\<close>

definition global_Capability :: "'w RoutingService \<Rightarrow> 'w RoutingService" where
  "global_Capability inner =
     \<lparr>gwi_Bind = (\<lambda>gameSID groupID globalSID. gwi_Bind inner gameSID groupID globalSID),
      gwi_Resolve = (\<lambda>gameSID. gwi_Resolve inner gameSID),
      gwi_BeginMigration = (\<lambda>gameSID targetGlobalSID expectEpoch. gwi_BeginMigration inner gameSID targetGlobalSID expectEpoch),
      gwi_CompleteMigration = (\<lambda>gameSID expectEpoch. gwi_CompleteMigration inner gameSID expectEpoch),
      gwi_AbortMigration = (\<lambda>gameSID expectEpoch. gwi_AbortMigration inner gameSID expectEpoch),
      gwi_AcquireLease = (\<lambda>gameSID. gwi_AcquireLease inner gameSID),
      gwi_RenewLease = (\<lambda>gameSID incarnation load. gwi_RenewLease inner gameSID incarnation load),
      gwi_ReleaseLease = (\<lambda>gameSID incarnation. gwi_ReleaseLease inner gameSID incarnation),
      gwi_Lease = (\<lambda>gameSID. gwi_Lease inner gameSID),
      gwi_LiveGames = (\<lambda>groupID candidates limit. gwi_LiveGames inner groupID candidates limit)\<rparr>"

lemma global_Capability_id [simp]: "global_Capability service = service"
  by (simp add: global_Capability_def)

text \<open>The implementation of the owning process.\<close>

definition global_service :: "('r, 'l) GlobalConfig \<Rightarrow> ('r, 'l) gworld RoutingService" where
  "global_service cfg =
     \<lparr>gwi_Bind = (\<lambda>gameSID groupID globalSID. both zero_binding (Bind cfg gameSID groupID globalSID)),
      gwi_Resolve = (\<lambda>gameSID. both zero_binding (Resolve cfg gameSID)),
      gwi_BeginMigration = (\<lambda>gameSID targetGlobalSID expectEpoch. both zero_binding (BeginMigration cfg gameSID targetGlobalSID expectEpoch)),
      gwi_CompleteMigration = (\<lambda>gameSID expectEpoch. both zero_binding (CompleteMigration cfg gameSID expectEpoch)),
      gwi_AbortMigration = (\<lambda>gameSID expectEpoch. both zero_binding (AbortMigration cfg gameSID expectEpoch)),
      gwi_AcquireLease = (\<lambda>gameSID. both zero_lease (AcquireLease cfg gameSID)),
      gwi_RenewLease = (\<lambda>gameSID incarnation load. both zero_lease (RenewLease cfg gameSID incarnation load)),
      gwi_ReleaseLease = (\<lambda>gameSID incarnation. both () (ReleaseLease cfg gameSID incarnation)),
      gwi_Lease = (\<lambda>gameSID. both_found zero_lease (Lease cfg gameSID)),
      gwi_LiveGames = (\<lambda>groupID candidates limit. both [] (LiveGames cfg groupID candidates limit))\<rparr>"

section \<open>The assembly half\<close>

definition global_OwnerCapabilities :: "('w RoutingService \<Rightarrow> 'c) \<Rightarrow> ('w RoutingService \<Rightarrow> 'c) \<Rightarrow> 'w RoutingService \<Rightarrow> 'c Capability list" where
  "global_OwnerCapabilities wrapped bare service =
     owner_capabilities global_CapabilityName global_LocalCapabilityName (\<lambda>s. wrapped (global_Capability s)) bare service"

definition global_ServerInit ::
  "(gerr \<Rightarrow> int \<times> string) \<Rightarrow> ('p \<Rightarrow> global_request \<Rightarrow> gerr + global_request) \<Rightarrow> 'w RoutingService option \<Rightarrow> bool \<Rightarrow>
   ('b, 'p \<Rightarrow> 'w \<Rightarrow> global_response \<times> 'w) bus option \<Rightarrow> 'b \<Rightarrow>
   (gerr + 'w RoutingService \<times> ('b, 'p \<Rightarrow> 'w \<Rightarrow> global_response \<times> 'w) bus) \<times> 'b" where
  "global_ServerInit clientError decode =
     server_init (\<lambda>b service. global_RegisterHandlers clientError decode (Some b) (Some service))"

definition global_ClientModInit :: "viper \<Rightarrow> gerr + string \<times> duration" where
  "global_ClientModInit = client_init ''global'' global_ServiceType"

definition global_ClientModProvide ::
  "('b \<Rightarrow> string \<Rightarrow> duration \<Rightarrow> 'opt list \<Rightarrow> ('w, global_request, global_response) call_checked) \<Rightarrow> 'opt list \<Rightarrow>
   ('w RoutingService \<Rightarrow> 'c) \<Rightarrow> 'b option \<Rightarrow> ('r, 'c) registry option \<Rightarrow> string \<times> duration \<Rightarrow> ('r, unit) handler" where
  "global_ClientModProvide newRpc opts wrapped =
     client_provide global_CapabilityName (\<lambda>c. wrapped (global_Capability c))
       (\<lambda>b serviceType timeout.
          case global_NewBusClient newRpc b serviceType timeout opts of
            Inl err \<Rightarrow> Inl err | Inr rpc \<Rightarrow> Inr (RoutingClient (Some rpc)))"

section \<open>The client is faithful\<close>

lemmas global_table = global_handlers_def global_method_defs Let_def

lemmas global_clients = global_client_Bind_def global_client_Resolve_def global_client_BeginMigration_def
  global_client_CompleteMigration_def global_client_AbortMigration_def global_client_AcquireLease_def
  global_client_RenewLease_def global_client_ReleaseLease_def global_client_Lease_def
  global_client_LiveGames_def

lemma global_entry:
  "map_of (global_handlers clientError decode service) m = Some h \<Longrightarrow> m \<in> set global_Methods"
  by (auto simp: global_handlers_def global_Methods_def Let_def split: if_splits)

text \<open>A registration that succeeds has published the whole table.\<close>

lemma global_registered:
  assumes "bus_contract on b"
    and "global_RegisterHandlers clientError decode (Some b) (Some service) s = (None, s')"
  shows "\<forall>m. on s' m = (if m \<in> set global_Methods then map_of (global_handlers clientError decode service) m else on s m)"
  by (rule register_handlers_ok(1) [OF assms(1) global_methods_distinct
        assms(2) [unfolded global_RegisterHandlers_def]])

text \<open>The bus client of the routing and lease service is faithful to the service.\<close>

theorem global_remote_faithful:
  assumes "rpc_contract enc check gwr_status (map_of (global_handlers clientError decode service)) call"
    and "check_contract (GlobalError clientError) check"
    and "\<And>q. decode (enc q) (global_zero_request q) = Inr q"
  shows "faithful (GlobalError clientError) zero_binding (gwi_Bind service gameSID groupID globalSID)
           (gwi_Bind (RoutingClient (Some call)) gameSID groupID globalSID) \<and>
         faithful (GlobalError clientError) zero_binding (gwi_Resolve service gameSID)
           (gwi_Resolve (RoutingClient (Some call)) gameSID) \<and>
         faithful (GlobalError clientError) zero_binding (gwi_BeginMigration service gameSID targetGlobalSID expectEpoch)
           (gwi_BeginMigration (RoutingClient (Some call)) gameSID targetGlobalSID expectEpoch) \<and>
         faithful (GlobalError clientError) zero_binding (gwi_CompleteMigration service gameSID expectEpoch)
           (gwi_CompleteMigration (RoutingClient (Some call)) gameSID expectEpoch) \<and>
         faithful (GlobalError clientError) zero_binding (gwi_AbortMigration service gameSID expectEpoch)
           (gwi_AbortMigration (RoutingClient (Some call)) gameSID expectEpoch) \<and>
         faithful (GlobalError clientError) zero_lease (gwi_AcquireLease service gameSID)
           (gwi_AcquireLease (RoutingClient (Some call)) gameSID) \<and>
         faithful (GlobalError clientError) zero_lease (gwi_RenewLease service gameSID incarnation load)
           (gwi_RenewLease (RoutingClient (Some call)) gameSID incarnation load) \<and>
         faithful (GlobalError clientError) () (gwi_ReleaseLease service gameSID incarnation)
           (gwi_ReleaseLease (RoutingClient (Some call)) gameSID incarnation) \<and>
         faithful (GlobalError clientError) (zero_lease, False) (gwi_Lease service gameSID)
           (gwi_Lease (RoutingClient (Some call)) gameSID) \<and>
         faithful (GlobalError clientError) [] (gwi_LiveGames service groupID candidates limit)
           (gwi_LiveGames (RoutingClient (Some call)) groupID candidates limit)"
proof -
  note decoded =
    assms(3) [of "rpcBindRequest gameSID groupID globalSID", simplified]
    assms(3) [of "rpcResolveRequest gameSID", simplified]
    assms(3) [of "rpcBeginMigrationRequest gameSID targetGlobalSID expectEpoch", simplified]
    assms(3) [of "rpcCompleteMigrationRequest gameSID expectEpoch", simplified]
    assms(3) [of "rpcAbortMigrationRequest gameSID expectEpoch", simplified]
    assms(3) [of "rpcAcquireLeaseRequest gameSID", simplified]
    assms(3) [of "rpcRenewLeaseRequest gameSID incarnation load", simplified]
    assms(3) [of "rpcReleaseLeaseRequest gameSID incarnation", simplified]
    assms(3) [of "rpcLeaseRequest gameSID", simplified]
    assms(3) [of "rpcLiveGamesRequest groupID candidates limit", simplified]
  show ?thesis
    unfolding RoutingClient_def RoutingService.select_convs global_clients
    by (intro conjI;
        (rule remote_faithful [OF assms(1,2)], simp add: global_table,
         simp_all add: decoded global_statusOf_def split: prod.split))
qed

end
