(* ===== verification/RpcPlatform.thy ===== *)
theory RpcPlatform
  imports Rpc Platform
begin

text \<open>
  The transport of the platform service (\<open>service/platform/platform_rpc_gen.go\<close> and the assembly file beside it) over the
  interface of \<open>service/platform/platform_rpc.go\<close>: the wire types, the handler table, the bus client, the wrapper
  that is registered, and the server and client Mods. A wire struct is a constructor of one datatype of
  requests or of responses; a field has the same selector in every struct that has it.
\<close>

section \<open>The interface\<close>

record 'w PlatformService =
  fwi_AuthSession :: "Credential \<Rightarrow> ('w, Session) gofun"
  fwi_HandleCallback :: "string \<Rightarrow> string \<Rightarrow> ('w, Receipt) gofun"
  fwi_Order :: "string \<Rightarrow> ('w, Order \<times> bool) gofun"

section \<open>Names\<close>

definition platform_ServiceType :: string where "platform_ServiceType = ''platform''"
definition MethodAuthSession :: string where "MethodAuthSession = ''platform.AuthSession''"
definition MethodHandleCallback :: string where "MethodHandleCallback = ''platform.HandleCallback''"
definition MethodOrder :: string where "MethodOrder = ''platform.Order''"

definition platform_Methods :: "string list" where
  "platform_Methods =
     [MethodAuthSession, MethodHandleCallback, MethodOrder]"

definition platform_CapabilityName :: string where "platform_CapabilityName = ''service.platform''"
definition platform_LocalCapabilityName :: string where "platform_LocalCapabilityName = ''service.platform.local''"

lemmas platform_method_defs = MethodAuthSession_def MethodHandleCallback_def MethodOrder_def

lemma platform_methods_distinct: "distinct platform_Methods"
  by (simp add: platform_Methods_def platform_method_defs)

section \<open>Zero values\<close>

definition zero_Credential :: Credential where
  "zero_Credential = \<lparr>cr_Channel = [], cr_OpenID = [], cr_Secret = []\<rparr>"

definition zero_Session :: Session where
  "zero_Session = \<lparr>ss_PlayerID = 0, ss_Channel = [], ss_Token = [], ss_ExpiresAtUnix = 0\<rparr>"

definition zero_Receipt :: Receipt where
  "zero_Receipt = \<lparr>rc_Order = zero_order, rc_Replayed = False, rc_Delivered = False\<rparr>"

section \<open>Wire types\<close>

datatype platform_request =
    rpcAuthSessionRequest (fwq_credential: Credential)
  | rpcHandleCallbackRequest (fwq_raw: string) (fwq_signature: string)
  | rpcOrderRequest (fwq_orderID: string)

datatype platform_response =
    rpcAuthSessionResponse (fwr_status: rpcStatus) (fwr_session: Session)
  | rpcHandleCallbackResponse (fwr_status: rpcStatus) (fwr_receipt: Receipt)
  | rpcOrderResponse (fwr_status: rpcStatus) (fwr_order: Order) (fwr_found: bool)

definition platform_statusOf :: "(gerr \<Rightarrow> int \<times> string) \<Rightarrow> gerr option \<Rightarrow> rpcStatus" where
  "platform_statusOf clientError err = status_of (PlatformError clientError) err"

text \<open>The zero value of the struct a request is.\<close>

fun platform_zero_request :: "platform_request \<Rightarrow> platform_request" where
  "platform_zero_request (rpcAuthSessionRequest _) = rpcAuthSessionRequest zero_Credential"
| "platform_zero_request (rpcHandleCallbackRequest _ _) = rpcHandleCallbackRequest [] []"
| "platform_zero_request (rpcOrderRequest _) = rpcOrderRequest []"

section \<open>The handler table\<close>

definition platform_handlers ::
  "(gerr \<Rightarrow> int \<times> string) \<Rightarrow> ('p \<Rightarrow> platform_request \<Rightarrow> gerr + platform_request) \<Rightarrow> 'w PlatformService \<Rightarrow>
   (string \<times> ('p \<Rightarrow> 'w \<Rightarrow> platform_response \<times> 'w)) list" where
  "platform_handlers clientError decode service =
     (let statusOf = platform_statusOf clientError;
          bad = statusOf (Some [ErrPlatRequestInvalid]) in
     [
      (MethodAuthSession, serve decode (rpcAuthSessionRequest zero_Credential)
         (\<lambda>_. rpcAuthSessionResponse bad zero_Session)
         (\<lambda>wire. fwi_AuthSession service (fwq_credential wire))
         (\<lambda>session err. rpcAuthSessionResponse (statusOf err) session)),
      (MethodHandleCallback, serve decode (rpcHandleCallbackRequest [] [])
         (\<lambda>_. rpcHandleCallbackResponse bad zero_Receipt)
         (\<lambda>wire. fwi_HandleCallback service (fwq_raw wire) (fwq_signature wire))
         (\<lambda>receipt err. rpcHandleCallbackResponse (statusOf err) receipt)),
      (MethodOrder, serve decode (rpcOrderRequest [])
         (\<lambda>_. rpcOrderResponse bad zero_order False)
         (\<lambda>wire. fwi_Order service (fwq_orderID wire))
         (\<lambda>(order, found) err. rpcOrderResponse (statusOf err) order found))])"

definition platform_RegisterHandlers ::
  "(gerr \<Rightarrow> int \<times> string) \<Rightarrow> ('p \<Rightarrow> platform_request \<Rightarrow> gerr + platform_request) \<Rightarrow>
   ('b, 'p \<Rightarrow> 'w \<Rightarrow> platform_response \<times> 'w) bus option \<Rightarrow> 'w PlatformService option \<Rightarrow> 'b \<Rightarrow> gerr option \<times> 'b" where
  "platform_RegisterHandlers clientError decode = register_handlers (platform_handlers clientError decode) platform_Methods"

section \<open>The client\<close>

definition platform_NewBusClient ::
  "('b \<Rightarrow> string \<Rightarrow> duration \<Rightarrow> 'opt list \<Rightarrow> ('w, platform_request, platform_response) call_checked) \<Rightarrow>
   'b option \<Rightarrow> string \<Rightarrow> duration \<Rightarrow> 'opt list \<Rightarrow> gerr + ('w, platform_request, platform_response) call_checked" where
  "platform_NewBusClient = NewBusClient platform_ServiceType []"

definition platform_client_AuthSession ::
  "('w, platform_request, platform_response) call_checked option \<Rightarrow> Credential \<Rightarrow> ('w, Session) gofun" where
  "platform_client_AuthSession rpc credential =
     remote rpc None MethodAuthSession (rpcAuthSessionRequest credential)
       (rpcAuthSessionResponse zero_status zero_Session) fwr_session"

definition platform_client_HandleCallback ::
  "('w, platform_request, platform_response) call_checked option \<Rightarrow> string \<Rightarrow> string \<Rightarrow> ('w, Receipt) gofun" where
  "platform_client_HandleCallback rpc raw signature =
     remote rpc None MethodHandleCallback (rpcHandleCallbackRequest raw signature)
       (rpcHandleCallbackResponse zero_status zero_Receipt) fwr_receipt"

definition platform_client_Order ::
  "('w, platform_request, platform_response) call_checked option \<Rightarrow> string \<Rightarrow> ('w, Order \<times> bool) gofun" where
  "platform_client_Order rpc orderID =
     remote rpc None MethodOrder (rpcOrderRequest orderID)
       (rpcOrderResponse zero_status zero_order False) (\<lambda>resp. (fwr_order resp, fwr_found resp))"

definition PlatformClient :: "('w, platform_request, platform_response) call_checked option \<Rightarrow> 'w PlatformService" where
  "PlatformClient rpc =
     \<lparr>fwi_AuthSession = platform_client_AuthSession rpc,
      fwi_HandleCallback = platform_client_HandleCallback rpc,
      fwi_Order = platform_client_Order rpc\<rparr>"

text \<open>The wrapper that is registered forwards each method.\<close>

definition platform_Capability :: "'w PlatformService \<Rightarrow> 'w PlatformService" where
  "platform_Capability inner =
     \<lparr>fwi_AuthSession = (\<lambda>credential. fwi_AuthSession inner credential),
      fwi_HandleCallback = (\<lambda>raw signature. fwi_HandleCallback inner raw signature),
      fwi_Order = (\<lambda>orderID. fwi_Order inner orderID)\<rparr>"

lemma platform_Capability_id [simp]: "platform_Capability service = service"
  by (simp add: platform_Capability_def)

text \<open>The implementation of the owning process.\<close>

definition platform_service :: "('x, 'o) PlatformConfig \<Rightarrow> ('x, 'o) pworld PlatformService" where
  "platform_service cfg =
     \<lparr>fwi_AuthSession = (\<lambda>credential. both zero_Session (AuthSession cfg credential)),
      fwi_HandleCallback = (\<lambda>raw signature. both_joint zero_Receipt (HandleCallback cfg raw signature)),
      fwi_Order = (\<lambda>orderID. both_found zero_order (LookupOrder cfg orderID))\<rparr>"

section \<open>The assembly half\<close>

definition platform_OwnerCapabilities :: "('w PlatformService \<Rightarrow> 'c) \<Rightarrow> ('w PlatformService \<Rightarrow> 'c) \<Rightarrow> 'w PlatformService \<Rightarrow> 'c Capability list" where
  "platform_OwnerCapabilities wrapped bare service =
     owner_capabilities platform_CapabilityName platform_LocalCapabilityName (\<lambda>s. wrapped (platform_Capability s)) bare service"

definition platform_ServerInit ::
  "(gerr \<Rightarrow> int \<times> string) \<Rightarrow> ('p \<Rightarrow> platform_request \<Rightarrow> gerr + platform_request) \<Rightarrow> 'w PlatformService option \<Rightarrow> bool \<Rightarrow>
   ('b, 'p \<Rightarrow> 'w \<Rightarrow> platform_response \<times> 'w) bus option \<Rightarrow> 'b \<Rightarrow>
   (gerr + 'w PlatformService \<times> ('b, 'p \<Rightarrow> 'w \<Rightarrow> platform_response \<times> 'w) bus) \<times> 'b" where
  "platform_ServerInit clientError decode =
     server_init (\<lambda>b service. platform_RegisterHandlers clientError decode (Some b) (Some service))"

definition platform_ClientModInit :: "viper \<Rightarrow> gerr + string \<times> duration" where
  "platform_ClientModInit = client_init ''platform'' platform_ServiceType"

definition platform_ClientModProvide ::
  "('b \<Rightarrow> string \<Rightarrow> duration \<Rightarrow> 'opt list \<Rightarrow> ('w, platform_request, platform_response) call_checked) \<Rightarrow> 'opt list \<Rightarrow>
   ('w PlatformService \<Rightarrow> 'c) \<Rightarrow> 'b option \<Rightarrow> ('r, 'c) registry option \<Rightarrow> string \<times> duration \<Rightarrow> ('r, unit) handler" where
  "platform_ClientModProvide newRpc opts wrapped =
     client_provide platform_CapabilityName (\<lambda>c. wrapped (platform_Capability c))
       (\<lambda>b serviceType timeout.
          case platform_NewBusClient newRpc b serviceType timeout opts of
            Inl err \<Rightarrow> Inl err | Inr rpc \<Rightarrow> Inr (PlatformClient (Some rpc)))"

section \<open>The client is faithful\<close>

lemmas platform_table = platform_handlers_def platform_method_defs Let_def

lemmas platform_clients = platform_client_AuthSession_def platform_client_HandleCallback_def
  platform_client_Order_def

lemma platform_entry:
  "map_of (platform_handlers clientError decode service) m = Some h \<Longrightarrow> m \<in> set platform_Methods"
  by (auto simp: platform_handlers_def platform_Methods_def Let_def split: if_splits)

text \<open>A registration that succeeds has published the whole table.\<close>

lemma platform_registered:
  assumes "bus_contract on b"
    and "platform_RegisterHandlers clientError decode (Some b) (Some service) s = (None, s')"
  shows "\<forall>m. on s' m = (if m \<in> set platform_Methods then map_of (platform_handlers clientError decode service) m else on s m)"
  by (rule register_handlers_ok(1) [OF assms(1) platform_methods_distinct
        assms(2) [unfolded platform_RegisterHandlers_def]])

text \<open>The bus client of the platform service is faithful to the service.\<close>

theorem platform_remote_faithful:
  assumes "rpc_contract enc check fwr_status (map_of (platform_handlers clientError decode service)) call"
    and "check_contract (PlatformError clientError) check"
    and "\<And>q. decode (enc q) (platform_zero_request q) = Inr q"
  shows "faithful (PlatformError clientError) zero_Session (fwi_AuthSession service credential)
           (fwi_AuthSession (PlatformClient (Some call)) credential) \<and>
         faithful (PlatformError clientError) zero_Receipt (fwi_HandleCallback service raw signature)
           (fwi_HandleCallback (PlatformClient (Some call)) raw signature) \<and>
         faithful (PlatformError clientError) (zero_order, False) (fwi_Order service orderID)
           (fwi_Order (PlatformClient (Some call)) orderID)"
proof -
  note decoded =
    assms(3) [of "rpcAuthSessionRequest credential", simplified]
    assms(3) [of "rpcHandleCallbackRequest raw signature", simplified]
    assms(3) [of "rpcOrderRequest orderID", simplified]
  show ?thesis
    unfolding PlatformClient_def PlatformService.select_convs platform_clients
    by (intro conjI;
        (rule remote_faithful [OF assms(1,2)], simp add: platform_table,
         simp_all add: decoded platform_statusOf_def split: prod.split))
qed

end
