(* ===== verification/RpcActivity.thy ===== *)
theory RpcActivity
  imports Rpc Activity
begin

text \<open>
  The transport of the activity service (\<open>service/global/activity/coordinator_rpc_gen.go\<close> and the assembly file beside it) over the
  interface of \<open>service/global/activity/activity_rpc.go\<close>: the wire types, the handler table, the bus client, the wrapper
  that is registered, and the server and client Mods. A wire struct is a constructor of one datatype of
  requests or of responses; a field has the same selector in every struct that has it.
\<close>

section \<open>The interface\<close>

record 'w CoordinatorService =
  nwi_OpenActivity :: "ActKey \<Rightarrow> int list \<Rightarrow> ('w, Activity) gofun"
  nwi_LookupActivity :: "ActKey \<Rightarrow> ('w, Activity \<times> bool) gofun"
  nwi_PendingActivities :: "string \<Rightarrow> int \<Rightarrow> ('w, ActKey list) gofun"
  nwi_NotifyPhase :: "ActKey \<Rightarrow> int \<Rightarrow> ('w, Activity) gofun"
  nwi_ApplyProgress :: "ActKey \<Rightarrow> string \<Rightarrow> string \<Rightarrow> ProgressDelta \<Rightarrow> ('w, Participant) gofun"
  nwi_LookupParticipant :: "ActKey \<Rightarrow> string \<Rightarrow> ('w, Participant \<times> bool) gofun"
  nwi_Reservation :: "ActKey \<Rightarrow> string \<Rightarrow> string \<Rightarrow> ('w, ProgressReservation \<times> bool) gofun"
  nwi_OwedDispatches :: "string \<Rightarrow> int \<Rightarrow> int \<Rightarrow> ('w, ActKey list) gofun"
  nwi_LookupDispatch :: "ActKey \<Rightarrow> int \<Rightarrow> ('w, Dispatch \<times> bool) gofun"
  nwi_AttemptDispatch :: "ActKey \<Rightarrow> int \<Rightarrow> ('w, Dispatch) gofun"
  nwi_AckDispatch :: "ActKey \<Rightarrow> int \<Rightarrow> string \<Rightarrow> ('w, Dispatch) gofun"

section \<open>Names\<close>

definition activity_ServiceType :: string where "activity_ServiceType = ''activity''"
definition MethodOpenActivity :: string where "MethodOpenActivity = ''activity.OpenActivity''"
definition MethodLookupActivity :: string where "MethodLookupActivity = ''activity.LookupActivity''"
definition MethodPendingActivities :: string where "MethodPendingActivities = ''activity.PendingActivities''"
definition MethodNotifyPhase :: string where "MethodNotifyPhase = ''activity.NotifyPhase''"
definition MethodApplyProgress :: string where "MethodApplyProgress = ''activity.ApplyProgress''"
definition MethodLookupParticipant :: string where "MethodLookupParticipant = ''activity.LookupParticipant''"
definition MethodReservation :: string where "MethodReservation = ''activity.Reservation''"
definition MethodOwedDispatches :: string where "MethodOwedDispatches = ''activity.OwedDispatches''"
definition MethodLookupDispatch :: string where "MethodLookupDispatch = ''activity.LookupDispatch''"
definition MethodAttemptDispatch :: string where "MethodAttemptDispatch = ''activity.AttemptDispatch''"
definition MethodAckDispatch :: string where "MethodAckDispatch = ''activity.AckDispatch''"

definition activity_Methods :: "string list" where
  "activity_Methods =
     [MethodOpenActivity, MethodLookupActivity, MethodPendingActivities, MethodNotifyPhase, MethodApplyProgress,
      MethodLookupParticipant, MethodReservation, MethodOwedDispatches, MethodLookupDispatch, MethodAttemptDispatch,
      MethodAckDispatch]"

definition activity_CapabilityName :: string where "activity_CapabilityName = ''service.global.activity''"
definition activity_LocalCapabilityName :: string where "activity_LocalCapabilityName = ''service.global.activity.local''"

lemmas activity_method_defs = MethodOpenActivity_def MethodLookupActivity_def MethodPendingActivities_def MethodNotifyPhase_def MethodApplyProgress_def MethodLookupParticipant_def MethodReservation_def MethodOwedDispatches_def MethodLookupDispatch_def MethodAttemptDispatch_def MethodAckDispatch_def

lemma activity_methods_distinct: "distinct activity_Methods"
  by (simp add: activity_Methods_def activity_method_defs)

section \<open>Zero values\<close>

definition zero_ActKey :: ActKey where
  "zero_ActKey = \<lparr>ak_GroupID = [], ak_ActivityID = [], ak_Phase = []\<rparr>"

definition zero_ProgressDelta :: ProgressDelta where
  "zero_ProgressDelta = \<lparr>pd_Score = 0, pd_Progress = 0\<rparr>"

definition zero_ProgressReservation :: ProgressReservation where
  "zero_ProgressReservation =
     \<lparr>pr_Key = \<lparr>rk_Activity = zero_ActKey, rk_ParticipantID = [], rk_RequestID = []\<rparr>, pr_Delta = zero_ProgressDelta,
      pr_State = ReservationReserved, pr_CreatedAtUnix = 0, pr_AppliedAtUnix = 0, pr_ExpiresAtUnix = 0\<rparr>"

section \<open>Wire types\<close>

datatype activity_request =
    rpcOpenActivityRequest (nwq_key: ActKey) (nwq_expectedGameSIDs: "int list")
  | rpcLookupActivityRequest (nwq_key: ActKey)
  | rpcPendingActivitiesRequest (nwq_groupID: string) (nwq_limit: int)
  | rpcNotifyPhaseRequest (nwq_key: ActKey) (nwq_gameSID: int)
  | rpcApplyProgressRequest (nwq_key: ActKey) (nwq_participantID: string) (nwq_requestID: string) (nwq_delta: ProgressDelta)
  | rpcLookupParticipantRequest (nwq_key: ActKey) (nwq_participantID: string)
  | rpcReservationRequest (nwq_key: ActKey) (nwq_participantID: string) (nwq_requestID: string)
  | rpcOwedDispatchesRequest (nwq_groupID: string) (nwq_gameSID: int) (nwq_limit: int)
  | rpcLookupDispatchRequest (nwq_key: ActKey) (nwq_gameSID: int)
  | rpcAttemptDispatchRequest (nwq_key: ActKey) (nwq_gameSID: int)
  | rpcAckDispatchRequest (nwq_key: ActKey) (nwq_gameSID: int) (nwq_token: string)

datatype activity_response =
    rpcOpenActivityResponse (nwr_status: rpcStatus) (nwr_activity: Activity)
  | rpcLookupActivityResponse (nwr_status: rpcStatus) (nwr_activity: Activity) (nwr_found: bool)
  | rpcPendingActivitiesResponse (nwr_status: rpcStatus) (nwr_keys: "ActKey list")
  | rpcNotifyPhaseResponse (nwr_status: rpcStatus) (nwr_activity: Activity)
  | rpcApplyProgressResponse (nwr_status: rpcStatus) (nwr_participant: Participant)
  | rpcLookupParticipantResponse (nwr_status: rpcStatus) (nwr_participant: Participant) (nwr_found: bool)
  | rpcReservationResponse (nwr_status: rpcStatus) (nwr_reservation: ProgressReservation) (nwr_found: bool)
  | rpcOwedDispatchesResponse (nwr_status: rpcStatus) (nwr_keys: "ActKey list")
  | rpcLookupDispatchResponse (nwr_status: rpcStatus) (nwr_dispatch: Dispatch) (nwr_found: bool)
  | rpcAttemptDispatchResponse (nwr_status: rpcStatus) (nwr_dispatch: Dispatch)
  | rpcAckDispatchResponse (nwr_status: rpcStatus) (nwr_dispatch: Dispatch)

definition activity_statusOf :: "(gerr \<Rightarrow> int \<times> string) \<Rightarrow> gerr option \<Rightarrow> rpcStatus" where
  "activity_statusOf clientError err = status_of (ActivityError clientError) err"

text \<open>The zero value of the struct a request is.\<close>

fun activity_zero_request :: "activity_request \<Rightarrow> activity_request" where
  "activity_zero_request (rpcOpenActivityRequest _ _) = rpcOpenActivityRequest zero_ActKey []"
| "activity_zero_request (rpcLookupActivityRequest _) = rpcLookupActivityRequest zero_ActKey"
| "activity_zero_request (rpcPendingActivitiesRequest _ _) = rpcPendingActivitiesRequest [] 0"
| "activity_zero_request (rpcNotifyPhaseRequest _ _) = rpcNotifyPhaseRequest zero_ActKey 0"
| "activity_zero_request (rpcApplyProgressRequest _ _ _ _) = rpcApplyProgressRequest zero_ActKey [] [] zero_ProgressDelta"
| "activity_zero_request (rpcLookupParticipantRequest _ _) = rpcLookupParticipantRequest zero_ActKey []"
| "activity_zero_request (rpcReservationRequest _ _ _) = rpcReservationRequest zero_ActKey [] []"
| "activity_zero_request (rpcOwedDispatchesRequest _ _ _) = rpcOwedDispatchesRequest [] 0 0"
| "activity_zero_request (rpcLookupDispatchRequest _ _) = rpcLookupDispatchRequest zero_ActKey 0"
| "activity_zero_request (rpcAttemptDispatchRequest _ _) = rpcAttemptDispatchRequest zero_ActKey 0"
| "activity_zero_request (rpcAckDispatchRequest _ _ _) = rpcAckDispatchRequest zero_ActKey 0 []"

section \<open>The handler table\<close>

definition activity_handlers ::
  "(gerr \<Rightarrow> int \<times> string) \<Rightarrow> ('p \<Rightarrow> activity_request \<Rightarrow> gerr + activity_request) \<Rightarrow> 'w CoordinatorService \<Rightarrow>
   (string \<times> ('p \<Rightarrow> 'w \<Rightarrow> activity_response \<times> 'w)) list" where
  "activity_handlers clientError decode service =
     (let statusOf = activity_statusOf clientError;
          bad = statusOf (Some [ErrRequestInvalid]) in
     [
      (MethodOpenActivity, serve decode (rpcOpenActivityRequest zero_ActKey [])
         (\<lambda>_. rpcOpenActivityResponse bad zero_activity)
         (\<lambda>wire. nwi_OpenActivity service (nwq_key wire) (nwq_expectedGameSIDs wire))
         (\<lambda>activity err. rpcOpenActivityResponse (statusOf err) activity)),
      (MethodLookupActivity, serve decode (rpcLookupActivityRequest zero_ActKey)
         (\<lambda>_. rpcLookupActivityResponse bad zero_activity False)
         (\<lambda>wire. nwi_LookupActivity service (nwq_key wire))
         (\<lambda>(activity, found) err. rpcLookupActivityResponse (statusOf err) activity found)),
      (MethodPendingActivities, serve decode (rpcPendingActivitiesRequest [] 0)
         (\<lambda>_. rpcPendingActivitiesResponse bad [])
         (\<lambda>wire. nwi_PendingActivities service (nwq_groupID wire) (nwq_limit wire))
         (\<lambda>keys err. rpcPendingActivitiesResponse (statusOf err) keys)),
      (MethodNotifyPhase, serve decode (rpcNotifyPhaseRequest zero_ActKey 0)
         (\<lambda>_. rpcNotifyPhaseResponse bad zero_activity)
         (\<lambda>wire. nwi_NotifyPhase service (nwq_key wire) (nwq_gameSID wire))
         (\<lambda>activity err. rpcNotifyPhaseResponse (statusOf err) activity)),
      (MethodApplyProgress, serve decode (rpcApplyProgressRequest zero_ActKey [] [] zero_ProgressDelta)
         (\<lambda>_. rpcApplyProgressResponse bad zero_participant)
         (\<lambda>wire. nwi_ApplyProgress service (nwq_key wire) (nwq_participantID wire) (nwq_requestID wire) (nwq_delta wire))
         (\<lambda>participant err. rpcApplyProgressResponse (statusOf err) participant)),
      (MethodLookupParticipant, serve decode (rpcLookupParticipantRequest zero_ActKey [])
         (\<lambda>_. rpcLookupParticipantResponse bad zero_participant False)
         (\<lambda>wire. nwi_LookupParticipant service (nwq_key wire) (nwq_participantID wire))
         (\<lambda>(participant, found) err. rpcLookupParticipantResponse (statusOf err) participant found)),
      (MethodReservation, serve decode (rpcReservationRequest zero_ActKey [] [])
         (\<lambda>_. rpcReservationResponse bad zero_ProgressReservation False)
         (\<lambda>wire. nwi_Reservation service (nwq_key wire) (nwq_participantID wire) (nwq_requestID wire))
         (\<lambda>(reservation, found) err. rpcReservationResponse (statusOf err) reservation found)),
      (MethodOwedDispatches, serve decode (rpcOwedDispatchesRequest [] 0 0)
         (\<lambda>_. rpcOwedDispatchesResponse bad [])
         (\<lambda>wire. nwi_OwedDispatches service (nwq_groupID wire) (nwq_gameSID wire) (nwq_limit wire))
         (\<lambda>keys err. rpcOwedDispatchesResponse (statusOf err) keys)),
      (MethodLookupDispatch, serve decode (rpcLookupDispatchRequest zero_ActKey 0)
         (\<lambda>_. rpcLookupDispatchResponse bad zero_dispatch False)
         (\<lambda>wire. nwi_LookupDispatch service (nwq_key wire) (nwq_gameSID wire))
         (\<lambda>(dispatch, found) err. rpcLookupDispatchResponse (statusOf err) dispatch found)),
      (MethodAttemptDispatch, serve decode (rpcAttemptDispatchRequest zero_ActKey 0)
         (\<lambda>_. rpcAttemptDispatchResponse bad zero_dispatch)
         (\<lambda>wire. nwi_AttemptDispatch service (nwq_key wire) (nwq_gameSID wire))
         (\<lambda>dispatch err. rpcAttemptDispatchResponse (statusOf err) dispatch)),
      (MethodAckDispatch, serve decode (rpcAckDispatchRequest zero_ActKey 0 [])
         (\<lambda>_. rpcAckDispatchResponse bad zero_dispatch)
         (\<lambda>wire. nwi_AckDispatch service (nwq_key wire) (nwq_gameSID wire) (nwq_token wire))
         (\<lambda>dispatch err. rpcAckDispatchResponse (statusOf err) dispatch))])"

definition activity_RegisterHandlers ::
  "(gerr \<Rightarrow> int \<times> string) \<Rightarrow> ('p \<Rightarrow> activity_request \<Rightarrow> gerr + activity_request) \<Rightarrow>
   ('b, 'p \<Rightarrow> 'w \<Rightarrow> activity_response \<times> 'w) bus option \<Rightarrow> 'w CoordinatorService option \<Rightarrow> 'b \<Rightarrow> gerr option \<times> 'b" where
  "activity_RegisterHandlers clientError decode = register_handlers (activity_handlers clientError decode) activity_Methods"

section \<open>The client\<close>

definition activity_NewBusClient ::
  "'opt \<Rightarrow> ('b \<Rightarrow> string \<Rightarrow> duration \<Rightarrow> 'opt list \<Rightarrow> ('w, activity_request, activity_response) call_checked) \<Rightarrow>
   'b option \<Rightarrow> string \<Rightarrow> duration \<Rightarrow> 'opt list \<Rightarrow> gerr + ('w, activity_request, activity_response) call_checked" where
  "activity_NewBusClient withKeyAffinity = NewBusClient activity_ServiceType [withKeyAffinity]"

definition activity_client_OpenActivity ::
  "('w, activity_request, activity_response) call_checked option \<Rightarrow> ActKey \<Rightarrow> int list \<Rightarrow> ('w, Activity) gofun" where
  "activity_client_OpenActivity rpc key expectedGameSIDs =
     remote rpc (Some (Key_Group key)) MethodOpenActivity (rpcOpenActivityRequest key expectedGameSIDs)
       (rpcOpenActivityResponse zero_status zero_activity) nwr_activity"

definition activity_client_LookupActivity ::
  "('w, activity_request, activity_response) call_checked option \<Rightarrow> ActKey \<Rightarrow> ('w, Activity \<times> bool) gofun" where
  "activity_client_LookupActivity rpc key =
     remote rpc (Some (Key_Group key)) MethodLookupActivity (rpcLookupActivityRequest key)
       (rpcLookupActivityResponse zero_status zero_activity False) (\<lambda>resp. (nwr_activity resp, nwr_found resp))"

definition activity_client_PendingActivities ::
  "('w, activity_request, activity_response) call_checked option \<Rightarrow> string \<Rightarrow> int \<Rightarrow> ('w, ActKey list) gofun" where
  "activity_client_PendingActivities rpc groupID limit =
     remote rpc (Some groupID) MethodPendingActivities (rpcPendingActivitiesRequest groupID limit)
       (rpcPendingActivitiesResponse zero_status []) nwr_keys"

definition activity_client_NotifyPhase ::
  "('w, activity_request, activity_response) call_checked option \<Rightarrow> ActKey \<Rightarrow> int \<Rightarrow> ('w, Activity) gofun" where
  "activity_client_NotifyPhase rpc key gameSID =
     remote rpc (Some (Key_Group key)) MethodNotifyPhase (rpcNotifyPhaseRequest key gameSID)
       (rpcNotifyPhaseResponse zero_status zero_activity) nwr_activity"

definition activity_client_ApplyProgress ::
  "('w, activity_request, activity_response) call_checked option \<Rightarrow> ActKey \<Rightarrow> string \<Rightarrow> string \<Rightarrow> ProgressDelta \<Rightarrow> ('w, Participant) gofun" where
  "activity_client_ApplyProgress rpc key participantID requestID delta =
     remote rpc (Some (Key_Group key)) MethodApplyProgress (rpcApplyProgressRequest key participantID requestID delta)
       (rpcApplyProgressResponse zero_status zero_participant) nwr_participant"

definition activity_client_LookupParticipant ::
  "('w, activity_request, activity_response) call_checked option \<Rightarrow> ActKey \<Rightarrow> string \<Rightarrow> ('w, Participant \<times> bool) gofun" where
  "activity_client_LookupParticipant rpc key participantID =
     remote rpc (Some (Key_Group key)) MethodLookupParticipant (rpcLookupParticipantRequest key participantID)
       (rpcLookupParticipantResponse zero_status zero_participant False) (\<lambda>resp. (nwr_participant resp, nwr_found resp))"

definition activity_client_Reservation ::
  "('w, activity_request, activity_response) call_checked option \<Rightarrow> ActKey \<Rightarrow> string \<Rightarrow> string \<Rightarrow> ('w, ProgressReservation \<times> bool) gofun" where
  "activity_client_Reservation rpc key participantID requestID =
     remote rpc (Some (Key_Group key)) MethodReservation (rpcReservationRequest key participantID requestID)
       (rpcReservationResponse zero_status zero_ProgressReservation False) (\<lambda>resp. (nwr_reservation resp, nwr_found resp))"

definition activity_client_OwedDispatches ::
  "('w, activity_request, activity_response) call_checked option \<Rightarrow> string \<Rightarrow> int \<Rightarrow> int \<Rightarrow> ('w, ActKey list) gofun" where
  "activity_client_OwedDispatches rpc groupID gameSID limit =
     remote rpc (Some groupID) MethodOwedDispatches (rpcOwedDispatchesRequest groupID gameSID limit)
       (rpcOwedDispatchesResponse zero_status []) nwr_keys"

definition activity_client_LookupDispatch ::
  "('w, activity_request, activity_response) call_checked option \<Rightarrow> ActKey \<Rightarrow> int \<Rightarrow> ('w, Dispatch \<times> bool) gofun" where
  "activity_client_LookupDispatch rpc key gameSID =
     remote rpc (Some (Key_Group key)) MethodLookupDispatch (rpcLookupDispatchRequest key gameSID)
       (rpcLookupDispatchResponse zero_status zero_dispatch False) (\<lambda>resp. (nwr_dispatch resp, nwr_found resp))"

definition activity_client_AttemptDispatch ::
  "('w, activity_request, activity_response) call_checked option \<Rightarrow> ActKey \<Rightarrow> int \<Rightarrow> ('w, Dispatch) gofun" where
  "activity_client_AttemptDispatch rpc key gameSID =
     remote rpc (Some (Key_Group key)) MethodAttemptDispatch (rpcAttemptDispatchRequest key gameSID)
       (rpcAttemptDispatchResponse zero_status zero_dispatch) nwr_dispatch"

definition activity_client_AckDispatch ::
  "('w, activity_request, activity_response) call_checked option \<Rightarrow> ActKey \<Rightarrow> int \<Rightarrow> string \<Rightarrow> ('w, Dispatch) gofun" where
  "activity_client_AckDispatch rpc key gameSID token =
     remote rpc (Some (Key_Group key)) MethodAckDispatch (rpcAckDispatchRequest key gameSID token)
       (rpcAckDispatchResponse zero_status zero_dispatch) nwr_dispatch"

definition CoordinatorClient :: "('w, activity_request, activity_response) call_checked option \<Rightarrow> 'w CoordinatorService" where
  "CoordinatorClient rpc =
     \<lparr>nwi_OpenActivity = activity_client_OpenActivity rpc,
      nwi_LookupActivity = activity_client_LookupActivity rpc,
      nwi_PendingActivities = activity_client_PendingActivities rpc,
      nwi_NotifyPhase = activity_client_NotifyPhase rpc,
      nwi_ApplyProgress = activity_client_ApplyProgress rpc,
      nwi_LookupParticipant = activity_client_LookupParticipant rpc,
      nwi_Reservation = activity_client_Reservation rpc,
      nwi_OwedDispatches = activity_client_OwedDispatches rpc,
      nwi_LookupDispatch = activity_client_LookupDispatch rpc,
      nwi_AttemptDispatch = activity_client_AttemptDispatch rpc,
      nwi_AckDispatch = activity_client_AckDispatch rpc\<rparr>"

text \<open>The wrapper that is registered forwards each method.\<close>

definition activity_Capability :: "'w CoordinatorService \<Rightarrow> 'w CoordinatorService" where
  "activity_Capability inner =
     \<lparr>nwi_OpenActivity = (\<lambda>key expectedGameSIDs. nwi_OpenActivity inner key expectedGameSIDs),
      nwi_LookupActivity = (\<lambda>key. nwi_LookupActivity inner key),
      nwi_PendingActivities = (\<lambda>groupID limit. nwi_PendingActivities inner groupID limit),
      nwi_NotifyPhase = (\<lambda>key gameSID. nwi_NotifyPhase inner key gameSID),
      nwi_ApplyProgress = (\<lambda>key participantID requestID delta. nwi_ApplyProgress inner key participantID requestID delta),
      nwi_LookupParticipant = (\<lambda>key participantID. nwi_LookupParticipant inner key participantID),
      nwi_Reservation = (\<lambda>key participantID requestID. nwi_Reservation inner key participantID requestID),
      nwi_OwedDispatches = (\<lambda>groupID gameSID limit. nwi_OwedDispatches inner groupID gameSID limit),
      nwi_LookupDispatch = (\<lambda>key gameSID. nwi_LookupDispatch inner key gameSID),
      nwi_AttemptDispatch = (\<lambda>key gameSID. nwi_AttemptDispatch inner key gameSID),
      nwi_AckDispatch = (\<lambda>key gameSID token. nwi_AckDispatch inner key gameSID token)\<rparr>"

lemma activity_Capability_id [simp]: "activity_Capability service = service"
  by (simp add: activity_Capability_def)

text \<open>The implementation of the owning process.\<close>

definition activity_service :: "('a, 'p, 'l, 'u, 'd, 'n) ActivityConfig \<Rightarrow> ('a, 'p, 'l, 'u, 'd, 'n) aworld CoordinatorService" where
  "activity_service cfg =
     \<lparr>nwi_OpenActivity = (\<lambda>key expectedGameSIDs. both zero_activity (OpenActivity cfg key expectedGameSIDs)),
      nwi_LookupActivity = (\<lambda>key. both_found zero_activity (LookupActivity cfg key)),
      nwi_PendingActivities = (\<lambda>groupID limit. both [] (PendingActivities cfg groupID limit)),
      nwi_NotifyPhase = (\<lambda>key gameSID. both_joint zero_activity (NotifyPhase cfg key gameSID)),
      nwi_ApplyProgress = (\<lambda>key participantID requestID delta. both_joint zero_participant (ApplyProgress cfg key participantID requestID delta)),
      nwi_LookupParticipant = (\<lambda>key participantID. both_found zero_participant (LookupParticipant cfg key participantID)),
      nwi_Reservation = (\<lambda>key participantID requestID. both_found zero_ProgressReservation (Reservation cfg key participantID requestID)),
      nwi_OwedDispatches = (\<lambda>groupID gameSID limit. both [] (OwedDispatches cfg groupID gameSID limit)),
      nwi_LookupDispatch = (\<lambda>key gameSID. both_found zero_dispatch (LookupDispatch cfg key gameSID)),
      nwi_AttemptDispatch = (\<lambda>key gameSID. both_joint zero_dispatch (AttemptDispatch cfg key gameSID)),
      nwi_AckDispatch = (\<lambda>key gameSID token. both zero_dispatch (AckDispatch cfg key gameSID token))\<rparr>"

section \<open>The assembly half\<close>

definition activity_OwnerCapabilities :: "('w CoordinatorService \<Rightarrow> 'c) \<Rightarrow> ('w CoordinatorService \<Rightarrow> 'c) \<Rightarrow> 'w CoordinatorService \<Rightarrow> 'c Capability list" where
  "activity_OwnerCapabilities wrapped bare service =
     owner_capabilities activity_CapabilityName activity_LocalCapabilityName (\<lambda>s. wrapped (activity_Capability s)) bare service"

definition activity_ServerInit ::
  "(gerr \<Rightarrow> int \<times> string) \<Rightarrow> ('p \<Rightarrow> activity_request \<Rightarrow> gerr + activity_request) \<Rightarrow> 'w CoordinatorService option \<Rightarrow> bool \<Rightarrow>
   ('b, 'p \<Rightarrow> 'w \<Rightarrow> activity_response \<times> 'w) bus option \<Rightarrow> 'b \<Rightarrow>
   (gerr + 'w CoordinatorService \<times> ('b, 'p \<Rightarrow> 'w \<Rightarrow> activity_response \<times> 'w) bus) \<times> 'b" where
  "activity_ServerInit clientError decode =
     server_init (\<lambda>b service. activity_RegisterHandlers clientError decode (Some b) (Some service))"

definition activity_ClientModInit :: "viper \<Rightarrow> gerr + string \<times> duration" where
  "activity_ClientModInit = client_init ''activity'' activity_ServiceType"

definition activity_ClientModProvide ::
  "'opt \<Rightarrow> ('b \<Rightarrow> string \<Rightarrow> duration \<Rightarrow> 'opt list \<Rightarrow> ('w, activity_request, activity_response) call_checked) \<Rightarrow> 'opt list \<Rightarrow>
   ('w CoordinatorService \<Rightarrow> 'c) \<Rightarrow> 'b option \<Rightarrow> ('r, 'c) registry option \<Rightarrow> string \<times> duration \<Rightarrow> ('r, unit) handler" where
  "activity_ClientModProvide withKeyAffinity newRpc opts wrapped =
     client_provide activity_CapabilityName (\<lambda>c. wrapped (activity_Capability c))
       (\<lambda>b serviceType timeout.
          case activity_NewBusClient withKeyAffinity newRpc b serviceType timeout opts of
            Inl err \<Rightarrow> Inl err | Inr rpc \<Rightarrow> Inr (CoordinatorClient (Some rpc)))"

section \<open>The client is faithful\<close>

lemmas activity_table = activity_handlers_def activity_method_defs Let_def

lemmas activity_clients = activity_client_OpenActivity_def activity_client_LookupActivity_def
  activity_client_PendingActivities_def activity_client_NotifyPhase_def activity_client_ApplyProgress_def
  activity_client_LookupParticipant_def activity_client_Reservation_def activity_client_OwedDispatches_def
  activity_client_LookupDispatch_def activity_client_AttemptDispatch_def activity_client_AckDispatch_def

lemma activity_entry:
  "map_of (activity_handlers clientError decode service) m = Some h \<Longrightarrow> m \<in> set activity_Methods"
  by (auto simp: activity_handlers_def activity_Methods_def Let_def split: if_splits)

text \<open>A registration that succeeds has published the whole table.\<close>

lemma activity_registered:
  assumes "bus_contract on b"
    and "activity_RegisterHandlers clientError decode (Some b) (Some service) s = (None, s')"
  shows "\<forall>m. on s' m = (if m \<in> set activity_Methods then map_of (activity_handlers clientError decode service) m else on s m)"
  by (rule register_handlers_ok(1) [OF assms(1) activity_methods_distinct
        assms(2) [unfolded activity_RegisterHandlers_def]])

text \<open>C10: A game server that coordinates activities over the bus sees what one beside the service sees. Each of
  the eleven methods of the bus client, over any transport that keeps the documented contract and any
  payload encoding that decodes what it encoded, answers the value of the local method, leaves the world
  the local method leaves, and carries an error exactly when the local method does, with the same code and
  reason; or the bus failed, which is an error with the zero value after the method ran once or not at all.\<close>

theorem activity_remote_faithful:
  assumes "rpc_contract enc check nwr_status (map_of (activity_handlers clientError decode service)) call"
    and "check_contract (ActivityError clientError) check"
    and "\<And>q. decode (enc q) (activity_zero_request q) = Inr q"
  shows "faithful (ActivityError clientError) zero_activity (nwi_OpenActivity service key expectedGameSIDs)
           (nwi_OpenActivity (CoordinatorClient (Some call)) key expectedGameSIDs) \<and>
         faithful (ActivityError clientError) (zero_activity, False) (nwi_LookupActivity service key)
           (nwi_LookupActivity (CoordinatorClient (Some call)) key) \<and>
         faithful (ActivityError clientError) [] (nwi_PendingActivities service groupID limit)
           (nwi_PendingActivities (CoordinatorClient (Some call)) groupID limit) \<and>
         faithful (ActivityError clientError) zero_activity (nwi_NotifyPhase service key gameSID)
           (nwi_NotifyPhase (CoordinatorClient (Some call)) key gameSID) \<and>
         faithful (ActivityError clientError) zero_participant (nwi_ApplyProgress service key participantID requestID delta)
           (nwi_ApplyProgress (CoordinatorClient (Some call)) key participantID requestID delta) \<and>
         faithful (ActivityError clientError) (zero_participant, False) (nwi_LookupParticipant service key participantID)
           (nwi_LookupParticipant (CoordinatorClient (Some call)) key participantID) \<and>
         faithful (ActivityError clientError) (zero_ProgressReservation, False) (nwi_Reservation service key participantID requestID)
           (nwi_Reservation (CoordinatorClient (Some call)) key participantID requestID) \<and>
         faithful (ActivityError clientError) [] (nwi_OwedDispatches service groupID gameSID limit)
           (nwi_OwedDispatches (CoordinatorClient (Some call)) groupID gameSID limit) \<and>
         faithful (ActivityError clientError) (zero_dispatch, False) (nwi_LookupDispatch service key gameSID)
           (nwi_LookupDispatch (CoordinatorClient (Some call)) key gameSID) \<and>
         faithful (ActivityError clientError) zero_dispatch (nwi_AttemptDispatch service key gameSID)
           (nwi_AttemptDispatch (CoordinatorClient (Some call)) key gameSID) \<and>
         faithful (ActivityError clientError) zero_dispatch (nwi_AckDispatch service key gameSID token)
           (nwi_AckDispatch (CoordinatorClient (Some call)) key gameSID token)"
proof -
  note decoded =
    assms(3) [of "rpcOpenActivityRequest key expectedGameSIDs", simplified]
    assms(3) [of "rpcLookupActivityRequest key", simplified]
    assms(3) [of "rpcPendingActivitiesRequest groupID limit", simplified]
    assms(3) [of "rpcNotifyPhaseRequest key gameSID", simplified]
    assms(3) [of "rpcApplyProgressRequest key participantID requestID delta", simplified]
    assms(3) [of "rpcLookupParticipantRequest key participantID", simplified]
    assms(3) [of "rpcReservationRequest key participantID requestID", simplified]
    assms(3) [of "rpcOwedDispatchesRequest groupID gameSID limit", simplified]
    assms(3) [of "rpcLookupDispatchRequest key gameSID", simplified]
    assms(3) [of "rpcAttemptDispatchRequest key gameSID", simplified]
    assms(3) [of "rpcAckDispatchRequest key gameSID token", simplified]
  note clients = CoordinatorClient_def CoordinatorService.select_convs activity_clients
  show ?thesis
    unfolding clients
    by (intro conjI;
        (rule remote_faithful [OF assms(1,2)], simp add: activity_table,
         simp_all add: decoded activity_statusOf_def split: prod.split))
qed

text \<open>The client of a local transport, over a service that refuses every acknowledgement.\<close>

definition ex_coordinator :: "nat CoordinatorService" where
  "ex_coordinator = CoordinatorClient None\<lparr>nwi_AckDispatch := (\<lambda>_ _ _ w. ((zero_dispatch, Some [ErrDispatchToken]), Suc w))\<rparr>"

lemma activity_remote_faithful_witness:
  "faithful (ActivityError code_error) zero_dispatch (\<lambda>w. ((zero_dispatch, Some [ErrDispatchToken]), Suc w))
     (nwi_AckDispatch (CoordinatorClient (Some (local_call (\<lambda>q. q) code_check nwr_status
        (map_of (activity_handlers code_error (\<lambda>p z. Inr p) ex_coordinator))))) zero_ActKey 1 ''t'')"
proof -
  have "check_contract (ActivityError code_error) code_check"
    by (rule code_check_contract) (simp_all add: ActivityError_def code_error_nonzero)
  note faithful_client = activity_remote_faithful [OF local_call_contract this,
      where service = ex_coordinator and decode = "\<lambda>p z. Inr p" and enc = "\<lambda>q. q"]
  have "faithful (ActivityError code_error) zero_dispatch (nwi_AckDispatch ex_coordinator zero_ActKey 1 ''t'')
     (nwi_AckDispatch (CoordinatorClient (Some (local_call (\<lambda>q. q) code_check nwr_status
        (map_of (activity_handlers code_error (\<lambda>p z. Inr p) ex_coordinator))))) zero_ActKey 1 ''t'')"
    using faithful_client by simp
  then show ?thesis by (simp add: ex_coordinator_def)
qed

text \<open>
  Every call about one group travels with the group as its affinity key: clients whose transports agree on
  the calls that carry the key are the same client for the group.
\<close>

lemma activity_routes_by_group:
  assumes "\<And>m q resp w. call (Some g) m q resp w = call' (Some g) m q resp w" and "ak_GroupID key = g"
  shows "nwi_OpenActivity (CoordinatorClient (Some call)) key = nwi_OpenActivity (CoordinatorClient (Some call')) key"
    and "nwi_NotifyPhase (CoordinatorClient (Some call)) key = nwi_NotifyPhase (CoordinatorClient (Some call')) key"
    and "nwi_ApplyProgress (CoordinatorClient (Some call)) key = nwi_ApplyProgress (CoordinatorClient (Some call')) key"
    and "nwi_AttemptDispatch (CoordinatorClient (Some call)) key = nwi_AttemptDispatch (CoordinatorClient (Some call')) key"
    and "nwi_AckDispatch (CoordinatorClient (Some call)) key = nwi_AckDispatch (CoordinatorClient (Some call')) key"
    and "nwi_PendingActivities (CoordinatorClient (Some call)) g = nwi_PendingActivities (CoordinatorClient (Some call')) g"
    and "nwi_OwedDispatches (CoordinatorClient (Some call)) g = nwi_OwedDispatches (CoordinatorClient (Some call')) g"
  using assms
  by (simp_all add: CoordinatorClient_def activity_clients remote_def client_call_def Key_Group_def fun_eq_iff)

end
