(* ===== verification/RedisStores.thy ===== *)
theory RedisStores
  imports Platform Account Activity Chat Global Rank RankBoards
begin

text \<open>
  The stores over Redis (the \<open>redis_store.go\<close> of each service): under which prefix a service keeps which
  records, how a key is rendered, which store expires, and what the constructors refuse.

  \<open>versionstore.NewRedisStore\<close> is not part of the repository: an \<open>opener\<close> is a parameter that makes a
  store from its configuration, or refuses. \<open>redis_key\<close> is the documented place of a record, the prefix
  followed by the rendered key.
\<close>

section \<open>The configuration of a versioned store\<close>

text \<open>
  An index is one sorted set, or one per record when \<open>KeyOf\<close> is given; \<open>Entry\<close> answers the score of a
  record or that it is not in the index.
\<close>

record 'v redis_index =
  ri_Key :: string
  ri_KeyOf :: "('v \<Rightarrow> string) option"
  ri_Entry :: "'v \<Rightarrow> int option"

record ('k, 'v) redis_config =
  rdc_Prefix :: string
  rdc_KeyOf :: "'k \<Rightarrow> string"
  rdc_TTL :: duration
  rdc_Index :: "'v redis_index option"

type_synonym ('x, 'k, 'v) opener = "('k, 'v) redis_config \<Rightarrow> gerr + ('x, 'k, 'v) vstore"

definition redis_key :: "('k, 'v) redis_config \<Rightarrow> 'k \<Rightarrow> string" where
  "redis_key c k = rdc_Prefix c @ rdc_KeyOf c k"

text \<open>A store without expiry and without index.\<close>

definition plain_config :: "string \<Rightarrow> ('k \<Rightarrow> string) \<Rightarrow> ('k, 'v) redis_config" where
  "plain_config p keyOf = \<lparr>rdc_Prefix = p, rdc_KeyOf = keyOf, rdc_TTL = 0, rdc_Index = None\<rparr>"

text \<open>Opening one store and going on with it.\<close>

definition open_then :: "gerr + 'a \<Rightarrow> ('a \<Rightarrow> gerr + 'b) \<Rightarrow> gerr + 'b" where
  "open_then r f = (case r of Inl e \<Rightarrow> Inl e | Inr a \<Rightarrow> f a)"

lemma open_then_simps [simp]: "open_then (Inl e) f = Inl e" "open_then (Inr a) f = f a"
  by (simp_all add: open_then_def)

lemma open_then_Inr_iff: "open_then r f = Inr b \<longleftrightarrow> (\<exists>a. r = Inr a \<and> f a = Inr b)"
  by (cases r) simp_all

section \<open>Routes and leases (\<open>service/global\<close>)\<close>

definition route_config :: "string \<Rightarrow> (int, RouteBinding) redis_config" where
  "route_config p = plain_config (p @ '':route:'') FormatInt"

definition lease_config :: "string \<Rightarrow> (int, GameLease) redis_config" where
  "lease_config p = plain_config (p @ '':lease:'') FormatInt"

definition global_NewRedisStores ::
  "('r, int, RouteBinding) opener \<Rightarrow> ('l, int, GameLease) opener \<Rightarrow> string \<Rightarrow>
   gerr + ('r, int, RouteBinding) vstore \<times> ('l, int, GameLease) vstore" where
  "global_NewRedisStores openRoutes openLeases p =
     (if blank p then Inl [Foreign ''global: redis key prefix is required'']
      else open_then (openRoutes (route_config p)) (\<lambda>routes.
           open_then (openLeases (lease_config p)) (\<lambda>leases. Inr (routes, leases))))"

section \<open>The unique-key directory (\<open>service/directory\<close>)\<close>

definition entry_config :: "string \<Rightarrow> (string, Entry) redis_config" where
  "entry_config p = plain_config (p @ '':name:'') (\<lambda>key. key)"

definition NewRedisState ::
  "('n, string, Entry) opener \<Rightarrow> string \<Rightarrow> duration \<Rightarrow> gerr + ('n, string, Entry) vstore" where
  "NewRedisState openEntries p ttl =
     (if blank p then Inl [Foreign ''directory: redis key prefix is required'']
      else if ttl \<noteq> 0 then Inl [Foreign ''directory: a key ttl is not supported'']
      else openEntries (entry_config p))"

section \<open>Accounts (\<open>service/account\<close>)\<close>

definition account_config :: "string \<Rightarrow> (string, Account) redis_config" where
  "account_config p = plain_config (p @ '':acct:'') (\<lambda>key. key)"

definition role_config :: "string \<Rightarrow> (int, Role) redis_config" where
  "role_config p = plain_config (p @ '':role:'') FormatInt"

definition server_config :: "string \<Rightarrow> (int, GameServer) redis_config" where
  "server_config p = plain_config (p @ '':srv:'') FormatInt"

definition slot_config :: "string \<Rightarrow> (string, Slot) redis_config" where
  "slot_config p = plain_config (p @ '':slot:'') (\<lambda>key. key)"

record ('a, 'r, 's, 'l, 'n) AccountStores =
  ast_Accounts :: "('a, string, Account) vstore"
  ast_Roles :: "('r, int, Role) vstore"
  ast_Servers :: "('s, int, GameServer) vstore"
  ast_Slots :: "('l, string, Slot) vstore"
  ast_Names :: "'n DirectoryConfig"

text \<open>
  The name directory lives in the same Redis under the prefix of its own. Its clock and its token minter
  are the defaults of the directory.
\<close>

definition account_NewRedisStores ::
  "('a, string, Account) opener \<Rightarrow> ('r, int, Role) opener \<Rightarrow> ('s, int, GameServer) opener \<Rightarrow>
   ('l, string, Slot) opener \<Rightarrow> ('n, string, Entry) opener \<Rightarrow>
   (string \<Rightarrow> string) \<Rightarrow> (nat \<Rightarrow> time) \<Rightarrow> (nat \<Rightarrow> gerr + string) \<Rightarrow> string \<Rightarrow> duration \<Rightarrow>
   gerr + ('a, 'r, 's, 'l, 'n) AccountStores" where
  "account_NewRedisStores openAccounts openRoles openServers openSlots openNames toLower systemNow randomToken
      p claimTTL0 =
     (if blank p then Inl [Foreign ''account: redis key prefix is required'']
      else let claimTTL = (if claimTTL0 \<le> 0 then DefaultClaimTTL else claimTTL0) in
        open_then (openAccounts (account_config p)) (\<lambda>accounts.
        open_then (openRoles (role_config p)) (\<lambda>roles.
        open_then (openServers (server_config p)) (\<lambda>servers.
        open_then (openSlots (slot_config p)) (\<lambda>slots.
        open_then (NewRedisState openNames (p @ '':names'') 0) (\<lambda>nameState.
        open_then (DirectoryNew (Some nameState) (Some (NormalizeLower toLower)) claimTTL None None
                     systemNow randomToken) (\<lambda>names.
          Inr \<lparr>ast_Accounts = accounts, ast_Roles = roles, ast_Servers = servers, ast_Slots = slots,
               ast_Names = names\<rparr>)))))))"

section \<open>Channels (\<open>service/chat\<close>)\<close>

definition channel_config :: "string \<Rightarrow> (string, channelState) redis_config" where
  "channel_config p = plain_config (p @ '':ch:'') (\<lambda>key. key)"

definition chat_NewRedisStore ::
  "('x, string, channelState) opener \<Rightarrow> (('x, string, channelState) vstore \<Rightarrow> gerr + 'c) \<Rightarrow> string \<Rightarrow> gerr + 'c" where
  "chat_NewRedisStore openChannels newStore p =
     (if blank p then Inl [Foreign ''chat: redis key prefix is required'']
      else open_then (openChannels (channel_config p)) newStore)"

section \<open>Orders (\<open>service/platform\<close>)\<close>

definition order_config :: "string \<Rightarrow> (string, Order) redis_config" where
  "order_config p =
     (plain_config (p @ '':order:'') (\<lambda>orderID. orderID))
       \<lparr>rdc_Index := Some \<lparr>ri_Key = PendingIndexKey p, ri_KeyOf = None, ri_Entry = pendingIndexEntry\<rparr>\<rparr>"

text \<open>The index operations of the opened store, on the state outside the service.\<close>

record 'o index_ops =
  ix_IndexDue :: "int \<Rightarrow> int \<Rightarrow> 'o \<Rightarrow> (gerr + string list) \<times> 'o"
  ix_IndexRemove :: "string \<Rightarrow> 'o \<Rightarrow> (gerr + bool) \<times> 'o"
  ix_IndexDefer :: "string \<Rightarrow> int \<Rightarrow> 'o \<Rightarrow> (gerr + bool) \<times> 'o"

definition RedisPendingOrders ::
  "'o index_ops \<Rightarrow> ('o \<Rightarrow> time) \<Rightarrow> int \<Rightarrow> 'o \<Rightarrow> (gerr + string list) \<times> 'o" where
  "RedisPendingOrders ix now limit w =
     (if limit \<le> 0 then (Inr [], w) else ix_IndexDue ix (Unix (now w)) limit w)"

definition error_of :: "(gerr + 'a) \<times> 'o \<Rightarrow> gerr option \<times> 'o" where
  "error_of r = ((case fst r of Inl e \<Rightarrow> Some e | Inr _ \<Rightarrow> None), snd r)"

definition RedisRetirePending :: "'o index_ops \<Rightarrow> string \<Rightarrow> 'o \<Rightarrow> gerr option \<times> 'o" where
  "RedisRetirePending ix orderID w =
     (if orderID = [] then (None, w) else error_of (ix_IndexRemove ix orderID w))"

definition RedisDeferPending :: "'o index_ops \<Rightarrow> string \<Rightarrow> time \<Rightarrow> 'o \<Rightarrow> gerr option \<times> 'o" where
  "RedisDeferPending ix orderID notBefore w =
     (if orderID = [] then (None, w) else error_of (ix_IndexDefer ix orderID (Unix notBefore) w))"

text \<open>The order store is a pending index that can retire and defer.\<close>

definition RedisOrders_pending :: "'o index_ops \<Rightarrow> ('o \<Rightarrow> time) \<Rightarrow> 'o PendingSource" where
  "RedisOrders_pending ix now =
     \<lparr>ps_PendingOrders = RedisPendingOrders ix now, ps_RetirePending = Some (RedisRetirePending ix),
      ps_DeferPending = Some (RedisDeferPending ix)\<rparr>"

definition NewRedisOrders ::
  "((string, Order) redis_config \<Rightarrow> gerr + ('x, string, Order) vstore \<times> 'o index_ops) \<Rightarrow> ('o \<Rightarrow> time) \<Rightarrow>
   string \<Rightarrow> gerr + ('x, string, Order) vstore \<times> 'o PendingSource" where
  "NewRedisOrders openOrders now p =
     (if blank p then Inl [Foreign ''platform: redis key prefix is required'']
      else open_then (openOrders (order_config p)) (\<lambda>(store, ix). Inr (store, RedisOrders_pending ix now)))"

section \<open>Activities (\<open>service/global/activity\<close>)\<close>

definition activity_config :: "string \<Rightarrow> (ActKey, Activity) redis_config" where
  "activity_config p = plain_config (p @ '':act:'') Key_String"

definition participant_config :: "string \<Rightarrow> (ParticipantKey, Participant) redis_config" where
  "participant_config p = plain_config (p @ '':part:'') ParticipantKey_String"

definition ledger_config :: "string \<Rightarrow> duration \<Rightarrow> (RequestKey, ProgressReservation) redis_config" where
  "ledger_config p ttl = (plain_config (p @ '':req:'') RequestKey_String)\<lparr>rdc_TTL := ttl\<rparr>"

definition audit_config :: "string \<Rightarrow> (ActKey, NotifyAuditLog) redis_config" where
  "audit_config p = plain_config (p @ '':audit:'') Key_String"

definition dispatch_config :: "string \<Rightarrow> (DispatchKey, Dispatch) redis_config" where
  "dispatch_config p =
     (plain_config (p @ '':disp:'') DispatchKey_String)
       \<lparr>rdc_Index := Some
          \<lparr>ri_Key = [], ri_KeyOf = Some (\<lambda>d. OwedDispatchKey p (ak_GroupID (dp_Key d)) (dp_GameSID d)),
           ri_Entry = owedDispatchEntry\<rparr>\<rparr>"

definition window_config :: "string \<Rightarrow> (string, Window) redis_config" where
  "window_config p = plain_config (p @ '':win:'') (\<lambda>groupID. groupID)"

record ('a, 'p, 'l, 'u, 'd, 'n) ActivityStores =
  vst_Activities :: "('a, ActKey, Activity) vstore"
  vst_Participants :: "('p, ParticipantKey, Participant) vstore"
  vst_Ledger :: "('l, RequestKey, ProgressReservation) vstore"
  vst_Audits :: "('u, ActKey, NotifyAuditLog) vstore"
  vst_Dispatches :: "('d, DispatchKey, Dispatch) vstore"
  vst_Owed :: "'d owed_index"
  vst_Windows :: "('n, string, Window) vstore"

definition activity_NewRedisStores ::
  "('a, ActKey, Activity) opener \<Rightarrow> ('p, ParticipantKey, Participant) opener \<Rightarrow>
   ('l, RequestKey, ProgressReservation) opener \<Rightarrow> ('u, ActKey, NotifyAuditLog) opener \<Rightarrow>
   ((DispatchKey, Dispatch) redis_config \<Rightarrow>
      gerr + ('d, DispatchKey, Dispatch) vstore \<times> (string \<Rightarrow> int \<Rightarrow> int \<Rightarrow> 'd \<Rightarrow> gerr + string list)) \<Rightarrow>
   ('n, string, Window) opener \<Rightarrow> string \<Rightarrow> duration \<Rightarrow> gerr + ('a, 'p, 'l, 'u, 'd, 'n) ActivityStores" where
  "activity_NewRedisStores openActivities openParticipants openLedger openAudits openDispatches openWindows
      p reservationTTL =
     (if blank p then Inl [Foreign ''activity: redis key prefix is required'']
      else if reservationTTL \<le> 0 then Inl [Foreign ''activity: reservation ttl must be positive'']
      else open_then (openActivities (activity_config p)) (\<lambda>activities.
           open_then (openParticipants (participant_config p)) (\<lambda>participants.
           open_then (openLedger (ledger_config p reservationTTL)) (\<lambda>ledger.
           open_then (openAudits (audit_config p)) (\<lambda>audits.
           open_then (openDispatches (dispatch_config p)) (\<lambda>(dispatches, indexDueIn).
           open_then (openWindows (window_config p)) (\<lambda>windows.
             Inr \<lparr>vst_Activities = activities, vst_Participants = participants, vst_Ledger = ledger,
                  vst_Audits = audits, vst_Dispatches = dispatches,
                  vst_Owed = RedisOwedDispatches indexDueIn p, vst_Windows = windows\<rparr>)))))))"

section \<open>Properties\<close>

lemmas store_config_defs = plain_config_def route_config_def lease_config_def entry_config_def account_config_def
  role_config_def server_config_def slot_config_def channel_config_def order_config_def activity_config_def
  participant_config_def ledger_config_def audit_config_def dispatch_config_def window_config_def

text \<open>Only the ledger of progress reservations expires.\<close>

lemma only_ledger_expires:
  "rdc_TTL (route_config p) = 0" "rdc_TTL (lease_config p) = 0" "rdc_TTL (entry_config p) = 0"
  "rdc_TTL (account_config p) = 0" "rdc_TTL (role_config p) = 0" "rdc_TTL (server_config p) = 0"
  "rdc_TTL (slot_config p) = 0" "rdc_TTL (channel_config p) = 0" "rdc_TTL (order_config p) = 0"
  "rdc_TTL (activity_config p) = 0" "rdc_TTL (participant_config p) = 0" "rdc_TTL (audit_config p) = 0"
  "rdc_TTL (dispatch_config p) = 0" "rdc_TTL (window_config p) = 0" "rdc_TTL (ledger_config p ttl) = ttl"
  by (simp_all add: store_config_defs)

lemma ParticipantKey_String_inj: "inj_on ParticipantKey_String {k. ParticipantKey_Validate k = None}"
proof (rule inj_onI)
  fix k l
  assume "k \<in> {k. ParticipantKey_Validate k = None}" "l \<in> {k. ParticipantKey_Validate k = None}"
    and eq: "ParticipantKey_String k = ParticipantKey_String l"
  then have "ActKey_Validate (pk_Activity k) = None" "ActKey_Validate (pk_Activity l) = None"
    by (auto simp: ParticipantKey_Validate_def split: option.splits)
  from Key_prefix_inj [OF this] eq show "k = l"
    by (cases k; cases l) (auto simp: ParticipantKey_String_def)
qed

lemma DispatchKey_String_inj: "inj_on DispatchKey_String {k. ActKey_Validate (dk_Activity k) = None}"
proof (rule inj_onI)
  fix k l
  assume "k \<in> {k. ActKey_Validate (dk_Activity k) = None}" "l \<in> {k. ActKey_Validate (dk_Activity k) = None}"
    and eq: "DispatchKey_String k = DispatchKey_String l"
  then have "ActKey_Validate (dk_Activity k) = None" "ActKey_Validate (dk_Activity l) = None" by simp_all
  moreover have "Key_String (dk_Activity k) @ CHR ''/'' # FormatInt (dk_GameSID k) =
      Key_String (dk_Activity l) @ CHR ''/'' # FormatInt (dk_GameSID l)"
    using eq by (simp add: DispatchKey_String_def)
  ultimately have "dk_Activity k = dk_Activity l \<and> FormatInt (dk_GameSID k) = FormatInt (dk_GameSID l)"
    by (rule Key_prefix_inj)
  then show "k = l" by (cases k; cases l) (simp add: FormatInt_inject)
qed

lemma OwedDispatchKey_inj: "inj (\<lambda>(groupID, gameSID). OwedDispatchKey p groupID gameSID)"
proof (rule injI, clarify)
  fix g n g' n'
  assume "OwedDispatchKey p g n = OwedDispatchKey p g' n'"
  then have "g @ CHR '':'' # FormatInt n = g' @ CHR '':'' # FormatInt n'" by (simp add: OwedDispatchKey_def)
  from append_sep_inj [OF FormatInt_no_sep(2) FormatInt_no_sep(2) this]
  show "g = g' \<and> n = n'" by (simp add: FormatInt_inject)
qed

lemma inj_FormatInt: "inj FormatInt"
  by (simp add: inj_def FormatInt_inject)

lemma redis_key_inj: "inj_on (rdc_KeyOf c) A \<Longrightarrow> inj_on (redis_key c) A"
  by (auto simp: inj_on_def redis_key_def)

lemma RequestKey_String_inj: "inj_on RequestKey_String {k. RequestKey_Validate k = None}"
  by (rule inj_onI) (rule RequestKey_String_injective, simp_all)

text \<open>Rendered keys under different sub-prefixes differ, because the sub-prefixes do.\<close>

definition namespace :: "string \<Rightarrow> string \<Rightarrow> string set" where
  "namespace p sub = {p @ sub @ s |s. True}"

definition clash :: "string \<Rightarrow> string \<Rightarrow> bool" where
  "clash a b \<longleftrightarrow> take (min (length a) (length b)) a = take (min (length a) (length b)) b"

lemma namespaces_disjnt:
  assumes "\<not> clash a b"
  shows "disjnt (namespace p a) (namespace p b)"
proof -
  have "a @ s \<noteq> b @ t" for s t
  proof
    assume "a @ s = b @ t"
    then have "take (min (length a) (length b)) (a @ s) = take (min (length a) (length b)) (b @ t)" by simp
    with assms show False by (simp add: clash_def)
  qed
  then show ?thesis by (auto simp: namespace_def disjnt_def)
qed

lemma namespaces_apart:
  assumes "list_all2 (\<lambda>X sub. X \<subseteq> namespace p sub) Xs subs" and "sorted_wrt (\<lambda>a b. \<not> clash a b) subs"
  shows "sorted_wrt disjnt Xs"
  using assms
proof (induction Xs subs rule: list_all2_induct)
  case (Cons X Xs sub subs)
  have "disjnt X Y" if Y: "Y \<in> set Xs" for Y
  proof -
    obtain i where i: "i < length Xs" "Y = Xs ! i" using Y by (auto simp: in_set_conv_nth)
    with Cons.hyps(2) have "Y \<subseteq> namespace p (subs ! i)" "subs ! i \<in> set subs"
      by (auto simp: list_all2_conv_all_nth)
    moreover from this Cons.prems have "disjnt (namespace p sub) (namespace p (subs ! i))"
      by (intro namespaces_disjnt) simp
    ultimately show ?thesis using Cons.hyps(1) by (auto simp: disjnt_def)
  qed
  with Cons show ?case by simp
qed simp

lemma redis_key_namespace: "rdc_Prefix c = p @ sub \<Longrightarrow> range (redis_key c) \<subseteq> namespace p sub"
  by (auto simp: namespace_def redis_key_def)

lemma index_namespaces:
  "{PendingIndexKey p} \<subseteq> namespace p '':pending''"
  "range (\<lambda>(g, n). OwedDispatchKey p g n) \<subseteq> namespace p '':owed:''"
  by (auto simp: namespace_def PendingIndexKey_def OwedDispatchKey_def)

lemma config_namespaces:
  "range (redis_key (route_config p)) \<subseteq> namespace p '':route:''"
  "range (redis_key (lease_config p)) \<subseteq> namespace p '':lease:''"
  "range (redis_key (account_config p)) \<subseteq> namespace p '':acct:''"
  "range (redis_key (role_config p)) \<subseteq> namespace p '':role:''"
  "range (redis_key (server_config p)) \<subseteq> namespace p '':srv:''"
  "range (redis_key (slot_config p)) \<subseteq> namespace p '':slot:''"
  "range (redis_key (entry_config (p @ '':names''))) \<subseteq> namespace p '':names:name:''"
  "range (redis_key (order_config p)) \<subseteq> namespace p '':order:''"
  "range (redis_key (activity_config p)) \<subseteq> namespace p '':act:''"
  "range (redis_key (participant_config p)) \<subseteq> namespace p '':part:''"
  "range (redis_key (ledger_config p ttl)) \<subseteq> namespace p '':req:''"
  "range (redis_key (audit_config p)) \<subseteq> namespace p '':audit:''"
  "range (redis_key (dispatch_config p)) \<subseteq> namespace p '':disp:''"
  "range (redis_key (window_config p)) \<subseteq> namespace p '':win:''"
  by (rule redis_key_namespace, simp add: store_config_defs)+

text \<open>C31: No two records of a service share a Redis key. Under any prefix the keyspaces of the stores
  of one service, its indexes included, are pairwise disjoint, and inside a store two records that pass
  the validation of their key have different keys; so no write to one record is a write to another.\<close>

theorem keyspaces_apart:
  "sorted_wrt disjnt [range (redis_key (route_config p)), range (redis_key (lease_config p))] \<and>
   sorted_wrt disjnt [range (redis_key (account_config p)), range (redis_key (role_config p)),
     range (redis_key (server_config p)), range (redis_key (slot_config p)),
     range (redis_key (entry_config (p @ '':names'')))] \<and>
   sorted_wrt disjnt [range (redis_key (order_config p)), {PendingIndexKey p}] \<and>
   sorted_wrt disjnt [range (redis_key (activity_config p)), range (redis_key (participant_config p)),
     range (redis_key (ledger_config p ttl)), range (redis_key (audit_config p)),
     range (redis_key (dispatch_config p)), range (redis_key (window_config p)),
     range (\<lambda>(groupID, gameSID). OwedDispatchKey p groupID gameSID)] \<and>
   inj (redis_key (route_config p)) \<and> inj (redis_key (lease_config p)) \<and>
   inj (redis_key (account_config p)) \<and> inj (redis_key (role_config p)) \<and>
   inj (redis_key (server_config p)) \<and> inj (redis_key (slot_config p)) \<and>
   inj (redis_key (entry_config p)) \<and> inj (redis_key (channel_config p)) \<and>
   inj (redis_key (order_config p)) \<and> inj (redis_key (window_config p)) \<and>
   inj (\<lambda>(groupID, gameSID). OwedDispatchKey p groupID gameSID) \<and>
   inj_on (redis_key (activity_config p)) {k. ActKey_Validate k = None} \<and>
   inj_on (redis_key (audit_config p)) {k. ActKey_Validate k = None} \<and>
   inj_on (redis_key (participant_config p)) {k. ParticipantKey_Validate k = None} \<and>
   inj_on (redis_key (ledger_config p ttl)) {k. RequestKey_Validate k = None} \<and>
   inj_on (redis_key (dispatch_config p)) {k. ActKey_Validate (dk_Activity k) = None}"
proof -
  have keys: "inj_on Key_String {k. ActKey_Validate k = None}"
    by (rule inj_onI) (rule Key_String_inj, simp_all)
  have plain: "inj (\<lambda>key :: string. key)" by (simp add: inj_def)
  have disjoint: "sorted_wrt disjnt [range (redis_key (route_config p)), range (redis_key (lease_config p))]"
    "sorted_wrt disjnt [range (redis_key (account_config p)), range (redis_key (role_config p)),
      range (redis_key (server_config p)), range (redis_key (slot_config p)),
      range (redis_key (entry_config (p @ '':names'')))]"
    "sorted_wrt disjnt [range (redis_key (order_config p)), {PendingIndexKey p}]"
    "sorted_wrt disjnt [range (redis_key (activity_config p)), range (redis_key (participant_config p)),
      range (redis_key (ledger_config p ttl)), range (redis_key (audit_config p)),
      range (redis_key (dispatch_config p)), range (redis_key (window_config p)),
      range (\<lambda>(groupID, gameSID). OwedDispatchKey p groupID gameSID)]"
    by (rule namespaces_apart [where p = p and subs = "['':route:'', '':lease:'']"],
         simp add: config_namespaces, simp add: clash_def,
        rule namespaces_apart [where p = p and subs = "['':acct:'', '':role:'', '':srv:'', '':slot:'', '':names:name:'']"],
         simp add: config_namespaces, simp add: clash_def,
        rule namespaces_apart [where p = p and subs = "['':order:'', '':pending'']"],
         simp add: config_namespaces index_namespaces [simplified], simp add: clash_def,
        rule namespaces_apart [where p = p and
          subs = "['':act:'', '':part:'', '':req:'', '':audit:'', '':disp:'', '':win:'', '':owed:'']"],
         simp add: config_namespaces index_namespaces, simp add: clash_def)
  have "inj (redis_key (route_config p))" "inj (redis_key (lease_config p))"
    "inj (redis_key (account_config p))" "inj (redis_key (role_config p))"
    "inj (redis_key (server_config p))" "inj (redis_key (slot_config p))"
    "inj (redis_key (entry_config p))" "inj (redis_key (channel_config p))"
    "inj (redis_key (order_config p))" "inj (redis_key (window_config p))"
    "inj_on (redis_key (activity_config p)) {k. ActKey_Validate k = None}"
    "inj_on (redis_key (audit_config p)) {k. ActKey_Validate k = None}"
    "inj_on (redis_key (participant_config p)) {k. ParticipantKey_Validate k = None}"
    "inj_on (redis_key (ledger_config p ttl)) {k. RequestKey_Validate k = None}"
    "inj_on (redis_key (dispatch_config p)) {k. ActKey_Validate (dk_Activity k) = None}"
    by (rule redis_key_inj, simp add: store_config_defs inj_FormatInt plain keys ParticipantKey_String_inj
          RequestKey_String_inj DispatchKey_String_inj)+
  with disjoint OwedDispatchKey_inj [of p] show ?thesis by blast
qed

end
