(* ===== verification/ServiceMods.thy ===== *)
theory ServiceMods
  imports RedisStores RpcRank RpcAccount RpcChat RpcGlobal RpcPlatform RpcActivity
begin

text \<open>
  The Mods that assemble the services (\<open>*_mod.go\<close>): what each reads from the configuration and refuses
  there (\<open>Init\<close>), and how \<open>Provide\<close> builds stores and service and publishes them. The registry, the Redis
  client (\<open>'k\<close>) and the way it opens a store are parameters; a collaborator that is not there is a flag.
  The domains of match, mail and session are not part of the repository: their stores and services are
  parameters too, and what is modelled is the reading of their configuration and their tick.
\<close>

section \<open>Shared steps\<close>

abbreviation "stringE s \<equiv> Inl [Foreign s]"

text \<open>The optional number of attempts of two Mods.\<close>

definition attempts_setting :: "viper \<Rightarrow> string \<Rightarrow> int \<Rightarrow> gerr + int" where
  "attempts_setting cfg key fallback =
     (if cfg_IsSet cfg key then
        if cfg_GetInt cfg key \<le> 0 then stringE ''attempts must be positive'' else Inr (cfg_GetInt cfg key)
      else Inr fallback)"

text \<open>
  \<open>bindCollaborators\<close>: in order, the collaborators that implement \<open>RegistryBound\<close> are handed the registry.
\<close>

type_synonym 'r binding = "('r \<Rightarrow> gerr option \<times> 'r) option"

fun bindCollaborators :: "'r binding list \<Rightarrow> ('r, unit) handler" where
  "bindCollaborators [] r = (Inr (), r)"
| "bindCollaborators (None # bs) r = bindCollaborators bs r"
| "bindCollaborators (Some bind # bs) r =
     (case bind r of (Some err, r') \<Rightarrow> (Inl err, r') | (None, r') \<Rightarrow> bindCollaborators bs r')"

definition redisE :: "('r \<Rightarrow> string \<Rightarrow> 'k option) \<Rightarrow> ('r, 'k) handler" where
  "redisE lookup r = (LookupRedis lookup r, r)"

section \<open>Platform\<close>

record PlatformSettings =
  plm_prefix :: string
  plm_sessionSecret :: string
  plm_paymentSecret :: string
  plm_sessionTTL :: duration
  plm_attempts :: int
  plm_backoff :: duration

definition PlatformInit :: "bool \<Rightarrow> bool \<Rightarrow> bool \<Rightarrow> viper \<Rightarrow> gerr + PlatformSettings" where
  "PlatformInit hasVerifier hasPlayers hasDeliver cfg =
     (if \<not> hasVerifier \<or> \<not> hasPlayers \<or> \<not> hasDeliver then stringE ''platform mod: collaborators are required''
      else open_then (KeyPrefix cfg ''platform'') (\<lambda>p.
           open_then (Secret cfg ''platform.session_secret'') (\<lambda>sessionSecret.
           open_then (Secret cfg ''platform.payment_secret'') (\<lambda>paymentSecret.
           open_then (Duration cfg ''platform.session_ttl'' DefaultSessionTTL) (\<lambda>sessionTTL.
           open_then (Duration cfg ''platform.delivery_backoff'' DefaultDeliveryBackoff) (\<lambda>backoff.
           open_then (attempts_setting cfg ''platform.delivery_attempts'' MaxDeliveryAttempts) (\<lambda>attempts.
             if \<not> blank (cfg_GetString cfg ''redis.cluster_addrs'') \<and> CHR ''{'' \<notin> set p
             then stringE ''platform mod: platform.key_prefix has no hash tag''
             else Inr \<lparr>plm_prefix = p, plm_sessionSecret = sessionSecret, plm_paymentSecret = paymentSecret,
                       plm_sessionTTL = sessionTTL, plm_attempts = attempts, plm_backoff = backoff\<rparr>)))))))"

text \<open>
  The configuration \<open>Provide\<close> hands to \<open>New\<close>; \<open>base\<close> carries the collaborators, \<open>override\<close> what
  \<open>WithPendingOrders\<close> was given.
\<close>

definition platform_config ::
  "PlatformSettings \<Rightarrow> ('x, string, Order) vstore \<Rightarrow> 'o PendingSource \<Rightarrow> 'o PendingSource option \<Rightarrow>
   ('x, 'o) PlatformConfig \<Rightarrow> ('x, 'o) PlatformConfig" where
  "platform_config st orders built_in override base =
     base\<lparr>pf_Orders := orders, pf_Pending := Some (case override of None \<Rightarrow> built_in | Some p \<Rightarrow> p),
          pf_SessionSecret := plm_sessionSecret st, pf_SessionTTL := plm_sessionTTL st,
          pf_PaymentSecret := plm_paymentSecret st, pf_DeliveryAttempts := plm_attempts st,
          pf_DeliveryBackoff := plm_backoff st\<rparr>"

definition PlatformProvide ::
  "'r binding list \<Rightarrow> ('r \<Rightarrow> string \<Rightarrow> 'k option) \<Rightarrow>
   ('k \<Rightarrow> (string, Order) redis_config \<Rightarrow> gerr + ('x, string, Order) vstore \<times> 'o index_ops) \<Rightarrow> ('o \<Rightarrow> time) \<Rightarrow>
   (nat \<Rightarrow> time) \<Rightarrow> 'o PendingSource option \<Rightarrow> ('x, 'o) PlatformConfig \<Rightarrow>
   (('x, 'o) pworld PlatformService \<Rightarrow> 'c) \<Rightarrow> (('x, 'o) pworld PlatformService \<Rightarrow> 'c) \<Rightarrow>
   ('r, 'c) registry option \<Rightarrow> PlatformSettings \<Rightarrow> ('r, unit) handler" where
  "PlatformProvide binders lookup openOrders clock systemNow override base wrapped bare registry st =
     thenE (bindCollaborators binders)
    (bindE (redisE lookup) (\<lambda>client.
     bindE (liftE (NewRedisOrders (openOrders client) clock (plm_prefix st))) (\<lambda>(orders, built_in).
     bindE (liftE (PlatformNew True True True True None systemNow (platform_config st orders built_in override base)))
       (\<lambda>cfg. RegisterAll registry (platform_OwnerCapabilities wrapped bare (platform_service cfg))))))"

section \<open>Account\<close>

record AccountSettings =
  acm_prefix :: string
  acm_sessionSecret :: string
  acm_sessionTTL :: duration
  acm_claimTTL :: duration

definition AccountInit :: "bool \<Rightarrow> bool \<Rightarrow> bool \<Rightarrow> viper \<Rightarrow> gerr + AccountSettings" where
  "AccountInit hasVerifier hasAllocator hasNameRules cfg =
     (if \<not> hasVerifier \<or> \<not> hasAllocator \<or> \<not> hasNameRules then stringE ''account mod: collaborators are required''
      else open_then (KeyPrefix cfg ''account'') (\<lambda>p.
           open_then (Secret cfg ''account.session_secret'') (\<lambda>sessionSecret.
           open_then (Duration cfg ''account.session_ttl'' acct_DefaultSessionTTL) (\<lambda>sessionTTL.
           open_then (Duration cfg ''account.claim_ttl'' DefaultClaimTTL) (\<lambda>claimTTL.
             Inr \<lparr>acm_prefix = p, acm_sessionSecret = sessionSecret, acm_sessionTTL = sessionTTL,
                  acm_claimTTL = claimTTL\<rparr>)))))"

definition accounts_config ::
  "AccountSettings \<Rightarrow> ('a, 'r, 's, 'l, 'n) AccountStores \<Rightarrow>
   ('a, 'r, 's, 'l, 'n dworld, 'o) AccountConfig \<Rightarrow> ('a, 'r, 's, 'l, 'n dworld, 'o) AccountConfig" where
  "accounts_config st stores base =
     base\<lparr>uc_Accounts := ast_Accounts stores, uc_Roles := ast_Roles stores, uc_Servers := ast_Servers stores,
          uc_Slots := ast_Slots stores, uc_Names := directory_names (ast_Names stores),
          uc_SessionSecret := acm_sessionSecret st, uc_SessionTTL := acm_sessionTTL st, uc_RolesPerServer := 0,
          uc_ClaimTTL := acm_claimTTL st\<rparr>"

definition AccountProvide ::
  "'g binding list \<Rightarrow> ('g \<Rightarrow> string \<Rightarrow> 'k option) \<Rightarrow>
   ('k \<Rightarrow> string \<Rightarrow> duration \<Rightarrow> gerr + ('a, 'r, 's, 'l, 'n) AccountStores) \<Rightarrow> (nat \<Rightarrow> time) \<Rightarrow>
   ('a, 'r, 's, 'l, 'n dworld, 'o) AccountConfig \<Rightarrow>
   (('a, 'r, 's, 'l, 'n dworld, 'o) uworld AccountsService \<Rightarrow> 'c) \<Rightarrow>
   (('a, 'r, 's, 'l, 'n dworld, 'o) uworld AccountsService \<Rightarrow> 'c) \<Rightarrow>
   ('g, 'c) registry option \<Rightarrow> AccountSettings \<Rightarrow> ('g, unit) handler" where
  "AccountProvide binders lookup newStores systemNow base wrapped bare registry st =
     thenE (bindCollaborators binders)
    (bindE (redisE lookup) (\<lambda>client.
     bindE (liftE (newStores client (acm_prefix st) (acm_claimTTL st))) (\<lambda>stores.
     bindE (liftE (AccountNew [True, True, True, True, True, True, True, True] None systemNow
                     (accounts_config st stores base)))
       (\<lambda>cfg. RegisterAll registry (account_OwnerCapabilities wrapped bare (account_service cfg))))))"

section \<open>Routing and leases\<close>

definition GlobalInit :: "viper \<Rightarrow> gerr + string \<times> duration" where
  "GlobalInit cfg =
     open_then (KeyPrefix cfg ''global'') (\<lambda>p.
     open_then (Duration cfg ''global.lease_ttl'' DefaultLeaseTTL) (\<lambda>leaseTTL. Inr (p, leaseTTL)))"

definition GlobalProvide ::
  "('g \<Rightarrow> string \<Rightarrow> 'k option) \<Rightarrow> ('k \<Rightarrow> ('r, int, RouteBinding) opener) \<Rightarrow> ('k \<Rightarrow> ('l, int, GameLease) opener) \<Rightarrow>
   (nat \<Rightarrow> time) \<Rightarrow> (nat \<Rightarrow> gerr + string) \<Rightarrow> (('r, 'l) gworld RoutingService \<Rightarrow> 'c) \<Rightarrow>
   (('r, 'l) gworld RoutingService \<Rightarrow> 'c) \<Rightarrow> ('g, 'c) registry option \<Rightarrow> string \<times> duration \<Rightarrow> ('g, unit) handler" where
  "GlobalProvide lookup openRoutes openLeases systemNow randomIncarnation wrapped bare registry st =
     bindE (redisE lookup) (\<lambda>client.
     bindE (liftE (global_NewRedisStores (openRoutes client) (openLeases client) (fst st))) (\<lambda>(routes, leases).
     bindE (liftE (GlobalNew (Some routes) (Some leases) (snd st) None None systemNow randomIncarnation))
       (\<lambda>cfg. RegisterAll registry (global_OwnerCapabilities wrapped bare (global_service cfg)))))"

section \<open>Activities\<close>

record ActivitySettings =
  avm_prefix :: string
  avm_reservationTTL :: duration
  avm_graceWindow :: duration
  avm_dispatchAttempts :: int
  avm_dispatchBackoff :: duration
  avm_sweepGroups :: "string list"

definition ActivityInit :: "viper \<Rightarrow> gerr + ActivitySettings" where
  "ActivityInit cfg =
     open_then (KeyPrefix cfg ''activity'') (\<lambda>p.
     open_then (RequiredDuration cfg ''activity.reservation_ttl'') (\<lambda>reservationTTL.
     open_then (Duration cfg ''activity.grace_window'' DefaultGraceWindow) (\<lambda>graceWindow.
     open_then (Duration cfg ''activity.dispatch_backoff'' DefaultDispatchBackoff) (\<lambda>backoff.
     open_then (attempts_setting cfg ''activity.dispatch_attempts'' DefaultDispatchAttempts) (\<lambda>attempts.
       Inr \<lparr>avm_prefix = p, avm_reservationTTL = reservationTTL, avm_graceWindow = graceWindow,
            avm_dispatchAttempts = attempts, avm_dispatchBackoff = backoff,
            avm_sweepGroups =
              filter (\<lambda>group. group \<noteq> []) (map TrimSpace (cfg_GetStringSlice cfg ''activity.sweep_groups''))\<rparr>)))))"

definition ActivityProvide ::
  "('g \<Rightarrow> string \<Rightarrow> 'k option) \<Rightarrow>
   ('k \<Rightarrow> string \<Rightarrow> duration \<Rightarrow> gerr + ('a, 'p, 'l, 'u, 'd, 'n) ActivityStores) \<Rightarrow> (nat \<Rightarrow> time) \<Rightarrow>
   (nat \<Rightarrow> gerr + string) \<Rightarrow> (('a, 'p, 'l, 'u, 'd, 'n) aworld CoordinatorService \<Rightarrow> 'c) \<Rightarrow>
   (('a, 'p, 'l, 'u, 'd, 'n) aworld CoordinatorService \<Rightarrow> 'c) \<Rightarrow> ('g, 'c) registry option \<Rightarrow>
   ActivitySettings \<Rightarrow> ('g, unit) handler" where
  "ActivityProvide lookup newStores systemNow randomDispatchToken wrapped bare registry st =
     bindE (redisE lookup) (\<lambda>client.
     bindE (liftE (newStores client (avm_prefix st) (avm_reservationTTL st))) (\<lambda>stores.
     bindE (liftE (ActivityNew (Some (vst_Activities stores)) (Some (vst_Participants stores))
                     (Some (vst_Ledger stores)) (Some (vst_Audits stores))
                     (Some (vst_Dispatches stores, Some (vst_Owed stores))) (Some (vst_Windows stores))
                     (avm_graceWindow st) (avm_reservationTTL st) (avm_dispatchBackoff st)
                     (avm_dispatchAttempts st) 0 None None (avm_sweepGroups st) systemNow randomDispatchToken))
       (\<lambda>cfg. RegisterAll registry (activity_OwnerCapabilities wrapped bare (activity_service cfg)))))"

section \<open>Directory and rank\<close>

definition DirectoryInit :: "bool \<Rightarrow> viper \<Rightarrow> gerr + string \<times> duration" where
  "DirectoryInit hasNormalizer cfg =
     (if \<not> hasNormalizer then stringE ''directory mod: a normalizer is required''
      else open_then (KeyPrefix cfg ''directory'') (\<lambda>p.
           open_then (RequiredDuration cfg ''directory.reservation_ttl'') (\<lambda>ttl. Inr (p, ttl))))"

definition DirectoryProvide ::
  "('g \<Rightarrow> string \<Rightarrow> 'k option) \<Rightarrow> ('k \<Rightarrow> ('n, string, Entry) opener) \<Rightarrow> (string \<Rightarrow> gerr + string) \<Rightarrow>
   (nat \<Rightarrow> time) \<Rightarrow> (nat \<Rightarrow> gerr + string) \<Rightarrow> ('n DirectoryConfig \<Rightarrow> 'c) \<Rightarrow> ('g, 'c) registry option \<Rightarrow>
   string \<times> duration \<Rightarrow> ('g, unit) handler" where
  "DirectoryProvide lookup openEntries normalizer systemNow randomToken publish registry st =
     bindE (redisE lookup) (\<lambda>client.
     bindE (liftE (NewRedisState (openEntries client) (fst st) 0)) (\<lambda>state.
     bindE (liftE (DirectoryNew (Some state) (Some normalizer) (snd st) None None systemNow randomToken))
       (\<lambda>dir. RegisterAll registry [\<lparr>cp_Name = ModDirectory, cp_Value = publish dir\<rparr>])))"

definition RankInit :: "viper \<Rightarrow> gerr + string" where
  "RankInit cfg = KeyPrefix cfg ''rank''"

definition RankProvide ::
  "('g \<Rightarrow> string \<Rightarrow> 'x redis option) \<Rightarrow> (nat \<Rightarrow> time) \<Rightarrow> ('x rworld RankService \<Rightarrow> 'c) \<Rightarrow>
   ('x rworld RankService \<Rightarrow> 'c) \<Rightarrow> ('g, 'c) registry option \<Rightarrow> string \<Rightarrow> ('g, unit) handler" where
  "RankProvide lookup systemNow wrapped bare registry st =
     bindE (redisE lookup) (\<lambda>client.
     bindE (liftE (RankNewRedisStore (Some client) st None systemNow))
       (\<lambda>cfg. RegisterAll registry (rank_OwnerCapabilities wrapped bare (rank_service cfg))))"

section \<open>Chat\<close>

text \<open>\<open>strings.Cut\<close> at the first occurrence of a byte.\<close>

definition Cut :: "char \<Rightarrow> string \<Rightarrow> (string \<times> string) option" where
  "Cut c s = (if c \<in> set s then Some (takeWhile (\<lambda>d. d \<noteq> c) s, tl (dropWhile (\<lambda>d. d \<noteq> c) s)) else None)"

fun parsePruneChannels :: "string list \<Rightarrow> gerr + Channel list" where
  "parsePruneChannels [] = Inr []"
| "parsePruneChannels (entry # entries) =
     (case Cut (CHR '':'') (TrimSpace entry) of
        None \<Rightarrow> stringE ''chat mod: entry must be kind:target''
      | Some (kind, target) \<Rightarrow>
          if kind = [] \<or> target = [] then stringE ''chat mod: entry must be kind:target''
          else (case ParseInt 64 target of
                  None \<Rightarrow> stringE ''chat mod: entry has a non-numeric target''
                | Some n \<Rightarrow>
                    if n < 0 then stringE ''chat mod: entry has a non-numeric target''
                    else open_then (parsePruneChannels entries) (\<lambda>channels.
                           Inr (\<lparr>ch_Kind = kind, ch_Target = n\<rparr> # channels))))"

fun resolvePruneChannels :: "(Channel \<Rightarrow> int \<Rightarrow> gerr + ChannelRef) \<Rightarrow> Channel list \<Rightarrow> gerr + ChannelRef list" where
  "resolvePruneChannels storeResolve [] = Inr []"
| "resolvePruneChannels storeResolve (ch # chs) =
     open_then (storeResolve ch 0) (\<lambda>ref.
     open_then (resolvePruneChannels storeResolve chs) (\<lambda>refs. Inr (ref # refs)))"

record ChatSettings =
  chm_prefix :: string
  chm_retentionAge :: duration
  chm_pruneStatic :: "Channel list"

definition ChatInit :: "bool \<Rightarrow> bool \<Rightarrow> bool \<Rightarrow> viper \<Rightarrow> gerr + ChatSettings" where
  "ChatInit hasPolicy hasBodies hasSystem cfg =
     (if \<not> hasPolicy \<or> \<not> hasBodies \<or> \<not> hasSystem then stringE ''chat mod: collaborators are required''
      else open_then (KeyPrefix cfg ''chat'') (\<lambda>p.
           open_then (Duration cfg ''chat.retention_age'' 0) (\<lambda>retention.
           open_then (parsePruneChannels (cfg_GetStringSlice cfg ''chat.prune_channels'')) (\<lambda>static.
             Inr \<lparr>chm_prefix = p, chm_retentionAge = retention, chm_pruneStatic = static\<rparr>))))"

text \<open>What the retention tick prunes: the configured channels and those the provider of the process names.\<close>

definition prune_source ::
  "ChannelRef list \<Rightarrow> ('o \<Rightarrow> ChannelRef list \<times> 'o) option \<Rightarrow> ('o \<Rightarrow> ChannelRef list \<times> 'o) option" where
  "prune_source static dynamic =
     (if static \<noteq> [] \<or> dynamic \<noteq> None
      then Some (\<lambda>w. case dynamic of None \<Rightarrow> (static, w)
                     | Some provider \<Rightarrow> (case provider w of (refs, w') \<Rightarrow> (static @ refs, w')))
      else None)"

definition ChatProvide ::
  "('g \<Rightarrow> string \<Rightarrow> 'k option) \<Rightarrow> ('k \<Rightarrow> ('x, string, channelState) opener) \<Rightarrow> 'o policy \<times> 'o policy \<Rightarrow>
   BodyRegistry \<Rightarrow> ChannelRule list \<Rightarrow> ('o \<Rightarrow> (gerr + SystemToken) \<times> 'o) \<Rightarrow>
   ('o \<Rightarrow> ChannelRef list \<times> 'o) option \<Rightarrow> (nat \<Rightarrow> time) \<Rightarrow> (('x, 'o) cworld MessagingService \<Rightarrow> 'c) \<Rightarrow>
   (('x, 'o) cworld MessagingService \<Rightarrow> 'c) \<Rightarrow> ('g, 'c) registry option \<Rightarrow> ChatSettings \<Rightarrow> ('g, unit) handler" where
  "ChatProvide lookup openChannels policy bodies rules system dynamic systemNow wrapped bare registry st =
     bindE (redisE lookup) (\<lambda>client.
     bindE (liftE (chat_NewRedisStore (openChannels client)
              (\<lambda>state. NewStore (Some state) (Some policy) (Some bodies) rules (chm_retentionAge st) None systemNow)
              (chm_prefix st))) (\<lambda>store.
     bindE (liftE (resolvePruneChannels (chat_Resolve store) (chm_pruneStatic st))) (\<lambda>static.
     bindE (liftE (NewService True \<lparr>sv_Store = store, sv_System = Some system,
                                    sv_PruneChannels = prune_source static dynamic, sv_ConversationKind = []\<rparr>))
       (\<lambda>sv. RegisterAll registry (chat_OwnerCapabilities wrapped bare (chat_service sv))))))"

end
