(* ===== verification/ServiceModsProps.thy ===== *)
theory ServiceModsProps
  imports ServiceMods PlatformProps
begin

text \<open>
  Properties of the Mods: what \<open>Init\<close> accepts, \<open>New\<close> accepts; a configured owner publishes exactly its two
  capabilities and excludes a client of the same service; the entries of \<open>chat.prune_channels\<close>.
\<close>

section \<open>What \<open>Init\<close> establishes\<close>

lemma KeyPrefix_not_blank: "KeyPrefix cfg service = Inr p \<Longrightarrow> \<not> blank p"
  by (auto simp: KeyPrefix_def Let_def blank_def split: if_splits)

lemma Duration_nonneg: "Duration cfg key fallback = Inr d \<Longrightarrow> 0 \<le> fallback \<Longrightarrow> 0 \<le> d"
  using Duration_positive by force

lemma Duration_pos: "Duration cfg key fallback = Inr d \<Longrightarrow> 0 < fallback \<Longrightarrow> 0 < d"
  using Duration_positive by force

lemma attempts_positive: "attempts_setting cfg key fallback = Inr n \<Longrightarrow> 0 < fallback \<Longrightarrow> 0 < n"
  by (auto simp: attempts_setting_def split: if_splits)

lemmas default_durations = DefaultSessionTTL_def DefaultDeliveryBackoff_def acct_DefaultSessionTTL_def DefaultClaimTTL_def
  DefaultLeaseTTL_def DefaultGraceWindow_def DefaultDispatchBackoff_def DefaultDispatchAttempts_def
  MaxDeliveryAttempts_def Minute_def Second_def

lemma PlatformInit_establishes:
  assumes "PlatformInit v p d cfg = Inr st"
  shows "\<not> blank (plm_prefix st)" "\<not> blank (plm_sessionSecret st)" "\<not> blank (plm_paymentSecret st)"
    "0 < plm_sessionTTL st" "0 < plm_backoff st" "0 < plm_attempts st"
    "blank (cfg_GetString cfg ''redis.cluster_addrs'') \<or> CHR ''{'' \<in> set (plm_prefix st)"
  using assms
  by (auto simp: PlatformInit_def open_then_Inr_iff default_durations split: if_splits
      dest: KeyPrefix_not_blank Secret_nonblank Duration_pos attempts_positive)

lemma AccountInit_establishes:
  assumes "AccountInit v a n cfg = Inr st"
  shows "\<not> blank (acm_prefix st)" "\<not> blank (acm_sessionSecret st)" "0 < acm_sessionTTL st" "0 < acm_claimTTL st"
  using assms
  by (auto simp: AccountInit_def open_then_Inr_iff default_durations split: if_splits
      dest: KeyPrefix_not_blank Secret_nonblank Duration_pos)

lemma ActivityInit_establishes:
  assumes "ActivityInit cfg = Inr st"
  shows "\<not> blank (avm_prefix st)" "0 < avm_reservationTTL st" "0 < avm_graceWindow st"
    "0 < avm_dispatchBackoff st" "0 < avm_dispatchAttempts st" "\<forall>g \<in> set (avm_sweepGroups st). \<not> blank g"
  using assms
  by (auto simp: ActivityInit_def open_then_Inr_iff default_durations blank_def
      dest: KeyPrefix_not_blank RequiredDuration_positive Duration_pos attempts_positive)

lemma GlobalInit_establishes:
  assumes "GlobalInit cfg = Inr (p, ttl)"
  shows "\<not> blank p" "0 < ttl"
  using assms
  by (auto simp: GlobalInit_def open_then_Inr_iff default_durations dest: KeyPrefix_not_blank Duration_pos)

lemma DirectoryInit_establishes:
  assumes "DirectoryInit n cfg = Inr (p, ttl)"
  shows "n" "\<not> blank p" "0 < ttl"
  using assms
  by (auto simp: DirectoryInit_def open_then_Inr_iff split: if_splits
      dest: KeyPrefix_not_blank RequiredDuration_positive)

section \<open>What \<open>Init\<close> accepts, \<open>New\<close> accepts\<close>

lemma PlatformNew_accepts:
  assumes "PlatformInit v p d cfg = Inr st"
  shows "PlatformNew True True True True None systemNow (platform_config st orders built_in override base) =
    Inr ((platform_config st orders built_in override base)\<lparr>pf_Now := systemNow\<rparr>)"
  using PlatformInit_establishes [OF assms]
  by (simp add: PlatformNew_def platform_missing_def platform_config_def)

lemma AccountNew_accepts:
  assumes "AccountInit v a n cfg = Inr st"
  shows "\<exists>ac. AccountNew [True, True, True, True, True, True, True, True] None systemNow
           (accounts_config st stores base) = Inr ac \<and> uc_SessionSecret ac = acm_sessionSecret st \<and>
         uc_RolesPerServer ac = 1 \<and> uc_SessionTTL ac = acm_sessionTTL st \<and> uc_ClaimTTL ac = acm_claimTTL st"
  using AccountInit_establishes [OF assms] by (simp add: AccountNew_def accounts_config_def)

lemma ActivityNew_accepts:
  assumes "ActivityInit cfg = Inr st"
  shows "\<exists>ac. ActivityNew (Some sa) (Some sp) (Some sl) (Some su) (Some (sd, Some ix)) (Some sw)
           (avm_graceWindow st) (avm_reservationTTL st) (avm_dispatchBackoff st) (avm_dispatchAttempts st) 0
           None None (avm_sweepGroups st) systemNow randomDispatchToken = Inr ac \<and>
         af_ReservationTTL ac = avm_reservationTTL st \<and> af_GraceWindow ac = avm_graceWindow st \<and>
         af_DispatchMaxAttempts ac = avm_dispatchAttempts st \<and> af_OpeningGrace ac = DefaultOpeningGrace"
  using ActivityInit_establishes [OF assms] by (simp add: ActivityNew_def)

lemma GlobalNew_accepts:
  assumes "GlobalInit cfg = Inr (p, ttl)"
  shows "\<exists>gc. GlobalNew (Some routes) (Some leases) ttl None None systemNow randomIncarnation = Inr gc \<and>
    gc_LeaseTTL gc = ttl"
  using GlobalInit_establishes [OF assms] by (simp add: GlobalNew_def)

lemma DirectoryNew_accepts:
  assumes "DirectoryInit n cfg = Inr (p, ttl)"
  shows "\<exists>dc. DirectoryNew (Some state) (Some normalizer) ttl None None systemNow randomToken = Inr dc"
  using DirectoryInit_establishes [OF assms] by (simp add: DirectoryNew_def)

section \<open>An owner comes up\<close>

lemma owner_published:
  assumes "reg_contract contents rg" "name \<noteq> []" "localName \<noteq> []" "name \<noteq> localName"
    and "contents r name = None" "contents r localName = None"
  shows "\<exists>r'. RegisterAll (Some rg) (owner_capabilities name localName wrapped bare service) r = (Inr (), r') \<and>
    contents r' = (contents r)(name \<mapsto> wrapped service, localName \<mapsto> bare service)"
proof -
  let ?cs = "owner_capabilities name localName wrapped bare service"
  have "batch_ok (contents r) ?cs" using assms by (simp add: owner_capabilities_def batch_ok_def)
  moreover have "contents r ++ batch_map ?cs = (contents r)(name \<mapsto> wrapped service, localName \<mapsto> bare service)"
    using assms(4) by (auto simp: batch_map_def owner_capabilities_def fun_eq_iff map_add_def)
  ultimately show ?thesis using RegisterAll_exact [OF assms(1), of ?cs r] by auto
qed

text \<open>C28: A platform process that was configured comes up, guarded. When Init accepted the configuration,
  the collaborators bound, Redis and the order store are there and nothing else was published under its
  names, Provide succeeds and the registry gains exactly the service under the consumers' name and the
  implementation under the owner's; the service holds non-blank secrets and positive attempts, backoff
  and session lifetime, on a cluster its prefix holds a brace, and a client Mod of the same service that
  is assembled into this process afterwards is refused.\<close>

theorem platform_comes_up:
  assumes "PlatformInit v p d cfg = Inr st" and "reg_contract contents rg"
    and "bindCollaborators binders r = (Inr (), r1)" and "lookup r1 ModRedis = Some client"
    and "openOrders client (order_config (plm_prefix st)) = Inr (orders, ix)"
    and "contents r1 platform_CapabilityName = None" "contents r1 platform_LocalCapabilityName = None"
  shows "\<exists>pc r2.
    PlatformProvide binders lookup openOrders clock systemNow override base wrapped bare (Some rg) st r = (Inr (), r2) \<and>
    contents r2 = (contents r1)(platform_CapabilityName \<mapsto> wrapped (platform_service pc),
                                platform_LocalCapabilityName \<mapsto> bare (platform_service pc)) \<and>
    pf_Orders pc = orders \<and> \<not> blank (pf_SessionSecret pc) \<and> \<not> blank (pf_PaymentSecret pc) \<and>
    0 < pf_SessionTTL pc \<and> 0 < pf_DeliveryAttempts pc \<and> 0 < pf_DeliveryBackoff pc \<and>
    (blank (cfg_GetString cfg ''redis.cluster_addrs'') \<or> CHR ''{'' \<in> set (plm_prefix st)) \<and>
    (let remote = platform_ClientModProvide newRpc opts wrapped' (Some b) (Some rg) config r2 in
     isl (fst remote) \<and> snd remote = r2)"
proof -
  note ok = PlatformInit_establishes [OF assms(1)]
  let ?pc = "(platform_config st orders (RedisOrders_pending ix clock) override base)\<lparr>pf_Now := systemNow\<rparr>"
  have names: "platform_CapabilityName \<noteq> []" "platform_LocalCapabilityName \<noteq> []"
    "platform_CapabilityName \<noteq> platform_LocalCapabilityName"
    by (simp_all add: platform_CapabilityName_def platform_LocalCapabilityName_def)
  from owner_published [OF assms(2) names assms(6,7), where wrapped = wrapped and bare = bare and service = "platform_service ?pc"]
  obtain r2 where reg: "RegisterAll (Some rg) (owner_capabilities platform_CapabilityName platform_LocalCapabilityName
      wrapped bare (platform_service ?pc)) r1 = (Inr (), r2)"
    and c: "contents r2 = (contents r1)(platform_CapabilityName \<mapsto> wrapped (platform_service ?pc),
      platform_LocalCapabilityName \<mapsto> bare (platform_service ?pc))" by blast
  have run: "PlatformProvide binders lookup openOrders clock systemNow override base wrapped bare (Some rg) st r = (Inr (), r2)"
    using ok(1) assms(3,4,5) reg
    by (simp add: PlatformNew_accepts [OF assms(1)] PlatformProvide_def handler_simps redisE_def LookupRedis_def NewRedisOrders_def
        platform_OwnerCapabilities_def)
  have remote: "isl (fst (platform_ClientModProvide newRpc opts wrapped' (Some b) (Some rg) config r2)) \<and>
      snd (platform_ClientModProvide newRpc opts wrapped' (Some b) (Some rg) config r2) = r2"
    unfolding platform_ClientModProvide_def by (rule owner_and_client_exclude [OF assms(2) names reg])
  have "pf_Orders ?pc = orders \<and> \<not> blank (pf_SessionSecret ?pc) \<and> \<not> blank (pf_PaymentSecret ?pc) \<and>
      0 < pf_SessionTTL ?pc \<and> 0 < pf_DeliveryAttempts ?pc \<and> 0 < pf_DeliveryBackoff ?pc"
    using ok by (simp add: platform_config_def)
  with run c ok(7) remote show ?thesis by (intro exI [of _ ?pc] exI [of _ r2]) (simp add: Let_def)
qed

definition ex_platform_cfg :: viper where
  "ex_platform_cfg = empty_viper\<lparr>cfg_GetString := (\<lambda>k.
     if k = ''platform.key_prefix'' then ''{roost:platform}''
     else if k = ''platform.session_secret'' then ''s1'' else if k = ''platform.payment_secret'' then ''s2''
     else if k = ''redis.cluster_addrs'' then ''a:1'' else [])\<rparr>"

definition ex_platform_settings :: PlatformSettings where
  "ex_platform_settings = \<lparr>plm_prefix = ''{roost:platform}'', plm_sessionSecret = ''s1'', plm_paymentSecret = ''s2'',
     plm_sessionTTL = DefaultSessionTTL, plm_attempts = MaxDeliveryAttempts, plm_backoff = DefaultDeliveryBackoff\<rparr>"

lemma ex_platform_init: "PlatformInit True True True ex_platform_cfg = Inr ex_platform_settings"
  by (simp add: PlatformInit_def KeyPrefix_def Secret_def Duration_def attempts_setting_def ex_platform_cfg_def
      ex_platform_settings_def empty_viper_def TrimSpace_plain ContainsAny_def bytes_def Let_def char_of_def bit_0)

definition ex_redis :: "(string \<times> nat) list \<Rightarrow> string \<Rightarrow> unit option" where
  "ex_redis r name = (if name = ModRedis then Some () else None)"

definition ex_index :: "Order list index_ops" where
  "ex_index = \<lparr>ix_IndexDue = (\<lambda>_ _ o'. (Inr [], o')), ix_IndexRemove = (\<lambda>_ o'. (Inr False, o')),
     ix_IndexDefer = (\<lambda>_ _ o'. (Inr False, o'))\<rparr>"

lemma platform_comes_up_witness:
  "\<exists>r2. PlatformProvide [] ex_redis (\<lambda>_ _. Inr (mem_store, ex_index)) (\<lambda>_. 0) (\<lambda>_. 0) None ex_pcfg
        (\<lambda>_. 1) (\<lambda>_. 2) (Some list_registry) ex_platform_settings [] = (Inr (), r2) \<and>
      map_of r2 ''service.platform'' = Some 1 \<and> map_of r2 ''service.platform.local'' = Some 2"
proof -
  have up: "bindCollaborators [] [] = (Inr (), [])" "ex_redis [] ModRedis = Some ()"
    "(\<lambda>_ _. Inr (mem_store, ex_index)) () (order_config (plm_prefix ex_platform_settings)) = Inr (mem_store, ex_index)"
    "map_of [] platform_CapabilityName = None" "map_of [] platform_LocalCapabilityName = None"
    by (simp_all add: ex_redis_def)
  from platform_comes_up [OF ex_platform_init list_registry_contract, where binders = "[]" and r = "[]" and ?r1.0 = "[]"
      and lookup = ex_redis and client = "()" and openOrders = "\<lambda>_ _. Inr (mem_store, ex_index)"
      and orders = mem_store and ix = ex_index and clock = "\<lambda>_. 0" and systemNow = "\<lambda>_. 0" and override = None
      and base = ex_pcfg and wrapped = "\<lambda>_. 1" and bare = "\<lambda>_. 2" and newRpc = "\<lambda>_ _ _ _. client_call None"
      and opts = "[] :: unit list" and wrapped' = "\<lambda>_. 3" and b = "()" and config = "([], 1)", OF up]
  show ?thesis by (auto simp: platform_CapabilityName_def platform_LocalCapabilityName_def)
qed

section \<open>The configured prune channels\<close>

lemma Cut_first: "c \<notin> set k \<Longrightarrow> Cut c (k @ c # t) = Some (k, t)"
  by (induction k) (auto simp: Cut_def)

text \<open>A channel an entry can be written for: its kind is not empty, holds no colon and does not begin with white space
  (or a byte of a longer rune), and its target is a number of 63 bits.\<close>

definition writable :: "Channel \<Rightarrow> bool" where
  "writable c \<longleftrightarrow> ch_Kind c \<noteq> [] \<and> CHR '':'' \<notin> set (ch_Kind c) \<and> printable (hd (ch_Kind c)) \<and>
     0 \<le> ch_Target c \<and> ch_Target c < 2 ^ 63"

lemma FormatInt_last_printable: "printable (last (FormatInt n))"
proof -
  have "is_digit (last (show_nat m))" for m
    using show_nat_digits [of m] by (metis last_in_set list_all_iff show_nat_nonempty)
  moreover have "is_digit c \<Longrightarrow> printable c" for c by (auto simp: printable_def is_digit_def)
  ultimately have "printable (last (show_nat m))" for m by blast
  then show ?thesis by (simp add: FormatInt_def)
qed

lemma parse_written:
  "writable c \<Longrightarrow> parsePruneChannels (Channel_String c # entries) =
     open_then (parsePruneChannels entries) (\<lambda>channels. Inr (c # channels))"
proof -
  assume c: "writable c"
  have "TrimSpace (Channel_String c) = Channel_String c"
    using c FormatInt_last_printable [of "ch_Target c"]
    by (intro TrimSpace_plain) (auto simp: Channel_String_def writable_def)
  moreover have "Cut (CHR '':'') (Channel_String c) = Some (ch_Kind c, FormatInt (ch_Target c))"
    using c Cut_first [of "CHR '':''" "ch_Kind c"] by (simp add: Channel_String_def writable_def)
  moreover have "ParseInt 64 (FormatInt (ch_Target c)) = Some (ch_Target c)"
    using c by (intro ParseInt_FormatInt) (simp_all add: writable_def)
  ultimately show ?thesis using c by (cases c) (simp add: writable_def)
qed

lemma parse_written_all: "list_all writable cs \<Longrightarrow> parsePruneChannels (map Channel_String cs) = Inr cs"
  by (induction cs) (simp_all add: parse_written del: parsePruneChannels.simps(2))

lemma parsed_targets:
  "parsePruneChannels entries = Inr cs \<Longrightarrow> length cs = length entries \<and> (\<forall>c \<in> set cs. 0 \<le> ch_Target c)"
  by (induction entries arbitrary: cs) (auto simp: open_then_Inr_iff split: option.splits prod.splits if_splits)

text \<open>A channel resolved for no participant has a rule whose scope is shared, and its reference is the channel's text.\<close>

lemma resolved_shared:
  assumes "chat_Resolve store c 0 = Inr ref"
  shows "ref = \<lparr>rf_Kind = ch_Kind c, rf_key = Channel_String c\<rparr> \<and>
    (\<exists>rule. rule_lookup (cc_Rules store) (ch_Kind c) = Inr rule \<and> rl_Scope rule = ScopeShared \<and>
       (rl_RequiresTarget rule \<longrightarrow> ch_Target c \<noteq> 0))"
  using assms by (auto simp: chat_Resolve_def resolveRef_def Channel_validate_def Channel_String_def
      split: sum.splits option.splits if_splits ChannelScope.splits)

lemma resolved_each:
  "resolvePruneChannels (chat_Resolve store) cs = Inr refs \<Longrightarrow>
   list_all2 (\<lambda>c ref. chat_Resolve store c 0 = Inr ref) cs refs"
  by (induction cs arbitrary: refs) (auto simp: open_then_Inr_iff)

text \<open>C39: The configured retention covers what was written and nothing that cannot be pruned. Rendering
  channels as \<open>kind:target\<close> and reading \<open>chat.prune_channels\<close> gives the channels back, if their kinds are
  not empty, hold no colon and begin with a printable character and their targets are between 0 and
  \<open>2^63 - 1\<close> (\<open>writable\<close>; the entry of a kind with a colon is refused). And when the process starts, every
  entry of the list was turned into the reference of a channel with a target that is not negative, whose
  kind has a rule, shared and not scoped to a pair, and that has the target its rule requires.\<close>

theorem prune_channels_configured:
  "(list_all writable chosen \<longrightarrow> parsePruneChannels (map Channel_String chosen) = Inr chosen) \<and>
   (\<forall>entries cs refs. parsePruneChannels entries = Inr cs \<and> resolvePruneChannels (chat_Resolve store) cs = Inr refs \<longrightarrow>
      length refs = length entries \<and>
      list_all2 (\<lambda>c ref. chat_Resolve store c 0 = Inr ref \<and> 0 \<le> ch_Target c \<and>
        ref = \<lparr>rf_Kind = ch_Kind c, rf_key = Channel_String c\<rparr> \<and>
        (\<exists>rule. rule_lookup (cc_Rules store) (ch_Kind c) = Inr rule \<and> rl_Scope rule = ScopeShared \<and>
           (rl_RequiresTarget rule \<longrightarrow> ch_Target c \<noteq> 0))) cs refs)"
proof (intro conjI allI impI)
  show "list_all writable chosen \<Longrightarrow> parsePruneChannels (map Channel_String chosen) = Inr chosen"
    by (rule parse_written_all)
  fix entries cs refs
  assume "parsePruneChannels entries = Inr cs \<and> resolvePruneChannels (chat_Resolve store) cs = Inr refs"
  then have p: "length cs = length entries" "\<forall>c \<in> set cs. 0 \<le> ch_Target c"
    and r: "list_all2 (\<lambda>c ref. chat_Resolve store c 0 = Inr ref) cs refs"
    using parsed_targets resolved_each by blast+
  from r p(1) show "length refs = length entries" by (simp add: list_all2_lengthD)
  from r p(2) show "list_all2 (\<lambda>c ref. chat_Resolve store c 0 = Inr ref \<and> 0 \<le> ch_Target c \<and>
        ref = \<lparr>rf_Kind = ch_Kind c, rf_key = Channel_String c\<rparr> \<and>
        (\<exists>rule. rule_lookup (cc_Rules store) (ch_Kind c) = Inr rule \<and> rl_Scope rule = ScopeShared \<and>
           (rl_RequiresTarget rule \<longrightarrow> ch_Target c \<noteq> 0))) cs refs"
    by (auto simp: list_all2_conv_all_nth dest: resolved_shared)
qed

text \<open>Two channels under the default rules: the world channel of server 7 and the system channel.\<close>

definition ex_prune_store :: "((string, channelState) mem, unit) ChatConfig" where
  "ex_prune_store = \<lparr>cc_State = mem_store,
     cc_Rules = (case newRuleTable [] of Inl _ \<Rightarrow> Map.empty | Inr table \<Rightarrow> table),
     cc_CanPublish = (\<lambda>_ _ w. (None, w)), cc_CanRead = (\<lambda>_ _ w. (None, w)), cc_Bodies = NewBodyRegistry,
     cc_Now = (\<lambda>_. 0), cc_Age = 0\<rparr>"

lemma ex_prune_resolves:
  "chat_Resolve ex_prune_store \<lparr>ch_Kind = ''world'', ch_Target = 7\<rparr> 0 =
     Inr \<lparr>rf_Kind = ''world'', rf_key = Channel_String \<lparr>ch_Kind = ''world'', ch_Target = 7\<rparr>\<rparr>"
  "chat_Resolve ex_prune_store \<lparr>ch_Kind = ''system'', ch_Target = 0\<rparr> 0 =
     Inr \<lparr>rf_Kind = ''system'', rf_key = Channel_String \<lparr>ch_Kind = ''system'', ch_Target = 0\<rparr>\<rparr>"
  by (simp_all add: chat_Resolve_def ex_prune_store_def newRuleTable_def DefaultChannelRules_def ChannelRule_validate_def
      Channel_validate_def resolveRef_def rule_lookup_def Channel_String_def ChannelWorld_def ChannelGroup_def
      ChannelPrivate_def ChannelSystem_def blank_def TrimSpace_plain printable_def bound_defs Let_def)

lemma prune_channels_configured_witness:
  "\<exists>world system. parsePruneChannels [''world:7'', ''system:0''] =
       Inr [\<lparr>ch_Kind = ''world'', ch_Target = 7\<rparr>, \<lparr>ch_Kind = ''system'', ch_Target = 0\<rparr>] \<and>
     resolvePruneChannels (chat_Resolve ex_prune_store)
       [\<lparr>ch_Kind = ''world'', ch_Target = 7\<rparr>, \<lparr>ch_Kind = ''system'', ch_Target = 0\<rparr>] = Inr [world, system] \<and>
     rf_key world = ''world:7'' \<and> rf_key system = ''system:0'' \<and>
     (\<exists>rule. rule_lookup (cc_Rules ex_prune_store) ''world'' = Inr rule \<and> rl_Scope rule = ScopeShared)"
proof -
  let ?w = "\<lparr>ch_Kind = ''world'', ch_Target = 7\<rparr>" and ?s = "\<lparr>ch_Kind = ''system'', ch_Target = 0\<rparr>"
  have "list_all writable [?w, ?s]" by (simp add: writable_def printable_def)
  then have p: "parsePruneChannels (map Channel_String [?w, ?s]) = Inr [?w, ?s]"
    using prune_channels_configured [of "[?w, ?s]" ex_prune_store] by blast
  have r: "resolvePruneChannels (chat_Resolve ex_prune_store) [?w, ?s] =
      Inr [\<lparr>rf_Kind = ''world'', rf_key = Channel_String ?w\<rparr>, \<lparr>rf_Kind = ''system'', rf_key = Channel_String ?s\<rparr>]"
    by (simp add: ex_prune_resolves)
  have "\<exists>rule. rule_lookup (cc_Rules ex_prune_store) ''world'' = Inr rule \<and> rl_Scope rule = ScopeShared"
    using prune_channels_configured [of "[]" ex_prune_store] p r by fastforce
  moreover have "Channel_String ?w = ''world:7''" "Channel_String ?s = ''system:0''"
    by (simp_all add: Channel_String_def FormatInt_def show_nat.simps digit_def char_of_def bit_0)
  ultimately show ?thesis using p r by simp
qed

end
