(* ===== verification/ClusterSlots.thy ===== *)
theory ClusterSlots
  imports ServiceModsProps
begin

text \<open>
  Redis Cluster and the two stores that write a record and its index in one script
  (\<open>service/platform/redis_store.go\<close>, \<open>service/global/activity/redis_store.go\<close>): with a hash tag in the
  configured prefix both keys live in one slot. What the Mods check of that is \<open>PlatformInit\<close> and \<open>ActivityInit\<close>.

  The slot of a key is a parameter. Of Redis Cluster only the documented rule is used, that keys with the same
  hash tag (the text between the first opening brace and the first closing brace after it, when there is any)
  share a slot.
\<close>

definition hash_tag :: "string \<Rightarrow> string option" where
  "hash_tag key =
     (case Cut (CHR ''{'') key of
        None \<Rightarrow> None
      | Some (_, rest) \<Rightarrow>
          (case Cut (CHR ''}'') rest of None \<Rightarrow> None | Some (t, _) \<Rightarrow> if t = [] then None else Some t))"

definition cluster_rule :: "(string \<Rightarrow> 'n) \<Rightarrow> bool" where
  "cluster_rule slot \<longleftrightarrow> (\<forall>k l. hash_tag k \<noteq> None \<longrightarrow> hash_tag k = hash_tag l \<longrightarrow> slot k = slot l)"

lemma Cut_Some:
  assumes "Cut c s = Some (a, b)"
  shows "s = a @ c # b \<and> c \<notin> set a"
proof -
  let ?rest = "dropWhile (\<lambda>d. d \<noteq> c) s"
  from assms have a: "a = takeWhile (\<lambda>d. d \<noteq> c) s" "b = tl ?rest" and c: "c \<in> set s"
    by (auto simp: Cut_def split: if_splits)
  from c have "?rest \<noteq> []" by (auto simp: dropWhile_eq_Nil_conv)
  moreover from this have "hd ?rest = c" using hd_dropWhile [of "\<lambda>d. d \<noteq> c" s] by blast
  ultimately have "?rest = c # b" by (cases ?rest) (simp_all add: a)
  then have "s = a @ c # b" using takeWhile_dropWhile_id [of "\<lambda>d. d \<noteq> c" s] a(1) by simp
  moreover have "c \<notin> set a" by (auto simp: a(1) dest: set_takeWhileD)
  ultimately show ?thesis ..
qed

lemma Cut_append: "Cut c s = Some (a, b) \<Longrightarrow> Cut c (s @ t) = Some (a, b @ t)"
  by (metis Cut_Some Cut_first append_Cons append_assoc)

lemma hash_tag_append: "hash_tag p = Some t \<Longrightarrow> hash_tag (p @ s) = Some t"
  by (auto simp: hash_tag_def Cut_append split: option.splits if_splits prod.splits)

text \<open>On a Redis Cluster, a prefix with a hash tag puts every record and its index into one slot: each
  order with the pending index, and each dispatch with the index of its game server; so the scripts that
  write both keys are accepted.\<close>

theorem record_and_index_share_a_slot:
  assumes "cluster_rule slot" and "hash_tag p = Some t"
  shows "slot (redis_key (order_config p) orderID) = slot (PendingIndexKey p) \<and>
    slot (redis_key (dispatch_config p) key) = slot (OwedDispatchKey p groupID gameSID)"
proof -
  have "slot (p @ s) = slot (p @ s')" for s s'
    using assms hash_tag_append [OF assms(2)] by (auto simp: cluster_rule_def)
  then show ?thesis
    by (simp add: redis_key_def order_config_def dispatch_config_def plain_config_def PendingIndexKey_def OwedDispatchKey_def)
qed

text \<open>A slot function that follows the rule: the tag itself, or the whole key where there is none.\<close>

definition ex_slot :: "string \<Rightarrow> bool \<times> string" where
  "ex_slot key = (case hash_tag key of None \<Rightarrow> (False, key) | Some t \<Rightarrow> (True, t))"

lemma record_and_index_share_a_slot_witness:
  "ex_slot (redis_key (order_config ''{p}'') ''o1'') = ex_slot (PendingIndexKey ''{p}'') \<and>
   ex_slot ''{p}:order:o1'' = (True, ''p'')"
proof -
  have "cluster_rule ex_slot" by (auto simp: cluster_rule_def ex_slot_def)
  moreover have "hash_tag ''{p}'' = Some ''p''" by (simp add: hash_tag_def Cut_def)
  ultimately have "ex_slot (redis_key (order_config ''{p}'') ''o1'') = ex_slot (PendingIndexKey ''{p}'')"
    using record_and_index_share_a_slot by blast
  moreover have "ex_slot ''{p}:order:o1'' = (True, ''p'')" by (simp add: ex_slot_def hash_tag_def Cut_def)
  ultimately show ?thesis ..
qed

text \<open>
  The platform Mod only asks for an opening brace: on a cluster it accepts a prefix with no hash tag.
\<close>

definition ex_unclosed :: viper where
  "ex_unclosed = ex_platform_cfg\<lparr>cfg_GetString := (\<lambda>k.
     if k = ''platform.key_prefix'' then ''{roost'' else cfg_GetString ex_platform_cfg k)\<rparr>"

lemma unclosed_tag_accepted:
  "\<exists>st. PlatformInit True True True ex_unclosed = Inr st \<and> plm_prefix st = ''{roost'' \<and> hash_tag (plm_prefix st) = None"
  by (simp add: PlatformInit_def KeyPrefix_def Secret_def Duration_def attempts_setting_def ex_unclosed_def ex_platform_cfg_def
      empty_viper_def TrimSpace_plain ContainsAny_def bytes_def Let_def char_of_def bit_0 hash_tag_def Cut_def)

text \<open>The activity Mod reads nothing about the cluster: it accepts the same prefixes with and without one.\<close>

lemma activity_ignores_cluster:
  "ActivityInit (cfg\<lparr>cfg_GetString := (cfg_GetString cfg)(''redis.cluster_addrs'' := addrs)\<rparr>) = ActivityInit cfg"
  by (simp add: ActivityInit_def KeyPrefix_def RequiredDuration_def Duration_def attempts_setting_def)

end
