(* ===== verification/HostedMods.thy ===== *)
theory HostedMods
  imports ServiceMods
begin

text \<open>
  The assembly of the three services whose domain lives outside the repository (\<open>service/match\<close>,
  \<open>service/mail\<close>, \<open>service/session\<close>): the configuration their Mods read, what \<open>Provide\<close> builds and
  publishes, the server and client Mods, and the ticks of the servers that sweep. Their stores, services,
  handler tables and names are those of the core packages and are parameters.
\<close>

section \<open>The assembly files\<close>

text \<open>What the three generated assembly files take from the core package of their service.\<close>

record ('svc, 'b, 's, 'rpc, 'opt) core_rpc =
  co_ServiceType :: string
  co_CapabilityName :: string
  co_LocalCapabilityName :: string
  co_Capability :: "'svc \<Rightarrow> 'svc"
  co_RegisterHandlers :: "'b \<Rightarrow> 'svc \<Rightarrow> 's \<Rightarrow> gerr option \<times> 's"
  co_NewBusClient :: "'b option \<Rightarrow> string \<Rightarrow> duration \<Rightarrow> 'opt list \<Rightarrow> gerr + 'svc"

definition hosted_OwnerCapabilities ::
  "('svc, 'b, 's, 'rpc, 'opt) core_rpc \<Rightarrow> ('svc \<Rightarrow> 'c) \<Rightarrow> ('svc \<Rightarrow> 'c) \<Rightarrow> 'svc \<Rightarrow> 'c Capability list" where
  "hosted_OwnerCapabilities core wrapped bare service =
     owner_capabilities (co_CapabilityName core) (co_LocalCapabilityName core) (\<lambda>s. wrapped (co_Capability core s))
       bare service"

definition hosted_ServerInit ::
  "('svc, 'b, 's, 'rpc, 'opt) core_rpc \<Rightarrow> 'svc option \<Rightarrow> bool \<Rightarrow> 'b option \<Rightarrow> 's \<Rightarrow> (gerr + 'svc \<times> 'b) \<times> 's" where
  "hosted_ServerInit core = server_init (co_RegisterHandlers core)"

definition hosted_ClientModInit ::
  "('svc, 'b, 's, 'rpc, 'opt) core_rpc \<Rightarrow> string \<Rightarrow> viper \<Rightarrow> gerr + string \<times> duration" where
  "hosted_ClientModInit core sect = client_init sect (co_ServiceType core)"

definition hosted_ClientModProvide ::
  "('svc, 'b, 's, 'rpc, 'opt) core_rpc \<Rightarrow> 'opt list \<Rightarrow> ('svc \<Rightarrow> 'c) \<Rightarrow> 'b option \<Rightarrow> ('r, 'c) registry option \<Rightarrow>
   string \<times> duration \<Rightarrow> ('r, unit) handler" where
  "hosted_ClientModProvide core opts wrapped =
     client_provide (co_CapabilityName core) (\<lambda>c. wrapped (co_Capability core c))
       (\<lambda>b serviceType timeout. co_NewBusClient core b serviceType timeout opts)"

text \<open>
  The assembly files of match, mail and session are one text over the names of their service. What is above is
  that of match, these are the two others; the configuration section is the short name of the service.
\<close>

definition mail_OwnerCapabilities ::
  "('svc, 'b, 's, 'rpc, 'opt) core_rpc \<Rightarrow> ('svc \<Rightarrow> 'c) \<Rightarrow> ('svc \<Rightarrow> 'c) \<Rightarrow> 'svc \<Rightarrow> 'c Capability list" where
  "mail_OwnerCapabilities = hosted_OwnerCapabilities"

definition mail_ServerInit ::
  "('svc, 'b, 's, 'rpc, 'opt) core_rpc \<Rightarrow> 'svc option \<Rightarrow> bool \<Rightarrow> 'b option \<Rightarrow> 's \<Rightarrow> (gerr + 'svc \<times> 'b) \<times> 's" where
  "mail_ServerInit = hosted_ServerInit"

definition mail_ClientModInit ::
  "('svc, 'b, 's, 'rpc, 'opt) core_rpc \<Rightarrow> viper \<Rightarrow> gerr + string \<times> duration" where
  "mail_ClientModInit core = hosted_ClientModInit core ''mail''"

definition mail_ClientModProvide ::
  "('svc, 'b, 's, 'rpc, 'opt) core_rpc \<Rightarrow> 'opt list \<Rightarrow> ('svc \<Rightarrow> 'c) \<Rightarrow> 'b option \<Rightarrow> ('r, 'c) registry option \<Rightarrow>
   string \<times> duration \<Rightarrow> ('r, unit) handler" where
  "mail_ClientModProvide = hosted_ClientModProvide"

definition session_OwnerCapabilities ::
  "('svc, 'b, 's, 'rpc, 'opt) core_rpc \<Rightarrow> ('svc \<Rightarrow> 'c) \<Rightarrow> ('svc \<Rightarrow> 'c) \<Rightarrow> 'svc \<Rightarrow> 'c Capability list" where
  "session_OwnerCapabilities = hosted_OwnerCapabilities"

definition session_ServerInit ::
  "('svc, 'b, 's, 'rpc, 'opt) core_rpc \<Rightarrow> 'svc option \<Rightarrow> bool \<Rightarrow> 'b option \<Rightarrow> 's \<Rightarrow> (gerr + 'svc \<times> 'b) \<times> 's" where
  "session_ServerInit = hosted_ServerInit"

definition session_ClientModInit ::
  "('svc, 'b, 's, 'rpc, 'opt) core_rpc \<Rightarrow> viper \<Rightarrow> gerr + string \<times> duration" where
  "session_ClientModInit core = hosted_ClientModInit core ''session''"

definition session_ClientModProvide ::
  "('svc, 'b, 's, 'rpc, 'opt) core_rpc \<Rightarrow> 'opt list \<Rightarrow> ('svc \<Rightarrow> 'c) \<Rightarrow> 'b option \<Rightarrow> ('r, 'c) registry option \<Rightarrow>
   string \<times> duration \<Rightarrow> ('r, unit) handler" where
  "session_ClientModProvide = hosted_ClientModProvide"

section \<open>Match\<close>

record Queue =
  mq_Mode :: string
  mq_GroupSize :: int
  mq_Partition :: string

text \<open>\<open>validate\<close> is \<open>Queue.Validate\<close>.\<close>

fun parseSweepQueues :: "(Queue \<Rightarrow> gerr option) \<Rightarrow> string list \<Rightarrow> gerr + Queue list" where
  "parseSweepQueues validate [] = Inr []"
| "parseSweepQueues validate (entry # entries) =
     (let parts = Split (CHR '':'') (TrimSpace entry) in
      if length parts < 2 \<or> 3 < length parts then stringE ''match mod: entry must be mode:group_size[:partition]''
      else (case ParseInt 64 (parts ! 1) of
              None \<Rightarrow> stringE ''match mod: entry has a non-numeric group size''
            | Some groupSize \<Rightarrow>
                let queue = \<lparr>mq_Mode = parts ! 0, mq_GroupSize = groupSize,
                             mq_Partition = (if length parts = 3 then parts ! 2 else [])\<rparr> in
                (case validate queue of
                   Some err \<Rightarrow> Inl err
                 | None \<Rightarrow> open_then (parseSweepQueues validate entries) (\<lambda>queues. Inr (queue # queues)))))"

definition MatchInit :: "(Queue \<Rightarrow> gerr option) \<Rightarrow> duration \<Rightarrow> viper \<Rightarrow> gerr + string \<times> duration \<times> Queue list" where
  "MatchInit validate DefaultTicketTTL cfg =
     open_then (KeyPrefix cfg ''match'') (\<lambda>p.
     open_then (Duration cfg ''match.ticket_ttl'' DefaultTicketTTL) (\<lambda>ttl.
     open_then (parseSweepQueues validate (cfg_GetStringSlice cfg ''match.sweep_queues'')) (\<lambda>sweep.
       Inr (p, ttl, sweep))))"

definition MatchProvide ::
  "('svc, 'b, 's, 'rpc, 'opt) core_rpc \<Rightarrow> ('g \<Rightarrow> string \<Rightarrow> 'k option) \<Rightarrow>
   ('k \<Rightarrow> string \<Rightarrow> duration \<times> Queue list \<Rightarrow> gerr + 'svc) \<Rightarrow> ('svc \<Rightarrow> 'c) \<Rightarrow> ('svc \<Rightarrow> 'c) \<Rightarrow> ('g, 'c) registry option \<Rightarrow>
   string \<times> duration \<times> Queue list \<Rightarrow> ('g, unit) handler" where
  "MatchProvide core lookup newRedisStore wrapped bare registry st =
     bindE (redisE lookup) (\<lambda>client.
     bindE (liftE (newRedisStore client (fst st) (snd st)))
       (\<lambda>store. RegisterAll registry (hosted_OwnerCapabilities core wrapped bare store)))"

text \<open>
  The start of \<open>run\<close>: the local capability has to be a store; the queues it names are swept. One tick
  sweeps each queue, and a queue that fails is logged and left for the next tick.
\<close>

definition match_SweepInterval :: duration where "match_SweepInterval = 15 * Second"
definition match_SweepBatch :: int where "match_SweepBatch = 200"

definition sweepQueuesOf :: "Queue list option \<Rightarrow> Queue list" where
  "sweepQueuesOf queueSet = (case queueSet of None \<Rightarrow> [] | Some queues \<Rightarrow> queues)"

definition match_run :: "('st \<Rightarrow> Queue list option) \<Rightarrow> 'st option \<Rightarrow> gerr + Queue list" where
  "match_run queueSet store =
     (case store of
        None \<Rightarrow> stringE ''match server: the local capability is not a Store''
      | Some st \<Rightarrow> Inr (sweepQueuesOf (queueSet st)))"

definition match_tick :: "(Queue \<Rightarrow> int \<Rightarrow> ('w, int) handler) \<Rightarrow> Queue list \<Rightarrow> ('w, unit) handler" where
  "match_tick sweep queues = forE queues (\<lambda>queue. bindE (tryE (sweep queue match_SweepBatch)) (\<lambda>_. retE ()))"

section \<open>Mail\<close>

record MailSettings =
  mlm_prefix :: string
  mlm_sendTTL :: duration
  mlm_claimLease :: duration

definition MailInit :: "duration \<Rightarrow> viper \<Rightarrow> gerr + MailSettings" where
  "MailInit DefaultClaimLease cfg =
     open_then (KeyPrefix cfg ''mail'') (\<lambda>p.
     open_then (RequiredDuration cfg ''mail.send_ttl'') (\<lambda>sendTTL.
     open_then (Duration cfg ''mail.claim_lease'' DefaultClaimLease) (\<lambda>claimLease.
       Inr \<lparr>mlm_prefix = p, mlm_sendTTL = sendTTL, mlm_claimLease = claimLease\<rparr>)))"

text \<open>Stores and service are given the same clock.\<close>

definition MailProvide ::
  "('svc, 'b, 's, 'rpc, 'opt) core_rpc \<Rightarrow> ('g \<Rightarrow> string \<Rightarrow> 'k option) \<Rightarrow> 'clock \<Rightarrow>
   ('k \<Rightarrow> string \<Rightarrow> duration \<Rightarrow> 'clock \<Rightarrow> gerr + 'st) \<Rightarrow> ('st \<Rightarrow> duration \<Rightarrow> 'clock \<Rightarrow> gerr + 'svc) \<Rightarrow>
   ('svc \<Rightarrow> 'c) \<Rightarrow> ('svc \<Rightarrow> 'c) \<Rightarrow> ('g, 'c) registry option \<Rightarrow> MailSettings \<Rightarrow> ('g, unit) handler" where
  "MailProvide core lookup now newRedisStores newService wrapped bare registry st =
     bindE (redisE lookup) (\<lambda>client.
     bindE (liftE (newRedisStores client (mlm_prefix st) (mlm_sendTTL st) now)) (\<lambda>stores.
     bindE (liftE (newService stores (mlm_claimLease st) now))
       (\<lambda>service. RegisterAll registry (mail_OwnerCapabilities core wrapped bare service))))"

section \<open>Session\<close>

record SessionSettings =
  ssm_prefix :: string
  ssm_ttl :: duration
  ssm_requestTTL :: duration

definition SessionInit :: "bool \<Rightarrow> duration \<Rightarrow> viper \<Rightarrow> gerr + SessionSettings" where
  "SessionInit hasReleaser DefaultTTL cfg =
     (if \<not> hasReleaser then stringE ''session mod: a releaser is required''
      else open_then (KeyPrefix cfg ''session'') (\<lambda>p.
           open_then (Duration cfg ''session.run_ttl'' DefaultTTL) (\<lambda>ttl.
           open_then (RequiredDuration cfg ''session.request_ttl'') (\<lambda>requestTTL.
             Inr \<lparr>ssm_prefix = p, ssm_ttl = ttl, ssm_requestTTL = requestTTL\<rparr>))))"

definition SessionProvide ::
  "('svc, 'b, 's, 'rpc, 'opt) core_rpc \<Rightarrow> ('g \<Rightarrow> string \<Rightarrow> 'k option) \<Rightarrow>
   ('k \<Rightarrow> string \<Rightarrow> duration \<Rightarrow> gerr + 'st) \<Rightarrow> ('st \<Rightarrow> duration \<Rightarrow> gerr + 'svc) \<Rightarrow>
   ('svc \<Rightarrow> 'c) \<Rightarrow> ('svc \<Rightarrow> 'c) \<Rightarrow> ('g, 'c) registry option \<Rightarrow> SessionSettings \<Rightarrow> ('g, unit) handler" where
  "SessionProvide core lookup newRedisStores newService wrapped bare registry st =
     bindE (redisE lookup) (\<lambda>client.
     bindE (liftE (newRedisStores client (ssm_prefix st) (ssm_requestTTL st))) (\<lambda>stores.
     bindE (liftE (newService stores (ssm_ttl st)))
       (\<lambda>service. RegisterAll registry (session_OwnerCapabilities core wrapped bare service))))"

definition session_SweepInterval :: duration where "session_SweepInterval = 30 * Second"
definition session_SweepBatch :: int where "session_SweepBatch = 100"

text \<open>The owners this process sweeps: none.\<close>

definition sweepOwners :: "int list" where "sweepOwners = []"

definition session_tick :: "(int list \<Rightarrow> int \<Rightarrow> ('w, 'run list) handler) \<Rightarrow> ('w, unit) handler" where
  "session_tick sweep =
     (if sweepOwners = [] then retE ()
      else bindE (tryE (sweep sweepOwners session_SweepBatch)) (\<lambda>_. retE ()))"

section \<open>Properties\<close>

lemma parsed_queues:
  "parseSweepQueues validate entries = Inr queues \<Longrightarrow>
   length queues = length entries \<and> (\<forall>q \<in> set queues. validate q = None)"
  by (induction entries arbitrary: queues)
     (auto simp: open_then_Inr_iff Let_def split: option.splits prod.splits if_splits)

text \<open>A tick asks every queue once, in order, whatever the sweeps before answered.\<close>

lemma match_tick_continues:
  "match_tick sweep queues w = (Inr (), fold (\<lambda>queue w. snd (sweep queue match_SweepBatch w)) queues w)"
proof (induction queues arbitrary: w)
  case (Cons q qs)
  have "bindE (tryE (sweep q match_SweepBatch)) (\<lambda>_. retE ()) w = (Inr (), snd (sweep q match_SweepBatch w))"
    by (simp add: bindE_def tryE_def retE_def split: prod.split)
  with Cons show ?case by (simp add: match_tick_def thenE_def bindE_def)
qed (simp add: match_tick_def retE_def)

text \<open>The session server sweeps nothing: expired runs wait for the next entry of their owner.\<close>

lemma session_tick_idle: "session_tick sweep w = (Inr (), w)"
  by (simp add: session_tick_def sweepOwners_def retE_def)

lemma MailInit_establishes:
  assumes "MailInit lease cfg = Inr st" and "0 < lease"
  shows "mlm_prefix st \<noteq> []" "0 < mlm_sendTTL st" "0 < mlm_claimLease st"
  using assms by (auto simp: MailInit_def open_then_Inr_iff dest: KeyPrefix_cases(1) RequiredDuration_positive Duration_positive)

lemma SessionInit_establishes:
  assumes "SessionInit r ttl cfg = Inr st" and "0 < ttl"
  shows "r" "ssm_prefix st \<noteq> []" "0 < ssm_ttl st" "0 < ssm_requestTTL st"
  using assms by (auto simp: SessionInit_def open_then_Inr_iff split: if_splits
      dest: KeyPrefix_cases(1) RequiredDuration_positive Duration_positive)

end
