(* ===== verification/ServerLoops.thy ===== *)
theory ServerLoops
  imports HostedMods
begin

text \<open>
  The loops of the server processes (the \<open>run\<close> of each \<open>server_run.go\<close>). A loop waits for the ticker or for the end
  of the process; what arrives is a list of events, in the order the \<open>select\<close> saw them. The ticks themselves are
  those of the components: \<open>retryPendingOnce\<close>, \<open>sweep_tick\<close>, \<open>prune_tick\<close>, \<open>match_tick\<close>, \<open>session_tick\<close>.
\<close>

datatype loop_event = Ticked | Cancelled

text \<open>Whether the loop has returned, and the state it leaves. A tick has no answer the loop looks at.\<close>

fun serve_loop :: "('w, unit) handler \<Rightarrow> loop_event list \<Rightarrow> 'w \<Rightarrow> bool \<times> 'w" where
  "serve_loop tick [] w = (False, w)"
| "serve_loop tick (Cancelled # evs) w = (True, w)"
| "serve_loop tick (Ticked # evs) w = serve_loop tick evs (snd (tick w))"

text \<open>
  \<open>local\<close> is the outcome of the type assertion on the local capability; an answer is \<open>Inl\<close> the error the
  process ends with, or \<open>Inr\<close> whether the loop returned.
\<close>

definition run_local :: "string \<Rightarrow> ('sv \<Rightarrow> ('w, unit) handler) \<Rightarrow> 'sv option \<Rightarrow> loop_event list \<Rightarrow> 'w \<Rightarrow> (gerr + bool) \<times> 'w" where
  "run_local refusal tick sv evs w =
     (case sv of None \<Rightarrow> (stringE refusal, w)
      | Some service \<Rightarrow> (case serve_loop (tick service) evs w of (returned, w') \<Rightarrow> (Inr returned, w')))"

definition platform_run ::
  "('x, 'o) PlatformConfig option \<Rightarrow> loop_event list \<Rightarrow> ('x, 'o) pworld \<Rightarrow> (gerr + bool) \<times> ('x, 'o) pworld" where
  "platform_run = run_local ''platform server: the local capability is not a *Service'' retryPendingOnce"

definition activity_run ::
  "('a, 'p, 'l, 'u, 'd, 'n) ActivityConfig option \<Rightarrow> loop_event list \<Rightarrow> ('a, 'p, 'l, 'u, 'd, 'n) aworld \<Rightarrow>
   (gerr + bool) \<times> ('a, 'p, 'l, 'u, 'd, 'n) aworld" where
  "activity_run = run_local ''activity server: the local capability is not a *Service'' sweep_tick"

definition chat_run ::
  "('x, 'o) ServiceConfig option \<Rightarrow> loop_event list \<Rightarrow> ('x, 'o) cworld \<Rightarrow> (gerr + bool) \<times> ('x, 'o) cworld" where
  "chat_run = run_local ''chat server: the local capability is not a *Service'' prune_tick"

definition match_serve ::
  "('st \<Rightarrow> Queue list option) \<Rightarrow> ('st \<Rightarrow> Queue \<Rightarrow> int \<Rightarrow> ('w, int) handler) \<Rightarrow> 'st option \<Rightarrow> loop_event list \<Rightarrow> 'w \<Rightarrow>
   (gerr + bool) \<times> 'w" where
  "match_serve queueSet sweep =
     run_local ''match server: the local capability is not a Store'' (\<lambda>st. match_tick (sweep st) (sweepQueuesOf (queueSet st)))"

definition session_run ::
  "('sv \<Rightarrow> int list \<Rightarrow> int \<Rightarrow> ('w, 'run list) handler) \<Rightarrow> 'sv option \<Rightarrow> loop_event list \<Rightarrow> 'w \<Rightarrow> (gerr + bool) \<times> 'w" where
  "session_run sweep = run_local ''session server: the local capability is not a *Service'' (\<lambda>sv. session_tick (sweep sv))"

text \<open>The servers of account, global, rank and mail only wait for the end.\<close>

definition account_run :: "loop_event list \<Rightarrow> bool" where "account_run evs \<longleftrightarrow> Cancelled \<in> set evs"
definition global_run :: "loop_event list \<Rightarrow> bool" where "global_run evs \<longleftrightarrow> Cancelled \<in> set evs"
definition rank_run :: "loop_event list \<Rightarrow> bool" where "rank_run evs \<longleftrightarrow> Cancelled \<in> set evs"
definition mail_run :: "loop_event list \<Rightarrow> bool" where "mail_run evs \<longleftrightarrow> Cancelled \<in> set evs"

section \<open>Properties\<close>

text \<open>How many ticks ran.\<close>

definition ticks :: "loop_event list \<Rightarrow> nat" where
  "ticks evs = length (takeWhile (\<lambda>ev. ev = Ticked) evs)"

lemma serve_loop_ticks:
  "serve_loop tick evs w = (Cancelled \<in> set evs, ((\<lambda>w. snd (tick w)) ^^ ticks evs) w)"
proof (induction evs arbitrary: w)
  case (Cons ev evs)
  then show ?case by (cases ev) (simp_all add: ticks_def funpow_swap1 [of "\<lambda>w. snd (tick w)"])
qed (simp add: ticks_def)

text \<open>
  A server stays up: whatever its ticks answer and whatever errors they meet, the loop returns exactly when
  the process ends, with no error, and every tick before it did its work once.
\<close>

lemma run_stays_up:
  "run_local refusal tick (Some service) evs w =
     (Inr (Cancelled \<in> set evs), ((\<lambda>w. snd (tick service w)) ^^ ticks evs) w)"
  by (simp add: run_local_def serve_loop_ticks)



text \<open>The session server, as shipped, changes nothing at all.\<close>

lemma session_server_idle: "session_run sweep (Some sv) evs w = (Inr (Cancelled \<in> set evs), w)"
proof -
  have "((\<lambda>w. snd (session_tick (sweep sv) w)) ^^ n) w = w" for n
    by (induction n) (simp_all add: session_tick_idle)
  then show ?thesis by (simp add: session_run_def run_stays_up)
qed

text \<open>The match server asks every configured queue once in each tick, in order.\<close>

lemma match_server_sweeps:
  "match_serve queueSet sweep (Some st) evs w =
     (Inr (Cancelled \<in> set evs),
      (fold (\<lambda>queue w. snd (sweep st queue match_SweepBatch w)) (sweepQueuesOf (queueSet st)) ^^ ticks evs) w)"
  by (simp add: match_serve_def run_stays_up match_tick_continues)

end
