(* ===== verification/EngineMods.thy ===== *)
theory EngineMods
  imports ServiceMods StatsLog
begin

text \<open>
  The storage engine Mod (\<open>dataengine/mod.go\<close>) and the Nest Mod that takes its transaction committer from
  it (\<open>nest/nest_mod.go\<close>): their configuration, their lookups, the gate in front of a commit, the latch of
  a fatal storage outcome and the health they report. The assembled engine (\<open>engine.Assembly\<close>) and the
  Nest engine are parameters: a record of the operations the Mods call on a state of their own.
\<close>

section \<open>Configuration of the storage engine\<close>

definition Hour :: duration where "Hour = 60 * Minute"
definition Day :: duration where "Day = 24 * Hour"

text \<open>\<open>duration\<close>, \<open>positive\<close> and \<open>positiveInt64\<close>.\<close>

definition positive_or :: "int \<Rightarrow> int \<Rightarrow> int" where
  "positive_or v fallback = (if 0 < v then v else fallback)"

lemma positive_or_pos: "0 < fallback \<Longrightarrow> 0 < positive_or v fallback"
  by (simp add: positive_or_def)

text \<open>\<open>strings.Trim(s, cutset)\<close> with a cutset of one byte.\<close>

definition TrimByte :: "char \<Rightarrow> string \<Rightarrow> string" where
  "TrimByte c s = rev (dropWhile (\<lambda>d. d = c) (rev (dropWhile (\<lambda>d. d = c) s)))"

datatype writer_version = WriterVersionV1 | WriterVersionV2

record wal_options =
  wo_dir :: string
  wo_WriterVersion :: writer_version
  wo_SegmentBytes :: int
  wo_QueueCapacity :: int
  wo_GroupCommitInterval :: duration
  wo_MaxDiskBytes :: int
  wo_MaxUnackedAge :: duration

record projector_options =
  po_RetryMin :: duration
  po_RetryMax :: duration
  po_ReplayBatchRecords :: int
  po_ReplayBatchBytes :: int

record outbox_options =
  oo_Owner :: string
  oo_Workers :: int
  oo_BatchSize :: int
  oo_LeaseDuration :: duration
  oo_PollInterval :: duration
  oo_RetryMin :: duration
  oo_RetryMax :: duration
  oo_MaxPending :: int
  oo_MaxOldestAge :: duration
  oo_BacklogInterval :: duration

record stream_config =
  js_Name :: string
  js_Subjects :: "string list"
  js_MaxAge :: duration
  js_Duplicates :: duration
  js_Replicas :: int
  js_MaxBytes :: int

record pipelined_config =
  pl_Allowlist :: "string list"
  pl_Async :: bool
  pl_AsyncWorkers :: int
  pl_AsyncQueueCap :: int

record modConfig =
  mc_DefaultDatabase :: string
  mc_ServerID :: int
  mc_TransactionReceiptTTL :: duration
  mc_ReceiptTTL :: duration
  mc_wal :: wal_options
  mc_projector :: projector_options
  mc_outbox :: outbox_options
  mc_effectPrefix :: string
  mc_effectStream :: stream_config
  mc_startupTimeout :: duration
  mc_shutdownTimeout :: duration
  mc_pipelined :: pipelined_config

definition writer_version_of :: "int \<Rightarrow> gerr + writer_version" where
  "writer_version_of n =
     (if n = 0 then Inr WriterVersionV2 else if n = 1 then Inr WriterVersionV1 else if n = 2 then Inr WriterVersionV2
      else stringE ''dataengine mod: wal.writer_version must be 1 or 2'')"

text \<open>The engine's own defaults are arguments: \<open>walDefaults dir\<close> and \<open>projectorDefaults\<close>; \<open>joinPath\<close> is
  \<open>filepath.Join\<close> of the default directory's parts.\<close>

definition wal_settings :: "viper \<Rightarrow> wal_options \<Rightarrow> writer_version \<Rightarrow> wal_options" where
  "wal_settings cfg w version =
     w\<lparr>wo_WriterVersion := version,
       wo_SegmentBytes := positive_or (cfg_GetInt64 cfg ''dataengine.wal.segment_bytes'') (wo_SegmentBytes w),
       wo_QueueCapacity := positive_or (cfg_GetInt cfg ''dataengine.wal.queue_capacity'') (wo_QueueCapacity w),
       wo_GroupCommitInterval :=
         positive_or (cfg_GetDuration cfg ''dataengine.wal.group_commit_interval'') (wo_GroupCommitInterval w),
       wo_MaxDiskBytes := positive_or (cfg_GetInt64 cfg ''dataengine.wal.max_disk_bytes'') (wo_MaxDiskBytes w),
       wo_MaxUnackedAge := positive_or (cfg_GetDuration cfg ''dataengine.wal.max_unacked_age'') (wo_MaxUnackedAge w)\<rparr>"

definition projector_settings :: "viper \<Rightarrow> projector_options \<Rightarrow> projector_options" where
  "projector_settings cfg p =
     \<lparr>po_RetryMin = positive_or (cfg_GetDuration cfg ''dataengine.projection.retry_min'') (po_RetryMin p),
      po_RetryMax = positive_or (cfg_GetDuration cfg ''dataengine.projection.retry_max'') (po_RetryMax p),
      po_ReplayBatchRecords = positive_or (cfg_GetInt cfg ''dataengine.projection.batch_records'') (po_ReplayBatchRecords p),
      po_ReplayBatchBytes = positive_or (cfg_GetInt cfg ''dataengine.projection.batch_bytes'') (po_ReplayBatchBytes p)\<rparr>"

definition outbox_settings :: "viper \<Rightarrow> int \<Rightarrow> outbox_options" where
  "outbox_settings cfg sid =
     \<lparr>oo_Owner = or_default (TrimSpace (cfg_GetString cfg ''dataengine.outbox.owner'')) (''dataengine-'' @ FormatInt sid),
      oo_Workers = positive_or (cfg_GetInt cfg ''dataengine.outbox.workers'') 2,
      oo_BatchSize = positive_or (cfg_GetInt cfg ''dataengine.outbox.batch_size'') 64,
      oo_LeaseDuration = positive_or (cfg_GetDuration cfg ''dataengine.outbox.lease_duration'') (30 * Second),
      oo_PollInterval = positive_or (cfg_GetDuration cfg ''dataengine.outbox.poll_interval'') (100 * Millisecond),
      oo_RetryMin = positive_or (cfg_GetDuration cfg ''dataengine.outbox.retry_min'') Second,
      oo_RetryMax = positive_or (cfg_GetDuration cfg ''dataengine.outbox.retry_max'') Minute,
      oo_MaxPending = cfg_GetInt64 cfg ''dataengine.outbox.max_pending'',
      oo_MaxOldestAge = cfg_GetDuration cfg ''dataengine.outbox.max_oldest_age'',
      oo_BacklogInterval = positive_or (cfg_GetDuration cfg ''dataengine.outbox.backlog_interval'') Second\<rparr>"

definition effect_stream :: "viper \<Rightarrow> string \<Rightarrow> stream_config" where
  "effect_stream cfg p =
     \<lparr>js_Name = or_default (TrimSpace (cfg_GetString cfg ''dataengine.effects.stream'')) ''ROOST_EFFECTS'',
      js_Subjects = [p @ ''.>''],
      js_MaxAge = positive_or (cfg_GetDuration cfg ''dataengine.effects.max_age'') (7 * Day),
      js_Duplicates = positive_or (cfg_GetDuration cfg ''dataengine.effects.duplicate_window'') (10 * Minute),
      js_Replicas = positive_or (cfg_GetInt cfg ''dataengine.effects.replicas'') 1,
      js_MaxBytes = positive_or (cfg_GetInt64 cfg ''dataengine.effects.max_bytes'') (8 * 2 ^ 30)\<rparr>"

definition pipelined_settings :: "viper \<Rightarrow> pipelined_config" where
  "pipelined_settings cfg =
     \<lparr>pl_Allowlist = cfg_GetStringSlice cfg ''nest.pipelined.allowlist'', pl_Async = cfg_GetBool cfg ''nest.pipelined.async'',
      pl_AsyncWorkers = cfg_GetInt cfg ''nest.pipelined.async_workers'',
      pl_AsyncQueueCap = cfg_GetInt cfg ''nest.pipelined.async_queue_capacity''\<rparr>"

definition DataEngineInit ::
  "(string \<Rightarrow> string) \<Rightarrow> (string \<Rightarrow> wal_options) \<Rightarrow> (string list \<Rightarrow> string) \<Rightarrow> projector_options \<Rightarrow> viper option \<Rightarrow>
   gerr + modConfig" where
  "DataEngineInit toLower walDefaults joinPath projectorDefaults vp =
     (let cfg = (case vp of None \<Rightarrow> empty_viper | Some c \<Rightarrow> c) in
      open_then (ResolvePersistenceEngine toLower (Some cfg)) (\<lambda>_.
        let sid = cfg_GetInt32 cfg ''sid'';
            database = or_default (TrimSpace (cfg_GetString cfg ''dataengine.database'')) ''game'';
            dir = or_default (TrimSpace (cfg_GetString cfg ''dataengine.wal.dir''))
                    (joinPath [''data'', ''wal'', ''dataengine'', FormatInt sid]) in
        open_then (writer_version_of (cfg_GetInt cfg ''dataengine.wal.writer_version'')) (\<lambda>version.
          let p = or_default (TrimByte (CHR ''.'') (TrimSpace (cfg_GetString cfg ''dataengine.effects.subject_prefix'')))
                    ''roost.effect'' in
          Inr \<lparr>mc_DefaultDatabase = database, mc_ServerID = sid,
               mc_TransactionReceiptTTL = positive_or (cfg_GetDuration cfg ''dataengine.transaction_receipt_ttl'') (30 * Day),
               mc_ReceiptTTL = positive_or (cfg_GetDuration cfg ''dataengine.receipt_ttl'') (30 * Day),
               mc_wal = wal_settings cfg (walDefaults dir) version,
               mc_projector = projector_settings cfg projectorDefaults,
               mc_outbox = outbox_settings cfg sid,
               mc_effectPrefix = p, mc_effectStream = effect_stream cfg p,
               mc_startupTimeout = positive_or (cfg_GetDuration cfg ''dataengine.startup_timeout'') (30 * Second),
               mc_shutdownTimeout = positive_or (cfg_GetDuration cfg ''dataengine.shutdown_timeout'') (30 * Second),
               mc_pipelined = pipelined_settings cfg\<rparr>)))"

section \<open>The Mod and its engine\<close>

text \<open>
  The operations of the assembled engine. \<open>eo_Runtime\<close> says whether it has a runtime, \<open>eo_Ready\<close> and
  \<open>eo_Projector\<close> whether that is ready and has a projector.
\<close>

record ('a, 'rec, 'tk) engine_ops =
  eo_Runtime :: "'a \<Rightarrow> bool"
  eo_Ready :: "'a \<Rightarrow> bool"
  eo_Projector :: "'a \<Rightarrow> bool"
  eo_Start :: "'a \<Rightarrow> gerr option \<times> 'a"
  eo_Shutdown :: "'a option \<Rightarrow> gerr option \<times> 'a option"
  eo_Flush :: "'a \<Rightarrow> gerr option \<times> 'a"
  eo_Commit :: "'rec \<Rightarrow> 'a \<Rightarrow> gerr option \<times> 'a"
  eo_Enqueue :: "'rec \<Rightarrow> 'a \<Rightarrow> (gerr + 'tk) \<times> 'a"
  eo_DurableLSN :: "'a \<Rightarrow> int"
  eo_TransactionReleased :: "string \<Rightarrow> 'a \<Rightarrow> 'a"
  eo_projector_Healthy :: "'a \<Rightarrow> gerr option"
  eo_outbox_Healthy :: "'a \<Rightarrow> gerr option"
  eo_RefreshBacklog :: "'a \<Rightarrow> gerr option \<times> 'a"
  eo_HealthMessage :: "'a \<Rightarrow> string"

text \<open>\<open>dm_registry\<close> says that \<open>Provide\<close> kept the registry.\<close>

record 'a dataengine =
  dm_remoteEnabled :: bool
  dm_access :: bool
  dm_cfg :: "modConfig option"
  dm_registry :: bool
  dm_asm :: "'a option"
  dm_fatalErr :: "gerr option"

definition NewDataEngine :: "bool \<Rightarrow> bool \<Rightarrow> 'a dataengine" where
  "NewDataEngine remoteEnabled access =
     \<lparr>dm_remoteEnabled = remoteEnabled, dm_access = access, dm_cfg = None, dm_registry = False, dm_asm = None,
      dm_fatalErr = None\<rparr>"

text \<open>
  \<open>Provide\<close>: \<open>has\<close> is \<open>app.Lookup\<close> of a present capability, \<open>assemble\<close> is \<open>engine.Assemble\<close> on what was found,
  \<open>self\<close> what is published. The registry keeps the Mod even when the health registry is missing.
\<close>

definition missing_capability :: "string \<Rightarrow> gerr" where
  "missing_capability name = [Foreign (''capability not found: '' @ name)]"

definition DataEngineProvide ::
  "string \<Rightarrow> string \<Rightarrow> string \<Rightarrow> string \<Rightarrow> string \<Rightarrow> string \<Rightarrow> ('r \<Rightarrow> string \<Rightarrow> bool) \<Rightarrow> (modConfig option \<Rightarrow> gerr + 'a) \<Rightarrow> 'c \<Rightarrow>
   ('r, 'c) registry option \<Rightarrow> 'a dataengine \<Rightarrow> 'r \<Rightarrow> gerr option \<times> 'a dataengine \<times> 'r" where
  "DataEngineProvide mongo jetStream remoteEntity atomicStore health name has assemble self registry m r =
     (case registry of
        None \<Rightarrow> (Some [Foreign ''dataengine mod: nil registry''], m, r)
      | Some rg \<Rightarrow>
          if \<not> dm_access m then (Some [Foreign ''dataengine mod: service-scoped entity access is required''], m, r)
          else if \<not> has r mongo then (Some (missing_capability mongo), m, r)
          else if \<not> has r jetStream then (Some (missing_capability jetStream), m, r)
          else if dm_remoteEnabled m \<and> \<not> has r remoteEntity then (Some (missing_capability remoteEntity), m, r)
          else if dm_remoteEnabled m \<and> \<not> has r atomicStore then (Some (missing_capability atomicStore), m, r)
          else (case assemble (dm_cfg m) of
                  Inl err \<Rightarrow> (Some err, m, r)
                | Inr asm \<Rightarrow>
                    let m' = m\<lparr>dm_registry := True, dm_asm := Some asm\<rparr> in
                    (case rg_Register rg name self r of
                       (Some err, r') \<Rightarrow> (Some err, m', r')
                     | (None, r') \<Rightarrow>
                         if has r' health then (None, m', r') else (Some (missing_capability health), m', r'))))"

definition runtime_of_mod :: "('a, 'rec, 'tk) engine_ops \<Rightarrow> 'a dataengine \<Rightarrow> 'a option" where
  "runtime_of_mod ops m = (case dm_asm m of None \<Rightarrow> None | Some a \<Rightarrow> if eo_Runtime ops a then Some a else None)"

text \<open>The gate in front of a commit: a runtime that is ready and has a projector.\<close>

definition projecting :: "('a, 'rec, 'tk) engine_ops \<Rightarrow> 'a dataengine \<Rightarrow> 'a option" where
  "projecting ops m =
     (case runtime_of_mod ops m of
        None \<Rightarrow> None
      | Some a \<Rightarrow> if eo_Ready ops a \<and> eo_Projector ops a then Some a else None)"

definition ErrCommitterRequired :: sentinel where
  "ErrCommitterRequired = Foreign ''nest: committer required''"

definition DataEngineCommit ::
  "('a, 'rec, 'tk) engine_ops \<Rightarrow> 'rec \<Rightarrow> 'a dataengine \<Rightarrow> gerr option \<times> 'a dataengine" where
  "DataEngineCommit ops record m =
     (case projecting ops m of
        None \<Rightarrow> (Some [ErrCommitterRequired], m)
      | Some a \<Rightarrow> (case eo_Commit ops record a of (e, a') \<Rightarrow> (e, m\<lparr>dm_asm := Some a'\<rparr>)))"

definition DataEngineEnqueue ::
  "('a, 'rec, 'tk) engine_ops \<Rightarrow> 'rec \<Rightarrow> 'a dataengine \<Rightarrow> (gerr + 'tk) \<times> 'a dataengine" where
  "DataEngineEnqueue ops record m =
     (case projecting ops m of
        None \<Rightarrow> (Inl [ErrCommitterRequired], m)
      | Some a \<Rightarrow> (case eo_Enqueue ops record a of (e, a') \<Rightarrow> (e, m\<lparr>dm_asm := Some a'\<rparr>)))"

definition DataEngineFlush :: "('a, 'rec, 'tk) engine_ops \<Rightarrow> 'a dataengine \<Rightarrow> gerr option \<times> 'a dataengine" where
  "DataEngineFlush ops m =
     (case runtime_of_mod ops m of
        None \<Rightarrow> (None, m)
      | Some a \<Rightarrow> (case eo_Flush ops a of (e, a') \<Rightarrow> (e, m\<lparr>dm_asm := Some a'\<rparr>)))"

definition DurableLSN :: "('a, 'rec, 'tk) engine_ops \<Rightarrow> 'a dataengine \<Rightarrow> int" where
  "DurableLSN ops m =
     (case runtime_of_mod ops m of
        None \<Rightarrow> 0
      | Some a \<Rightarrow> if eo_Projector ops a then eo_DurableLSN ops a else 0)"

definition TransactionReleased ::
  "('a, 'rec, 'tk) engine_ops \<Rightarrow> string \<Rightarrow> 'a dataengine \<Rightarrow> 'a dataengine" where
  "TransactionReleased ops txn m =
     (case runtime_of_mod ops m of
        None \<Rightarrow> m
      | Some a \<Rightarrow> if eo_Projector ops a then m\<lparr>dm_asm := Some (eo_TransactionReleased ops txn a)\<rparr> else m)"

definition DataEngineStart :: "('a, 'rec, 'tk) engine_ops \<Rightarrow> 'a dataengine \<Rightarrow> gerr option \<times> 'a dataengine" where
  "DataEngineStart ops m =
     (case dm_asm m of
        None \<Rightarrow> (Some [Foreign ''dataengine mod: not provided''], m)
      | Some a \<Rightarrow> (case eo_Start ops a of (e, a') \<Rightarrow> (e, m\<lparr>dm_asm := Some a'\<rparr>)))"

text \<open>\<open>StopWithContext\<close>: the assembly shuts down; what it does on the nil pointer is up to the engine too.\<close>

definition DataEngineStop :: "('a, 'rec, 'tk) engine_ops \<Rightarrow> 'a dataengine \<Rightarrow> gerr option \<times> 'a dataengine" where
  "DataEngineStop ops m = (case eo_Shutdown ops (dm_asm m) of (e, a') \<Rightarrow> (e, m\<lparr>dm_asm := a'\<rparr>))"

section \<open>The latch of a fatal outcome\<close>

text \<open>
  What \<open>onFatal\<close> does outside: the fences it put on Nest and the failures it handed to the application,
  oldest first, and whether the registry has the two.
\<close>

record fatal_world =
  fw_nest :: bool
  fw_failure :: bool
  fw_fences :: "gerr list"
  fw_failures :: "gerr list"

definition onFatal :: "gerr option \<Rightarrow> 'a dataengine \<times> fatal_world \<Rightarrow> 'a dataengine \<times> fatal_world" where
  "onFatal err s =
     (case (err, s) of
        (None, _) \<Rightarrow> s
      | (Some e, m, w) \<Rightarrow>
          let m' = (if dm_fatalErr m = None then m\<lparr>dm_fatalErr := Some e\<rparr> else m) in
          if \<not> dm_registry m' then (m', w)
          else (m', w\<lparr>fw_fences := fw_fences w @ (if fw_nest w then [e] else []),
                      fw_failures := fw_failures w @ (if fw_failure w then [e] else [])\<rparr>))"

datatype health_status = StatusOK | StatusFail

type_synonym health_result = "health_status \<times> string \<times> gerr option"

text \<open>\<open>errors.Join\<close> of two optional errors.\<close>

definition Join_errors :: "gerr option \<Rightarrow> gerr option \<Rightarrow> gerr option" where
  "Join_errors a b =
     (case (a, b) of (None, None) \<Rightarrow> None | (Some e, None) \<Rightarrow> Some e | (None, Some e) \<Rightarrow> Some e
                   | (Some e, Some e') \<Rightarrow> Some (e @ e'))"

definition dataengine_checkHealth ::
  "('a, 'rec, 'tk) engine_ops \<Rightarrow> 'a dataengine \<Rightarrow> health_result \<times> 'a dataengine" where
  "dataengine_checkHealth ops m =
     (case runtime_of_mod ops m of
        None \<Rightarrow> ((StatusFail, ''not ready'', None), m)
      | Some a \<Rightarrow>
          if \<not> eo_Ready ops a then ((StatusFail, ''not ready'', None), m)
          else (case dm_fatalErr m of
                  Some fatal \<Rightarrow> ((StatusFail, ''fenced'', Some fatal), m)
                | None \<Rightarrow>
                    (case Join_errors (eo_projector_Healthy ops a) (eo_outbox_Healthy ops a) of
                       Some err \<Rightarrow> ((StatusFail, ''unhealthy'', Some err), m)
                     | None \<Rightarrow>
                         let a' = snd (eo_RefreshBacklog ops a) in
                         ((StatusOK, eo_HealthMessage ops a', None), m\<lparr>dm_asm := Some a'\<rparr>))))"

section \<open>Nest\<close>

text \<open>The options of the engine, as far as the Mods choose them.\<close>

datatype 'o nest_option =
    WithGetter
  | WithWorkerNumAndMsgCap int int int
  | WithTickDuration duration
  | WithSyncTimeout duration
  | WithDelayedAdmission int duration
  | WithTransactionCommitter
  | WithPipelinedAllowlist "string list"
  | WithPipelinedAsyncCompletion int int
  | WithRemoteEntityManager
  | AppOption 'o

definition NestOptions :: "modConfig option \<Rightarrow> 'o nest_option list" where
  "NestOptions mcfg =
     [WithTransactionCommitter] @
     (case mcfg of
        None \<Rightarrow> []
      | Some c \<Rightarrow>
          (if pl_Allowlist (mc_pipelined c) \<noteq> [] then [WithPipelinedAllowlist (pl_Allowlist (mc_pipelined c))] else []) @
          (if pl_Async (mc_pipelined c)
           then [WithPipelinedAsyncCompletion (pl_AsyncWorkers (mc_pipelined c)) (pl_AsyncQueueCap (mc_pipelined c))]
           else []))"

record engineConfig =
  ec_workerNum :: int
  ec_hbWorkerNum :: int
  ec_queueCap :: int
  ec_tick :: duration
  ec_timeout :: duration
  ec_delayedCap :: int
  ec_maxDelay :: duration

definition ErrGetterNotSet :: sentinel where "ErrGetterNotSet = Foreign ''nest: getter not set''"

definition NestInit :: "(string \<Rightarrow> string) \<Rightarrow> bool \<Rightarrow> viper option \<Rightarrow> gerr + engineConfig" where
  "NestInit toLower hasGetter vp =
     (if \<not> hasGetter then Inl [ErrGetterNotSet]
      else let cfg = (case vp of None \<Rightarrow> empty_viper | Some c \<Rightarrow> c) in
        open_then (ResolvePersistenceEngine toLower (Some cfg)) (\<lambda>_.
          Inr \<lparr>ec_workerNum = cfg_GetInt cfg ''nest.worker_num'', ec_hbWorkerNum = cfg_GetInt cfg ''nest.heartbeat_worker_num'',
               ec_queueCap = cfg_GetInt cfg ''nest.queue_capacity'', ec_tick = cfg_GetDuration cfg ''nest.tick_duration'',
               ec_timeout = cfg_GetDuration cfg ''nest.request_timeout'', ec_delayedCap = cfg_GetInt cfg ''nest.delayed_capacity'',
               ec_maxDelay = cfg_GetDuration cfg ''nest.max_delay''\<rparr>))"

text \<open>
  \<open>Provide\<close> answers the options it built the engine with. \<open>provider\<close> is the data engine's \<open>NestOptions\<close> when the
  capability is there; \<open>publish\<close> makes the value of a capability.
\<close>

definition nest_options ::
  "engineConfig \<Rightarrow> 'o nest_option list \<Rightarrow> bool \<Rightarrow> 'o list \<Rightarrow> 'o nest_option list" where
  "nest_options c engineOptions hasRemote own =
     [WithGetter, WithWorkerNumAndMsgCap (ec_workerNum c) (ec_hbWorkerNum c) (ec_queueCap c),
      WithTickDuration (ec_tick c), WithSyncTimeout (ec_timeout c), WithDelayedAdmission (ec_delayedCap c) (ec_maxDelay c)] @
     engineOptions @ (if hasRemote then [WithRemoteEntityManager] else []) @ map AppOption own"

definition NestProvide ::
  "string \<Rightarrow> string \<Rightarrow> string \<Rightarrow> bool \<Rightarrow> ('r \<Rightarrow> 'o nest_option list option) \<Rightarrow> ('r \<Rightarrow> bool) \<Rightarrow> ('o nest_option list \<Rightarrow> 'c) \<Rightarrow> 'c \<Rightarrow>
   'o list \<Rightarrow> ('r, 'c) registry option \<Rightarrow> engineConfig \<Rightarrow> ('r, 'o nest_option list) handler" where
  "NestProvide nest entityRuntime dataEngine hasGetter provider hasRemote engine getter own registry c r =
     (if \<not> hasGetter then (Inl [ErrGetterNotSet], r)
      else case registry of
        None \<Rightarrow> (Inl [Foreign ''nest mod: nil app registry''], r)
      | Some rg \<Rightarrow>
          (case provider r of
             None \<Rightarrow> (Inl (missing_capability dataEngine), r)
           | Some [] \<Rightarrow> (Inl [Foreign ''nest mod: data engine capability is not initialized''], r)
           | Some engineOptions \<Rightarrow>
               let opts = nest_options c engineOptions (hasRemote r) own;
                   caps = \<lparr>cp_Name = nest, cp_Value = engine opts\<rparr> #
                     (if rg_Get rg entityRuntime r = None then [\<lparr>cp_Name = entityRuntime, cp_Value = getter\<rparr>] else []) in
               (case RegisterAll (Some rg) caps r of
                  (Inl err, r') \<Rightarrow> (Inl err, r')
                | (Inr _, r') \<Rightarrow> (Inr opts, r'))))"

text \<open>\<open>checkHealth\<close>: \<open>engine\<close> is the provided engine, whether it runs, the three queue lengths and the delayed count.\<close>

definition nest_checkHealth :: "(bool \<times> int \<times> int \<times> int \<times> int) option \<Rightarrow> health_result" where
  "nest_checkHealth engine =
     (case engine of
        None \<Rightarrow> (StatusFail, ''engine not running'', None)
      | Some (running, main, heart, cost, delayed) \<Rightarrow>
          if \<not> running then (StatusFail, ''engine not running'', None)
          else (StatusOK, ''queue='' @ FormatInt (main + heart + cost) @ '' delayed='' @ FormatInt delayed, None))"

text \<open>Nest starts and stops its engine; \<open>start\<close> and \<open>shutdown\<close> are those of the engine.\<close>

definition NestStart :: "('e \<Rightarrow> 's \<Rightarrow> gerr option \<times> 's) \<Rightarrow> 'e option \<Rightarrow> 's \<Rightarrow> gerr option \<times> 's" where
  "NestStart start engine s =
     (case engine of None \<Rightarrow> (Some [Foreign ''nest mod: engine not provided''], s) | Some e \<Rightarrow> start e s)"

definition NestStop :: "('e \<Rightarrow> 's \<Rightarrow> gerr option \<times> 's) \<Rightarrow> 'e option \<Rightarrow> 's \<Rightarrow> gerr option \<times> 's" where
  "NestStop shutdown engine s = (case engine of None \<Rightarrow> (None, s) | Some e \<Rightarrow> shutdown e s)"

end
