(* ===== verification/EngineModsProps.thy ===== *)
theory EngineModsProps
  imports EngineMods
begin

text \<open>
  Properties of the storage engine Mod and of Nest: the bounds of an accepted configuration, the latch of a
  fatal outcome, and that Nest never runs without a transaction committer.
\<close>

section \<open>Bounds of the configuration\<close>

lemma TrimByte_ends: "TrimByte c s = [] \<or> hd (TrimByte c s) \<noteq> c \<and> last (TrimByte c s) \<noteq> c"
proof (cases "TrimByte c s = []")
  case False
  define a where "a = dropWhile (\<lambda>d. d = c) s"
  define b where "b = dropWhile (\<lambda>d. d = c) (rev a)"
  have t: "TrimByte c s = rev b" by (simp add: TrimByte_def a_def b_def)
  with False have b: "b \<noteq> []" by simp
  then have "hd b \<noteq> c" using hd_dropWhile [of "\<lambda>d. d = c" "rev a"] unfolding b_def by blast
  moreover have "hd (rev b) = hd a"
  proof -
    have "rev a = takeWhile (\<lambda>d. d = c) (rev a) @ b" by (simp add: b_def)
    then have "a = rev b @ rev (takeWhile (\<lambda>d. d = c) (rev a))" by (metis rev_append rev_rev_ident)
    then show ?thesis using b by (metis hd_append2 rev_is_Nil_conv)
  qed
  moreover have "a \<noteq> []" using b by (auto simp: b_def)
  then have "hd a \<noteq> c" using hd_dropWhile [of "\<lambda>d. d = c" s] unfolding a_def by blast
  ultimately show ?thesis using b by (simp add: t last_rev)
qed simp

lemma or_default_ends:
  assumes "or_default (TrimByte c s) fallback = p" "fallback \<noteq> []" "hd fallback \<noteq> c" "last fallback \<noteq> c"
  shows "p \<noteq> [] \<and> hd p \<noteq> c \<and> last p \<noteq> c"
  using assms TrimByte_ends [of c s] by (auto simp: or_default_def split: if_splits)

definition positive_wal :: "wal_options \<Rightarrow> bool" where
  "positive_wal w \<longleftrightarrow> 0 < wo_SegmentBytes w \<and> 0 < wo_QueueCapacity w \<and> 0 < wo_GroupCommitInterval w \<and>
     0 < wo_MaxDiskBytes w \<and> 0 < wo_MaxUnackedAge w"

definition positive_projector :: "projector_options \<Rightarrow> bool" where
  "positive_projector p \<longleftrightarrow> 0 < po_RetryMin p \<and> 0 < po_RetryMax p \<and> 0 < po_ReplayBatchRecords p \<and>
     0 < po_ReplayBatchBytes p"

definition positive_outbox :: "outbox_options \<Rightarrow> bool" where
  "positive_outbox o' \<longleftrightarrow> 0 < oo_Workers o' \<and> 0 < oo_BatchSize o' \<and> 0 < oo_LeaseDuration o' \<and> 0 < oo_PollInterval o' \<and>
     0 < oo_RetryMin o' \<and> 0 < oo_RetryMax o' \<and> 0 < oo_BacklogInterval o'"

definition positive_stream :: "stream_config \<Rightarrow> bool" where
  "positive_stream j \<longleftrightarrow> 0 < js_MaxAge j \<and> 0 < js_Duplicates j \<and> 0 < js_Replicas j \<and> 0 < js_MaxBytes j"

lemmas duration_defs = Second_def Minute_def Hour_def Day_def Millisecond_def

lemma wal_settings_positive: "positive_wal w \<Longrightarrow> positive_wal (wal_settings cfg w v)"
  by (simp add: positive_wal_def wal_settings_def positive_or_pos)

lemma projector_settings_positive: "positive_projector p \<Longrightarrow> positive_projector (projector_settings cfg p)"
  by (simp add: positive_projector_def projector_settings_def positive_or_pos)

lemma outbox_settings_positive: "positive_outbox (outbox_settings cfg sid)"
  by (simp add: positive_outbox_def outbox_settings_def positive_or_pos duration_defs)

lemma effect_stream_positive: "positive_stream (effect_stream cfg p)"
  by (simp add: positive_stream_def effect_stream_def positive_or_pos duration_defs)

text \<open>An accepted storage configuration is usable, whatever was written in it. Over engine defaults
  that are positive, every batch, queue, worker count, interval, receipt lifetime and timeout is positive
  (zero and negative settings select the default); the writer version is 1 or 2 and any other is refused;
  the effect prefix is not empty and has no dot at either end, so the one subject of the stream,
  the prefix followed by \<open>.>\<close>, has no empty token at its ends.\<close>

theorem dataengine_config_bounds:
  assumes "\<And>dir. positive_wal (walDefaults dir)" and "positive_projector projectorDefaults"
    and "DataEngineInit toLower walDefaults joinPath projectorDefaults (Some cfg) = Inr c"
  shows "positive_wal (mc_wal c) \<and> positive_projector (mc_projector c) \<and> positive_outbox (mc_outbox c) \<and>
    positive_stream (mc_effectStream c) \<and> 0 < mc_TransactionReceiptTTL c \<and> 0 < mc_ReceiptTTL c \<and>
    0 < mc_startupTimeout c \<and> 0 < mc_shutdownTimeout c \<and> mc_DefaultDatabase c \<noteq> [] \<and>
    cfg_GetInt cfg ''dataengine.wal.writer_version'' \<in> {0, 1, 2} \<and>
    (wo_WriterVersion (mc_wal c) = WriterVersionV1 \<longleftrightarrow> cfg_GetInt cfg ''dataengine.wal.writer_version'' = 1) \<and>
    js_Subjects (mc_effectStream c) = [mc_effectPrefix c @ ''.>''] \<and>
    mc_effectPrefix c \<noteq> [] \<and> hd (mc_effectPrefix c) \<noteq> CHR ''.'' \<and> last (mc_effectPrefix c) \<noteq> CHR ''.''"
proof -
  obtain v dir p where v: "writer_version_of (cfg_GetInt cfg ''dataengine.wal.writer_version'') = Inr v"
    and p: "or_default (TrimByte (CHR ''.'') (TrimSpace (cfg_GetString cfg ''dataengine.effects.subject_prefix''))) ''roost.effect'' = p"
    and c: "mc_wal c = wal_settings cfg (walDefaults dir) v" "mc_projector c = projector_settings cfg projectorDefaults"
      "mc_outbox c = outbox_settings cfg (cfg_GetInt32 cfg ''sid'')" "mc_effectPrefix c = p"
      "mc_effectStream c = effect_stream cfg p" "0 < mc_TransactionReceiptTTL c" "0 < mc_ReceiptTTL c"
      "0 < mc_startupTimeout c" "0 < mc_shutdownTimeout c" "mc_DefaultDatabase c \<noteq> []"
    using assms(3)
    by (auto simp: DataEngineInit_def Let_def open_then_Inr_iff positive_or_pos duration_defs or_default_def)
  have "cfg_GetInt cfg ''dataengine.wal.writer_version'' \<in> {0, 1, 2} \<and>
      (v = WriterVersionV1 \<longleftrightarrow> cfg_GetInt cfg ''dataengine.wal.writer_version'' = 1)"
    using v by (auto simp: writer_version_of_def split: if_splits)
  moreover have "p \<noteq> [] \<and> hd p \<noteq> CHR ''.'' \<and> last p \<noteq> CHR ''.''"
    by (rule or_default_ends [OF p]) simp_all
  ultimately show ?thesis
    using assms(1,2) c
    by (simp add: wal_settings_positive projector_settings_positive outbox_settings_positive effect_stream_positive)
       (simp add: wal_settings_def effect_stream_def)
qed

definition ex_wal :: wal_options where
  "ex_wal = \<lparr>wo_dir = ''data'', wo_WriterVersion = WriterVersionV2, wo_SegmentBytes = 1, wo_QueueCapacity = 1,
     wo_GroupCommitInterval = 1, wo_MaxDiskBytes = 1, wo_MaxUnackedAge = 1\<rparr>"

definition ex_projector :: projector_options where
  "ex_projector = \<lparr>po_RetryMin = 1, po_RetryMax = 1, po_ReplayBatchRecords = 1, po_ReplayBatchBytes = 1\<rparr>"

lemma dataengine_config_bounds_witness:
  "\<exists>c. DataEngineInit (\<lambda>s. s) (\<lambda>_. ex_wal) concat ex_projector (Some empty_viper) = Inr c \<and> hd (mc_effectPrefix c) \<noteq> CHR ''.''"
proof -
  have blank: "TrimSpace [] = []" by (simp add: TrimSpace_def)
  have "\<exists>c. DataEngineInit (\<lambda>s. s) (\<lambda>_. ex_wal) concat ex_projector (Some empty_viper) = Inr c"
    by (simp add: DataEngineInit_def ResolvePersistenceEngine_def empty_viper_def blank writer_version_of_def
        open_then_def Let_def)
  then obtain c where c: "DataEngineInit (\<lambda>s. s) (\<lambda>_. ex_wal) concat ex_projector (Some empty_viper) = Inr c" by blast
  have "\<And>dir. positive_wal ex_wal" "positive_projector ex_projector"
    by (simp_all add: positive_wal_def positive_projector_def ex_wal_def ex_projector_def)
  from dataengine_config_bounds [OF this c] c show ?thesis by blast
qed

section \<open>The latch\<close>

text \<open>What may happen to the Mod once it was provided.\<close>

datatype 'rec engine_event =
    CommitCall 'rec | EnqueueCall 'rec | FlushCall | ReleaseCall string | HealthCall | FatalCall "gerr option"

fun engine_step ::
  "('a, 'rec, 'tk) engine_ops \<Rightarrow> 'rec engine_event \<Rightarrow> 'a dataengine \<times> fatal_world \<Rightarrow> 'a dataengine \<times> fatal_world" where
  "engine_step ops (CommitCall record) (m, w) = (snd (DataEngineCommit ops record m), w)"
| "engine_step ops (EnqueueCall record) (m, w) = (snd (DataEngineEnqueue ops record m), w)"
| "engine_step ops FlushCall (m, w) = (snd (DataEngineFlush ops m), w)"
| "engine_step ops (ReleaseCall txn) (m, w) = (TransactionReleased ops txn m, w)"
| "engine_step ops HealthCall (m, w) = (snd (dataengine_checkHealth ops m), w)"
| "engine_step ops (FatalCall err) s = onFatal err s"

definition fatals :: "'rec engine_event list \<Rightarrow> gerr list" where
  "fatals evs = List.map_filter (\<lambda>ev. case ev of FatalCall err \<Rightarrow> err | _ \<Rightarrow> None) evs"

lemma fatals_simps [simp]:
  "fatals [] = []"
  "fatals (ev # evs) = (case ev of FatalCall (Some e) \<Rightarrow> e # fatals evs | _ \<Rightarrow> fatals evs)"
  by (simp_all add: fatals_def List.map_filter_def split: engine_event.split option.split)

text \<open>Only \<open>onFatal\<close> touches the latch, and no step loses the registry.\<close>

lemma quiet_step:
  assumes "engine_step ops ev (m, w) = (m', w')" and "\<And>e. ev \<noteq> FatalCall (Some e)"
  shows "dm_fatalErr m' = dm_fatalErr m \<and> dm_registry m' = dm_registry m \<and> w' = w"
  using assms
  by (cases ev)
    (auto simp: DataEngineCommit_def DataEngineEnqueue_def DataEngineFlush_def TransactionReleased_def
      dataengine_checkHealth_def onFatal_def Let_def split: option.splits prod.splits if_splits)

lemma fatal_step:
  assumes "dm_registry m" "fw_nest w" "fw_failure w"
  shows "\<exists>m'. engine_step ops (FatalCall (Some e)) (m, w) =
    (m', w\<lparr>fw_fences := fw_fences w @ [e], fw_failures := fw_failures w @ [e]\<rparr>) \<and> dm_registry m' \<and>
    dm_fatalErr m' = (case dm_fatalErr m of None \<Rightarrow> Some e | Some first \<Rightarrow> Some first)"
  using assms by (auto simp: onFatal_def Let_def split: option.split)

lemma run_latch:
  assumes "dm_registry m" "fw_nest w" "fw_failure w"
  shows "\<exists>m' w'. fold (engine_step ops) evs (m, w) = (m', w') \<and> dm_registry m' \<and>
    fw_fences w' = fw_fences w @ fatals evs \<and> fw_failures w' = fw_failures w @ fatals evs \<and>
    dm_fatalErr m' = (case dm_fatalErr m of Some first \<Rightarrow> Some first
                      | None \<Rightarrow> (case fatals evs of [] \<Rightarrow> None | e # _ \<Rightarrow> Some e))"
  using assms
proof (induction evs arbitrary: m w)
  case (Cons ev evs)
  show ?case
  proof (cases "\<exists>e. ev = FatalCall (Some e)")
    case True
    then obtain e where ev: "ev = FatalCall (Some e)" by blast
    from fatal_step [OF Cons.prems, of ops e] obtain m1 where
      s: "engine_step ops ev (m, w) = (m1, w\<lparr>fw_fences := fw_fences w @ [e], fw_failures := fw_failures w @ [e]\<rparr>)"
      "dm_registry m1" "dm_fatalErr m1 = (case dm_fatalErr m of None \<Rightarrow> Some e | Some first \<Rightarrow> Some first)"
      unfolding ev by blast
    have run: "fold (engine_step ops) (ev # evs) (m, w) =
        fold (engine_step ops) evs (m1, w\<lparr>fw_fences := fw_fences w @ [e], fw_failures := fw_failures w @ [e]\<rparr>)"
      by (simp add: s(1) del: engine_step.simps)
    have f: "fatals (ev # evs) = e # fatals evs" by (simp add: ev)
    from Cons.IH [OF s(2), of "w\<lparr>fw_fences := fw_fences w @ [e], fw_failures := fw_failures w @ [e]\<rparr>"] Cons.prems
    show ?thesis unfolding run f by (auto simp: s(3) split: option.splits)
  next
    case False
    obtain m1 w1 where s: "engine_step ops ev (m, w) = (m1, w1)" by fastforce
    from quiet_step [OF s] False have q: "dm_fatalErr m1 = dm_fatalErr m" "dm_registry m1 = dm_registry m" "w1 = w" by auto
    have "fatals (ev # evs) = fatals evs" using False by (auto split: engine_event.split option.split)
    with Cons.IH [of m1 w1] Cons.prems q show ?thesis unfolding \<open>fatals (ev # evs) = fatals evs\<close> by (simp add: s)
  qed
qed (simp split: option.split)

text \<open>C30: A fatal storage outcome is final. Over any run of calls on a provided Mod, the first fatal error
  is the one that is kept; from then on the health check never answers OK, and once the engine is ready it
  answers the kept error; and Nest was fenced and the application failed with every fatal error, in the
  order they came.\<close>

theorem fatal_is_final:
  assumes "dm_registry m" "dm_fatalErr m = None" "fw_nest w" "fw_failure w" "fw_fences w = []" "fw_failures w = []"
    and "fold (engine_step ops) evs (m, w) = (m', w')" and "fatals evs = e # rest"
  shows "dm_fatalErr m' = Some e \<and> fw_fences w' = e # rest \<and> fw_failures w' = e # rest \<and>
    (case fst (dataengine_checkHealth ops m') of (status, message, err) \<Rightarrow>
       status = StatusFail \<and>
       (message = ''fenced'' \<and> err = Some e \<or>
        message = ''not ready'' \<and> (\<forall>a. runtime_of_mod ops m' = Some a \<longrightarrow> \<not> eo_Ready ops a)))"
proof -
  from run_latch [OF assms(1,3,4), of ops evs] assms(2,5-)
  have "dm_fatalErr m' = Some e" "fw_fences w' = e # rest" "fw_failures w' = e # rest" by auto
  then show ?thesis by (simp add: dataengine_checkHealth_def split: option.split)
qed

definition ex_engine :: "(nat, unit, unit) engine_ops" where
  "ex_engine = \<lparr>eo_Runtime = (\<lambda>_. True), eo_Ready = (\<lambda>_. True), eo_Projector = (\<lambda>_. True), eo_Start = (\<lambda>a. (None, a)),
     eo_Shutdown = (\<lambda>a. (None, a)), eo_Flush = (\<lambda>a. (None, a)), eo_Commit = (\<lambda>_ a. (None, Suc a)),
     eo_Enqueue = (\<lambda>_ a. (Inr (), Suc a)), eo_DurableLSN = int, eo_TransactionReleased = (\<lambda>_ a. a),
     eo_projector_Healthy = (\<lambda>_. None), eo_outbox_Healthy = (\<lambda>_. None), eo_RefreshBacklog = (\<lambda>a. (None, a)),
     eo_HealthMessage = (\<lambda>_. ''ok'')\<rparr>"

lemma fatal_is_final_witness:
  "\<exists>m' w'. fold (engine_step ex_engine) [HealthCall, FatalCall (Some [Foreign ''disk'']), CommitCall (), FatalCall (Some [StoreConflict])]
      ((NewDataEngine False True)\<lparr>dm_registry := True, dm_asm := Some 0\<rparr>,
       \<lparr>fw_nest = True, fw_failure = True, fw_fences = [], fw_failures = []\<rparr>) = (m', w') \<and>
     dm_fatalErr m' = Some [Foreign ''disk''] \<and> length (fw_fences w') = 2"
proof -
  let ?evs = "[HealthCall, FatalCall (Some [Foreign ''disk'']), CommitCall (), FatalCall (Some [StoreConflict])]"
  let ?m = "(NewDataEngine False True)\<lparr>dm_registry := True, dm_asm := Some (0 :: nat)\<rparr>"
  let ?w = "\<lparr>fw_nest = True, fw_failure = True, fw_fences = [], fw_failures = []\<rparr>"
  obtain m' w' where r: "fold (engine_step ex_engine) ?evs (?m, ?w) = (m', w')" by fastforce
  have "dm_fatalErr m' = Some [Foreign ''disk''] \<and> fw_fences w' = [[Foreign ''disk''], [StoreConflict]]"
    using fatal_is_final [OF _ _ _ _ _ _ r, of "[Foreign ''disk'']" "[[StoreConflict]]"]
    by (simp add: NewDataEngine_def)
  with r show ?thesis by auto
qed

section \<open>Nest and its committer\<close>

text \<open>The data engine always offers its committer.\<close>

lemma NestOptions_committer: "WithTransactionCommitter \<in> set (NestOptions c)"
  by (simp add: NestOptions_def)

lemma NestOptions_nonempty: "NestOptions c \<noteq> []"
  by (simp add: NestOptions_def)

text \<open>
  Nest is built only with the options of a data engine; over the kit's own data engine these hold the
  transaction committer, and a process without a data engine has no Nest and an untouched registry.
\<close>

lemma nest_needs_committer:
  assumes "NestProvide nest entityRuntime dataEngine hasGetter provider hasRemote engine getter own (Some rg) c r = (res, r')"
  shows "provider r = None \<or> provider r = Some [] \<Longrightarrow> isl res \<and> r' = r"
    and "provider r = Some (NestOptions mcfg) \<Longrightarrow> res = Inr opts \<Longrightarrow> WithTransactionCommitter \<in> set opts"
proof -
  assume "provider r = None \<or> provider r = Some []"
  with assms show "isl res \<and> r' = r" by (auto simp: NestProvide_def split: if_splits)
next
  assume p: "provider r = Some (NestOptions mcfg)" and res: "res = Inr opts"
  have "opts = nest_options c (NestOptions mcfg) (hasRemote r) own"
    using assms unfolding NestProvide_def p res
    by (auto simp: Let_def NestOptions_nonempty split: if_splits sum.splits prod.splits list.splits)
  then show "WithTransactionCommitter \<in> set opts" by (simp add: nest_options_def NestOptions_committer)
qed

text \<open>A commit that arrives before the engine is ready is refused and leaves the Mod as it was.\<close>

lemma commit_gate:
  assumes "projecting ops m = None"
  shows "DataEngineCommit ops record m = (Some [ErrCommitterRequired], m)"
    "DataEngineEnqueue ops record m = (Inl [ErrCommitterRequired], m)"
  using assms by (simp_all add: DataEngineCommit_def DataEngineEnqueue_def)

end
