(* ===== verification/Connections.thy ===== *)
theory Connections
  imports EngineMods
begin

text \<open>
  The Mods that hold a connection for the rest of the process: \<open>redis/redis_mod.go\<close>, \<open>mongo/mongo_mod.go\<close>,
  \<open>etcd/etcd_mod.go\<close> and \<open>nats/nats_mod.go\<close>. Each reads its configuration over the defaults of the driver,
  assembles the connection, watches its health, publishes it and closes it again.

  The drivers are parameters: the operations the Mods call, on a state \<open>'s\<close> of everything outside, to which the
  application registry belongs as well. A handle \<open>'a\<close> stands for the pointer to an assembled connection.
\<close>

section \<open>What the connection Mods share\<close>

record ('a, 's) conn_ops =
  cn_Assemble :: "'s \<Rightarrow> (gerr + 'a) \<times> 's"
  cn_Ping :: "'a \<Rightarrow> 's \<Rightarrow> gerr option \<times> 's"
  cn_Close :: "'a \<Rightarrow> 's \<Rightarrow> gerr option \<times> 's"

text \<open>The health registry: whether the application has one, and the registration of a named checker.\<close>

record 's health_ops =
  hp_Has :: "'s \<Rightarrow> bool"
  hp_Register :: "string \<Rightarrow> 's \<Rightarrow> 's"

text \<open>\<open>Registry.Register\<close> as a handler.\<close>

definition registerE :: "('s, 'c) registry \<Rightarrow> string \<Rightarrow> 'c \<Rightarrow> ('s, unit) handler" where
  "registerE rg name v s = (case rg_Register rg name v s of (Some err, s') \<Rightarrow> (Inl err, s') | (None, s') \<Rightarrow> (Inr (), s'))"

text \<open>
  \<open>Provide\<close> of redis, mongo and etcd: the field is set as soon as the connection is assembled, so it is also
  set when a later step fails; \<open>publish\<close> is the last step.
\<close>

definition provide_conn ::
  "('a, 's) conn_ops \<Rightarrow> 's health_ops \<Rightarrow> string \<Rightarrow> gerr \<Rightarrow> ('a \<Rightarrow> ('s, unit) handler) \<Rightarrow> 'a option \<Rightarrow> 's \<Rightarrow>
   (gerr + unit) \<times> 'a option \<times> 's" where
  "provide_conn ops hp name missing publish m s =
     (case cn_Assemble ops s of
        (Inl err, s1) \<Rightarrow> (Inl err, m, s1)
      | (Inr a, s1) \<Rightarrow>
          if \<not> hp_Has hp s1 then (Inl missing, Some a, s1)
          else (case publish a (hp_Register hp name s1) of (r, s2) \<Rightarrow> (r, Some a, s2)))"

definition conn_health :: "('a, 's) conn_ops \<Rightarrow> string \<Rightarrow> 'a option \<Rightarrow> 's \<Rightarrow> health_result \<times> 's" where
  "conn_health ops failed m s =
     (case m of
        None \<Rightarrow> ((StatusFail, ''client not initialized'', None), s)
      | Some a \<Rightarrow>
          (case cn_Ping ops a s of
             (Some err, s') \<Rightarrow> ((StatusFail, failed, Some err), s')
           | (None, s') \<Rightarrow> ((StatusOK, ''connected'', None), s')))"

section \<open>Redis\<close>

record redis_settings =
  rds_Addr :: string
  rds_Password :: string
  rds_DB :: int
  rds_PoolSize :: int
  rds_MinIdleConns :: int
  rds_ClusterAddrs :: "string list"

definition RedisModInit :: "(string \<Rightarrow> redis_settings) \<Rightarrow> viper \<Rightarrow> redis_settings" where
  "RedisModInit DefaultConfig cfg =
     (let c = DefaultConfig (or_default (cfg_GetString cfg ''redis.addr'') ''localhost:6379'');
          clusterAddrs = cfg_GetString cfg ''redis.cluster_addrs'' in
      c\<lparr>rds_Password := cfg_GetString cfg ''redis.password'',
        rds_DB := cfg_GetInt cfg ''redis.db'',
        rds_PoolSize := positive_or (cfg_GetInt cfg ''redis.pool_size'') (rds_PoolSize c),
        rds_MinIdleConns := positive_or (cfg_GetInt cfg ''redis.min_idle_conns'') (rds_MinIdleConns c),
        rds_ClusterAddrs := (if clusterAddrs \<noteq> [] then Split (CHR '','') clusterAddrs else rds_ClusterAddrs c)\<rparr>)"

definition ModRedisLock :: string where "ModRedisLock = ''redis.lock''"

definition RedisModProvide ::
  "('a, 's) conn_ops \<Rightarrow> 's health_ops \<Rightarrow> string \<Rightarrow> ('s, 'c) registry \<Rightarrow> ('a \<Rightarrow> 'c) \<Rightarrow> ('a \<Rightarrow> 'c) \<Rightarrow> 'a option \<Rightarrow> 's \<Rightarrow>
   (gerr + unit) \<times> 'a option \<times> 's" where
  "RedisModProvide ops hp health rg client locks =
     provide_conn ops hp ''redis'' (missing_capability health)
       (\<lambda>a. RegisterAll (Some rg) [\<lparr>cp_Name = ModRedis, cp_Value = client a\<rparr>, \<lparr>cp_Name = ModRedisLock, cp_Value = locks a\<rparr>])"

definition redis_health :: "('a, 's) conn_ops \<Rightarrow> 'a option \<Rightarrow> 's \<Rightarrow> health_result \<times> 's" where
  "redis_health ops = conn_health ops ''ping failed''"

text \<open>\<open>Start\<close>, of a provided Mod.\<close>

definition RedisModStart :: "('a, 's) conn_ops \<Rightarrow> 'a \<Rightarrow> 's \<Rightarrow> gerr option \<times> 's" where
  "RedisModStart ops a s = cn_Ping ops a s"

definition RedisModStop :: "('a, 's) conn_ops \<Rightarrow> 'a option \<Rightarrow> 's \<Rightarrow> gerr option \<times> 'a option \<times> 's" where
  "RedisModStop ops m s =
     (case m of
        None \<Rightarrow> (None, None, s)
      | Some a \<Rightarrow>
          (case cn_Close ops a s of
             (None, s') \<Rightarrow> (None, None, s')
           | (Some err, s') \<Rightarrow> (Some err, Some a, s')))"

section \<open>MongoDB\<close>

record mongo_settings =
  mgs_URI :: string
  mgs_ConnectTimeout :: duration
  mgs_MaxPoolSize :: int
  mgs_MinPoolSize :: int
  mgs_MaxIdleTime :: duration
  mgs_TransactionTimeout :: duration
  mgs_RequireReplicaSet :: bool

text \<open>The second component is \<open>IndexMigrationPolicy.AllowRecreate\<close>.\<close>

definition MongoModInit :: "(string \<Rightarrow> mongo_settings) \<Rightarrow> viper \<Rightarrow> mongo_settings \<times> bool" where
  "MongoModInit DefaultConfig cfg =
     (let c = DefaultConfig (or_default (cfg_GetString cfg ''mongo.uri'') ''mongodb://localhost:27017'') in
      (c\<lparr>mgs_ConnectTimeout := positive_or (cfg_GetDuration cfg ''mongo.connect_timeout'') (mgs_ConnectTimeout c),
         mgs_MaxPoolSize := positive_or (cfg_GetUint64 cfg ''mongo.max_pool_size'') (mgs_MaxPoolSize c),
         mgs_MinPoolSize := positive_or (cfg_GetUint64 cfg ''mongo.min_pool_size'') (mgs_MinPoolSize c),
         mgs_MaxIdleTime := positive_or (cfg_GetDuration cfg ''mongo.max_idle_time'') (mgs_MaxIdleTime c),
         mgs_TransactionTimeout :=
           positive_or (cfg_GetDuration cfg ''mongo.transaction_timeout'') (mgs_TransactionTimeout c),
         mgs_RequireReplicaSet :=
           (if cfg_IsSet cfg ''mongo.require_replica_set'' then cfg_GetBool cfg ''mongo.require_replica_set''
            else mgs_RequireReplicaSet c)\<rparr>,
       cfg_GetBool cfg ''mongo.index.allow_recreate''))"

definition ModMongo :: string where "ModMongo = ''mongo''"

definition MongoModProvide ::
  "('a, 's) conn_ops \<Rightarrow> 's health_ops \<Rightarrow> string \<Rightarrow> ('s, 'c) registry \<Rightarrow> ('a \<Rightarrow> 'c) \<Rightarrow> 'a option \<Rightarrow> 's \<Rightarrow>
   (gerr + unit) \<times> 'a option \<times> 's" where
  "MongoModProvide ops hp health rg client =
     provide_conn ops hp ''mongo'' (missing_capability health) (\<lambda>a. registerE rg ModMongo (client a))"

definition mongo_health :: "('a, 's) conn_ops \<Rightarrow> 'a option \<Rightarrow> 's \<Rightarrow> health_result \<times> 's" where
  "mongo_health ops = conn_health ops ''ping failed''"

text \<open>\<open>validate\<close> is \<open>ValidateDeployment\<close> when the client is the one of the driver.\<close>

definition MongoModStart ::
  "('a, 's) conn_ops \<Rightarrow> ('a \<Rightarrow> 's \<Rightarrow> gerr option \<times> 's) option \<Rightarrow> 'a \<Rightarrow> 's \<Rightarrow> gerr option \<times> 's" where
  "MongoModStart ops validate a s =
     (case cn_Ping ops a s of
        (Some err, s1) \<Rightarrow> (Some err, s1)
      | (None, s1) \<Rightarrow> (case validate of None \<Rightarrow> (None, s1) | Some check \<Rightarrow> check a s1))"

text \<open>\<open>ctxErr\<close> is what \<open>ctx.Err()\<close> answers.\<close>

definition MongoModStop ::
  "('a, 's) conn_ops \<Rightarrow> gerr option \<Rightarrow> 'a option \<Rightarrow> 's \<Rightarrow> gerr option \<times> 'a option \<times> 's" where
  "MongoModStop ops ctxErr m s =
     (case m of
        None \<Rightarrow> (None, None, s)
      | Some a \<Rightarrow>
          (case ctxErr of
             Some err \<Rightarrow> (Some err, Some a, s)
           | None \<Rightarrow>
               (case cn_Close ops a s of
                  (None, s') \<Rightarrow> (None, None, s')
                | (Some err, s') \<Rightarrow> (Some err, Some a, s'))))"

section \<open>etcd\<close>

record etcd_settings =
  ets_Endpoints :: "string list"
  ets_Username :: string
  ets_Password :: string
  ets_ServicePrefix :: string
  ets_LeaseTTL :: int
  ets_RegisterRetryMinInterval :: duration
  ets_RegisterRetryMaxInterval :: duration

record ServiceInfo =
  sif_ServiceType :: string
  sif_Sid :: int
  sif_Addr :: string
  sif_Metadata :: "(string \<times> string) list"

definition advertised_addr :: "viper \<Rightarrow> string \<Rightarrow> string" where
  "advertised_addr cfg svcType =
     (let addr = cfg_GetString cfg ''etcd.advertise_addr'' in
      if addr \<noteq> [] then addr
      else if svcType = ''gate''
           then or_default (cfg_GetString cfg ''gate.backend_advertise_addr'') (cfg_GetString cfg ''gate.backend_addr'')
      else if svcType = ''game'' then cfg_GetString cfg ''game.advertise_addr''
      else [])"

text \<open>A field that is written when it is not empty. An empty table is \<open>nil\<close>, which reads the same.\<close>

definition meta :: "string \<Rightarrow> string \<Rightarrow> (string \<times> string) list" where
  "meta field v = (if v = [] then [] else [(field, v)])"

definition serviceMetadata :: "viper \<Rightarrow> string \<Rightarrow> string \<Rightarrow> (string \<times> string) list" where
  "serviceMetadata cfg svcType addr =
     meta ''addr'' addr @
     (if svcType = ''gate''
      then meta ''mode'' (cfg_GetString cfg ''gate.mode'') @
           meta ''ws_addr'' (cfg_GetString cfg ''gate.ws_addr'') @
           meta ''ws_path'' (cfg_GetString cfg ''gate.ws_path'') @
           meta ''tcp_addr'' (cfg_GetString cfg ''gate.tcp_addr'') @
           (if cfg_GetString cfg ''gate.mode'' \<noteq> ''standalone''
            then meta ''backend_addr'' (cfg_GetString cfg ''gate.backend_addr'') else [])
      else [])"

definition EtcdModInit :: "(string list \<Rightarrow> etcd_settings) \<Rightarrow> viper \<Rightarrow> etcd_settings \<times> ServiceInfo" where
  "EtcdModInit DefaultConfig cfg =
     (let c = DefaultConfig (Split (CHR '','') (or_default (cfg_GetString cfg ''etcd.endpoints'') ''localhost:2379''));
          svcType = cfg_GetString cfg ''server_type'';
          addr = advertised_addr cfg svcType in
      (c\<lparr>ets_Username := cfg_GetString cfg ''etcd.username'', ets_Password := cfg_GetString cfg ''etcd.password'',
         ets_ServicePrefix := or_default (cfg_GetString cfg ''etcd.service_prefix'') (ets_ServicePrefix c),
         ets_LeaseTTL := positive_or (cfg_GetInt64 cfg ''etcd.lease_ttl'') (ets_LeaseTTL c),
         ets_RegisterRetryMinInterval :=
           positive_or (cfg_GetDuration cfg ''etcd.register_retry_min_interval'') (ets_RegisterRetryMinInterval c),
         ets_RegisterRetryMaxInterval :=
           positive_or (cfg_GetDuration cfg ''etcd.register_retry_max_interval'') (ets_RegisterRetryMaxInterval c)\<rparr>,
       \<lparr>sif_ServiceType = svcType, sif_Sid = cfg_GetInt32 cfg ''sid'', sif_Addr = addr,
        sif_Metadata = serviceMetadata cfg svcType addr\<rparr>))"

definition ModEtcd :: string where "ModEtcd = ''etcd''"
definition ModEtcdDiscov :: string where "ModEtcdDiscov = ''etcd.discovery''"
definition ModEtcdElection :: string where "ModEtcdElection = ''etcd.election''"

definition EtcdModProvide ::
  "('a, 's) conn_ops \<Rightarrow> 's health_ops \<Rightarrow> ('s, 'c) registry \<Rightarrow> ('a \<Rightarrow> 'c) \<Rightarrow> ('a \<Rightarrow> 'c) \<Rightarrow> ('a \<Rightarrow> 'c) \<Rightarrow> 'a option \<Rightarrow> 's \<Rightarrow>
   (gerr + unit) \<times> 'a option \<times> 's" where
  "EtcdModProvide ops hp rg client discovery election =
     provide_conn ops hp ''etcd'' [Foreign ''etcd mod: health registry not found'']
       (\<lambda>a. RegisterAll (Some rg)
          [\<lparr>cp_Name = ModEtcd, cp_Value = client a\<rparr>, \<lparr>cp_Name = ModEtcdDiscov, cp_Value = discovery a\<rparr>,
           \<lparr>cp_Name = ModEtcdElection, cp_Value = election a\<rparr>])"

definition etcd_health :: "('a, 's) conn_ops \<Rightarrow> 'a option \<Rightarrow> 's \<Rightarrow> health_result \<times> 's" where
  "etcd_health ops = conn_health ops ''status failed''"

definition EtcdModStart ::
  "('a \<Rightarrow> ServiceInfo \<Rightarrow> 's \<Rightarrow> gerr option \<times> 's) \<Rightarrow> ServiceInfo \<Rightarrow> 'a option \<Rightarrow> 's \<Rightarrow> gerr option \<times> 's" where
  "EtcdModStart start info m s =
     (case m of None \<Rightarrow> (Some [Foreign ''etcd mod: not provided''], s) | Some a \<Rightarrow> start a info s)"

text \<open>The field is kept: a second \<open>Stop\<close> closes again.\<close>

definition EtcdModStop :: "('a, 's) conn_ops \<Rightarrow> 'a option \<Rightarrow> 's \<Rightarrow> gerr option \<times> 'a option \<times> 's" where
  "EtcdModStop ops m s =
     (case m of None \<Rightarrow> (None, m, s) | Some a \<Rightarrow> (case cn_Close ops a s of (e, s') \<Rightarrow> (e, m, s')))"

end
