(* ===== verification/NatsMod.thy ===== *)
theory NatsMod
  imports Connections
begin

text \<open>
  The NATS Mod (\<open>nats/nats_mod.go\<close>): one connection with its JetStream and RPC clients, the bus that is built on
  them from the application's configuration, and the order in which both are given back. The driver and the bus
  are parameters, operations on the state \<open>'s\<close> of everything outside.
\<close>

section \<open>Configuration\<close>

record nats_settings =
  nts_URL :: string
  nts_IgnoreDiscoveredServers :: bool

definition NatsModInit :: "viper \<Rightarrow> nats_settings" where
  "NatsModInit cfg =
     \<lparr>nts_URL = or_default (cfg_GetString cfg ''nats.url'') ''nats://localhost:4222'',
      nts_IgnoreDiscoveredServers = cfg_GetBool cfg ''nats.ignore_discovered_servers''\<rparr>"

record bus_config =
  bc_Sid :: int
  bc_SvcType :: string
  bc_Prefix :: string
  bc_WorkerNum :: int
  bc_QueueCap :: int

definition bus_settings :: "viper \<Rightarrow> bus_config" where
  "bus_settings cfg =
     \<lparr>bc_Sid = cfg_GetInt32 cfg ''sid'', bc_SvcType = cfg_GetString cfg ''server_type'',
      bc_Prefix = or_default (cfg_GetString cfg ''nats.prefix'') ''roost'',
      bc_WorkerNum = positive_or (cfg_GetInt cfg ''nats.worker_num'') 8, bc_QueueCap = 1024\<rparr>"

record JetStreamRPCConfig =
  jr_RequestStream :: string
  jr_ResponseStream :: string
  jr_AckWait :: duration
  jr_MaxDeliver :: int
  jr_RequestTTL :: duration
  jr_CallTimeout :: duration
  jr_StreamMaxAge :: duration
  jr_Duplicates :: duration
  jr_Replicas :: int
  jr_MaxBytes :: int
  jr_SetupTimeout :: duration

definition jetStreamRPCConfigFromViper :: "(string \<Rightarrow> string) \<Rightarrow> viper option \<Rightarrow> JetStreamRPCConfig option" where
  "jetStreamRPCConfigFromViper toLower vp =
     (case vp of
        None \<Rightarrow> None
      | Some cfg \<Rightarrow>
          let transport = toLower (TrimSpace (cfg_GetString cfg ''nats.rpc.transport'')) in
          if transport = ''jetstream'' \<or> transport = ''js''
          then Some \<lparr>jr_RequestStream = cfg_GetString cfg ''nats.rpc.request_stream'',
                     jr_ResponseStream = cfg_GetString cfg ''nats.rpc.response_stream'',
                     jr_AckWait = cfg_GetDuration cfg ''nats.rpc.ack_wait'',
                     jr_MaxDeliver = cfg_GetInt cfg ''nats.rpc.max_deliver'',
                     jr_RequestTTL = cfg_GetDuration cfg ''nats.rpc.request_ttl'',
                     jr_CallTimeout = cfg_GetDuration cfg ''nats.rpc.call_timeout'',
                     jr_StreamMaxAge = cfg_GetDuration cfg ''nats.rpc.stream_max_age'',
                     jr_Duplicates = cfg_GetDuration cfg ''nats.rpc.duplicates'',
                     jr_Replicas = cfg_GetInt cfg ''nats.rpc.replicas'',
                     jr_MaxBytes = cfg_GetInt64 cfg ''nats.rpc.max_bytes'',
                     jr_SetupTimeout = cfg_GetDuration cfg ''nats.rpc.setup_timeout''\<rparr>
          else None)"

record ReliableConfig =
  rlc_Enabled :: bool
  rlc_Prefix :: string
  rlc_InboxTTL :: duration
  rlc_DLQTTL :: duration

definition reliable_settings :: "viper \<Rightarrow> ReliableConfig" where
  "reliable_settings cfg =
     \<lparr>rlc_Enabled = True, rlc_Prefix = cfg_GetString cfg ''nats.reliable.prefix'',
      rlc_InboxTTL = cfg_GetDuration cfg ''nats.reliable.inbox_ttl'',
      rlc_DLQTTL = cfg_GetDuration cfg ''nats.reliable.dlq_ttl''\<rparr>"

section \<open>The Mod\<close>

text \<open>
  \<open>nb_Stop\<close> is \<open>Inl\<close> a stop that takes the deadline and may fail, or \<open>Inr\<close> a plain stop: which one the bus
  has is asked at run time.
\<close>

record ('a, 'b, 'k, 's) bus_ops =
  nb_New :: "'a \<Rightarrow> bus_config \<Rightarrow> 's \<Rightarrow> 'b \<times> 's"
  nb_EnableJetStreamRPC :: "'b \<Rightarrow> 'a \<Rightarrow> JetStreamRPCConfig \<Rightarrow> 's \<Rightarrow> gerr option \<times> 's"
  nb_EnableReliable :: "'b \<Rightarrow> 'k \<Rightarrow> ReliableConfig \<Rightarrow> 's \<Rightarrow> 's"
  nb_RegisterAdminCommands :: "'b \<Rightarrow> 's \<Rightarrow> gerr option \<times> 's"
  nb_Start :: "'b \<Rightarrow> 's \<Rightarrow> gerr option \<times> 's"
  nb_Stop :: "('b \<Rightarrow> 's \<Rightarrow> gerr option \<times> 's) + ('b \<Rightarrow> 's \<Rightarrow> 's)"

record ('a, 'b) nats_mod =
  nm_asm :: "'a option"
  nm_bus :: "'b option"

definition ModNatsJetStream :: string where "ModNatsJetStream = ''nats.jetstream''"
definition ModNatsRpc :: string where "ModNatsRpc = ''nats.rpc''"

text \<open>The part of \<open>Provide\<close> after the bus was built; \<open>redis\<close> is the lookup of the Redis client.\<close>

definition provide_bus ::
  "('a, 'b, 'k, 's) bus_ops \<Rightarrow> (string \<Rightarrow> string) \<Rightarrow> ('s \<Rightarrow> 'k option) \<Rightarrow> ('s, 'c) registry \<Rightarrow> ('a \<Rightarrow> 'c) \<Rightarrow> ('a \<Rightarrow> 'c) \<Rightarrow>
   ('a \<Rightarrow> 'c) \<Rightarrow> ('b \<Rightarrow> 'c) \<Rightarrow> viper \<Rightarrow> 'a \<Rightarrow> 'b \<Rightarrow> ('s, unit) handler" where
  "provide_bus nb toLower redis rg client jetStream rpc busOf cfg a b =
     thenE (\<lambda>s. case jetStreamRPCConfigFromViper toLower (Some cfg) of
              None \<Rightarrow> (Inr (), s)
            | Some rpcCfg \<Rightarrow>
                (case nb_EnableJetStreamRPC nb b a rpcCfg s of (Some err, s') \<Rightarrow> (Inl err, s') | (None, s') \<Rightarrow> (Inr (), s')))
    (thenE (\<lambda>s. if cfg_GetBool cfg ''nats.reliable.enabled''
                then (case redis s of
                        None \<Rightarrow> (Inl [Foreign ''nats reliable bus requires redis mod''], s)
                      | Some k \<Rightarrow> (Inr (), nb_EnableReliable nb b k (reliable_settings cfg) s))
                else (Inr (), s))
    (thenE (\<lambda>s. case nb_RegisterAdminCommands nb b s of (Some err, s') \<Rightarrow> (Inl err, s') | (None, s') \<Rightarrow> (Inr (), s'))
       (RegisterAll (Some rg)
          [\<lparr>cp_Name = ModNats, cp_Value = client a\<rparr>, \<lparr>cp_Name = ModNatsJetStream, cp_Value = jetStream a\<rparr>,
           \<lparr>cp_Name = ModNatsRpc, cp_Value = rpc a\<rparr>, \<lparr>cp_Name = ModBus, cp_Value = busOf b\<rparr>])))"

definition NatsModProvide ::
  "('a, 's) conn_ops \<Rightarrow> ('a, 'b, 'k, 's) bus_ops \<Rightarrow> 's health_ops \<Rightarrow> ('s \<Rightarrow> bool) \<Rightarrow> (string \<Rightarrow> string) \<Rightarrow>
   ('s \<Rightarrow> 'k option) \<Rightarrow> ('s, 'c) registry \<Rightarrow> ('a \<Rightarrow> 'c) \<Rightarrow> ('a \<Rightarrow> 'c) \<Rightarrow> ('a \<Rightarrow> 'c) \<Rightarrow> ('b \<Rightarrow> 'c) \<Rightarrow> viper \<Rightarrow>
   ('a, 'b) nats_mod \<Rightarrow> 's \<Rightarrow> (gerr + unit) \<times> ('a, 'b) nats_mod \<times> 's" where
  "NatsModProvide ops nb hp hasAdmin toLower redis rg client jetStream rpc busOf cfg m s =
     (case cn_Assemble ops s of
        (Inl err, s1) \<Rightarrow> (Inl err, m, s1)
      | (Inr a, s1) \<Rightarrow>
          let m1 = m\<lparr>nm_asm := Some a\<rparr> in
          if \<not> hp_Has hp s1 then (Inl [Foreign ''nats mod: health registry not found''], m1, s1)
          else if \<not> hasAdmin s1 then (Inl [Foreign ''nats mod: admin registry not found''], m1, s1)
          else (case nb_New nb a (bus_settings cfg) (hp_Register hp ''nats'' s1) of
                  (b, s2) \<Rightarrow>
                    (case provide_bus nb toLower redis rg client jetStream rpc busOf cfg a b s2 of
                       (r, s3) \<Rightarrow> (r, m1\<lparr>nm_bus := Some b\<rparr>, s3))))"

text \<open>\<open>connected\<close> is \<open>Assembly.Connected\<close>.\<close>

definition nats_health :: "('a \<Rightarrow> 's \<Rightarrow> bool) \<Rightarrow> ('a, 'b) nats_mod \<Rightarrow> 's \<Rightarrow> health_result" where
  "nats_health connected m s =
     (case nm_asm m of
        None \<Rightarrow> (StatusFail, ''client not initialized'', None)
      | Some a \<Rightarrow> if \<not> connected a s then (StatusFail, ''not connected'', None) else (StatusOK, ''connected'', None))"

definition NatsModStart :: "('a, 'b, 'k, 's) bus_ops \<Rightarrow> ('a, 'b) nats_mod \<Rightarrow> 's \<Rightarrow> gerr option \<times> 's" where
  "NatsModStart nb m s = (case nm_bus m of None \<Rightarrow> (None, s) | Some b \<Rightarrow> nb_Start nb b s)"

text \<open>The two halves of \<open>StopWithContext\<close>, each with the errors joined so far.\<close>

definition nats_stop_bus ::
  "('a, 'b, 'k, 's) bus_ops \<Rightarrow> ('a, 'b) nats_mod \<Rightarrow> 's \<Rightarrow> gerr option \<times> ('a, 'b) nats_mod \<times> 's" where
  "nats_stop_bus nb m s =
     (case nm_bus m of
        None \<Rightarrow> (None, m, s)
      | Some b \<Rightarrow>
          (case nb_Stop nb of
             Inl stop \<Rightarrow> (case stop b s of (e, s') \<Rightarrow> (e, m\<lparr>nm_bus := None\<rparr>, s'))
           | Inr stop \<Rightarrow> (None, m\<lparr>nm_bus := None\<rparr>, stop b s)))"

definition NatsModStop ::
  "('a, 's) conn_ops \<Rightarrow> ('a, 'b, 'k, 's) bus_ops \<Rightarrow> ('a, 'b) nats_mod \<Rightarrow> 's \<Rightarrow> gerr option \<times> ('a, 'b) nats_mod \<times> 's" where
  "NatsModStop ops nb m s =
     (case nats_stop_bus nb m s of
        (err, m1, s1) \<Rightarrow>
          (case nm_asm m1 of
             None \<Rightarrow> (err, m1, s1)
           | Some a \<Rightarrow> (case cn_Close ops a s1 of (closeErr, s2) \<Rightarrow> (Join_errors err closeErr, m1\<lparr>nm_asm := None\<rparr>, s2))))"

section \<open>Properties\<close>

lemma Join_errors_None: "Join_errors a b = None \<longleftrightarrow> a = None \<and> b = None"
  by (auto simp: Join_errors_def split: option.splits)

text \<open>Stopping twice is stopping once.\<close>

lemma nats_stop_releases:
  assumes "NatsModStop ops nb m s = (e, m', s')"
  shows "nm_bus m' = None" "nm_asm m' = None" "NatsModStop ops nb m' s' = (None, m', s')"
proof -
  show "nm_bus m' = None" "nm_asm m' = None"
    using assms by (auto simp: NatsModStop_def nats_stop_bus_def split: option.splits sum.splits prod.splits)
  then show "NatsModStop ops nb m' s' = (None, m', s')" by (simp add: NatsModStop_def nats_stop_bus_def)
qed

lemma bus_settings_bounds: "0 < bc_WorkerNum (bus_settings cfg) \<and> bc_Prefix (bus_settings cfg) \<noteq> []"
  by (auto simp: bus_settings_def positive_or_pos or_default_def)

end
