(* ===== verification/RoomMod.thy ===== *)
theory RoomMod
  imports Connections
begin

text \<open>
  The room Mod (\<open>room/room_mod.go\<close>): the synchronisation bus over NATS or JetStream, configured under
  \<open>room\<close> or under the older name of the section, \<open>sync\<close>. The two buses are parameters.
\<close>

section \<open>Configuration\<close>

definition roomConfigSection :: string where "roomConfigSection = ''room''"
definition legacyConfigSection :: string where "legacyConfigSection = ''sync''"

definition configKey :: "viper \<Rightarrow> string \<Rightarrow> string" where
  "configKey cfg key =
     (if cfg_IsSet cfg (roomConfigSection @ ''.'' @ key) then roomConfigSection @ ''.'' @ key
      else if cfg_IsSet cfg (legacyConfigSection @ ''.'' @ key) then legacyConfigSection @ ''.'' @ key
      else roomConfigSection @ ''.'' @ key)"

definition cfgGetString :: "viper \<Rightarrow> string \<Rightarrow> string" where "cfgGetString cfg key = cfg_GetString cfg (configKey cfg key)"
definition cfgGetInt :: "viper \<Rightarrow> string \<Rightarrow> int" where "cfgGetInt cfg key = cfg_GetInt cfg (configKey cfg key)"
definition cfgGetInt64 :: "viper \<Rightarrow> string \<Rightarrow> int" where "cfgGetInt64 cfg key = cfg_GetInt64 cfg (configKey cfg key)"
definition cfgGetBool :: "viper \<Rightarrow> string \<Rightarrow> bool" where "cfgGetBool cfg key = cfg_GetBool cfg (configKey cfg key)"
definition cfgGetDuration :: "viper \<Rightarrow> string \<Rightarrow> duration" where
  "cfgGetDuration cfg key = cfg_GetDuration cfg (configKey cfg key)"

text \<open>The storage of a stream; the empty string leaves the choice to the bus.\<close>

datatype JetStreamStorage = StorageUnset | StorageMemory | StorageFile

definition parseJetStreamSyncStorage :: "(string \<Rightarrow> string) \<Rightarrow> string \<Rightarrow> JetStreamStorage" where
  "parseJetStreamSyncStorage toLower value =
     (let v = toLower (TrimSpace value) in
      if v = ''memory'' then StorageMemory else if v = ''file'' then StorageFile else StorageUnset)"

record JetStreamSyncConfig =
  jss_LocalSid :: int
  jss_Prefix :: string
  jss_Stream :: string
  jss_Storage :: JetStreamStorage
  jss_AckWait :: duration
  jss_MaxDeliver :: int
  jss_StreamMaxAge :: duration
  jss_Duplicates :: duration
  jss_Replicas :: int
  jss_MaxBytes :: int
  jss_SetupTimeout :: duration
  jss_PublishTime :: duration

record 'b room_mod =
  rmm_bus :: "'b option"
  rmm_localSid :: int
  rmm_prefix :: string
  rmm_transport :: string
  rmm_jsCfg :: "JetStreamSyncConfig option"

definition NewRoomMod :: "int \<Rightarrow> 'b room_mod" where
  "NewRoomMod localSid = \<lparr>rmm_bus = None, rmm_localSid = localSid, rmm_prefix = [], rmm_transport = [], rmm_jsCfg = None\<rparr>"

definition RoomInit :: "(string \<Rightarrow> string) \<Rightarrow> viper \<Rightarrow> 'b room_mod \<Rightarrow> 'b room_mod" where
  "RoomInit toLower cfg m =
     (let sid = (if rmm_localSid m = 0 then cfg_GetInt32 cfg ''sid'' else rmm_localSid m);
          p = or_default (cfgGetString cfg ''prefix'') ''roost.room'' in
      m\<lparr>rmm_localSid := sid, rmm_prefix := p,
        rmm_transport := toLower (TrimSpace (cfgGetString cfg ''transport'')),
        rmm_jsCfg := Some
          \<lparr>jss_LocalSid = sid, jss_Prefix = p, jss_Stream = cfgGetString cfg ''stream'',
           jss_Storage = parseJetStreamSyncStorage toLower (cfgGetString cfg ''storage''),
           jss_AckWait = cfgGetDuration cfg ''ack_wait'', jss_MaxDeliver = cfgGetInt cfg ''max_deliver'',
           jss_StreamMaxAge = cfgGetDuration cfg ''stream_max_age'', jss_Duplicates = cfgGetDuration cfg ''duplicates'',
           jss_Replicas = cfgGetInt cfg ''replicas'', jss_MaxBytes = cfgGetInt64 cfg ''max_bytes'',
           jss_SetupTimeout = cfgGetDuration cfg ''setup_timeout'',
           jss_PublishTime = cfgGetDuration cfg ''publish_timeout''\<rparr>\<rparr>)"

definition useJetStream :: "'b room_mod \<Rightarrow> bool" where
  "useJetStream m \<longleftrightarrow> rmm_transport m = ''jetstream'' \<or> rmm_transport m = ''js''"

section \<open>The Mod\<close>

text \<open>
  \<open>jetStream\<close> and \<open>client\<close> look the two NATS capabilities up, \<open>newJs\<close> and \<open>newNats\<close> make a bus, \<open>publish\<close> makes
  the value of the capability.
\<close>

definition ModRoom :: string where "ModRoom = ''room''"

definition RoomProvide ::
  "'s health_ops \<Rightarrow> string \<Rightarrow> ('s \<Rightarrow> 'j option) \<Rightarrow> ('s \<Rightarrow> 'n option) \<Rightarrow>
   ('j \<Rightarrow> JetStreamSyncConfig option \<Rightarrow> 's \<Rightarrow> (gerr + 'b) \<times> 's) \<Rightarrow> ('n \<Rightarrow> int \<Rightarrow> string \<Rightarrow> 'b) \<Rightarrow> ('s, 'c) registry \<Rightarrow> ('b \<Rightarrow> 'c) \<Rightarrow>
   'b room_mod \<Rightarrow> 's \<Rightarrow> (gerr + unit) \<times> 'b room_mod \<times> 's" where
  "RoomProvide hp health jetStream client newJs newNats rg publish m s =
     (if \<not> hp_Has hp s then (Inl (missing_capability health), m, s)
      else if useJetStream m then
        (case jetStream s of
           None \<Rightarrow> (Inl (missing_capability ''nats.jetstream''), m, s)
         | Some js \<Rightarrow>
             (case newJs js (rmm_jsCfg m) s of
                (Inl err, s1) \<Rightarrow> (Inl err, m, s1)
              | (Inr b, s1) \<Rightarrow>
                  (case registerE rg ModRoom (publish b) (hp_Register hp ''sync'' s1) of
                     (r, s2) \<Rightarrow> (r, m\<lparr>rmm_bus := Some b\<rparr>, s2))))
      else
        (case client s of
           None \<Rightarrow> (Inl (missing_capability ModNats), m, s)
         | Some c \<Rightarrow>
             let b = newNats c (rmm_localSid m) (rmm_prefix m) in
             (case registerE rg ModRoom (publish b) (hp_Register hp ''sync'' s) of
                (r, s2) \<Rightarrow> (r, m\<lparr>rmm_bus := Some b\<rparr>, s2))))"

text \<open>The registered checker; \<open>transport\<close> is what \<open>Provide\<close> handed to \<open>registerHealth\<close>.\<close>

definition room_health :: "string \<Rightarrow> 'b room_mod \<Rightarrow> health_result" where
  "room_health transport m =
     (case rmm_bus m of None \<Rightarrow> (StatusFail, ''bus not initialized'', None) | Some _ \<Rightarrow> (StatusOK, transport, None))"

text \<open>How the bus stops is asked at run time: with a deadline and an error, plainly, or not at all.\<close>

datatype ('b, 's) stopper = StopsWithContext "'b \<Rightarrow> 's \<Rightarrow> gerr option \<times> 's" | StopsPlainly "'b \<Rightarrow> 's \<Rightarrow> 's" | NoStop

definition RoomStop :: "('b \<Rightarrow> ('b, 's) stopper) \<Rightarrow> 'b room_mod \<Rightarrow> 's \<Rightarrow> gerr option \<times> 'b room_mod \<times> 's" where
  "RoomStop stopper_of m s =
     (case rmm_bus m of
        None \<Rightarrow> (None, m, s)
      | Some b \<Rightarrow>
          (case stopper_of b of
             StopsWithContext stop \<Rightarrow>
               (case stop b s of (Some err, s') \<Rightarrow> (Some err, m, s') | (None, s') \<Rightarrow> (None, m\<lparr>rmm_bus := None\<rparr>, s'))
           | StopsPlainly stop \<Rightarrow> (None, m\<lparr>rmm_bus := None\<rparr>, stop b s)
           | NoStop \<Rightarrow> (None, m\<lparr>rmm_bus := None\<rparr>, s)))"

section \<open>Properties\<close>

text \<open>An unset key reads as zero, the documented behaviour of \<open>viper\<close>.\<close>

definition unset_is_zero :: "viper \<Rightarrow> bool" where
  "unset_is_zero cfg \<longleftrightarrow> (\<forall>k. \<not> cfg_IsSet cfg k \<longrightarrow>
     cfg_GetString cfg k = [] \<and> cfg_GetInt cfg k = 0 \<and> cfg_GetInt64 cfg k = 0 \<and> cfg_GetBool cfg k = False \<and>
     cfg_GetDuration cfg k = 0)"

text \<open>The file with every \<open>sync.\<close> key renamed: each key of the \<open>room\<close> section reads what \<open>sync\<close> held.\<close>

definition old_name :: "string \<Rightarrow> string" where
  "old_name k = (if take 5 k = ''room.'' then ''sync.'' @ drop 5 k else k)"

definition renamed :: "viper \<Rightarrow> viper" where
  "renamed cfg = cfg\<lparr>cfg_IsSet := (\<lambda>k. take 5 k \<noteq> ''sync.'' \<and> cfg_IsSet cfg (old_name k)),
     cfg_GetString := (\<lambda>k. cfg_GetString cfg (old_name k)), cfg_GetInt := (\<lambda>k. cfg_GetInt cfg (old_name k)),
     cfg_GetInt64 := (\<lambda>k. cfg_GetInt64 cfg (old_name k)), cfg_GetBool := (\<lambda>k. cfg_GetBool cfg (old_name k)),
     cfg_GetDuration := (\<lambda>k. cfg_GetDuration cfg (old_name k))\<rparr>"

lemmas section_defs = roomConfigSection_def legacyConfigSection_def

lemma configKey_renamed [simp]: "configKey (renamed cfg) key = ''room.'' @ key"
  by (simp add: configKey_def renamed_def section_defs)

lemma configKey_legacy:
  assumes "\<And>key. \<not> cfg_IsSet cfg (''room.'' @ key)"
  shows "configKey cfg key = (if cfg_IsSet cfg (''sync.'' @ key) then ''sync.'' @ key else ''room.'' @ key)"
  using assms by (simp add: configKey_def section_defs)

lemma old_name_room: "old_name (''room.'' @ key) = ''sync.'' @ key"
  by (simp add: old_name_def)

text \<open>A configuration written before the section was renamed keeps its meaning, and the new section
  wins key by key. A file that has only the \<open>sync\<close> section configures the Mod exactly as the same file
  with the section renamed to \<open>room\<close>; and where a key is set in both sections, the value read is the one
  of \<open>room\<close>.\<close>

theorem legacy_section_equivalent:
  assumes "unset_is_zero cfg" and "\<And>key. \<not> cfg_IsSet cfg (''room.'' @ key)"
  shows "RoomInit toLower cfg m = RoomInit toLower (renamed cfg) m \<and>
    (\<forall>cfg' key. cfg_IsSet cfg' (''room.'' @ key) \<longrightarrow>
       cfgGetString cfg' key = cfg_GetString cfg' (''room.'' @ key) \<and>
       cfgGetDuration cfg' key = cfg_GetDuration cfg' (''room.'' @ key))"
proof -
  have zero: "\<not> cfg_IsSet cfg k \<Longrightarrow>
      cfg_GetString cfg k = [] \<and> cfg_GetInt cfg k = 0 \<and> cfg_GetInt64 cfg k = 0 \<and> cfg_GetDuration cfg k = 0" for k
    using assms(1) by (simp add: unset_is_zero_def)
  have read: "cfgGetString cfg key = cfgGetString (renamed cfg) key \<and> cfgGetInt cfg key = cfgGetInt (renamed cfg) key \<and>
      cfgGetInt64 cfg key = cfgGetInt64 (renamed cfg) key \<and> cfgGetDuration cfg key = cfgGetDuration (renamed cfg) key" for key
    using zero [of "''sync.'' @ key"] zero [of "''room.'' @ key"] assms(2)
    by (simp add: cfgGetString_def cfgGetInt_def cfgGetInt64_def cfgGetDuration_def configKey_legacy old_name_room)
       (simp add: renamed_def old_name_def)
  have "cfg_GetInt32 (renamed cfg) = cfg_GetInt32 cfg" by (simp add: renamed_def)
  with read show ?thesis
    by (simp add: RoomInit_def Let_def) (simp add: cfgGetString_def cfgGetDuration_def configKey_def section_defs)
qed

definition ex_sync :: viper where
  "ex_sync = empty_viper\<lparr>cfg_IsSet := (\<lambda>k. k = ''sync.prefix'' \<or> k = ''sync.transport''),
     cfg_GetString := (\<lambda>k. if k = ''sync.prefix'' then ''old'' else if k = ''sync.transport'' then ''js'' else [])\<rparr>"

lemma legacy_section_equivalent_witness:
  "RoomInit (\<lambda>s. s) ex_sync (NewRoomMod 3 :: nat room_mod) = RoomInit (\<lambda>s. s) (renamed ex_sync) (NewRoomMod 3) \<and>
   rmm_prefix (RoomInit (\<lambda>s. s) (renamed ex_sync) (NewRoomMod 3 :: nat room_mod)) = ''old'' \<and>
   useJetStream (RoomInit (\<lambda>s. s) ex_sync (NewRoomMod 3 :: nat room_mod))"
proof -
  have "unset_is_zero ex_sync" by (simp add: unset_is_zero_def ex_sync_def empty_viper_def)
  moreover have "\<not> cfg_IsSet ex_sync (''room.'' @ key)" for key by (simp add: ex_sync_def)
  ultimately have e: "RoomInit (\<lambda>s. s) ex_sync (NewRoomMod 3 :: nat room_mod) = RoomInit (\<lambda>s. s) (renamed ex_sync) (NewRoomMod 3)"
    using legacy_section_equivalent by blast
  moreover have "rmm_prefix (RoomInit (\<lambda>s. s) ex_sync (NewRoomMod 3 :: nat room_mod)) = ''old''"
    by (simp add: RoomInit_def Let_def cfgGetString_def configKey_def section_defs ex_sync_def or_default_def)
  moreover have "useJetStream (RoomInit (\<lambda>s. s) ex_sync (NewRoomMod 3 :: nat room_mod))"
    by (simp add: useJetStream_def RoomInit_def Let_def cfgGetString_def configKey_def section_defs ex_sync_def
        TrimSpace_plain)
  ultimately show ?thesis by simp
qed

end
