(* ===== verification/SagaMod.thy ===== *)
theory SagaMod
  imports Connections
begin

text \<open>
  The saga Mod (\<open>saga/mod.go\<close>): the configuration of coordinator, publisher, completion, native result and start
  consumers over the defaults of the saga engine, what \<open>Provide\<close> looks up, and the order of the health check.
  The assembled engine is a parameter.
\<close>

section \<open>Configuration\<close>

record SagaStoreOptions =
  sgo_Database :: string
  sgo_SagaCollection :: string
  sgo_OutboxCollection :: string
  sgo_CompletionCollection :: string
  sgo_OperationCollection :: string
  sgo_CompletionReceiptTTL :: duration

record SagaEngineOptions =
  seo_Owner :: string
  seo_CoordinatorWorkers :: int
  seo_PublisherWorkers :: int
  seo_CoordinatorBatch :: int
  seo_PublisherBatch :: int
  seo_LeaseDuration :: duration
  seo_StoreTimeout :: duration
  seo_PollInterval :: duration
  seo_PublishTimeout :: duration
  seo_PublishBackoffMin :: duration
  seo_PublishBackoffMax :: duration
  seo_MaxPayloadBytes :: int

text \<open>The three consumers have the same fields; \<open>scc_Prefix\<close> is the subject or the effect prefix.\<close>

record SagaConsumerConfig =
  scc_Stream :: string
  scc_Durable :: string
  scc_Prefix :: string
  scc_AckWait :: duration
  scc_ProcessTimeout :: duration
  scc_MaxDeliver :: int
  scc_MaxAckPending :: int
  scc_NakBackoffMin :: duration
  scc_NakBackoffMax :: duration

record SagaConfig =
  sgc_Store :: SagaStoreOptions
  sgc_Engine :: SagaEngineOptions
  sgc_Prefix :: string
  sgc_Stream :: stream_config
  sgc_Completions :: SagaConsumerConfig
  sgc_NestResults :: SagaConsumerConfig
  sgc_Starts :: SagaConsumerConfig

definition saga_engine_settings :: "SagaEngineOptions \<Rightarrow> string \<Rightarrow> viper \<Rightarrow> SagaEngineOptions" where
  "saga_engine_settings d owner cfg =
     \<lparr>seo_Owner = owner,
      seo_CoordinatorWorkers = positive_or (cfg_GetInt cfg ''saga.coordinator_workers'') (seo_CoordinatorWorkers d),
      seo_PublisherWorkers = positive_or (cfg_GetInt cfg ''saga.publisher_workers'') (seo_PublisherWorkers d),
      seo_CoordinatorBatch = positive_or (cfg_GetInt cfg ''saga.coordinator_claim_batch'') (seo_CoordinatorBatch d),
      seo_PublisherBatch = positive_or (cfg_GetInt cfg ''saga.publisher_claim_batch'') (seo_PublisherBatch d),
      seo_LeaseDuration = positive_or (cfg_GetDuration cfg ''saga.lease_duration'') (seo_LeaseDuration d),
      seo_StoreTimeout = positive_or (cfg_GetDuration cfg ''saga.store_timeout'') (seo_StoreTimeout d),
      seo_PollInterval = positive_or (cfg_GetDuration cfg ''saga.poll_interval'') (seo_PollInterval d),
      seo_PublishTimeout = positive_or (cfg_GetDuration cfg ''saga.publish_timeout'') (seo_PublishTimeout d),
      seo_PublishBackoffMin = positive_or (cfg_GetDuration cfg ''saga.publish_backoff_min'') (seo_PublishBackoffMin d),
      seo_PublishBackoffMax = positive_or (cfg_GetDuration cfg ''saga.publish_backoff_max'') (seo_PublishBackoffMax d),
      seo_MaxPayloadBytes = positive_or (cfg_GetInt cfg ''saga.max_payload_bytes'') (seo_MaxPayloadBytes d)\<rparr>"

definition saga_store_settings :: "viper \<Rightarrow> SagaStoreOptions" where
  "saga_store_settings cfg =
     \<lparr>sgo_Database = or_default (cfg_GetString cfg ''saga.database'') ''saga'',
      sgo_SagaCollection = cfg_GetString cfg ''saga.collections.sagas'',
      sgo_OutboxCollection = cfg_GetString cfg ''saga.collections.outbox'',
      sgo_CompletionCollection = cfg_GetString cfg ''saga.collections.completions'',
      sgo_OperationCollection = cfg_GetString cfg ''saga.collections.operations'',
      sgo_CompletionReceiptTTL = positive_or (cfg_GetDuration cfg ''saga.completion_receipt_ttl'') (30 * Day)\<rparr>"

definition saga_stream :: "viper \<Rightarrow> string \<Rightarrow> string \<Rightarrow> stream_config" where
  "saga_stream cfg stream p =
     \<lparr>js_Name = stream, js_Subjects = [p @ ''.>''],
      js_MaxAge = positive_or (cfg_GetDuration cfg ''saga.stream_max_age'') (7 * Day),
      js_Duplicates = positive_or (cfg_GetDuration cfg ''saga.duplicate_window'') (10 * Minute),
      js_Replicas = positive_or (cfg_GetInt cfg ''saga.replicas'') 1,
      js_MaxBytes = positive_or (cfg_GetInt64 cfg ''saga.stream_max_bytes'') (8 * 2 ^ 30)\<rparr>"

definition completion_settings :: "viper \<Rightarrow> SagaEngineOptions \<Rightarrow> string \<Rightarrow> string \<Rightarrow> string \<Rightarrow> SagaConsumerConfig" where
  "completion_settings cfg d stream durable p =
     \<lparr>scc_Stream = stream, scc_Durable = durable, scc_Prefix = p,
      scc_AckWait = positive_or (cfg_GetDuration cfg ''saga.result_ack_wait'') (30 * Second),
      scc_ProcessTimeout = positive_or (cfg_GetDuration cfg ''saga.result_process_timeout'') (seo_StoreTimeout d),
      scc_MaxDeliver = positive_or (cfg_GetInt cfg ''saga.result_max_deliver'') 25000,
      scc_MaxAckPending = positive_or (cfg_GetInt cfg ''saga.result_max_ack_pending'') 256,
      scc_NakBackoffMin = positive_or (cfg_GetDuration cfg ''saga.result_nak_backoff_min'') (250 * Millisecond),
      scc_NakBackoffMax = positive_or (cfg_GetDuration cfg ''saga.result_nak_backoff_max'') (30 * Second)\<rparr>"

definition nest_result_settings :: "viper \<Rightarrow> SagaEngineOptions \<Rightarrow> SagaConsumerConfig" where
  "nest_result_settings cfg d =
     \<lparr>scc_Stream = or_default (cfg_GetString cfg ''saga.result_effect_stream'')
                     (or_default (cfg_GetString cfg ''saga.start_effect_stream'') ''ROOST_EFFECTS''),
      scc_Durable = cfg_GetString cfg ''saga.result_effect_durable'',
      scc_Prefix = or_default (cfg_GetString cfg ''saga.result_effect_prefix'')
                     (or_default (cfg_GetString cfg ''saga.start_effect_prefix'') ''roost.effect''),
      scc_AckWait = positive_or (cfg_GetDuration cfg ''saga.result_effect_ack_wait'') (30 * Second),
      scc_ProcessTimeout = positive_or (cfg_GetDuration cfg ''saga.result_effect_process_timeout'') (seo_StoreTimeout d),
      scc_MaxDeliver = positive_or (cfg_GetInt cfg ''saga.result_effect_max_deliver'') 25000,
      scc_MaxAckPending = positive_or (cfg_GetInt cfg ''saga.result_effect_max_ack_pending'') 256,
      scc_NakBackoffMin = positive_or (cfg_GetDuration cfg ''saga.result_effect_nak_backoff_min'') (250 * Millisecond),
      scc_NakBackoffMax = positive_or (cfg_GetDuration cfg ''saga.result_effect_nak_backoff_max'') (30 * Second)\<rparr>"

definition start_settings :: "viper \<Rightarrow> SagaEngineOptions \<Rightarrow> SagaConsumerConfig" where
  "start_settings cfg d =
     \<lparr>scc_Stream = or_default (cfg_GetString cfg ''saga.start_effect_stream'') ''ROOST_EFFECTS'',
      scc_Durable = or_default (cfg_GetString cfg ''saga.start_effect_durable'') ''roost-saga-start'',
      scc_Prefix = or_default (cfg_GetString cfg ''saga.start_effect_prefix'') ''roost.effect'',
      scc_AckWait = positive_or (cfg_GetDuration cfg ''saga.start_effect_ack_wait'') (30 * Second),
      scc_ProcessTimeout = positive_or (cfg_GetDuration cfg ''saga.start_effect_process_timeout'') (seo_StoreTimeout d),
      scc_MaxDeliver = positive_or (cfg_GetInt cfg ''saga.start_effect_max_deliver'') 25000,
      scc_MaxAckPending = positive_or (cfg_GetInt cfg ''saga.start_effect_max_ack_pending'') 256,
      scc_NakBackoffMin = positive_or (cfg_GetDuration cfg ''saga.start_effect_nak_backoff_min'') (250 * Millisecond),
      scc_NakBackoffMax = positive_or (cfg_GetDuration cfg ''saga.start_effect_nak_backoff_max'') (30 * Second)\<rparr>"

text \<open>
  \<open>newID\<close> is the identifier \<open>NewID\<close> would draw for the default owner. The answer is the configuration that was
  stored and the error, which is decided after it was stored.
\<close>

definition SagaInit :: "SagaEngineOptions \<Rightarrow> string \<Rightarrow> viper option \<Rightarrow> SagaConfig \<times> gerr option" where
  "SagaInit d newID vp =
     (let cfg = (case vp of None \<Rightarrow> empty_viper | Some c \<Rightarrow> c);
          owner = or_default (cfg_GetString cfg ''saga.owner'') (''saga-'' @ FormatInt (cfg_GetInt32 cfg ''sid'') @ ''-'' @ newID);
          p = or_default (cfg_GetString cfg ''saga.subject_prefix'') ''roost.saga'';
          stream = or_default (cfg_GetString cfg ''saga.stream'') ''ROOST_SAGA'';
          durable = or_default (cfg_GetString cfg ''saga.result_durable'') ''roost-saga-coordinator'';
          c = \<lparr>sgc_Store = saga_store_settings cfg, sgc_Engine = saga_engine_settings d owner cfg, sgc_Prefix = p,
               sgc_Stream = saga_stream cfg stream p, sgc_Completions = completion_settings cfg d stream durable p,
               sgc_NestResults = nest_result_settings cfg d, sgc_Starts = start_settings cfg d\<rparr> in
      (c, if sgo_CompletionReceiptTTL (sgc_Store c) \<le> js_MaxAge (sgc_Stream c)
          then Some [Foreign ''saga: completion receipt ttl must exceed stream max age''] else None))"

definition CombineDefinitions :: "'d list list \<Rightarrow> 'd list" where
  "CombineDefinitions groups = concat groups"

section \<open>The Mod\<close>

record ('a, 's) saga_ops =
  sa_Start :: "'a \<Rightarrow> 's \<Rightarrow> gerr option \<times> 's"
  sa_Stop :: "'a \<Rightarrow> 's \<Rightarrow> gerr option \<times> 's"
  sa_Running :: "'a \<Rightarrow> 's \<Rightarrow> bool"
  sa_ConsumersClosed :: "'a \<Rightarrow> 's \<Rightarrow> bool"
  sa_RunError :: "'a \<Rightarrow> 's \<Rightarrow> gerr option"
  sa_StorePing :: "'a \<Rightarrow> 's \<Rightarrow> gerr option \<times> 's"
  sa_Message :: "'a \<Rightarrow> 's \<Rightarrow> string"

definition ModSaga :: string where "ModSaga = ''saga''"

text \<open>\<open>mongo\<close> and \<open>jetStream\<close> look the capabilities up, \<open>assemble\<close> is \<open>saga.Assemble\<close> with the stored configuration.\<close>

definition SagaProvide ::
  "'s health_ops \<Rightarrow> string \<Rightarrow> ('s \<Rightarrow> 'k option) \<Rightarrow> ('s \<Rightarrow> 'j option) \<Rightarrow> ('k \<Rightarrow> 'j \<Rightarrow> SagaConfig \<Rightarrow> 'd list \<Rightarrow> 's \<Rightarrow> (gerr + 'a) \<times> 's) \<Rightarrow>
   ('s, 'c) registry option \<Rightarrow> ('a \<Rightarrow> 'c) \<Rightarrow> SagaConfig \<Rightarrow> 'd list \<Rightarrow> 'a option \<Rightarrow> 's \<Rightarrow> (gerr + unit) \<times> 'a option \<times> 's" where
  "SagaProvide hp health mongo jetStream assemble registry engine c definitions m s =
     (case registry of
        None \<Rightarrow> (Inl [Foreign ''saga mod: nil registry''], m, s)
      | Some rg \<Rightarrow>
          (case mongo s of
             None \<Rightarrow> (Inl (missing_capability ModMongo), m, s)
           | Some k \<Rightarrow>
               (case jetStream s of
                  None \<Rightarrow> (Inl (missing_capability ''nats.jetstream''), m, s)
                | Some j \<Rightarrow>
                    (case assemble k j c definitions s of
                       (Inl err, s1) \<Rightarrow> (Inl err, m, s1)
                     | (Inr a, s1) \<Rightarrow>
                         (case registerE rg ModSaga (engine a) s1 of
                            (Inl err, s2) \<Rightarrow> (Inl err, Some a, s2)
                          | (Inr _, s2) \<Rightarrow>
                              if \<not> hp_Has hp s2 then (Inl (missing_capability health), Some a, s2)
                              else (Inr (), Some a, hp_Register hp ''saga'' s2))))))"

definition SagaStart :: "('a, 's) saga_ops \<Rightarrow> 'a option \<Rightarrow> 's \<Rightarrow> gerr option \<times> 's" where
  "SagaStart ops m s = (case m of None \<Rightarrow> (Some [Foreign ''saga mod: not provided''], s) | Some a \<Rightarrow> sa_Start ops a s)"

definition SagaStop :: "('a, 's) saga_ops \<Rightarrow> 'a option \<Rightarrow> 's \<Rightarrow> gerr option \<times> 's" where
  "SagaStop ops m s = (case m of None \<Rightarrow> (None, s) | Some a \<Rightarrow> sa_Stop ops a s)"

definition saga_checkHealth :: "('a, 's) saga_ops \<Rightarrow> 'a option \<Rightarrow> 's \<Rightarrow> health_result \<times> 's" where
  "saga_checkHealth ops m s =
     (case m of
        None \<Rightarrow> ((StatusFail, ''not initialized'', None), s)
      | Some a \<Rightarrow>
          if \<not> sa_Running ops a s then ((StatusFail, ''not initialized'', None), s)
          else if sa_ConsumersClosed ops a s then ((StatusFail, ''durable consumer stopped'', None), s)
          else (case sa_RunError ops a s of
                  Some err \<Rightarrow> ((StatusFail, ''worker stopped'', Some err), s)
                | None \<Rightarrow>
                    (case sa_StorePing ops a s of
                       (Some err, s') \<Rightarrow> ((StatusFail, ''MongoDB unavailable'', Some err), s')
                     | (None, s') \<Rightarrow> ((StatusOK, sa_Message ops a s', None), s'))))"

section \<open>Properties\<close>

definition positive_consumer :: "SagaConsumerConfig \<Rightarrow> bool" where
  "positive_consumer k \<longleftrightarrow> scc_Stream k \<noteq> [] \<and> scc_Prefix k \<noteq> [] \<and> 0 < scc_AckWait k \<and> 0 < scc_ProcessTimeout k \<and>
     0 < scc_MaxDeliver k \<and> 0 < scc_MaxAckPending k \<and> 0 < scc_NakBackoffMin k \<and> 0 < scc_NakBackoffMax k"

definition positive_engine :: "SagaEngineOptions \<Rightarrow> bool" where
  "positive_engine d \<longleftrightarrow> 0 < seo_CoordinatorWorkers d \<and> 0 < seo_PublisherWorkers d \<and> 0 < seo_CoordinatorBatch d \<and>
     0 < seo_PublisherBatch d \<and> 0 < seo_LeaseDuration d \<and> 0 < seo_StoreTimeout d \<and> 0 < seo_PollInterval d \<and>
     0 < seo_PublishTimeout d \<and> 0 < seo_PublishBackoffMin d \<and> 0 < seo_PublishBackoffMax d \<and> 0 < seo_MaxPayloadBytes d"

lemmas saga_durations = Second_def Minute_def Hour_def Day_def Millisecond_def

lemma engine_positive: "positive_engine d \<Longrightarrow> positive_engine (saga_engine_settings d owner cfg)"
  by (simp add: positive_engine_def saga_engine_settings_def positive_or_pos)

lemma or_default_nonempty: "fallback \<noteq> [] \<Longrightarrow> or_default s fallback \<noteq> []"
  by (simp add: or_default_def)

lemma consumers_positive:
  assumes "0 < seo_StoreTimeout d"
  shows "stream \<noteq> [] \<Longrightarrow> p \<noteq> [] \<Longrightarrow> positive_consumer (completion_settings cfg d stream durable p)"
    "positive_consumer (nest_result_settings cfg d)" "positive_consumer (start_settings cfg d)"
  using assms
  by (simp_all add: positive_consumer_def completion_settings_def nest_result_settings_def start_settings_def
      positive_or_pos saga_durations or_default_nonempty)

text \<open>An accepted saga configuration deduplicates for as long as a completion can be redelivered: the
  receipt of a completion outlives every message of the stream it came on. Over positive engine defaults
  every worker count, batch, lease, timeout and consumer limit is positive; the completions consumer reads
  the very stream the coordinator publishes on, under the same prefix; and native results, unless configured
  apart, are read from the stream and prefix the starts are read from.\<close>

theorem saga_receipts_outlive_messages:
  assumes "positive_engine d" and "SagaInit d newID (Some cfg) = (c, None)"
  shows "js_MaxAge (sgc_Stream c) < sgo_CompletionReceiptTTL (sgc_Store c) \<and> 0 < js_MaxAge (sgc_Stream c) \<and>
    positive_engine (sgc_Engine c) \<and> seo_Owner (sgc_Engine c) \<noteq> [] \<and>
    positive_consumer (sgc_Completions c) \<and> positive_consumer (sgc_NestResults c) \<and> positive_consumer (sgc_Starts c) \<and>
    scc_Stream (sgc_Completions c) = js_Name (sgc_Stream c) \<and>
    js_Subjects (sgc_Stream c) = [scc_Prefix (sgc_Completions c) @ ''.>''] \<and>
    scc_Prefix (sgc_Completions c) = sgc_Prefix c \<and>
    (cfg_GetString cfg ''saga.result_effect_stream'' = [] \<longrightarrow> scc_Stream (sgc_NestResults c) = scc_Stream (sgc_Starts c)) \<and>
    (cfg_GetString cfg ''saga.result_effect_prefix'' = [] \<longrightarrow> scc_Prefix (sgc_NestResults c) = scc_Prefix (sgc_Starts c))"
proof -
  let ?owner = "or_default (cfg_GetString cfg ''saga.owner'') (''saga-'' @ FormatInt (cfg_GetInt32 cfg ''sid'') @ ''-'' @ newID)"
  let ?p = "or_default (cfg_GetString cfg ''saga.subject_prefix'') ''roost.saga''"
  let ?stream = "or_default (cfg_GetString cfg ''saga.stream'') ''ROOST_SAGA''"
  let ?durable = "or_default (cfg_GetString cfg ''saga.result_durable'') ''roost-saga-coordinator''"
  from assms(2) have c: "sgc_Store c = saga_store_settings cfg" "sgc_Engine c = saga_engine_settings d ?owner cfg"
      "sgc_Prefix c = ?p" "sgc_Stream c = saga_stream cfg ?stream ?p"
      "sgc_Completions c = completion_settings cfg d ?stream ?durable ?p"
      "sgc_NestResults c = nest_result_settings cfg d" "sgc_Starts c = start_settings cfg d"
    and ttl: "js_MaxAge (sgc_Stream c) < sgo_CompletionReceiptTTL (sgc_Store c)"
    by (auto simp: SagaInit_def Let_def split: if_splits)
  have "0 < seo_StoreTimeout d" using assms(1) by (simp add: positive_engine_def)
  then have k: "positive_consumer (sgc_Completions c)" "positive_consumer (sgc_NestResults c)" "positive_consumer (sgc_Starts c)"
    by (simp_all add: c consumers_positive or_default_nonempty)
  have "positive_engine (sgc_Engine c)" by (simp add: c engine_positive assms(1))
  moreover have "seo_Owner (sgc_Engine c) \<noteq> []" by (simp add: c saga_engine_settings_def or_default_nonempty)
  moreover have "0 < js_MaxAge (sgc_Stream c)" by (simp add: c saga_stream_def positive_or_pos saga_durations)
  moreover have "scc_Stream (sgc_Completions c) = js_Name (sgc_Stream c)"
    "js_Subjects (sgc_Stream c) = [scc_Prefix (sgc_Completions c) @ ''.>'']" "scc_Prefix (sgc_Completions c) = sgc_Prefix c"
    by (simp_all add: c completion_settings_def saga_stream_def)
  moreover have "cfg_GetString cfg ''saga.result_effect_stream'' = [] \<longrightarrow> scc_Stream (sgc_NestResults c) = scc_Stream (sgc_Starts c)"
    "cfg_GetString cfg ''saga.result_effect_prefix'' = [] \<longrightarrow> scc_Prefix (sgc_NestResults c) = scc_Prefix (sgc_Starts c)"
    by (simp_all add: c nest_result_settings_def start_settings_def or_default_def)
  ultimately show ?thesis using ttl k by blast
qed

definition ex_saga_options :: SagaEngineOptions where
  "ex_saga_options = \<lparr>seo_Owner = [], seo_CoordinatorWorkers = 1, seo_PublisherWorkers = 1, seo_CoordinatorBatch = 1,
     seo_PublisherBatch = 1, seo_LeaseDuration = 1, seo_StoreTimeout = 1, seo_PollInterval = 1, seo_PublishTimeout = 1,
     seo_PublishBackoffMin = 1, seo_PublishBackoffMax = 1, seo_MaxPayloadBytes = 1\<rparr>"

lemma saga_receipts_outlive_messages_witness:
  "\<exists>c. SagaInit ex_saga_options ''id'' (Some empty_viper) = (c, None) \<and>
     js_MaxAge (sgc_Stream c) < sgo_CompletionReceiptTTL (sgc_Store c)"
proof -
  have "snd (SagaInit ex_saga_options ''id'' (Some empty_viper)) = None"
    by (simp add: SagaInit_def Let_def saga_store_settings_def saga_stream_def empty_viper_def positive_or_def saga_durations)
  then obtain c where c: "SagaInit ex_saga_options ''id'' (Some empty_viper) = (c, None)"
    by (cases "SagaInit ex_saga_options ''id'' (Some empty_viper)") simp
  have "positive_engine ex_saga_options" by (simp add: positive_engine_def ex_saga_options_def)
  from saga_receipts_outlive_messages [OF this c] c show ?thesis by blast
qed

text \<open>The health check only answers OK of an engine that runs, reads, works and reaches its store.\<close>

lemma saga_health_ok:
  assumes "saga_checkHealth ops m s = ((StatusOK, message, e), s')"
  obtains a where "m = Some a" "sa_Running ops a s" "\<not> sa_ConsumersClosed ops a s" "sa_RunError ops a s = None"
    "sa_StorePing ops a s = (None, s')" "e = None"
  using assms by (auto simp: saga_checkHealth_def split: option.splits if_splits prod.splits)

end
