(* ===== verification/RemoteEntityMod.thy ===== *)
theory RemoteEntityMod
  imports Connections
begin

text \<open>
  The remote entity Mod (\<open>remoteentity/remote_entity_mod.go\<close>): its options, its settings over the defaults of the
  core package, the capabilities it publishes, its start against the room bus, and the health it reports from the
  capacity of the manager. The assembled manager is a parameter.
\<close>

section \<open>Options and settings\<close>

record RemoteConfig =
  rec_LockTTL :: duration
  rec_LockKey :: string
  rec_RetryCount :: int
  rec_RetryDelay :: duration
  rec_OpTimeout :: duration
  rec_VersionTTL :: duration
  rec_UnlockRetryCount :: int
  rec_UnlockRetryInterval :: duration
  rec_FinalizeRetryInterval :: duration
  rec_MaxWriteBatch :: int
  rec_SnapshotCacheShards :: int
  rec_SnapshotCacheEntries :: int
  rec_SnapshotCacheBytes :: int
  rec_SnapshotCacheTTL :: duration
  rec_SnapshotL2TTL :: duration
  rec_SnapshotInterestTTL :: duration
  rec_SnapshotInterestKeys :: int
  rec_SnapshotInterestSubs :: int
  rec_MarkerCacheTTL :: duration
  rec_SnapshotLoadTimeout :: duration
  rec_SnapshotMaxWaiters :: int
  rec_AsyncFinalizeCapacity :: int
  rec_AsyncFinalizeWorkers :: int
  rec_TransactionTrackLimit :: int
  rec_TransactionTrackTTL :: duration
  rec_WrapperCapacity :: int
  rec_WrapperIdleTTL :: duration

text \<open>
  The Mod before it is provided. \<open>rem_mongoDatabase\<close> and \<open>rem_transactionTTL\<close> are the fields of \<open>mongoConfig\<close>.
\<close>

record ('be, 'lo, 'a) remote_mod =
  rem_asm :: "'a option"
  rem_cfg :: "RemoteConfig option"
  rem_localSid :: int
  rem_registry :: bool
  rem_backend :: "'be option"
  rem_mongoLoader :: "'lo option"
  rem_mongoDatabase :: string
  rem_transactionTTL :: duration

type_synonym ('be, 'lo, 'a) ModOption = "('be, 'lo, 'a) remote_mod \<Rightarrow> ('be, 'lo, 'a) remote_mod"

definition WithBackend :: "'be option \<Rightarrow> ('be, 'lo, 'a) ModOption" where
  "WithBackend backend m = m\<lparr>rem_backend := backend\<rparr>"

definition WithMongoStorage :: "'lo option \<Rightarrow> ('be, 'lo, 'a) ModOption" where
  "WithMongoStorage loader m = m\<lparr>rem_mongoLoader := loader\<rparr>"

text \<open>A \<open>nil\<close> option is skipped.\<close>

definition NewRemoteEntityMod :: "int \<Rightarrow> ('be, 'lo, 'a) ModOption option list \<Rightarrow> ('be, 'lo, 'a) remote_mod" where
  "NewRemoteEntityMod localSid opts =
     fold (\<lambda>opt m. case opt of None \<Rightarrow> m | Some f \<Rightarrow> f m) opts
       \<lparr>rem_asm = None, rem_cfg = None, rem_localSid = localSid, rem_registry = False, rem_backend = None,
        rem_mongoLoader = None, rem_mongoDatabase = [], rem_transactionTTL = 0\<rparr>"

definition remote_settings :: "viper \<Rightarrow> RemoteConfig \<Rightarrow> RemoteConfig" where
  "remote_settings cfg c =
     \<lparr>rec_LockTTL = positive_or (cfg_GetDuration cfg ''remote_entity.lock_ttl'') (rec_LockTTL c),
      rec_LockKey = or_default (cfg_GetString cfg ''remote_entity.lock_key'') (rec_LockKey c),
      rec_RetryCount = positive_or (cfg_GetInt cfg ''remote_entity.retry_count'') (rec_RetryCount c),
      rec_RetryDelay = positive_or (cfg_GetDuration cfg ''remote_entity.retry_delay'') (rec_RetryDelay c),
      rec_OpTimeout = positive_or (cfg_GetDuration cfg ''remote_entity.op_timeout'') (rec_OpTimeout c),
      rec_VersionTTL = positive_or (cfg_GetDuration cfg ''remote_entity.version_ttl'') (rec_VersionTTL c),
      rec_UnlockRetryCount = positive_or (cfg_GetInt cfg ''remote_entity.unlock_retry_count'') (rec_UnlockRetryCount c),
      rec_UnlockRetryInterval =
        positive_or (cfg_GetDuration cfg ''remote_entity.unlock_retry_interval'') (rec_UnlockRetryInterval c),
      rec_FinalizeRetryInterval =
        positive_or (cfg_GetDuration cfg ''remote_entity.finalize_retry_interval'') (rec_FinalizeRetryInterval c),
      rec_MaxWriteBatch = positive_or (cfg_GetInt cfg ''remote_entity.max_write_batch'') (rec_MaxWriteBatch c),
      rec_SnapshotCacheShards =
        positive_or (cfg_GetInt cfg ''remote_entity.snapshot_cache_shards'') (rec_SnapshotCacheShards c),
      rec_SnapshotCacheEntries =
        positive_or (cfg_GetInt cfg ''remote_entity.snapshot_cache_entries'') (rec_SnapshotCacheEntries c),
      rec_SnapshotCacheBytes =
        positive_or (cfg_GetInt64 cfg ''remote_entity.snapshot_cache_bytes'') (rec_SnapshotCacheBytes c),
      rec_SnapshotCacheTTL =
        positive_or (cfg_GetDuration cfg ''remote_entity.snapshot_cache_ttl'') (rec_SnapshotCacheTTL c),
      rec_SnapshotL2TTL = positive_or (cfg_GetDuration cfg ''remote_entity.snapshot_l2_ttl'') (rec_SnapshotL2TTL c),
      rec_SnapshotInterestTTL =
        positive_or (cfg_GetDuration cfg ''remote_entity.snapshot_interest_ttl'') (rec_SnapshotInterestTTL c),
      rec_SnapshotInterestKeys =
        positive_or (cfg_GetInt cfg ''remote_entity.snapshot_interest_keys'') (rec_SnapshotInterestKeys c),
      rec_SnapshotInterestSubs =
        positive_or (cfg_GetInt cfg ''remote_entity.snapshot_interest_subs'') (rec_SnapshotInterestSubs c),
      rec_MarkerCacheTTL = positive_or (cfg_GetDuration cfg ''remote_entity.marker_cache_ttl'') (rec_MarkerCacheTTL c),
      rec_SnapshotLoadTimeout =
        positive_or (cfg_GetDuration cfg ''remote_entity.snapshot_load_timeout'') (rec_SnapshotLoadTimeout c),
      rec_SnapshotMaxWaiters =
        positive_or (cfg_GetInt cfg ''remote_entity.snapshot_max_waiters'') (rec_SnapshotMaxWaiters c),
      rec_AsyncFinalizeCapacity =
        positive_or (cfg_GetInt cfg ''remote_entity.async_finalize_capacity'') (rec_AsyncFinalizeCapacity c),
      rec_AsyncFinalizeWorkers =
        positive_or (cfg_GetInt cfg ''remote_entity.async_finalize_workers'') (rec_AsyncFinalizeWorkers c),
      rec_TransactionTrackLimit =
        positive_or (cfg_GetInt cfg ''remote_entity.transaction_track_limit'') (rec_TransactionTrackLimit c),
      rec_TransactionTrackTTL =
        positive_or (cfg_GetDuration cfg ''remote_entity.transaction_track_ttl'') (rec_TransactionTrackTTL c),
      rec_WrapperCapacity = positive_or (cfg_GetInt cfg ''remote_entity.wrapper_capacity'') (rec_WrapperCapacity c),
      rec_WrapperIdleTTL = positive_or (cfg_GetDuration cfg ''remote_entity.wrapper_idle_ttl'') (rec_WrapperIdleTTL c)\<rparr>"

definition RemoteEntityInit ::
  "RemoteConfig \<Rightarrow> viper option \<Rightarrow> ('be, 'lo, 'a) remote_mod \<Rightarrow> gerr option \<times> ('be, 'lo, 'a) remote_mod" where
  "RemoteEntityInit DefaultConfig vp m =
     (let cfg = (case vp of None \<Rightarrow> empty_viper | Some c \<Rightarrow> c);
          sid = (if rem_localSid m = 0 then cfg_GetInt32 cfg ''sid'' else rem_localSid m);
          m1 = m\<lparr>rem_cfg := Some (remote_settings cfg DefaultConfig), rem_localSid := sid\<rparr> in
      if sid = 0 then (Some [Foreign ''remote_entity mod: non-zero sid is required for ownership fencing''], m1)
      else (None, m1\<lparr>rem_mongoDatabase := or_default (cfg_GetString cfg ''remote_entity.mongo.database'') ''remote_entity'',
                     rem_transactionTTL := cfg_GetDuration cfg ''remote_entity.mongo.transaction_ttl''\<rparr>))"

section \<open>The Mod\<close>

definition ModRemoteEntity :: string where "ModRemoteEntity = ''remote_entity''"
definition ModRemoteEntityAtomicStore :: string where "ModRemoteEntityAtomicStore = ''remote_entity.atomic_store''"
definition ModRedisVLock :: string where "ModRedisVLock = ''redis.versioned_lock''"

text \<open>
  \<open>redis\<close>, \<open>mongo\<close> and \<open>failure\<close> look capabilities up; what is handed to \<open>Assemble\<close> is the Redis client, the
  backend, the loader, the Mongo client (only when it is used) and the hook for a fatal release.
\<close>

definition RemoteEntityProvide ::
  "'s health_ops \<Rightarrow> string \<Rightarrow> ('s \<Rightarrow> 'k option) \<Rightarrow> ('s \<Rightarrow> 'g option) \<Rightarrow> ('s \<Rightarrow> 'f option) \<Rightarrow>
   ('k \<Rightarrow> 'be option \<Rightarrow> 'lo option \<Rightarrow> 'g option \<Rightarrow> 'f option \<Rightarrow> RemoteConfig option \<Rightarrow> int \<Rightarrow> string \<times> duration \<Rightarrow> 's \<Rightarrow>
      (gerr + 'a) \<times> 's) \<Rightarrow>
   ('s, 'c) registry \<Rightarrow> ('a \<Rightarrow> 'c) \<Rightarrow> ('a \<Rightarrow> 'c) \<Rightarrow> ('a \<Rightarrow> 'c) \<Rightarrow> ('be, 'lo, 'a) remote_mod \<Rightarrow> 's \<Rightarrow>
   (gerr + unit) \<times> ('be, 'lo, 'a) remote_mod \<times> 's" where
  "RemoteEntityProvide hp health redis mongo failure assemble rg manager atomicStore locks m s =
     (case redis s of
        None \<Rightarrow> (Inl (missing_capability ModRedis), m, s)
      | Some k \<Rightarrow>
          let needsMongo = rem_backend m = None \<and> rem_mongoLoader m \<noteq> None in
          if needsMongo \<and> mongo s = None then (Inl (missing_capability ModMongo), m, s)
          else (case assemble k (rem_backend m) (rem_mongoLoader m) (if needsMongo then mongo s else None) (failure s)
                       (rem_cfg m) (rem_localSid m) (rem_mongoDatabase m, rem_transactionTTL m) s of
                  (Inl err, s1) \<Rightarrow> (Inl err, m, s1)
                | (Inr a, s1) \<Rightarrow>
                    (case RegisterAll (Some rg)
                            [\<lparr>cp_Name = ModRemoteEntity, cp_Value = manager a\<rparr>,
                             \<lparr>cp_Name = ModRemoteEntityAtomicStore, cp_Value = atomicStore a\<rparr>,
                             \<lparr>cp_Name = ModRedisVLock, cp_Value = locks a\<rparr>] s1 of
                       (Inl err, s2) \<Rightarrow> (Inl err, m\<lparr>rem_asm := Some a\<rparr>, s2)
                     | (Inr _, s2) \<Rightarrow>
                         if \<not> hp_Has hp s2 then (Inl (missing_capability health), m\<lparr>rem_asm := Some a\<rparr>, s2)
                         else (Inr (), m\<lparr>rem_asm := Some a, rem_registry := True\<rparr>, hp_Register hp ''remote_entity'' s2))))"

text \<open>\<open>bus\<close> looks the room bus up, \<open>start\<close> is \<open>Assembly.Start\<close>.\<close>

definition RemoteEntityStart ::
  "('s \<Rightarrow> 'b option) \<Rightarrow> ('a \<Rightarrow> 'b \<Rightarrow> 's \<Rightarrow> gerr option \<times> 's) \<Rightarrow> ('be, 'lo, 'a) remote_mod \<Rightarrow> 's \<Rightarrow> gerr option \<times> 's" where
  "RemoteEntityStart bus start m s =
     (case rem_asm m of
        None \<Rightarrow> (Some [Foreign ''remote_entity mod: not provided''], s)
      | Some a \<Rightarrow>
          if \<not> rem_registry m then (Some [Foreign ''remote_entity mod: registry is not configured''], s)
          else (case bus s of None \<Rightarrow> (Some (missing_capability ''room''), s) | Some b \<Rightarrow> start a b s))"

definition RemoteEntityStop ::
  "('a \<Rightarrow> 's \<Rightarrow> gerr option \<times> 's) \<Rightarrow> ('be, 'lo, 'a) remote_mod \<Rightarrow> 's \<Rightarrow> gerr option \<times> 's" where
  "RemoteEntityStop stop m s = (case rem_asm m of None \<Rightarrow> (None, s) | Some a \<Rightarrow> stop a s)"

record RemoteStats =
  rst_Wrappers :: int
  rst_LocalInterests :: int
  rst_Transactions :: int
  rst_ActiveTransactions :: int

text \<open>\<open>manager\<close> is the manager of the assembly with its fatal error and its counters; \<open>c\<close> the settings.\<close>

definition stats_text :: "string \<Rightarrow> RemoteStats \<Rightarrow> string" where
  "stats_text tail_of_wrappers st =
     ''wrappers='' @ FormatInt (rst_Wrappers st) @ tail_of_wrappers @ '' local_interests='' @ FormatInt (rst_LocalInterests st) @
     '' transactions='' @ FormatInt (rst_Transactions st) @ '' active_transactions='' @ FormatInt (rst_ActiveTransactions st)"

definition remote_checkHealth :: "RemoteConfig \<Rightarrow> (gerr option \<times> RemoteStats) option \<Rightarrow> health_result" where
  "remote_checkHealth c manager =
     (case manager of
        None \<Rightarrow> (StatusFail, ''not initialized'', None)
      | Some (Some err, _) \<Rightarrow> (StatusFail, ''fatal release failure'', Some err)
      | Some (None, st) \<Rightarrow>
          if 0 < rec_SnapshotInterestKeys c \<and> rec_SnapshotInterestKeys c \<le> rst_LocalInterests st \<or>
             0 < rec_TransactionTrackLimit c \<and> rec_TransactionTrackLimit c \<le> rst_ActiveTransactions st
          then (StatusFail, ''capacity exhausted '' @ stats_text [] st, None)
          else (StatusOK, stats_text ('' capacity='' @ FormatInt (rec_WrapperCapacity c)) st, None))"

section \<open>Properties\<close>

definition positive_remote :: "RemoteConfig \<Rightarrow> bool" where
  "positive_remote c \<longleftrightarrow> rec_LockKey c \<noteq> [] \<and>
     list_all (\<lambda>n. 0 < n) [rec_LockTTL c, rec_RetryCount c, rec_RetryDelay c, rec_OpTimeout c, rec_VersionTTL c,
       rec_UnlockRetryCount c, rec_UnlockRetryInterval c, rec_FinalizeRetryInterval c, rec_MaxWriteBatch c,
       rec_SnapshotCacheShards c, rec_SnapshotCacheEntries c, rec_SnapshotCacheBytes c, rec_SnapshotCacheTTL c,
       rec_SnapshotL2TTL c, rec_SnapshotInterestTTL c, rec_SnapshotInterestKeys c, rec_SnapshotInterestSubs c,
       rec_MarkerCacheTTL c, rec_SnapshotLoadTimeout c, rec_SnapshotMaxWaiters c, rec_AsyncFinalizeCapacity c,
       rec_AsyncFinalizeWorkers c, rec_TransactionTrackLimit c, rec_TransactionTrackTTL c, rec_WrapperCapacity c,
       rec_WrapperIdleTTL c]"

lemma remote_settings_positive: "positive_remote c \<Longrightarrow> positive_remote (remote_settings cfg c)"
  by (simp add: positive_remote_def remote_settings_def positive_or_pos or_default_def)

text \<open>A provided remote entity Mod is fenced and bounded. Whatever the configuration says, a Mod whose
  \<open>Init\<close> succeeded has a server id other than zero, and over positive defaults every time-to-live, retry
  count, capacity and limit is positive; so the two capacity limits of the health check are in force: it
  answers OK only while the local interests and the active transactions are below them and nothing fatal
  happened.\<close>

theorem remote_fenced_and_bounded:
  assumes "positive_remote DefaultConfig" and "RemoteEntityInit DefaultConfig vp m = (None, m')"
  shows "rem_localSid m' \<noteq> 0 \<and> (rem_localSid m \<noteq> 0 \<longrightarrow> rem_localSid m' = rem_localSid m) \<and> rem_mongoDatabase m' \<noteq> [] \<and>
    (\<exists>c. rem_cfg m' = Some c \<and> positive_remote c \<and>
      (\<forall>manager message e. remote_checkHealth c manager = (StatusOK, message, e) \<longrightarrow>
        (\<exists>st. manager = Some (None, st) \<and> rst_LocalInterests st < rec_SnapshotInterestKeys c \<and>
           rst_ActiveTransactions st < rec_TransactionTrackLimit c)))"
proof -
  define cfg where "cfg = (case vp of None \<Rightarrow> empty_viper | Some c \<Rightarrow> c)"
  let ?c = "remote_settings cfg DefaultConfig"
  have c: "rem_cfg m' = Some ?c" "rem_localSid m' \<noteq> 0" "rem_mongoDatabase m' \<noteq> []"
    "rem_localSid m \<noteq> 0 \<longrightarrow> rem_localSid m' = rem_localSid m"
    using assms(2) by (auto simp: RemoteEntityInit_def cfg_def Let_def or_default_def split: if_splits)
  have p: "positive_remote ?c" by (rule remote_settings_positive [OF assms(1)])
  then have "0 < rec_SnapshotInterestKeys ?c" "0 < rec_TransactionTrackLimit ?c" by (simp_all add: positive_remote_def)
  then have "\<exists>st. manager = Some (None, st) \<and> rst_LocalInterests st < rec_SnapshotInterestKeys ?c \<and>
      rst_ActiveTransactions st < rec_TransactionTrackLimit ?c"
    if ok: "remote_checkHealth ?c manager = (StatusOK, message, e)" for manager message e
    using ok by (auto simp: remote_checkHealth_def split: option.splits prod.splits if_splits)
  with c p show ?thesis by blast
qed

definition ex_remote :: RemoteConfig where
  "ex_remote = \<lparr>rec_LockTTL = 1, rec_LockKey = ''lock'', rec_RetryCount = 1, rec_RetryDelay = 1, rec_OpTimeout = 1,
     rec_VersionTTL = 1, rec_UnlockRetryCount = 1, rec_UnlockRetryInterval = 1, rec_FinalizeRetryInterval = 1,
     rec_MaxWriteBatch = 1, rec_SnapshotCacheShards = 1, rec_SnapshotCacheEntries = 1, rec_SnapshotCacheBytes = 1,
     rec_SnapshotCacheTTL = 1, rec_SnapshotL2TTL = 1, rec_SnapshotInterestTTL = 1, rec_SnapshotInterestKeys = 1,
     rec_SnapshotInterestSubs = 1, rec_MarkerCacheTTL = 1, rec_SnapshotLoadTimeout = 1, rec_SnapshotMaxWaiters = 1,
     rec_AsyncFinalizeCapacity = 1, rec_AsyncFinalizeWorkers = 1, rec_TransactionTrackLimit = 1,
     rec_TransactionTrackTTL = 1, rec_WrapperCapacity = 1, rec_WrapperIdleTTL = 1\<rparr>"

lemma remote_fenced_and_bounded_witness:
  "\<exists>m'. RemoteEntityInit ex_remote (Some (empty_viper\<lparr>cfg_GetInt32 := (\<lambda>_. 7)\<rparr>))
      (NewRemoteEntityMod 0 [] :: (unit, unit, unit) remote_mod) = (None, m') \<and> rem_localSid m' \<noteq> 0"
proof -
  let ?m = "NewRemoteEntityMod 0 [] :: (unit, unit, unit) remote_mod"
  let ?v = "Some (empty_viper\<lparr>cfg_GetInt32 := (\<lambda>_. 7)\<rparr>)"
  have "fst (RemoteEntityInit ex_remote ?v ?m) = None" by (simp add: RemoteEntityInit_def NewRemoteEntityMod_def)
  then obtain m' where m: "RemoteEntityInit ex_remote ?v ?m = (None, m')"
    by (cases "RemoteEntityInit ex_remote ?v ?m") simp
  have "positive_remote ex_remote" by (simp add: positive_remote_def ex_remote_def)
  from remote_fenced_and_bounded [OF this m] m show ?thesis by blast
qed

end
