(* ===== verification/SmallMods.thy ===== *)
theory SmallMods
  imports Connections
begin

text \<open>
  The three small Mods: configuration data with its reload gauge (\<open>configdata/configdata.go\<close>), the managers of a
  service (\<open>manager/manager_mod.go\<close>) and the lock manager (\<open>lock/lock_mod.go\<close>). The configuration store, the
  manager engine and the lock manager are parameters.
\<close>

section \<open>Configuration data\<close>

definition cfgKeyDir :: string where "cfgKeyDir = ''config_data.dir''"

definition configdata_dir :: "viper option \<Rightarrow> string" where
  "configdata_dir vp =
     (case vp of
        None \<Rightarrow> ''configs/data''
      | Some cfg \<Rightarrow> if cfg_IsSet cfg cfgKeyDir then cfg_GetString cfg cfgKeyDir else ''configs/data'')"

text \<open>What the reload hook writes: the counter by result and reason, and the version gauge.\<close>

record reload_metrics =
  rlm_total :: "(string \<times> string \<times> int) list"
  rlm_version :: "int option"

definition IncCounter :: "string \<Rightarrow> string \<Rightarrow> int \<Rightarrow> reload_metrics \<Rightarrow> reload_metrics" where
  "IncCounter result reason n w = w\<lparr>rlm_total := rlm_total w @ [(result, reason, n)]\<rparr>"

definition SetGauge :: "int \<Rightarrow> reload_metrics \<Rightarrow> reload_metrics" where
  "SetGauge v w = w\<lparr>rlm_version := Some v\<rparr>"

record ReloadEvent =
  rle_Old :: int
  rle_New :: int
  rle_Reason :: string

definition AfterApply :: "ReloadEvent \<Rightarrow> reload_metrics \<Rightarrow> gerr option \<times> reload_metrics" where
  "AfterApply event w = (None, SetGauge (rle_New event) (IncCounter ''ok'' (rle_Reason event) 1 w))"

definition Rollback :: "ReloadEvent \<Rightarrow> reload_metrics \<Rightarrow> reload_metrics" where
  "Rollback event w = SetGauge (rle_Old event) (IncCounter ''rollback'' (rle_Reason event) 1 w)"

text \<open>
  The Mod: the store once \<open>Init\<close> made it, the two registries once \<open>Provide\<close> found them, and the functions that
  take the hooks off again, on the state outside.
\<close>

record ('st, 'mx, 'lf, 's) configdata_mod =
  cdm_store :: "'st option"
  cdm_dir :: string
  cdm_metrics :: "'mx option"
  cdm_lifecycle :: "'lf option"
  cdm_unregisters :: "('s \<Rightarrow> 's) list"

definition NewConfigDataMod :: "('st, 'mx, 'lf, 's) configdata_mod" where
  "NewConfigDataMod = \<lparr>cdm_store = None, cdm_dir = [], cdm_metrics = None, cdm_lifecycle = None, cdm_unregisters = []\<rparr>"

definition ConfigDataInit :: "(string \<Rightarrow> 'st) \<Rightarrow> viper option \<Rightarrow> ('st, 'mx, 'lf, 's) configdata_mod \<Rightarrow> ('st, 'mx, 'lf, 's) configdata_mod" where
  "ConfigDataInit newStore vp m = m\<lparr>cdm_dir := configdata_dir vp, cdm_store := Some (newStore (configdata_dir vp))\<rparr>"

definition ModConfigData :: string where "ModConfigData = ''config_data''"

text \<open>
  \<open>Provide\<close> of an initialised Mod with store \<open>st\<close>. \<open>setLifecycle\<close> and \<open>addListener\<close> are the two calls on the store;
  the second answers the function that takes the hook off.
\<close>

definition ConfigDataProvide ::
  "string \<Rightarrow> string \<Rightarrow> ('s \<Rightarrow> 'mx option) \<Rightarrow> ('s \<Rightarrow> 'lf option) \<Rightarrow> ('lf \<Rightarrow> 's \<Rightarrow> 's) \<Rightarrow>
   ((ReloadEvent \<Rightarrow> reload_metrics \<Rightarrow> gerr option \<times> reload_metrics) \<times> (ReloadEvent \<Rightarrow> reload_metrics \<Rightarrow> reload_metrics) \<Rightarrow>
      's \<Rightarrow> ('s \<Rightarrow> 's) \<times> 's) \<Rightarrow>
   ('s, 'c) registry option \<Rightarrow> 'c \<Rightarrow> ('st, 'mx, 'lf, 's) configdata_mod \<Rightarrow> 's \<Rightarrow>
   (gerr + unit) \<times> ('st, 'mx, 'lf, 's) configdata_mod \<times> 's" where
  "ConfigDataProvide metricsName lifecycleName getMetrics getLifecycle setLifecycle addListener registry storeOf m s =
     (case registry of
        None \<Rightarrow> (Inr (), m, s)
      | Some rg \<Rightarrow>
          let m1 = m\<lparr>cdm_metrics := getMetrics s\<rparr> in
          if cdm_metrics m1 = None then (Inl (missing_capability metricsName), m1, s)
          else let m2 = m1\<lparr>cdm_lifecycle := getLifecycle s\<rparr> in
            (case cdm_lifecycle m2 of
               None \<Rightarrow> (Inl (missing_capability lifecycleName), m2, s)
             | Some lf \<Rightarrow>
                 (case addListener (AfterApply, Rollback) (setLifecycle lf s) of
                    (off, s1) \<Rightarrow>
                      (case registerE rg ModConfigData storeOf s1 of
                         (r, s2) \<Rightarrow> (r, m2\<lparr>cdm_unregisters := cdm_unregisters m2 @ [off]\<rparr>, s2)))))"

definition ConfigDataStart :: "('st \<Rightarrow> 's \<Rightarrow> gerr option \<times> 's) \<Rightarrow> ('st, 'mx, 'lf, 's) configdata_mod \<Rightarrow> 's \<Rightarrow> gerr option \<times> 's" where
  "ConfigDataStart load m s =
     (case cdm_store m of None \<Rightarrow> (Some [Foreign ''configdata mod: store is nil''], s) | Some st \<Rightarrow> load st s)"

text \<open>The hooks are taken off in the reverse order.\<close>

definition ConfigDataStop :: "('st, 'mx, 'lf, 's) configdata_mod \<Rightarrow> 's \<Rightarrow> ('st, 'mx, 'lf, 's) configdata_mod \<times> 's" where
  "ConfigDataStop m s = (m\<lparr>cdm_unregisters := []\<rparr>, fold (\<lambda>off. off) (rev (cdm_unregisters m)) s)"

section \<open>Managers and locks\<close>

definition ModManager :: string where "ModManager = ''manager''"

text \<open>\<open>provide\<close> is \<open>Engine.Provide\<close>; \<open>self\<close> the value of the capability.\<close>

definition ManagerProvide ::
  "('s \<Rightarrow> gerr option \<times> 's) \<Rightarrow> ('s, 'c) registry option \<Rightarrow> 'c \<Rightarrow> ('s, unit) handler" where
  "ManagerProvide provide registry self s =
     (case registry of
        None \<Rightarrow> (Inl [Foreign ''manager mod: registry is nil''], s)
      | Some rg \<Rightarrow>
          (case provide s of
             (Some err, s1) \<Rightarrow> (Inl err, s1)
           | (None, s1) \<Rightarrow> registerE rg ModManager self s1))"

definition ModLock :: string where "ModLock = ''lock''"

definition LockProvide :: "('s, 'c) registry \<Rightarrow> 'c \<Rightarrow> ('s, unit) handler" where
  "LockProvide rg lockManager = registerE rg ModLock lockManager"

section \<open>Properties\<close>

text \<open>
  What a reload does to the store, as \<open>roost-core\<close> documents it: it either applies \<open>New\<close>, calling the hooks
  after it, or it goes back to \<open>Old\<close>, after the hooks of some listeners ran.
\<close>

datatype reload_outcome = Applied ReloadEvent | RolledBack ReloadEvent bool

fun reload_step :: "reload_outcome \<Rightarrow> int \<times> reload_metrics \<Rightarrow> int \<times> reload_metrics" where
  "reload_step (Applied event) (version, w) = (rle_New event, snd (AfterApply event w))"
| "reload_step (RolledBack event applied) (version, w) =
     (rle_Old event, Rollback event (if applied then snd (AfterApply event w) else w))"

text \<open>The version gauge follows the store through every sequence of reloads, rolled back ones included.\<close>

lemma gauge_follows_store:
  assumes "fold reload_step (outcome # outcomes) s = (version, w)"
  shows "rlm_version w = Some version"
proof -
  have step: "rlm_version (snd (reload_step o' s)) = Some (fst (reload_step o' s))" for o' s
    by (cases s; cases o') (simp_all add: AfterApply_def Rollback_def SetGauge_def)
  have "rlm_version (snd (fold reload_step os s)) = Some (fst (fold reload_step os s))"
    if "rlm_version (snd s) = Some (fst s)" for os s
    using that by (induction os arbitrary: s) (simp_all add: step)
  from this [OF step, of outcomes outcome s] assms show ?thesis by simp
qed

lemma configdata_stop_once: "ConfigDataStop (fst (ConfigDataStop m s)) s' = (fst (ConfigDataStop m s), s')"
  by (simp add: ConfigDataStop_def)

end
