(* ===== verification/ConnectionProps.thy ===== *)
theory ConnectionProps
  imports NatsMod RoomMod
begin

text \<open>
  Giving a connection back: the contract of a stop that releases what it holds, proved once over a locale and
  interpreted on the Mods of redis, mongo, nats and room. The etcd Mod is the one that keeps its field.
\<close>

locale releasing_stop =
  fixes stop :: "'m \<Rightarrow> 's \<Rightarrow> gerr option \<times> 'm \<times> 's"
    and holds :: "'m \<Rightarrow> bool"
  assumes released: "stop m s = (None, m', s') \<Longrightarrow> \<not> holds m'"
    and nothing_held: "\<not> holds m \<Longrightarrow> stop m s = (None, m, s)"
begin

text \<open>The answers of a number of calls of \<open>Stop\<close>, one after the other, and where they end.\<close>

fun stops :: "nat \<Rightarrow> 'm \<Rightarrow> 's \<Rightarrow> gerr option list \<times> 'm \<times> 's" where
  "stops 0 m s = ([], m, s)"
| "stops (Suc n) m s = (case stop m s of (e, m1, s1) \<Rightarrow> (case stops n m1 s1 of (es, m2, s2) \<Rightarrow> (e # es, m2, s2)))"

lemma stops_idle: "\<not> holds m \<Longrightarrow> stops n m s = (replicate n None, m, s)"
  by (induction n) (simp_all add: nothing_held)

text \<open>After the first stop that succeeded, further ones answer no error and touch nothing.\<close>

lemma stops_after_success: "stop m s = (None, m', s') \<Longrightarrow> stops (Suc n) m s = (replicate (Suc n) None, m', s')"
  by (simp add: stops_idle released)

lemma still_held: "stops n m s = (es, m', s') \<Longrightarrow> holds m' \<Longrightarrow> None \<notin> set es"
proof (induction n arbitrary: m s es)
  case (Suc n)
  obtain e m1 s1 where s: "stop m s = (e, m1, s1)" by (cases "stop m s") auto
  obtain es1 where r: "stops n m1 s1 = (es1, m', s')" "es = e # es1"
    using Suc.prems(1) by (auto simp: s split: prod.splits)
  have "e \<noteq> None"
  proof
    assume "e = None"
    with s released have "\<not> holds m1" by blast
    with r(1) stops_idle Suc.prems(2) show False by simp
  qed
  with Suc.IH [OF r(1) Suc.prems(2)] r(2) show ?case by auto
qed simp

end

interpretation redis: releasing_stop "RedisModStop ops" "\<lambda>m. m \<noteq> None" for ops
  by unfold_locales (auto simp: RedisModStop_def split: option.splits prod.splits)

interpretation mongo: releasing_stop "MongoModStop ops ctxErr" "\<lambda>m. m \<noteq> None" for ops ctxErr
  by unfold_locales (auto simp: MongoModStop_def split: option.splits prod.splits)

interpretation nats: releasing_stop "NatsModStop ops nb" "\<lambda>m. nm_bus m \<noteq> None \<or> nm_asm m \<noteq> None" for ops nb
  by unfold_locales (auto simp: nats_stop_releases, simp add: NatsModStop_def nats_stop_bus_def)

interpretation room: releasing_stop "RoomStop stopper_of" "\<lambda>m. rmm_bus m \<noteq> None" for stopper_of
  by unfold_locales (auto simp: RoomStop_def split: option.splits stopper.splits prod.splits)

text \<open>
  What this says of the four Mods: when a number of stops leaves the connection in place, all of them failed;
  so a stop that fails can be tried again, and a connection is given back at most once.
\<close>

lemma redis_gives_back_once:
  "redis.stops ops n m s = (es, Some a, s') \<Longrightarrow> None \<notin> set es"
  "RedisModStop ops m s = (None, m', s') \<Longrightarrow> redis.stops ops (Suc n) m s = (replicate (Suc n) None, None, s')"
  using redis.released [of ops m s m' s'] by (auto simp: redis.stops_idle dest: redis.still_held)

text \<open>Mongo does not even try under a context that is over: the connection stays for the next stop.\<close>

lemma mongo_keeps_on_dead_context: "MongoModStop ops (Some e) (Some a) s = (Some e, Some a, s)"
  by (simp add: MongoModStop_def)

text \<open>The bus is stopped before the connection it runs on is closed, and the connection is closed even when
  the bus could not be stopped; the answer is no error exactly when both went well.\<close>

lemma nats_stop_order:
  assumes "nm_bus m = Some b" "nm_asm m = Some a" "nb_Stop nb = Inl stopBus"
    and "stopBus b s = (e1, s1)" "cn_Close ops a s1 = (e2, s2)"
  shows "NatsModStop ops nb m s = (Join_errors e1 e2, m\<lparr>nm_bus := None, nm_asm := None\<rparr>, s2)"
    "Join_errors e1 e2 = None \<longleftrightarrow> e1 = None \<and> e2 = None"
  using assms by (simp_all add: NatsModStop_def nats_stop_bus_def Join_errors_None)

text \<open>A second stop of the etcd Mod closes the assembly a second time.\<close>

lemma etcd_closes_again:
  "EtcdModStop ops (Some a) s = (e, m', s') \<Longrightarrow> EtcdModStop ops m' s' = (let (e, s2) = cn_Close ops a s' in (e, Some a, s2))"
  by (auto simp: EtcdModStop_def Let_def split: prod.splits)

end
