(* ===== verification/ModOrder.thy ===== *)
theory ModOrder
  imports RoomMod NatsMod SagaMod RemoteEntityMod SmallMods ServiceMods OpsMod "HOL-Library.Multiset"
begin

text \<open>
  The dependencies the Mods declare (\<open>DependsOn\<close> and \<open>OptionalDependsOn\<close> of every Mod), and that the application
  can start them: every name that is depended on is the name of a Mod, and there is an order in which each Mod
  comes after what it depends on. \<open>mod_dependencies_test.go\<close> tests the first half of it.
\<close>

section \<open>What each Mod declares\<close>

record mod_decl =
  md_Name :: string
  md_DependsOn :: "string list"
  md_OptionalDependsOn :: "string list"

definition ModDataEngine :: string where "ModDataEngine = ''dataengine''"
definition ModNest :: string where "ModNest = ''nest''"
definition ModOps :: string where "ModOps = ''ops''"
definition ModStatsLog :: string where "ModStatsLog = ''stats_log''"

definition DataEngine_OptionalDependsOn :: "bool \<Rightarrow> string list" where
  "DataEngine_OptionalDependsOn remoteEnabled = [ModMongo, ModNats] @ (if remoteEnabled then [ModRemoteEntity] else [])"

definition RemoteEntity_DependsOn :: "('be, 'lo, 'a) remote_mod \<Rightarrow> string list" where
  "RemoteEntity_DependsOn m =
     [ModRedis, ModRoom] @ (if rem_mongoLoader m \<noteq> None \<and> rem_backend m = None then [ModMongo] else [])"

definition Nest_OptionalDependsOn :: "string list" where "Nest_OptionalDependsOn = [ModDataEngine, ModRemoteEntity]"
definition Saga_DependsOn :: "string list" where "Saga_DependsOn = [ModMongo, ModNats]"
definition Saga_OptionalDependsOn :: "string list" where "Saga_OptionalDependsOn = [ModDataEngine]"
definition Nats_OptionalDependsOn :: "string list" where "Nats_OptionalDependsOn = [ModRedis]"
definition Room_DependsOn :: "string list" where "Room_DependsOn = [ModNats]"

text \<open>The Mods of the kit, for both settings of the data engine and any remote entity Mod.\<close>

definition kit_mods :: "bool \<Rightarrow> ('be, 'lo, 'a) remote_mod \<Rightarrow> mod_decl list" where
  "kit_mods remoteEnabled re =
     [\<lparr>md_Name = ModConfigData, md_DependsOn = [], md_OptionalDependsOn = []\<rparr>,
      \<lparr>md_Name = ModDataEngine, md_DependsOn = [], md_OptionalDependsOn = DataEngine_OptionalDependsOn remoteEnabled\<rparr>,
      \<lparr>md_Name = ModEtcd, md_DependsOn = [], md_OptionalDependsOn = []\<rparr>,
      \<lparr>md_Name = ModLock, md_DependsOn = [], md_OptionalDependsOn = []\<rparr>,
      \<lparr>md_Name = ModManager, md_DependsOn = [], md_OptionalDependsOn = []\<rparr>,
      \<lparr>md_Name = ModMongo, md_DependsOn = [], md_OptionalDependsOn = []\<rparr>,
      \<lparr>md_Name = ModNats, md_DependsOn = [], md_OptionalDependsOn = Nats_OptionalDependsOn\<rparr>,
      \<lparr>md_Name = ModNest, md_DependsOn = [], md_OptionalDependsOn = Nest_OptionalDependsOn\<rparr>,
      \<lparr>md_Name = ModOps, md_DependsOn = [], md_OptionalDependsOn = []\<rparr>,
      \<lparr>md_Name = ModRedis, md_DependsOn = [], md_OptionalDependsOn = []\<rparr>,
      \<lparr>md_Name = ModRemoteEntity, md_DependsOn = RemoteEntity_DependsOn re, md_OptionalDependsOn = []\<rparr>,
      \<lparr>md_Name = ModRoom, md_DependsOn = Room_DependsOn, md_OptionalDependsOn = []\<rparr>,
      \<lparr>md_Name = ModSaga, md_DependsOn = Saga_DependsOn, md_OptionalDependsOn = Saga_OptionalDependsOn\<rparr>,
      \<lparr>md_Name = ModStatsLog, md_DependsOn = [], md_OptionalDependsOn = []\<rparr>]"

text \<open>
  The Mods of the services: the owner of a service depends on Redis, its client Mod, which has the same name, on
  NATS. The directory has no client Mod.
\<close>

definition owner_mods :: "mod_decl list" where
  "owner_mods = map (\<lambda>n. \<lparr>md_Name = n, md_DependsOn = [ModRedis], md_OptionalDependsOn = []\<rparr>) AllNames"

definition client_mods :: "mod_decl list" where
  "client_mods = map (\<lambda>n. \<lparr>md_Name = n, md_DependsOn = [ModNats], md_OptionalDependsOn = []\<rparr>)
     (filter (\<lambda>n. n \<noteq> ModDirectory) AllNames)"

section \<open>A start order\<close>

text \<open>
  In a start order every dependency is there and comes before, and every optional one, if it is there at all,
  comes before.
\<close>

fun starts_in_order :: "string set \<Rightarrow> string set \<Rightarrow> mod_decl list \<Rightarrow> bool" where
  "starts_in_order installed started [] \<longleftrightarrow> True"
| "starts_in_order installed started (m # ms) \<longleftrightarrow>
     set (md_DependsOn m) \<subseteq> started \<and> set (md_OptionalDependsOn m) \<inter> installed \<subseteq> started \<and>
     starts_in_order installed (insert (md_Name m) started) ms"

text \<open>The rank of a Mod: its place in the longest chain of dependencies.\<close>

definition mod_rank :: "string \<Rightarrow> nat" where
  "mod_rank n =
     (if n = ModNats then 1 else if n = ModRoom then 2 else if n = ModRemoteEntity then 3
      else if n = ModDataEngine then 4 else if n = ModNest \<or> n = ModSaga then 5
      else if n \<in> set AllNames then 2 else 0)"

lemmas mod_name_defs = ModConfigData_def ModDataEngine_def ModEtcd_def ModLock_def ModManager_def ModMongo_def ModNats_def
  ModNest_def ModOps_def ModRedis_def ModRemoteEntity_def ModRoom_def ModSaga_def ModStatsLog_def

lemmas depends_defs = DataEngine_OptionalDependsOn_def RemoteEntity_DependsOn_def Nest_OptionalDependsOn_def Saga_DependsOn_def
  Saga_OptionalDependsOn_def Nats_OptionalDependsOn_def Room_DependsOn_def

lemmas service_name_defs = AllNames_def ModAccount_def ModChat_def ModDirectory_def ModGlobal_def ModGlobalActivity_def
  ModMail_def ModMatch_def ModPlatform_def ModRank_def ModSession_def

lemma mod_ranks:
  "mod_rank ModMongo = 0" "mod_rank ModRedis = 0" "mod_rank ModNats = 1" "mod_rank ModRoom = 2"
  "mod_rank ModRemoteEntity = 3" "mod_rank ModDataEngine = 4" "mod_rank ModNest = 5" "mod_rank ModSaga = 5"
  by (simp_all add: mod_rank_def mod_name_defs service_name_defs)

lemma service_ranks: "n \<in> set AllNames \<Longrightarrow> mod_rank n = 2"
proof -
  have "list_all (\<lambda>n. mod_rank n = 2) AllNames"
    by (simp add: mod_rank_def mod_name_defs service_name_defs)
  then show "n \<in> set AllNames \<Longrightarrow> mod_rank n = 2" by (simp add: list_all_iff)
qed

text \<open>A declaration is ranked when all its dependencies rank below it.\<close>

definition ranked :: "mod_decl \<Rightarrow> bool" where
  "ranked m \<longleftrightarrow> list_all (\<lambda>d. mod_rank d < mod_rank (md_Name m)) (md_DependsOn m @ md_OptionalDependsOn m)"

lemma rankedD: "ranked m \<Longrightarrow> d \<in> set (md_DependsOn m) \<union> set (md_OptionalDependsOn m) \<Longrightarrow> mod_rank d < mod_rank (md_Name m)"
  by (auto simp: ranked_def list_all_iff)

lemma kit_rank: "list_all ranked (kit_mods remoteEnabled re)"
  by (simp add: kit_mods_def ranked_def depends_defs mod_ranks)

lemma service_rank: "list_all ranked owner_mods" "list_all ranked client_mods"
  by (auto simp: owner_mods_def client_mods_def list_all_iff ranked_def service_ranks mod_ranks)

lemma in_order_of_rank:
  assumes "\<And>m d. m \<in> set ms \<Longrightarrow> d \<in> set (md_DependsOn m) \<union> set (md_OptionalDependsOn m) \<Longrightarrow>
      mod_rank d < mod_rank (md_Name m)"
    and "\<And>m. m \<in> set ms \<Longrightarrow> set (md_DependsOn m) \<subseteq> installed"
    and "sorted (map (\<lambda>m. mod_rank (md_Name m)) ms)" and "installed \<subseteq> started \<union> md_Name ` set ms"
  shows "starts_in_order installed started ms"
  using assms
proof (induction ms arbitrary: started)
  case (Cons m ms)
  have low: "d \<in> started" if d: "d \<in> installed" "d \<in> set (md_DependsOn m) \<union> set (md_OptionalDependsOn m)" for d
  proof (rule ccontr)
    assume "d \<notin> started"
    with d(1) Cons.prems(4) obtain m' where m': "m' \<in> set (m # ms)" "d = md_Name m'" by auto
    then have "mod_rank (md_Name m) \<le> mod_rank d" using Cons.prems(3) by auto
    moreover have "mod_rank d < mod_rank (md_Name m)" using Cons.prems(1) d(2) by simp
    ultimately show False by simp
  qed
  have "starts_in_order installed (insert (md_Name m) started) ms"
  proof (rule Cons.IH)
    show "\<And>m' d. m' \<in> set ms \<Longrightarrow> d \<in> set (md_DependsOn m') \<union> set (md_OptionalDependsOn m') \<Longrightarrow>
        mod_rank d < mod_rank (md_Name m')" using Cons.prems(1) by simp
    show "\<And>m'. m' \<in> set ms \<Longrightarrow> set (md_DependsOn m') \<subseteq> installed" using Cons.prems(2) by simp
    show "sorted (map (\<lambda>m. mod_rank (md_Name m)) ms)" using Cons.prems(3) by simp
    show "installed \<subseteq> insert (md_Name m) started \<union> md_Name ` set ms" using Cons.prems(4) by auto
  qed
  moreover have "set (md_DependsOn m) \<subseteq> started"
    using low Cons.prems(2) [of m] by auto
  moreover have "set (md_OptionalDependsOn m) \<inter> installed \<subseteq> started"
    using low by auto
  ultimately show ?case by simp
qed simp

text \<open>C29: A process can always be started. Every dependency a Mod declares, optional ones included, is the name
  of a Mod of the kit, never of a capability; and whatever Mods of the kit and of the services an
  application installs, as long as the required dependencies are among them, sorting them by rank is an order
  in which each Mod comes after everything it depends on, so no configuration of the kit has a cycle.\<close>

theorem mods_start:
  assumes "set ms \<subseteq> set (kit_mods remoteEnabled re) \<union> set owner_mods \<union> set client_mods"
    and "\<And>m. m \<in> set ms \<Longrightarrow> set (md_DependsOn m) \<subseteq> md_Name ` set ms"
  shows "starts_in_order (md_Name ` set ms) {} (sort_key (\<lambda>m. mod_rank (md_Name m)) ms) \<and>
    mset (sort_key (\<lambda>m. mod_rank (md_Name m)) ms) = mset ms \<and>
    (\<forall>m \<in> set (kit_mods remoteEnabled re) \<union> set owner_mods \<union> set client_mods.
       set (md_DependsOn m) \<union> set (md_OptionalDependsOn m) \<subseteq> md_Name ` set (kit_mods remoteEnabled re))"
proof -
  have "starts_in_order (md_Name ` set ms) {} (sort_key (\<lambda>m. mod_rank (md_Name m)) ms)"
  proof (rule in_order_of_rank)
    fix m d
    assume "m \<in> set (sort_key (\<lambda>m. mod_rank (md_Name m)) ms)" "d \<in> set (md_DependsOn m) \<union> set (md_OptionalDependsOn m)"
    moreover from this assms(1) kit_rank [of remoteEnabled re] service_rank have "ranked m"
      by (auto simp: list_all_iff)
    ultimately show "mod_rank d < mod_rank (md_Name m)" using rankedD by blast
  next
    fix m
    assume "m \<in> set (sort_key (\<lambda>m. mod_rank (md_Name m)) ms)"
    with assms(2) show "set (md_DependsOn m) \<subseteq> md_Name ` set ms" by simp
  qed simp_all
  moreover have "set (md_DependsOn m) \<union> set (md_OptionalDependsOn m) \<subseteq> md_Name ` set (kit_mods remoteEnabled re)"
    if "m \<in> set (kit_mods remoteEnabled re) \<union> set owner_mods \<union> set client_mods" for m
    using that by (auto simp: kit_mods_def depends_defs owner_mods_def client_mods_def)
  ultimately show ?thesis by simp
qed

text \<open>The reference process: the data engine with remote projection, Nest, sagas and the owner of the accounts.\<close>

definition ex_remote_mod :: "(unit, unit, unit) remote_mod" where
  "ex_remote_mod = NewRemoteEntityMod 1 [Some (WithMongoStorage (Some ()))]"

lemma mods_start_witness:
  "starts_in_order (md_Name ` set (kit_mods True ex_remote_mod @ owner_mods)) {}
     (sort_key (\<lambda>m. mod_rank (md_Name m)) (kit_mods True ex_remote_mod @ owner_mods))"
proof -
  let ?ms = "kit_mods True ex_remote_mod @ owner_mods"
  have sub: "set ?ms \<subseteq> set (kit_mods True ex_remote_mod) \<union> set owner_mods \<union> set client_mods" by auto
  have dep: "set (md_DependsOn m) \<subseteq> md_Name ` set ?ms" if "m \<in> set ?ms" for m
    using that by (auto simp: kit_mods_def depends_defs owner_mods_def)
  show ?thesis by (rule mods_start [OF sub dep, THEN conjunct1])
qed

end
