(* ===== verification/Spec2Isabelle.thy ===== *)
theory Spec2Isabelle
  imports Global ActivityTypes Activity ActivityCells ActivityProps ActivityDelivery ActivityProgress Platform PlatformProps PlatformLiveness Utf8 Chat ChatProps Directory DirectoryProps Account AccountProps RankCodec Rank RankBoards RankAlone RankProps
    Mods StatsLog StatsLogProps StatsLogLife OpsMod Rpc RpcRank RpcAccount RpcChat RpcGlobal RpcPlatform RpcActivity
    RedisStores ServiceMods ServiceModsProps ClusterSlots HostedMods ServerLoops EngineMods EngineModsProps
    Connections NatsMod RoomMod SagaMod RemoteEntityMod SmallMods ConnectionProps ModOrder
begin

text \<open>
  A formal model of roost-kit, the layer of Go services and Mods that game servers are assembled from, with
  the theorems that make its parts correct.

  \<^bold>\<open>The program.\<close> A \<^emph>\<open>service\<close> (\<open>src/service/<name>\<close>) keeps small records in versioned stores
  (compare-and-set by version) and is reached through a message bus. Each has the same parts: types with their
  validation (\<open>types.go\<close>), handlers that run callbacks inside \<open>Update\<close> (\<open>service.go\<close>, \<open>store.go\<close>, \<open>admin.go\<close>),
  stores over Redis (\<open>redis_store.go\<close>), a loop of its server process (\<open>server_run.go\<close>), a generated transport
  (\<open>*_rpc_gen.go\<close>, \<open>*_rpc_assembly_gen.go\<close>) and a Mod that assembles it from the configuration (\<open>*_mod.go\<close>).
  A \<^emph>\<open>Mod\<close> (\<open>src/mods\<close>, \<open>src/redis\<close>, \<open>src/dataengine\<close>, ...) is initialised from the configuration, looks up and
  publishes capabilities in the application's registry, is started and stopped. The handlers of different
  services meet in the stores and in the registry: account claims names through the directory, Nest commits
  through the storage engine, the operations endpoint reads what every Mod reports.

  \<^bold>\<open>Conventions.\<close> A struct is a record or a datatype with the source's fields, named with a short prefix
  (\<open>or_State\<close> is \<open>Order.State\<close>); an enum is a datatype whose first constructor is the zero value. A handler
  threads the world of its service (one field per store and collaborator, the clock, the counters, and the
  trace of observable events, \<open>Prelude.env\<close>) and answers \<open>Inl\<close> of an error or \<open>Inr\<close> of a value; an error is
  its code and reason, since callers compare codes, not texts. The callback of an \<open>Update\<close> is a definition of
  its own (\<open>..._mutate\<close>): it may run several times, as in the code, and the variables it captures are computed
  from the values it ran on. Go's \<open>int\<close> and durations are \<open>int\<close> where a validated bound keeps them far from the
  edge, and words of 64 bits where they wrap (scores and members of a leaderboard, byte counts); strings are
  byte strings; \<open>float64\<close> is rounded to 53 bits (\<open>StatsLog.float53\<close>).

  \<^bold>\<open>Parameters.\<close> Code that is not under \<open>src/\<close> is an argument of the definitions that use it, with its documented
  behaviour as a named hypothesis: a versioned store is a \<open>vstore\<close> record under \<open>vs_contract\<close> (reads, insert-only
  creation, one committed run of the callback, version-checked deletion, versions that grow while a key exists and start again after a deletion; any operation may
  fail; between two operations the relation \<open>R\<close> says what others may have done, equality when nobody else
  writes); Redis under the leaderboards is \<open>redis_contract\<close>; the registry is \<open>reg_contract\<close>; a call of the bus
  is \<open>rpc_contract\<close>. Every hypothesis has an instance in memory (\<open>mem_store_contract\<close>, \<open>ex_...\<close>) and every
  property with a hypothesis is applied there. Signing, SHA-256, JSON, \<open>strings.ToLower\<close>, verifiers, policies
  and deliverers of a deployment, and the engines and drivers behind the Mods are parameters as well.

  \<^bold>\<open>Shared theories.\<close>
  \<^item> \<open>Prelude\<close>: worlds, handlers, traces, errors, the locale \<open>handler_steps\<close> (a relation between worlds that every
    step of a handler keeps, interpreted by the frames and by the sweeps), decimal rendering and key injectivity.
  \<^item> \<open>VersionStore\<close>: the contract, the store in memory, and the locale \<open>cas_cell\<close>: one record under the committed
    operations of anyone. Its laws are proved for routes and leases (\<open>Global\<close>), orders (\<open>PlatformProps\<close>),
    activities, dispatches and windows (\<open>ActivityCells\<close>) and roles (\<open>AccountProps\<close>); the invariants and the
    monotonicity of those records under every interleaving are its conclusions. \<open>watched\<close> puts an observer beside
    a store, who notices a write behind an error and a refused delete; the rollbacks of \<open>AccountProps\<close> rest on it.

  \<^bold>\<open>The services.\<close>
  \<^item> \<open>Global\<close> (\<open>service/global/types.go\<close>, \<open>service.go\<close>): route bindings with their two-step migration, game leases.
    The epoch fences migrations and a live lease belongs to its token.
  \<^item> \<open>ActivityTypes\<close>, \<open>Activity\<close> (\<open>service/global/activity\<close>): identities and rendered keys; the coordinator with its
    six stores. \<open>ActivityCells\<close> has the records under interleaving, \<open>ActivityProps\<close> the handlers and the audit,
    \<open>ActivityDelivery\<close> sweep and dispatches, \<open>ActivityProgress\<close> the request ledger and the rotation of the
    delivering window.
  \<^item> \<open>Platform\<close>, \<open>PlatformProps\<close>, \<open>PlatformLiveness\<close> (\<open>service/platform\<close>): sessions, paid orders, claimed attempts under
    a budget and a backoff, the operator. What a retry is granted is bounded, what is delivered is final, and an
    order that keeps being retried when it is due settles.
  \<^item> \<open>Utf8\<close>, \<open>Chat\<close>, \<open>ChatProps\<close> (\<open>service/chat\<close>): channels as rules, messages in a bounded ring with an idempotency
    ledger, history pages. A page is a slice of the stream, and paging forward is complete and ends.
  \<^item> \<open>Directory\<close>, \<open>DirectoryProps\<close> (\<open>service/directory\<close>): keys claimed in two phases; each handler, alone, performs the
    step of an abstract directory and gives its answer. Callers that interleave (\<open>dir_step\<close>, \<open>dir_run\<close>) run the
    handlers themselves, with the read and the delete of \<open>Cancel\<close> and \<open>Release\<close> as two steps: a held key is
    safe from them unless a delete is in flight that read an earlier entry of the same version.
  \<^item> \<open>Account\<close>, \<open>AccountProps\<close> (\<open>service/account\<close>): accounts, roles under a name claim and a slot, sessions; a failed
    role creation takes back what it wrote unless an answer of a store was lost, and never touches what was there.
  \<^item> \<open>RankCodec\<close>, \<open>Rank\<close>, \<open>RankBoards\<close>, \<open>RankAlone\<close>, \<open>RankProps\<close> (\<open>service/rank\<close>): the byte encoding whose order is
    the ranking, the optimistic transaction of \<open>Submit\<close> over a sorted set and an owner hash, the invariant of
    the boards under interference (locale \<open>board_invariant\<close>), and the undisturbed run that refines a map from
    owner to score.

  \<^bold>\<open>Transport, stores and assembly.\<close>
  \<^item> \<open>Rpc\<close> and \<open>RpcRank\<close>, \<open>RpcAccount\<close>, \<open>RpcChat\<close>, \<open>RpcGlobal\<close>, \<open>RpcPlatform\<close>, \<open>RpcActivity\<close>: wire types, handler
    tables, bus clients, server and client Mods. A remote call is the local call, up to failures of the bus.
  \<^item> \<open>RedisStores\<close>, \<open>ClusterSlots\<close>: the prefixes and keys of every store, that they are apart, and the slots of a
    cluster. \<open>ServiceMods\<close>, \<open>ServiceModsProps\<close>: the Mods of the services, what \<open>Init\<close> refuses, that a configured
    platform comes up.
  \<^item> \<open>HostedMods\<close>: the assembly of match, mail and session, whose domains are those of roost-core. \<open>ServerLoops\<close>: the
    loops of all server processes over a list of events.

  \<^bold>\<open>The other Mods.\<close>
  \<^item> \<open>Mods\<close> (\<open>mods/\<close>): publication as a whole or not at all, readers of the configuration, names.
    \<open>ModOrder\<close>: the declared dependencies, and that they can be started in order.
  \<^item> \<open>StatsLog\<close>, \<open>StatsLogProps\<close>, \<open>StatsLogLife\<close> (\<open>statslog/\<close>): providers, windows, one flush, and the shutdown of its
    goroutines as an inductive step relation. \<open>OpsMod\<close> (\<open>ops/\<close>): health, readiness, metrics, the admin endpoint.
  \<^item> \<open>EngineMods\<close>, \<open>EngineModsProps\<close> (\<open>dataengine/\<close>, \<open>nest/\<close>): the gate in front of a commit and the latch of a fatal
    storage outcome. \<open>Connections\<close>, \<open>NatsMod\<close>, \<open>RoomMod\<close>, \<open>SagaMod\<close>, \<open>RemoteEntityMod\<close>, \<open>SmallMods\<close>: the Mods
    of redis, mongo, etcd, nats, room, saga, remoteentity, configdata, manager and lock. \<open>ConnectionProps\<close>: the
    contract of a stop that gives a connection back, a locale interpreted on four of them.

  \<^bold>\<open>Bounds and loops.\<close> Every loop of the code is recursion that Isabelle proves total: over a list it walks (pages,
  candidates, handler tables), or over the bound the code has (\<open>Submit\<close> gives up after eight attempts, a byte count
  passes through five units, a page has at most the capped limit). The loops of the server processes, which
  run until the process ends, are recursion over the events their \<open>select\<close> receives. The shutdown of the
  statistics log has a measure of at most five steps from any state where it has been asked to stop.

  \<^bold>\<open>Not modelled.\<close>
  \<^item> Logging, the texts and chains of errors, log fields, and counters of \<open>servicemetrics\<close> beyond the number of increments.
  \<^item> Contexts, timeouts and the pauses between retries: a timeout is a failure that a store or a collaborator may
    answer at any time.
  \<^item> Concurrency inside one handler: between two store operations anything others may have committed is allowed
    (\<open>R\<close>), but a handler itself is sequential, as in the code. Mutexes of the Mods guard single steps and are not
    represented.
  \<^item> Defensive copies are the identity, since values here are immutable; the order of iteration over a Go map is
    that of the list that represents it, and no property depends on it.
  \<^item> The float division of \<open>WindowSeconds\<close> by a second (the window is kept in nanoseconds), and the moment at which the
    callback of \<open>admitToWindow\<close> reads the clock: the model reads it once, before the update, so that a callback
    that runs again sees the same time.
  \<^item> The pending index of \<open>RedisOrders\<close> is on the state of the collaborators: the store writes record and index in one
    script, which is the code of the script and not of Go.
  \<^item> \<open>manager\<close> and \<open>lock\<close> forward to roost-core and have little of their own; the \<open>alias.go\<close> files rename types of
    roost-core; \<open>servicemetrics\<close> declares counters; \<open>service/examples\<close> and \<open>service/integration\<close> are demonstrations.
\<close>

end
